(* ===== verification/Prelude.thy ===== *)
theory Prelude
  imports Complex_Main "HOL-Library.Monad_Syntax" "HOL-Library.Char_ord"
begin

text \<open>
  Shared vocabulary of the development: Python errors as values of a sum type, the lemma
  collections the component theories fill, the string methods the sources call, and the
  list operations that stand for the query sets of the object-relational mapper.

  A database table is a list of rows in the order of creation. \<open>filter\<close> of a query set is
  \<^const>\<open>filter\<close>, \<open>.first()\<close> is \<open>first_row\<close>, \<open>.exists()\<close> is \<^const>\<open>list_ex\<close>, \<open>.update(...)\<close> on a
  filtered query set is \<open>update_where\<close>, and \<open>.delete()\<close> is a filter with the negated condition.
\<close>

named_theorems py_simps \<open>unfolding rules for the modelled Python primitives\<close>
named_theorems inv_intros \<open>introduction rules for component invariants\<close>
named_theorems frame_simps \<open>what an operation leaves unchanged\<close>

text \<open>Primary keys (UUIDs) are numbers, drawn from a counter; points in time are seconds.\<close>

type_synonym uid = nat
type_synonym instant = int

section \<open>Errors as values\<close>

text \<open>
  A formatted message (an f-string) is kept as its template, with \<open>{}\<close> for the holes, and the
  list of values put into the holes.
\<close>

datatype msg_arg = ADec rat | AInt int | AStr string

datatype py_error =
    ValueError string "msg_arg list"
  | DoesNotExist string
  | IntegrityError string
  | KeyError string
  | InvalidOperation
  | OverflowError
  | AttributeError string

type_synonym 'a res = "py_error + 'a"

abbreviation raise_value :: "string \<Rightarrow> 'a res" where
  "raise_value s \<equiv> Inl (ValueError s [])"

definition bind_res :: "'a res \<Rightarrow> ('a \<Rightarrow> 'b res) \<Rightarrow> 'b res" where
  "bind_res x f = (case x of Inl e \<Rightarrow> Inl e | Inr v \<Rightarrow> f v)"

lemma bind_res_simps [simp]:
  "bind_res (Inl e) f = Inl e"
  "bind_res (Inr v) f = f v"
  by (simp_all add: bind_res_def)

lemma bind_res_eq_Inr [simp]:
  "bind_res x f = Inr w \<longleftrightarrow> (\<exists>v. x = Inr v \<and> f v = Inr w)"
  by (cases x) simp_all

lemma bind_res_eq_Inl:
  "bind_res x f = Inl e \<longleftrightarrow> x = Inl e \<or> (\<exists>v. x = Inr v \<and> f v = Inl e)"
  by (cases x) simp_all

lemma bind_res_assoc: "bind_res (bind_res x f) g = bind_res x (\<lambda>v. bind_res (f v) g)"
  by (cases x) simp_all

text \<open>\<open>guard_res b e\<close> is \<open>if b: raise e\<close>.\<close>

definition guard_res :: "bool \<Rightarrow> py_error \<Rightarrow> unit res" where
  "guard_res b e = (if b then Inl e else Inr ())"

lemma guard_res_Inr [simp]: "guard_res b e = Inr u \<longleftrightarrow> \<not> b"
  by (simp add: guard_res_def)

lemma guard_res_Inl [simp]: "guard_res b e = Inl e' \<longleftrightarrow> b \<and> e' = e"
  by (auto simp: guard_res_def)

definition is_ok :: "'a res \<Rightarrow> bool" where
  "is_ok x = (case x of Inl _ \<Rightarrow> False | Inr _ \<Rightarrow> True)"

lemma is_ok_simps [simp]: "is_ok (Inr v)" "\<not> is_ok (Inl e)"
  by (simp_all add: is_ok_def)

text \<open>A \<open>for\<close> loop whose body may raise: the first error stops it.\<close>

fun fold_res :: "('a \<Rightarrow> 's \<Rightarrow> 's res) \<Rightarrow> 'a list \<Rightarrow> 's \<Rightarrow> 's res" where
  "fold_res f [] s = Inr s"
| "fold_res f (x # xs) s = bind_res (f x s) (fold_res f xs)"

lemma fold_res_invariant:
  assumes "fold_res f xs s = Inr t" and "P s"
    and "\<And>x s t. x \<in> set xs \<Longrightarrow> P s \<Longrightarrow> f x s = Inr t \<Longrightarrow> P t"
  shows "P t"
  using assms
proof (induction xs arbitrary: s)
  case Nil
  then show ?case by simp
next
  case (Cons x xs)
  from Cons.prems(1) obtain u where u: "f x s = Inr u" "fold_res f xs u = Inr t"
    by auto
  with Cons.prems(2,3) have "P u" by (meson list.set_intros(1))
  with u(2) Cons.prems(3) show ?case
    by (intro Cons.IH [of u]) auto
qed

text \<open>A list comprehension or a creating loop whose body may raise.\<close>

fun map_res :: "('a \<Rightarrow> 'b res) \<Rightarrow> 'a list \<Rightarrow> 'b list res" where
  "map_res f [] = Inr []"
| "map_res f (x # xs) = bind_res (f x) (\<lambda>y. bind_res (map_res f xs) (\<lambda>ys. Inr (y # ys)))"

lemma map_res_Inr: "map_res f xs = Inr ys \<Longrightarrow> list_all2 (\<lambda>x y. f x = Inr y) xs ys"
  by (induction xs arbitrary: ys) auto

lemma map_res_length: "map_res f xs = Inr ys \<Longrightarrow> length ys = length xs"
  by (auto dest!: map_res_Inr dest: list_all2_lengthD)

lemma map_res_mem: "map_res f xs = Inr ys \<Longrightarrow> y \<in> set ys \<Longrightarrow> \<exists>x \<in> set xs. f x = Inr y"
proof (induction xs arbitrary: ys)
  case (Cons x xs)
  then obtain z zs where "f x = Inr z" "map_res f xs = Inr zs" "ys = z # zs" by auto
  with Cons.IH [of zs] Cons.prems(2) show ?case by auto
qed simp

section \<open>Rows of a table\<close>

definition first_row :: "('a \<Rightarrow> bool) \<Rightarrow> 'a list \<Rightarrow> 'a option" where
  "first_row P xs = List.find P xs"

lemma first_row_Nil [simp]: "first_row P [] = None"
  by (simp add: first_row_def)

lemma first_row_Cons [simp]:
  "first_row P (x # xs) = (if P x then Some x else first_row P xs)"
  by (simp add: first_row_def)

lemma first_row_SomeD: "first_row P xs = Some x \<Longrightarrow> x \<in> set xs \<and> P x"
  by (induction xs) (auto split: if_splits)

lemma first_row_None_iff: "first_row P xs = None \<longleftrightarrow> (\<forall>x\<in>set xs. \<not> P x)"
  by (induction xs) auto

lemma first_row_append:
  "first_row P (xs @ ys) = (case first_row P xs of None \<Rightarrow> first_row P ys | Some x \<Rightarrow> Some x)"
  by (induction xs) auto

definition update_where :: "('a \<Rightarrow> bool) \<Rightarrow> ('a \<Rightarrow> 'a) \<Rightarrow> 'a list \<Rightarrow> 'a list" where
  "update_where P f xs = map (\<lambda>x. if P x then f x else x) xs"

lemma update_where_Nil [simp]: "update_where P f [] = []"
  by (simp add: update_where_def)

lemma update_where_Cons [simp]:
  "update_where P f (x # xs) = (if P x then f x else x) # update_where P f xs"
  by (simp add: update_where_def)

lemma update_where_append [simp]:
  "update_where P f (xs @ ys) = update_where P f xs @ update_where P f ys"
  by (simp add: update_where_def)

lemma length_update_where [simp]: "length (update_where P f xs) = length xs"
  by (simp add: update_where_def)

lemma set_update_where:
  "set (update_where P f xs) = (\<lambda>x. if P x then f x else x) ` set xs"
  by (simp add: update_where_def)

lemma mem_update_whereE:
  assumes "y \<in> set (update_where P f xs)"
  obtains x where "x \<in> set xs" "P x" "y = f x" | "y \<in> set xs" "\<not> P y"
  using assms by (auto simp: set_update_where split: if_splits)

lemma map_update_where_frame:
  "(\<And>x. P x \<Longrightarrow> g (f x) = g x) \<Longrightarrow> map g (update_where P f xs) = map g xs"
  by (simp add: update_where_def)

lemma update_where_none:
  "(\<And>x. x \<in> set xs \<Longrightarrow> \<not> P x) \<Longrightarrow> update_where P f xs = xs"
  by (induction xs) auto

lemma filter_update_where_other:
  "(\<And>x. P x \<Longrightarrow> \<not> Q x \<and> \<not> Q (f x)) \<Longrightarrow> filter Q (update_where P f xs) = filter Q xs"
  by (induction xs) auto

text \<open>
  \<open>order_by\<close> is a stable sort on a key, which is what \<^const>\<open>sort_key\<close> is; rows with equal keys
  stay in creation order.
\<close>

lemma set_sort_key_filter [simp]: "set (sort_key k (filter P xs)) = {x \<in> set xs. P x}"
  by auto

section \<open>Strings\<close>

text \<open>
  The Python string methods the sources use, on ASCII text (a \<^typ>\<open>string\<close> is a list of bytes).
\<close>

definition is_space :: "char \<Rightarrow> bool" where
  "is_space c = (let n = (of_char c :: nat) in n = 32 \<or> (9 \<le> n \<and> n \<le> 13) \<or> (28 \<le> n \<and> n \<le> 31))"

definition py_strip :: "string \<Rightarrow> string" where
  "py_strip s = rev (dropWhile is_space (rev (dropWhile is_space s)))"

definition upper_char :: "char \<Rightarrow> char" where
  "upper_char c = (let n = (of_char c :: nat) in if 97 \<le> n \<and> n \<le> 122 then char_of (n - 32) else c)"

definition lower_char :: "char \<Rightarrow> char" where
  "lower_char c = (let n = (of_char c :: nat) in if 65 \<le> n \<and> n \<le> 90 then char_of (n + 32) else c)"

definition py_upper :: "string \<Rightarrow> string" where
  "py_upper = map upper_char"

definition py_lower :: "string \<Rightarrow> string" where
  "py_lower = map lower_char"

lemma upper_char_idem [simp]: "upper_char (upper_char c) = upper_char c"
proof -
  have "(of_char c :: nat) < 256" by simp
  then show ?thesis
    by (auto simp: upper_char_def Let_def)
qed

lemma py_upper_idem [simp]: "py_upper (py_upper s) = py_upper s"
  by (induction s) (simp_all add: py_upper_def)

lemma py_upper_Nil [simp]: "py_upper [] = []" "py_strip [] = []" "py_lower [] = []"
  by (simp_all add: py_upper_def py_strip_def py_lower_def)

text \<open>\<open>value or default\<close> on an optional value.\<close>

definition or_else :: "'a option \<Rightarrow> 'a \<Rightarrow> 'a" where
  "or_else x d = (case x of None \<Rightarrow> d | Some v \<Rightarrow> v)"

lemma or_else_simps [simp]: "or_else None d = d" "or_else (Some v) d = v"
  by (simp_all add: or_else_def)

end
