(* ===== verification/Decimal.thy ===== *)
theory Decimal
  imports Prelude
begin

text \<open>
  Python's \<open>decimal.Decimal\<close> on finite values. A Decimal is the rational number it denotes.
  \<open>quantize2 x\<close> is \<open>x.quantize(Decimal('0.01'))\<close> under the default rounding ROUND_HALF_EVEN.
  \<open>dec_ctx x\<close> is the rounding of an exact result to the 28 significant digits of the default
  context, which every Decimal operation performs; \<open>dmul\<close> and \<open>ddiv\<close> write it out. Sums and
  differences of amounts with two decimal places are exact as long as they stay below
  \<open>10 ^ 26\<close> (lemma \<open>money_dec_ctx\<close>); the amounts of the program are columns of at most 14
  digits, so \<open>+\<close> and \<open>-\<close> are written as they are.
\<close>

section \<open>Rounding half to even\<close>

definition round_half_even :: "rat \<Rightarrow> int" where
  "round_half_even x =
     (let f = \<lfloor>x\<rfloor>; d = x - of_int f
      in if d < 1 / 2 then f else if d > 1 / 2 then f + 1 else if even f then f else f + 1)"

lemma round_half_even_of_int [simp]: "round_half_even (of_int n) = n"
  by (simp add: round_half_even_def)

lemma round_half_even_numeral [simp]:
  "round_half_even (numeral k) = numeral k" "round_half_even (- numeral k) = - numeral k"
  "round_half_even 0 = 0" "round_half_even 1 = 1"
  using round_half_even_of_int [of "numeral k"] round_half_even_of_int [of "- numeral k"]
    round_half_even_of_int [of 0] round_half_even_of_int [of 1]
  by simp_all

lemma round_half_even_bounds:
  "of_int (round_half_even x) \<le> x + 1 / 2" "x - 1 / 2 \<le> of_int (round_half_even x)"
  by (auto simp: round_half_even_def Let_def) linarith+

lemma round_half_even_mono:
  assumes "x \<le> y"
  shows "round_half_even x \<le> round_half_even y"
proof (cases "\<lfloor>x\<rfloor> = \<lfloor>y\<rfloor>")
  case True
  with assms show ?thesis by (auto simp: round_half_even_def Let_def)
next
  case False
  with assms have "\<lfloor>x\<rfloor> + 1 \<le> \<lfloor>y\<rfloor>"
    using floor_mono [OF assms] by linarith
  moreover have "round_half_even x \<le> \<lfloor>x\<rfloor> + 1" "\<lfloor>y\<rfloor> \<le> round_half_even y"
    by (auto simp: round_half_even_def Let_def)
  ultimately show ?thesis by linarith
qed

lemma round_half_even_minus: "round_half_even (- x) = - round_half_even x"
proof (cases "x = of_int \<lfloor>x\<rfloor>")
  case True
  then show ?thesis by (metis of_int_minus round_half_even_of_int)
next
  case False
  have "\<lfloor>- x\<rfloor> = - \<lfloor>x\<rfloor> - 1"
    using False by (intro floor_unique) (simp_all, linarith+)
  then show ?thesis
    by (auto simp: round_half_even_def Let_def)
qed

section \<open>A rounding function\<close>

text \<open>
  What the monetary computations rely on: a rounding is monotone, keeps zero, and keeps the
  values it produces. Every fact about rounded sums, minima and bounds is proved from these.
\<close>

locale rounding =
  fixes rnd :: "rat \<Rightarrow> rat"
  assumes rnd_mono: "x \<le> y \<Longrightarrow> rnd x \<le> rnd y"
    and rnd_idem: "rnd (rnd x) = rnd x"
    and rnd_zero: "rnd 0 = 0"
begin

lemma rnd_nonneg: "0 \<le> x \<Longrightarrow> 0 \<le> rnd x"
  using rnd_mono [of 0 x] by (simp add: rnd_zero)

lemma rnd_nonpos: "x \<le> 0 \<Longrightarrow> rnd x \<le> 0"
  using rnd_mono [of x 0] by (simp add: rnd_zero)

lemma rnd_le_fixed: "x \<le> y \<Longrightarrow> rnd y = y \<Longrightarrow> rnd x \<le> y"
  using rnd_mono [of x y] by simp

lemma fixed_le_rnd: "y \<le> x \<Longrightarrow> rnd y = y \<Longrightarrow> y \<le> rnd x"
  using rnd_mono [of y x] by simp

lemma rnd_min: "rnd (min x y) = min (rnd x) (rnd y)"
  using rnd_mono [of x y] rnd_mono [of y x] by (cases "x \<le> y") (auto simp: min_def)

lemma rnd_max: "rnd (max x y) = max (rnd x) (rnd y)"
  using rnd_mono [of x y] rnd_mono [of y x] by (cases "x \<le> y") (auto simp: max_def)

end

section \<open>Quantising to two places\<close>

definition quantize2 :: "rat \<Rightarrow> rat" where
  "quantize2 x = of_int (round_half_even (x * 100)) / 100"

definition money :: "rat \<Rightarrow> bool" where
  "money x = (x * 100 \<in> \<int>)"

lemma money_code [code]: "money x = (snd (quotient_of (x * 100)) = 1)"
proof -
  obtain p q where pq: "quotient_of (x * 100) = (p, q)" by (cases "quotient_of (x * 100)")
  then have q: "q > 0" "x * 100 = of_int p / of_int q" "coprime p q"
    using quotient_of_denom_pos quotient_of_div quotient_of_coprime by blast+
  show ?thesis
  proof
    assume "money x"
    then obtain n where "x * 100 = of_int n" by (auto simp: money_def Ints_def)
    then show "snd (quotient_of (x * 100)) = 1" by simp
  next
    assume "snd (quotient_of (x * 100)) = 1"
    with pq q(2) show "money x" by (simp add: money_def)
  qed
qed

interpretation quant: rounding quantize2
proof
  fix x y :: rat
  assume "x \<le> y"
  then show "quantize2 x \<le> quantize2 y"
    unfolding quantize2_def by (simp add: divide_right_mono round_half_even_mono)
qed (simp_all add: quantize2_def round_half_even_def)

lemma quantize2_money [simp]: "money x \<Longrightarrow> quantize2 x = x"
  by (auto simp: money_def quantize2_def Ints_def)

lemma money_quantize2 [simp, intro]: "money (quantize2 x)"
  by (simp add: money_def quantize2_def)

lemma quantize2_eq_iff: "quantize2 x = x \<longleftrightarrow> money x"
  by (metis money_quantize2 quantize2_money)

lemma money_closed [simp, intro]:
  "money 0"
  "money x \<Longrightarrow> money y \<Longrightarrow> money (x + y)"
  "money x \<Longrightarrow> money y \<Longrightarrow> money (x - y)"
  "money x \<Longrightarrow> money (- x)"
  "money x \<Longrightarrow> money y \<Longrightarrow> money (min x y)"
  "money x \<Longrightarrow> money y \<Longrightarrow> money (max x y)"
  by (auto simp: money_def algebra_simps min_def max_def)

lemma money_of_int [simp]: "money (of_int n)" "money (numeral k)" "money 1"
  by (simp_all add: money_def)

lemma money_sum_list: "(\<And>x. x \<in> set xs \<Longrightarrow> money x) \<Longrightarrow> money (sum_list xs)"
  by (induction xs) auto

lemma quantize2_error: "\<bar>quantize2 x - x\<bar> \<le> 1 / 200"
proof -
  have "of_int (round_half_even (x * 100)) \<le> x * 100 + 1 / 2"
    "x * 100 - 1 / 2 \<le> of_int (round_half_even (x * 100))"
    by (rule round_half_even_bounds)+
  then have "\<bar>of_int (round_half_even (x * 100)) - x * 100\<bar> \<le> 1 / 2" by linarith
  then show ?thesis unfolding quantize2_def abs_le_iff by (simp add: abs_le_iff)
qed

lemma quantize2_minus: "quantize2 (- x) = - quantize2 x"
  by (simp add: quantize2_def round_half_even_minus)

lemma quantize2_zero [simp]: "quantize2 0 = 0"
  by (rule quant.rnd_zero)

section \<open>Rounding to 28 significant digits\<close>

fun ndigits :: "int \<Rightarrow> nat" where
  "ndigits n = (if n < 10 then 1 else Suc (ndigits (n div 10)))"

declare ndigits.simps [simp del]

lemma ndigits_bounds: "0 < n \<Longrightarrow> 10 ^ (ndigits n - 1) \<le> n \<and> n < 10 ^ ndigits n"
proof (induction n rule: ndigits.induct)
  case (1 n)
  show ?case
  proof (cases "n < 10")
    case True
    with "1.prems" show ?thesis by (simp add: ndigits.simps [of n])
  next
    case False
    then have IH: "10 ^ (ndigits (n div 10) - 1) \<le> n div 10" "n div 10 < 10 ^ ndigits (n div 10)"
      using "1.IH" by (auto simp: pos_imp_zdiv_pos_iff)
    obtain d where d: "ndigits (n div 10) = Suc d"
      by (metis ndigits.simps One_nat_def)
    have "(10::int) ^ d \<le> n div 10" "n div 10 < 10 * 10 ^ d" using IH d by simp_all
    then have "10 * 10 ^ d \<le> n" "n < 10 * (10 * 10 ^ d)" by linarith+
    with False d show ?thesis by (simp add: ndigits.simps [of n])
  qed
qed

text \<open>The exponent of the leading digit: \<open>10 ^ dec_exp x \<le> \<bar>x\<bar> < 10 ^ (dec_exp x + 1)\<close>.\<close>

definition dec_exp :: "rat \<Rightarrow> int" where
  "dec_exp x =
     (let (p, q) = quotient_of \<bar>x\<bar>; e = int (ndigits p) - int (ndigits q)
      in if \<bar>x\<bar> < 10 powi e then e - 1 else e)"

lemma powi_of_nat_diff: "(10::rat) powi (int m - int n) = 10 ^ m / 10 ^ n"
  by (simp add: power_int_diff)

lemma dec_exp_bounds:
  assumes "x \<noteq> 0"
  shows "10 powi dec_exp x \<le> \<bar>x\<bar>" "\<bar>x\<bar> < 10 powi (dec_exp x + 1)"
proof -
  obtain p q where pq: "quotient_of \<bar>x\<bar> = (p, q)" by (cases "quotient_of \<bar>x\<bar>")
  then have q: "q > 0" and x: "\<bar>x\<bar> = of_int p / of_int q"
    using quotient_of_denom_pos quotient_of_div by blast+
  from assms x q have p: "p > 0"
    by (metis abs_of_nonneg divide_nonpos_pos of_int_0_less_iff of_int_le_0_iff not_less
        abs_ge_zero zero_less_abs_iff)
  let ?m = "ndigits p" and ?n = "ndigits q"
  obtain m where m: "?m = Suc m" by (metis ndigits.simps One_nat_def)
  obtain n where n: "?n = Suc n" by (metis ndigits.simps One_nat_def)
  have P: "(10::int) ^ m \<le> p" "p < 10 ^ Suc m" using ndigits_bounds [OF p] m by auto
  have Q: "(10::int) ^ n \<le> q" "q < 10 ^ Suc n" using ndigits_bounds [OF q] n by auto
  have P': "(10::rat) ^ m \<le> of_int p" "of_int p < (10::rat) ^ Suc m"
    using P by (metis of_int_le_iff of_int_numeral of_int_power, metis P(2) of_int_less_iff of_int_numeral of_int_power)
  have Q': "(10::rat) ^ n \<le> of_int q" "of_int q < (10::rat) ^ Suc n"
    using Q by (metis of_int_le_iff of_int_numeral of_int_power, metis Q(2) of_int_less_iff of_int_numeral of_int_power)
  have e: "int ?m - int ?n = int m - int n" by (simp add: m n)
  have upper: "\<bar>x\<bar> < 10 powi (int m - int n + 1)"
  proof -
    have "\<bar>x\<bar> < 10 ^ Suc m / 10 ^ n"
      unfolding x using P' Q' q p by (intro frac_less) auto
    also have "\<dots> = 10 powi (int m - int n + 1)"
      using powi_of_nat_diff [of "Suc m" n] by (simp add: algebra_simps)
    finally show ?thesis .
  qed
  have lower: "10 powi (int m - int n - 1) \<le> \<bar>x\<bar>"
  proof -
    have "10 powi (int m - int n - 1) = (10::rat) ^ m / 10 ^ Suc n"
      using powi_of_nat_diff [of m "Suc n"] by (simp add: algebra_simps)
    also have "\<dots> \<le> \<bar>x\<bar>"
      unfolding x using P' Q' q p by (intro frac_le) auto
    finally show ?thesis .
  qed
  show "10 powi dec_exp x \<le> \<bar>x\<bar>" "\<bar>x\<bar> < 10 powi (dec_exp x + 1)"
    using upper lower by (auto simp: dec_exp_def pq e Let_def)
qed

lemma dec_exp_minus [simp]: "dec_exp (- x) = dec_exp x"
  by (simp add: dec_exp_def)

lemma dec_exp_less: "x \<noteq> 0 \<Longrightarrow> \<bar>x\<bar> < 10 powi e \<Longrightarrow> dec_exp x < e"
  using dec_exp_bounds(1) [of x] power_int_increasing [of e "dec_exp x" "10::rat"]
  by (meson dual_order.strict_trans1 leD not_less one_le_numeral order.trans)

lemma dec_exp_mono: "0 < x \<Longrightarrow> x \<le> y \<Longrightarrow> dec_exp x \<le> dec_exp y"
  using dec_exp_less [of x "dec_exp y + 1"] dec_exp_bounds(2) [of y] by auto

definition dec_ctx :: "rat \<Rightarrow> rat" where
  "dec_ctx x =
     (if x = 0 then 0
      else let s = 10 powi (dec_exp x - 27) in of_int (round_half_even (x / s)) * s)"

definition dmul :: "rat \<Rightarrow> rat \<Rightarrow> rat" where
  "dmul a b = dec_ctx (a * b)"

definition ddiv :: "rat \<Rightarrow> rat \<Rightarrow> rat" where
  "ddiv a b = dec_ctx (a / b)"

lemma dec_ctx_minus: "dec_ctx (- x) = - dec_ctx x"
  by (simp add: dec_ctx_def Let_def round_half_even_minus)

lemma dec_ctx_zero [simp]: "dec_ctx 0 = 0"
  by (simp add: dec_ctx_def)

text \<open>A value with at most 28 significant digits is kept.\<close>

lemma dec_ctx_representable:
  assumes x: "x = of_int n * 10 powi k" and n: "\<bar>n\<bar> \<le> 10 ^ 28"
  shows "dec_ctx x = x"
proof (cases "x = 0")
  case False
  let ?e = "dec_exp x"
  have le: "\<bar>x\<bar> \<le> 10 powi (k + 28)"
  proof -
    have "\<bar>of_int n :: rat\<bar> \<le> 10 ^ 28"
      using n by (metis of_int_abs of_int_le_iff of_int_numeral of_int_power)
    then have "\<bar>x\<bar> \<le> 10 ^ 28 * 10 powi k"
      by (simp add: x abs_mult mult_right_mono)
    also have "\<dots> = 10 powi (k + 28)" by (simp add: power_int_add)
    finally show ?thesis .
  qed
  have key: "of_int (round_half_even (x / 10 powi s)) * 10 powi s = x"
    if "x = of_int m * 10 powi t" "s \<le> t" for m s t
  proof -
    have "x / 10 powi s = of_int m * 10 powi (t - s)"
      using that(1) by (simp add: power_int_diff)
    also have "\<dots> = of_int (m * 10 ^ nat (t - s))"
      using that(2) by (simp add: power_int_def)
    finally show ?thesis by (metis eq_divide_imp nonzero_eq_divide_eq
          power_int_eq_0_iff round_half_even_of_int zero_neq_numeral)
  qed
  show ?thesis
  proof (cases "\<bar>x\<bar> = 10 powi (k + 28)")
    case True
    then have e: "?e \<le> k + 28"
      using dec_exp_less [of x "k + 29"] False by (simp add: power_int_strict_increasing)
    from True have "x = of_int (sgn n) * 10 powi (k + 28)"
      using x by (cases n "0::int" rule: linorder_cases) (auto simp: abs_mult mult_less_0_iff)
    from key [OF this, of "?e - 27"] e False show ?thesis
      by (simp add: dec_ctx_def Let_def)
  next
    case neq: False
    with le have "?e < k + 28" using dec_exp_less [of x "k + 28"] False by simp
    with key [OF x, of "?e - 27"] False show ?thesis by (simp add: dec_ctx_def Let_def)
  qed
qed simp

lemma dec_ctx_power: "dec_ctx (10 powi e) = 10 powi e"
  by (rule dec_ctx_representable [of _ 1 e]) simp_all

lemma dec_ctx_scaled:
  assumes "x \<noteq> 0"
  shows "\<bar>round_half_even (x / 10 powi (dec_exp x - 27))\<bar> \<le> 10 ^ 28"
proof -
  let ?s = "10 powi (dec_exp x - 27) :: rat"
  have s: "0 < ?s" by simp
  have "\<bar>x / ?s\<bar> \<le> 10 powi (dec_exp x + 1) / ?s"
    using dec_exp_bounds(2) [OF assms] by (simp add: abs_divide divide_right_mono)
  also have "\<dots> = of_int (10 ^ 28)"
    by (simp add: power_int_diff [symmetric])
  finally have le: "x / ?s \<le> of_int (10 ^ 28)" "- of_int (10 ^ 28) \<le> x / ?s"
    by linarith+
  have "round_half_even (x / ?s) \<le> 10 ^ 28"
    using round_half_even_mono [OF le(1)] by simp
  moreover have "- (10 ^ 28) \<le> round_half_even (x / ?s)"
    using round_half_even_mono [OF le(2)] by (metis of_int_minus round_half_even_of_int)
  ultimately show ?thesis by simp
qed

lemma dec_ctx_idem: "dec_ctx (dec_ctx x) = dec_ctx x"
proof (cases "x = 0")
  case False
  then show ?thesis
    by (intro dec_ctx_representable [of _ _ "dec_exp x - 27", OF _ dec_ctx_scaled [OF False]])
      (simp add: dec_ctx_def Let_def)
qed simp

lemma dec_ctx_same_exp:
  assumes "x \<le> y" "x \<noteq> 0" "y \<noteq> 0" "dec_exp x = dec_exp y"
  shows "dec_ctx x \<le> dec_ctx y"
  using assms
  by (simp add: dec_ctx_def Let_def mult_right_mono round_half_even_mono divide_right_mono)

lemma dec_ctx_bounds:
  assumes "0 < x"
  shows "10 powi dec_exp x \<le> dec_ctx x" "dec_ctx x \<le> 10 powi (dec_exp x + 1)"
proof -
  let ?s = "10 powi (dec_exp x - 27) :: rat"
  have le: "of_int (10 ^ 27) \<le> x / ?s"
    using dec_exp_bounds(1) [of x] assms by (simp add: power_int_diff field_simps)
  have "10 ^ 27 \<le> round_half_even (x / ?s)"
    using round_half_even_mono [OF le] by simp
  then have "of_int (10 ^ 27) * ?s \<le> of_int (round_half_even (x / ?s)) * ?s"
    by (intro mult_right_mono) (metis of_int_le_iff, simp)
  with assms show "10 powi dec_exp x \<le> dec_ctx x"
    by (simp add: dec_ctx_def Let_def power_int_diff)
  have "round_half_even (x / ?s) \<le> 10 ^ 28"
    using dec_ctx_scaled [of x] assms by simp
  then have "of_int (round_half_even (x / ?s)) * ?s \<le> of_int (10 ^ 28) * ?s"
    by (intro mult_right_mono) (metis of_int_le_iff, simp)
  with assms show "dec_ctx x \<le> 10 powi (dec_exp x + 1)"
    by (simp add: dec_ctx_def Let_def power_int_diff power_int_add)
qed

lemma dec_ctx_mono_pos:
  assumes "0 < x" "x \<le> y"
  shows "dec_ctx x \<le> dec_ctx y"
proof (cases "dec_exp x = dec_exp y")
  case True
  with assms show ?thesis by (intro dec_ctx_same_exp) auto
next
  case False
  with dec_exp_mono [OF assms] have "dec_exp x + 1 \<le> dec_exp y" by simp
  then have "(10::rat) powi (dec_exp x + 1) \<le> 10 powi dec_exp y"
    by (intro power_int_increasing) auto
  with dec_ctx_bounds(2) [of x] dec_ctx_bounds(1) [of y] assms show ?thesis by simp
qed

lemma dec_ctx_nonneg_aux: "0 < x \<Longrightarrow> 0 < dec_ctx x"
  using dec_ctx_bounds(1) [of x] by (meson less_le_trans zero_less_power_int zero_less_numeral)

lemma dec_ctx_mono: "x \<le> y \<Longrightarrow> dec_ctx x \<le> dec_ctx y"
proof -
  assume le: "x \<le> y"
  consider "0 < x" | "x \<le> 0" "0 \<le> y" | "y < 0" by linarith
  then show ?thesis
  proof cases
    case 1
    then show ?thesis using le by (rule dec_ctx_mono_pos)
  next
    case 2
    have "dec_ctx x \<le> 0"
      using dec_ctx_nonneg_aux [of "- x"] 2 by (cases "x = 0") (auto simp: dec_ctx_minus)
    moreover have "0 \<le> dec_ctx y"
      using dec_ctx_nonneg_aux [of y] 2 by (cases "y = 0") auto
    ultimately show ?thesis by simp
  next
    case 3
    with dec_ctx_mono_pos [of "- y" "- x"] le show ?thesis by (simp add: dec_ctx_minus)
  qed
qed

interpretation ctx: rounding dec_ctx
  by unfold_locales (simp_all add: dec_ctx_mono dec_ctx_idem)

text \<open>An amount with two places below \<open>10 ^ 26\<close> is exact in the default context.\<close>

lemma money_dec_ctx:
  assumes "money x" "\<bar>x\<bar> < 10 ^ 26"
  shows "dec_ctx x = x"
proof -
  from assms(1) obtain n where n: "x * 100 = of_int n" by (auto simp: money_def Ints_def)
  have "of_int \<bar>n\<bar> = \<bar>x\<bar> * 100" using n by (metis abs_mult abs_numeral of_int_abs)
  also have "\<dots> \<le> of_int (10 ^ 28)" using assms(2) by simp
  finally have "\<bar>n\<bar> \<le> 10 ^ 28" by (simp only: of_int_le_iff)
  moreover have "x = of_int n * 10 powi (- 2)"
    using n by (simp add: power_int_def field_simps)
  ultimately show ?thesis by (rule dec_ctx_representable [rotated])
qed

lemma dmul_nonneg: "0 \<le> a \<Longrightarrow> 0 \<le> b \<Longrightarrow> 0 \<le> dmul a b"
  by (simp add: dmul_def ctx.rnd_nonneg)

lemma ddiv_nonneg: "0 \<le> a \<Longrightarrow> 0 \<le> b \<Longrightarrow> 0 \<le> ddiv a b"
  by (simp add: ddiv_def ctx.rnd_nonneg)

lemma dmul_mono: "0 \<le> b \<Longrightarrow> a \<le> a' \<Longrightarrow> dmul a b \<le> dmul a' b"
  by (simp add: dmul_def dec_ctx_mono mult_right_mono)

lemma ddiv_mono: "0 \<le> b \<Longrightarrow> a \<le> a' \<Longrightarrow> ddiv a b \<le> ddiv a' b"
  by (simp add: ddiv_def dec_ctx_mono divide_right_mono)

lemma dmul_zero [simp]: "dmul 0 b = 0" "dmul a 0 = 0"
  by (simp_all add: dmul_def)

lemma ddiv_zero [simp]: "ddiv 0 b = 0"
  by (simp add: ddiv_def)

text \<open>\<open>quantize2\<close> of a rounded product, bounded by an amount.\<close>

lemma quantize2_dmul_le:
  "a * b \<le> y \<Longrightarrow> money y \<Longrightarrow> \<bar>y\<bar> < 10 ^ 26 \<Longrightarrow> quantize2 (dmul a b) \<le> y"
  unfolding dmul_def
  by (intro quant.rnd_le_fixed ctx.rnd_le_fixed) (simp_all add: money_dec_ctx)

lemma quantize2_ddiv_le:
  "a / b \<le> y \<Longrightarrow> money y \<Longrightarrow> \<bar>y\<bar> < 10 ^ 26 \<Longrightarrow> quantize2 (ddiv a b) \<le> y"
  unfolding ddiv_def
  by (intro quant.rnd_le_fixed ctx.rnd_le_fixed) (simp_all add: money_dec_ctx)

end
