(* ===== verification/Dates.thy ===== *)
theory Dates
  imports Prelude
begin

text \<open>
  Python's \<open>datetime.date\<close>, as far as the sources use it: the constructor with its range
  checks, the order, \<open>calendar.monthrange(y, m)[1]\<close>, the number of days between two dates and
  steps of one day (\<open>timedelta(days=1)\<close>). The upper bound \<open>MAXYEAR = 9999\<close> is part of the
  constructor.
\<close>

datatype date = Date (yr: int) (mo: int) (dy: int)

instantiation date :: linorder
begin

definition less_eq_date :: "date \<Rightarrow> date \<Rightarrow> bool" where
  "less_eq_date a b =
     (yr a < yr b \<or> yr a = yr b \<and> (mo a < mo b \<or> mo a = mo b \<and> dy a \<le> dy b))"

definition less_date :: "date \<Rightarrow> date \<Rightarrow> bool" where
  "less_date a b =
     (yr a < yr b \<or> yr a = yr b \<and> (mo a < mo b \<or> mo a = mo b \<and> dy a < dy b))"

instance
  by intro_classes (auto simp: less_eq_date_def less_date_def intro: date.expand)

end

lemmas date_order_defs = less_eq_date_def less_date_def

lemma Date_le [simp]:
  "Date y m d \<le> Date y' m' d' \<longleftrightarrow> y < y' \<or> y = y' \<and> (m < m' \<or> m = m' \<and> d \<le> d')"
  by (simp add: less_eq_date_def)

lemma Date_less [simp]:
  "Date y m d < Date y' m' d' \<longleftrightarrow> y < y' \<or> y = y' \<and> (m < m' \<or> m = m' \<and> d < d')"
  by (simp add: less_date_def)

definition is_leap :: "int \<Rightarrow> bool" where
  "is_leap y = (y mod 4 = 0 \<and> (y mod 100 \<noteq> 0 \<or> y mod 400 = 0))"

definition days_in_month :: "int \<Rightarrow> int \<Rightarrow> int" where
  "days_in_month y m =
     (if m = 2 then (if is_leap y then 29 else 28)
      else if m = 4 \<or> m = 6 \<or> m = 9 \<or> m = 11 then 30 else 31)"

lemma days_in_month_bounds: "28 \<le> days_in_month y m" "days_in_month y m \<le> 31"
  by (simp_all add: days_in_month_def)

definition valid_date :: "date \<Rightarrow> bool" where
  "valid_date d =
     (1 \<le> yr d \<and> yr d \<le> 9999 \<and> 1 \<le> mo d \<and> mo d \<le> 12 \<and> 1 \<le> dy d \<and> dy d \<le> days_in_month (yr d) (mo d))"

definition mk_date :: "int \<Rightarrow> int \<Rightarrow> int \<Rightarrow> date res" where
  "mk_date y m d =
     (if valid_date (Date y m d) then Inr (Date y m d)
      else raise_value ''day is out of range for month'')"

lemma mk_date_Inr: "mk_date y m d = Inr x \<longleftrightarrow> x = Date y m d \<and> valid_date x"
  by (auto simp: mk_date_def)

section \<open>Day numbers\<close>

definition days_before_year :: "int \<Rightarrow> int" where
  "days_before_year y = (y - 1) * 365 + (y - 1) div 4 - (y - 1) div 100 + (y - 1) div 400"

definition days_before_month :: "int \<Rightarrow> int \<Rightarrow> int" where
  "days_before_month y m =
     (if m \<le> 1 then 0 else if m = 2 then 31
      else (if is_leap y then 1 else 0) +
        (if m = 3 then 59 else if m = 4 then 90 else if m = 5 then 120 else if m = 6 then 151
         else if m = 7 then 181 else if m = 8 then 212 else if m = 9 then 243
         else if m = 10 then 273 else if m = 11 then 304 else 334))"

definition toordinal :: "date \<Rightarrow> int" where
  "toordinal d = days_before_year (yr d) + days_before_month (yr d) (mo d) + dy d"

text \<open>\<open>(b - a).days\<close>\<close>

definition days_between :: "date \<Rightarrow> date \<Rightarrow> int" where
  "days_between a b = toordinal b - toordinal a"

definition year_days :: "int \<Rightarrow> int" where
  "year_days y = (if is_leap y then 366 else 365)"

lemma days_before_year_Suc: "days_before_year (y + 1) = days_before_year y + year_days y"
proof -
  have step: "y div k = (y - 1) div k + of_bool (y mod k = 0)" if "k > 0" for k :: int
  proof (cases "y mod k = 0")
    case True
    then obtain q where q: "y = k * q" by (auto elim: dvdE)
    have "(k * q - 1) div k = q - 1"
      using that by (intro int_div_pos_eq [of _ _ _ "k - 1"]) (auto simp: algebra_simps)
    with True q that show ?thesis by simp
  next
    case False
    let ?q = "y div k" and ?r = "y mod k"
    have "0 \<le> ?r" "?r < k" using that by simp_all
    with False have r: "0 \<le> ?r - 1" "?r - 1 < k" by linarith+
    have "(y - 1) div k = ?q"
      using r by (intro int_div_pos_eq [of _ _ _ "?r - 1"]) (simp_all add: minus_mod_eq_mult_div [symmetric])
    with False show ?thesis by simp
  qed
  have bools: "(if A \<and> (\<not> B \<or> C) then 366 else 365) = 365 + (of_bool A - of_bool B + of_bool C :: int)"
    if "B \<longrightarrow> A" "C \<longrightarrow> B" for A B C
    using that by (cases A; cases B; cases C) simp_all
  have imps: "y mod 100 = 0 \<longrightarrow> y mod 4 = 0" "y mod 400 = 0 \<longrightarrow> y mod 100 = 0"
    using dvd_trans [of 4 100 y] dvd_trans [of 100 400 y]
    by (simp_all add: dvd_eq_mod_eq_0 del: mod_0_imp_dvd)
  have leap: "year_days y = 365 + (of_bool (y mod 4 = 0) - of_bool (y mod 100 = 0) +
      of_bool (y mod 400 = 0))"
    unfolding year_days_def is_leap_def by (rule bools [OF imps])
  define a b c where "a = (of_bool (y mod 4 = 0) :: int)" and "b = (of_bool (y mod 100 = 0) :: int)"
    and "c = (of_bool (y mod 400 = 0) :: int)"
  have "y div 4 = (y - 1) div 4 + a" "y div 100 = (y - 1) div 100 + b"
    "y div 400 = (y - 1) div 400 + c"
    unfolding a_def b_def c_def by (rule step, simp)+
  moreover have "year_days y = 365 + (a - b + c)" using leap by (simp only: a_def b_def c_def)
  ultimately show ?thesis
    by (simp add: days_before_year_def algebra_simps)
qed

lemma month_cases:
  assumes "1 \<le> (m::int)" "m \<le> 12"
  shows "m = 1 \<or> m = 2 \<or> m = 3 \<or> m = 4 \<or> m = 5 \<or> m = 6 \<or> m = 7 \<or> m = 8 \<or> m = 9 \<or>
    m = 10 \<or> m = 11 \<or> m = 12"
  using assms by presburger

lemma days_before_month_Suc:
  "1 \<le> m \<Longrightarrow> m \<le> 11 \<Longrightarrow> days_before_month y (m + 1) = days_before_month y m + days_in_month y m"
  using month_cases [of m] by (auto simp: days_before_month_def days_in_month_def)

lemma days_before_month_12 [simp]:
  "days_before_month y 12 + 31 = year_days y"
  by (simp add: days_before_month_def year_days_def)

lemma days_before_month_1 [simp]: "days_before_month y 1 = 0"
  by (simp add: days_before_month_def)

lemma days_before_year_strict_mono: "y < y' \<Longrightarrow> days_before_year y + 365 \<le> days_before_year y'"
proof (induction y' rule: int_gr_induct [of y])
  case base
  then show ?case by (simp add: days_before_year_Suc year_days_def)
next
  case (step i)
  then show ?case by (simp add: days_before_year_Suc year_days_def)
qed

lemma days_before_year_le_next: "y < y' \<Longrightarrow> days_before_year y + year_days y \<le> days_before_year y'"
  using days_before_year_Suc [of y] days_before_year_strict_mono [of "y + 1" y']
  by (cases "y' = y + 1") auto

lemma days_before_month_mono:
  "m < m' \<Longrightarrow> 1 \<le> m \<Longrightarrow> m' \<le> 12 \<Longrightarrow> days_before_month y m + days_in_month y m \<le> days_before_month y m'"
proof (induction m' rule: int_gr_induct [of m])
  case base
  then show ?case by (simp add: days_before_month_Suc)
next
  case (step i)
  then have "days_before_month y (i + 1) = days_before_month y i + days_in_month y i"
    by (intro days_before_month_Suc) auto
  with step days_in_month_bounds(1) [of y i] show ?case by simp
qed

lemma days_before_month_total:
  "1 \<le> m \<Longrightarrow> m \<le> 12 \<Longrightarrow> days_before_month y m + days_in_month y m \<le> year_days y"
  using month_cases [of m] by (auto simp: days_before_month_def days_in_month_def year_days_def)

lemma days_before_month_nonneg: "0 \<le> days_before_month y m"
  by (simp add: days_before_month_def)

lemma toordinal_mono_less:
  assumes "valid_date a" "valid_date b" "a < b"
  shows "toordinal a < toordinal b"
proof -
  consider "yr a < yr b" | "yr a = yr b" "mo a < mo b" | "yr a = yr b" "mo a = mo b" "dy a < dy b"
    using assms(3) by (auto simp: less_date_def)
  then show ?thesis
  proof cases
    case 1
    with days_before_year_le_next [OF 1] days_before_month_total [of "mo a" "yr a"] assms(1,2)
      days_before_month_nonneg [of "yr b" "mo b"]
    show ?thesis by (simp add: toordinal_def valid_date_def)
  next
    case 2
    with days_before_month_mono [of "mo a" "mo b" "yr a"] assms(1,2)
    show ?thesis by (simp add: toordinal_def valid_date_def)
  next
    case 3
    then show ?thesis by (simp add: toordinal_def)
  qed
qed

lemma toordinal_less_iff:
  "valid_date a \<Longrightarrow> valid_date b \<Longrightarrow> toordinal a < toordinal b \<longleftrightarrow> a < b"
  using toordinal_mono_less by (metis less_asym linorder_cases order_less_irrefl)

lemma toordinal_le_iff:
  "valid_date a \<Longrightarrow> valid_date b \<Longrightarrow> toordinal a \<le> toordinal b \<longleftrightarrow> a \<le> b"
  by (meson leD leI toordinal_less_iff)

lemma toordinal_inj: "valid_date a \<Longrightarrow> valid_date b \<Longrightarrow> toordinal a = toordinal b \<Longrightarrow> a = b"
  using toordinal_less_iff by (metis linorder_cases order_less_irrefl)

lemma days_between_nonneg: "valid_date a \<Longrightarrow> valid_date b \<Longrightarrow> a \<le> b \<Longrightarrow> 0 \<le> days_between a b"
  by (simp add: days_between_def toordinal_le_iff)

section \<open>Steps of one day\<close>

definition next_day :: "date \<Rightarrow> date" where
  "next_day d =
     (if dy d < days_in_month (yr d) (mo d) then Date (yr d) (mo d) (dy d + 1)
      else if mo d < 12 then Date (yr d) (mo d + 1) 1
      else Date (yr d + 1) 1 1)"

definition prev_day :: "date \<Rightarrow> date" where
  "prev_day d =
     (if 1 < dy d then Date (yr d) (mo d) (dy d - 1)
      else if 1 < mo d then Date (yr d) (mo d - 1) (days_in_month (yr d) (mo d - 1))
      else Date (yr d - 1) 12 31)"

lemma toordinal_next_day: "valid_date d \<Longrightarrow> toordinal (next_day d) = toordinal d + 1"
  using days_before_month_Suc [of "mo d" "yr d"] days_before_year_Suc [of "yr d"]
    days_before_month_12 [of "yr d"]
  by (auto simp: next_day_def toordinal_def valid_date_def days_in_month_def year_days_def)

lemma valid_next_day:
  "valid_date d \<Longrightarrow> d < Date 9999 12 31 \<Longrightarrow> valid_date (next_day d)"
  using days_in_month_bounds [of "yr d" "mo d + 1"] days_in_month_bounds [of "yr d + 1" 1]
  by (cases d) (auto simp: next_day_def valid_date_def days_in_month_def)

lemma valid_prev_day: "valid_date d \<Longrightarrow> Date 1 1 1 < d \<Longrightarrow> valid_date (prev_day d)"
  using days_in_month_bounds [of "yr d" "mo d - 1"]
  by (cases d) (auto simp: prev_day_def valid_date_def days_in_month_def)

lemma next_prev_day: "valid_date d \<Longrightarrow> next_day (prev_day d) = d"
  by (cases d) (auto simp: next_day_def prev_day_def valid_date_def days_in_month_def)

lemma prev_next_day: "valid_date d \<Longrightarrow> prev_day (next_day d) = d"
  by (cases d) (auto simp: next_day_def prev_day_def valid_date_def days_in_month_def)

lemma toordinal_prev_day:
  "valid_date d \<Longrightarrow> Date 1 1 1 < d \<Longrightarrow> toordinal (prev_day d) = toordinal d - 1"
  using toordinal_next_day [OF valid_prev_day] next_prev_day by fastforce

text \<open>\<open>date.max\<close>: adding a day to it raises.\<close>

definition date_max :: date where
  "date_max = Date 9999 12 31"

definition following_day :: "date \<Rightarrow> date res" where
  "following_day d = (if d = date_max then Inl OverflowError else Inr (next_day d))"

lemma valid_date_le_max: "valid_date d \<Longrightarrow> d \<le> date_max"
  using days_in_month_bounds [of "yr d" "mo d"]
  by (cases d) (auto simp: date_max_def valid_date_def)

lemma following_day_Inr:
  "following_day d = Inr e \<longleftrightarrow> d \<noteq> date_max \<and> e = next_day d"
  by (auto simp: following_day_def)

lemma following_day_valid:
  assumes "valid_date d" "d \<noteq> date_max"
  shows "following_day d = Inr (next_day d)" "valid_date (next_day d)" "toordinal (next_day d) = toordinal d + 1"
  using assms valid_date_le_max [of d] valid_next_day [of d] toordinal_next_day [of d]
  by (auto simp: following_day_def date_max_def)

end
