(* ===== verification/PayrollModels.thy ===== *)
theory PayrollModels
  imports Decimal Dates
begin

text \<open>
  The data model of the payroll application (\<open>payroll/models.py\<close>): its enumerations as
  datatypes and its tables' rows as records. A foreign key is the key of the row it points to
  (\<open>uid\<close>), a nullable column an option, a decimal column a rational number. The base class
  contributes the primary key; creation order is the order of the rows in a table. A reverse
  relation that is always read together with its parent (slabs of a slab set, lines of an
  assignment) is a list field of the parent.
\<close>

section \<open>Enumerations\<close>

datatype payroll_component_type = EARNING | EMPLOYEE_DEDUCTION | EMPLOYER_CONTRIBUTION | REIMBURSEMENT

datatype compensation_template_status = CT_DRAFT | CT_PENDING_APPROVAL | CT_APPROVED | CT_REJECTED

datatype compensation_assignment_status = CA_DRAFT | CA_PENDING_APPROVAL | CA_APPROVED | CA_REJECTED

datatype tax_regime = NEW | OLD

datatype tax_category = INDIVIDUAL | SENIOR_CITIZEN | SUPER_SENIOR_CITIZEN

datatype statutory_income_basis = IB_MONTHLY | IB_HALF_YEARLY | IB_ANNUAL

datatype statutory_deduction_frequency = DF_MONTHLY | DF_HALF_YEARLY | DF_ANNUAL

datatype professional_tax_gender = G_ANY | G_MALE | G_FEMALE

datatype investment_section =
  SECTION_80C | SECTION_80D | SECTION_80TTA | SECTION_80G | SEC_HRA | SEC_LTA | SEC_OTHER

text \<open>\<open>SECTION_LIMITS\<close>, in the dictionary's order.\<close>

definition section_limits :: "(investment_section \<times> rat) list" where
  "section_limits = [(SECTION_80C, 150000), (SECTION_80D, 50000), (SECTION_80TTA, 10000)]"

datatype payroll_run_type = REGULAR | RERUN

datatype fnf_status = FNF_DRAFT | FNF_CALCULATED | FNF_APPROVED | FNF_PAID | FNF_CANCELLED

datatype payroll_run_status =
  PR_DRAFT | PR_CALCULATED | PR_APPROVAL_PENDING | PR_APPROVED | PR_REJECTED | PR_FINALIZED | PR_CANCELLED

datatype payroll_run_item_status = READY | EXCEPTION

datatype esi_eligibility_mode = ESI_NONE | ESI_DIRECT | ESI_CONTINUED

datatype statutory_filing_type = PF_ECR | ESI_MONTHLY | FORM24Q | FT_PROFESSIONAL_TAX | FORM16

datatype statutory_filing_status = SF_READY | SF_BLOCKED | SF_GENERATED | SF_SUPERSEDED | SF_CANCELLED

datatype statutory_filing_artifact_format = FMT_CSV | FMT_JSON | FMT_XML | FMT_PDF | FMT_TEXT

datatype tds_quarter = Q1 | Q2 | Q3 | Q4

definition tds_quarter_for_month :: "int \<Rightarrow> tds_quarter" where
  "tds_quarter_for_month month =
     (if month \<in> {4, 5, 6} then Q1
      else if month \<in> {7, 8, 9} then Q2
      else if month \<in> {10, 11, 12} then Q3
      else Q4)"

section \<open>Statutory masters\<close>

record payroll_tax_slab =
  min_income :: rat
  max_income :: "rat option"
  rate_percent :: rat

record payroll_tax_slab_set =
  ts_id :: uid
  ts_organisation :: "uid option"
  ts_source_set :: "uid option"
  ts_name :: string
  ts_country_code :: string
  ts_fiscal_year :: string
  ts_is_active :: bool
  ts_is_system_master :: bool
  ts_is_old_regime :: bool
  ts_tax_category :: tax_category
  ts_slabs :: "payroll_tax_slab list"

record professional_tax_slab =
  pt_gender :: professional_tax_gender
  pt_min_income :: rat
  pt_max_income :: "rat option"
  pt_deduction_amount :: rat
  pt_applicable_months :: "int list"

record professional_tax_rule =
  ptr_country_code :: string
  ptr_state_code :: string
  ptr_state_name :: string
  ptr_income_basis :: statutory_income_basis
  ptr_deduction_frequency :: statutory_deduction_frequency
  ptr_effective_from :: date
  ptr_effective_to :: "date option"
  ptr_is_active :: bool
  ptr_slabs :: "professional_tax_slab list"

record labour_welfare_fund_contribution =
  lwf_min_wage :: "rat option"
  lwf_max_wage :: "rat option"
  lwf_employee_amount :: rat
  lwf_employer_amount :: rat
  lwf_applicable_months :: "int list"

record labour_welfare_fund_rule =
  lwr_country_code :: string
  lwr_state_code :: string
  lwr_state_name :: string
  lwr_wage_basis :: statutory_income_basis
  lwr_deduction_frequency :: statutory_deduction_frequency
  lwr_effective_from :: date
  lwr_effective_to :: "date option"
  lwr_is_active :: bool
  lwr_contributions :: "labour_welfare_fund_contribution list"

record surcharge_rule =
  sr_fiscal_year :: string
  sr_tax_regime :: string
  sr_income_threshold :: rat
  sr_surcharge_rate_percent :: rat
  sr_effective_from :: date

section \<open>Compensation\<close>

record payroll_component =
  pc_id :: uid
  pc_organisation :: uid
  pc_code :: string
  pc_name :: string
  pc_component_type :: payroll_component_type
  pc_is_taxable :: bool
  pc_is_system_default :: bool

record cost_centre =
  cc_id :: uid
  cc_organisation :: uid
  cc_code :: string
  cc_name :: string
  cc_gl_code :: string
  cc_parent :: "uid option"
  cc_is_active :: bool

record compensation_template_line =
  tl_component :: uid
  tl_monthly_amount :: rat
  tl_sequence :: nat
  tl_cost_centre :: "uid option"

record compensation_template =
  ct_id :: uid
  ct_organisation :: uid
  ct_name :: string
  ct_description :: string
  ct_status :: compensation_template_status
  ct_approval_run :: "uid option"
  ct_lines :: "compensation_template_line list"

record compensation_assignment_line =
  al_component_code :: string
  al_component_name :: string
  al_component_type :: payroll_component_type
  al_monthly_amount :: rat
  al_is_taxable :: bool
  al_sequence :: nat
  al_cost_centre :: "uid option"

record compensation_assignment =
  ca_id :: uid
  ca_employee :: uid
  ca_template :: uid
  ca_effective_from :: date
  ca_version :: nat
  ca_tax_regime :: tax_regime
  ca_is_pf_opted_out :: bool
  ca_is_epf_exempt :: bool
  ca_vpf_rate_percent :: rat
  ca_status :: compensation_assignment_status
  ca_approval_run :: "uid option"
  ca_lines :: "compensation_assignment_line list"

record investment_declaration =
  id_employee :: uid
  id_fiscal_year :: string
  id_section :: investment_section
  id_description :: string
  id_declared_amount :: rat
  id_is_verified :: bool

section \<open>Runs, items, payslips\<close>

record full_and_final_settlement =
  ff_id :: uid
  ff_employee :: uid
  ff_offboarding_process :: "uid option"
  ff_last_working_day :: date
  ff_status :: fnf_status
  ff_prorated_salary :: rat
  ff_leave_encashment :: rat
  ff_gratuity :: rat
  ff_arrears :: rat
  ff_other_credits :: rat
  ff_tds_deduction :: rat
  ff_pf_deduction :: rat
  ff_loan_recovery :: rat
  ff_other_deductions :: rat
  ff_gross_payable :: rat
  ff_net_payable :: rat

record arrears =
  ar_employee :: uid
  ar_pay_run :: "uid option"
  ar_for_period_year :: int
  ar_for_period_month :: int
  ar_reason :: string
  ar_amount :: rat
  ar_is_included_in_payslip :: bool

text \<open>
  The attendance record a calculation leaves on its run: one entry per employee, and the totals.
\<close>

datatype attendance_entry =
    Entry_exception uid string string "msg_arg list"
  | Entry_ready uid string date date rat rat int

record run_attendance =
  rt_use_attendance_inputs :: bool
  rt_period_start :: date
  rt_period_end :: date
  rt_employee_count :: nat
  rt_ready_item_count :: nat
  rt_exception_item_count :: nat
  rt_total_attendance_paid_days :: rat
  rt_total_lop_days :: rat
  rt_total_overtime_minutes :: int
  rt_employees :: "attendance_entry list"

record payroll_run =
  pr_id :: uid
  pr_organisation :: uid
  pr_name :: string
  pr_period_year :: int
  pr_period_month :: int
  pr_run_type :: payroll_run_type
  pr_status :: payroll_run_status
  pr_use_attendance_inputs :: bool
  pr_attendance_snapshot :: "run_attendance option"
  pr_source_run :: "uid option"
  pr_approval_run :: "uid option"
  pr_calculated_at :: "instant option"
  pr_submitted_at :: "instant option"
  pr_finalized_at :: "instant option"

record statutory_filing_batch =
  sf_id :: uid
  sf_organisation :: uid
  sf_filing_type :: statutory_filing_type
  sf_status :: statutory_filing_status
  sf_artifact_format :: statutory_filing_artifact_format
  sf_period_year :: "int option"
  sf_period_month :: "int option"
  sf_fiscal_year :: string
  sf_quarter :: string
  sf_checksum :: string
  sf_file_name :: string
  sf_content_type :: string
  sf_file_size_bytes :: nat
  sf_artifact_storage_backend :: string
  sf_artifact_storage_key :: string
  sf_artifact_uploaded_at :: "instant option"
  sf_generated_at :: "instant option"
  sf_source_signature :: string
  sf_validation_errors :: "string list"
  sf_artifact_text :: string
  sf_source_pay_runs :: "uid list"

end
