(* ===== verification/Statutory.thy ===== *)
theory Statutory
  imports PayrollModels
begin

text \<open>
  The statutory calculations of \<open>payroll/statutory.py\<close>: fiscal year labels, slab tax, rebate,
  surcharge with marginal relief and cess, provident fund, employees' state insurance,
  professional tax, labour welfare fund, gratuity and the full-and-final helpers. All of them
  are pure functions of Decimals and dates. The definitions come first, the lemmas after them.
\<close>

section \<open>Constants\<close>

definition INDIA_STANDARD_DEDUCTION :: rat where "INDIA_STANDARD_DEDUCTION = 75000"
definition INDIA_CESS_RATE :: rat where "INDIA_CESS_RATE = 4 / 100"
definition INDIA_REBATE_87A_MAX :: rat where "INDIA_REBATE_87A_MAX = 25000"
definition INDIA_REBATE_87A_THRESHOLD :: rat where "INDIA_REBATE_87A_THRESHOLD = 700000"
definition OLD_REGIME_REBATE_87A_MAX :: rat where "OLD_REGIME_REBATE_87A_MAX = 12500"
definition OLD_REGIME_REBATE_87A_THRESHOLD :: rat where "OLD_REGIME_REBATE_87A_THRESHOLD = 500000"
definition PF_RATE :: rat where "PF_RATE = 12 / 100"
definition PF_WAGE_CEILING :: rat where "PF_WAGE_CEILING = 15000"
definition ESI_EMPLOYEE_RATE :: rat where "ESI_EMPLOYEE_RATE = 75 / 10000"
definition ESI_EMPLOYER_RATE :: rat where "ESI_EMPLOYER_RATE = 325 / 10000"
definition ESI_WAGE_CEILING :: rat where "ESI_WAGE_CEILING = 21000"
definition GRATUITY_STATUTORY_CEILING :: rat where "GRATUITY_STATUTORY_CEILING = 2000000"

definition NEW_REGIME_SURCHARGE_TIERS :: "(rat \<times> rat) list" where
  "NEW_REGIME_SURCHARGE_TIERS =
     [(5000000, 10 / 100), (10000000, 15 / 100), (20000000, 25 / 100)]"

definition OLD_REGIME_SURCHARGE_TIERS :: "(rat \<times> rat) list" where
  "OLD_REGIME_SURCHARGE_TIERS =
     [(5000000, 10 / 100), (10000000, 15 / 100), (20000000, 25 / 100), (50000000, 37 / 100)]"

section \<open>Fiscal year labels\<close>

definition is_digit :: "char \<Rightarrow> bool" where
  "is_digit c = (let n = (of_char c :: nat) in 48 \<le> n \<and> n \<le> 57)"

definition digit_val :: "char \<Rightarrow> nat" where
  "digit_val c = of_char c - 48"

definition digit_char :: "nat \<Rightarrow> char" where
  "digit_char d = char_of (d + 48)"

text \<open>\<open>int(s)\<close> on a string of digits, and \<open>str(n)\<close>.\<close>

definition nat_of_digits :: "string \<Rightarrow> nat" where
  "nat_of_digits s = foldl (\<lambda>n c. 10 * n + digit_val c) 0 s"

fun str_of_nat :: "nat \<Rightarrow> string" where
  "str_of_nat n = (if n < 10 then [digit_char n] else str_of_nat (n div 10) @ [digit_char (n mod 10)])"

declare str_of_nat.simps [simp del]

text \<open>
  The regular expression: four digits, a hyphen, two or four digits. A match is the pair of
  its groups.
\<close>

definition match_fiscal_year :: "string \<Rightarrow> (string \<times> string) option" where
  "match_fiscal_year v =
     (let a = take 4 v; b = drop 5 v
      in if length v \<ge> 5 \<and> list_all is_digit a \<and> v ! 4 = CHR ''-'' \<and>
            list_all is_digit b \<and> (length b = 2 \<or> length b = 4)
         then Some (a, b) else None)"

definition replace_slash :: "string \<Rightarrow> string" where
  "replace_slash = map (\<lambda>c. if c = CHR ''/'' then CHR ''-'' else c)"

definition fiscal_end_year :: "nat \<Rightarrow> string \<Rightarrow> nat" where
  "fiscal_end_year start_year end_token =
     (if length end_token = 2 then
        let century = start_year div 100 * 100; end_year = century + nat_of_digits end_token
        in if end_year \<le> start_year then end_year + 100 else end_year
      else nat_of_digits end_token)"

definition normalize_fiscal_year_label :: "string \<Rightarrow> string" where
  "normalize_fiscal_year_label fiscal_year =
     (let value = replace_slash (py_strip fiscal_year)
      in case match_fiscal_year value of
           None \<Rightarrow> value
         | Some (a, b) \<Rightarrow>
             (let start_year = nat_of_digits a
              in str_of_nat start_year @ ''-'' @ str_of_nat (fiscal_end_year start_year b)))"

text \<open>The aliases are a set in sorted order; the short form sorts after the long one or not by its
  digits, so the order is computed, as \<open>sorted\<close> does.\<close>

fun string_le :: "string \<Rightarrow> string \<Rightarrow> bool" where
  "string_le [] _ = True"
| "string_le (_ # _) [] = False"
| "string_le (c # cs) (d # ds) =
     ((of_char c :: nat) < of_char d \<or> c = d \<and> string_le cs ds)"

definition fiscal_year_label_aliases :: "string \<Rightarrow> string list" where
  "fiscal_year_label_aliases fiscal_year =
     (let normalized = normalize_fiscal_year_label fiscal_year
      in if normalized = [] then []
         else case match_fiscal_year normalized of
                Some (a, b) \<Rightarrow>
                  if length b = 4 then
                    (let short = a @ ''-'' @ drop 2 b
                     in if string_le short normalized then [short, normalized] else [normalized, short])
                  else [normalized]
              | None \<Rightarrow> [normalized])"

section \<open>Rebate parameters and tiers\<close>

definition regime_key :: "string \<Rightarrow> string" where
  "regime_key regime = py_upper (if regime = [] then ''NEW'' else regime)"

definition REBATE_87A_PARAMS :: "(string \<times> string) \<Rightarrow> (rat \<times> rat) option" where
  "REBATE_87A_PARAMS =
     map_of [((''2024-2025'', ''NEW''), (INDIA_REBATE_87A_THRESHOLD, INDIA_REBATE_87A_MAX)),
             ((''2024-2025'', ''OLD''), (OLD_REGIME_REBATE_87A_THRESHOLD, OLD_REGIME_REBATE_87A_MAX)),
             ((''2025-2026'', ''NEW''), (1200000, 60000)),
             ((''2025-2026'', ''OLD''), (OLD_REGIME_REBATE_87A_THRESHOLD, OLD_REGIME_REBATE_87A_MAX))]"

definition get_rebate_87a_params :: "string \<Rightarrow> string \<Rightarrow> rat \<times> rat" where
  "get_rebate_87a_params fiscal_year regime =
     (let default = (if regime_key regime = ''OLD''
                     then (OLD_REGIME_REBATE_87A_THRESHOLD, OLD_REGIME_REBATE_87A_MAX)
                     else (INDIA_REBATE_87A_THRESHOLD, INDIA_REBATE_87A_MAX))
      in or_else (REBATE_87A_PARAMS (normalize_fiscal_year_label fiscal_year, regime_key regime)) default)"

definition surcharge_tiers_for_regime :: "string \<Rightarrow> (rat \<times> rat) list" where
  "surcharge_tiers_for_regime regime =
     (if py_upper regime = ''OLD'' then OLD_REGIME_SURCHARGE_TIERS else NEW_REGIME_SURCHARGE_TIERS)"

text \<open>The tiers of the database, when it has any for the year and regime.\<close>

definition get_surcharge_tiers_from_db :: "surcharge_rule list \<Rightarrow> string \<Rightarrow> string \<Rightarrow> (rat \<times> rat) list" where
  "get_surcharge_tiers_from_db table fiscal_year regime =
     (let rules = sort_key sr_income_threshold
                    (filter (\<lambda>r. sr_fiscal_year r = fiscal_year \<and> sr_tax_regime r = py_upper regime) table)
      in if rules \<noteq> []
         then map (\<lambda>r. (sr_income_threshold r, ddiv (sr_surcharge_rate_percent r) 100)) rules
         else surcharge_tiers_for_regime regime)"

section \<open>Income tax\<close>

text \<open>\<open>normalize_decimal\<close>; on a number it is \<^const>\<open>quantize2\<close>, and \<open>normalize_decimal(x) or ZERO\<close>
  is \<open>amount_or_zero\<close>.\<close>

definition normalize_decimal :: "rat option \<Rightarrow> rat option" where
  "normalize_decimal v = map_option quantize2 v"

definition amount_or_zero :: "rat option \<Rightarrow> rat" where
  "amount_or_zero v = or_else (normalize_decimal v) 0"

fun annual_tax_loop :: "payroll_tax_slab list \<Rightarrow> rat \<Rightarrow> rat \<Rightarrow> rat" where
  "annual_tax_loop [] taxable annual_tax = annual_tax"
| "annual_tax_loop (slab # slabs) taxable annual_tax =
     (if taxable \<le> min_income slab then annual_tax_loop slabs taxable annual_tax
      else
        let upper_bound = (case max_income slab of None \<Rightarrow> taxable | Some m \<Rightarrow> min taxable m);
            taxable_slice = upper_bound - min_income slab
        in if taxable_slice \<le> 0 then annual_tax_loop slabs taxable annual_tax
           else
             let annual_tax' = annual_tax + dmul taxable_slice (ddiv (rate_percent slab) 100)
             in case max_income slab of
                  None \<Rightarrow> annual_tax'
                | Some m \<Rightarrow>
                    if taxable \<le> m then annual_tax' else annual_tax_loop slabs taxable annual_tax')"

definition calculate_annual_tax :: "payroll_tax_slab list \<Rightarrow> rat \<Rightarrow> rat" where
  "calculate_annual_tax slabs annual_taxable_income =
     quantize2 (annual_tax_loop (sort_key min_income slabs) (quantize2 annual_taxable_income) 0)"

definition calculate_taxable_income_after_standard_deduction :: "rat \<Rightarrow> rat" where
  "calculate_taxable_income_after_standard_deduction gross =
     quantize2 (max 0 (quantize2 gross - INDIA_STANDARD_DEDUCTION))"

definition apply_cess :: "rat \<Rightarrow> rat" where
  "apply_cess tax_before_cess = quantize2 (dmul (quantize2 tax_before_cess) (1 + INDIA_CESS_RATE))"

fun surcharge_loop :: "(rat \<times> rat) list \<Rightarrow> rat \<Rightarrow> rat \<Rightarrow> rat \<Rightarrow> rat" where
  "surcharge_loop [] income base surcharge = surcharge"
| "surcharge_loop ((threshold, rate) # tiers) income base surcharge =
     (if income > threshold then surcharge_loop tiers income base (dmul base rate) else surcharge)"

definition calculate_surcharge :: "rat \<Rightarrow> rat \<Rightarrow> (rat \<times> rat) list \<Rightarrow> rat" where
  "calculate_surcharge taxable_income tax_after_rebate tiers =
     quantize2 (surcharge_loop (sort_key fst tiers) (quantize2 taxable_income) (quantize2 tax_after_rebate) 0)"

fun current_tier_loop :: "(rat \<times> rat) list \<Rightarrow> rat \<Rightarrow> (rat \<times> rat) option \<Rightarrow> (rat \<times> rat) option" where
  "current_tier_loop [] income current = current"
| "current_tier_loop ((threshold, rate) # tiers) income current =
     (if income > threshold then current_tier_loop tiers income (Some (threshold, rate)) else current)"

record tax_breakdown =
  tb_tax_before_rebate :: rat
  tb_rebate_87a :: rat
  tb_tax_after_rebate :: rat
  tb_surcharge :: rat
  tb_cess :: rat
  tb_annual_tax :: rat

text \<open>Lines that compute the tax after rebate at an income, used twice by the function.\<close>

definition rebate_at :: "rat \<Rightarrow> rat \<Rightarrow> rat \<Rightarrow> rat \<Rightarrow> rat" where
  "rebate_at income tax_before_rebate threshold rmax =
     (if income \<le> threshold then quantize2 (min tax_before_rebate rmax) else 0)"

definition tax_after_rebate_at :: "payroll_tax_slab list \<Rightarrow> rat \<Rightarrow> rat \<Rightarrow> rat \<Rightarrow> rat" where
  "tax_after_rebate_at slabs income threshold rmax =
     (let t = calculate_annual_tax slabs income
      in quantize2 (max 0 (t - rebate_at income t threshold rmax)))"

text \<open>The marginal relief: the cap on tax and surcharge just above a surcharge threshold.\<close>

definition relieved_surcharge ::
  "payroll_tax_slab list \<Rightarrow> (rat \<times> rat) list \<Rightarrow> rat \<Rightarrow> rat \<Rightarrow> rat \<Rightarrow> rat \<Rightarrow> rat \<Rightarrow> rat \<Rightarrow> rat" where
  "relieved_surcharge slabs tiers rthreshold rmax income tax_after_rebate surcharge threshold =
     (let threshold_tax = tax_after_rebate_at slabs threshold rthreshold rmax;
          threshold_surcharge = calculate_surcharge threshold threshold_tax tiers;
          threshold_total = quantize2 (threshold_tax + threshold_surcharge);
          max_total = quantize2 (threshold_total + (income - threshold));
          current_total = quantize2 (tax_after_rebate + surcharge)
      in if current_total > max_total then quantize2 (max 0 (max_total - tax_after_rebate))
         else surcharge)"

definition calculate_income_tax_with_rebate ::
  "rat \<Rightarrow> payroll_tax_slab_set \<Rightarrow> (rat \<times> rat) list \<Rightarrow> rat option \<Rightarrow> rat option \<Rightarrow> tax_breakdown" where
  "calculate_income_tax_with_rebate taxable_income slab_set tiers rebate_threshold rebate_max =
     (let income = quantize2 taxable_income;
          params = (case (rebate_threshold, rebate_max) of
                      (Some t, Some m) \<Rightarrow> (t, m)
                    | _ \<Rightarrow> get_rebate_87a_params (ts_fiscal_year slab_set)
                             (if ts_is_old_regime slab_set then ''OLD'' else ''NEW''));
          rthreshold = quantize2 (fst params);
          rmax = quantize2 (snd params);
          tax_before_rebate = calculate_annual_tax (ts_slabs slab_set) income;
          rebate_87a = rebate_at income tax_before_rebate rthreshold rmax;
          tax_after_rebate = quantize2 (max 0 (tax_before_rebate - rebate_87a));
          surcharge0 = calculate_surcharge income tax_after_rebate tiers;
          surcharge = (case current_tier_loop (sort_key fst tiers) income None of
                         None \<Rightarrow> surcharge0
                       | Some (threshold, _) \<Rightarrow>
                           relieved_surcharge (ts_slabs slab_set) tiers rthreshold rmax income
                             tax_after_rebate surcharge0 threshold);
          tax_before_cess = quantize2 (tax_after_rebate + surcharge);
          cess = quantize2 (dmul tax_before_cess INDIA_CESS_RATE)
      in \<lparr> tb_tax_before_rebate = tax_before_rebate, tb_rebate_87a = rebate_87a,
           tb_tax_after_rebate = tax_before_cess, tb_surcharge = surcharge,
           tb_cess = cess, tb_annual_tax = apply_cess tax_before_cess \<rparr>)"

definition ensure_non_negative_net_pay :: "rat \<Rightarrow> rat" where
  "ensure_non_negative_net_pay net_pay = quantize2 (max 0 (quantize2 net_pay))"

section \<open>Provident fund and state insurance\<close>

record epf_contributions =
  epf_eligible_basic :: rat
  epf_employee :: rat
  epf_employer_total :: rat
  epf_eps_employer :: rat
  epf_epf_employer :: rat

definition calculate_epf_contributions ::
  "rat \<Rightarrow> rat \<Rightarrow> rat \<Rightarrow> rat option \<Rightarrow> bool \<Rightarrow> epf_contributions" where
  "calculate_epf_contributions basic_pay employee_rate employer_rate wage_ceiling cap_wages =
     (let basic = quantize2 basic_pay;
          eligible_basic = (case wage_ceiling of
                              Some c \<Rightarrow> (if cap_wages then min basic c else basic)
                            | None \<Rightarrow> basic);
          employee_contribution = quantize2 (dmul eligible_basic employee_rate);
          employer_contribution = quantize2 (dmul eligible_basic employer_rate);
          eps = (if employer_contribution \<le> 0 then 0
                 else min (min (quantize2 (dmul eligible_basic (833 / 10000))) 1250) employer_contribution);
          epf = (if employer_contribution \<le> 0 then 0
                 else quantize2 (max 0 (employer_contribution - eps)))
      in \<lparr> epf_eligible_basic = quantize2 eligible_basic, epf_employee = employee_contribution,
           epf_employer_total = employer_contribution, epf_eps_employer = eps,
           epf_epf_employer = epf \<rparr>)"

record esi_contributions =
  esi_employee_amount :: rat
  esi_employer_amount :: rat
  esi_is_applicable :: bool

definition calculate_esi_contributions ::
  "rat \<Rightarrow> rat \<Rightarrow> rat \<Rightarrow> rat \<Rightarrow> bool \<Rightarrow> esi_contributions" where
  "calculate_esi_contributions gross_pay employee_rate employer_rate wage_ceiling force_eligible =
     (let gross = quantize2 gross_pay
      in if \<not> (force_eligible \<or> gross \<le> wage_ceiling)
         then \<lparr> esi_employee_amount = 0, esi_employer_amount = 0, esi_is_applicable = False \<rparr>
         else \<lparr> esi_employee_amount = quantize2 (dmul gross employee_rate),
                esi_employer_amount = quantize2 (dmul gross employer_rate),
                esi_is_applicable = True \<rparr>)"

definition get_esi_contribution_period_bounds :: "int \<Rightarrow> int \<Rightarrow> date \<times> date" where
  "get_esi_contribution_period_bounds period_year period_month =
     (if 4 \<le> period_month \<and> period_month \<le> 9 then (Date period_year 4 1, Date period_year 9 30)
      else if period_month \<ge> 10 then (Date period_year 10 1, Date (period_year + 1) 3 31)
      else (Date (period_year - 1) 10 1, Date period_year 3 31))"

section \<open>Professional tax and labour welfare fund\<close>

fun professional_tax_loop :: "(rat option \<times> rat) list \<Rightarrow> rat \<Rightarrow> rat" where
  "professional_tax_loop [] gross = 0"
| "professional_tax_loop ((slab_cap, amount) # slabs) gross =
     (case slab_cap of
        None \<Rightarrow> amount
      | Some c \<Rightarrow> if gross < c then amount else professional_tax_loop slabs gross)"

definition calculate_professional_tax_monthly ::
  "rat \<Rightarrow> string \<Rightarrow> (string \<Rightarrow> (rat option \<times> rat) list option) \<Rightarrow> rat" where
  "calculate_professional_tax_monthly gross_monthly state_code slabs_by_state =
     professional_tax_loop (or_else (slabs_by_state (py_upper state_code)) []) (quantize2 gross_monthly)"

record lwf_result =
  lwf_employee :: rat
  lwf_employer :: rat
  lwf_is_applicable :: bool
  lwf_state_code :: string
  lwf_payroll_month :: int
  lwf_gross_pay :: rat

definition lwf_contribution_applies :: "int \<Rightarrow> rat \<Rightarrow> labour_welfare_fund_contribution \<Rightarrow> bool" where
  "lwf_contribution_applies payroll_month gross c =
     (\<not> (lwf_applicable_months c \<noteq> [] \<and> payroll_month \<notin> set (lwf_applicable_months c)) \<and>
      \<not> (case normalize_decimal (lwf_min_wage c) of None \<Rightarrow> False | Some m \<Rightarrow> gross < m) \<and>
      \<not> (case normalize_decimal (lwf_max_wage c) of None \<Rightarrow> False | Some m \<Rightarrow> gross > m))"

definition calculate_labour_welfare_fund ::
  "string \<Rightarrow> int \<Rightarrow> rat \<Rightarrow> labour_welfare_fund_contribution list \<Rightarrow> lwf_result" where
  "calculate_labour_welfare_fund state_code payroll_month gross_pay contributions =
     (let gross = quantize2 gross_pay
      in case first_row (lwf_contribution_applies payroll_month gross) contributions of
           Some c \<Rightarrow>
             \<lparr> lwf_employee = quantize2 (lwf_employee_amount c),
               lwf_employer = quantize2 (lwf_employer_amount c),
               lwf_is_applicable = True, lwf_state_code = py_upper state_code,
               lwf_payroll_month = payroll_month, lwf_gross_pay = gross \<rparr>
         | None \<Rightarrow>
             \<lparr> lwf_employee = 0, lwf_employer = 0, lwf_is_applicable = False,
               lwf_state_code = py_upper state_code, lwf_payroll_month = payroll_month,
               lwf_gross_pay = gross \<rparr>)"

section \<open>Gratuity and the full-and-final helpers\<close>

definition calculate_gratuity_service_years :: "date option \<Rightarrow> date option \<Rightarrow> int" where
  "calculate_gratuity_service_years date_of_joining last_working_day =
     (case (date_of_joining, last_working_day) of
        (Some j, Some l) \<Rightarrow>
          if l < j then 0
          else
            let years = yr l - yr j; months = mo l - mo j; days = dy l - dy j;
                previous_month = (if mo l = 1 then 12 else mo l - 1);
                previous_month_year = (if mo l = 1 then yr l - 1 else yr l);
                months1 = (if days < 0 then months - 1 else months);
                days1 = (if days < 0 then days + days_in_month previous_month_year previous_month else days);
                years2 = (if months1 < 0 then years - 1 else years);
                months2 = (if months1 < 0 then months1 + 12 else months1);
                years3 = (if months2 > 6 \<or> months2 = 6 \<and> days1 > 0 then years2 + 1 else years2)
            in max years3 0
      | _ \<Rightarrow> 0)"

definition calculate_gratuity_amount :: "rat \<Rightarrow> int \<Rightarrow> int \<Rightarrow> rat \<Rightarrow> rat" where
  "calculate_gratuity_amount last_basic_salary years_of_service eligibility_years statutory_ceiling =
     (let basic = quantize2 last_basic_salary
      in if years_of_service < eligibility_years \<or> basic \<le> 0 then 0
         else
           let gratuity = quantize2 (dmul (dmul (ddiv basic 26) 15) (of_int years_of_service))
           in quantize2 (min gratuity statutory_ceiling))"

definition calculate_fnf_salary_proration :: "rat \<Rightarrow> date \<Rightarrow> int \<Rightarrow> int \<Rightarrow> rat" where
  "calculate_fnf_salary_proration gross_monthly_salary last_working_day period_year period_month =
     (let total_days = of_int (days_in_month period_year period_month);
          paid_days = of_int (dy last_working_day);
          salary = quantize2 gross_monthly_salary
      in quantize2 (ddiv (dmul salary paid_days) total_days))"

definition calculate_leave_encashment_amount :: "rat \<Rightarrow> rat \<Rightarrow> rat" where
  "calculate_leave_encashment_amount leave_days monthly_basic_salary =
     (let per_day_basic = quantize2 (ddiv (quantize2 monthly_basic_salary) 26);
          encashment_days = quantize2 leave_days
      in quantize2 (dmul encashment_days per_day_basic))"

section \<open>Lemmas: slab tax\<close>

lemmas tax_case_splits = if_splits option.splits prod.splits

text \<open>The reference: what each slab taxes at its own rate, summed.\<close>

definition slab_slice :: "payroll_tax_slab \<Rightarrow> rat \<Rightarrow> rat" where
  "slab_slice s t =
     max 0 ((case max_income s of None \<Rightarrow> t | Some m \<Rightarrow> min t m) - min_income s)"

definition slab_tax :: "payroll_tax_slab \<Rightarrow> rat \<Rightarrow> rat" where
  "slab_tax s t = dmul (slab_slice s t) (ddiv (rate_percent s) 100)"

definition marginal_tax :: "payroll_tax_slab list \<Rightarrow> rat \<Rightarrow> rat" where
  "marginal_tax slabs t = sum_list (map (\<lambda>s. slab_tax s t) slabs)"

text \<open>A schedule without gaps or overlaps: each slab starts where the one before ends.\<close>

fun contiguous :: "payroll_tax_slab list \<Rightarrow> bool" where
  "contiguous [] = True"
| "contiguous [s] = (case max_income s of None \<Rightarrow> True | Some m \<Rightarrow> min_income s < m)"
| "contiguous (s # s' # ss) =
     (max_income s = Some (min_income s') \<and> min_income s < min_income s' \<and> contiguous (s' # ss))"

definition rates_nonneg :: "payroll_tax_slab list \<Rightarrow> bool" where
  "rates_nonneg slabs = list_all (\<lambda>s. 0 \<le> rate_percent s) slabs"

lemma marginal_tax_simps [simp]:
  "marginal_tax [] t = 0"
  "marginal_tax (s # ss) t = slab_tax s t + marginal_tax ss t"
  by (simp_all add: marginal_tax_def)

lemma slab_tax_below: "t \<le> min_income s \<Longrightarrow> slab_tax s t = 0"
  by (auto simp: slab_tax_def slab_slice_def max_def min_def split: option.splits)

lemma contiguous_tl: "contiguous (s # ss) \<Longrightarrow> contiguous ss"
  by (cases ss) auto

lemma contiguous_min_le: "contiguous (s # ss) \<Longrightarrow> s' \<in> set ss \<Longrightarrow> min_income s < min_income s'"
  by (induction ss arbitrary: s) (auto dest: less_trans)

lemma contiguous_sorted: "contiguous ss \<Longrightarrow> sorted (map min_income ss)"
  by (induction ss) (auto dest: contiguous_tl contiguous_min_le less_imp_le)

lemma marginal_tax_below: "(\<And>s. s \<in> set ss \<Longrightarrow> t \<le> min_income s) \<Longrightarrow> marginal_tax ss t = 0"
  by (induction ss) (auto simp: slab_tax_below)

lemma contiguous_break:
  "contiguous (s # ss) \<Longrightarrow> max_income s = Some m \<Longrightarrow> t \<le> m \<Longrightarrow> s' \<in> set ss \<Longrightarrow> t \<le> min_income s'"
  by (cases ss) (auto dest: contiguous_min_le)

lemma contiguous_open_last: "contiguous (s # ss) \<Longrightarrow> max_income s = None \<Longrightarrow> ss = []"
  by (cases ss) auto

lemma slab_tax_above:
  "min_income s < t \<Longrightarrow>
   slab_tax s t = dmul ((case max_income s of None \<Rightarrow> t | Some m \<Rightarrow> min t m) - min_income s)
     (ddiv (rate_percent s) 100)"
  if "case max_income s of None \<Rightarrow> True | Some m \<Rightarrow> min_income s < m"
  using that by (auto simp: slab_tax_def slab_slice_def split: option.splits)

lemma contiguous_proper:
  "contiguous (s # ss) \<Longrightarrow> case max_income s of None \<Rightarrow> True | Some m \<Rightarrow> min_income s < m"
  by (cases ss) auto

lemma annual_tax_loop_marginal:
  "contiguous slabs \<Longrightarrow> annual_tax_loop slabs t acc = acc + marginal_tax slabs t"
proof (induction slabs arbitrary: acc)
  case Nil
  then show ?case by simp
next
  case (Cons s ss)
  note IH = Cons.IH [OF contiguous_tl [OF Cons.prems]]
  show ?case
  proof (cases "t \<le> min_income s")
    case True
    then show ?thesis by (simp add: IH slab_tax_below)
  next
    case False
    then have tax: "slab_tax s t = dmul ((case max_income s of None \<Rightarrow> t | Some m \<Rightarrow> min t m) - min_income s)
        (ddiv (rate_percent s) 100)"
      by (intro slab_tax_above contiguous_proper [OF Cons.prems]) simp
    show ?thesis
    proof (cases "max_income s")
      case None
      with False Cons.prems tax show ?thesis by (auto dest: contiguous_open_last)
    next
      case (Some m)
      have m: "min_income s < m" using contiguous_proper [OF Cons.prems] Some by simp
      show ?thesis
      proof (cases "t \<le> m")
        case True
        then have "marginal_tax ss t = 0"
          using contiguous_break [OF Cons.prems Some] by (intro marginal_tax_below) auto
        with True False Some tax show ?thesis by (simp add: Let_def)
      next
        case le: False
        with False Some tax m show ?thesis by (simp add: Let_def IH)
      qed
    qed
  qed
qed

lemma calculate_annual_tax_marginal:
  "contiguous slabs \<Longrightarrow>
   calculate_annual_tax slabs income = quantize2 (marginal_tax slabs (quantize2 income))"
  by (simp add: calculate_annual_tax_def annual_tax_loop_marginal contiguous_sorted sort_key_id_if_sorted)

lemma slab_slice_mono: "t \<le> t' \<Longrightarrow> slab_slice s t \<le> slab_slice s t'"
  by (auto simp: slab_slice_def max_def min_def split: option.splits)

lemma marginal_tax_mono:
  "rates_nonneg slabs \<Longrightarrow> t \<le> t' \<Longrightarrow> marginal_tax slabs t \<le> marginal_tax slabs t'"
  by (induction slabs)
    (auto simp: rates_nonneg_def slab_tax_def intro!: add_mono dmul_mono slab_slice_mono ddiv_nonneg)

lemma marginal_tax_nonneg: "rates_nonneg slabs \<Longrightarrow> 0 \<le> marginal_tax slabs t"
  by (induction slabs)
    (auto simp: rates_nonneg_def slab_tax_def slab_slice_def intro!: add_nonneg_nonneg dmul_nonneg ddiv_nonneg)

lemma calculate_annual_tax_mono:
  "contiguous slabs \<Longrightarrow> rates_nonneg slabs \<Longrightarrow> a \<le> b \<Longrightarrow>
   calculate_annual_tax slabs a \<le> calculate_annual_tax slabs b"
  by (simp add: calculate_annual_tax_marginal quant.rnd_mono marginal_tax_mono)

lemma calculate_annual_tax_nonneg:
  "contiguous slabs \<Longrightarrow> rates_nonneg slabs \<Longrightarrow> 0 \<le> calculate_annual_tax slabs a"
  by (simp add: calculate_annual_tax_marginal quant.rnd_nonneg marginal_tax_nonneg)

lemma money_calculate_annual_tax [simp]: "money (calculate_annual_tax slabs a)"
  by (simp add: calculate_annual_tax_def)

section \<open>Lemmas: rebate, surcharge and cess\<close>

lemma rebate_at_bounds:
  "money t \<Longrightarrow> 0 \<le> t \<Longrightarrow> 0 \<le> rmax \<Longrightarrow> 0 \<le> rebate_at income t th rmax \<and> rebate_at income t th rmax \<le> t"
  by (auto simp: rebate_at_def min_def not_le intro!: quant.rnd_nonneg quant.rnd_le_fixed)

text \<open>
  Four percent of an amount in paise is a multiple of a twenty-fifth of a paisa, so it is never
  half-way between two paise, and rounding commutes with adding the amount itself.
\<close>

lemma round_half_even_add_int:
  assumes "x - of_int \<lfloor>x\<rfloor> \<noteq> 1 / 2"
  shows "round_half_even (of_int n + x) = n + round_half_even x"
  using assms by (simp add: round_half_even_def Let_def)

lemma no_half_25: "(of_int n :: rat) / 25 - of_int \<lfloor>of_int n / (25::rat)\<rfloor> \<noteq> 1 / 2"
proof
  assume "(of_int n :: rat) / 25 - of_int \<lfloor>of_int n / (25::rat)\<rfloor> = 1 / 2"
  then have "of_int (2 * n - 50 * \<lfloor>of_int n / (25::rat)\<rfloor>) = (of_int 25 :: rat)"
    by (simp add: field_simps)
  then have "2 * n - 50 * \<lfloor>of_int n / (25::rat)\<rfloor> = 25" by (simp only: of_int_eq_iff)
  then show False by presburger
qed

lemma dec_ctx_places4:
  assumes "x * 10000 = of_int n" "\<bar>x\<bar> \<le> 10 ^ 24"
  shows "dec_ctx x = x"
proof (rule dec_ctx_representable)
  show "x = of_int n * 10 powi (- 4)" using assms(1) by (simp add: power_int_def field_simps)
  have "of_int \<bar>n\<bar> = \<bar>x\<bar> * 10000" using assms(1) by (metis abs_mult abs_numeral of_int_abs)
  also have "\<dots> \<le> of_int (10 ^ 28)" using assms(2) by simp
  finally show "\<bar>n\<bar> \<le> 10 ^ 28" by (simp only: of_int_le_iff)
qed

lemma cess_exact:
  assumes t: "money t" "\<bar>t\<bar> \<le> 10 ^ 22"
  shows "apply_cess t = t + quantize2 (dmul t INDIA_CESS_RATE)"
proof -
  obtain n where n: "t * 100 = of_int n" using t by (auto simp: money_def Ints_def)
  have a: "dmul t INDIA_CESS_RATE = t * (4 / 100)"
    unfolding dmul_def INDIA_CESS_RATE_def
    by (rule dec_ctx_places4 [of _ "4 * n"]) (use n t in \<open>auto simp: abs_mult\<close>)
  have b: "dmul t (1 + INDIA_CESS_RATE) = t + t * (4 / 100)"
    unfolding dmul_def INDIA_CESS_RATE_def
    by (subst dec_ctx_places4 [of _ "104 * n"]) (use n t in \<open>auto simp: abs_mult algebra_simps\<close>)
  have sum: "(t + t * (4 / 100)) * 100 = of_int n + of_int n / 25"
    using n by (simp add: field_simps)
  have four: "t * (4 / 100) * 100 = of_int n / 25" using n by (simp add: field_simps)
  have "quantize2 (t + t * (4 / 100)) = of_int (n + round_half_even (of_int n / 25)) / 100"
    unfolding quantize2_def sum round_half_even_add_int [OF no_half_25] ..
  also have "\<dots> = t + quantize2 (t * (4 / 100))"
    unfolding quantize2_def four using n by (simp add: field_simps)
  finally have "quantize2 (t + t * (4 / 100)) = t + quantize2 (t * (4 / 100))" .
  then show ?thesis unfolding apply_cess_def quantize2_money [OF t(1)] a b .
qed

lemma surcharge_loop_nonneg:
  "0 \<le> base \<Longrightarrow> 0 \<le> acc \<Longrightarrow> list_all (\<lambda>t. 0 \<le> snd t) tiers \<Longrightarrow> 0 \<le> surcharge_loop tiers income base acc"
  by (induction tiers income base acc rule: surcharge_loop.induct) (auto simp: dmul_nonneg)

lemma calculate_surcharge_nonneg:
  "0 \<le> tax \<Longrightarrow> list_all (\<lambda>t. 0 \<le> snd t) tiers \<Longrightarrow> 0 \<le> calculate_surcharge income tax tiers"
  unfolding calculate_surcharge_def
  by (intro quant.rnd_nonneg surcharge_loop_nonneg) (auto simp: list_all_iff)

lemma current_tier_Some [simp]: "current_tier_loop tiers income (Some x) \<noteq> None"
  by (induction tiers arbitrary: x) auto

lemma current_tier_None_surcharge:
  "current_tier_loop tiers income None = None \<Longrightarrow> surcharge_loop tiers income base 0 = 0"
  by (cases tiers) (auto split: if_splits)

lemma money_calculate_surcharge [simp]: "money (calculate_surcharge a b c)"
  by (simp add: calculate_surcharge_def)

lemma money_tax_after_rebate_at [simp]: "money (tax_after_rebate_at a b c d)"
  by (simp add: tax_after_rebate_at_def Let_def)

text \<open>Tax and surcharge at a threshold plus every further rupee of income.\<close>

definition relief_cap :: "payroll_tax_slab list \<Rightarrow> (rat \<times> rat) list \<Rightarrow> rat \<Rightarrow> rat \<Rightarrow> rat \<Rightarrow> rat \<Rightarrow> rat" where
  "relief_cap slabs tiers rthreshold rmax income threshold =
     (let tax = tax_after_rebate_at slabs threshold rthreshold rmax
      in tax + calculate_surcharge threshold tax tiers + (income - threshold))"

lemma relieved_surcharge_total:
  assumes "money tax" "money income" "money threshold" "money sur" "0 \<le> sur"
  shows "tax + relieved_surcharge slabs tiers rt rm income tax sur threshold =
    min (tax + sur) (max tax (relief_cap slabs tiers rt rm income threshold))"
  using assms
  by (auto simp: relieved_surcharge_def relief_cap_def Let_def min_def max_def)

lemma relieved_surcharge_nonneg:
  "0 \<le> sur \<Longrightarrow> 0 \<le> relieved_surcharge slabs tiers rt rm income tax sur threshold"
  by (auto simp: relieved_surcharge_def Let_def intro: quant.rnd_nonneg)

lemma money_relieved_surcharge:
  "money sur \<Longrightarrow> money (relieved_surcharge slabs tiers rt rm income tax sur threshold)"
  by (auto simp: relieved_surcharge_def Let_def)

section \<open>Lemmas: provident fund, insurance, gratuity\<close>

lemma epf_parts:
  assumes "calculate_epf_contributions basic er rr wc cap = r" "0 \<le> basic" "0 \<le> rr"
    and "case wc of None \<Rightarrow> True | Some c \<Rightarrow> 0 \<le> c"
  shows "epf_eps_employer r + epf_epf_employer r = epf_employer_total r"
    "0 \<le> epf_eps_employer r" "epf_eps_employer r \<le> 1250" "0 \<le> epf_epf_employer r"
proof -
  let ?e = "case wc of Some c \<Rightarrow> if cap then min (quantize2 basic) c else quantize2 basic
    | None \<Rightarrow> quantize2 basic"
  have e: "0 \<le> ?e" using assms(2,4) by (auto split: option.splits simp: quant.rnd_nonneg)
  have n: "0 \<le> quantize2 (dmul ?e rr)" "0 \<le> quantize2 (dmul ?e (833 / 10000))"
    using e assms(3) by (auto intro!: quant.rnd_nonneg dmul_nonneg)
  show "epf_eps_employer r + epf_epf_employer r = epf_employer_total r"
    "0 \<le> epf_eps_employer r" "epf_eps_employer r \<le> 1250" "0 \<le> epf_epf_employer r"
    using n unfolding assms(1) [symmetric] calculate_epf_contributions_def Let_def
    by (auto simp: min_def max_def)
qed

lemma esi_period_contains:
  assumes "1 \<le> m" "m \<le> 12" "get_esi_contribution_period_bounds y m = (a, b)"
  shows "a \<le> Date y m 1" "Date y m (days_in_month y m) \<le> b" "mo a = 4 \<or> mo a = 10"
  using assms days_in_month_bounds [of y m]
  by (auto simp: get_esi_contribution_period_bounds_def days_in_month_def split: if_splits)

text \<open>Completed years of service, the reference for the rounding rule of gratuity.\<close>

definition completed_service_years :: "date option \<Rightarrow> date option \<Rightarrow> int" where
  "completed_service_years date_of_joining last_working_day =
     (case (date_of_joining, last_working_day) of
        (Some j, Some l) \<Rightarrow>
          if l < j then 0
          else
            let years = yr l - yr j
            in max (if mo l < mo j \<or> mo l = mo j \<and> dy l < dy j then years - 1 else years) 0
      | _ \<Rightarrow> 0)"

lemma gratuity_years_bounds:
  assumes "\<And>j. J = Some j \<Longrightarrow> valid_date j" "\<And>l. L = Some l \<Longrightarrow> valid_date l"
  shows "completed_service_years J L \<le> calculate_gratuity_service_years J L \<and>
    calculate_gratuity_service_years J L \<le> completed_service_years J L + 1"
proof (cases J; cases L)
  fix j l assume J: "J = Some j" and L: "L = Some l"
  then have v: "1 \<le> mo j" "mo j \<le> 12" "1 \<le> mo l" "mo l \<le> 12"
    using assms by (auto simp: valid_date_def)
  show ?thesis
    using v J L by (auto simp: completed_service_years_def calculate_gratuity_service_years_def Let_def
        less_date_def max_def split: if_splits)
qed (simp_all add: completed_service_years_def calculate_gratuity_service_years_def)

section \<open>Lemmas: fiscal year labels\<close>

lemma digit_val_char [simp]: "d < 10 \<Longrightarrow> digit_val (digit_char d) = d"
  by (simp add: digit_val_def digit_char_def)

lemma of_digit_char [simp]: "d < 10 \<Longrightarrow> (of_char (digit_char d) :: nat) = d + 48"
  by (simp add: digit_char_def)

lemma is_digit_char [simp]: "d < 10 \<Longrightarrow> is_digit (digit_char d)"
  by (simp add: is_digit_def)

lemma digit_char_plain [simp]:
  "d < 10 \<Longrightarrow> \<not> is_space (digit_char d)"
  "d < 10 \<Longrightarrow> digit_char d \<noteq> CHR ''/''"
proof -
  assume d: "d < 10"
  then show "\<not> is_space (digit_char d)" by (simp add: is_space_def)
  show "digit_char d \<noteq> CHR ''/''"
  proof
    assume "digit_char d = CHR ''/''"
    then have "(of_char (digit_char d) :: nat) = of_char (CHR ''/'')" by simp
    with d show False by simp
  qed
qed

lemma str_of_nat_4:
  assumes "1000 \<le> y" "y \<le> 9999"
  shows "str_of_nat y =
    [digit_char (y div 1000), digit_char (y div 100 mod 10), digit_char (y div 10 mod 10), digit_char (y mod 10)]"
proof -
  have "y div 10 div 10 div 10 = y div 1000" "y div 10 div 10 = y div 100"
    by (simp_all add: div_mult2_eq [symmetric])
  moreover have "y div 1000 < 10" "\<not> y div 100 < 10" "\<not> y div 10 < 10" "\<not> y < 10"
    using assms by auto
  ultimately show ?thesis
    by (simp add: str_of_nat.simps [of y] str_of_nat.simps [of "y div 10"]
        str_of_nat.simps [of "y div 100"] str_of_nat.simps [of "y div 1000"])
qed

lemma digits4_sum:
  "(y::nat) = 1000 * (y div 1000) + 100 * (y div 100 mod 10) + 10 * (y div 10 mod 10) + y mod 10"
proof -
  have "y div 10 div 10 = y div 100" "y div 100 div 10 = y div 1000"
    by (simp_all add: div_mult2_eq [symmetric])
  then have "y = 10 * (y div 10) + y mod 10" "y div 10 = 10 * (y div 100) + y div 10 mod 10"
    "y div 100 = 10 * (y div 1000) + y div 100 mod 10"
    using mult_div_mod_eq [of 10 y] mult_div_mod_eq [of 10 "y div 10"] mult_div_mod_eq [of 10 "y div 100"]
    by simp_all
  then show ?thesis by linarith
qed

lemma nat_of_str_of_nat: "1000 \<le> y \<Longrightarrow> y \<le> 9999 \<Longrightarrow> nat_of_digits (str_of_nat y) = y"
  using digits4_sum [of y]
  by (simp add: str_of_nat_4 nat_of_digits_def)

lemma py_strip_plain: "list_all (\<lambda>c. \<not> is_space c) s \<Longrightarrow> py_strip s = s"
proof -
  have dw: "dropWhile is_space t = t" if "list_all (\<lambda>c. \<not> is_space c) t" for t
    using that by (cases t) auto
  assume "list_all (\<lambda>c. \<not> is_space c) s"
  then show ?thesis by (simp add: py_strip_def dw)
qed

lemma replace_slash_plain: "list_all (\<lambda>c. c \<noteq> CHR ''/'') s \<Longrightarrow> replace_slash s = s"
  by (induction s) (auto simp: replace_slash_def)

text \<open>The long label \<open>2024-2025\<close> and the short one \<open>2024-25\<close> of the year that starts in \<open>y\<close>.\<close>

definition long_label :: "nat \<Rightarrow> string" where
  "long_label y = str_of_nat y @ ''-'' @ str_of_nat (Suc y)"

definition short_label :: "nat \<Rightarrow> string" where
  "short_label y = str_of_nat y @ ''-'' @ drop 2 (str_of_nat (Suc y))"

lemma hyphen_plain: "\<not> is_space (CHR ''-'')"
  by (simp add: is_space_def)

lemma labels_plain:
  assumes "1000 \<le> y" "y \<le> 9998"
  shows "replace_slash (py_strip (long_label y)) = long_label y"
    "replace_slash (py_strip (short_label y)) = short_label y"
  using assms
  by (simp_all add: py_strip_plain replace_slash_plain long_label_def short_label_def str_of_nat_4 hyphen_plain)

lemma match_labels:
  assumes "1000 \<le> y" "y \<le> 9998"
  shows "match_fiscal_year (long_label y) = Some (str_of_nat y, str_of_nat (Suc y))"
    "match_fiscal_year (short_label y) = Some (str_of_nat y, drop 2 (str_of_nat (Suc y)))"
  using assms
  by (simp_all add: match_fiscal_year_def long_label_def short_label_def str_of_nat_4 Let_def)

lemma nat_of_last_two:
  assumes "1000 \<le> y" "y \<le> 9999"
  shows "nat_of_digits (drop 2 (str_of_nat y)) = y mod 100"
proof -
  have "y mod 100 = 10 * (y div 10 mod 10) + y mod 10"
    using mod_mult2_eq [of y 10 10] by simp
  with assms show ?thesis by (simp add: str_of_nat_4 nat_of_digits_def)
qed

lemma fiscal_end_year_labels:
  assumes "1000 \<le> y" "y \<le> 9998"
  shows "fiscal_end_year y (str_of_nat (Suc y)) = Suc y"
    "fiscal_end_year y (drop 2 (str_of_nat (Suc y))) = Suc y"
proof -
  have len: "length (str_of_nat (Suc y)) = 4" using assms by (simp add: str_of_nat_4)
  then show "fiscal_end_year y (str_of_nat (Suc y)) = Suc y"
    using assms by (simp add: fiscal_end_year_def nat_of_str_of_nat)
  have y: "y div 100 * 100 + y mod 100 = y" by simp
  show "fiscal_end_year y (drop 2 (str_of_nat (Suc y))) = Suc y"
  proof (cases "Suc (y mod 100) = 100")
    case True
    then have "Suc y mod 100 = 0" "y div 100 * 100 = y - 99" "99 \<le> y"
      using y assms by (simp_all add: mod_Suc)
    with assms len show ?thesis by (simp add: fiscal_end_year_def nat_of_last_two Let_def)
  next
    case False
    then have "Suc y mod 100 = Suc (y mod 100)" by (simp add: mod_Suc)
    with assms len y show ?thesis by (simp add: fiscal_end_year_def nat_of_last_two Let_def)
  qed
qed

lemma normalize_labels:
  assumes "1000 \<le> y" "y \<le> 9998"
  shows "normalize_fiscal_year_label (long_label y) = long_label y"
    "normalize_fiscal_year_label (short_label y) = long_label y"
  using assms
  by (simp_all add: normalize_fiscal_year_label_def labels_plain match_labels fiscal_end_year_labels
      nat_of_str_of_nat) (simp_all add: long_label_def)

section \<open>Lemmas: the whole computation\<close>

lemmas income_tax_defs = calculate_income_tax_with_rebate_def Let_def

lemma tax_pair_money:
  "money (quantize2 (max 0 (calculate_annual_tax slabs i - rebate_at i t th rm)))"
  by simp

lemma income_tax_no_tier:
  assumes "current_tier_loop (sort_key fst tiers) (quantize2 income) None = None"
  shows "tb_surcharge (calculate_income_tax_with_rebate income S tiers rt rm) = 0"
  using assms current_tier_None_surcharge [OF assms]
  by (simp add: income_tax_defs calculate_surcharge_def)

lemma surcharge_le_uncapped:
  "relieved_surcharge slabs tiers rt rm income tax sur th \<le> max sur 0"
  if "money tax" "money income" "money th" "money sur"
  using that by (auto simp: relieved_surcharge_def Let_def max_def)

text \<open>Full rebate: below the threshold, with slab tax within the maximum, nothing is due.\<close>

lemma income_tax_full_rebate:
  assumes c: "contiguous (ts_slabs S)" "rates_nonneg (ts_slabs S)"
    and tier: "current_tier_loop (sort_key fst tiers) (quantize2 income) None = None"
    and money: "money t" "money m"
    and le: "quantize2 income \<le> t" "calculate_annual_tax (ts_slabs S) t \<le> m"
  shows "tb_annual_tax (calculate_income_tax_with_rebate income S tiers (Some t) (Some m)) = 0"
proof -
  let ?i = "quantize2 income"
  let ?tax = "calculate_annual_tax (ts_slabs S) ?i"
  have "?tax \<le> calculate_annual_tax (ts_slabs S) t"
    by (rule calculate_annual_tax_mono [OF c le(1)])
  with le(2) have "?tax \<le> m" by simp
  then have "rebate_at ?i ?tax t m = ?tax" using le(1) by (simp add: rebate_at_def min_def)
  with current_tier_None_surcharge [OF tier] tier money show ?thesis
    by (simp add: income_tax_defs calculate_surcharge_def apply_cess_def)
qed

section \<open>Properties\<close>

text \<open>
  C12: On a schedule without gaps or overlaps, the loop of \<open>calculate_annual_tax\<close> with its
  \<open>continue\<close> and \<open>break\<close> computes the progressive tax: each slab's slice of the income, at that
  slab's rate, summed and rounded once at the end.
\<close>

theorem annual_tax_is_marginal:
  assumes "contiguous slabs"
  shows "calculate_annual_tax slabs income = quantize2 (marginal_tax slabs (quantize2 income))"
  using assms by (rule calculate_annual_tax_marginal)

definition example_slabs :: "payroll_tax_slab list" where
  "example_slabs =
     [\<lparr>min_income = 0, max_income = Some 300000, rate_percent = 0\<rparr>,
      \<lparr>min_income = 300000, max_income = Some 700000, rate_percent = 5\<rparr>,
      \<lparr>min_income = 700000, max_income = None, rate_percent = 10\<rparr>]"

theorem annual_tax_is_marginal_witness:
  "calculate_annual_tax example_slabs 850000 = quantize2 (marginal_tax example_slabs (quantize2 850000))
   \<and> calculate_annual_tax example_slabs 850000 = 35000"
proof
  have c: "contiguous example_slabs" by (simp add: example_slabs_def)
  show "calculate_annual_tax example_slabs 850000 = quantize2 (marginal_tax example_slabs (quantize2 850000))"
    by (rule annual_tax_is_marginal [OF c])
  show "calculate_annual_tax example_slabs 850000 = 35000" by code_simp
qed

text \<open>
  Slab tax is never negative and never falls when income rises, on a schedule without gaps
  whose rates are not negative.
\<close>

theorem annual_tax_monotone:
  assumes "contiguous slabs" "rates_nonneg slabs" "a \<le> b"
  shows "0 \<le> calculate_annual_tax slabs a \<and>
    calculate_annual_tax slabs a \<le> calculate_annual_tax slabs b"
  using assms by (simp_all add: calculate_annual_tax_nonneg calculate_annual_tax_mono)

theorem annual_tax_monotone_witness:
  "0 \<le> calculate_annual_tax example_slabs 400000 \<and>
   calculate_annual_tax example_slabs 400000 \<le> calculate_annual_tax example_slabs 850000"
proof -
  have c: "contiguous example_slabs" "rates_nonneg example_slabs" "(400000::rat) \<le> 850000"
    by (simp_all add: example_slabs_def rates_nonneg_def)
  show ?thesis using annual_tax_monotone [OF c] by simp
qed

lemma money_rebate_at [simp]: "money (rebate_at i t th m)"
  by (simp add: rebate_at_def)

lemma money_income_tax:
  "money (tb_rebate_87a (calculate_income_tax_with_rebate income S tiers rt rm))"
  "money (tb_tax_before_rebate (calculate_income_tax_with_rebate income S tiers rt rm))"
  "money (tb_surcharge (calculate_income_tax_with_rebate income S tiers rt rm))"
  "money (tb_tax_after_rebate (calculate_income_tax_with_rebate income S tiers rt rm))"
     apply (simp add: income_tax_defs)
    apply (simp add: income_tax_defs calculate_annual_tax_def)
   apply (cases "current_tier_loop (sort_key fst tiers) (quantize2 income) None")
    apply (simp add: income_tax_defs calculate_surcharge_def)
   apply (simp add: income_tax_defs calculate_surcharge_def money_relieved_surcharge split: prod.splits)
  apply (simp add: income_tax_defs)
  done

text \<open>
  The parts of the breakdown add up to the paisa: the tax reported after rebate is the slab
  tax less the rebate (at least zero) plus the surcharge, and the annual tax is that amount plus
  the separately rounded cess, although \<open>apply_cess\<close> rounds the product with 1.04 on its own.
\<close>

theorem income_tax_parts_add_up:
  assumes "calculate_income_tax_with_rebate income S tiers rt rm = r"
    and "\<bar>tb_tax_after_rebate r\<bar> \<le> 10 ^ 22"
  shows "tb_tax_after_rebate r =
      max 0 (tb_tax_before_rebate r - tb_rebate_87a r) + tb_surcharge r \<and>
    tb_annual_tax r = tb_tax_after_rebate r + tb_cess r"
proof -
  have m: "money (tb_rebate_87a r)" "money (tb_tax_before_rebate r)" "money (tb_surcharge r)"
    "money (tb_tax_after_rebate r)"
    unfolding assms(1) [symmetric] by (rule money_income_tax)+
  have "tb_tax_after_rebate r =
      quantize2 (quantize2 (max 0 (tb_tax_before_rebate r - tb_rebate_87a r)) + tb_surcharge r)"
    "tb_cess r = quantize2 (dmul (tb_tax_after_rebate r) INDIA_CESS_RATE)"
    "tb_annual_tax r = apply_cess (tb_tax_after_rebate r)"
    unfolding assms(1) [symmetric] income_tax_defs by simp_all
  with m cess_exact [OF m(4) assms(2)]
  show ?thesis by simp
qed

definition example_slab_set :: payroll_tax_slab_set where
  "example_slab_set =
     \<lparr>ts_id = 1, ts_organisation = None, ts_source_set = None, ts_name = ''example'',
      ts_country_code = ''IN'', ts_fiscal_year = ''2024-2025'', ts_is_active = True,
      ts_is_system_master = True, ts_is_old_regime = False, ts_tax_category = INDIVIDUAL,
      ts_slabs = example_slabs\<rparr>"

definition example_breakdown :: tax_breakdown where
  "example_breakdown =
     calculate_income_tax_with_rebate 5010000 example_slab_set NEW_REGIME_SURCHARGE_TIERS None None"

lemma example_breakdown_value:
  "example_breakdown =
     \<lparr>tb_tax_before_rebate = 451000, tb_rebate_87a = 0, tb_tax_after_rebate = 460000,
      tb_surcharge = 9000, tb_cess = 18400, tb_annual_tax = 478400\<rparr>"
  by code_simp

theorem income_tax_parts_add_up_witness:
  "tb_tax_after_rebate example_breakdown =
      max 0 (tb_tax_before_rebate example_breakdown - tb_rebate_87a example_breakdown)
        + tb_surcharge example_breakdown
   \<and> tb_annual_tax example_breakdown = tb_tax_after_rebate example_breakdown + tb_cess example_breakdown"
proof -
  have h: "\<bar>tb_tax_after_rebate example_breakdown\<bar> \<le> 10 ^ 22" by (simp add: example_breakdown_value)
  show ?thesis using income_tax_parts_add_up [OF example_breakdown_def [symmetric] h] by simp
qed

text \<open>
  C11: Marginal relief. When the income is above a surcharge threshold, the tax before cess is the
  tax with the full surcharge, capped by what is due at the threshold plus the income above it
  (but never below the tax without surcharge); the surcharge is never negative.
\<close>

theorem marginal_relief:
  assumes tier: "current_tier_loop (sort_key fst tiers) (quantize2 income) None = Some (th, rate)"
    and th: "money th" and tiers: "list_all (\<lambda>t. 0 \<le> snd t) tiers"
    and m: "money rt" "money rm"
    and r: "r = calculate_income_tax_with_rebate income S tiers (Some rt) (Some rm)"
    and tax: "tax = tax_after_rebate_at (ts_slabs S) (quantize2 income) rt rm"
  shows "tb_tax_after_rebate r =
      min (tax + calculate_surcharge (quantize2 income) tax tiers)
        (max tax (relief_cap (ts_slabs S) tiers rt rm (quantize2 income) th)) \<and>
    0 \<le> tb_surcharge r"
proof (rule conjI)
  let ?i = "quantize2 income" and ?sur = "calculate_surcharge (quantize2 income) tax tiers"
  have t: "tax = quantize2 (max 0 (calculate_annual_tax (ts_slabs S) ?i
      - rebate_at ?i (calculate_annual_tax (ts_slabs S) ?i) rt rm))"
    by (simp add: tax tax_after_rebate_at_def Let_def)
  then have tm: "money tax" "0 \<le> tax" by (simp_all add: quant.rnd_nonneg)
  have sur: "money ?sur" "0 \<le> ?sur" using tm tiers by (simp_all add: calculate_surcharge_nonneg)
  have s: "tb_surcharge r = relieved_surcharge (ts_slabs S) tiers rt rm ?i tax ?sur th"
    using tier m by (simp add: r income_tax_defs t)
  have "tb_tax_after_rebate r = quantize2 (tax + tb_surcharge r)"
    using m tier by (simp add: r income_tax_defs t)
  also have "\<dots> = tax + tb_surcharge r"
    unfolding s using tm sur by (simp add: money_relieved_surcharge)
  also have "\<dots> = min (tax + ?sur) (max tax (relief_cap (ts_slabs S) tiers rt rm ?i th))"
    unfolding s using tm sur th by (intro relieved_surcharge_total) simp_all
  finally show "tb_tax_after_rebate r =
      min (tax + ?sur) (max tax (relief_cap (ts_slabs S) tiers rt rm ?i th))" .
  show "0 \<le> tb_surcharge r" unfolding s using sur by (simp add: relieved_surcharge_nonneg)
qed

theorem marginal_relief_witness:
  "0 \<le> tb_surcharge (calculate_income_tax_with_rebate 5010000 example_slab_set
      NEW_REGIME_SURCHARGE_TIERS (Some 700000) (Some 25000))
   \<and> current_tier_loop (sort_key fst NEW_REGIME_SURCHARGE_TIERS) (quantize2 5010000) None
      = Some (5000000, 10 / 100)"
proof
  show tier: "current_tier_loop (sort_key fst NEW_REGIME_SURCHARGE_TIERS) (quantize2 5010000) None
      = Some (5000000, 10 / 100)"
    by code_simp
  have tiers: "list_all (\<lambda>t. 0 \<le> snd t) NEW_REGIME_SURCHARGE_TIERS"
    by (simp add: NEW_REGIME_SURCHARGE_TIERS_def)
  show "0 \<le> tb_surcharge (calculate_income_tax_with_rebate 5010000 example_slab_set
      NEW_REGIME_SURCHARGE_TIERS (Some 700000) (Some 25000))"
    using marginal_relief [OF tier _ tiers _ _ refl refl] by simp
qed

text \<open>
  The employer's provident fund contribution is split without loss: pension (EPS) and fund
  (EPF) shares add up to the total, both are non-negative, and the pension share is at most 1250.
\<close>

theorem epf_split:
  assumes "0 \<le> basic" "0 \<le> employer_rate" "case wage_ceiling of None \<Rightarrow> True | Some c \<Rightarrow> 0 \<le> c"
    and "r = calculate_epf_contributions basic employee_rate employer_rate wage_ceiling cap"
  shows "epf_eps_employer r + epf_epf_employer r = epf_employer_total r \<and>
    0 \<le> epf_eps_employer r \<and> epf_eps_employer r \<le> 1250 \<and> 0 \<le> epf_epf_employer r"
  using epf_parts [OF assms(4) [symmetric] assms(1,2,3)] by auto

theorem epf_split_witness:
  "let r = calculate_epf_contributions 40000 PF_RATE PF_RATE (Some PF_WAGE_CEILING) True
   in epf_eps_employer r + epf_epf_employer r = epf_employer_total r \<and> epf_employer_total r = 1800"
proof -
  have "epf_employer_total (calculate_epf_contributions 40000 PF_RATE PF_RATE (Some PF_WAGE_CEILING) True) = 1800"
    by code_simp
  moreover have "(0::rat) \<le> 40000" "0 \<le> PF_RATE"
    "case Some PF_WAGE_CEILING of None \<Rightarrow> True | Some c \<Rightarrow> 0 \<le> c"
    by (simp_all add: PF_RATE_def PF_WAGE_CEILING_def)
  ultimately show ?thesis using epf_split [OF _ _ _ refl, of 40000 PF_RATE "Some PF_WAGE_CEILING" PF_RATE True]
    by (simp add: Let_def)
qed

text \<open>
  The contribution period of state insurance that a month is assigned to contains the whole
  month, and starts on the first of April or October.
\<close>

theorem esi_period_covers_month:
  assumes "1 \<le> m" "m \<le> 12" "get_esi_contribution_period_bounds y m = (a, b)"
  shows "a \<le> Date y m 1 \<and> Date y m (days_in_month y m) \<le> b \<and> dy a = 1 \<and> (mo a = 4 \<or> mo a = 10)"
  using esi_period_contains [OF assms] assms(3)
  by (auto simp: get_esi_contribution_period_bounds_def split: if_splits)

theorem esi_period_covers_month_witness:
  "get_esi_contribution_period_bounds 2025 2 = (Date 2024 10 1, Date 2025 3 31) \<and>
   Date 2024 10 1 \<le> Date 2025 2 1 \<and> Date 2025 2 28 \<le> Date 2025 3 31"
proof -
  have b: "get_esi_contribution_period_bounds 2025 2 = (Date 2024 10 1, Date 2025 3 31)" by code_simp
  have "days_in_month 2025 2 = 28" by code_simp
  with b esi_period_covers_month [OF _ _ b] show ?thesis by simp
qed

text \<open>
  The years of service that gratuity counts are the completed years, or one more when the
  rest is over six months; never fewer and never more.
\<close>

theorem gratuity_service_years_rounding:
  assumes "valid_date j" "valid_date l"
  shows "completed_service_years (Some j) (Some l) \<le> calculate_gratuity_service_years (Some j) (Some l) \<and>
    calculate_gratuity_service_years (Some j) (Some l) \<le> completed_service_years (Some j) (Some l) + 1"
  using assms by (intro gratuity_years_bounds) auto

theorem gratuity_service_years_rounding_witness:
  "completed_service_years (Some (Date 2018 1 31)) (Some (Date 2024 9 1)) = 6 \<and>
   calculate_gratuity_service_years (Some (Date 2018 1 31)) (Some (Date 2024 9 1)) = 7 \<and>
   calculate_gratuity_service_years (Some (Date 2018 1 31)) (Some (Date 2024 9 1))
     \<le> completed_service_years (Some (Date 2018 1 31)) (Some (Date 2024 9 1)) + 1"
proof -
  have "valid_date (Date 2018 1 31)" "valid_date (Date 2024 9 1)" by code_simp+
  moreover have "completed_service_years (Some (Date 2018 1 31)) (Some (Date 2024 9 1)) = 6"
    by code_simp
  moreover have "calculate_gratuity_service_years (Some (Date 2018 1 31)) (Some (Date 2024 9 1)) = 7"
    by (simp add: calculate_gratuity_service_years_def days_in_month_def is_leap_def)
  ultimately show ?thesis using gratuity_service_years_rounding [of "Date 2018 1 31" "Date 2024 9 1"]
    by (simp only: simp_thms)
qed

text \<open>
  A fiscal year has one normal form: both spellings of the year that starts in \<open>y\<close>
  (\<open>2024-2025\<close> and \<open>2024-25\<close>, across a century too) normalise to the long one, which is a fixed
  point, and both are among the aliases the tax tables are queried with.
\<close>

theorem fiscal_year_normal_form:
  assumes "1000 \<le> y" "y \<le> 9998"
  shows "normalize_fiscal_year_label (long_label y) = long_label y \<and>
    normalize_fiscal_year_label (short_label y) = long_label y \<and>
    set (fiscal_year_label_aliases (short_label y)) = {long_label y, short_label y}"
proof -
  have "long_label y \<noteq> []" by (simp add: long_label_def)
  moreover have "length (str_of_nat (Suc y)) = 4" using assms by (simp add: str_of_nat_4)
  ultimately show ?thesis
    using normalize_labels [OF assms] match_labels [OF assms]
    by (auto simp: fiscal_year_label_aliases_def short_label_def [symmetric] Let_def)
       (auto simp: short_label_def)
qed

theorem fiscal_year_normal_form_witness:
  "normalize_fiscal_year_label ''1999-00'' = ''1999-2000''"
proof -
  have "short_label 1999 = ''1999-00''" "long_label 1999 = ''1999-2000''" by code_simp+
  with fiscal_year_normal_form [of 1999] show ?thesis by simp
qed

end
