(* ===== verification/StatutorySeed.thy ===== *)
theory StatutorySeed
  imports Statutory
begin

text \<open>
  The statutory master data of \<open>payroll/statutory_seed.py\<close> and the seeding functions. The data
  is the literal of the source, rule by rule; documentation columns (\<open>source_label\<close>,
  \<open>source_url\<close>, \<open>notes\<close>) decide nothing and are left out. \<open>update_or_create\<close> and
  \<open>get_or_create\<close> are upserts on the unique key of the table.
\<close>

section \<open>Row constructors\<close>

definition ALL_MONTHS_EXCEPT_FEBRUARY :: "int list" where
  "ALL_MONTHS_EXCEPT_FEBRUARY = [1, 3, 4, 5, 6, 7, 8, 9, 10, 11, 12]"

definition APRIL_TO_FEBRUARY :: "int list" where
  "APRIL_TO_FEBRUARY = [4, 5, 6, 7, 8, 9, 10, 11, 12, 1, 2]"

definition mk_pt_slab ::
  "professional_tax_gender \<Rightarrow> rat \<Rightarrow> rat option \<Rightarrow> rat \<Rightarrow> int list \<Rightarrow> professional_tax_slab" where
  "mk_pt_slab g lo hi amount months =
     \<lparr>pt_gender = g, pt_min_income = lo, pt_max_income = hi, pt_deduction_amount = amount,
      pt_applicable_months = months\<rparr>"

definition mk_pt_rule ::
  "string \<Rightarrow> string \<Rightarrow> string \<Rightarrow> statutory_income_basis \<Rightarrow> statutory_deduction_frequency \<Rightarrow> date
    \<Rightarrow> professional_tax_slab list \<Rightarrow> professional_tax_rule" where
  "mk_pt_rule country code name basis freq from slabs =
     \<lparr>ptr_country_code = country, ptr_state_code = code, ptr_state_name = name,
      ptr_income_basis = basis, ptr_deduction_frequency = freq, ptr_effective_from = from,
      ptr_effective_to = None, ptr_is_active = True, ptr_slabs = slabs\<rparr>"

definition mk_lwf_contribution ::
  "rat option \<Rightarrow> rat option \<Rightarrow> rat \<Rightarrow> rat \<Rightarrow> int list \<Rightarrow> labour_welfare_fund_contribution" where
  "mk_lwf_contribution lo hi employee employer months =
     \<lparr>lwf_min_wage = lo, lwf_max_wage = hi, lwf_employee_amount = employee,
      lwf_employer_amount = employer, lwf_applicable_months = months\<rparr>"

definition mk_lwf_rule ::
  "string \<Rightarrow> string \<Rightarrow> string \<Rightarrow> statutory_income_basis \<Rightarrow> statutory_deduction_frequency \<Rightarrow> date
    \<Rightarrow> labour_welfare_fund_contribution list \<Rightarrow> labour_welfare_fund_rule" where
  "mk_lwf_rule country code name basis freq from contributions =
     \<lparr>lwr_country_code = country, lwr_state_code = code, lwr_state_name = name,
      lwr_wage_basis = basis, lwr_deduction_frequency = freq, lwr_effective_from = from,
      lwr_effective_to = None, lwr_is_active = True, lwr_contributions = contributions\<rparr>"

definition mk_slab :: "rat \<Rightarrow> rat option \<Rightarrow> rat \<Rightarrow> payroll_tax_slab" where
  "mk_slab lo hi rate = \<lparr>min_income = lo, max_income = hi, rate_percent = rate\<rparr>"

record tax_master =
  tm_fiscal_year :: string
  tm_country_code :: string
  tm_is_old_regime :: bool
  tm_tax_category :: tax_category
  tm_name :: string
  tm_slabs :: "payroll_tax_slab list"

definition mk_tax_master ::
  "string \<Rightarrow> string \<Rightarrow> bool \<Rightarrow> tax_category \<Rightarrow> string \<Rightarrow> payroll_tax_slab list \<Rightarrow> tax_master" where
  "mk_tax_master fy country old category name slabs =
     \<lparr>tm_fiscal_year = fy, tm_country_code = country, tm_is_old_regime = old,
      tm_tax_category = category, tm_name = name, tm_slabs = slabs\<rparr>"

section \<open>Professional tax rules\<close>

definition PT_RULE_MH :: professional_tax_rule where
  "PT_RULE_MH =
     mk_pt_rule ''IN'' ''MH'' ''Maharashtra'' IB_MONTHLY DF_MONTHLY (Date 2023 7 1)
       [mk_pt_slab G_MALE 0 (Some 7500) 0 [],
        mk_pt_slab G_MALE (750001 / 100) (Some 10000) 175 [],
        mk_pt_slab G_MALE (1000001 / 100) None 200 ALL_MONTHS_EXCEPT_FEBRUARY,
        mk_pt_slab G_MALE (1000001 / 100) None 300 [2],
        mk_pt_slab G_FEMALE 0 (Some 25000) 0 [],
        mk_pt_slab G_FEMALE (2500001 / 100) None 200 ALL_MONTHS_EXCEPT_FEBRUARY,
        mk_pt_slab G_FEMALE (2500001 / 100) None 300 [2]]"

definition PT_RULE_KA :: professional_tax_rule where
  "PT_RULE_KA =
     mk_pt_rule ''IN'' ''KA'' ''Karnataka'' IB_MONTHLY DF_MONTHLY (Date 2025 4 15)
       [mk_pt_slab G_ANY 0 (Some (2499999 / 100)) 0 [],
        mk_pt_slab G_ANY 25000 None 200 ALL_MONTHS_EXCEPT_FEBRUARY,
        mk_pt_slab G_ANY 25000 None 300 [2]]"

definition PT_RULE_TN :: professional_tax_rule where
  "PT_RULE_TN =
     mk_pt_rule ''IN'' ''TN'' ''Tamil Nadu'' IB_HALF_YEARLY DF_HALF_YEARLY (Date 2024 10 1)
       [mk_pt_slab G_ANY 0 (Some 21000) 0 [9, 3],
        mk_pt_slab G_ANY 21001 (Some 30000) 180 [9, 3],
        mk_pt_slab G_ANY 30001 (Some 45000) 425 [9, 3],
        mk_pt_slab G_ANY 45001 (Some 60000) 930 [9, 3],
        mk_pt_slab G_ANY 60001 (Some 75000) 1025 [9, 3],
        mk_pt_slab G_ANY 75001 None 1250 [9, 3]]"

definition PT_RULE_WB :: professional_tax_rule where
  "PT_RULE_WB =
     mk_pt_rule ''IN'' ''WB'' ''West Bengal'' IB_MONTHLY DF_MONTHLY (Date 2014 4 1)
       [mk_pt_slab G_ANY 0 (Some 10000) 0 [],
        mk_pt_slab G_ANY (1000001 / 100) (Some 15000) 110 [],
        mk_pt_slab G_ANY (1500001 / 100) (Some 25000) 130 [],
        mk_pt_slab G_ANY (2500001 / 100) (Some 40000) 150 [],
        mk_pt_slab G_ANY (4000001 / 100) None 200 []]"

definition PT_RULE_AP :: professional_tax_rule where
  "PT_RULE_AP =
     mk_pt_rule ''IN'' ''AP'' ''Andhra Pradesh'' IB_MONTHLY DF_MONTHLY (Date 2013 2 6)
       [mk_pt_slab G_ANY 0 (Some 15000) 0 [],
        mk_pt_slab G_ANY 15001 (Some 20000) 150 [],
        mk_pt_slab G_ANY (2000001 / 100) None 200 []]"

definition PT_RULE_TG :: professional_tax_rule where
  "PT_RULE_TG =
     mk_pt_rule ''IN'' ''TG'' ''Telangana'' IB_MONTHLY DF_MONTHLY (Date 2013 2 6)
       [mk_pt_slab G_ANY 0 (Some 15000) 0 [],
        mk_pt_slab G_ANY 15001 (Some 20000) 150 [],
        mk_pt_slab G_ANY (2000001 / 100) None 200 []]"

definition PT_RULE_MP :: professional_tax_rule where
  "PT_RULE_MP =
     mk_pt_rule ''IN'' ''MP'' ''Madhya Pradesh'' IB_ANNUAL DF_MONTHLY (Date 2018 4 1)
       [mk_pt_slab G_ANY 0 (Some 225000) 0 [],
        mk_pt_slab G_ANY 225001 (Some 300000) 125 (APRIL_TO_FEBRUARY @ [3]),
        mk_pt_slab G_ANY 300001 (Some 400000) 166 APRIL_TO_FEBRUARY,
        mk_pt_slab G_ANY 300001 (Some 400000) 174 [3],
        mk_pt_slab G_ANY 400001 None 208 APRIL_TO_FEBRUARY,
        mk_pt_slab G_ANY 400001 None 212 [3]]"

definition PT_RULE_GJ :: professional_tax_rule where
  "PT_RULE_GJ =
     mk_pt_rule ''IN'' ''GJ'' ''Gujarat'' IB_MONTHLY DF_MONTHLY (Date 2011 4 1)
       [mk_pt_slab G_ANY 0 (Some (1199999 / 100)) 0 [],
        mk_pt_slab G_ANY 12000 None 200 []]"

definition PT_RULE_HR :: professional_tax_rule where
  "PT_RULE_HR =
     mk_pt_rule ''IN'' ''HR'' ''Haryana'' IB_MONTHLY DF_MONTHLY (Date 2018 4 1)
       [mk_pt_slab G_ANY 0 (Some (2499999 / 100)) 0 [],
        mk_pt_slab G_ANY 25000 None 200 []]"

definition PT_RULE_PB :: professional_tax_rule where
  "PT_RULE_PB =
     mk_pt_rule ''IN'' ''PB'' ''Punjab'' IB_MONTHLY DF_MONTHLY (Date 2018 4 1)
       [mk_pt_slab G_FEMALE 0 None 0 [],
        mk_pt_slab G_MALE 0 (Some 20833) 0 [],
        mk_pt_slab G_MALE (2083301 / 100) None 200 [],
        mk_pt_slab G_ANY 0 (Some 20833) 0 []]"

definition PT_RULE_OD :: professional_tax_rule where
  "PT_RULE_OD =
     mk_pt_rule ''IN'' ''OD'' ''Odisha'' IB_MONTHLY DF_MONTHLY (Date 2018 4 1)
       [mk_pt_slab G_ANY 0 (Some (2499999 / 100)) 0 [],
        mk_pt_slab G_ANY 25000 None 200 []]"

definition PT_RULE_RJ :: professional_tax_rule where
  "PT_RULE_RJ =
     mk_pt_rule ''IN'' ''RJ'' ''Rajasthan'' IB_MONTHLY DF_MONTHLY (Date 2017 1 1)
       [mk_pt_slab G_ANY 0 None 0 []]"

definition PT_RULE_HP :: professional_tax_rule where
  "PT_RULE_HP =
     mk_pt_rule ''IN'' ''HP'' ''Himachal Pradesh'' IB_MONTHLY DF_MONTHLY (Date 2018 4 1)
       [mk_pt_slab G_ANY 0 (Some (999999 / 100)) 0 [],
        mk_pt_slab G_ANY 10000 None 200 []]"

definition PT_RULE_CT :: professional_tax_rule where
  "PT_RULE_CT =
     mk_pt_rule ''IN'' ''CT'' ''Chhattisgarh'' IB_MONTHLY DF_MONTHLY (Date 2018 4 1)
       [mk_pt_slab G_ANY 0 (Some (2499999 / 100)) 0 [],
        mk_pt_slab G_ANY 25000 None 200 []]"

definition PT_RULE_JH :: professional_tax_rule where
  "PT_RULE_JH =
     mk_pt_rule ''IN'' ''JH'' ''Jharkhand'' IB_MONTHLY DF_MONTHLY (Date 2018 4 1)
       [mk_pt_slab G_ANY 0 (Some (2499999 / 100)) 0 [],
        mk_pt_slab G_ANY 25000 (Some 41666) 100 [],
        mk_pt_slab G_ANY (4166601 / 100) None 150 []]"

definition PROFESSIONAL_TAX_RULES :: "professional_tax_rule list" where
  "PROFESSIONAL_TAX_RULES =
     [PT_RULE_MH, PT_RULE_KA, PT_RULE_TN, PT_RULE_WB, PT_RULE_AP,
      PT_RULE_TG, PT_RULE_MP, PT_RULE_GJ, PT_RULE_HR, PT_RULE_PB,
      PT_RULE_OD, PT_RULE_RJ, PT_RULE_HP, PT_RULE_CT, PT_RULE_JH]"

section \<open>Labour welfare fund rules\<close>

definition LWF_RULE_MH :: labour_welfare_fund_rule where
  "LWF_RULE_MH =
     mk_lwf_rule ''IN'' ''MH'' ''Maharashtra'' IB_MONTHLY DF_HALF_YEARLY (Date 1984 6 23)
       [mk_lwf_contribution (Some 0) (Some (299999 / 100)) 6 18 [6, 12],
        mk_lwf_contribution (Some 3000) None 12 36 [6, 12]]"

definition LWF_RULE_KA :: labour_welfare_fund_rule where
  "LWF_RULE_KA =
     mk_lwf_rule ''IN'' ''KA'' ''Karnataka'' IB_MONTHLY DF_ANNUAL (Date 2025 1 1)
       [mk_lwf_contribution None None 20 40 [12]]"

definition LWF_RULE_AP :: labour_welfare_fund_rule where
  "LWF_RULE_AP =
     mk_lwf_rule ''IN'' ''AP'' ''Andhra Pradesh'' IB_MONTHLY DF_ANNUAL (Date 2018 1 1)
       [mk_lwf_contribution None None 40 60 [12]]"

definition LWF_RULE_TG :: labour_welfare_fund_rule where
  "LWF_RULE_TG =
     mk_lwf_rule ''IN'' ''TG'' ''Telangana'' IB_MONTHLY DF_ANNUAL (Date 2018 1 1)
       [mk_lwf_contribution None None 40 60 [12]]"

definition LWF_RULE_MP :: labour_welfare_fund_rule where
  "LWF_RULE_MP =
     mk_lwf_rule ''IN'' ''MP'' ''Madhya Pradesh'' IB_MONTHLY DF_ANNUAL (Date 2018 1 1)
       [mk_lwf_contribution (Some 0) (Some 10000) 10 30 [12]]"

definition LWF_RULE_HR :: labour_welfare_fund_rule where
  "LWF_RULE_HR =
     mk_lwf_rule ''IN'' ''HR'' ''Haryana'' IB_MONTHLY DF_MONTHLY (Date 2018 1 1)
       [mk_lwf_contribution None None (750 / 100) (2250 / 100) []]"

definition LWF_RULE_OD :: labour_welfare_fund_rule where
  "LWF_RULE_OD =
     mk_lwf_rule ''IN'' ''OD'' ''Odisha'' IB_MONTHLY DF_ANNUAL (Date 2018 1 1)
       [mk_lwf_contribution None None 20 40 [12]]"

definition LWF_RULE_WB :: labour_welfare_fund_rule where
  "LWF_RULE_WB =
     mk_lwf_rule ''IN'' ''WB'' ''West Bengal'' IB_MONTHLY DF_ANNUAL (Date 2018 1 1)
       [mk_lwf_contribution None None 3 6 [12]]"

definition LABOUR_WELFARE_FUND_RULES :: "labour_welfare_fund_rule list" where
  "LABOUR_WELFARE_FUND_RULES =
     [LWF_RULE_MH, LWF_RULE_KA, LWF_RULE_AP, LWF_RULE_TG, LWF_RULE_MP,
      LWF_RULE_HR, LWF_RULE_OD, LWF_RULE_WB]"

section \<open>Income tax masters and surcharge rows\<close>

definition NEW_REGIME_2024_SLABS :: "payroll_tax_slab list" where
  "NEW_REGIME_2024_SLABS =
     [mk_slab 0 (Some 300000) 0,
      mk_slab 300000 (Some 700000) 5,
      mk_slab 700000 (Some 1000000) 10,
      mk_slab 1000000 (Some 1200000) 15,
      mk_slab 1200000 (Some 1500000) 20,
      mk_slab 1500000 None 30]"

definition NEW_REGIME_2025_SLABS :: "payroll_tax_slab list" where
  "NEW_REGIME_2025_SLABS =
     [mk_slab 0 (Some 400000) 0,
      mk_slab 400000 (Some 800000) 5,
      mk_slab 800000 (Some 1200000) 10,
      mk_slab 1200000 (Some 1600000) 15,
      mk_slab 1600000 (Some 2000000) 20,
      mk_slab 2000000 (Some 2400000) 25,
      mk_slab 2400000 None 30]"

definition TAX_MASTER_NEW_2024_INDIVIDUAL :: tax_master where
  "TAX_MASTER_NEW_2024_INDIVIDUAL =
     mk_tax_master ''2024-2025'' ''IN'' False INDIVIDUAL
       ''India New Regime 2024-2025 (Individual)'' NEW_REGIME_2024_SLABS"

definition TAX_MASTER_NEW_2024_SENIOR_CITIZEN :: tax_master where
  "TAX_MASTER_NEW_2024_SENIOR_CITIZEN =
     mk_tax_master ''2024-2025'' ''IN'' False SENIOR_CITIZEN
       ''India New Regime 2024-2025 (Senior Citizen)'' NEW_REGIME_2024_SLABS"

definition TAX_MASTER_NEW_2024_SUPER_SENIOR_CITIZEN :: tax_master where
  "TAX_MASTER_NEW_2024_SUPER_SENIOR_CITIZEN =
     mk_tax_master ''2024-2025'' ''IN'' False SUPER_SENIOR_CITIZEN
       ''India New Regime 2024-2025 (Super Senior Citizen)'' NEW_REGIME_2024_SLABS"

definition TAX_MASTER_OLD_2024_INDIVIDUAL :: tax_master where
  "TAX_MASTER_OLD_2024_INDIVIDUAL =
     mk_tax_master ''2024-2025'' ''IN'' True INDIVIDUAL
       ''India Old Regime 2024-2025 (Individual)''
     [mk_slab 0 (Some 250000) 0,
      mk_slab 250000 (Some 500000) 5,
      mk_slab 500000 (Some 1000000) 20,
      mk_slab 1000000 None 30]"

definition TAX_MASTER_OLD_2024_SENIOR_CITIZEN :: tax_master where
  "TAX_MASTER_OLD_2024_SENIOR_CITIZEN =
     mk_tax_master ''2024-2025'' ''IN'' True SENIOR_CITIZEN
       ''India Old Regime 2024-2025 (Senior Citizen)''
     [mk_slab 0 (Some 300000) 0,
      mk_slab 300000 (Some 500000) 5,
      mk_slab 500000 (Some 1000000) 20,
      mk_slab 1000000 None 30]"

definition TAX_MASTER_OLD_2024_SUPER_SENIOR_CITIZEN :: tax_master where
  "TAX_MASTER_OLD_2024_SUPER_SENIOR_CITIZEN =
     mk_tax_master ''2024-2025'' ''IN'' True SUPER_SENIOR_CITIZEN
       ''India Old Regime 2024-2025 (Super Senior Citizen)''
     [mk_slab 0 (Some 500000) 0,
      mk_slab 500000 (Some 1000000) 20,
      mk_slab 1000000 None 30]"

definition TAX_MASTER_NEW_2025_INDIVIDUAL :: tax_master where
  "TAX_MASTER_NEW_2025_INDIVIDUAL =
     mk_tax_master ''2025-2026'' ''IN'' False INDIVIDUAL
       ''India New Regime 2025-2026 (Individual)'' NEW_REGIME_2025_SLABS"

definition TAX_MASTER_NEW_2025_SENIOR_CITIZEN :: tax_master where
  "TAX_MASTER_NEW_2025_SENIOR_CITIZEN =
     mk_tax_master ''2025-2026'' ''IN'' False SENIOR_CITIZEN
       ''India New Regime 2025-2026 (Senior Citizen)'' NEW_REGIME_2025_SLABS"

definition TAX_MASTER_NEW_2025_SUPER_SENIOR_CITIZEN :: tax_master where
  "TAX_MASTER_NEW_2025_SUPER_SENIOR_CITIZEN =
     mk_tax_master ''2025-2026'' ''IN'' False SUPER_SENIOR_CITIZEN
       ''India New Regime 2025-2026 (Super Senior Citizen)'' NEW_REGIME_2025_SLABS"

definition TAX_MASTER_OLD_2025_INDIVIDUAL :: tax_master where
  "TAX_MASTER_OLD_2025_INDIVIDUAL =
     mk_tax_master ''2025-2026'' ''IN'' True INDIVIDUAL
       ''India Old Regime 2025-2026 (Individual)''
     [mk_slab 0 (Some 250000) 0,
      mk_slab 250000 (Some 500000) 5,
      mk_slab 500000 (Some 1000000) 20,
      mk_slab 1000000 None 30]"

definition TAX_MASTER_OLD_2025_SENIOR_CITIZEN :: tax_master where
  "TAX_MASTER_OLD_2025_SENIOR_CITIZEN =
     mk_tax_master ''2025-2026'' ''IN'' True SENIOR_CITIZEN
       ''India Old Regime 2025-2026 (Senior Citizen)''
     [mk_slab 0 (Some 300000) 0,
      mk_slab 300000 (Some 500000) 5,
      mk_slab 500000 (Some 1000000) 20,
      mk_slab 1000000 None 30]"

definition TAX_MASTER_OLD_2025_SUPER_SENIOR_CITIZEN :: tax_master where
  "TAX_MASTER_OLD_2025_SUPER_SENIOR_CITIZEN =
     mk_tax_master ''2025-2026'' ''IN'' True SUPER_SENIOR_CITIZEN
       ''India Old Regime 2025-2026 (Super Senior Citizen)''
     [mk_slab 0 (Some 500000) 0,
      mk_slab 500000 (Some 1000000) 20,
      mk_slab 1000000 None 30]"

definition INCOME_TAX_SLAB_MASTERS :: "tax_master list" where
  "INCOME_TAX_SLAB_MASTERS =
     [TAX_MASTER_NEW_2024_INDIVIDUAL, TAX_MASTER_NEW_2024_SENIOR_CITIZEN,
      TAX_MASTER_NEW_2024_SUPER_SENIOR_CITIZEN, TAX_MASTER_OLD_2024_INDIVIDUAL,
      TAX_MASTER_OLD_2024_SENIOR_CITIZEN, TAX_MASTER_OLD_2024_SUPER_SENIOR_CITIZEN,
      TAX_MASTER_NEW_2025_INDIVIDUAL, TAX_MASTER_NEW_2025_SENIOR_CITIZEN,
      TAX_MASTER_NEW_2025_SUPER_SENIOR_CITIZEN, TAX_MASTER_OLD_2025_INDIVIDUAL,
      TAX_MASTER_OLD_2025_SENIOR_CITIZEN, TAX_MASTER_OLD_2025_SUPER_SENIOR_CITIZEN]"

definition surcharge_data :: "(string \<times> string \<times> rat \<times> rat) list" where
  "surcharge_data =
     [(''2024-2025'', ''NEW'', 5000000, 0),
      (''2024-2025'', ''NEW'', 10000000, 10),
      (''2024-2025'', ''NEW'', 20000000, 15),
      (''2024-2025'', ''NEW'', 50000000, 25),
      (''2024-2025'', ''OLD'', 5000000, 10),
      (''2024-2025'', ''OLD'', 10000000, 10),
      (''2024-2025'', ''OLD'', 20000000, 15),
      (''2024-2025'', ''OLD'', 50000000, 37),
      (''2025-2026'', ''NEW'', 5000000, 0),
      (''2025-2026'', ''NEW'', 10000000, 10),
      (''2025-2026'', ''NEW'', 20000000, 15),
      (''2025-2026'', ''NEW'', 50000000, 25),
      (''2025-2026'', ''OLD'', 5000000, 10),
      (''2025-2026'', ''OLD'', 10000000, 10),
      (''2025-2026'', ''OLD'', 20000000, 15),
      (''2025-2026'', ''OLD'', 50000000, 37)]"

section \<open>Seeding\<close>

text \<open>
  \<open>update_or_create(key, defaults)\<close> on a table whose key is unique: the matching row is
  rewritten, or the new row is appended. \<open>get_or_create\<close> is the case where nothing is rewritten.
\<close>

definition upsert :: "('r \<Rightarrow> 'k) \<Rightarrow> 'k \<Rightarrow> ('r \<Rightarrow> 'r) \<Rightarrow> 'r \<Rightarrow> 'r list \<Rightarrow> 'r list" where
  "upsert key k rewr new table =
     (if k \<in> set (map key table) then update_where (\<lambda>r. key r = k) rewr table else table @ [new])"

definition fresh_id :: "('r \<Rightarrow> uid) \<Rightarrow> 'r list \<Rightarrow> uid" where
  "fresh_id ident table = Suc (foldr (\<lambda>r m. max (ident r) m) table 0)"

definition slab_set_key ::
  "payroll_tax_slab_set \<Rightarrow> uid option \<times> string \<times> string \<times> bool \<times> tax_category" where
  "slab_set_key s = (ts_organisation s, ts_country_code s, ts_fiscal_year s, ts_is_old_regime s,
     ts_tax_category s)"

definition tax_master_key :: "tax_master \<Rightarrow> uid option \<times> string \<times> string \<times> bool \<times> tax_category" where
  "tax_master_key m = (None, tm_country_code m, tm_fiscal_year m, tm_is_old_regime m, tm_tax_category m)"

definition write_tax_master :: "tax_master \<Rightarrow> payroll_tax_slab_set \<Rightarrow> payroll_tax_slab_set" where
  "write_tax_master m s =
     s\<lparr>ts_name := tm_name m, ts_is_system_master := True, ts_is_active := True, ts_slabs := tm_slabs m\<rparr>"

definition new_tax_master :: "tax_master \<Rightarrow> payroll_tax_slab_set list \<Rightarrow> payroll_tax_slab_set" where
  "new_tax_master m table =
     \<lparr>ts_id = fresh_id ts_id table, ts_organisation = None, ts_source_set = None,
      ts_name = tm_name m, ts_country_code = tm_country_code m, ts_fiscal_year = tm_fiscal_year m,
      ts_is_active = True, ts_is_system_master = True, ts_is_old_regime = tm_is_old_regime m,
      ts_tax_category = tm_tax_category m, ts_slabs = tm_slabs m\<rparr>"

definition put_tax_master :: "tax_master \<Rightarrow> payroll_tax_slab_set list \<Rightarrow> payroll_tax_slab_set list" where
  "put_tax_master m table =
     upsert slab_set_key (tax_master_key m) (write_tax_master m) (new_tax_master m table) table"

definition seed_income_tax_masters :: "payroll_tax_slab_set list \<Rightarrow> payroll_tax_slab_set list \<times> nat" where
  "seed_income_tax_masters table =
     (fold put_tax_master INCOME_TAX_SLAB_MASTERS table, length INCOME_TAX_SLAB_MASTERS)"

definition pt_rule_key :: "professional_tax_rule \<Rightarrow> string \<times> string \<times> date" where
  "pt_rule_key r = (ptr_country_code r, ptr_state_code r, ptr_effective_from r)"

text \<open>The defaults do not name \<open>effective_to\<close> and \<open>is_active\<close>: an update leaves them.\<close>

definition write_pt_rule :: "professional_tax_rule \<Rightarrow> professional_tax_rule \<Rightarrow> professional_tax_rule" where
  "write_pt_rule d r =
     r\<lparr>ptr_state_name := ptr_state_name d, ptr_income_basis := ptr_income_basis d,
       ptr_deduction_frequency := ptr_deduction_frequency d, ptr_slabs := ptr_slabs d\<rparr>"

definition put_pt_rule :: "professional_tax_rule \<Rightarrow> professional_tax_rule list \<Rightarrow> professional_tax_rule list" where
  "put_pt_rule d table = upsert pt_rule_key (pt_rule_key d) (write_pt_rule d) d table"

definition lwf_rule_key :: "labour_welfare_fund_rule \<Rightarrow> string \<times> string \<times> date" where
  "lwf_rule_key r = (lwr_country_code r, lwr_state_code r, lwr_effective_from r)"

definition write_lwf_rule ::
  "labour_welfare_fund_rule \<Rightarrow> labour_welfare_fund_rule \<Rightarrow> labour_welfare_fund_rule" where
  "write_lwf_rule d r =
     r\<lparr>lwr_state_name := lwr_state_name d, lwr_wage_basis := lwr_wage_basis d,
       lwr_deduction_frequency := lwr_deduction_frequency d, lwr_contributions := lwr_contributions d\<rparr>"

definition put_lwf_rule ::
  "labour_welfare_fund_rule \<Rightarrow> labour_welfare_fund_rule list \<Rightarrow> labour_welfare_fund_rule list" where
  "put_lwf_rule d table = upsert lwf_rule_key (lwf_rule_key d) (write_lwf_rule d) d table"

definition surcharge_rule_key :: "surcharge_rule \<Rightarrow> string \<times> string \<times> rat" where
  "surcharge_rule_key r = (sr_fiscal_year r, sr_tax_regime r, sr_income_threshold r)"

definition mk_surcharge_rule :: "string \<times> string \<times> rat \<times> rat \<Rightarrow> surcharge_rule" where
  "mk_surcharge_rule = (\<lambda>(fy, regime, threshold, rate).
     \<lparr>sr_fiscal_year = fy, sr_tax_regime = regime, sr_income_threshold = threshold,
      sr_surcharge_rate_percent = rate,
      sr_effective_from = (if fy = ''2024-2025'' then Date 2024 4 1 else Date 2025 4 1)\<rparr>)"

definition put_surcharge_rule :: "string \<times> string \<times> rat \<times> rat \<Rightarrow> surcharge_rule list \<Rightarrow> surcharge_rule list" where
  "put_surcharge_rule d table =
     upsert surcharge_rule_key (surcharge_rule_key (mk_surcharge_rule d)) (\<lambda>r. r) (mk_surcharge_rule d) table"

text \<open>The rows that were created are returned, in order.\<close>

definition seed_surcharge_step ::
  "string \<times> string \<times> rat \<times> rat \<Rightarrow> surcharge_rule list \<times> surcharge_rule list
    \<Rightarrow> surcharge_rule list \<times> surcharge_rule list" where
  "seed_surcharge_step d acc =
     (let new = mk_surcharge_rule d; exists = surcharge_rule_key new \<in> set (map surcharge_rule_key (fst acc))
      in (put_surcharge_rule d (fst acc), if exists then snd acc else snd acc @ [new]))"

definition seed_surcharge_rules :: "surcharge_rule list \<Rightarrow> surcharge_rule list \<times> surcharge_rule list" where
  "seed_surcharge_rules table = fold seed_surcharge_step surcharge_data (table, [])"

record statutory_masters =
  sm_slab_sets :: "payroll_tax_slab_set list"
  sm_pt_rules :: "professional_tax_rule list"
  sm_lwf_rules :: "labour_welfare_fund_rule list"
  sm_surcharge_rules :: "surcharge_rule list"

text \<open>Returns the tables and the three counts of the source's dictionary.\<close>

definition seed_statutory_master_data :: "statutory_masters \<Rightarrow> statutory_masters \<times> nat \<times> nat \<times> nat" where
  "seed_statutory_master_data db =
     (let db1 = db\<lparr>sm_pt_rules := fold put_pt_rule PROFESSIONAL_TAX_RULES (sm_pt_rules db)\<rparr>;
          db2 = db1\<lparr>sm_lwf_rules := fold put_lwf_rule LABOUR_WELFARE_FUND_RULES (sm_lwf_rules db1)\<rparr>;
          (slab_sets, it_count) = seed_income_tax_masters (sm_slab_sets db2);
          db3 = db2\<lparr>sm_slab_sets := slab_sets\<rparr>;
          db4 = db3\<lparr>sm_surcharge_rules := fst (seed_surcharge_rules (sm_surcharge_rules db3))\<rparr>
      in (db4, length PROFESSIONAL_TAX_RULES, length LABOUR_WELFARE_FUND_RULES, it_count))"

section \<open>Seeding a keyed table\<close>

text \<open>
  The contract of a seeding function, and what follows from it: a second run changes nothing,
  every datum's row carries the datum afterwards, rows with other keys are left alone, and the
  key stays unique.
\<close>

locale seeding =
  fixes key :: "'r \<Rightarrow> 'k" and dkey :: "'d \<Rightarrow> 'k" and rewr :: "'d \<Rightarrow> 'r \<Rightarrow> 'r"
    and create :: "'d \<Rightarrow> 'r list \<Rightarrow> 'r" and put :: "'d \<Rightarrow> 'r list \<Rightarrow> 'r list"
  assumes put_upsert: "put d t = upsert key (dkey d) (rewr d) (create d t) t"
    and key_rewr: "key (rewr d r) = key r"
    and key_create: "key (create d t) = dkey d"
    and rewr_rewr: "rewr d (rewr d r) = rewr d r"
    and rewr_create: "rewr d (create d t) = create d t"
begin

lemma put_keys: "map key (put d t) = (if dkey d \<in> set (map key t) then map key t else map key t @ [dkey d])"
  by (auto simp: put_upsert upsert_def key_create map_update_where_frame [of _ key "rewr d"] key_rewr)

lemma put_distinct: "distinct (map key t) \<Longrightarrow> distinct (map key (put d t))"
  by (simp add: put_keys)

lemma fold_put_distinct: "distinct (map key t) \<Longrightarrow> distinct (map key (fold put ds t))"
  by (induction ds arbitrary: t) (simp_all add: put_distinct)

lemma put_written:
  assumes "r \<in> set (put d t)" "key r = dkey d"
  shows "rewr d r = r"
proof (cases "dkey d \<in> key ` set t")
  case True
  with assms show ?thesis by (auto simp: put_upsert upsert_def rewr_rewr set_update_where split: if_splits)
next
  case False
  then have "r \<notin> set t" using assms(2) by (metis imageI)
  with False assms show ?thesis by (auto simp: put_upsert upsert_def rewr_create)
qed

lemma put_other: "dkey d \<noteq> k \<Longrightarrow> filter (\<lambda>r. key r = k) (put d t) = filter (\<lambda>r. key r = k) t"
  by (auto simp: put_upsert upsert_def key_create key_rewr intro: filter_update_where_other)

lemma fold_put_other:
  "k \<notin> dkey ` set ds \<Longrightarrow> filter (\<lambda>r. key r = k) (fold put ds t) = filter (\<lambda>r. key r = k) t"
  by (induction ds arbitrary: t) (auto simp: put_other)

lemma put_mono_keys: "key ` set t \<subseteq> key ` set (put d t)"
proof -
  have "set (map key t) \<subseteq> set (map key (put d t))" unfolding put_keys by auto
  then show ?thesis by simp
qed

lemma fold_put_mono_keys: "key ` set t \<subseteq> key ` set (fold put ds t)"
proof (induction ds arbitrary: t)
  case (Cons d ds)
  show ?case using put_mono_keys [of t d] Cons.IH [of "put d t"] by (simp add: subset_trans)
qed simp

lemma put_has_key: "dkey d \<in> key ` set (put d t)"
proof -
  have "dkey d \<in> set (map key (put d t))" unfolding put_keys by auto
  then show ?thesis by simp
qed

lemma fold_put_keys: "dkey ` set ds \<subseteq> key ` set (fold put ds t)"
proof (induction ds arbitrary: t)
  case (Cons d ds)
  have "dkey d \<in> key ` set (put d t)" by (rule put_has_key)
  then have "dkey d \<in> key ` set (fold put ds (put d t))"
    using fold_put_mono_keys by blast
  with Cons.IH show ?case by simp
qed simp

lemma fold_put_written:
  "distinct (map dkey ds) \<Longrightarrow> d \<in> set ds \<Longrightarrow> r \<in> set (fold put ds t) \<Longrightarrow> key r = dkey d \<Longrightarrow> rewr d r = r"
proof (induction ds arbitrary: t)
  case (Cons e es)
  show ?case
  proof (cases "d = e")
    case True
    then have "dkey d \<notin> dkey ` set es" using Cons.prems(1) by auto
    then have "filter (\<lambda>r. key r = dkey d) (fold put es (put d t)) = filter (\<lambda>r. key r = dkey d) (put d t)"
      by (rule fold_put_other)
    moreover have "r \<in> set (filter (\<lambda>r. key r = dkey d) (fold put es (put d t)))"
      using Cons.prems(3,4) True by simp
    ultimately have "r \<in> set (put d t)" by (metis (no_types, lifting) filter_is_subset subsetD)
    then show ?thesis using Cons.prems(4) by (rule put_written)
  next
    case False
    then show ?thesis using Cons by simp
  qed
qed simp

lemma put_id: "dkey d \<in> key ` set t \<Longrightarrow> (\<And>r. r \<in> set t \<Longrightarrow> key r = dkey d \<Longrightarrow> rewr d r = r) \<Longrightarrow> put d t = t"
  by (auto simp: put_upsert upsert_def update_where_def intro!: map_idI)

lemma fold_put_id:
  "(\<And>d. d \<in> set ds \<Longrightarrow> dkey d \<in> key ` set t) \<Longrightarrow>
   (\<And>d r. d \<in> set ds \<Longrightarrow> r \<in> set t \<Longrightarrow> key r = dkey d \<Longrightarrow> rewr d r = r) \<Longrightarrow> fold put ds t = t"
  by (induction ds) (simp_all add: put_id)

theorem fold_put_idem:
  assumes "distinct (map dkey ds)"
  shows "fold put ds (fold put ds t) = fold put ds t"
  using fold_put_keys fold_put_written [OF assms] by (intro fold_put_id) blast+

lemma fold_put_row:
  assumes "distinct (map dkey ds)" "d \<in> set ds"
  obtains r where "r \<in> set (fold put ds t)" "key r = dkey d" "rewr d r = r"
proof -
  from assms(2) fold_put_keys have "dkey d \<in> key ` set (fold put ds t)" by blast
  then obtain r where "r \<in> set (fold put ds t)" "key r = dkey d" by auto
  with fold_put_written [OF assms this] that show thesis by blast
qed

end

interpretation tax_seed: seeding slab_set_key tax_master_key write_tax_master new_tax_master put_tax_master
  by unfold_locales
     (simp_all add: put_tax_master_def slab_set_key_def write_tax_master_def new_tax_master_def tax_master_key_def)

interpretation pt_seed: seeding pt_rule_key pt_rule_key write_pt_rule "\<lambda>d t. d" put_pt_rule
  by unfold_locales (simp_all add: put_pt_rule_def pt_rule_key_def write_pt_rule_def)

interpretation lwf_seed: seeding lwf_rule_key lwf_rule_key write_lwf_rule "\<lambda>d t. d" put_lwf_rule
  by unfold_locales (simp_all add: put_lwf_rule_def lwf_rule_key_def write_lwf_rule_def)

interpretation sur_seed: seeding surcharge_rule_key "\<lambda>d. surcharge_rule_key (mk_surcharge_rule d)"
    "\<lambda>d r. r" "\<lambda>d t. mk_surcharge_rule d" put_surcharge_rule
  by unfold_locales (simp_all add: put_surcharge_rule_def)

section \<open>What the seeded masters are\<close>

lemma distinct_tax_masters: "distinct (map tax_master_key INCOME_TAX_SLAB_MASTERS)"
  by code_simp

lemma distinct_pt_rules: "distinct (map pt_rule_key PROFESSIONAL_TAX_RULES)"
  by code_simp

lemma distinct_lwf_rules: "distinct (map lwf_rule_key LABOUR_WELFARE_FUND_RULES)"
  by code_simp

lemma distinct_surcharge_data:
  "distinct (map (\<lambda>d. surcharge_rule_key (mk_surcharge_rule d)) surcharge_data)"
  by code_simp

lemma fst_fold_surcharge_step: "fst (fold seed_surcharge_step ds (t, c)) = fold put_surcharge_rule ds t"
  by (induction ds arbitrary: t c) (simp_all add: seed_surcharge_step_def Let_def)

lemma fst_seed_surcharge_rules: "fst (seed_surcharge_rules t) = fold put_surcharge_rule surcharge_data t"
  by (simp add: seed_surcharge_rules_def fst_fold_surcharge_step)

lemma seed_tables:
  "sm_slab_sets (fst (seed_statutory_master_data db)) = fold put_tax_master INCOME_TAX_SLAB_MASTERS (sm_slab_sets db)"
  "sm_pt_rules (fst (seed_statutory_master_data db)) = fold put_pt_rule PROFESSIONAL_TAX_RULES (sm_pt_rules db)"
  "sm_lwf_rules (fst (seed_statutory_master_data db)) = fold put_lwf_rule LABOUR_WELFARE_FUND_RULES (sm_lwf_rules db)"
  "sm_surcharge_rules (fst (seed_statutory_master_data db)) = fold put_surcharge_rule surcharge_data (sm_surcharge_rules db)"
  by (simp_all add: seed_statutory_master_data_def seed_income_tax_masters_def fst_seed_surcharge_rules Let_def)

lemmas seed_idem =
  tax_seed.fold_put_idem [OF distinct_tax_masters]
  pt_seed.fold_put_idem [OF distinct_pt_rules]
  lwf_seed.fold_put_idem [OF distinct_lwf_rules]
  sur_seed.fold_put_idem [OF distinct_surcharge_data]

text \<open>A schedule that can be taxed by: from zero, without gaps, open at the top, rates rising.\<close>

definition sound_schedule :: "payroll_tax_slab list \<Rightarrow> bool" where
  "sound_schedule slabs =
     (slabs \<noteq> [] \<and> min_income (hd slabs) = 0 \<and> max_income (last slabs) = None \<and> contiguous slabs \<and>
      sorted (map rate_percent slabs) \<and> list_all (\<lambda>s. 0 \<le> rate_percent s \<and> rate_percent s \<le> 100) slabs)"

lemma sound_masters: "list_all (\<lambda>m. sound_schedule (tm_slabs m)) INCOME_TAX_SLAB_MASTERS"
  by code_simp

lemma sound_rates_nonneg: "sound_schedule slabs \<Longrightarrow> rates_nonneg slabs"
  by (auto simp: sound_schedule_def rates_nonneg_def list_all_iff)

definition seeded_year_regime_category :: "(string \<times> bool \<times> tax_category) list" where
  "seeded_year_regime_category =
     List.product [''2024-2025'', ''2025-2026'']
       (List.product [False, True] [INDIVIDUAL, SENIOR_CITIZEN, SUPER_SENIOR_CITIZEN])"

lemma masters_cover_aux:
  "list_all (\<lambda>(fy, old, c). list_ex (\<lambda>m. tax_master_key m = (None, ''IN'', fy, old, c)) INCOME_TAX_SLAB_MASTERS)
     seeded_year_regime_category"
  by code_simp

lemma masters_cover:
  assumes "(fy, old, c) \<in> set seeded_year_regime_category"
  obtains m where "m \<in> set INCOME_TAX_SLAB_MASTERS" "tax_master_key m = (None, ''IN'', fy, old, c)"
  using masters_cover_aux assms unfolding list_all_iff list_ex_iff by blast

lemma seeded_slab_set:
  assumes "m \<in> set INCOME_TAX_SLAB_MASTERS"
    and "s \<in> set (sm_slab_sets (fst (seed_statutory_master_data db)))"
    and "slab_set_key s = tax_master_key m"
  shows "ts_slabs s = tm_slabs m \<and> ts_is_active s \<and> ts_is_system_master s"
proof -
  have "write_tax_master m s = s"
    using tax_seed.fold_put_written [OF distinct_tax_masters assms(1)] assms(2,3)
    unfolding seed_tables by blast
  then have "ts_slabs (write_tax_master m s) = ts_slabs s"
    "ts_is_active (write_tax_master m s) = ts_is_active s"
    "ts_is_system_master (write_tax_master m s) = ts_is_system_master s" by simp_all
  then show ?thesis by (simp add: write_tax_master_def)
qed

definition regime_name :: "bool \<Rightarrow> string" where
  "regime_name old = (if old then ''OLD'' else ''NEW'')"

lemma label_facts:
  "normalize_fiscal_year_label ''2024-2025'' = ''2024-2025''"
  "normalize_fiscal_year_label ''2025-2026'' = ''2025-2026''"
  "regime_key ''NEW'' = ''NEW''" "regime_key ''OLD'' = ''OLD''"
  by code_simp+

lemma rebate_params_of_masters:
  "get_rebate_87a_params ''2024-2025'' ''NEW'' = (700000, 25000)"
  "get_rebate_87a_params ''2024-2025'' ''OLD'' = (500000, 12500)"
  "get_rebate_87a_params ''2025-2026'' ''NEW'' = (1200000, 60000)"
  "get_rebate_87a_params ''2025-2026'' ''OLD'' = (500000, 12500)"
  by (simp_all add: get_rebate_87a_params_def label_facts REBATE_87A_PARAMS_def INDIA_REBATE_87A_THRESHOLD_def
      INDIA_REBATE_87A_MAX_def OLD_REGIME_REBATE_87A_THRESHOLD_def OLD_REGIME_REBATE_87A_MAX_def)

definition seeded_params :: "string \<Rightarrow> bool \<Rightarrow> rat \<times> rat" where
  "seeded_params fy old =
     (if old then (500000, 12500) else if fy = ''2024-2025'' then (700000, 25000) else (1200000, 60000))"

lemma seeded_params:
  assumes "(fy, old, c) \<in> set seeded_year_regime_category"
  shows "get_rebate_87a_params fy (regime_name old) = seeded_params fy old"
  using assms by (auto simp: seeded_year_regime_category_def rebate_params_of_masters regime_name_def seeded_params_def)

lemma seeded_params_bounds:
  "money (fst (seeded_params fy old))" "money (snd (seeded_params fy old))" "fst (seeded_params fy old) < 5000000"
  by (simp_all add: seeded_params_def)

text \<open>At the rebate threshold the slab tax does not exceed the rebate, in every seeded master.\<close>

lemma masters_within_rebate:
  "list_all (\<lambda>m. case seeded_params (tm_fiscal_year m) (tm_is_old_regime m) of
     (t, r) \<Rightarrow> calculate_annual_tax (tm_slabs m) t \<le> r) INCOME_TAX_SLAB_MASTERS"
  by code_simp

lemma no_tier_below:
  assumes "list_all (\<lambda>t. income \<le> fst t) tiers"
  shows "current_tier_loop tiers income None = None"
  using assms by (cases tiers) auto

section \<open>Properties\<close>

text \<open>
  C30: Seeding the statutory masters is idempotent: on any database, a second run of
  \<open>seed_statutory_master_data\<close> leaves every table exactly as the first run left it.
\<close>

theorem seeding_is_idempotent:
  "fst (seed_statutory_master_data (fst (seed_statutory_master_data db))) = fst (seed_statutory_master_data db)"
  by (rule statutory_masters.equality) (simp_all only: seed_tables seed_idem, simp)

text \<open>
  After seeding any database, each of the twelve combinations of fiscal year, regime and age
  category has an active system master, and every such master's slabs start at zero, leave no gap,
  overlap nowhere, are open at the top and have non-decreasing rates between 0 and 100 percent.
\<close>

theorem seeded_schedules_sound:
  assumes "(fy, old, c) \<in> set seeded_year_regime_category"
    and "sets = sm_slab_sets (fst (seed_statutory_master_data db))"
  shows "(\<exists>s. s \<in> set sets \<and> slab_set_key s = (None, ''IN'', fy, old, c)) \<and>
    (\<forall>s. s \<in> set sets \<and> slab_set_key s = (None, ''IN'', fy, old, c) \<longrightarrow>
       ts_is_active s \<and> ts_is_system_master s \<and> sound_schedule (ts_slabs s))"
proof -
  obtain m where m: "m \<in> set INCOME_TAX_SLAB_MASTERS" "tax_master_key m = (None, ''IN'', fy, old, c)"
    using masters_cover [OF assms(1)] .
  have "tax_master_key m \<in> slab_set_key ` set sets"
    unfolding assms(2) seed_tables using tax_seed.fold_put_keys m(1) by blast
  with m(2) have "\<exists>s. s \<in> set sets \<and> slab_set_key s = (None, ''IN'', fy, old, c)" by auto
  moreover have "sound_schedule (tm_slabs m)" using sound_masters m(1) by (simp add: list_all_iff)
  ultimately show ?thesis using seeded_slab_set [OF m(1), of _ db] m(2) assms(2) by auto
qed

definition empty_masters :: statutory_masters where
  "empty_masters = \<lparr>sm_slab_sets = [], sm_pt_rules = [], sm_lwf_rules = [], sm_surcharge_rules = []\<rparr>"

theorem seeded_schedules_sound_witness:
  "\<exists>s. s \<in> set (sm_slab_sets (fst (seed_statutory_master_data empty_masters))) \<and>
     slab_set_key s = (None, ''IN'', ''2025-2026'', True, SENIOR_CITIZEN)"
proof -
  have "(''2025-2026'', True, SENIOR_CITIZEN) \<in> set seeded_year_regime_category"
    by (simp add: seeded_year_regime_category_def)
  from seeded_schedules_sound [OF this refl, of empty_masters] show ?thesis by blast
qed

text \<open>
  With any seeded master and any surcharge tiers from five million up, no income up to the
  rebate threshold of its year and regime pays any income tax.
\<close>

theorem no_tax_up_to_rebate_threshold:
  assumes k: "(fy, old, c) \<in> set seeded_year_regime_category"
    and s: "s \<in> set (sm_slab_sets (fst (seed_statutory_master_data db)))"
      "slab_set_key s = (None, ''IN'', fy, old, c)"
    and tiers: "list_all (\<lambda>t. 5000000 \<le> fst t) tiers"
    and income: "quantize2 income \<le> fst (get_rebate_87a_params fy (regime_name old))"
  shows "tb_annual_tax (calculate_income_tax_with_rebate income s tiers None None) = 0"
proof -
  let ?p = "seeded_params fy old"
  obtain m where m: "m \<in> set INCOME_TAX_SLAB_MASTERS" "tax_master_key m = (None, ''IN'', fy, old, c)"
    using masters_cover [OF k] .
  have slabs: "ts_slabs s = tm_slabs m" using seeded_slab_set [OF m(1) s(1)] s(2) m(2) by simp
  have "sound_schedule (tm_slabs m)" using sound_masters m(1) by (simp add: list_all_iff)
  then have sound: "contiguous (ts_slabs s)" "rates_nonneg (ts_slabs s)"
    using sound_rates_nonneg by (auto simp: slabs sound_schedule_def)
  have fy: "ts_fiscal_year s = fy" "ts_is_old_regime s = old" "tm_fiscal_year m = fy" "tm_is_old_regime m = old"
    using s(2) m(2) by (simp_all add: slab_set_key_def tax_master_key_def)
  have tax: "calculate_annual_tax (ts_slabs s) (fst ?p) \<le> snd ?p"
    using masters_within_rebate m(1) by (auto simp: list_all_iff slabs fy split: prod.splits)
  have le: "quantize2 income \<le> fst ?p" using income seeded_params [OF k] by simp
  then have "list_all (\<lambda>t. quantize2 income \<le> fst t) tiers"
    using tiers seeded_params_bounds(3) [of fy old] by (auto simp: list_all_iff)
  then have "current_tier_loop (sort_key fst tiers) (quantize2 income) None = None"
    by (intro no_tier_below) (simp add: list_all_iff)
  from income_tax_full_rebate [OF sound this seeded_params_bounds(1,2) le tax]
  have "tb_annual_tax (calculate_income_tax_with_rebate income s tiers (Some (fst ?p)) (Some (snd ?p))) = 0" .
  moreover have "get_rebate_87a_params (ts_fiscal_year s) (if ts_is_old_regime s then ''OLD'' else ''NEW'') = ?p"
    using seeded_params [OF k] by (simp add: fy regime_name_def)
  ultimately show ?thesis by (simp add: calculate_income_tax_with_rebate_def)
qed

theorem no_tax_up_to_rebate_threshold_witness:
  "\<exists>s \<in> set (sm_slab_sets (fst (seed_statutory_master_data empty_masters))).
     tb_annual_tax (calculate_income_tax_with_rebate 1200000 s NEW_REGIME_SURCHARGE_TIERS None None) = 0"
proof -
  have k: "(''2025-2026'', False, INDIVIDUAL) \<in> set seeded_year_regime_category"
    by (simp add: seeded_year_regime_category_def)
  have p: "get_rebate_87a_params ''2025-2026'' (regime_name False) = (1200000, 60000)"
    by (simp add: regime_name_def rebate_params_of_masters)
  have t: "list_all (\<lambda>t. 5000000 \<le> fst t) NEW_REGIME_SURCHARGE_TIERS"
    by (simp add: NEW_REGIME_SURCHARGE_TIERS_def)
  obtain m where m: "m \<in> set INCOME_TAX_SLAB_MASTERS"
      "tax_master_key m = (None, ''IN'', ''2025-2026'', False, INDIVIDUAL)"
    using masters_cover [OF k] .
  then have "tax_master_key m \<in> slab_set_key ` set (sm_slab_sets (fst (seed_statutory_master_data empty_masters)))"
    unfolding seed_tables using tax_seed.fold_put_keys by blast
  then obtain s where "s \<in> set (sm_slab_sets (fst (seed_statutory_master_data empty_masters)))"
      "slab_set_key s = (None, ''IN'', ''2025-2026'', False, INDIVIDUAL)" using m(2) by auto
  with no_tax_up_to_rebate_threshold [OF k this t, of 1200000] p show ?thesis by auto
qed

text \<open>
  The surcharge rows the seed inserts do not agree with the tiers of the tax code in
  \<open>statutory.py\<close>: between five and ten million of income the new regime's seeded tiers give no
  surcharge where the constants give ten percent.
\<close>

theorem seeded_surcharge_disagrees:
  assumes "5000000 < quantize2 income" "quantize2 income \<le> 10000000"
    and "tiers = get_surcharge_tiers_from_db (fst (seed_surcharge_rules [])) ''2024-2025'' ''NEW''"
  shows "calculate_surcharge income tax tiers = 0 \<and>
    calculate_surcharge income tax (surcharge_tiers_for_regime ''NEW'') = quantize2 (dmul (quantize2 tax) (10 / 100))"
proof -
  have "tiers = [(5000000, 0), (10000000, 10 / 100), (20000000, 15 / 100), (50000000, 25 / 100)]"
    unfolding assms(3) by code_simp
  moreover have "surcharge_tiers_for_regime ''NEW'' = NEW_REGIME_SURCHARGE_TIERS" by code_simp
  ultimately show ?thesis using assms(1,2)
    by (simp add: calculate_surcharge_def NEW_REGIME_SURCHARGE_TIERS_def dmul_def)
qed

theorem seeded_surcharge_disagrees_witness:
  "calculate_surcharge 6000000 1500000
     (get_surcharge_tiers_from_db (fst (seed_surcharge_rules [])) ''2024-2025'' ''NEW'') = 0 \<and>
   calculate_surcharge 6000000 1500000 (surcharge_tiers_for_regime ''NEW'') = 150000"
proof -
  have "5000000 < quantize2 6000000" "quantize2 6000000 \<le> 10000000" by simp_all
  from seeded_surcharge_disagrees [OF this refl, of 1500000]
  have "calculate_surcharge 6000000 1500000
     (get_surcharge_tiers_from_db (fst (seed_surcharge_rules [])) ''2024-2025'' ''NEW'') = 0"
    "calculate_surcharge 6000000 1500000 (surcharge_tiers_for_regime ''NEW'') =
       quantize2 (dmul (quantize2 1500000) (10 / 100))" by simp_all
  moreover have "quantize2 (dmul (quantize2 1500000) (10 / 100)) = 150000" by code_simp
  ultimately show ?thesis by simp
qed

end
