(* ===== verification/OrgModels.thy ===== *)
theory OrgModels
  imports Decimal Dates "HOL-Library.List_Lexorder" "HOL-Library.Product_Lexorder"
begin

text \<open>
  The organisation, its employees, licences and role assignments, as far as approvals, time off
  and payroll read them (\<open>organisations/models.py\<close>, \<open>employees/models.py\<close>,
  \<open>access_control/models.py\<close>), and the queries of \<open>access_control/services.py\<close> and
  \<open>organisations/services.py\<close> they call. A row carries what the sources reach through a join
  (the user's e-mail address and name, the profile's gender and birth date, the state code of an
  office's address). The default manager hides soft-deleted employees, a foreign key does not.
\<close>

section \<open>Enumerations\<close>

datatype employment_type = FULL_TIME | PART_TIME | CONTRACT | INTERN

datatype employee_status = ES_INVITED | ES_PENDING | ES_ACTIVE | ES_RESIGNED | ES_RETIRED | ES_TERMINATED

datatype gender_choice = MALE | FEMALE | GENDER_OTHER | PREFER_NOT_TO_SAY

datatype government_id_type = PAN | AADHAAR

datatype organisation_address_type = REGISTERED | BILLING | HEADQUARTERS | WAREHOUSE | CUSTOM

datatype organisation_entity_type =
  PRIVATE_LIMITED | PUBLIC_LIMITED | LIMITED_LIABILITY_PARTNERSHIP | PARTNERSHIP_FIRM
| SOLE_PROPRIETORSHIP | ONE_PERSON_COMPANY | SECTION_8_COMPANY | TRUST | SOCIETY | GOVERNMENT_BODY

datatype licence_batch_payment_status = LB_DRAFT | LB_PAID

datatype licence_batch_lifecycle_state = LS_DRAFT | LS_PAID_PENDING_START | LS_ACTIVE | LS_EXPIRED

datatype access_role_scope = AR_CONTROL_TOWER | AR_ORGANISATION

datatype data_scope_kind =
  ALL_ORGANISATIONS | SELECTED_ORGANISATIONS | CURRENT_ORGANISATION | ALL_EMPLOYEES | OWN_RECORD
| REPORTING_TREE | SELECTED_DEPARTMENTS | SELECTED_OFFICE_LOCATIONS | SELECTED_LEGAL_ENTITIES
| SELECTED_COST_CENTRES | SELECTED_EMPLOYMENT_TYPES | SELECTED_GRADES | SELECTED_BANDS
| SELECTED_DESIGNATIONS | SELECTED_EMPLOYEES

section \<open>Rows\<close>

record organisation_address =
  ad_address_type :: organisation_address_type
  ad_state_code :: string
  ad_is_active :: bool

record organisation =
  og_id :: uid
  og_entity_type :: organisation_entity_type
  og_created_by :: "uid option"
  og_primary_admin_user :: "uid option"
  og_addresses :: "organisation_address list"

record employee =
  em_id :: uid
  em_organisation :: uid
  em_user :: uid
  em_email :: string
  em_full_name :: string
  em_employee_code :: "string option"
  em_department :: "uid option"
  em_office_location :: "uid option"
  em_office_state_code :: string
  em_designation :: string
  em_reporting_to :: "uid option"
  em_date_of_joining :: "date option"
  em_date_of_exit :: "date option"
  em_date_of_birth :: "date option"
  em_gender :: "gender_choice option"
  em_employment_type :: employment_type
  em_status :: employee_status
  em_is_deleted :: bool
  em_leave_approval_workflow :: "uid option"
  em_on_duty_approval_workflow :: "uid option"
  em_attendance_regularization_approval_workflow :: "uid option"
  em_expense_approval_workflow :: "uid option"

record organisation_licence_batch =
  lb_organisation :: uid
  lb_quantity :: nat
  lb_price_per_licence_per_month :: rat
  lb_start_date :: date
  lb_end_date :: date
  lb_payment_status :: licence_batch_payment_status

record access_scope =
  as_scope_kind :: data_scope_kind
  as_department :: "uid option"
  as_office_location :: "uid option"
  as_employee :: "uid option"

record access_role_assignment =
  ra_user :: uid
  ra_organisation :: "uid option"
  ra_role_code :: string
  ra_role_scope :: access_role_scope
  ra_role_is_active :: bool
  ra_is_active :: bool
  ra_scopes :: "access_scope list"

record org_db =
  od_organisations :: "organisation list"
  od_employees :: "employee list"
  od_licence_batches :: "organisation_licence_batch list"
  od_role_assignments :: "access_role_assignment list"

section \<open>Lookups\<close>

definition find_employee :: "org_db \<Rightarrow> uid \<Rightarrow> employee option" where
  "find_employee db i = first_row (\<lambda>e. em_id e = i) (od_employees db)"

definition find_organisation :: "org_db \<Rightarrow> uid \<Rightarrow> organisation option" where
  "find_organisation db i = first_row (\<lambda>r. og_id r = i) (od_organisations db)"

definition employee_objects :: "org_db \<Rightarrow> employee list" where
  "employee_objects db = filter (\<lambda>e. \<not> em_is_deleted e) (od_employees db)"

lemma find_employee_id: "find_employee db i = Some e \<Longrightarrow> em_id e = i"
  by (auto simp: find_employee_def dest: first_row_SomeD)

lemma find_employee_mem: "find_employee db i = Some e \<Longrightarrow> e \<in> set (od_employees db)"
  by (auto simp: find_employee_def dest: first_row_SomeD)

section \<open>Licences\<close>

text \<open>
  \<open>math.ceil(total_days / 30)\<close> divides floats; the quotient of day counts below a million is far
  from the next integer by at least a thirtieth, so the rounded quotient has the exact ceiling.
\<close>

definition calculate_licence_billing_months :: "date \<Rightarrow> date \<Rightarrow> int res" where
  "calculate_licence_billing_months start_date end_date =
     (if end_date < start_date then raise_value ''End date cannot be earlier than start date.''
      else let total_days = days_between start_date end_date + 1
           in Inr (max 1 ((total_days + 29) div 30)))"

definition calculate_licence_total_amount :: "int \<Rightarrow> rat \<Rightarrow> int \<Rightarrow> rat" where
  "calculate_licence_total_amount quantity price billing_months =
     quantize2 (dmul (dmul (of_int quantity) (quantize2 price)) (of_int billing_months))"

definition get_batch_lifecycle_state :: "organisation_licence_batch \<Rightarrow> date \<Rightarrow> licence_batch_lifecycle_state" where
  "get_batch_lifecycle_state batch effective_date =
     (if lb_payment_status batch = LB_DRAFT then LS_DRAFT
      else if effective_date < lb_start_date batch then LS_PAID_PENDING_START
      else if lb_start_date batch \<le> effective_date \<and> effective_date \<le> lb_end_date batch then LS_ACTIVE
      else LS_EXPIRED)"

definition get_active_licence_batches :: "org_db \<Rightarrow> uid \<Rightarrow> date \<Rightarrow> organisation_licence_batch list" where
  "get_active_licence_batches db org effective_date =
     filter (\<lambda>b. lb_organisation b = org \<and> lb_payment_status b = LB_PAID \<and>
                 lb_start_date b \<le> effective_date \<and> effective_date \<le> lb_end_date b)
       (od_licence_batches db)"

text \<open>\<open>_next_year\<close>: the same day a year later, 28 February for a leap day.\<close>

definition next_year :: "date \<Rightarrow> date" where
  "next_year d =
     (if valid_date (Date (yr d + 1) (mo d) (dy d)) then Date (yr d + 1) (mo d) (dy d)
      else Date (yr d + 1) 2 28)"

text \<open>\<open>get_default_licence_price\<close>, of the setting the deployment makes.\<close>

definition get_default_licence_price :: "rat \<Rightarrow> rat" where
  "get_default_licence_price setting = quantize2 setting"

record licence_batch_defaults =
  bd_start_date :: date
  bd_end_date :: date
  bd_price_per_licence_per_month :: rat
  bd_billing_months :: int
  bd_total_amount :: rat

definition get_licence_batch_defaults ::
  "rat \<Rightarrow> org_db \<Rightarrow> uid \<Rightarrow> int \<Rightarrow> date option \<Rightarrow> date \<Rightarrow> licence_batch_defaults res" where
  "get_licence_batch_defaults setting db org quantity start_date as_of =
     (let resolved_start = or_else start_date as_of;
          ends = map lb_end_date (get_active_licence_batches db org as_of);
          resolved_end = (if ends = [] then next_year resolved_start else Max (set ends));
          price = get_default_licence_price setting
      in bind_res (calculate_licence_billing_months resolved_start resolved_end) (\<lambda>months.
           Inr \<lparr>bd_start_date = resolved_start, bd_end_date = resolved_end,
                bd_price_per_licence_per_month = price, bd_billing_months = months,
                bd_total_amount = calculate_licence_total_amount quantity price months\<rparr>))"

lemma next_year_valid:
  assumes "valid_date d" "yr d < 9999"
  shows "valid_date (next_year d) \<and> d < next_year d"
  using assms by (cases d) (auto simp: next_year_def valid_date_def days_in_month_def)

text \<open>With no batch running the defaults never fail: the period is a year from its start.\<close>

lemma licence_defaults_total:
  assumes "get_active_licence_batches db org as_of = []" "valid_date (or_else start as_of)" "yr (or_else start as_of) < 9999"
  shows "\<exists>d. get_licence_batch_defaults setting db org quantity start as_of = Inr d \<and> 1 \<le> bd_billing_months d"
  using next_year_valid [OF assms(2,3)] assms(1)
  by (auto simp: get_licence_batch_defaults_def Let_def calculate_licence_billing_months_def)

text \<open>\<open>ACTIVE_EMPLOYEE_STATUSES\<close> of \<open>accounts/workspaces.py\<close>.\<close>

definition licence_consuming_statuses :: "employee_status list" where
  "licence_consuming_statuses = [ES_INVITED, ES_PENDING, ES_ACTIVE]"

record licence_summary =
  ls_active_paid_quantity :: nat
  ls_allocated :: nat
  ls_available :: nat
  ls_overage :: nat
  ls_has_overage :: bool

definition get_org_licence_summary :: "org_db \<Rightarrow> uid \<Rightarrow> date \<Rightarrow> licence_summary" where
  "get_org_licence_summary db org as_of =
     (let active = sum_list (map lb_quantity (get_active_licence_batches db org as_of));
          used = length (filter (\<lambda>e. em_organisation e = org \<and> em_status e \<in> set licence_consuming_statuses)
                           (employee_objects db))
      in \<lparr>ls_active_paid_quantity = active, ls_allocated = used, ls_available = active - used,
          ls_overage = used - active, ls_has_overage = used - active > 0\<rparr>)"

record operations_guard =
  gd_licence_expired :: bool
  gd_admin_mutations_blocked :: bool
  gd_approval_actions_blocked :: bool
  gd_seat_assignment_blocked :: bool
  gd_reason :: string

definition licences_expired_reason :: string where
  "licences_expired_reason =
     ''Organisation licences have expired. Renew licences in Control Tower to continue.''"

definition get_org_operations_guard :: "org_db \<Rightarrow> uid \<Rightarrow> date \<Rightarrow> operations_guard" where
  "get_org_operations_guard db org as_of =
     (let summary = get_org_licence_summary db org as_of;
          expired = (ls_active_paid_quantity summary \<le> 0)
      in \<lparr>gd_licence_expired = expired, gd_admin_mutations_blocked = expired,
          gd_approval_actions_blocked = expired,
          gd_seat_assignment_blocked = (ls_available summary \<le> 0),
          gd_reason = (if expired then licences_expired_reason else [])\<rparr>)"

section \<open>Employees by role\<close>

definition candidate_role_codes :: "string \<Rightarrow> string list" where
  "candidate_role_codes role_code =
     (let normalized = py_upper (py_strip role_code)
      in if take 4 normalized = ''ORG_'' then [normalized] else [normalized, ''ORG_'' @ normalized])"

record role_scope_query =
  rs_office_location :: "uid option"
  rs_department :: "uid option"
  rs_employee :: "uid option"

definition assignment_matches_scope :: "access_scope list \<Rightarrow> role_scope_query \<Rightarrow> bool" where
  "assignment_matches_scope scope_records scope =
     (if scope_records = [] then True
      else case rs_office_location scope of
        Some l \<Rightarrow> list_ex (\<lambda>s. as_scope_kind s = SELECTED_OFFICE_LOCATIONS \<and> as_office_location s = Some l) scope_records
      | None \<Rightarrow>
        (case rs_department scope of
           Some d \<Rightarrow> list_ex (\<lambda>s. as_scope_kind s = SELECTED_DEPARTMENTS \<and> as_department s = Some d) scope_records
         | None \<Rightarrow>
           (case rs_employee scope of
              Some e \<Rightarrow> list_ex (\<lambda>s. as_scope_kind s = SELECTED_EMPLOYEES \<and> as_employee s = Some e) scope_records
            | None \<Rightarrow> True)))"

definition role_assignments_of :: "org_db \<Rightarrow> uid \<Rightarrow> string \<Rightarrow> access_role_assignment list" where
  "role_assignments_of db org role_code =
     filter (\<lambda>a. ra_organisation a = Some org \<and> ra_role_code a \<in> set (candidate_role_codes role_code) \<and>
                 ra_role_scope a = AR_ORGANISATION \<and> ra_role_is_active a \<and> ra_is_active a)
       (od_role_assignments db)"

text \<open>\<open>order_by('employee_code', 'user__email')\<close>: the database sorts missing codes last.\<close>

definition by_code_and_email :: "employee \<Rightarrow> bool \<times> string \<times> string" where
  "by_code_and_email e = (em_employee_code e = None, or_else (em_employee_code e) [], em_email e)"

definition employees_with_permission_role :: "org_db \<Rightarrow> uid \<Rightarrow> string \<Rightarrow> employee list" where
  "employees_with_permission_role db org role_code =
     (let users = map ra_user (role_assignments_of db org role_code)
      in sort_key by_code_and_email
           (filter (\<lambda>e. em_organisation e = org \<and> em_user e \<in> set users \<and> em_status e = ES_ACTIVE)
             (employee_objects db)))"

definition employees_with_scope :: "org_db \<Rightarrow> uid \<Rightarrow> string \<Rightarrow> role_scope_query \<Rightarrow> employee list" where
  "employees_with_scope db org role_code scope =
     (let users = map ra_user (filter (\<lambda>a. assignment_matches_scope (ra_scopes a) scope)
                    (role_assignments_of db org role_code))
      in sort_key by_code_and_email
           (filter (\<lambda>e. em_organisation e = org \<and> em_user e \<in> set users \<and> em_status e = ES_ACTIVE \<and>
                (case rs_office_location scope of None \<Rightarrow> True | Some l \<Rightarrow> em_office_location e = Some l) \<and>
                (case rs_department scope of None \<Rightarrow> True | Some d \<Rightarrow> em_department e = Some d) \<and>
                (case rs_employee scope of None \<Rightarrow> True | Some i \<Rightarrow> em_id e = i))
             (employee_objects db)))"

lemma employees_with_permission_role_mem:
  "e \<in> set (employees_with_permission_role db org code) \<Longrightarrow>
     em_organisation e = org \<and> em_status e = ES_ACTIVE \<and> \<not> em_is_deleted e \<and> e \<in> set (od_employees db)"
  by (auto simp: employees_with_permission_role_def employee_objects_def Let_def)

lemma employees_with_scope_mem:
  "e \<in> set (employees_with_scope db org code scope) \<Longrightarrow>
     em_organisation e = org \<and> em_status e = ES_ACTIVE \<and> \<not> em_is_deleted e \<and> e \<in> set (od_employees db)"
  by (auto simp: employees_with_scope_def employee_objects_def Let_def)

end
