(* ===== verification/ApprovalModels.thy ===== *)
theory ApprovalModels
  imports OrgModels
begin

text \<open>
  The data model of the approvals application (\<open>approvals/models.py\<close>) and its catalogue of request
  kinds (\<open>approvals/catalog.py\<close>). A workflow carries its stages, a stage its approvers and its
  escalation policy. The state of the engine is polymorphic in the state of the subjects: what a
  run is about lives in other applications.
\<close>

section \<open>Enumerations\<close>

datatype approval_request_kind =
  RK_LEAVE | RK_ON_DUTY | RK_ATTENDANCE_REGULARIZATION | RK_EXPENSE_CLAIM | RK_PAYROLL_PROCESSING
| RK_SALARY_REVISION | RK_COMPENSATION_TEMPLATE_CHANGE | RK_PROMOTION | RK_TRANSFER

text \<open>The stored value, and the words an error message makes of it.\<close>

fun request_kind_value :: "approval_request_kind \<Rightarrow> string" where
  "request_kind_value RK_LEAVE = ''LEAVE''"
| "request_kind_value RK_ON_DUTY = ''ON_DUTY''"
| "request_kind_value RK_ATTENDANCE_REGULARIZATION = ''ATTENDANCE_REGULARIZATION''"
| "request_kind_value RK_EXPENSE_CLAIM = ''EXPENSE_CLAIM''"
| "request_kind_value RK_PAYROLL_PROCESSING = ''PAYROLL_PROCESSING''"
| "request_kind_value RK_SALARY_REVISION = ''SALARY_REVISION''"
| "request_kind_value RK_COMPENSATION_TEMPLATE_CHANGE = ''COMPENSATION_TEMPLATE_CHANGE''"
| "request_kind_value RK_PROMOTION = ''PROMOTION''"
| "request_kind_value RK_TRANSFER = ''TRANSFER''"

definition request_kind_words :: "approval_request_kind \<Rightarrow> string" where
  "request_kind_words k = map (\<lambda>c. if c = CHR ''_'' then CHR '' '' else c) (py_lower (request_kind_value k))"

datatype approval_stage_mode = MODE_ALL | MODE_ANY

datatype approval_approver_type =
  AT_REPORTING_MANAGER | AT_NTH_LEVEL_MANAGER | AT_DEPARTMENT_HEAD | AT_LOCATION_ADMIN
| AT_HR_BUSINESS_PARTNER | AT_PAYROLL_ADMIN | AT_FINANCE_APPROVER | AT_ROLE
| AT_SPECIFIC_EMPLOYEE | AT_PRIMARY_ORG_ADMIN

fun approver_type_value :: "approval_approver_type \<Rightarrow> string" where
  "approver_type_value AT_REPORTING_MANAGER = ''REPORTING_MANAGER''"
| "approver_type_value AT_NTH_LEVEL_MANAGER = ''NTH_LEVEL_MANAGER''"
| "approver_type_value AT_DEPARTMENT_HEAD = ''DEPARTMENT_HEAD''"
| "approver_type_value AT_LOCATION_ADMIN = ''LOCATION_ADMIN''"
| "approver_type_value AT_HR_BUSINESS_PARTNER = ''HR_BUSINESS_PARTNER''"
| "approver_type_value AT_PAYROLL_ADMIN = ''PAYROLL_ADMIN''"
| "approver_type_value AT_FINANCE_APPROVER = ''FINANCE_APPROVER''"
| "approver_type_value AT_ROLE = ''ROLE''"
| "approver_type_value AT_SPECIFIC_EMPLOYEE = ''SPECIFIC_EMPLOYEE''"
| "approver_type_value AT_PRIMARY_ORG_ADMIN = ''PRIMARY_ORG_ADMIN''"

datatype approval_fallback_type =
  FB_NONE | FB_REPORTING_MANAGER | FB_DEPARTMENT_HEAD | FB_ROLE | FB_SPECIFIC_EMPLOYEE | FB_PRIMARY_ORG_ADMIN

datatype approval_run_status = RUN_PENDING | RUN_APPROVED | RUN_REJECTED | RUN_CANCELLED

datatype approval_action_status =
  ACT_PENDING | ACT_APPROVED | ACT_REJECTED | ACT_SKIPPED | ACT_CANCELLED

datatype approval_action_assignment_source = SRC_DIRECT | SRC_DELEGATED | SRC_ESCALATED

datatype notification_kind =
  NK_LEAVE_APPROVED | NK_LEAVE_REJECTED | NK_LEAVE_CANCELLED
| NK_ATTENDANCE_REGULARIZATION_APPROVED | NK_ATTENDANCE_REGULARIZATION_REJECTED
| NK_COMPENSATION_APPROVED | NK_COMPENSATION_REJECTED | NK_PAYROLL_FINALIZED | NK_GENERAL

section \<open>Rows\<close>

record approval_stage_escalation_policy =
  ep_reminder_after_hours :: "nat option"
  ep_escalate_after_hours :: "nat option"
  ep_escalation_target_type :: approval_fallback_type
  ep_escalation_employee :: "uid option"
  ep_escalation_role_code :: string
  ep_is_active :: bool

record approval_stage_approver =
  sa_approver_type :: approval_approver_type
  sa_approver_employee :: "uid option"
  sa_manager_level :: nat
  sa_role_code :: string

record approval_stage =
  st_id :: uid
  st_name :: string
  st_sequence :: nat
  st_mode :: approval_stage_mode
  st_fallback_type :: approval_fallback_type
  st_fallback_employee :: "uid option"
  st_fallback_role_code :: string
  st_sla_policy :: "approval_stage_escalation_policy option"
  st_approvers :: "approval_stage_approver list"

record approval_workflow =
  aw_id :: uid
  aw_organisation :: uid
  aw_name :: string
  aw_is_default :: bool
  aw_default_request_kind :: "approval_request_kind option"
  aw_is_active :: bool
  aw_stages :: "approval_stage list"

record approval_workflow_rule =
  rw_workflow :: uid
  rw_request_kind :: approval_request_kind
  rw_priority :: nat
  rw_is_active :: bool
  rw_department :: "uid option"
  rw_office_location :: "uid option"
  rw_specific_employee :: "uid option"
  rw_employment_type :: "employment_type option"
  rw_designation :: string
  rw_leave_type :: "uid option"
  rw_min_amount :: "rat option"
  rw_max_amount :: "rat option"
  rw_grade :: string
  rw_band :: string
  rw_cost_centre :: string
  rw_legal_entity :: string

record approval_workflow_assignment =
  wa_organisation :: uid
  wa_employee :: uid
  wa_request_kind :: approval_request_kind
  wa_workflow :: uid
  wa_is_active :: bool

text \<open>What a run is about: the model's name and the row's key.\<close>

type_synonym subject_ref = "string \<times> uid"

text \<open>The statuses the engine writes into the row a run is about.\<close>

datatype subject_status = SUBJECT_APPROVED | SUBJECT_REJECTED | SUBJECT_CANCELLED | SUBJECT_WITHDRAWN

record approval_run =
  rn_id :: uid
  rn_organisation :: uid
  rn_workflow :: uid
  rn_request_kind :: approval_request_kind
  rn_requested_by :: "uid option"
  rn_requested_by_user :: "uid option"
  rn_status :: approval_run_status
  rn_current_stage_sequence :: nat
  rn_subject_label :: string
  rn_subject :: subject_ref

record approval_action =
  ac_id :: uid
  ac_run :: uid
  ac_stage :: uid
  ac_approver_user :: uid
  ac_approver_employee :: "uid option"
  ac_assignment_source :: approval_action_assignment_source
  ac_original_approver_user :: "uid option"
  ac_original_approver_employee :: "uid option"
  ac_status :: approval_action_status
  ac_comment :: string
  ac_created_at :: instant
  ac_acted_at :: "instant option"
  ac_reminder_sent_at :: "instant option"
  ac_escalated_at :: "instant option"
  ac_escalated_from :: "uid option"

record approval_delegation =
  dl_id :: uid
  dl_organisation :: uid
  dl_delegator :: uid
  dl_delegate :: uid
  dl_request_kinds :: "approval_request_kind list"
  dl_start_date :: date
  dl_end_date :: "date option"
  dl_is_active :: bool

record audit_entry =
  au_actor :: "uid option"
  au_event :: string
  au_target :: uid

record notification =
  nt_recipient :: uid
  nt_kind :: notification_kind
  nt_title :: string
  nt_title_args :: "msg_arg list"
  nt_comment :: string
  nt_related :: uid

text \<open>The clock a request is served at: \<open>timezone.now()\<close> and \<open>timezone.localdate()\<close>.\<close>

record clock =
  ck_now :: instant
  ck_today :: date

record 's approval_state =
  ap_org :: org_db
  ap_workflows :: "approval_workflow list"
  ap_rules :: "approval_workflow_rule list"
  ap_assignments :: "approval_workflow_assignment list"
  ap_delegations :: "approval_delegation list"
  ap_runs :: "approval_run list"
  ap_actions :: "approval_action list"
  ap_notifications :: "notification list"
  ap_audit :: "audit_entry list"
  ap_next_id :: uid
  ap_subjects :: 's

section \<open>The catalogue of request kinds\<close>

record approval_stage_preset =
  sp_name :: string
  sp_sequence :: nat
  sp_mode :: approval_stage_mode
  sp_approver_types :: "approval_approver_type list"
  sp_fallback_type :: approval_fallback_type
  sp_reminder_after_hours :: "nat option"
  sp_escalate_after_hours :: "nat option"

definition mk_preset :: "string \<Rightarrow> nat \<Rightarrow> approval_approver_type \<Rightarrow> approval_stage_preset" where
  "mk_preset name seq type =
     \<lparr>sp_name = name, sp_sequence = seq, sp_mode = MODE_ALL, sp_approver_types = [type],
      sp_fallback_type = FB_PRIMARY_ORG_ADMIN, sp_reminder_after_hours = Some 24,
      sp_escalate_after_hours = Some 48\<rparr>"

definition MANAGER_STAGE :: approval_stage_preset where
  "MANAGER_STAGE = mk_preset ''Manager review'' 1 AT_REPORTING_MANAGER"

definition HR_STAGE :: approval_stage_preset where
  "HR_STAGE = mk_preset ''HR review'' 2 AT_PRIMARY_ORG_ADMIN"

definition FINANCE_STAGE :: approval_stage_preset where
  "FINANCE_STAGE = mk_preset ''Finance review'' 2 AT_FINANCE_APPROVER"

definition PAYROLL_STAGE :: approval_stage_preset where
  "PAYROLL_STAGE = mk_preset ''Payroll review'' 2 AT_PAYROLL_ADMIN"

record approval_request_kind_meta =
  mt_kind :: approval_request_kind
  mt_label :: string
  mt_module :: string
  mt_subject_label :: string
  mt_requires_default_workflow :: bool
  mt_supports_employee_assignment :: bool
  mt_supports_amount_rules :: bool
  mt_supports_leave_type_rules :: bool
  mt_recommended_minimum_stages :: nat
  mt_presets :: "approval_stage_preset list"

text \<open>A catalogue entry: every kind requires a default workflow.\<close>

definition mk_meta ::
  "approval_request_kind \<Rightarrow> string \<Rightarrow> string \<Rightarrow> string \<Rightarrow> bool \<Rightarrow> bool \<Rightarrow> bool \<Rightarrow> nat \<Rightarrow> approval_stage_preset list
     \<Rightarrow> approval_request_kind_meta" where
  "mk_meta k label modul subject assign amount leave_type stages presets =
     \<lparr>mt_kind = k, mt_label = label, mt_module = modul, mt_subject_label = subject,
      mt_requires_default_workflow = True, mt_supports_employee_assignment = assign,
      mt_supports_amount_rules = amount, mt_supports_leave_type_rules = leave_type,
      mt_recommended_minimum_stages = stages, mt_presets = presets\<rparr>"

definition APPROVAL_REQUEST_KIND_CATALOG :: "approval_request_kind_meta list" where
  "APPROVAL_REQUEST_KIND_CATALOG =
     [mk_meta RK_LEAVE ''Leave'' ''Time Off'' ''Leave request''
        True False True 1 [MANAGER_STAGE, HR_STAGE],
      mk_meta RK_ON_DUTY ''On Duty'' ''Attendance'' ''On-duty request''
        True False False 1 [MANAGER_STAGE, HR_STAGE],
      mk_meta RK_ATTENDANCE_REGULARIZATION ''Attendance Regularization'' ''Attendance''
        ''Attendance regularization request'' True False False 1 [MANAGER_STAGE, HR_STAGE],
      mk_meta RK_EXPENSE_CLAIM ''Expense Claim'' ''Expense'' ''Expense claim''
        True True False 2 [MANAGER_STAGE, FINANCE_STAGE],
      mk_meta RK_PAYROLL_PROCESSING ''Payroll Processing'' ''Payroll'' ''Payroll run''
        False True False 2 [PAYROLL_STAGE, FINANCE_STAGE],
      mk_meta RK_SALARY_REVISION ''Salary Revision'' ''Payroll'' ''Salary revision''
        True True False 2 [MANAGER_STAGE, PAYROLL_STAGE, FINANCE_STAGE],
      mk_meta RK_COMPENSATION_TEMPLATE_CHANGE ''Compensation Template Change'' ''Payroll''
        ''Compensation template change'' False False False 2 [PAYROLL_STAGE, FINANCE_STAGE],
      mk_meta RK_PROMOTION ''Promotion'' ''Employee Lifecycle'' ''Promotion request''
        True True False 2 [MANAGER_STAGE, HR_STAGE, FINANCE_STAGE],
      mk_meta RK_TRANSFER ''Transfer'' ''Employee Lifecycle'' ''Transfer request''
        True False False 2 [MANAGER_STAGE, HR_STAGE]]"

definition catalog_meta :: "approval_request_kind \<Rightarrow> approval_request_kind_meta option" where
  "catalog_meta k = first_row (\<lambda>m. mt_kind m = k) APPROVAL_REQUEST_KIND_CATALOG"

definition get_required_default_request_kinds :: "approval_request_kind list" where
  "get_required_default_request_kinds =
     map mt_kind (filter mt_requires_default_workflow APPROVAL_REQUEST_KIND_CATALOG)"

definition get_workflow_enabled_request_kinds :: "approval_request_kind list" where
  "get_workflow_enabled_request_kinds = map mt_kind APPROVAL_REQUEST_KIND_CATALOG"

lemma catalog_covers_kinds: "k \<in> set get_workflow_enabled_request_kinds"
  by (cases k) (simp_all add: get_workflow_enabled_request_kinds_def APPROVAL_REQUEST_KIND_CATALOG_def mk_meta_def)

lemma catalog_distinct: "distinct get_workflow_enabled_request_kinds"
  by (simp add: get_workflow_enabled_request_kinds_def APPROVAL_REQUEST_KIND_CATALOG_def mk_meta_def)

text \<open>
  The presets of these kinds give two stages the same sequence number, which the unique constraint on
  workflow and sequence forbids.
\<close>

lemma presets_repeat_sequence:
  "map mt_kind (filter (\<lambda>m. \<not> distinct (map sp_sequence (mt_presets m))) APPROVAL_REQUEST_KIND_CATALOG) =
     [RK_PAYROLL_PROCESSING, RK_SALARY_REVISION, RK_COMPENSATION_TEMPLATE_CHANGE, RK_PROMOTION]"
  by (simp add: APPROVAL_REQUEST_KIND_CATALOG_def mk_meta_def mk_preset_def MANAGER_STAGE_def HR_STAGE_def
      FINANCE_STAGE_def PAYROLL_STAGE_def)

end
