(* ===== verification/Delegation.thy ===== *)
theory Delegation
  imports ApprovalModels
begin

text \<open>
  Delegation of approval authority (\<open>approvals/services.py\<close>): the delegation in force for an
  approver, the depth-first search that refuses loops, and the upsert of a delegation. The search
  is proved to decide reachability, and the upsert to keep the active delegations of an
  organisation free of cycles.
\<close>

section \<open>Delegation\<close>

text \<open>\<open>order_by('-start_date', '-created_at')\<close>: the stable sort by start date, reversed.\<close>

definition active_delegations ::
  "'s approval_state \<Rightarrow> employee \<Rightarrow> date \<Rightarrow> approval_delegation list" where
  "active_delegations db approver effective_date =
     rev (sort_key dl_start_date (filter (\<lambda>d. dl_organisation d = em_organisation approver \<and>
       dl_delegator d = em_id approver \<and> dl_is_active d \<and> dl_start_date d \<le> effective_date \<and>
       (case dl_end_date d of None \<Rightarrow> True | Some e \<Rightarrow> effective_date \<le> e)) (ap_delegations db)))"

definition get_active_approval_delegation ::
  "'s approval_state \<Rightarrow> employee \<Rightarrow> approval_request_kind \<Rightarrow> date \<Rightarrow> approval_delegation option" where
  "get_active_approval_delegation db approver kind effective_date =
     first_row (\<lambda>d. kind \<in> set (dl_request_kinds d)) (active_delegations db approver effective_date)"

text \<open>
  The search for a delegation loop: a depth-first walk over the edges with an explicit stack (its
  top is the head of the list; the order of a node's successors, a set in the source, is the order
  of the rows). It returns whether the walk meets the delegator.
\<close>

definition successors :: "(uid \<times> uid) list \<Rightarrow> uid \<Rightarrow> uid list" where
  "successors edges c = remdups (map snd (filter (\<lambda>e. fst e = c) edges))"

function loop_search :: "(uid \<times> uid) list \<Rightarrow> uid \<Rightarrow> uid list \<Rightarrow> uid list \<Rightarrow> bool" where
  "loop_search edges delegator [] seen = False"
| "loop_search edges delegator (current # stack) seen =
     (if current = delegator then True
      else if current \<in> set seen then loop_search edges delegator stack seen
      else loop_search edges delegator (rev (successors edges current) @ stack) (current # seen))"
  by pat_completeness auto

lemma unseen_nodes_less:
  assumes "current \<notin> set seen" "successors edges current \<noteq> []"
  shows "card (fst ` set edges - set (current # seen)) < card (fst ` set edges - set seen)"
proof (rule psubset_card_mono)
  have "current \<in> fst ` set edges"
    using assms(2) by (cases "successors edges current") (auto simp: successors_def filter_empty_conv)
  with assms(1) show "fst ` set edges - set (current # seen) \<subset> fst ` set edges - set seen" by auto
qed simp

lemma unseen_nodes_le: "card (fst ` set edges - set (current # seen)) \<le> card (fst ` set edges - set seen)"
  by (rule card_mono) auto

termination loop_search
proof (relation "(\<lambda>(edges, _, _, seen). card (fst ` set edges - set seen)) <*mlex*>
    measure (\<lambda>(_, _, stack, _). length stack)")
  show "wf ((\<lambda>(edges, _, _, seen). card (fst ` set edges - set seen)) <*mlex*>
    measure (\<lambda>(_ :: (uid \<times> uid) list, _ :: uid, stack :: uid list, _ :: uid list). length stack))"
    by (simp add: wf_mlex)
next
  fix edges :: "(uid \<times> uid) list" and delegator current :: uid and stack seen :: "uid list"
  assume "current \<noteq> delegator" "current \<in> set seen"
  show "((edges, delegator, stack, seen), (edges, delegator, current # stack, seen))
      \<in> (\<lambda>(edges, _, _, seen). card (fst ` set edges - set seen)) <*mlex*>
        measure (\<lambda>(_, _, stack, _). length stack)"
    by (rule mlex_leq) auto
next
  fix edges :: "(uid \<times> uid) list" and delegator current :: uid and stack seen :: "uid list"
  assume "current \<noteq> delegator" and new: "current \<notin> set seen"
  show "((edges, delegator, rev (successors edges current) @ stack, current # seen),
      (edges, delegator, current # stack, seen))
      \<in> (\<lambda>(edges, _, _, seen). card (fst ` set edges - set seen)) <*mlex*>
        measure (\<lambda>(_, _, stack, _). length stack)"
  proof (cases "successors edges current = []")
    case True
    with unseen_nodes_le [of edges current seen] show ?thesis by (intro mlex_leq) auto
  next
    case False
    with unseen_nodes_less [OF new] show ?thesis by (intro mlex_less) simp
  qed
qed

declare loop_search.simps [simp del]

definition delegation_edges :: "approval_delegation list \<Rightarrow> uid \<Rightarrow> uid option \<Rightarrow> (uid \<times> uid) list" where
  "delegation_edges delegations org exclude_id =
     map (\<lambda>d. (dl_delegator d, dl_delegate d))
       (filter (\<lambda>d. dl_organisation d = org \<and> dl_is_active d \<and> Some (dl_id d) \<noteq> exclude_id) delegations)"

definition validate_delegation_loop ::
  "'s approval_state \<Rightarrow> uid \<Rightarrow> uid \<Rightarrow> uid \<Rightarrow> uid option \<Rightarrow> unit res" where
  "validate_delegation_loop db org delegator delegate exclude_id =
     (if delegator = delegate
      then raise_value ''An employee cannot delegate approval authority to themselves.''
      else
        let edges = delegation_edges (ap_delegations db) org exclude_id @ [(delegator, delegate)]
        in guard_res (loop_search edges delegator [delegate] [])
             (ValueError ''This delegation would create a delegation loop.'' []))"

definition audit :: "uid option \<Rightarrow> string \<Rightarrow> uid \<Rightarrow> 's approval_state \<Rightarrow> 's approval_state" where
  "audit actor event target db =
     db\<lparr>ap_audit := ap_audit db @ [\<lparr>au_actor = actor, au_event = event, au_target = target\<rparr>]\<rparr>"

definition upsert_approval_delegation ::
  "uid \<Rightarrow> employee \<Rightarrow> employee \<Rightarrow> approval_request_kind list \<Rightarrow> date \<Rightarrow> date option \<Rightarrow> bool \<Rightarrow> uid option
     \<Rightarrow> approval_delegation option \<Rightarrow> 's approval_state \<Rightarrow> ('s approval_state \<times> approval_delegation) res" where
  "upsert_approval_delegation org delegator delegate kinds start_date end_date is_active actor delegation db =
     (if em_organisation delegator \<noteq> org \<or> em_organisation delegate \<noteq> org
      then raise_value ''Delegation employees must belong to the active organisation.''
      else bind_res (validate_delegation_loop db org (em_id delegator) (em_id delegate)
                       (map_option dl_id delegation)) (\<lambda>_.
        if (case end_date of None \<Rightarrow> False | Some e \<Rightarrow> e < start_date)
        then raise_value ''Delegation end date must be on or after the start date.''
        else case delegation of
          None \<Rightarrow>
            let row = \<lparr>dl_id = ap_next_id db, dl_organisation = org, dl_delegator = em_id delegator,
                       dl_delegate = em_id delegate, dl_request_kinds = kinds, dl_start_date = start_date,
                       dl_end_date = end_date, dl_is_active = is_active\<rparr>
            in Inr (audit actor ''approval.delegation.created'' (dl_id row)
                      (db\<lparr>ap_delegations := ap_delegations db @ [row], ap_next_id := Suc (ap_next_id db)\<rparr>), row)
        | Some d \<Rightarrow>
            let row = d\<lparr>dl_delegator := em_id delegator, dl_delegate := em_id delegate,
                        dl_request_kinds := kinds, dl_start_date := start_date, dl_end_date := end_date,
                        dl_is_active := is_active\<rparr>
            in Inr (audit actor ''approval.delegation.updated'' (dl_id row)
                      (db\<lparr>ap_delegations := update_where (\<lambda>x. dl_id x = dl_id d) (\<lambda>_. row) (ap_delegations db)\<rparr>),
                    row)))"

section \<open>The search decides reachability\<close>

lemma set_successors [simp]: "set (successors edges c) = {y. (c, y) \<in> set edges}"
  by (auto simp: successors_def image_iff)

text \<open>A path that leaves a set passes an edge that leaves it.\<close>

lemma path_leaves_set:
  assumes "(x, t) \<in> E\<^sup>*" "x \<in> S" "t \<notin> S"
  shows "\<exists>y z. y \<in> S \<and> (y, z) \<in> E \<and> z \<notin> S \<and> (z, t) \<in> E\<^sup>*"
  using assms
proof (induction rule: converse_rtrancl_induct)
  case (step y z)
  then show ?case by (cases "z \<in> S") auto
qed simp

text \<open>What the walk has seen leads nowhere but to what it has seen or stacked.\<close>

definition walked :: "(uid \<times> uid) list \<Rightarrow> uid list \<Rightarrow> uid list \<Rightarrow> bool" where
  "walked edges stack seen =
     (\<forall>x \<in> set seen. \<forall>y. (x, y) \<in> set edges \<longrightarrow> y \<in> set seen \<union> set stack)"

lemma walked_reaches:
  assumes "walked edges stack seen" "c \<in> set seen" "t \<notin> set seen" "(c, t) \<in> (set edges)\<^sup>*"
  shows "\<exists>s \<in> set stack. s \<notin> set seen \<and> (s, t) \<in> (set edges)\<^sup>*"
  using path_leaves_set [OF assms(4,2,3)] assms(1) by (auto simp: walked_def)

lemma reaches_Cons:
  "c \<noteq> t \<Longrightarrow> (c, t) \<in> (set edges)\<^sup>* \<longleftrightarrow> (\<exists>s \<in> set (successors edges c). (s, t) \<in> (set edges)\<^sup>*)"
  by (auto elim: converse_rtranclE intro: converse_rtrancl_into_rtrancl)

theorem loop_search_reachable:
  assumes "walked edges stack seen" "delegator \<notin> set seen"
  shows "loop_search edges delegator stack seen \<longleftrightarrow> (\<exists>s \<in> set stack. (s, delegator) \<in> (set edges)\<^sup>*)"
  using assms
proof (induction edges delegator stack seen rule: loop_search.induct)
  case (1 edges delegator seen)
  then show ?case by (simp add: loop_search.simps)
next
  case (2 edges delegator c stack seen)
  consider "c = delegator" | "c \<noteq> delegator" "c \<in> set seen" | "c \<noteq> delegator" "c \<notin> set seen" by blast
  then show ?case
  proof cases
    case 1
    then show ?thesis by (simp add: loop_search.simps)
  next
    case 2
    have w: "walked edges stack seen" using "2.prems"(1) 2 by (auto simp: walked_def)
    have "\<exists>s \<in> set stack. (s, delegator) \<in> (set edges)\<^sup>*" if "(c, delegator) \<in> (set edges)\<^sup>*"
      using walked_reaches [OF w 2(2) "2.prems"(2) that] by blast
    with "2.IH"(1) [OF 2 w "2.prems"(2)] 2 show ?thesis by (auto simp: loop_search.simps)
  next
    case 3
    have "walked edges (rev (successors edges c) @ stack) (c # seen)"
      using "2.prems"(1) by (auto simp: walked_def)
    with "2.IH"(2) [OF 3 this] "2.prems"(2) 3
    have "loop_search edges delegator (c # stack) seen \<longleftrightarrow>
      (\<exists>s \<in> set (successors edges c) \<union> set stack. (s, delegator) \<in> (set edges)\<^sup>*)"
      by (auto simp: loop_search.simps)
    also have "\<dots> \<longleftrightarrow> (\<exists>s \<in> set (c # stack). (s, delegator) \<in> (set edges)\<^sup>*)"
      using reaches_Cons [OF 3(1), of edges] by auto
    finally show ?thesis .
  qed
qed

lemma loop_search_start: "loop_search edges delegator [delegate] [] \<longleftrightarrow> (delegate, delegator) \<in> (set edges)\<^sup>*"
  by (subst loop_search_reachable) (simp_all add: walked_def)

text \<open>The active delegations of an organisation as a relation.\<close>

definition delegation_graph :: "approval_delegation list \<Rightarrow> uid \<Rightarrow> (uid \<times> uid) set" where
  "delegation_graph ds org = set (delegation_edges ds org None)"

lemma delegation_graph_mem:
  "(a, b) \<in> delegation_graph ds org \<longleftrightarrow>
     (\<exists>d \<in> set ds. dl_organisation d = org \<and> dl_is_active d \<and> dl_delegator d = a \<and> dl_delegate d = b)"
  by (auto simp: delegation_graph_def delegation_edges_def)

lemma validate_keeps_acyclic:
  assumes "validate_delegation_loop db org a b ex = Inr ()"
    and "acyclic (set (delegation_edges (ap_delegations db) org ex))"
  shows "acyclic (insert (a, b) (set (delegation_edges (ap_delegations db) org ex)))"
proof -
  let ?E = "set (delegation_edges (ap_delegations db) org ex)"
  from assms(1) have "a \<noteq> b" "(b, a) \<notin> (set (delegation_edges (ap_delegations db) org ex @ [(a, b)]))\<^sup>*"
    by (auto simp: validate_delegation_loop_def loop_search_start Let_def split: if_splits)
  then have "(b, a) \<notin> ?E\<^sup>*" by (auto dest: rtrancl_mono [of ?E "insert (a, b) ?E", THEN subsetD, rotated])
  with assms(2) show ?thesis by (simp add: acyclic_insert)
qed

lemma edges_exclude_subset: "set (delegation_edges ds org ex) \<subseteq> delegation_graph ds org"
  by (auto simp: delegation_graph_def delegation_edges_def)

text \<open>What an upsert does to the table, and to its graph.\<close>

lemma upsert_delegations:
  assumes "upsert_approval_delegation org de dg ks sd ed act actor d db = Inr (db', row)"
  shows "validate_delegation_loop db org (em_id de) (em_id dg) (map_option dl_id d) = Inr ()"
    and "dl_delegator row = em_id de" "dl_delegate row = em_id dg" "dl_is_active row = act"
    and "dl_organisation row = (case d of None \<Rightarrow> org | Some x \<Rightarrow> dl_organisation x)"
    and "ap_delegations db' = (case d of None \<Rightarrow> ap_delegations db @ [row]
           | Some x \<Rightarrow> update_where (\<lambda>y. dl_id y = dl_id x) (\<lambda>_. row) (ap_delegations db))"
  using assms by (cases d; auto simp: upsert_approval_delegation_def audit_def Let_def split: if_splits)+

lemma upsert_graph:
  assumes up: "upsert_approval_delegation org de dg ks sd ed act actor d db = Inr (db', row)"
    and own: "\<And>x. d = Some x \<Longrightarrow> dl_organisation x = org"
  shows "delegation_graph (ap_delegations db') org
      \<subseteq> insert (em_id de, em_id dg) (set (delegation_edges (ap_delegations db) org (map_option dl_id d)))"
    and "org' \<noteq> org \<Longrightarrow> delegation_graph (ap_delegations db') org' \<subseteq> delegation_graph (ap_delegations db) org'"
proof -
  note up = upsert_delegations [OF up]
  have org: "dl_organisation row = org" using up(5) own by (auto split: option.splits)
  show "delegation_graph (ap_delegations db') org
      \<subseteq> insert (em_id de, em_id dg) (set (delegation_edges (ap_delegations db) org (map_option dl_id d)))"
    using up(2,3) unfolding up(6)
    by (cases d) (auto simp: delegation_graph_mem delegation_edges_def set_update_where)
  show "delegation_graph (ap_delegations db') org' \<subseteq> delegation_graph (ap_delegations db) org'"
    if "org' \<noteq> org"
    using that org unfolding up(6)
    by (cases d) (auto simp: delegation_graph_mem set_update_where)
qed

lemma rtrancl_insert_reaches: "(b, a) \<in> (insert (a, b) E)\<^sup>* \<Longrightarrow> (b, a) \<in> E\<^sup>*"
  by (induction rule: converse_rtrancl_induct) (auto intro: converse_rtrancl_into_rtrancl)

section \<open>Properties\<close>

text \<open>
  C24: The loop check of a new delegation always returns, and it accepts exactly when the two
  employees differ and the delegate does not already reach the delegator through active
  delegations of the organisation (the edited one aside).
\<close>

theorem loop_check_decides_reachability:
  "validate_delegation_loop db org a b ex = Inr () \<longleftrightarrow>
     a \<noteq> b \<and> (b, a) \<notin> (set (delegation_edges (ap_delegations db) org ex))\<^sup>*"
proof -
  let ?E = "set (delegation_edges (ap_delegations db) org ex)"
  have "(b, a) \<in> (insert (a, b) ?E)\<^sup>* \<longleftrightarrow> (b, a) \<in> ?E\<^sup>*"
  proof
    assume "(b, a) \<in> (insert (a, b) ?E)\<^sup>*"
    then show "(b, a) \<in> ?E\<^sup>*" by (metis rtrancl_insert_reaches)
  next
    assume "(b, a) \<in> ?E\<^sup>*"
    then show "(b, a) \<in> (insert (a, b) ?E)\<^sup>*" by (rule rtrancl_mono [THEN subsetD, rotated]) auto
  qed
  then show ?thesis by (auto simp: validate_delegation_loop_def loop_search_start Let_def)
qed

text \<open>
  C10: Delegations never form a cycle: whatever a successful upsert creates or edits, the active
  delegations of every organisation stay acyclic.
\<close>

theorem upsert_keeps_delegations_acyclic:
  assumes "upsert_approval_delegation org de dg ks sd ed act actor d db = Inr (db', row)"
    and "\<And>x. d = Some x \<Longrightarrow> dl_organisation x = org"
    and "\<And>o'. acyclic (delegation_graph (ap_delegations db) o')"
  shows "acyclic (delegation_graph (ap_delegations db') o')"
proof (cases "o' = org")
  case True
  have "acyclic (set (delegation_edges (ap_delegations db) org (map_option dl_id d)))"
    using assms(3) [of org] edges_exclude_subset by (rule acyclic_subset)
  from validate_keeps_acyclic [OF upsert_delegations(1) [OF assms(1)] this]
  show ?thesis unfolding True using upsert_graph(1) [OF assms(1,2)] by (rule acyclic_subset) 
next
  case False
  show ?thesis using assms(3) upsert_graph(2) [OF assms(1,2) False] by (rule acyclic_subset)
qed

definition example_employee :: "uid \<Rightarrow> uid option \<Rightarrow> employee" where
  "example_employee i manager =
     \<lparr>em_id = i, em_organisation = 1, em_user = 100 + i, em_email = [], em_full_name = [],
      em_employee_code = None, em_department = None, em_office_location = None,
      em_office_state_code = [], em_designation = [], em_reporting_to = manager,
      em_date_of_joining = None, em_date_of_exit = None, em_date_of_birth = None, em_gender = None,
      em_employment_type = FULL_TIME, em_status = ES_ACTIVE, em_is_deleted = False,
      em_leave_approval_workflow = None, em_on_duty_approval_workflow = None,
      em_attendance_regularization_approval_workflow = None, em_expense_approval_workflow = None\<rparr>"

definition example_org_db :: org_db where
  "example_org_db =
     \<lparr>od_organisations = [\<lparr>og_id = 1, og_entity_type = PRIVATE_LIMITED, og_created_by = None,
          og_primary_admin_user = Some 999, og_addresses = []\<rparr>],
      od_employees = [example_employee 10 (Some 20), example_employee 20 None, example_employee 30 None],
      od_licence_batches = [\<lparr>lb_organisation = 1, lb_quantity = 10, lb_price_per_licence_per_month = 0,
          lb_start_date = Date 2025 1 1, lb_end_date = Date 2025 12 31, lb_payment_status = LB_PAID\<rparr>],
      od_role_assignments = []\<rparr>"

definition example_delegation :: approval_delegation where
  "example_delegation =
     \<lparr>dl_id = 5, dl_organisation = 1, dl_delegator = 10, dl_delegate = 20, dl_request_kinds = [RK_LEAVE],
      dl_start_date = Date 2025 1 1, dl_end_date = None, dl_is_active = True\<rparr>"

definition example_delegation_db :: "unit approval_state" where
  "example_delegation_db =
     \<lparr>ap_org = example_org_db, ap_workflows = [], ap_rules = [], ap_assignments = [],
      ap_delegations = [example_delegation], ap_runs = [], ap_actions = [], ap_notifications = [],
      ap_audit = [], ap_next_id = 6, ap_subjects = ()\<rparr>"

definition example_upsert :: "uid \<Rightarrow> uid \<Rightarrow> (unit approval_state \<times> approval_delegation) res" where
  "example_upsert a b =
     upsert_approval_delegation 1 (example_employee a None) (example_employee b None) [RK_LEAVE]
       (Date 2025 1 1) None True None None example_delegation_db"

theorem upsert_keeps_delegations_acyclic_witness:
  "(\<exists>db' row. example_upsert 20 30 = Inr (db', row) \<and> acyclic (delegation_graph (ap_delegations db') 1)) \<and>
   example_upsert 20 10 = raise_value ''This delegation would create a delegation loop.''"
proof
  have a: "acyclic (delegation_graph (ap_delegations example_delegation_db) o')" for o'
  proof -
    have "delegation_graph (ap_delegations example_delegation_db) o' \<subseteq> {(10, 20)}"
      by (auto simp: delegation_graph_mem example_delegation_db_def example_delegation_def)
    moreover have "acyclic {(10, 20 :: uid)}" by (simp add: acyclic_insert wf_acyclic)
    ultimately show ?thesis by (metis acyclic_subset)
  qed
  obtain db' row where "example_upsert 20 30 = Inr (db', row)"
    by (simp add: example_upsert_def upsert_approval_delegation_def example_employee_def Let_def
        validate_delegation_loop_def delegation_edges_def example_delegation_db_def example_delegation_def
        loop_search.simps successors_def)
  moreover from upsert_keeps_delegations_acyclic [OF this [unfolded example_upsert_def] _ a]
  have "acyclic (delegation_graph (ap_delegations db') 1)" by simp
  ultimately show "\<exists>db' row. example_upsert 20 30 = Inr (db', row) \<and>
      acyclic (delegation_graph (ap_delegations db') 1)" by blast
  show "example_upsert 20 10 = raise_value ''This delegation would create a delegation loop.''"
    by (simp add: example_upsert_def upsert_approval_delegation_def example_employee_def Let_def guard_res_def
        validate_delegation_loop_def delegation_edges_def example_delegation_db_def example_delegation_def
        loop_search.simps successors_def)
qed

end
