(* ===== verification/ApprovalRouting.thy ===== *)
theory ApprovalRouting
  imports ApprovalModels
begin

text \<open>
  Routing of an approval request (\<open>approvals/services.py\<close>): which workflow a request takes - the one
  assigned to the employee, else that of the first matching rule, else the default - and which
  request kinds of an organisation are ready.
\<close>

section \<open>Workflows\<close>

definition find_workflow :: "'s approval_state \<Rightarrow> uid \<Rightarrow> approval_workflow option" where
  "find_workflow db i = first_row (\<lambda>w. aw_id w = i) (ap_workflows db)"

text \<open>Workflows are ordered by name.\<close>

definition default_workflows :: "'s approval_state \<Rightarrow> uid \<Rightarrow> approval_request_kind \<Rightarrow> approval_workflow list" where
  "default_workflows db org kind =
     sort_key aw_name (filter (\<lambda>w. aw_organisation w = org \<and> aw_is_default w \<and>
       aw_default_request_kind w = Some kind \<and> aw_is_active w) (ap_workflows db))"

definition get_default_workflow :: "'s approval_state \<Rightarrow> uid \<Rightarrow> approval_request_kind \<Rightarrow> approval_workflow option" where
  "get_default_workflow db org kind = first_row (\<lambda>_. True) (default_workflows db org kind)"

definition missing_default_kinds :: "'s approval_state \<Rightarrow> uid \<Rightarrow> approval_request_kind list" where
  "missing_default_kinds db org =
     filter (\<lambda>k. default_workflows db org k = []) get_required_default_request_kinds"

definition ensure_default_workflow_configured :: "'s approval_state \<Rightarrow> uid \<Rightarrow> unit res" where
  "ensure_default_workflow_configured db org =
     guard_res (missing_default_kinds db org \<noteq> [])
       (ValueError ''Create and activate a default approval workflow for each request type before inviting employees.'' [])"

text \<open>
  \<open>ensure_default_promotion_transfer_workflow\<close>: a one-stage workflow for the kinds the employee
  application starts itself, unless a default exists.
\<close>

definition manager_stage_approver :: "employee \<Rightarrow> approval_stage_approver" where
  "manager_stage_approver e =
     \<lparr>sa_approver_type = AT_REPORTING_MANAGER,
      sa_approver_employee = (if em_reporting_to e = Some (em_id e) then None else em_reporting_to e),
      sa_manager_level = 1, sa_role_code = []\<rparr>"

definition ensure_default_promotion_transfer_workflow ::
  "uid \<Rightarrow> approval_request_kind \<Rightarrow> employee \<Rightarrow> 's approval_state \<Rightarrow> ('s approval_state \<times> approval_workflow option) res" where
  "ensure_default_promotion_transfer_workflow org kind e db =
     (if kind \<notin> {RK_PROMOTION, RK_TRANSFER}
      then Inl (ValueError ''ensure_default_promotion_transfer_workflow only supports PROMOTION or TRANSFER, got {}''
                  [AStr (request_kind_value kind)])
      else if default_workflows db org kind \<noteq> [] then Inr (db, None)
      else
        let n = ap_next_id db;
            stage = \<lparr>st_id = Suc n, st_name = ''Step 1'', st_sequence = 1, st_mode = MODE_ANY,
              st_fallback_type = FB_PRIMARY_ORG_ADMIN, st_fallback_employee = None, st_fallback_role_code = [],
              st_sla_policy = None, st_approvers = [manager_stage_approver e]\<rparr>;
            w = \<lparr>aw_id = n, aw_organisation = org,
              aw_name = ''Default '' @ (if kind = RK_PROMOTION then ''Promotion'' else ''Transfer'') @ '' Approval'',
              aw_is_default = True, aw_default_request_kind = Some kind, aw_is_active = True,
              aw_stages = [stage]\<rparr>
        in Inr (db\<lparr>ap_workflows := ap_workflows db @ [w], ap_next_id := n + 2\<rparr>, Some w))"

record approval_context =
  cx_grade :: string
  cx_band :: string
  cx_cost_centre :: string
  cx_legal_entity :: string

definition empty_context :: approval_context where
  "empty_context = \<lparr>cx_grade = [], cx_band = [], cx_cost_centre = [], cx_legal_entity = []\<rparr>"

definition same_text :: "string \<Rightarrow> string \<Rightarrow> bool" where
  "same_text a b = (py_lower (py_strip a) = py_lower (py_strip b))"

definition context_matches :: "string \<Rightarrow> string \<Rightarrow> bool" where
  "context_matches configured actual = (configured = [] \<or> same_text configured actual)"

definition optional_matches :: "'a option \<Rightarrow> 'a option \<Rightarrow> bool" where
  "optional_matches configured actual = (configured = None \<or> actual = configured)"

definition matches_rule ::
  "approval_workflow_rule \<Rightarrow> employee \<Rightarrow> approval_request_kind \<Rightarrow> uid option \<Rightarrow> rat option
     \<Rightarrow> approval_context \<Rightarrow> bool" where
  "matches_rule rule employee kind leave_type amount context =
     (rw_is_active rule \<and> rw_request_kind rule = kind \<and>
      optional_matches (rw_department rule) (em_department employee) \<and>
      optional_matches (rw_office_location rule) (em_office_location employee) \<and>
      optional_matches (rw_specific_employee rule) (Some (em_id employee)) \<and>
      optional_matches (rw_employment_type rule) (Some (em_employment_type employee)) \<and>
      (rw_designation rule = [] \<or> same_text (em_designation employee) (rw_designation rule)) \<and>
      optional_matches (rw_leave_type rule) leave_type \<and>
      (case rw_min_amount rule of None \<Rightarrow> True
        | Some lo \<Rightarrow> (case amount of None \<Rightarrow> False | Some a \<Rightarrow> \<not> a < lo)) \<and>
      (case rw_max_amount rule of None \<Rightarrow> True
        | Some hi \<Rightarrow> (case amount of None \<Rightarrow> False | Some a \<Rightarrow> \<not> a > hi)) \<and>
      context_matches (rw_grade rule) (cx_grade context) \<and>
      context_matches (rw_band rule) (cx_band context) \<and>
      context_matches (rw_cost_centre rule) (cx_cost_centre context) \<and>
      context_matches (rw_legal_entity rule) (cx_legal_entity context))"

definition legacy_workflow :: "employee \<Rightarrow> approval_request_kind \<Rightarrow> uid option" where
  "legacy_workflow employee kind =
     (case kind of
        RK_LEAVE \<Rightarrow> em_leave_approval_workflow employee
      | RK_ON_DUTY \<Rightarrow> em_on_duty_approval_workflow employee
      | RK_ATTENDANCE_REGULARIZATION \<Rightarrow> em_attendance_regularization_approval_workflow employee
      | RK_EXPENSE_CLAIM \<Rightarrow> em_expense_approval_workflow employee
      | _ \<Rightarrow> None)"

definition usable_workflow :: "employee \<Rightarrow> approval_workflow \<Rightarrow> bool" where
  "usable_workflow employee w = (aw_organisation w = em_organisation employee \<and> aw_is_active w)"

definition explicit_assignment ::
  "'s approval_state \<Rightarrow> employee \<Rightarrow> approval_request_kind \<Rightarrow> approval_workflow option" where
  "explicit_assignment db employee kind =
     (case first_row (\<lambda>a. wa_organisation a = em_organisation employee \<and> wa_employee a = em_id employee \<and>
             wa_request_kind a = kind \<and> wa_is_active a \<and>
             (case find_workflow db (wa_workflow a) of None \<Rightarrow> False | Some w \<Rightarrow> usable_workflow employee w))
           (ap_assignments db) of
        None \<Rightarrow> None
      | Some a \<Rightarrow> find_workflow db (wa_workflow a))"

definition get_employee_assigned_workflow ::
  "'s approval_state \<Rightarrow> employee \<Rightarrow> approval_request_kind \<Rightarrow> approval_workflow option" where
  "get_employee_assigned_workflow db employee kind =
     (case catalog_meta kind of
        None \<Rightarrow> None
      | Some meta \<Rightarrow>
          if \<not> mt_supports_employee_assignment meta then None
          else case explicit_assignment db employee kind of
            Some w \<Rightarrow> Some w
          | None \<Rightarrow>
              (case legacy_workflow employee kind of
                 None \<Rightarrow> None
               | Some i \<Rightarrow>
                   (case find_workflow db i of
                      None \<Rightarrow> None
                    | Some w \<Rightarrow> if usable_workflow employee w then Some w else None)))"

datatype workflow_source = BY_ASSIGNMENT | BY_RULE | BY_DEFAULT

text \<open>The active rules of the organisation for the kind, by priority, the oldest first.\<close>

definition candidate_rules ::
  "'s approval_state \<Rightarrow> uid \<Rightarrow> approval_request_kind \<Rightarrow> approval_workflow_rule list" where
  "candidate_rules db org kind =
     sort_key rw_priority (filter (\<lambda>r. rw_is_active r \<and> rw_request_kind r = kind \<and>
       (case find_workflow db (rw_workflow r) of None \<Rightarrow> False
          | Some w \<Rightarrow> aw_organisation w = org \<and> aw_is_active w)) (ap_rules db))"

definition no_default_workflow :: "approval_request_kind \<Rightarrow> py_error" where
  "no_default_workflow kind =
     ValueError ''No active default approval workflow is configured for {} requests.''
       [AStr (request_kind_words kind)]"

definition resolve_workflow_with_source ::
  "'s approval_state \<Rightarrow> employee \<Rightarrow> approval_request_kind \<Rightarrow> uid option \<Rightarrow> rat option
     \<Rightarrow> approval_context \<Rightarrow> (approval_workflow \<times> workflow_source) res" where
  "resolve_workflow_with_source db employee kind leave_type amount context =
     (case get_employee_assigned_workflow db employee kind of
        Some w \<Rightarrow> Inr (w, BY_ASSIGNMENT)
      | None \<Rightarrow>
          (case first_row (\<lambda>r. matches_rule r employee kind leave_type amount context)
                  (candidate_rules db (em_organisation employee) kind) of
             Some r \<Rightarrow>
               (case find_workflow db (rw_workflow r) of
                  Some w \<Rightarrow> Inr (w, BY_RULE)
                | None \<Rightarrow> Inl (DoesNotExist ''ApprovalWorkflow''))
           | None \<Rightarrow>
               (case get_default_workflow db (em_organisation employee) kind of
                  Some w \<Rightarrow> Inr (w, BY_DEFAULT)
                | None \<Rightarrow> Inl (no_default_workflow kind))))"

definition resolve_workflow ::
  "'s approval_state \<Rightarrow> employee \<Rightarrow> approval_request_kind \<Rightarrow> uid option \<Rightarrow> rat option
     \<Rightarrow> approval_context \<Rightarrow> approval_workflow res" where
  "resolve_workflow db employee kind leave_type amount context =
     bind_res (resolve_workflow_with_source db employee kind leave_type amount context) (\<lambda>p. Inr (fst p))"

section \<open>Readiness\<close>

record kind_readiness =
  kr_kind :: approval_request_kind
  kr_label :: string
  kr_module :: string
  kr_requires_default_workflow :: bool
  kr_default_workflow :: "uid option"
  kr_active_rule_count :: nat
  kr_ready :: bool

definition get_workflow_readiness :: "'s approval_state \<Rightarrow> uid \<Rightarrow> kind_readiness list" where
  "get_workflow_readiness db org =
     map (\<lambda>m. let default = get_default_workflow db org (mt_kind m)
              in \<lparr>kr_kind = mt_kind m, kr_label = mt_label m, kr_module = mt_module m,
                  kr_requires_default_workflow = mt_requires_default_workflow m,
                  kr_default_workflow = map_option aw_id default,
                  kr_active_rule_count = length (candidate_rules db org (mt_kind m)),
                  kr_ready = (if mt_requires_default_workflow m then default \<noteq> None else True)\<rparr>)
       APPROVAL_REQUEST_KIND_CATALOG"

section \<open>Lemmas\<close>

lemma find_workflow_id: "find_workflow db i = Some w \<Longrightarrow> aw_id w = i \<and> w \<in> set (ap_workflows db)"
  by (auto simp: find_workflow_def dest: first_row_SomeD)

lemma get_default_workflow_Some:
  "get_default_workflow db org kind = Some w \<Longrightarrow>
     aw_organisation w = org \<and> aw_is_active w \<and> aw_is_default w \<and> aw_default_request_kind w = Some kind \<and>
     w \<in> set (ap_workflows db)"
  by (auto simp: get_default_workflow_def default_workflows_def dest!: first_row_SomeD)

lemma get_default_workflow_None: "get_default_workflow db org kind = None \<longleftrightarrow> default_workflows db org kind = []"
  by (cases "default_workflows db org kind") (simp_all add: get_default_workflow_def)

lemma default_workflows_Nil:
  "default_workflows db org kind = [] \<longleftrightarrow> (\<forall>w \<in> set (ap_workflows db). \<not> (aw_organisation w = org \<and>
     aw_is_default w \<and> aw_default_request_kind w = Some kind \<and> aw_is_active w))"
  unfolding set_empty [symmetric] default_workflows_def by auto

lemma ensured_default_workflow:
  assumes "ensure_default_promotion_transfer_workflow org kind e db = Inr (db', created)"
  shows "get_default_workflow db' org kind \<noteq> None \<and>
    (created = None \<longleftrightarrow> get_default_workflow db org kind \<noteq> None) \<and> (created = None \<longrightarrow> db' = db)"
  using assms unfolding get_default_workflow_None
  by (auto simp: ensure_default_promotion_transfer_workflow_def Let_def default_workflows_Nil split: if_splits)

lemma explicit_assignment_Some:
  "explicit_assignment db e kind = Some w \<Longrightarrow> usable_workflow e w \<and> w \<in> set (ap_workflows db)"
  by (auto simp: explicit_assignment_def dest!: first_row_SomeD split: option.splits)
     (auto dest: find_workflow_id)

lemma get_employee_assigned_workflow_Some:
  "get_employee_assigned_workflow db e kind = Some w \<Longrightarrow> usable_workflow e w \<and> w \<in> set (ap_workflows db)"
  by (auto simp: get_employee_assigned_workflow_def dest!: explicit_assignment_Some
      dest: find_workflow_id split: option.splits if_splits)

lemma candidate_rules_mem:
  "r \<in> set (candidate_rules db org kind) \<Longrightarrow>
     \<exists>w. find_workflow db (rw_workflow r) = Some w \<and> aw_organisation w = org \<and> aw_is_active w"
  by (auto simp: candidate_rules_def split: option.splits)

lemma resolve_workflow_usable:
  assumes "resolve_workflow_with_source db e kind lt amount cx = Inr (w, src)"
  shows "usable_workflow e w \<and> w \<in> set (ap_workflows db)"
proof (cases "get_employee_assigned_workflow db e kind")
  case (Some v)
  with assms get_employee_assigned_workflow_Some [OF Some] show ?thesis
    by (simp add: resolve_workflow_with_source_def)
next
  case None
  show ?thesis
  proof (cases "first_row (\<lambda>r. matches_rule r e kind lt amount cx) (candidate_rules db (em_organisation e) kind)")
    case (Some r)
    with candidate_rules_mem [of r db "em_organisation e" kind] find_workflow_id [of db "rw_workflow r" w]
      None assms show ?thesis
      by (auto simp: resolve_workflow_with_source_def usable_workflow_def dest!: first_row_SomeD)
  next
    case no: None
    with None assms show ?thesis
      by (auto simp: resolve_workflow_with_source_def usable_workflow_def
          dest: get_default_workflow_Some split: option.splits)
  qed
qed

end
