(* ===== verification/StageApprovers.thy ===== *)
theory StageApprovers
  imports Delegation ApprovalRouting
begin

text \<open>
  Who acts on a stage (\<open>approvals/services.py\<close>): managers, department heads, location admins,
  role holders and named employees, each replaced by the delegate in force; the requester is
  replaced by the stage's fallback, users are listed once, and a stage nobody can act on is an
  error. Foreign keys point to existing rows; a dangling one is treated as unset.
\<close>

section \<open>Definitions\<close>

text \<open>\<open>_manager_at_level\<close>: at least one step up the reporting line.\<close>

fun climb :: "org_db \<Rightarrow> nat \<Rightarrow> employee \<Rightarrow> employee option" where
  "climb db 0 current = Some current"
| "climb db (Suc n) current =
     (case em_reporting_to current of
        None \<Rightarrow> None
      | Some m \<Rightarrow> (case find_employee db m of None \<Rightarrow> None | Some manager \<Rightarrow> climb db n manager))"

definition manager_at_level :: "org_db \<Rightarrow> employee option \<Rightarrow> nat \<Rightarrow> employee option" where
  "manager_at_level db employee level =
     (case employee of None \<Rightarrow> None | Some e \<Rightarrow> climb db (max level 1) e)"

definition ROLE_CODE_ALIASES :: "string \<Rightarrow> string option" where
  "ROLE_CODE_ALIASES =
     map_of [(''HR_BUSINESS_PARTNER'', ''ORG_HR_ADMIN''), (''PAYROLL_ADMIN'', ''ORG_PAYROLL_ADMIN''),
             (''FINANCE_APPROVER'', ''ORG_FINANCE_APPROVER''), (''LOCATION_ADMIN'', ''ORG_LOCATION_ADMIN''),
             (''DEPARTMENT_HEAD'', ''ORG_DEPARTMENT_HEAD'')]"

definition normalise_role_code :: "string \<Rightarrow> string" where
  "normalise_role_code role_code =
     (let code = py_upper (py_strip role_code) in or_else (ROLE_CODE_ALIASES code) code)"

definition employees_for_role :: "org_db \<Rightarrow> uid \<Rightarrow> string \<Rightarrow> role_scope_query option \<Rightarrow> employee list" where
  "employees_for_role db org role_code scope =
     (case scope of
        Some s \<Rightarrow> employees_with_scope db org (normalise_role_code role_code) s
      | None \<Rightarrow> employees_with_permission_role db org (normalise_role_code role_code))"

text \<open>
  \<open>getattr(department, 'head', None)\<close>: the department model has no such field, so the role decides.
\<close>

definition department_head :: "org_db \<Rightarrow> employee option \<Rightarrow> employee option" where
  "department_head db employee =
     (case employee of
        None \<Rightarrow> None
      | Some e \<Rightarrow>
          (case em_department e of
             None \<Rightarrow> None
           | Some d \<Rightarrow>
               first_row (\<lambda>_. True) (employees_for_role db (em_organisation e)
                 (approver_type_value AT_DEPARTMENT_HEAD)
                 (Some \<lparr>rs_office_location = None, rs_department = Some d, rs_employee = None\<rparr>))))"

definition location_admin :: "org_db \<Rightarrow> employee option \<Rightarrow> employee option" where
  "location_admin db employee =
     (case employee of
        None \<Rightarrow> None
      | Some e \<Rightarrow>
          (case em_office_location e of
             None \<Rightarrow> None
           | Some l \<Rightarrow>
               first_row (\<lambda>_. True) (employees_for_role db (em_organisation e)
                 (approver_type_value AT_LOCATION_ADMIN)
                 (Some \<lparr>rs_office_location = Some l, rs_department = None, rs_employee = None\<rparr>))))"

record stage_assignment =
  sg_user :: uid
  sg_employee :: "uid option"
  sg_source :: approval_action_assignment_source
  sg_original_user :: "uid option"
  sg_original_employee :: "uid option"

definition with_delegation ::
  "'s approval_state \<Rightarrow> date \<Rightarrow> approval_request_kind \<Rightarrow> uid \<times> employee option \<Rightarrow> stage_assignment" where
  "with_delegation db today kind approver =
     (let direct = \<lparr>sg_user = fst approver, sg_employee = map_option em_id (snd approver),
                    sg_source = SRC_DIRECT, sg_original_user = None, sg_original_employee = None\<rparr>
      in case snd approver of
           None \<Rightarrow> direct
         | Some e \<Rightarrow>
             (case get_active_approval_delegation db e kind today of
                None \<Rightarrow> direct
              | Some d \<Rightarrow>
                  (case find_employee (ap_org db) (dl_delegate d) of
                     None \<Rightarrow> direct
                   | Some dg \<Rightarrow>
                       \<lparr>sg_user = em_user dg, sg_employee = Some (em_id dg), sg_source = SRC_DELEGATED,
                        sg_original_user = Some (fst approver), sg_original_employee = Some (em_id e)\<rparr>)))"

definition as_approver :: "employee \<Rightarrow> uid \<times> employee option" where
  "as_approver e = (em_user e, Some e)"

text \<open>\<open>_resolve_stage_fallback\<close>; the role scope of a fallback is the whole organisation.\<close>

definition resolve_fallback ::
  "'s approval_state \<Rightarrow> approval_fallback_type \<Rightarrow> uid option \<Rightarrow> string \<Rightarrow> uid \<Rightarrow> employee option
     \<Rightarrow> (uid \<times> employee option) option" where
  "resolve_fallback db type fallback_employee role_code org requester =
     (let odb = ap_org db in
      case type of
        FB_NONE \<Rightarrow> None
      | FB_REPORTING_MANAGER \<Rightarrow> map_option as_approver (manager_at_level odb requester 1)
      | FB_DEPARTMENT_HEAD \<Rightarrow> map_option as_approver (department_head odb requester)
      | FB_ROLE \<Rightarrow> map_option as_approver (first_row (\<lambda>_. True) (employees_for_role odb org role_code None))
      | FB_SPECIFIC_EMPLOYEE \<Rightarrow>
          map_option as_approver (Option.bind fallback_employee (find_employee odb))
      | FB_PRIMARY_ORG_ADMIN \<Rightarrow>
          (case find_organisation odb org of
             None \<Rightarrow> None
           | Some og \<Rightarrow>
               (case og_primary_admin_user og of
                  Some u \<Rightarrow> Some (u, None)
                | None \<Rightarrow> map_option (\<lambda>u. (u, None)) (og_created_by og))))"

definition resolve_stage_fallback ::
  "'s approval_state \<Rightarrow> approval_stage \<Rightarrow> uid \<Rightarrow> employee option \<Rightarrow> (uid \<times> employee option) option" where
  "resolve_stage_fallback db stage org requester =
     resolve_fallback db (st_fallback_type stage) (st_fallback_employee stage)
       (st_fallback_role_code stage) org requester"

text \<open>The people one approver entry of a stage stands for.\<close>

definition approvers_of_entry ::
  "'s approval_state \<Rightarrow> approval_stage \<Rightarrow> employee option \<Rightarrow> uid \<Rightarrow> approval_stage_approver
     \<Rightarrow> (uid \<times> employee option) list" where
  "approvers_of_entry db stage requester org entry =
     (let odb = ap_org db; one = (\<lambda>x. case x of None \<Rightarrow> [] | Some e \<Rightarrow> [as_approver e]) in
      case sa_approver_type entry of
        AT_REPORTING_MANAGER \<Rightarrow>
          (case manager_at_level odb requester 1 of
             Some m \<Rightarrow> [as_approver m]
           | None \<Rightarrow> (case resolve_stage_fallback db stage org requester of None \<Rightarrow> [] | Some f \<Rightarrow> [f]))
      | AT_NTH_LEVEL_MANAGER \<Rightarrow> one (manager_at_level odb requester (sa_manager_level entry))
      | AT_DEPARTMENT_HEAD \<Rightarrow> one (department_head odb requester)
      | AT_LOCATION_ADMIN \<Rightarrow> one (location_admin odb requester)
      | AT_SPECIFIC_EMPLOYEE \<Rightarrow> one (Option.bind (sa_approver_employee entry) (find_employee odb))
      | AT_PRIMARY_ORG_ADMIN \<Rightarrow>
          (case Option.bind (find_organisation odb org) og_primary_admin_user of
             None \<Rightarrow> [] | Some u \<Rightarrow> [(u, None)])
      | type \<Rightarrow>
          map as_approver (employees_for_role odb org
            (if sa_role_code entry = [] then approver_type_value type else sa_role_code entry) None))"

text \<open>Kinds whose requester may act on the request.\<close>

definition requester_may_approve :: "approval_request_kind \<Rightarrow> bool" where
  "requester_may_approve kind =
     (kind \<in> {RK_PAYROLL_PROCESSING, RK_SALARY_REVISION, RK_COMPENSATION_TEMPLATE_CHANGE})"

definition fallback_assignment ::
  "'s approval_state \<Rightarrow> date \<Rightarrow> approval_stage \<Rightarrow> employee option \<Rightarrow> uid \<Rightarrow> approval_request_kind
     \<Rightarrow> stage_assignment list" where
  "fallback_assignment db today stage requester org kind =
     (case resolve_stage_fallback db stage org requester of
        None \<Rightarrow> [] | Some f \<Rightarrow> [with_delegation db today kind f])"

fun dedupe_users :: "stage_assignment list \<Rightarrow> uid list \<Rightarrow> stage_assignment list" where
  "dedupe_users [] seen = []"
| "dedupe_users (a # as) seen =
     (if sg_user a \<in> set seen then dedupe_users as seen
      else a # dedupe_users as (sg_user a # seen))"

text \<open>The list before the final check, which \<open>simulate_workflow\<close> asks for.\<close>

definition stage_approvers ::
  "'s approval_state \<Rightarrow> date \<Rightarrow> approval_stage \<Rightarrow> employee option \<Rightarrow> uid \<Rightarrow> approval_request_kind
     \<Rightarrow> stage_assignment list" where
  "stage_approvers db today stage requester org kind =
     (let fallback = fallback_assignment db today stage requester org kind;
          resolved = concat (map (\<lambda>entry. map (with_delegation db today kind)
                                (approvers_of_entry db stage requester org entry)) (st_approvers stage));
          filtered = concat (map (\<lambda>a.
            if Some (sg_user a) = map_option em_user requester \<and> \<not> requester_may_approve kind
            then fallback else [a]) resolved);
          deduped = dedupe_users filtered []
      in if deduped = [] then fallback else deduped)"

definition resolve_stage_approvers ::
  "'s approval_state \<Rightarrow> date \<Rightarrow> approval_stage \<Rightarrow> employee option \<Rightarrow> uid \<Rightarrow> approval_request_kind
     \<Rightarrow> stage_assignment list res" where
  "resolve_stage_approvers db today stage requester org kind =
     (let approvers = stage_approvers db today stage requester org kind
      in if approvers = []
         then Inl (ValueError ''No approvers could be resolved for stage \"{}\".'' [AStr (st_name stage)])
         else Inr approvers)"

section \<open>Simulation of a workflow\<close>

record simulated_stage =
  ss_sequence :: nat
  ss_name :: string
  ss_mode :: approval_stage_mode
  ss_approvers :: "stage_assignment list"
  ss_warnings :: "string list"

definition stages_in_order :: "approval_workflow \<Rightarrow> approval_stage list" where
  "stages_in_order w = sort_key st_sequence (aw_stages w)"

definition simulate_workflow ::
  "'s approval_state \<Rightarrow> date \<Rightarrow> employee \<Rightarrow> approval_request_kind \<Rightarrow> rat option \<Rightarrow> uid option
     \<Rightarrow> approval_context \<Rightarrow> (approval_workflow \<times> workflow_source \<times> simulated_stage list) res" where
  "simulate_workflow db today employee kind amount leave_type context =
     bind_res (resolve_workflow_with_source db employee kind leave_type amount context) (\<lambda>(w, source).
       Inr (w, source, map (\<lambda>stage.
         let approvers = stage_approvers db today stage (Some employee) (em_organisation employee) kind
         in \<lparr>ss_sequence = st_sequence stage, ss_name = st_name stage, ss_mode = st_mode stage,
             ss_approvers = approvers,
             ss_warnings = (if approvers = [] then [''No approver resolved for this stage.''] else [])\<rparr>)
         (stages_in_order w)))"

section \<open>Lemmas\<close>

lemma dedupe_users_distinct: "distinct (map sg_user (dedupe_users as seen))
    \<and> set (map sg_user (dedupe_users as seen)) \<inter> set seen = {}"
  by (induction as seen rule: dedupe_users.induct) auto

lemma dedupe_users_subset: "set (dedupe_users as seen) \<subseteq> set as"
  by (induction as seen rule: dedupe_users.induct) auto

lemma dedupe_users_Nil: "dedupe_users as [] = [] \<longleftrightarrow> as = []"
  by (cases as) simp_all

lemma fallback_assignment_cases:
  "fallback_assignment db today stage requester org kind = [] \<or>
   (\<exists>a. fallback_assignment db today stage requester org kind = [a])"
  by (auto simp: fallback_assignment_def split: option.splits)

lemma stage_approvers_distinct: "distinct (map sg_user (stage_approvers db today stage requester org kind))"
  using fallback_assignment_cases [of db today stage requester org kind]
  by (auto simp: stage_approvers_def Let_def dedupe_users_distinct)

lemma resolve_stage_approvers_Inr:
  "resolve_stage_approvers db today stage requester org kind = Inr as \<longleftrightarrow>
     as = stage_approvers db today stage requester org kind \<and> as \<noteq> []"
  by (auto simp: resolve_stage_approvers_def Let_def)

lemma stage_approvers_requester:
  assumes "a \<in> set (stage_approvers db today stage (Some e) org kind)"
    and "sg_user a = em_user e" "\<not> requester_may_approve kind"
  shows "fallback_assignment db today stage (Some e) org kind = [a]"
  using assms fallback_assignment_cases [of db today stage "Some e" org kind]
  by (auto simp: stage_approvers_def Let_def dest!: subsetD [OF dedupe_users_subset] split: if_splits)

text \<open>Climbing the reporting line composes.\<close>

lemma climb_add: "climb db (m + n) e = Option.bind (climb db m e) (climb db n)"
  by (induction m arbitrary: e) (auto split: option.splits)

end
