(* ===== verification/ApprovalEngine.thy ===== *)
theory ApprovalEngine
  imports StageApprovers
begin

text \<open>
  The life of an approval run (second half of \<open>approvals/services.py\<close>): creation, approval and
  rejection of an action, advancing through the stages, cancellation, reminders and escalations.
  A run's subject lives in another application; its reaction to an outcome is a parameter, the
  record \<open>subject_ops\<close>. A transaction that raises leaves the state as it was, which is the value
  \<open>Inl\<close>; the two batch jobs commit action by action and return the state they reached.
\<close>

section \<open>The subject of a run\<close>

record 's subject_ops =
  so_exists :: "subject_ref \<Rightarrow> 's \<Rightarrow> bool"
  so_set_status :: "subject_ref \<Rightarrow> subject_status \<Rightarrow> string \<Rightarrow> 's \<Rightarrow> 's"
  so_handle :: "subject_ref \<Rightarrow> subject_status \<Rightarrow> string \<Rightarrow> 's \<Rightarrow> 's res"

definition apply_subject_status ::
  "'s subject_ops \<Rightarrow> approval_run \<Rightarrow> subject_status \<Rightarrow> string \<Rightarrow> 's approval_state \<Rightarrow> 's approval_state res" where
  "apply_subject_status ops run new_status reason db =
     (if \<not> so_exists ops (rn_subject run) (ap_subjects db) then Inr db
      else bind_res (so_handle ops (rn_subject run) new_status reason
                       (so_set_status ops (rn_subject run) new_status reason (ap_subjects db)))
             (\<lambda>s. Inr (db\<lparr>ap_subjects := s\<rparr>)))"

section \<open>Runs and actions\<close>

definition find_run :: "'s approval_state \<Rightarrow> uid \<Rightarrow> approval_run option" where
  "find_run db i = first_row (\<lambda>r. rn_id r = i) (ap_runs db)"

definition find_action :: "'s approval_state \<Rightarrow> uid \<Rightarrow> approval_action option" where
  "find_action db i = first_row (\<lambda>a. ac_id a = i) (ap_actions db)"

definition find_stage :: "'s approval_state \<Rightarrow> approval_run \<Rightarrow> uid \<Rightarrow> approval_stage option" where
  "find_stage db run i =
     (case find_workflow db (rn_workflow run) of
        None \<Rightarrow> None | Some w \<Rightarrow> first_row (\<lambda>s. st_id s = i) (aw_stages w))"

definition update_run :: "uid \<Rightarrow> (approval_run \<Rightarrow> approval_run) \<Rightarrow> 's approval_state \<Rightarrow> 's approval_state" where
  "update_run i f db = db\<lparr>ap_runs := update_where (\<lambda>r. rn_id r = i) f (ap_runs db)\<rparr>"

definition update_actions ::
  "(approval_action \<Rightarrow> bool) \<Rightarrow> (approval_action \<Rightarrow> approval_action) \<Rightarrow> 's approval_state \<Rightarrow> 's approval_state" where
  "update_actions P f db = db\<lparr>ap_actions := update_where P f (ap_actions db)\<rparr>"

definition notify ::
  "uid \<Rightarrow> notification_kind \<Rightarrow> string \<Rightarrow> msg_arg list \<Rightarrow> string \<Rightarrow> uid \<Rightarrow> 's approval_state \<Rightarrow> 's approval_state" where
  "notify recipient kind title args comment related db =
     db\<lparr>ap_notifications := ap_notifications db @
        [\<lparr>nt_recipient = recipient, nt_kind = kind, nt_title = title, nt_title_args = args,
          nt_comment = comment, nt_related = related\<rparr>]\<rparr>"

text \<open>\<open>ApprovalAction.objects.create\<close> with its unique constraint on run, stage and user.\<close>

definition insert_action :: "approval_action \<Rightarrow> 's approval_state \<Rightarrow> 's approval_state res" where
  "insert_action a db =
     (if list_ex (\<lambda>b. ac_run b = ac_run a \<and> ac_stage b = ac_stage a \<and> ac_approver_user b = ac_approver_user a)
           (ap_actions db)
      then Inl (IntegrityError ''unique_approval_action_per_user_stage'')
      else Inr (db\<lparr>ap_actions := ap_actions db @ [a], ap_next_id := Suc (ap_next_id db)\<rparr>))"

definition new_action ::
  "clock \<Rightarrow> uid \<Rightarrow> uid \<Rightarrow> stage_assignment \<Rightarrow> 's approval_state \<Rightarrow> approval_action" where
  "new_action ck run_id stage_id g db =
     \<lparr>ac_id = ap_next_id db, ac_run = run_id, ac_stage = stage_id, ac_approver_user = sg_user g,
      ac_approver_employee = sg_employee g, ac_assignment_source = sg_source g,
      ac_original_approver_user = sg_original_user g, ac_original_approver_employee = sg_original_employee g,
      ac_status = ACT_PENDING, ac_comment = [], ac_created_at = ck_now ck, ac_acted_at = None,
      ac_reminder_sent_at = None, ac_escalated_at = None, ac_escalated_from = None\<rparr>"

definition create_stage_actions ::
  "clock \<Rightarrow> approval_run \<Rightarrow> approval_stage \<Rightarrow> 's approval_state \<Rightarrow> 's approval_state res" where
  "create_stage_actions ck run stage db =
     bind_res (resolve_stage_approvers db (ck_today ck) stage
                 (Option.bind (rn_requested_by run) (find_employee (ap_org db)))
                 (rn_organisation run) (rn_request_kind run))
       (\<lambda>assignments. fold_res (\<lambda>g d. insert_action (new_action ck (rn_id run) (st_id stage) g d) d) assignments db)"

definition first_stage :: "approval_workflow \<Rightarrow> approval_stage option" where
  "first_stage w = first_row (\<lambda>_. True) (stages_in_order w)"

definition no_stages :: py_error where
  "no_stages = ValueError ''The selected approval workflow does not contain any stages.'' []"

definition insert_run :: "approval_run \<Rightarrow> 's approval_state \<Rightarrow> 's approval_state" where
  "insert_run run db = db\<lparr>ap_runs := ap_runs db @ [run], ap_next_id := Suc (ap_next_id db)\<rparr>"

text \<open>
  Opening a run for a resolved workflow. Payroll opens runs this way with the requester's employee
  record absent; \<open>create_approval_run\<close> resolves the workflow from the employee first.
\<close>

definition open_approval_run ::
  "clock \<Rightarrow> approval_workflow \<Rightarrow> subject_ref \<Rightarrow> approval_request_kind \<Rightarrow> uid \<Rightarrow> uid option \<Rightarrow> uid
     \<Rightarrow> uid \<Rightarrow> string \<Rightarrow> 's approval_state \<Rightarrow> ('s approval_state \<times> approval_run) res" where
  "open_approval_run ck workflow subject kind org requester requester_user actor label db =
     (case first_stage workflow of
        None \<Rightarrow> Inl no_stages
      | Some stage \<Rightarrow>
          let run = \<lparr>rn_id = ap_next_id db, rn_organisation = org, rn_workflow = aw_id workflow,
                     rn_request_kind = kind, rn_requested_by = requester,
                     rn_requested_by_user = Some requester_user, rn_status = RUN_PENDING,
                     rn_current_stage_sequence = st_sequence stage, rn_subject_label = label,
                     rn_subject = subject\<rparr>
          in bind_res (create_stage_actions ck run stage (insert_run run db))
               (\<lambda>d. Inr (audit (Some actor) ''approval.run.created'' (rn_id run) d, run)))"

definition create_approval_run ::
  "clock \<Rightarrow> subject_ref \<Rightarrow> approval_request_kind \<Rightarrow> employee \<Rightarrow> uid option \<Rightarrow> uid option \<Rightarrow> string
     \<Rightarrow> rat option \<Rightarrow> approval_context \<Rightarrow> 's approval_state \<Rightarrow> ('s approval_state \<times> approval_run) res" where
  "create_approval_run ck subject kind requester actor leave_type label amount context db =
     bind_res (resolve_workflow db requester kind leave_type amount context)
       (\<lambda>w. open_approval_run ck w subject kind (em_organisation requester) (Some (em_id requester))
              (em_user requester) (or_else actor (em_user requester)) label db)"

definition get_pending_approval_actions_for_user ::
  "'s approval_state \<Rightarrow> uid \<Rightarrow> uid option \<Rightarrow> approval_action list" where
  "get_pending_approval_actions_for_user db user org =
     filter (\<lambda>a. ac_approver_user a = user \<and> ac_status a = ACT_PENDING \<and>
       (case find_run db (ac_run a) of
          None \<Rightarrow> False
        | Some r \<Rightarrow> rn_status r = RUN_PENDING \<and> (org = None \<or> Some (rn_organisation r) = org)))
       (ap_actions db)"

section \<open>Outcomes\<close>

definition approval_outcome_kind :: "approval_run \<Rightarrow> approval_run_status \<Rightarrow> notification_kind" where
  "approval_outcome_kind run new_status =
     (let approved = (new_status = RUN_APPROVED) in
      if rn_request_kind run = RK_LEAVE then (if approved then NK_LEAVE_APPROVED else NK_LEAVE_REJECTED)
      else if rn_request_kind run = RK_ATTENDANCE_REGULARIZATION then
        (if approved then NK_ATTENDANCE_REGULARIZATION_APPROVED else NK_ATTENDANCE_REGULARIZATION_REJECTED)
      else if rn_request_kind run \<in> {RK_SALARY_REVISION, RK_COMPENSATION_TEMPLATE_CHANGE} then
        (if approved then NK_COMPENSATION_APPROVED else NK_COMPENSATION_REJECTED)
      else NK_GENERAL)"

text \<open>\<open>related_object=approval_run.content_object or approval_run\<close>.\<close>

definition notify_approval_outcome ::
  "'s subject_ops \<Rightarrow> approval_run \<Rightarrow> approval_run_status \<Rightarrow> string \<Rightarrow> 's approval_state \<Rightarrow> 's approval_state" where
  "notify_approval_outcome ops run new_status comment db =
     (case rn_requested_by_user run of
        None \<Rightarrow> db
      | Some u \<Rightarrow>
          notify u (approval_outcome_kind run new_status) ''Your {} request has been {}''
            [AStr (request_kind_words (rn_request_kind run)),
             AStr (if new_status = RUN_APPROVED then ''approved'' else ''rejected'')] comment
            (if so_exists ops (rn_subject run) (ap_subjects db) then snd (rn_subject run) else rn_id run) db)"

definition next_stage :: "approval_workflow \<Rightarrow> nat \<Rightarrow> approval_stage option" where
  "next_stage w sequence = first_row (\<lambda>s. st_sequence s > sequence) (stages_in_order w)"

text \<open>The workflow of a run exists: its key is protected from deletion.\<close>

definition advance_or_complete_run ::
  "clock \<Rightarrow> 's subject_ops \<Rightarrow> approval_run \<Rightarrow> uid \<Rightarrow> 's approval_state \<Rightarrow> 's approval_state res" where
  "advance_or_complete_run ck ops run actor db =
     (case find_workflow db (rn_workflow run) of
        None \<Rightarrow> Inl (DoesNotExist ''ApprovalWorkflow'')
      | Some w \<Rightarrow>
          (case next_stage w (rn_current_stage_sequence run) of
             None \<Rightarrow>
               bind_res (apply_subject_status ops run SUBJECT_APPROVED []
                           (update_run (rn_id run) (\<lambda>r. r\<lparr>rn_status := RUN_APPROVED\<rparr>) db))
                 (\<lambda>d. Inr (audit (Some actor) ''approval.run.approved'' (rn_id run)
                             (notify_approval_outcome ops run RUN_APPROVED [] d)))
           | Some stage \<Rightarrow>
               bind_res (create_stage_actions ck run stage
                           (update_run (rn_id run) (\<lambda>r. r\<lparr>rn_current_stage_sequence := st_sequence stage\<rparr>) db))
                 (\<lambda>d. Inr (audit (Some actor) ''approval.run.advanced'' (rn_id run) d))))"

text \<open>The checks both \<open>approve_action\<close> and \<open>reject_action\<close> start with.\<close>

definition check_actionable :: "clock \<Rightarrow> approval_action \<Rightarrow> approval_run \<Rightarrow> uid \<Rightarrow> 's approval_state \<Rightarrow> unit res" where
  "check_actionable ck action run actor db =
     (if ac_approver_user action \<noteq> actor
      then raise_value ''You are not allowed to act on this approval.''
      else if ac_status action \<noteq> ACT_PENDING
      then raise_value ''This approval action is no longer pending.''
      else let guard = get_org_operations_guard (ap_org db) (rn_organisation run) (ck_today ck)
           in guard_res (gd_approval_actions_blocked guard) (ValueError (gd_reason guard) []))"

definition sibling_pending :: "approval_action \<Rightarrow> 's approval_state \<Rightarrow> bool" where
  "sibling_pending action db =
     list_ex (\<lambda>b. ac_run b = ac_run action \<and> ac_stage b = ac_stage action \<and> ac_status b = ACT_PENDING)
       (ap_actions db)"

text \<open>The rows an approval writes: the action, and on an any-of stage its pending siblings.\<close>

definition record_approval ::
  "clock \<Rightarrow> approval_stage \<Rightarrow> approval_action \<Rightarrow> string \<Rightarrow> 's approval_state \<Rightarrow> 's approval_state" where
  "record_approval ck stage action comment db =
     (let db1 = update_actions (\<lambda>a. ac_id a = ac_id action)
                  (\<lambda>a. a\<lparr>ac_status := ACT_APPROVED, ac_comment := comment, ac_acted_at := Some (ck_now ck)\<rparr>) db
      in if st_mode stage = MODE_ANY
         then update_actions
                (\<lambda>a. ac_run a = ac_run action \<and> ac_stage a = ac_stage action \<and>
                     ac_id a \<noteq> ac_id action \<and> ac_status a = ACT_PENDING)
                (\<lambda>a. a\<lparr>ac_status := ACT_SKIPPED, ac_acted_at := Some (ck_now ck)\<rparr>) db1
         else db1)"

definition approve_action ::
  "clock \<Rightarrow> 's subject_ops \<Rightarrow> uid \<Rightarrow> uid \<Rightarrow> string \<Rightarrow> 's approval_state \<Rightarrow> 's approval_state res" where
  "approve_action ck ops action_id actor comment db =
     (case find_action db action_id of
        None \<Rightarrow> Inl (DoesNotExist ''ApprovalAction'')
      | Some action \<Rightarrow>
     (case find_run db (ac_run action) of
        None \<Rightarrow> Inl (DoesNotExist ''ApprovalRun'')
      | Some run \<Rightarrow>
     (case find_stage db run (ac_stage action) of
        None \<Rightarrow> Inl (DoesNotExist ''ApprovalStage'')
      | Some stage \<Rightarrow>
     bind_res (check_actionable ck action run actor db) (\<lambda>_.
       let db2 = record_approval ck stage action comment db;
           stage_complete = (st_mode stage = MODE_ANY \<or> \<not> sibling_pending action db2)
       in bind_res (if stage_complete then advance_or_complete_run ck ops run actor db2 else Inr db2)
            (\<lambda>d. Inr (audit (Some actor) ''approval.action.approved'' action_id d))))))"

definition reject_action ::
  "clock \<Rightarrow> 's subject_ops \<Rightarrow> uid \<Rightarrow> uid \<Rightarrow> string \<Rightarrow> 's approval_state \<Rightarrow> 's approval_state res" where
  "reject_action ck ops action_id actor comment db =
     (case find_action db action_id of
        None \<Rightarrow> Inl (DoesNotExist ''ApprovalAction'')
      | Some action \<Rightarrow>
     (case find_run db (ac_run action) of
        None \<Rightarrow> Inl (DoesNotExist ''ApprovalRun'')
      | Some run \<Rightarrow>
     bind_res (check_actionable ck action run actor db) (\<lambda>_.
       let db1 = update_actions (\<lambda>a. ac_id a = action_id)
                   (\<lambda>a. a\<lparr>ac_status := ACT_REJECTED, ac_comment := comment, ac_acted_at := Some (ck_now ck)\<rparr>) db;
           db2 = update_run (rn_id run) (\<lambda>r. r\<lparr>rn_status := RUN_REJECTED\<rparr>) db1;
           db3 = update_actions (\<lambda>a. ac_run a = ac_run action \<and> ac_id a \<noteq> action_id \<and> ac_status a = ACT_PENDING)
                   (\<lambda>a. a\<lparr>ac_status := ACT_CANCELLED, ac_acted_at := Some (ck_now ck)\<rparr>) db2
       in bind_res (apply_subject_status ops run SUBJECT_REJECTED comment db3)
            (\<lambda>d. Inr (audit (Some actor) ''approval.action.rejected'' action_id
                        (notify_approval_outcome ops run RUN_REJECTED comment d))))))"

text \<open>\<open>subject_status\<close> is \<open>None\<close> when the caller keeps the subject (a recalculated pay run).\<close>

definition cancel_approval_run ::
  "clock \<Rightarrow> 's subject_ops \<Rightarrow> uid \<Rightarrow> uid option \<Rightarrow> subject_status option \<Rightarrow> 's approval_state
     \<Rightarrow> 's approval_state res" where
  "cancel_approval_run ck ops run_id actor subject_status db =
     (case find_run db run_id of
        None \<Rightarrow> Inl (DoesNotExist ''ApprovalRun'')
      | Some run \<Rightarrow>
          if rn_status run \<noteq> RUN_PENDING then Inr db
          else
            let db1 = update_run run_id (\<lambda>r. r\<lparr>rn_status := RUN_CANCELLED\<rparr>) db;
                db2 = update_actions (\<lambda>a. ac_run a = run_id \<and> ac_status a = ACT_PENDING)
                        (\<lambda>a. a\<lparr>ac_status := ACT_CANCELLED, ac_acted_at := Some (ck_now ck)\<rparr>) db1
            in bind_res (case subject_status of None \<Rightarrow> Inr db2
                           | Some st \<Rightarrow> apply_subject_status ops run st [] db2)
                 (\<lambda>d. Inr (audit actor ''approval.run.cancelled'' run_id d)))"

section \<open>Reminders and escalations\<close>

definition get_stage_sla_policy :: "approval_stage \<Rightarrow> approval_stage_escalation_policy option" where
  "get_stage_sla_policy stage =
     (case st_sla_policy stage of None \<Rightarrow> None | Some p \<Rightarrow> if ep_is_active p then Some p else None)"

text \<open>Hours after creation, when the policy sets them (zero counts as unset).\<close>

definition deadline_passed :: "nat option \<Rightarrow> approval_action \<Rightarrow> instant \<Rightarrow> bool" where
  "deadline_passed hours action current_time =
     (case hours of None \<Rightarrow> False
      | Some h \<Rightarrow> h \<noteq> 0 \<and> \<not> ac_created_at action + 3600 * int h > current_time)"

definition pending_actions :: "'s approval_state \<Rightarrow> approval_action list" where
  "pending_actions db =
     filter (\<lambda>a. ac_status a = ACT_PENDING \<and>
       (case find_run db (ac_run a) of None \<Rightarrow> False | Some r \<Rightarrow> rn_status r = RUN_PENDING)) (ap_actions db)"

definition action_policy ::
  "'s approval_state \<Rightarrow> approval_action \<Rightarrow> (approval_run \<times> approval_stage_escalation_policy) option" where
  "action_policy db action =
     (case find_run db (ac_run action) of None \<Rightarrow> None
      | Some run \<Rightarrow> (case find_stage db run (ac_stage action) of None \<Rightarrow> None
        | Some stage \<Rightarrow> map_option (Pair run) (get_stage_sla_policy stage)))"

definition remind_step ::
  "instant \<Rightarrow> approval_action \<Rightarrow> 's approval_state \<times> nat \<Rightarrow> 's approval_state \<times> nat" where
  "remind_step now action acc =
     (case acc of (db, n) \<Rightarrow>
        (case action_policy db action of None \<Rightarrow> acc
         | Some (run, policy) \<Rightarrow>
             if ac_reminder_sent_at action \<noteq> None \<or> \<not> deadline_passed (ep_reminder_after_hours policy) action now
             then acc
             else
               let due = (\<lambda>a. ac_id a = ac_id action \<and> ac_reminder_sent_at a = None \<and> ac_status a = ACT_PENDING)
               in if \<not> list_ex due (ap_actions db) then acc
                  else (audit None ''approval.action.reminder_sent'' (ac_id action)
                          (notify (ac_approver_user action) NK_GENERAL ''Approval reminder: {}''
                             [AStr (rn_subject_label run)] [] (rn_id run)
                             (update_actions due (\<lambda>a. a\<lparr>ac_reminder_sent_at := Some now\<rparr>) db)),
                        n + 1)))"

definition send_pending_action_reminders :: "instant \<Rightarrow> 's approval_state \<Rightarrow> 's approval_state \<times> nat" where
  "send_pending_action_reminders now db = fold (remind_step now) (pending_actions db) (db, 0)"

text \<open>\<open>_resolve_escalation_target\<close>: the creator of the organisation is no escalation target.\<close>

definition resolve_escalation_target ::
  "'s approval_state \<Rightarrow> approval_run \<Rightarrow> approval_stage_escalation_policy \<Rightarrow> (uid \<times> employee option) option" where
  "resolve_escalation_target db run policy =
     (if ep_escalation_target_type policy = FB_PRIMARY_ORG_ADMIN
      then map_option (\<lambda>u. (u, None))
             (Option.bind (find_organisation (ap_org db) (rn_organisation run)) og_primary_admin_user)
      else resolve_fallback db (ep_escalation_target_type policy) (ep_escalation_employee policy)
             (ep_escalation_role_code policy) (rn_organisation run)
             (Option.bind (rn_requested_by run) (find_employee (ap_org db))))"

definition escalated_action ::
  "instant \<Rightarrow> approval_action \<Rightarrow> uid \<times> employee option \<Rightarrow> 's approval_state \<Rightarrow> approval_action" where
  "escalated_action now locked target db =
     \<lparr>ac_id = ap_next_id db, ac_run = ac_run locked, ac_stage = ac_stage locked,
      ac_approver_user = fst target, ac_approver_employee = map_option em_id (snd target),
      ac_assignment_source = SRC_ESCALATED,
      ac_original_approver_user = Some (or_else (ac_original_approver_user locked) (ac_approver_user locked)),
      ac_original_approver_employee =
        (case ac_original_approver_employee locked of Some e \<Rightarrow> Some e | None \<Rightarrow> ac_approver_employee locked),
      ac_status = ACT_PENDING, ac_comment = [], ac_created_at = now, ac_acted_at = None,
      ac_reminder_sent_at = None, ac_escalated_at = None, ac_escalated_from = Some (ac_id locked)\<rparr>"

text \<open>The transaction of one escalation, on the locked row.\<close>

definition escalate_locked ::
  "instant \<Rightarrow> approval_action \<Rightarrow> uid \<times> employee option \<Rightarrow> 's approval_state \<Rightarrow> 's approval_state res" where
  "escalate_locked now locked target db =
     bind_res
       (if list_ex (\<lambda>b. ac_run b = ac_run locked \<and> ac_stage b = ac_stage locked \<and>
                        ac_approver_user b = fst target \<and> ac_status b = ACT_PENDING) (ap_actions db)
        then Inr db
        else insert_action (escalated_action now locked target db) db)
       (\<lambda>d. Inr (update_actions (\<lambda>a. ac_id a = ac_id locked)
          (\<lambda>a. a\<lparr>ac_status := ACT_CANCELLED, ac_acted_at := Some now, ac_escalated_at := Some now\<rparr>) d))"

definition escalate_step :: "instant \<Rightarrow> approval_action \<Rightarrow> 's approval_state \<Rightarrow> ('s approval_state \<times> bool) res" where
  "escalate_step now action db =
     (case action_policy db action of None \<Rightarrow> Inr (db, False)
      | Some (run, policy) \<Rightarrow>
          if ac_escalated_at action \<noteq> None \<or> \<not> deadline_passed (ep_escalate_after_hours policy) action now
          then Inr (db, False)
          else
            (case resolve_escalation_target db run policy of None \<Rightarrow> Inr (db, False)
             | Some target \<Rightarrow>
                 if fst target = ac_approver_user action then Inr (db, False)
                 else
                   (case find_action db (ac_id action) of
                      None \<Rightarrow> Inl (DoesNotExist ''ApprovalAction'')
                    | Some locked \<Rightarrow>
                        if ac_status locked \<noteq> ACT_PENDING \<or> ac_escalated_at locked \<noteq> None then Inr (db, False)
                        else bind_res (escalate_locked now locked target db) (\<lambda>d.
                          Inr (audit None ''approval.action.escalated'' (rn_id run)
                                 (notify (fst target) NK_GENERAL ''Escalated approval: {}''
                                    [AStr (rn_subject_label run)] [] (rn_id run) d), True)))))"

text \<open>An error ends the job; what it committed before stays.\<close>

fun escalate_all :: "instant \<Rightarrow> approval_action list \<Rightarrow> nat \<Rightarrow> 's approval_state \<Rightarrow> 's approval_state \<times> nat res" where
  "escalate_all now [] n db = (db, Inr n)"
| "escalate_all now (a # as) n db =
     (case escalate_step now a db of
        Inl e \<Rightarrow> (db, Inl e)
      | Inr (d, escalated) \<Rightarrow> escalate_all now as (if escalated then n + 1 else n) d)"

definition process_pending_action_escalations :: "instant \<Rightarrow> 's approval_state \<Rightarrow> 's approval_state \<times> nat res" where
  "process_pending_action_escalations now db = escalate_all now (pending_actions db) 0 db"

end
