(* ===== verification/ApprovalInvariant.thy ===== *)
theory ApprovalInvariant
  imports ApprovalEngine
begin

text \<open>
  The invariant of the approval engine and its consequences: pending actions belong to the current
  stage of a pending run, a pending run always has one, and a stage is passed only after somebody
  approved it. Every operation keeps it, so it holds in every reachable state.
\<close>

section \<open>Definitions\<close>

definition acts_of :: "uid \<Rightarrow> approval_action list \<Rightarrow> approval_action list" where
  "acts_of i as = filter (\<lambda>a. ac_run a = i) as"

definition wf_workflows :: "approval_workflow list \<Rightarrow> bool" where
  "wf_workflows ws \<longleftrightarrow> distinct (map aw_id ws) \<and>
     (\<forall>w \<in> set ws. distinct (map st_id (aw_stages w)) \<and> distinct (map st_sequence (aw_stages w)))"

definition at_stage :: "approval_workflow \<Rightarrow> nat \<Rightarrow> approval_action \<Rightarrow> bool" where
  "at_stage w c a \<longleftrightarrow> (\<exists>s \<in> set (aw_stages w). st_id s = ac_stage a \<and> st_sequence s = c)"

definition approved_stage :: "approval_action list \<Rightarrow> approval_stage \<Rightarrow> bool" where
  "approved_stage as s \<longleftrightarrow> (\<exists>a \<in> set as. ac_stage a = st_id s \<and> ac_status a = ACT_APPROVED)"

definition run_ok :: "'s approval_state \<Rightarrow> approval_action list \<Rightarrow> approval_run \<Rightarrow> bool" where
  "run_ok db as r \<longleftrightarrow> (\<exists>w. find_workflow db (rn_workflow r) = Some w \<and>
     (\<forall>a \<in> set as. ac_status a = ACT_PENDING \<longrightarrow>
        rn_status r = RUN_PENDING \<and> at_stage w (rn_current_stage_sequence r) a) \<and>
     (rn_status r = RUN_PENDING \<longrightarrow> (\<exists>a \<in> set as. ac_status a = ACT_PENDING)) \<and>
     (\<forall>s \<in> set (aw_stages w). st_sequence s < rn_current_stage_sequence r \<or> rn_status r = RUN_APPROVED \<longrightarrow>
        approved_stage as s))"

definition action_key :: "approval_action \<Rightarrow> uid \<times> uid \<times> uid" where
  "action_key a = (ac_run a, ac_stage a, ac_approver_user a)"

definition keys_ok :: "'s approval_state \<Rightarrow> bool" where
  "keys_ok db \<longleftrightarrow> wf_workflows (ap_workflows db) \<and>
     distinct (map rn_id (ap_runs db)) \<and> distinct (map ac_id (ap_actions db)) \<and>
     distinct (map action_key (ap_actions db)) \<and>
     (\<forall>r \<in> set (ap_runs db). rn_id r < ap_next_id db) \<and>
     (\<forall>a \<in> set (ap_actions db). ac_id a < ap_next_id db \<and> ac_run a \<in> rn_id ` set (ap_runs db))"

definition engine_inv :: "'s approval_state \<Rightarrow> bool" where
  "engine_inv db \<longleftrightarrow> keys_ok db \<and>
     (\<forall>r \<in> set (ap_runs db). run_ok db (acts_of (rn_id r) (ap_actions db)) r)"

section \<open>Frame lemmas\<close>

lemma acts_of_mem [simp]: "a \<in> set (acts_of i as) \<longleftrightarrow> a \<in> set as \<and> ac_run a = i"
  by (auto simp: acts_of_def)

lemma acts_of_append [simp]: "acts_of i (as @ bs) = acts_of i as @ acts_of i bs"
  by (simp add: acts_of_def)

lemma acts_of_update_other:
  "(\<And>a. a \<in> set as \<Longrightarrow> P a \<Longrightarrow> ac_run a = j \<and> ac_run (f a) = j) \<Longrightarrow> i \<noteq> j \<Longrightarrow>
     acts_of i (update_where P f as) = acts_of i as"
  by (induction as) (auto simp: acts_of_def)

lemma find_workflow_cong: "ap_workflows db' = ap_workflows db \<Longrightarrow> find_workflow db' i = find_workflow db i"
  by (simp add: find_workflow_def)

lemma run_ok_cong: "ap_workflows db' = ap_workflows db \<Longrightarrow> run_ok db' as r = run_ok db as r"
  unfolding run_ok_def using find_workflow_cong [of db' db] by simp

lemma distinct_key_eq: "distinct (map k xs) \<Longrightarrow> x \<in> set xs \<Longrightarrow> y \<in> set xs \<Longrightarrow> k x = k y \<Longrightarrow> x = y"
  by (induction xs) (auto simp: image_iff)

lemma find_run_Some: "find_run db i = Some r \<Longrightarrow> r \<in> set (ap_runs db) \<and> rn_id r = i"
  by (auto simp: find_run_def dest: first_row_SomeD)

lemma find_action_Some: "find_action db i = Some a \<Longrightarrow> a \<in> set (ap_actions db) \<and> ac_id a = i"
  by (auto simp: find_action_def dest: first_row_SomeD)

lemma first_row_distinct:
  "distinct (map k xs) \<Longrightarrow> x \<in> set xs \<Longrightarrow> first_row (\<lambda>y. k y = k x) xs = Some x"
  by (induction xs) (auto simp: image_iff)

lemma find_workflow_mem: "wf_workflows (ap_workflows db) \<Longrightarrow> w \<in> set (ap_workflows db) \<Longrightarrow> find_workflow db (aw_id w) = Some w"
  by (simp add: find_workflow_def wf_workflows_def first_row_distinct)

lemma find_run_mem: "keys_ok db \<Longrightarrow> r \<in> set (ap_runs db) \<Longrightarrow> find_run db (rn_id r) = Some r"
  by (simp add: find_run_def keys_ok_def first_row_distinct)

lemma find_action_mem: "keys_ok db \<Longrightarrow> a \<in> set (ap_actions db) \<Longrightarrow> find_action db (ac_id a) = Some a"
  by (simp add: find_action_def keys_ok_def first_row_distinct)

section \<open>Keys\<close>

text \<open>What an update of the actions must leave: the key columns.\<close>

definition keeps_key :: "(approval_action \<Rightarrow> approval_action) \<Rightarrow> bool" where
  "keeps_key f \<longleftrightarrow> (\<forall>a. ac_id (f a) = ac_id a \<and> action_key (f a) = action_key a)"

lemma keeps_keyD: "keeps_key f \<Longrightarrow> ac_id (f a) = ac_id a" "keeps_key f \<Longrightarrow> ac_run (f a) = ac_run a"
    "keeps_key f \<Longrightarrow> ac_stage (f a) = ac_stage a" "keeps_key f \<Longrightarrow> ac_approver_user (f a) = ac_approver_user a"
  by (auto simp: keeps_key_def action_key_def)

lemma keys_update_actions:
  assumes "keys_ok db" "keeps_key f"
  shows "keys_ok (update_actions P f db)"
proof -
  have "map ac_id (update_where P f as) = map ac_id as" "map action_key (update_where P f as) = map action_key as" for as
    using assms(2) by (auto simp: keeps_key_def intro!: map_update_where_frame)
  then show ?thesis using assms
    by (auto simp: keys_ok_def update_actions_def set_update_where keeps_keyD)
qed

lemma keys_update_run:
  assumes "keys_ok db" "\<And>r. rn_id (f r) = rn_id r"
  shows "keys_ok (update_run i f db)"
proof -
  have "map rn_id (update_where P f rs) = map rn_id rs" for P rs
    using assms(2) by (auto intro!: map_update_where_frame)
  then have m: "map rn_id (ap_runs (update_run i f db)) = map rn_id (ap_runs db)" by (simp add: update_run_def)
  then have "rn_id ` set (ap_runs (update_run i f db)) = rn_id ` set (ap_runs db)" by (metis set_map)
  with m assms(1) show ?thesis
    by (auto simp: keys_ok_def update_run_def set_update_where assms(2))
qed

lemma keys_insert_action:
  assumes "insert_action a db = Inr db'" "keys_ok db" "ac_id a = ap_next_id db" "ac_run a \<in> rn_id ` set (ap_runs db)"
  shows "keys_ok db'"
proof -
  have "action_key a \<notin> action_key ` set (ap_actions db)"
    using assms(1) by (auto simp: insert_action_def list_ex_iff action_key_def image_iff split: if_splits)
  moreover have "ac_id a \<notin> ac_id ` set (ap_actions db)"
    using assms(2,3) by (auto simp: keys_ok_def)
  moreover have "db' = db\<lparr>ap_actions := ap_actions db @ [a], ap_next_id := Suc (ap_next_id db)\<rparr>"
    using assms(1) by (simp add: insert_action_def split: if_splits)
  ultimately show ?thesis using assms(2-4) by (fastforce simp: keys_ok_def)
qed

lemma keys_insert_run:
  assumes "keys_ok db" "rn_id r = ap_next_id db"
  shows "keys_ok (insert_run r db)"
  using assms by (fastforce simp: keys_ok_def insert_run_def)

text \<open>Log, notifications and subjects are not looked at.\<close>

lemma keys_ok_cong:
  "ap_workflows db' = ap_workflows db \<Longrightarrow> ap_runs db' = ap_runs db \<Longrightarrow> ap_actions db' = ap_actions db
    \<Longrightarrow> ap_next_id db' = ap_next_id db \<Longrightarrow> keys_ok db' = keys_ok db"
  by (simp add: keys_ok_def)

lemma engine_inv_cong:
  assumes "ap_workflows db' = ap_workflows db" "ap_runs db' = ap_runs db" "ap_actions db' = ap_actions db"
    "ap_next_id db' = ap_next_id db"
  shows "engine_inv db' = engine_inv db"
  using keys_ok_cong [OF assms] run_ok_cong [OF assms(1)] by (simp add: engine_inv_def assms(2,3))

lemma log_frames [frame_simps]:
  "ap_workflows (audit a e t db) = ap_workflows db" "ap_runs (audit a e t db) = ap_runs db"
  "ap_actions (audit a e t db) = ap_actions db" "ap_next_id (audit a e t db) = ap_next_id db"
  "ap_workflows (notify u k m as c i db) = ap_workflows db" "ap_runs (notify u k m as c i db) = ap_runs db"
  "ap_actions (notify u k m as c i db) = ap_actions db" "ap_next_id (notify u k m as c i db) = ap_next_id db"
  by (simp_all add: audit_def notify_def)

lemma outcome_frames [frame_simps]:
  "ap_workflows (notify_approval_outcome ops r s c db) = ap_workflows db"
  "ap_runs (notify_approval_outcome ops r s c db) = ap_runs db"
  "ap_actions (notify_approval_outcome ops r s c db) = ap_actions db"
  "ap_next_id (notify_approval_outcome ops r s c db) = ap_next_id db"
  by (simp_all add: notify_approval_outcome_def frame_simps split: option.splits)

lemma subject_frames:
  "apply_subject_status ops r s c db = Inr db' \<Longrightarrow>
     ap_workflows db' = ap_workflows db \<and> ap_runs db' = ap_runs db \<and> ap_actions db' = ap_actions db \<and>
     ap_next_id db' = ap_next_id db"
  by (auto simp: apply_subject_status_def split: if_splits)

lemma update_frames [frame_simps]:
  "ap_workflows (update_actions P f db) = ap_workflows db" "ap_runs (update_actions P f db) = ap_runs db"
  "ap_actions (update_actions P f db) = update_where P f (ap_actions db)"
  "ap_next_id (update_actions P f db) = ap_next_id db"
  "ap_workflows (update_run i g db) = ap_workflows db" "ap_actions (update_run i g db) = ap_actions db"
  "ap_runs (update_run i g db) = update_where (\<lambda>r. rn_id r = i) g (ap_runs db)"
  "ap_next_id (update_run i g db) = ap_next_id db"
  "ap_workflows (insert_run r db) = ap_workflows db" "ap_actions (insert_run r db) = ap_actions db"
  "ap_runs (insert_run r db) = ap_runs db @ [r]" "ap_next_id (insert_run r db) = Suc (ap_next_id db)"
  by (simp_all add: update_actions_def update_run_def insert_run_def)

section \<open>Opening a stage\<close>

lemma fold_insert_effect:
  assumes "fold_res (\<lambda>g d. insert_action (new_action ck i st g d) d) gs db = Inr db'"
  shows "\<exists>new. ap_actions db' = ap_actions db @ new \<and> length new = length gs \<and>
      (\<forall>a \<in> set new. ac_run a = i \<and> ac_stage a = st \<and> ac_status a = ACT_PENDING) \<and>
      map ac_approver_user new = map sg_user gs \<and>
      ap_runs db' = ap_runs db \<and> ap_workflows db' = ap_workflows db"
  using assms
proof (induction gs arbitrary: db)
  case (Cons g gs)
  then obtain d where d: "insert_action (new_action ck i st g db) db = Inr d"
    "fold_res (\<lambda>g d. insert_action (new_action ck i st g d) d) gs d = Inr db'" by auto
  let ?a = "new_action ck i st g db"
  have "ap_actions d = ap_actions db @ [?a]" "ap_runs d = ap_runs db" "ap_workflows d = ap_workflows db"
    using d(1) by (auto simp: insert_action_def split: if_splits)
  moreover obtain new where "ap_actions db' = ap_actions d @ new" "length new = length gs"
    "\<forall>a \<in> set new. ac_run a = i \<and> ac_stage a = st \<and> ac_status a = ACT_PENDING"
    "map ac_approver_user new = map sg_user gs"
    "ap_runs db' = ap_runs d" "ap_workflows db' = ap_workflows d" using Cons.IH [OF d(2)] by auto
  ultimately show ?case by (intro exI [of _ "?a # new"]) (simp add: new_action_def)
qed simp

lemma create_stage_actions_effect:
  assumes c: "create_stage_actions ck run stage db = Inr db'" and k: "keys_ok db"
    and r: "rn_id run \<in> rn_id ` set (ap_runs db)"
  obtains new where "ap_actions db' = ap_actions db @ new" "new \<noteq> []"
    "\<And>a. a \<in> set new \<Longrightarrow> ac_run a = rn_id run \<and> ac_stage a = st_id stage \<and> ac_status a = ACT_PENDING"
    "ap_runs db' = ap_runs db" "ap_workflows db' = ap_workflows db" "keys_ok db'"
proof -
  from c obtain gs where gs: "gs \<noteq> []"
    "fold_res (\<lambda>g d. insert_action (new_action ck (rn_id run) (st_id stage) g d) d) gs db = Inr db'"
    by (auto simp: create_stage_actions_def resolve_stage_approvers_Inr)
  have "keys_ok db' \<and> rn_id run \<in> rn_id ` set (ap_runs db')"
    using gs(2) k r
  proof (rule fold_res_invariant [where P = "\<lambda>d. keys_ok d \<and> rn_id run \<in> rn_id ` set (ap_runs d)", OF _ conjI])
    fix g s t
    assume "keys_ok s \<and> rn_id run \<in> rn_id ` set (ap_runs s)"
      and i: "insert_action (new_action ck (rn_id run) (st_id stage) g s) s = Inr t"
    then have "keys_ok t" by (intro keys_insert_action [OF i]) (auto simp: new_action_def)
    moreover have "ap_runs t = ap_runs s" using i by (auto simp: insert_action_def split: if_splits)
    ultimately show "keys_ok t \<and> rn_id run \<in> rn_id ` set (ap_runs t)"
      using \<open>keys_ok s \<and> _\<close> by simp
  qed
  with fold_insert_effect [OF gs(2)] gs(1) that show thesis by (metis length_0_conv)
qed

section \<open>Changing one run\<close>

lemma flow_update:
  assumes inv: "engine_inv db" and keys: "keys_ok db'"
    and ws: "ap_workflows db' = ap_workflows db"
    and runs: "ap_runs db' = update_where (\<lambda>r. rn_id r = i) f (ap_runs db)" "\<And>r. rn_id (f r) = rn_id r"
    and other: "\<And>j. j \<noteq> i \<Longrightarrow> acts_of j (ap_actions db') = acts_of j (ap_actions db)"
    and ok: "\<And>r. r \<in> set (ap_runs db) \<Longrightarrow> rn_id r = i \<Longrightarrow> run_ok db (acts_of i (ap_actions db')) (f r)"
  shows "engine_inv db'"
proof -
  have "run_ok db' (acts_of (rn_id r) (ap_actions db')) r" if "r \<in> set (ap_runs db')" for r
    using that unfolding runs(1)
  proof (rule mem_update_whereE)
    fix x assume "x \<in> set (ap_runs db)" "rn_id x = i" "r = f x"
    then show ?thesis using ok [of x] runs(2) run_ok_cong [OF ws] by simp
  next
    assume "r \<in> set (ap_runs db)" "rn_id r \<noteq> i"
    then show ?thesis using inv other run_ok_cong [OF ws] by (simp add: engine_inv_def)
  qed
  with keys show ?thesis by (simp add: engine_inv_def)
qed

lemma update_where_same: "update_where P (\<lambda>x. x) xs = xs"
  by (induction xs) auto

lemma first_row_sorted_least:
  "sorted (map k xs) \<Longrightarrow> first_row (\<lambda>x. (c :: nat) < k x) xs = Some n \<Longrightarrow> x \<in> set xs \<Longrightarrow> c < k x \<Longrightarrow> k n \<le> k x"
  by (induction xs) (auto split: if_splits)

lemma next_stage_least:
  "next_stage w c = Some n \<Longrightarrow> s \<in> set (aw_stages w) \<Longrightarrow> c < st_sequence s \<Longrightarrow> st_sequence n \<le> st_sequence s"
  using first_row_sorted_least [of st_sequence "sort_key st_sequence (aw_stages w)" c n s]
  by (simp add: next_stage_def stages_in_order_def)

text \<open>Advancing from a stage that somebody approved and on which nothing is pending.\<close>

lemma advance_effect:
  assumes adv: "advance_or_complete_run ck ops r actor db = Inr db'" and k: "keys_ok db"
    and r: "r \<in> set (ap_runs db)" and w: "find_workflow db (rn_workflow r) = Some w"
    and none: "\<And>a. a \<in> set (ap_actions db) \<Longrightarrow> ac_run a = rn_id r \<Longrightarrow> ac_status a \<noteq> ACT_PENDING"
    and passed: "\<And>s. s \<in> set (aw_stages w) \<Longrightarrow> st_sequence s \<le> rn_current_stage_sequence r \<Longrightarrow>
      approved_stage (acts_of (rn_id r) (ap_actions db)) s"
    and status: "rn_status r = RUN_PENDING"
  obtains f where "keys_ok db'" "ap_workflows db' = ap_workflows db"
    "ap_runs db' = update_where (\<lambda>x. rn_id x = rn_id r) f (ap_runs db)" "\<And>x. rn_id (f x) = rn_id x"
    "\<And>j. j \<noteq> rn_id r \<Longrightarrow> acts_of j (ap_actions db') = acts_of j (ap_actions db)"
    "run_ok db (acts_of (rn_id r) (ap_actions db')) (f r)"
proof (cases "next_stage w (rn_current_stage_sequence r)")
  case None
  let ?f = "\<lambda>x :: approval_run. x\<lparr>rn_status := RUN_APPROVED\<rparr>"
  from None adv w obtain d where d: "apply_subject_status ops r SUBJECT_APPROVED [] (update_run (rn_id r) ?f db) = Inr d"
    "db' = audit (Some actor) ''approval.run.approved'' (rn_id r) (notify_approval_outcome ops r RUN_APPROVED [] d)"
    by (auto simp: advance_or_complete_run_def)
  have fr: "ap_workflows db' = ap_workflows db" "ap_actions db' = ap_actions db"
    "ap_runs db' = update_where (\<lambda>x. rn_id x = rn_id r) ?f (ap_runs db)" "ap_next_id db' = ap_next_id db"
    using subject_frames [OF d(1)] by (simp_all add: d(2) frame_simps)
  have "keys_ok (update_run (rn_id r) ?f db)" by (rule keys_update_run [OF k]) simp
  then have "keys_ok db'" by (subst keys_ok_cong [of _ "update_run (rn_id r) ?f db"]) (simp_all add: fr frame_simps)
  moreover have "st_sequence s \<le> rn_current_stage_sequence r" if "s \<in> set (aw_stages w)" for s
    using None that by (auto simp: next_stage_def first_row_None_iff stages_in_order_def)
  then have "run_ok db (acts_of (rn_id r) (ap_actions db)) (?f r)"
    using w none passed by (auto simp: run_ok_def)
  ultimately show thesis using fr by (intro that [of ?f]) simp_all
next
  case (Some n)
  let ?f = "\<lambda>x :: approval_run. x\<lparr>rn_current_stage_sequence := st_sequence n\<rparr>"
  have n: "n \<in> set (aw_stages w)" "rn_current_stage_sequence r < st_sequence n"
    using Some by (auto simp: next_stage_def stages_in_order_def dest: first_row_SomeD)
  have least: "st_sequence s \<le> rn_current_stage_sequence r" if "s \<in> set (aw_stages w)" "st_sequence s < st_sequence n" for s
    using next_stage_least [OF Some that(1)] that(2) by (meson leD leI)
  from Some adv w obtain d where d: "create_stage_actions ck r n (update_run (rn_id r) ?f db) = Inr d"
    "db' = audit (Some actor) ''approval.run.advanced'' (rn_id r) d"
    by (auto simp: advance_or_complete_run_def)
  have k': "keys_ok (update_run (rn_id r) ?f db)" by (rule keys_update_run [OF k]) simp
  have "?f r \<in> set (ap_runs (update_run (rn_id r) ?f db))" using r by (auto simp: frame_simps set_update_where)
  then have mem: "rn_id r \<in> rn_id ` set (ap_runs (update_run (rn_id r) ?f db))" by (force intro: rev_image_eqI)
  obtain new where new: "ap_actions d = ap_actions db @ new" "new \<noteq> []"
    "\<And>a. a \<in> set new \<Longrightarrow> ac_run a = rn_id r \<and> ac_stage a = st_id n \<and> ac_status a = ACT_PENDING"
    "ap_runs d = update_where (\<lambda>x. rn_id x = rn_id r) ?f (ap_runs db)"
    "ap_workflows d = ap_workflows db" "keys_ok d"
    by (rule create_stage_actions_effect [OF d(1) k' mem]) (simp add: frame_simps)
  have mine: "acts_of (rn_id r) (ap_actions db') = acts_of (rn_id r) (ap_actions db) @ new"
    using new(1,3) by (auto simp: d(2) frame_simps acts_of_def intro!: filter_True)
  have other: "acts_of j (ap_actions db') = acts_of j (ap_actions db)" if "j \<noteq> rn_id r" for j
    using new(1,3) that by (auto simp: d(2) frame_simps acts_of_def intro!: filter_False)
  have "run_ok db (acts_of (rn_id r) (ap_actions db) @ new) (?f r)"
    unfolding run_ok_def
  proof (intro exI conjI ballI impI)
    fix a assume "a \<in> set (acts_of (rn_id r) (ap_actions db) @ new)" "ac_status a = ACT_PENDING"
    then have "a \<in> set new" using none by auto
    then show "at_stage w (rn_current_stage_sequence (?f r)) a" using new(3) n(1) by (auto simp: at_stage_def)
  next
    show "\<exists>a \<in> set (acts_of (rn_id r) (ap_actions db) @ new). ac_status a = ACT_PENDING"
      using new(2,3) by (cases new) auto
  next
    fix s assume s: "s \<in> set (aw_stages w)"
      "st_sequence s < rn_current_stage_sequence (?f r) \<or> rn_status (?f r) = RUN_APPROVED"
    then have "st_sequence s \<le> rn_current_stage_sequence r" using status least by auto
    from passed [OF s(1) this] show "approved_stage (acts_of (rn_id r) (ap_actions db) @ new) s"
      by (auto simp: approved_stage_def)
  qed (use w status in auto)
  with mine have ok: "run_ok db (acts_of (rn_id r) (ap_actions db')) (?f r)" by simp
  have k2: "keys_ok db'" using new(6) by (simp add: d(2) keys_ok_cong [OF log_frames(1-4)])
  have fr: "ap_workflows db' = ap_workflows db"
    "ap_runs db' = update_where (\<lambda>x. rn_id x = rn_id r) ?f (ap_runs db)"
    using new(4,5) by (simp_all add: d(2) frame_simps)
  show thesis by (rule that [OF k2 fr _ other ok]) simp_all
qed

section \<open>Recording an approval\<close>

lemma check_actionable_Inr:
  "check_actionable ck a r u db = Inr () \<Longrightarrow> ac_approver_user a = u \<and> ac_status a = ACT_PENDING \<and>
     \<not> gd_approval_actions_blocked (get_org_operations_guard (ap_org db) (rn_organisation r) (ck_today ck))"
  by (auto simp: check_actionable_def Let_def split: if_splits)

lemma record_approval_frames [frame_simps]:
  "ap_workflows (record_approval ck s a c db) = ap_workflows db" "ap_runs (record_approval ck s a c db) = ap_runs db"
  "ap_next_id (record_approval ck s a c db) = ap_next_id db"
  by (simp_all add: record_approval_def Let_def frame_simps)

lemma keys_record_approval: "keys_ok db \<Longrightarrow> keys_ok (record_approval ck s a c db)"
  by (auto simp: record_approval_def Let_def keeps_key_def action_key_def intro!: keys_update_actions)

text \<open>Rows keep their keys and only the statuses below change.\<close>

lemma record_approval_mem:
  assumes "x \<in> set (ap_actions (record_approval ck s a c db))"
  obtains y where "y \<in> set (ap_actions db)" "ac_id x = ac_id y" "ac_run x = ac_run y" "ac_stage x = ac_stage y"
    "ac_status x = (if ac_id y = ac_id a then ACT_APPROVED
       else if st_mode s = MODE_ANY \<and> ac_run y = ac_run a \<and> ac_stage y = ac_stage a \<and> ac_status y = ACT_PENDING
       then ACT_SKIPPED else ac_status y)"
  using assms by (auto simp: record_approval_def Let_def frame_simps set_update_where split: if_splits)

lemma record_approval_image:
  assumes "y \<in> set (ap_actions db)"
  obtains x where "x \<in> set (ap_actions (record_approval ck s a c db))" "ac_id x = ac_id y" "ac_run x = ac_run y"
    "ac_stage x = ac_stage y"
    "ac_status x = (if ac_id y = ac_id a then ACT_APPROVED
       else if st_mode s = MODE_ANY \<and> ac_run y = ac_run a \<and> ac_stage y = ac_stage a \<and> ac_status y = ACT_PENDING
       then ACT_SKIPPED else ac_status y)"
proof -
  let ?f = "\<lambda>x. if ac_id x = ac_id a
      then x\<lparr>ac_status := ACT_APPROVED, ac_comment := c, ac_acted_at := Some (ck_now ck)\<rparr> else x"
  let ?g = "\<lambda>x. if ac_run x = ac_run a \<and> ac_stage x = ac_stage a \<and> ac_id x \<noteq> ac_id a \<and> ac_status x = ACT_PENDING
      then x\<lparr>ac_status := ACT_SKIPPED, ac_acted_at := Some (ck_now ck)\<rparr> else x"
  let ?x = "if st_mode s = MODE_ANY then ?g (?f y) else ?f y"
  have "?x \<in> set (ap_actions (record_approval ck s a c db))"
    using assms by (simp add: record_approval_def Let_def frame_simps set_update_where)
  then show thesis by (rule that) simp_all
qed

lemma record_approval_other:
  assumes "keys_ok db" "a \<in> set (ap_actions db)" "j \<noteq> ac_run a"
  shows "acts_of j (ap_actions (record_approval ck s a c db)) = acts_of j (ap_actions db)"
proof -
  have same: "x = a" if "x \<in> set (ap_actions db)" "ac_id x = ac_id a" for x
    using assms(1,2) that by (auto simp: keys_ok_def intro: distinct_key_eq [of ac_id])
  have one: "acts_of j (update_where (\<lambda>x. ac_id x = ac_id a) (\<lambda>x. x\<lparr>ac_status := ACT_APPROVED, ac_comment := c,
      ac_acted_at := Some (ck_now ck)\<rparr>) (ap_actions db)) = acts_of j (ap_actions db)"
    using assms(3) by (intro acts_of_update_other [where j = "ac_run a"]) (auto dest: same)
  show ?thesis
  proof (cases "st_mode s = MODE_ANY")
    case True
    have "acts_of j (ap_actions (record_approval ck s a c db)) =
        acts_of j (update_where (\<lambda>x. ac_id x = ac_id a) (\<lambda>x. x\<lparr>ac_status := ACT_APPROVED, ac_comment := c,
          ac_acted_at := Some (ck_now ck)\<rparr>) (ap_actions db))"
      unfolding record_approval_def Let_def using True assms(3)
      by (simp add: frame_simps) (rule acts_of_update_other [where j = "ac_run a"], auto)
    with one show ?thesis by simp
  qed (simp add: record_approval_def Let_def frame_simps one)
qed

text \<open>The workflow of a run and what the invariant says of the run's actions.\<close>

definition run_follows :: "approval_action list \<Rightarrow> approval_run \<Rightarrow> approval_workflow \<Rightarrow> bool" where
  "run_follows as r w \<longleftrightarrow>
     (\<forall>a \<in> set as. ac_run a = rn_id r \<and> ac_status a = ACT_PENDING \<longrightarrow>
        rn_status r = RUN_PENDING \<and> at_stage w (rn_current_stage_sequence r) a) \<and>
     (rn_status r = RUN_PENDING \<longrightarrow> (\<exists>a \<in> set as. ac_run a = rn_id r \<and> ac_status a = ACT_PENDING)) \<and>
     (\<forall>s \<in> set (aw_stages w). st_sequence s < rn_current_stage_sequence r \<or> rn_status r = RUN_APPROVED \<longrightarrow>
        approved_stage (acts_of (rn_id r) as) s)"

lemma run_ok_follows:
  "run_ok db (acts_of (rn_id r) as) r \<longleftrightarrow> (\<exists>w. find_workflow db (rn_workflow r) = Some w \<and> run_follows as r w)"
  unfolding run_ok_def run_follows_def by (simp add: Ball_def Bex_def conj_ac) blast

lemma engine_inv_run:
  assumes "engine_inv db" "r \<in> set (ap_runs db)"
  obtains w where "find_workflow db (rn_workflow r) = Some w" "run_follows (ap_actions db) r w"
    "distinct (map st_id (aw_stages w))" "distinct (map st_sequence (aw_stages w))"
proof -
  from assms have "run_ok db (acts_of (rn_id r) (ap_actions db)) r" by (simp add: engine_inv_def)
  then obtain w where w: "find_workflow db (rn_workflow r) = Some w" "run_follows (ap_actions db) r w"
    unfolding run_ok_follows by blast
  with assms(1) find_workflow_id [OF w(1)] that show thesis
    by (auto simp: engine_inv_def keys_ok_def wf_workflows_def)
qed

lemma same_run: "keys_ok db \<Longrightarrow> x \<in> set (ap_runs db) \<Longrightarrow> y \<in> set (ap_runs db) \<Longrightarrow> rn_id x = rn_id y \<Longrightarrow> x = y"
  by (auto simp: keys_ok_def intro: distinct_key_eq [of rn_id])

lemma keys_run_less: "keys_ok db \<Longrightarrow> a \<in> set (ap_actions db) \<Longrightarrow> ac_run a < ap_next_id db"
  by (fastforce simp: keys_ok_def)

text \<open>A pending action's stage is the only one at the run's current sequence number.\<close>

lemma actionable_stage:
  assumes inv: "engine_inv db" and a: "a \<in> set (ap_actions db)" "ac_status a = ACT_PENDING"
    and r: "r \<in> set (ap_runs db)" "rn_id r = ac_run a" and s: "find_stage db r (ac_stage a) = Some s"
  obtains w where "find_workflow db (rn_workflow r) = Some w" "run_follows (ap_actions db) r w"
    "s \<in> set (aw_stages w)" "st_id s = ac_stage a" "rn_status r = RUN_PENDING"
    "st_sequence s = rn_current_stage_sequence r"
    "\<And>t. t \<in> set (aw_stages w) \<Longrightarrow> st_sequence t = rn_current_stage_sequence r \<Longrightarrow> t = s"
proof -
  obtain w where w: "find_workflow db (rn_workflow r) = Some w" "run_follows (ap_actions db) r w"
    "distinct (map st_id (aw_stages w))" "distinct (map st_sequence (aw_stages w))"
    by (rule engine_inv_run [OF inv r(1)])
  have sw: "s \<in> set (aw_stages w)" "st_id s = ac_stage a"
    using s w(1) by (auto simp: find_stage_def dest: first_row_SomeD)
  have p: "rn_status r = RUN_PENDING" "at_stage w (rn_current_stage_sequence r) a"
    using w(2) a r(2) by (auto simp: run_follows_def)
  then have cur: "st_sequence s = rn_current_stage_sequence r"
    using sw distinct_key_eq [OF w(3)] unfolding at_stage_def by metis
  show thesis
    by (rule that [OF w(1,2) sw p(1) cur]) (use cur sw distinct_key_eq [OF w(4)] in metis)
qed

section \<open>Approving\<close>

text \<open>Facts about the state after the approval is recorded and before the run advances.\<close>

lemma recorded_pending:
  assumes "run_follows (ap_actions db) r w" "x \<in> set (ap_actions (record_approval ck s a c db))"
    "ac_run x = rn_id r" "ac_status x = ACT_PENDING"
  shows "rn_status r = RUN_PENDING \<and> at_stage w (rn_current_stage_sequence r) x"
  using assms(2)
proof (rule record_approval_mem)
  fix y assume "y \<in> set (ap_actions db)" "ac_run x = ac_run y" "ac_stage x = ac_stage y"
    "ac_status x = (if ac_id y = ac_id a then ACT_APPROVED
     else if st_mode s = MODE_ANY \<and> ac_run y = ac_run a \<and> ac_stage y = ac_stage a \<and> ac_status y = ACT_PENDING
     then ACT_SKIPPED else ac_status y)"
  with assms show ?thesis by (auto simp: run_follows_def at_stage_def split: if_splits)
qed

lemma recorded_approved:
  assumes w: "run_follows (ap_actions db) r w" and a: "a \<in> set (ap_actions db)" "ac_run a = rn_id r"
    and s: "st_id s = ac_stage a"
      "\<And>t. t \<in> set (aw_stages w) \<Longrightarrow> st_sequence t = rn_current_stage_sequence r \<Longrightarrow> t = s"
    and t: "t \<in> set (aw_stages w)" "st_sequence t \<le> rn_current_stage_sequence r"
  shows "approved_stage (acts_of (rn_id r) (ap_actions (record_approval ck s a c db))) t"
proof (cases "t = s")
  case True
  obtain x where "x \<in> set (ap_actions (record_approval ck s a c db))" "ac_run x = ac_run a"
    "ac_stage x = ac_stage a" "ac_status x = ACT_APPROVED"
    by (rule record_approval_image [OF a(1), of ck s a c]) simp
  with True s a show ?thesis by (auto simp: approved_stage_def)
next
  case False
  with s(2) t have "st_sequence t < rn_current_stage_sequence r" by (metis nless_le)
  with w t(1) have "approved_stage (acts_of (rn_id r) (ap_actions db)) t" by (auto simp: run_follows_def)
  then obtain y where y: "y \<in> set (ap_actions db)" "ac_run y = rn_id r" "ac_stage y = st_id t"
    "ac_status y = ACT_APPROVED" by (auto simp: approved_stage_def)
  obtain x where "x \<in> set (ap_actions (record_approval ck s a c db))" "ac_run x = ac_run y"
    "ac_stage x = ac_stage y" "ac_status x = ACT_APPROVED"
    by (rule record_approval_image [OF y(1), of ck s a c]) (simp add: y(4) split: if_splits)
  with y show ?thesis by (auto simp: approved_stage_def)
qed

lemma recorded_waits:
  assumes inv: "engine_inv db" and a: "a \<in> set (ap_actions db)" "ac_status a = ACT_PENDING"
    and r: "r \<in> set (ap_runs db)" "rn_id r = ac_run a" and s: "find_stage db r (ac_stage a) = Some s"
    and wait: "sibling_pending a (record_approval ck s a c db)"
  shows "engine_inv (record_approval ck s a c db)"
proof -
  obtain w where w: "find_workflow db (rn_workflow r) = Some w" "run_follows (ap_actions db) r w"
    "st_id s = ac_stage a" "rn_status r = RUN_PENDING"
    "\<And>t. t \<in> set (aw_stages w) \<Longrightarrow> st_sequence t = rn_current_stage_sequence r \<Longrightarrow> t = s"
    by (rule actionable_stage [OF inv a r s]) blast
  have k: "keys_ok db" using inv by (simp add: engine_inv_def)
  let ?d = "record_approval ck s a c db"
  have "run_follows (ap_actions ?d) r w"
    using recorded_pending [OF w(2)] recorded_approved [OF w(2) a(1) r(2) [symmetric] w(3,5)] wait w(4) r(2)
    by (auto simp: run_follows_def sibling_pending_def list_ex_iff)
  with w(1) have ok: "run_ok db (acts_of (rn_id r) (ap_actions ?d)) r" by (auto simp: run_ok_follows)
  show ?thesis
  proof (rule flow_update [OF inv keys_record_approval [OF k], where i = "rn_id r" and f = "\<lambda>x. x"])
    fix x assume "x \<in> set (ap_runs db)" "rn_id x = rn_id r"
    with same_run [OF k] r(1) ok show "run_ok db (acts_of (rn_id r) (ap_actions ?d)) x" by metis
  qed (use record_approval_other [OF k a(1)] r(2) in \<open>simp_all add: frame_simps update_where_same\<close>)
qed

lemma recorded_none_pending:
  assumes w: "run_follows (ap_actions db) r w" and s: "st_id s = ac_stage a" "ac_run a = rn_id r"
      "\<And>t. t \<in> set (aw_stages w) \<Longrightarrow> st_sequence t = rn_current_stage_sequence r \<Longrightarrow> t = s"
    and complete: "st_mode s = MODE_ANY \<or> \<not> sibling_pending a (record_approval ck s a c db)"
    and x: "x \<in> set (ap_actions (record_approval ck s a c db))" "ac_run x = rn_id r"
  shows "ac_status x \<noteq> ACT_PENDING"
proof
  assume p: "ac_status x = ACT_PENDING"
  then have stage: "ac_stage x = ac_stage a"
    using recorded_pending [OF w x p] s by (auto simp: at_stage_def)
  with complete x p s have any: "st_mode s = MODE_ANY" by (auto simp: sibling_pending_def list_ex_iff)
  from x(1) show False
    by (rule record_approval_mem) (use any p x(2) stage s in \<open>auto split: if_splits\<close>)
qed

lemma recorded_advances:
  assumes inv: "engine_inv db" and a: "a \<in> set (ap_actions db)" "ac_status a = ACT_PENDING"
    and r: "r \<in> set (ap_runs db)" "rn_id r = ac_run a" and s: "find_stage db r (ac_stage a) = Some s"
    and complete: "st_mode s = MODE_ANY \<or> \<not> sibling_pending a (record_approval ck s a c db)"
    and adv: "advance_or_complete_run ck ops r u (record_approval ck s a c db) = Inr e"
  shows "engine_inv e"
proof -
  obtain w where w: "find_workflow db (rn_workflow r) = Some w" "run_follows (ap_actions db) r w"
    "st_id s = ac_stage a" "rn_status r = RUN_PENDING"
    "\<And>t. t \<in> set (aw_stages w) \<Longrightarrow> st_sequence t = rn_current_stage_sequence r \<Longrightarrow> t = s"
    by (rule actionable_stage [OF inv a r s]) blast
  have k: "keys_ok db" using inv by (simp add: engine_inv_def)
  let ?d = "record_approval ck s a c db"
  have rd: "r \<in> set (ap_runs ?d)" "find_workflow ?d (rn_workflow r) = Some w"
    using r(1) w(1) by (simp_all add: frame_simps find_workflow_cong [OF record_approval_frames(1)])
  obtain f where f: "keys_ok e" "ap_workflows e = ap_workflows ?d"
    "ap_runs e = update_where (\<lambda>x. rn_id x = rn_id r) f (ap_runs ?d)" "\<And>x. rn_id (f x) = rn_id x"
    "\<And>j. j \<noteq> rn_id r \<Longrightarrow> acts_of j (ap_actions e) = acts_of j (ap_actions ?d)"
    "run_ok ?d (acts_of (rn_id r) (ap_actions e)) (f r)"
    by (rule advance_effect [OF adv keys_record_approval [OF k] rd
          recorded_none_pending [OF w(2,3) r(2) [symmetric] w(5) complete]
          recorded_approved [OF w(2) a(1) r(2) [symmetric] w(3,5)] w(4)]) blast+
  show ?thesis
  proof (rule flow_update [OF inv f(1), where i = "rn_id r" and f = f])
    fix x assume "x \<in> set (ap_runs db)" "rn_id x = rn_id r"
    then have "x = r" using same_run [OF k] r(1) by metis
    then show "run_ok db (acts_of (rn_id r) (ap_actions e)) (f x)"
      using f(6) by (simp add: run_ok_cong [OF record_approval_frames(1)])
  qed (use f record_approval_other [OF k a(1)] r(2) in \<open>simp_all add: frame_simps\<close>)
qed

theorem approve_action_inv:
  assumes app: "approve_action ck ops i u c db = Inr db'" and inv: "engine_inv db"
  shows "engine_inv db'"
proof -
  from app obtain a r s where f: "find_action db i = Some a" "find_run db (ac_run a) = Some r"
    and s: "find_stage db r (ac_stage a) = Some s" and ok: "check_actionable ck a r u db = Inr ()"
    and rest: "bind_res (if st_mode s = MODE_ANY \<or> \<not> sibling_pending a (record_approval ck s a c db)
        then advance_or_complete_run ck ops r u (record_approval ck s a c db)
        else Inr (record_approval ck s a c db))
      (\<lambda>d. Inr (audit (Some u) ''approval.action.approved'' i d)) = Inr db'"
    by (auto simp: approve_action_def Let_def split: option.splits)
  have a: "a \<in> set (ap_actions db)" "ac_status a = ACT_PENDING"
    and r: "r \<in> set (ap_runs db)" "rn_id r = ac_run a"
    using find_action_Some [OF f(1)] find_run_Some [OF f(2)] check_actionable_Inr [OF ok] by simp_all
  show ?thesis
  proof (cases "st_mode s = MODE_ANY \<or> \<not> sibling_pending a (record_approval ck s a c db)")
    case True
    with rest recorded_advances [OF inv a r s True] show ?thesis
      by (auto simp: engine_inv_cong [OF log_frames(1-4)])
  next
    case False
    with rest recorded_waits [OF inv a r s] show ?thesis
      by (auto simp: engine_inv_cong [OF log_frames(1-4)])
  qed
qed

section \<open>Rejecting and cancelling\<close>

text \<open>Ending a run: its status leaves pending and none of its actions stays pending.\<close>

lemma end_run:
  assumes inv: "engine_inv db" and r: "r \<in> set (ap_runs db)" "rn_status r = RUN_PENDING"
    and keys: "keys_ok db'" and ws: "ap_workflows db' = ap_workflows db"
    and runs: "ap_runs db' = update_where (\<lambda>x. rn_id x = rn_id r) (\<lambda>x. x\<lparr>rn_status := st\<rparr>) (ap_runs db)"
    and st: "st = RUN_REJECTED \<or> st = RUN_CANCELLED"
    and other: "\<And>j. j \<noteq> rn_id r \<Longrightarrow> acts_of j (ap_actions db') = acts_of j (ap_actions db)"
    and none: "\<And>a. a \<in> set (ap_actions db') \<Longrightarrow> ac_run a = rn_id r \<Longrightarrow> ac_status a \<noteq> ACT_PENDING"
    and approved: "\<And>s. approved_stage (acts_of (rn_id r) (ap_actions db)) s \<Longrightarrow>
      approved_stage (acts_of (rn_id r) (ap_actions db')) s"
  shows "engine_inv db'"
proof (rule flow_update [OF inv keys ws runs _ other])
  fix x assume "x \<in> set (ap_runs db)" "rn_id x = rn_id r"
  then have x: "x = r" using inv same_run r(1) by (metis engine_inv_def)
  obtain w where w: "find_workflow db (rn_workflow r) = Some w" "run_follows (ap_actions db) r w"
    by (rule engine_inv_run [OF inv r(1)])
  then show "run_ok db (acts_of (rn_id r) (ap_actions db')) (x\<lparr>rn_status := st\<rparr>)"
    using none approved st r(2) by (auto simp: x run_ok_def run_follows_def)
qed simp

text \<open>Statuses that leave the approvals of a run as they are.\<close>

lemma approved_stage_update:
  assumes "\<And>a. a \<in> set as \<Longrightarrow> P a \<Longrightarrow> ac_status a = ACT_PENDING" "keeps_key f" "approved_stage (acts_of i as) s"
  shows "approved_stage (acts_of i (update_where P f as)) s"
proof -
  from assms(3) obtain a where a: "a \<in> set as" "ac_run a = i" "ac_stage a = st_id s" "ac_status a = ACT_APPROVED"
    by (auto simp: approved_stage_def)
  then have "\<not> P a" using assms(1) by force
  with a(1) have "a \<in> set (update_where P f as)" by (force simp: set_update_where)
  with a show ?thesis by (auto simp: approved_stage_def)
qed

theorem reject_action_inv:
  assumes rej: "reject_action ck ops i u c db = Inr db'" and inv: "engine_inv db"
  shows "engine_inv db'"
proof -
  let ?f = "\<lambda>a. a\<lparr>ac_status := ACT_REJECTED, ac_comment := c, ac_acted_at := Some (ck_now ck)\<rparr>"
  let ?g = "\<lambda>a :: approval_action. a\<lparr>ac_status := ACT_CANCELLED, ac_acted_at := Some (ck_now ck)\<rparr>"
  let ?P = "\<lambda>a. ac_id a = i" 
  from rej obtain a r d where f: "find_action db i = Some a" "find_run db (ac_run a) = Some r"
    and ok: "check_actionable ck a r u db = Inr ()"
    and d: "apply_subject_status ops r SUBJECT_REJECTED c
      (update_actions (\<lambda>x. ac_run x = ac_run a \<and> ac_id x \<noteq> i \<and> ac_status x = ACT_PENDING) ?g
        (update_run (rn_id r) (\<lambda>x. x\<lparr>rn_status := RUN_REJECTED\<rparr>) (update_actions ?P ?f db))) = Inr d"
    and db': "db' = audit (Some u) ''approval.action.rejected'' i (notify_approval_outcome ops r RUN_REJECTED c d)"
    by (auto simp: reject_action_def Let_def split: option.splits)
  let ?Q = "\<lambda>x. ac_run x = ac_run a \<and> ac_id x \<noteq> i \<and> ac_status x = ACT_PENDING"
  let ?d = "update_actions ?Q ?g (update_run (rn_id r) (\<lambda>x. x\<lparr>rn_status := RUN_REJECTED\<rparr>) (update_actions ?P ?f db))"
  have a: "a \<in> set (ap_actions db)" "ac_status a = ACT_PENDING" "ac_id a = i"
    and r: "r \<in> set (ap_runs db)" "rn_id r = ac_run a"
    using find_action_Some [OF f(1)] find_run_Some [OF f(2)] check_actionable_Inr [OF ok] by simp_all
  have k: "keys_ok db" using inv by (simp add: engine_inv_def)
  have same: "x = a" if "x \<in> set (ap_actions db)" "ac_id x = i" for x
    using k a that by (auto simp: keys_ok_def intro: distinct_key_eq [of ac_id])
  have status: "rn_status r = RUN_PENDING"
    using engine_inv_run [OF inv r(1)] a r(2) unfolding run_follows_def by metis
  have kk: "keeps_key ?f" "keeps_key ?g" by (simp_all add: keeps_key_def action_key_def)
  have kd: "keys_ok ?d"
    by (intro keys_update_actions keys_update_run k kk) simp
  have "engine_inv ?d"
  proof (rule end_run [OF inv r(1) status kd, where st = RUN_REJECTED])
    fix j assume j: "j \<noteq> rn_id r"
    have "acts_of j (update_where ?P ?f (ap_actions db)) = acts_of j (ap_actions db)"
      using same j r(2) by (intro acts_of_update_other [where j = "ac_run a"]) auto
    moreover have "acts_of j (update_where ?Q ?g as) = acts_of j as" for as
      using j r(2) by (intro acts_of_update_other [where j = "ac_run a"]) auto
    ultimately show "acts_of j (ap_actions ?d) = acts_of j (ap_actions db)" by (simp add: frame_simps)
  next
    fix x assume "x \<in> set (ap_actions ?d)" "ac_run x = rn_id r"
    then show "ac_status x \<noteq> ACT_PENDING"
      using same r(2) by (auto simp: frame_simps set_update_where split: if_splits)
  next
    fix s assume "approved_stage (acts_of (rn_id r) (ap_actions db)) s"
    then show "approved_stage (acts_of (rn_id r) (ap_actions ?d)) s"
      using same a(2) by (auto simp: frame_simps kk intro!: approved_stage_update)
  qed (simp_all add: frame_simps)
  moreover have "engine_inv db' = engine_inv ?d"
    using subject_frames [OF d] by (intro engine_inv_cong) (simp_all add: db' frame_simps)
  ultimately show ?thesis by simp
qed

lemma cancelled_none_pending:
  assumes "x \<in> set (update_where (\<lambda>x. ac_run x = i \<and> ac_status x = ACT_PENDING)
      (\<lambda>a :: approval_action. a\<lparr>ac_status := ACT_CANCELLED, ac_acted_at := t\<rparr>) as)" "ac_run x = i"
  shows "ac_status x \<noteq> ACT_PENDING"
proof -
  from assms(1) obtain y where y: "x = (if ac_run y = i \<and> ac_status y = ACT_PENDING
      then y\<lparr>ac_status := ACT_CANCELLED, ac_acted_at := t\<rparr> else y)"
    unfolding set_update_where by blast
  show ?thesis
  proof (cases "ac_run y = i \<and> ac_status y = ACT_PENDING")
    case True
    with y show ?thesis by simp
  next
    case False
    with y have "x = y" by (simp only: if_False)
    with False assms(2) show ?thesis by simp
  qed
qed

theorem cancel_approval_run_inv:
  assumes can: "cancel_approval_run ck ops i u st db = Inr db'" and inv: "engine_inv db"
  shows "engine_inv db'"
proof -
  let ?g = "\<lambda>a :: approval_action. a\<lparr>ac_status := ACT_CANCELLED, ac_acted_at := Some (ck_now ck)\<rparr>"
  let ?Q = "\<lambda>x. ac_run x = i \<and> ac_status x = ACT_PENDING"
  let ?d = "update_actions ?Q ?g (update_run i (\<lambda>x. x\<lparr>rn_status := RUN_CANCELLED\<rparr>) db)"
  obtain r where f: "find_run db i = Some r"
    using can by (auto simp: cancel_approval_run_def split: option.splits)
  note r = find_run_Some [OF f]
  have kk: "keeps_key ?g" by (simp add: keeps_key_def action_key_def)
  show ?thesis
  proof (cases "rn_status r = RUN_PENDING")
    case False
    then show ?thesis using can inv f by (simp add: cancel_approval_run_def)
  next
    case True
    with can f obtain d where d: "(case st of None \<Rightarrow> Inr ?d | Some s \<Rightarrow> apply_subject_status ops r s [] ?d) = Inr d"
        "db' = audit u ''approval.run.cancelled'' i d"
      by (auto simp: cancel_approval_run_def Let_def)
    have rm: "r \<in> set (ap_runs db)" and ri: "rn_id r = i" using r by simp_all
    have "keys_ok ?d" using inv by (intro keys_update_actions keys_update_run kk) (simp_all add: engine_inv_def)
    then have "engine_inv ?d"
    proof (rule end_run [OF inv rm True, where st = RUN_CANCELLED])
      show "ac_status x \<noteq> ACT_PENDING" if "x \<in> set (ap_actions ?d)" "ac_run x = rn_id r" for x
        using that unfolding update_frames ri by (rule cancelled_none_pending)
      show "approved_stage (acts_of (rn_id r) (ap_actions ?d)) s"
        if "approved_stage (acts_of (rn_id r) (ap_actions db)) s" for s
        unfolding update_frames using _ kk that by (rule approved_stage_update) simp
      show "acts_of j (ap_actions ?d) = acts_of j (ap_actions db)" if "j \<noteq> rn_id r" for j
        unfolding update_frames using that ri by (intro acts_of_update_other [where j = i]) auto
    qed (simp_all only: update_frames ri, simp)
    moreover have "ap_workflows d = ap_workflows ?d \<and> ap_runs d = ap_runs ?d \<and> ap_actions d = ap_actions ?d \<and>
        ap_next_id d = ap_next_id ?d"
      using d(1) by (cases st) (auto dest: subject_frames)
    then have "engine_inv db' = engine_inv ?d"
      by (intro engine_inv_cong) (simp_all add: d(2) frame_simps)
    ultimately show ?thesis by simp
  qed
qed

section \<open>Opening\<close>

theorem open_approval_run_inv:
  assumes op: "open_approval_run ck w subj kind org e u act label db = Inr (db', run)" and inv: "engine_inv db"
    and w: "w \<in> set (ap_workflows db)"
  shows "engine_inv db'"
proof -
  from op obtain s where s: "first_stage w = Some s" by (auto simp: open_approval_run_def split: option.splits)
  from op s obtain d where
    run: "run = \<lparr>rn_id = ap_next_id db, rn_organisation = org, rn_workflow = aw_id w, rn_request_kind = kind,
       rn_requested_by = e, rn_requested_by_user = Some u, rn_status = RUN_PENDING,
       rn_current_stage_sequence = st_sequence s, rn_subject_label = label, rn_subject = subj\<rparr>"
    and d: "create_stage_actions ck run s (insert_run run db) = Inr d"
    and db': "db' = audit (Some act) ''approval.run.created'' (rn_id run) d"
    by (auto simp: open_approval_run_def Let_def)
  have k: "keys_ok db" and ki: "keys_ok (insert_run run db)"
    using inv keys_insert_run [of db run] by (simp_all add: engine_inv_def run)
  obtain new where new: "ap_actions d = ap_actions db @ new" "new \<noteq> []"
    "\<And>a. a \<in> set new \<Longrightarrow> ac_run a = rn_id run \<and> ac_stage a = st_id s \<and> ac_status a = ACT_PENDING"
    "ap_runs d = ap_runs db @ [run]" "ap_workflows d = ap_workflows db" "keys_ok d"
    by (rule create_stage_actions_effect [OF d ki]) (simp_all add: frame_simps)
  have fresh: "acts_of (rn_id run) (ap_actions db) = []" "rn_id run \<notin> rn_id ` set (ap_runs db)"
    using keys_run_less [OF k] k by (force simp: keys_ok_def run acts_of_def filter_empty_conv)+
  have sw: "s \<in> set (aw_stages w)" and least: "\<And>t. t \<in> set (aw_stages w) \<Longrightarrow> st_sequence s \<le> st_sequence t"
  proof -
    have f: "first_row (\<lambda>_. True) (sort_key st_sequence (aw_stages w)) = Some s"
      using s by (simp add: first_stage_def stages_in_order_def)
    then show "s \<in> set (aw_stages w)" by (auto dest: first_row_SomeD)
    have "sorted (map st_sequence (sort_key st_sequence (aw_stages w)))" by simp
    moreover have "set (sort_key st_sequence (aw_stages w)) = set (aw_stages w)" by simp
    ultimately show "st_sequence s \<le> st_sequence t" if "t \<in> set (aw_stages w)" for t
      using f that by (cases "sort_key st_sequence (aw_stages w)") auto
  qed
  have mine: "run_ok db new run"
    unfolding run_ok_def
  proof (intro exI conjI ballI impI)
    show "find_workflow db (rn_workflow run) = Some w"
      using find_workflow_mem [OF _ w] k by (simp add: run keys_ok_def)
    show "rn_status run = RUN_PENDING" by (simp add: run)
    show "at_stage w (rn_current_stage_sequence run) a" if "a \<in> set new" for a
      using new(3) [OF that] sw by (auto simp: at_stage_def run)
    show "\<exists>a \<in> set new. ac_status a = ACT_PENDING" using new(2,3) by (cases new) auto
    show "approved_stage new t" if "t \<in> set (aw_stages w)"
      "st_sequence t < rn_current_stage_sequence run \<or> rn_status run = RUN_APPROVED" for t
      using that least [OF that(1)] by (simp add: run)
  qed
  have "run_ok d (acts_of (rn_id r) (ap_actions d)) r" if "r \<in> set (ap_runs d)" for r
  proof (cases "r = run")
    case True
    have "acts_of (rn_id run) new = new" using new(3) by (auto simp: acts_of_def intro!: filter_True)
    with mine True show ?thesis by (simp add: run_ok_cong [OF new(5)] new(1) fresh(1))
  next
    case False
    then have r: "r \<in> set (ap_runs db)" using that new(4) by auto
    then have "rn_id r \<noteq> rn_id run" using fresh(2) by (metis imageI)
    then have "acts_of (rn_id r) new = []" using new(3) by (auto simp: acts_of_def intro!: filter_False)
    with r inv show ?thesis by (simp add: run_ok_cong [OF new(5)] new(1) engine_inv_def)
  qed
  with new(6) have "engine_inv d" by (simp add: engine_inv_def)
  then show ?thesis by (simp add: db' engine_inv_cong [OF log_frames(1-4)])
qed

theorem create_approval_run_inv:
  assumes "create_approval_run ck subj kind e act lt label amount cx db = Inr (db', run)" "engine_inv db"
  shows "engine_inv db'"
proof -
  from assms(1) obtain w src where "resolve_workflow_with_source db e kind lt amount cx = Inr (w, src)"
    "open_approval_run ck w subj kind (em_organisation e) (Some (em_id e)) (em_user e)
       (or_else act (em_user e)) label db = Inr (db', run)"
    by (auto simp: create_approval_run_def resolve_workflow_def)
  with resolve_workflow_usable open_approval_run_inv assms(2) show ?thesis by blast
qed

section \<open>Reminders and escalations\<close>

text \<open>An update that keeps key and status changes nothing the invariant speaks of.\<close>

lemma run_follows_image:
  assumes "\<And>a. ac_run (h a) = ac_run a \<and> ac_stage (h a) = ac_stage a \<and> ac_status (h a) = ac_status a"
  shows "run_follows (map h as) r w = run_follows as r w"
proof -
  have "approved_stage (acts_of i (map h as)) s = approved_stage (acts_of i as) s" for i s
    unfolding approved_stage_def Bex_def by (auto simp: assms)
  moreover have "at_stage w c (h a) = at_stage w c a" for c a using assms by (simp add: at_stage_def)
  ultimately show ?thesis using assms by (simp add: run_follows_def)
qed

lemma status_preserving_inv:
  assumes "engine_inv db" "keeps_key f" "\<And>a. ac_status (f a) = ac_status a"
  shows "engine_inv (update_actions P f db)"
proof -
  have "run_follows (update_where P f as) r w = run_follows as r w" for as r w
    unfolding update_where_def
    by (rule run_follows_image) (simp add: assms(3) keeps_keyD [OF assms(2)])
  then have "run_ok (update_actions P f db) (acts_of (rn_id r) (ap_actions (update_actions P f db))) r =
      run_ok db (acts_of (rn_id r) (ap_actions db)) r" for r
    by (simp add: run_ok_follows frame_simps find_workflow_cong [OF update_frames(1)])
  with assms(1) keys_update_actions [OF _ assms(2), of db P] show ?thesis by (simp add: engine_inv_def frame_simps)
qed

lemma remind_step_inv:
  assumes "engine_inv (fst acc)"
  shows "engine_inv (fst (remind_step now a acc))"
proof -
  have k: "keeps_key (\<lambda>a. a\<lparr>ac_reminder_sent_at := Some now\<rparr>)" by (simp add: keeps_key_def action_key_def)
  from assms show ?thesis
    by (cases acc) (simp add: remind_step_def Let_def engine_inv_cong [OF log_frames(1-4)]
        engine_inv_cong [OF log_frames(5-8)] status_preserving_inv [OF _ k] split: option.split)
qed

theorem send_reminders_inv: "engine_inv db \<Longrightarrow> engine_inv (fst (send_pending_action_reminders now db))"
proof -
  assume "engine_inv db"
  have "engine_inv (fst (fold (remind_step now) as (db', n)))" if "engine_inv db'" for as db' n
    using that by (induction as arbitrary: db' n) (simp, metis fold_simps(2) remind_step_inv surjective_pairing fst_conv)
  with \<open>engine_inv db\<close> show ?thesis by (simp add: send_pending_action_reminders_def)
qed

text \<open>The state in which the escalation's target has a pending action on the stage.\<close>

lemma escalation_target_pending:
  assumes "(if list_ex (\<lambda>b. ac_run b = ac_run l \<and> ac_stage b = ac_stage l \<and>
                        ac_approver_user b = fst t \<and> ac_status b = ACT_PENDING) (ap_actions db)
        then Inr db else insert_action (escalated_action now l t db) db) = Inr d"
    and k: "keys_ok db" and l: "l \<in> set (ap_actions db)" "ac_approver_user l \<noteq> fst t"
  obtains new b where "ap_actions d = ap_actions db @ new" "ap_runs d = ap_runs db" "ap_workflows d = ap_workflows db"
    "keys_ok d" "\<And>a. a \<in> set new \<Longrightarrow> ac_run a = ac_run l \<and> ac_stage a = ac_stage l \<and> ac_status a = ACT_PENDING"
    "b \<in> set (ap_actions d)" "ac_run b = ac_run l" "ac_status b = ACT_PENDING" "ac_id b \<noteq> ac_id l"
proof (cases "list_ex (\<lambda>b. ac_run b = ac_run l \<and> ac_stage b = ac_stage l \<and>
                        ac_approver_user b = fst t \<and> ac_status b = ACT_PENDING) (ap_actions db)")
  case True
  then obtain b where b: "b \<in> set (ap_actions db)" "ac_run b = ac_run l" "ac_approver_user b = fst t" "ac_status b = ACT_PENDING"
    by (auto simp: list_ex_iff)
  have "ac_id b \<noteq> ac_id l"
  proof
    assume "ac_id b = ac_id l"
    then have "b = l" using k b(1) l(1) by (auto simp: keys_ok_def intro: distinct_key_eq [of ac_id])
    with b(3) l(2) show False by simp
  qed
  moreover have "d = db" using assms(1) True by simp
  ultimately show thesis using b k by (intro that [of "[]" b]) simp_all
next
  case False
  let ?n = "escalated_action now l t db"
  have i: "insert_action ?n db = Inr d" using assms(1) False by simp
  have "keys_ok d"
    using k l(1) by (intro keys_insert_action [OF i]) (auto simp: escalated_action_def keys_ok_def)
  moreover have "ac_id ?n \<noteq> ac_id l" using k l(1) by (auto simp: escalated_action_def keys_ok_def)
  moreover have "ap_actions d = ap_actions db @ [?n]" "ap_runs d = ap_runs db" "ap_workflows d = ap_workflows db"
    using i by (auto simp: insert_action_def split: if_splits)
  ultimately show thesis by (intro that [of "[?n]" ?n]) (simp_all add: escalated_action_def)
qed

lemma escalate_locked_inv:
  assumes esc: "escalate_locked now l t db = Inr e" and inv: "engine_inv db"
    and l: "l \<in> set (ap_actions db)" "ac_status l = ACT_PENDING" "ac_approver_user l \<noteq> fst t"
  shows "engine_inv e"
proof -
  let ?g = "\<lambda>a :: approval_action. a\<lparr>ac_status := ACT_CANCELLED, ac_acted_at := Some now, ac_escalated_at := Some now\<rparr>"
  have k: "keys_ok db" using inv by (simp add: engine_inv_def)
  from esc obtain d where d0: "(if list_ex (\<lambda>b. ac_run b = ac_run l \<and> ac_stage b = ac_stage l \<and>
        ac_approver_user b = fst t \<and> ac_status b = ACT_PENDING) (ap_actions db)
      then Inr db else insert_action (escalated_action now l t db) db) = Inr d"
    and e: "e = update_actions (\<lambda>a. ac_id a = ac_id l) ?g d"
    unfolding escalate_locked_def bind_res_eq_Inr by blast
  obtain new b where d: "ap_actions d = ap_actions db @ new" "ap_runs d = ap_runs db" "ap_workflows d = ap_workflows db"
    "keys_ok d" "\<And>a. a \<in> set new \<Longrightarrow> ac_run a = ac_run l \<and> ac_stage a = ac_stage l \<and> ac_status a = ACT_PENDING"
    "b \<in> set (ap_actions d)" "ac_run b = ac_run l" "ac_status b = ACT_PENDING" "ac_id b \<noteq> ac_id l"
    by (rule escalation_target_pending [OF d0 k l(1,3)]) blast
  have kk: "keeps_key ?g" by (simp add: keeps_key_def action_key_def)
  have same: "x = l" if "x \<in> set (ap_actions d)" "ac_id x = ac_id l" for x
    using d(1,4) l(1) that by (auto simp: keys_ok_def intro: distinct_key_eq [of ac_id "ap_actions d"])
  show ?thesis
  proof (rule flow_update [OF inv, where i = "ac_run l" and f = "\<lambda>x. x"])
    show "keys_ok e" unfolding e by (rule keys_update_actions [OF d(4) kk])
    fix r assume r: "r \<in> set (ap_runs db)" "rn_id r = ac_run l"
    obtain w where w: "find_workflow db (rn_workflow r) = Some w" "run_follows (ap_actions db) r w"
      by (rule engine_inv_run [OF inv r(1)])
    have "run_follows (ap_actions e) r w"
      unfolding run_follows_def
    proof (intro conjI ballI impI)
      fix x assume x: "x \<in> set (ap_actions e)" "ac_run x = rn_id r \<and> ac_status x = ACT_PENDING"
      then have "x \<in> set (ap_actions d)" by (auto simp: e frame_simps set_update_where split: if_splits)
      then show "rn_status r = RUN_PENDING" "at_stage w (rn_current_stage_sequence r) x"
        using x(2) w(2) l(1,2) r(2) d(1,5) by (auto simp: run_follows_def at_stage_def)
    next
      show "\<exists>x \<in> set (ap_actions e). ac_run x = rn_id r \<and> ac_status x = ACT_PENDING"
        using d(6-9) r(2) by (force simp: e frame_simps set_update_where)
    next
      fix s assume "s \<in> set (aw_stages w)" "st_sequence s < rn_current_stage_sequence r \<or> rn_status r = RUN_APPROVED"
      with w(2) have "approved_stage (acts_of (rn_id r) (ap_actions db)) s" by (auto simp: run_follows_def)
      then have "approved_stage (acts_of (rn_id r) (ap_actions d)) s" by (auto simp: approved_stage_def d(1))
      then show "approved_stage (acts_of (rn_id r) (ap_actions e)) s"
        unfolding e update_frames using same l(2) kk by (intro approved_stage_update) auto
    qed
    with w(1) r(2) show "run_ok db (acts_of (ac_run l) (ap_actions e)) r" by (metis run_ok_follows)
  next
    fix j assume j: "j \<noteq> ac_run l"
    have "acts_of j (ap_actions e) = acts_of j (ap_actions d)"
      unfolding e update_frames using same j by (intro acts_of_update_other [where j = "ac_run l"]) auto
    also have "\<dots> = acts_of j (ap_actions db)" using d(1,5) j by (auto simp: acts_of_def intro!: filter_False)
    finally show "acts_of j (ap_actions e) = acts_of j (ap_actions db)" .
  qed (simp_all add: e frame_simps d(2,3) update_where_same)
qed

text \<open>A row read before still has its key columns now.\<close>

definition still_there :: "approval_action \<Rightarrow> 's approval_state \<Rightarrow> bool" where
  "still_there a db \<longleftrightarrow> (\<exists>b \<in> set (ap_actions db). ac_id b = ac_id a \<and> ac_approver_user b = ac_approver_user a)"

lemma still_there_update: "keeps_key f \<Longrightarrow> still_there c db \<Longrightarrow> still_there c (update_actions P f db)"
proof -
  assume k: "keeps_key f" and "still_there c db"
  then obtain b where b: "b \<in> set (ap_actions db)" "ac_id b = ac_id c" "ac_approver_user b = ac_approver_user c"
    by (auto simp: still_there_def)
  then have "(if P b then f b else b) \<in> set (ap_actions (update_actions P f db))"
    by (simp add: frame_simps set_update_where)
  then show ?thesis using b by (intro bexI [THEN still_there_def [THEN iffD2]]) (simp_all add: keeps_keyD [OF k])
qed

lemma still_there_escalate:
  assumes "still_there c db" "escalate_locked now l t db = Inr e"
  shows "still_there c e"
proof -
  let ?g = "\<lambda>a :: approval_action. a\<lparr>ac_status := ACT_CANCELLED, ac_acted_at := Some now, ac_escalated_at := Some now\<rparr>"
  from assms(2) obtain d where d: "d = db \<or> insert_action (escalated_action now l t db) db = Inr d"
    "e = update_actions (\<lambda>a. ac_id a = ac_id l) ?g d"
    by (auto simp: escalate_locked_def split: if_splits)
  have "still_there c d" using assms(1) d(1) by (auto simp: still_there_def insert_action_def split: if_splits)
  then show ?thesis unfolding d(2) by (rule still_there_update [rotated]) (simp add: keeps_key_def action_key_def)
qed

lemma escalate_step_True:
  assumes "escalate_step now a db = Inr (d, True)"
  shows "\<exists>l t (r :: approval_run) e. find_action db (ac_id a) = Some l \<and> fst t \<noteq> ac_approver_user a \<and>
    ac_status l = ACT_PENDING \<and> escalate_locked now l t db = Inr e \<and>
    d = audit None ''approval.action.escalated'' (rn_id r)
      (notify (fst t) NK_GENERAL ''Escalated approval: {}'' [AStr (rn_subject_label r)] [] (rn_id r) e)"
proof -
  from assms obtain r p where p: "action_policy db a = Some (r, p)"
    by (auto simp: escalate_step_def split: option.splits)
  with assms obtain t where t: "resolve_escalation_target db r p = Some t"
    by (auto simp: escalate_step_def split: option.splits if_splits)
  with assms p obtain l where l: "find_action db (ac_id a) = Some l"
    by (auto simp: escalate_step_def split: option.splits if_splits)
  from assms show ?thesis
    by (intro exI [of _ l] exI [of _ t] exI [of _ r]) (auto simp: escalate_step_def p t l split: if_splits)
qed

lemma escalate_step_inv:
  assumes "escalate_step now a db = Inr (d, flag)" and inv: "engine_inv db" and a: "still_there a db"
  shows "engine_inv d \<and> (\<forall>c. still_there c db \<longrightarrow> still_there c d)"
proof (cases "flag")
  case False
  with assms show ?thesis
    by (auto simp: escalate_step_def Let_def split: option.splits if_splits)
next
  case True
  with assms(1) have "escalate_step now a db = Inr (d, True)" by simp
  from escalate_step_True [OF this]
  obtain l t e and r :: approval_run where l: "find_action db (ac_id a) = Some l" "fst t \<noteq> ac_approver_user a"
    "ac_status l = ACT_PENDING" and e: "escalate_locked now l t db = Inr e"
    and d: "d = audit None ''approval.action.escalated'' (rn_id r)
      (notify (fst t) NK_GENERAL ''Escalated approval: {}'' [AStr (rn_subject_label r)] [] (rn_id r) e)"
    by blast
  have "l \<in> set (ap_actions db)" "ac_id l = ac_id a" using find_action_Some [OF l(1)] by simp_all
  moreover from a obtain b where "b \<in> set (ap_actions db)" "ac_id b = ac_id a" "ac_approver_user b = ac_approver_user a"
    by (auto simp: still_there_def)
  moreover have "distinct (map ac_id (ap_actions db))" using inv by (simp add: engine_inv_def keys_ok_def)
  ultimately have lm: "l \<in> set (ap_actions db)" "ac_approver_user l \<noteq> fst t"
    using l(2) distinct_key_eq [of ac_id "ap_actions db" l b] by auto
  have "engine_inv e" by (rule escalate_locked_inv [OF e inv lm(1) l(3) lm(2)])
  then have "engine_inv d"
    by (simp only: d engine_inv_cong [OF log_frames(1-4)] engine_inv_cong [OF log_frames(5-8)])
  moreover have "still_there c d" if "still_there c db" for c
    using still_there_escalate [OF that e] by (simp add: d still_there_def frame_simps)
  ultimately show ?thesis by blast
qed

lemma escalate_all_inv:
  "engine_inv db \<Longrightarrow> \<forall>a \<in> set as. still_there a db \<Longrightarrow> engine_inv (fst (escalate_all now as n db))"
proof (induction as arbitrary: n db)
  case (Cons a as)
  show ?case
  proof (cases "escalate_step now a db")
    case (Inr p)
    then obtain d flag where p: "escalate_step now a db = Inr (d, flag)" by (cases p) auto
    from escalate_step_inv [OF p Cons.prems(1)] Cons.prems(2) Cons.IH [of d] show ?thesis by (simp add: p)
  qed (simp add: Cons.prems(1))
qed simp

theorem process_escalations_inv:
  "engine_inv db \<Longrightarrow> engine_inv (fst (process_pending_action_escalations now db))"
  unfolding process_pending_action_escalations_def
  by (rule escalate_all_inv) (auto simp: still_there_def pending_actions_def)

end
