(* ===== verification/ApprovalLifecycle.thy ===== *)
theory ApprovalLifecycle
  imports ApprovalInvariant
begin

text \<open>
  The approval engine as a transition system: one step is one operation of
  \<open>approvals/services.py\<close>, with any arguments, or a change of the configuration in between. The
  invariant holds in every reachable state, and a run only moves forward.

  A change of configuration replaces the organisation data, the rows the runs are about, the
  workflows, rules and assignments by any others, as long as
  the workflows that have runs keep their stages: the same stage rows with the same sequence
  numbers. Their modes, approvers, fallbacks and escalation policies may change. The workflow editor
  (\<open>_upsert_workflow\<close> of \<open>approvals/views.py\<close>) does not check that condition: it adds, renumbers and
  deletes stages of a workflow whose runs are pending. \<open>delete_stages\<close> is its deletion, and the last
  section shows what it does to a run that waits on a deleted stage.
\<close>

section \<open>Steps\<close>

definition stage_slots :: "approval_workflow \<Rightarrow> (uid \<times> nat) set" where
  "stage_slots w = (\<lambda>s. (st_id s, st_sequence s)) ` set (aw_stages w)"

definition keeps_stages :: "'s approval_state \<Rightarrow> 's approval_state \<Rightarrow> bool" where
  "keeps_stages db db' \<longleftrightarrow> (\<forall>r \<in> set (ap_runs db). \<forall>w. find_workflow db (rn_workflow r) = Some w \<longrightarrow>
     (\<exists>w'. find_workflow db' (rn_workflow r) = Some w' \<and> stage_slots w' = stage_slots w))"

inductive approval_step :: "'s subject_ops \<Rightarrow> 's approval_state \<Rightarrow> 's approval_state \<Rightarrow> bool" for ops where
  step_create: "create_approval_run ck subj kind e act lt label amount cx db = Inr (db', run)
     \<Longrightarrow> approval_step ops db db'"
| step_open: "w \<in> set (ap_workflows db) \<Longrightarrow>
     open_approval_run ck w subj kind org e u act label db = Inr (db', run) \<Longrightarrow> approval_step ops db db'"
| step_approve: "approve_action ck ops i u c db = Inr db' \<Longrightarrow> approval_step ops db db'"
| step_reject: "reject_action ck ops i u c db = Inr db' \<Longrightarrow> approval_step ops db db'"
| step_cancel: "cancel_approval_run ck ops i act st db = Inr db' \<Longrightarrow> approval_step ops db db'"
| step_remind: "db' = fst (send_pending_action_reminders now db) \<Longrightarrow> approval_step ops db db'"
| step_escalate: "db' = fst (process_pending_action_escalations now db) \<Longrightarrow> approval_step ops db db'"
| step_delegate: "upsert_approval_delegation org de dg ks sd ed active act d db = Inr (db', row)
     \<Longrightarrow> approval_step ops db db'"
| step_configure: "db' = db\<lparr>ap_org := og, ap_workflows := ws, ap_rules := rs, ap_assignments := as, ap_next_id := n, ap_subjects := ss\<rparr> \<Longrightarrow>
     wf_workflows ws \<Longrightarrow> keeps_stages db db' \<Longrightarrow> ap_next_id db \<le> n \<Longrightarrow> approval_step ops db db'"

inductive_cases approval_stepE: "approval_step ops db db'"

definition initial_approvals :: "'s approval_state \<Rightarrow> bool" where
  "initial_approvals db \<longleftrightarrow> wf_workflows (ap_workflows db) \<and> ap_runs db = [] \<and> ap_actions db = []"

definition approvals_reach :: "'s subject_ops \<Rightarrow> 's approval_state \<Rightarrow> 's approval_state \<Rightarrow> bool" where
  "approvals_reach ops = (approval_step ops)\<^sup>*\<^sup>*"

lemma initial_inv: "initial_approvals db \<Longrightarrow> engine_inv db"
  by (simp add: initial_approvals_def engine_inv_def keys_ok_def)

lemma upsert_delegation_inv:
  assumes "upsert_approval_delegation org de dg ks sd ed active act d db = Inr (db', row)" "engine_inv db"
  shows "engine_inv db'"
proof -
  have fr: "ap_workflows db' = ap_workflows db \<and> ap_runs db' = ap_runs db \<and> ap_actions db' = ap_actions db \<and>
      ap_next_id db \<le> ap_next_id db'"
    using assms(1) by (cases d) (auto simp: upsert_approval_delegation_def frame_simps Let_def split: if_splits)
  then have "keys_ok db'" using assms(2) by (fastforce simp: engine_inv_def keys_ok_def)
  with fr assms(2) show ?thesis by (simp add: engine_inv_def run_ok_cong [of db' db])
qed

lemma at_stage_slots: "at_stage w c a \<longleftrightarrow> (ac_stage a, c) \<in> stage_slots w"
  by (force simp: at_stage_def stage_slots_def)

lemma stages_slots:
  "(\<forall>s \<in> set (aw_stages w). st_sequence s < c \<or> p \<longrightarrow> approved_stage as s) \<longleftrightarrow>
   (\<forall>(i, n) \<in> stage_slots w. n < c \<or> p \<longrightarrow> (\<exists>a \<in> set as. ac_stage a = i \<and> ac_status a = ACT_APPROVED))"
  by (auto simp: stage_slots_def approved_stage_def)

lemma run_ok_slots:
  assumes "run_ok db as r" "find_workflow db (rn_workflow r) = Some w"
    and "find_workflow db' (rn_workflow r) = Some w'" "stage_slots w' = stage_slots w"
  shows "run_ok db' as r"
  using assms unfolding run_ok_def at_stage_slots stages_slots by simp

lemma configure_inv:
  assumes db': "db' = db\<lparr>ap_org := og, ap_workflows := ws, ap_rules := rs, ap_assignments := as, ap_next_id := n, ap_subjects := ss\<rparr>"
    and ws: "wf_workflows ws" and kept: "keeps_stages db db'" and n: "ap_next_id db \<le> n" and inv: "engine_inv db"
  shows "engine_inv db'"
proof -
  have "keys_ok db'" using inv ws n unfolding engine_inv_def keys_ok_def db' by fastforce
  moreover have "run_ok db' (acts_of (rn_id r) (ap_actions db)) r" if r: "r \<in> set (ap_runs db)" for r
  proof -
    have ok: "run_ok db (acts_of (rn_id r) (ap_actions db)) r" using inv r by (simp add: engine_inv_def)
    then obtain w where w: "find_workflow db (rn_workflow r) = Some w" by (auto simp: run_ok_def)
    with kept r obtain w' where "find_workflow db' (rn_workflow r) = Some w'" "stage_slots w' = stage_slots w"
      unfolding keeps_stages_def by blast
    with ok w show ?thesis by (rule run_ok_slots)
  qed
  ultimately show ?thesis by (simp add: engine_inv_def db')
qed

theorem approval_step_inv:
  assumes "approval_step ops db db'" "engine_inv db"
  shows "engine_inv db'"
  using assms
proof (cases rule: approval_step.cases)
  case (step_create ck subj kind e act lt label amount cx run)
  with assms(2) show ?thesis by (blast intro: create_approval_run_inv)
next
  case (step_open w ck subj kind org e u act label run)
  with assms(2) show ?thesis by (blast intro: open_approval_run_inv)
next
  case (step_approve ck i u c)
  with assms(2) show ?thesis by (blast intro: approve_action_inv)
next
  case (step_reject ck i u c)
  with assms(2) show ?thesis by (blast intro: reject_action_inv)
next
  case (step_cancel ck i act st)
  with assms(2) show ?thesis by (blast intro: cancel_approval_run_inv)
next
  case (step_delegate org de dg ks sd ed active act d row)
  with assms(2) show ?thesis by (blast intro: upsert_delegation_inv)
next
  case (step_configure og ws rs as n ss)
  then show ?thesis using assms(2) by (rule configure_inv)
qed (simp_all add: send_reminders_inv process_escalations_inv assms(2))

theorem reachable_inv: "approvals_reach ops db0 db \<Longrightarrow> initial_approvals db0 \<Longrightarrow> engine_inv db"
  unfolding approvals_reach_def by (induction rule: rtranclp_induct) (auto intro: initial_inv approval_step_inv)

section \<open>A run only moves forward\<close>

definition run_moves :: "approval_run \<Rightarrow> approval_run \<Rightarrow> bool" where
  "run_moves r r' \<longleftrightarrow> rn_id r' = rn_id r \<and> rn_workflow r' = rn_workflow r \<and> rn_subject r' = rn_subject r \<and>
     rn_request_kind r' = rn_request_kind r \<and>
     rn_current_stage_sequence r \<le> rn_current_stage_sequence r' \<and> (rn_status r \<noteq> RUN_PENDING \<longrightarrow> r' = r)"

lemma run_moves_refl [simp]: "run_moves r r"
  by (simp add: run_moves_def)

lemma run_moves_trans: "run_moves r s \<Longrightarrow> run_moves s t \<Longrightarrow> run_moves r t"
  by (auto simp: run_moves_def)

definition runs_move :: "'s approval_state \<Rightarrow> 's approval_state \<Rightarrow> bool" where
  "runs_move db db' \<longleftrightarrow> (\<forall>r \<in> set (ap_runs db). \<exists>r' \<in> set (ap_runs db'). run_moves r r')"

lemma runs_move_refl [simp]: "runs_move db db"
  unfolding runs_move_def by (meson run_moves_refl)

lemma runs_move_trans: "runs_move a b \<Longrightarrow> runs_move b c \<Longrightarrow> runs_move a c"
  unfolding runs_move_def by (meson run_moves_trans)

lemma runs_move_same: "ap_runs db' = ap_runs db @ rs \<Longrightarrow> runs_move db db'"
  by (force simp: runs_move_def)

lemma runs_move_update:
  assumes "ap_runs db' = update_where (\<lambda>x. rn_id x = i) f (ap_runs db)"
    and k: "keys_ok db" and r0: "r0 \<in> set (ap_runs db)" "rn_id r0 = i" "run_moves r0 (f r0)"
  shows "runs_move db db'"
  unfolding runs_move_def
proof
  fix r assume r: "r \<in> set (ap_runs db)"
  let ?r = "if rn_id r = i then f r else r"
  have "?r \<in> set (ap_runs db')" using r by (simp add: assms(1) set_update_where)
  moreover have "run_moves r ?r" using r r0 same_run [OF k r r0(1)] by auto
  ultimately show "\<exists>r' \<in> set (ap_runs db'). run_moves r r'" by blast
qed

lemma create_stage_actions_runs: "create_stage_actions ck run s db = Inr db' \<Longrightarrow> ap_runs db' = ap_runs db"
  by (auto simp: create_stage_actions_def dest: fold_insert_effect)

lemma advance_moves:
  assumes adv: "advance_or_complete_run ck ops r u db = Inr db'" and r: "r \<in> set (ap_runs db)"
    and k: "keys_ok db" and p: "rn_status r = RUN_PENDING"
  shows "runs_move db db'"
proof -
  obtain w where w: "find_workflow db (rn_workflow r) = Some w"
    using adv by (auto simp: advance_or_complete_run_def split: option.splits)
  show ?thesis
  proof (cases "next_stage w (rn_current_stage_sequence r)")
    case None
    with adv w have "ap_runs db' = update_where (\<lambda>x. rn_id x = rn_id r) (\<lambda>x. x\<lparr>rn_status := RUN_APPROVED\<rparr>) (ap_runs db)"
      by (auto simp: advance_or_complete_run_def frame_simps dest: subject_frames)
    then show ?thesis
      by (rule runs_move_update [OF _ k r]) (simp_all add: run_moves_def p)
  next
    case (Some n)
    have "rn_current_stage_sequence r < st_sequence n"
      using Some by (auto simp: next_stage_def dest: first_row_SomeD)
    moreover from Some adv w have
      "ap_runs db' = update_where (\<lambda>x. rn_id x = rn_id r) (\<lambda>x. x\<lparr>rn_current_stage_sequence := st_sequence n\<rparr>) (ap_runs db)"
      by (auto simp: advance_or_complete_run_def frame_simps dest!: create_stage_actions_runs)
    ultimately show ?thesis
      using runs_move_update [OF _ k r refl, of db' "\<lambda>x. x\<lparr>rn_current_stage_sequence := st_sequence n\<rparr>"]
      by (simp add: run_moves_def p)
  qed
qed

lemma approve_moves:
  assumes "approve_action ck ops i u c db = Inr db'" and inv: "engine_inv db"
  shows "runs_move db db'"
proof -
  from assms(1) obtain a r s where f: "find_action db i = Some a" "find_run db (ac_run a) = Some r"
    "check_actionable ck a r u db = Inr ()"
    and rest: "bind_res (if st_mode s = MODE_ANY \<or> \<not> sibling_pending a (record_approval ck s a c db)
        then advance_or_complete_run ck ops r u (record_approval ck s a c db)
        else Inr (record_approval ck s a c db))
      (\<lambda>d. Inr (audit (Some u) ''approval.action.approved'' i d)) = Inr db'"
    by (auto simp: approve_action_def Let_def split: option.splits)
  let ?d = "record_approval ck s a c db"
  have r: "r \<in> set (ap_runs ?d)" "rn_id r = ac_run a" and a: "a \<in> set (ap_actions db)" "ac_status a = ACT_PENDING"
    using find_action_Some [OF f(1)] find_run_Some [OF f(2)] check_actionable_Inr [OF f(3)] by (simp_all add: frame_simps)
  then have p: "rn_status r = RUN_PENDING"
    using engine_inv_run [OF inv, of r] unfolding run_follows_def frame_simps by metis
  have k: "keys_ok ?d" using inv by (intro keys_record_approval) (simp add: engine_inv_def)
  from rest obtain d where d: "d = ?d \<or> advance_or_complete_run ck ops r u ?d = Inr d"
      "db' = audit (Some u) ''approval.action.approved'' i d"
    by (auto split: if_splits)
  then have "runs_move ?d d" using advance_moves [OF _ r(1) k p] by auto
  then show ?thesis by (simp add: runs_move_def d(2) frame_simps)
qed

lemma reject_moves:
  assumes "reject_action ck ops i u c db = Inr db'" and inv: "engine_inv db"
  shows "runs_move db db'"
proof -
  from assms(1) obtain a r where f: "find_action db i = Some a" "find_run db (ac_run a) = Some r"
    "check_actionable ck a r u db = Inr ()"
    and runs: "ap_runs db' = update_where (\<lambda>x. rn_id x = rn_id r) (\<lambda>x. x\<lparr>rn_status := RUN_REJECTED\<rparr>) (ap_runs db)"
    by (auto simp: reject_action_def Let_def frame_simps dest!: subject_frames split: option.splits)
  have r: "r \<in> set (ap_runs db)" "rn_id r = ac_run a" and a: "a \<in> set (ap_actions db)" "ac_status a = ACT_PENDING"
    using find_action_Some [OF f(1)] find_run_Some [OF f(2)] check_actionable_Inr [OF f(3)] by simp_all
  then have p: "rn_status r = RUN_PENDING"
    using engine_inv_run [OF inv, of r] unfolding run_follows_def by metis
  have k: "keys_ok db" using inv by (simp add: engine_inv_def)
  show ?thesis
    using runs_move_update [OF runs k r(1) refl] by (simp add: run_moves_def p)
qed

lemma cancel_moves:
  assumes "cancel_approval_run ck ops i act st db = Inr db'" and inv: "engine_inv db"
  shows "runs_move db db'"
proof -
  from assms(1) obtain r where f: "find_run db i = Some r"
    by (auto simp: cancel_approval_run_def split: option.splits)
  show ?thesis
  proof (cases "rn_status r = RUN_PENDING")
    case True
    with assms(1) f have "ap_runs db' = update_where (\<lambda>x. rn_id x = i) (\<lambda>x. x\<lparr>rn_status := RUN_CANCELLED\<rparr>) (ap_runs db)"
      by (cases st) (auto simp: cancel_approval_run_def Let_def frame_simps dest!: subject_frames)
    then show ?thesis
      by (rule runs_move_update [of _ _ _ _ r])
        (use inv find_run_Some [OF f] True in \<open>simp_all add: run_moves_def engine_inv_def\<close>)
  qed (use assms(1) f in \<open>simp add: cancel_approval_run_def\<close>)
qed

lemma remind_runs: "ap_runs (fst (remind_step now a acc)) = ap_runs (fst acc)"
  by (cases acc) (simp add: remind_step_def Let_def frame_simps split: option.split)

lemma fold_remind_runs: "ap_runs (fst (fold (remind_step now) as acc)) = ap_runs (fst acc)"
  by (induction as arbitrary: acc) (simp_all add: remind_runs)

lemma reminders_runs: "ap_runs (fst (send_pending_action_reminders now db)) = ap_runs db"
  by (simp add: send_pending_action_reminders_def fold_remind_runs)

lemma escalate_runs: "escalate_step now a db = Inr (d, flag) \<Longrightarrow> ap_runs d = ap_runs db"
  by (auto simp: escalate_step_def escalate_locked_def insert_action_def frame_simps
      split: option.splits if_splits)

lemma escalate_all_runs: "ap_runs (fst (escalate_all now as n db)) = ap_runs db"
  by (induction as arbitrary: n db) (auto dest: escalate_runs split: sum.split)

lemma escalations_runs: "ap_runs (fst (process_pending_action_escalations now db)) = ap_runs db"
  by (simp add: process_pending_action_escalations_def escalate_all_runs)

lemma open_runs: "open_approval_run ck w subj kind org e u act label db = Inr (db', run) \<Longrightarrow> \<exists>r. ap_runs db' = ap_runs db @ [r]"
  by (auto simp: open_approval_run_def Let_def frame_simps dest!: create_stage_actions_runs split: option.splits)

theorem approval_step_moves:
  assumes "approval_step ops db db'" "engine_inv db"
  shows "runs_move db db'"
  using assms
proof (cases rule: approval_step.cases)
  case (step_create ck subj kind e act lt label amount cx run)
  then obtain w where "open_approval_run ck w subj kind (em_organisation e) (Some (em_id e)) (em_user e)
       (or_else act (em_user e)) label db = Inr (db', run)"
    by (auto simp: create_approval_run_def)
  then show ?thesis by (auto dest!: open_runs intro: runs_move_same)
next
  case (step_open w ck subj kind org e u act label run)
  then show ?thesis by (auto dest!: open_runs intro: runs_move_same)
next
  case (step_approve ck i u c)
  with assms(2) show ?thesis by (blast intro: approve_moves)
next
  case (step_reject ck i u c)
  with assms(2) show ?thesis by (blast intro: reject_moves)
next
  case (step_cancel ck i act st)
  with assms(2) show ?thesis by (blast intro: cancel_moves)
next
  case (step_remind now)
  then show ?thesis by (simp add: runs_move_same [of _ _ "[]"] reminders_runs)
next
  case (step_escalate now)
  then show ?thesis by (simp add: runs_move_same [of _ _ "[]"] escalations_runs)
next
  case (step_delegate org de dg ks sd ed active act d row)
  then have "ap_runs db' = ap_runs db"
    by (cases d) (auto simp: upsert_approval_delegation_def frame_simps Let_def split: if_splits)
  then show ?thesis by (simp add: runs_move_same [of _ _ "[]"])
next
  case (step_configure og ws rs as n ss)
  then show ?thesis by (simp add: runs_move_same [of _ _ "[]"])
qed

theorem reachable_moves:
  "approvals_reach ops db db' \<Longrightarrow> engine_inv db \<Longrightarrow> runs_move db db' \<and> engine_inv db'"
  unfolding approvals_reach_def
  by (induction rule: rtranclp_induct) (auto intro: approval_step_inv approval_step_moves runs_move_trans)

section \<open>Deleting a stage of a live workflow\<close>

text \<open>
  The editor's last statement deletes the stages that the payload leaves out, and the database
  deletes the actions on them with them. A pending run whose current stage is among them is left
  without a single pending action: nobody can approve or reject it any more. So the condition on
  changes of configuration is needed for the invariant.
\<close>

definition delete_stages :: "uid \<Rightarrow> uid list \<Rightarrow> 's approval_state \<Rightarrow> 's approval_state" where
  "delete_stages i keep db = (case find_workflow db i of
     None \<Rightarrow> db
   | Some w \<Rightarrow> let gone = filter (\<lambda>s. s \<notin> set keep) (map st_id (aw_stages w)) in
       db\<lparr>ap_workflows := update_where (\<lambda>v. aw_id v = i)
            (\<lambda>v. v\<lparr>aw_stages := filter (\<lambda>s. st_id s \<in> set keep) (aw_stages v)\<rparr>) (ap_workflows db),
          ap_actions := filter (\<lambda>a. ac_stage a \<notin> set gone) (ap_actions db)\<rparr>)"

lemma deleted_stage_strands_run:
  assumes "engine_inv db" "r \<in> set (ap_runs db)" "find_workflow db (rn_workflow r) = Some w"
    and "\<forall>s \<in> set (aw_stages w). st_sequence s = rn_current_stage_sequence r \<longrightarrow> st_id s \<notin> set keep"
  shows "\<not> (\<exists>a \<in> set (ap_actions (delete_stages (rn_workflow r) keep db)). ac_run a = rn_id r \<and> ac_status a = ACT_PENDING)"
proof -
  obtain v where "find_workflow db (rn_workflow r) = Some v" "run_follows (ap_actions db) r v"
    by (rule engine_inv_run [OF assms(1,2)])
  then have "\<forall>a \<in> set (ap_actions db). ac_run a = rn_id r \<and> ac_status a = ACT_PENDING \<longrightarrow>
      at_stage w (rn_current_stage_sequence r) a"
    using assms(3) by (auto simp: run_follows_def)
  then have "ac_stage a \<in> st_id ` set (aw_stages w) - set keep"
    if "a \<in> set (ap_actions db)" "ac_run a = rn_id r" "ac_status a = ACT_PENDING" for a
  proof -
    from that \<open>\<forall>a \<in> set (ap_actions db). _ a \<longrightarrow> _ a\<close> have "at_stage w (rn_current_stage_sequence r) a" by simp
    with assms(4) show ?thesis by (auto simp: at_stage_def intro: rev_image_eqI)
  qed
  then show ?thesis
    using assms(3) by (auto simp: delete_stages_def Let_def)
qed

end
