(* ===== verification/ApprovalExample.thy ===== *)
theory ApprovalExample
  imports ApprovalLifecycle
begin

text \<open>
  A small organisation on which the properties of the approval engine are evaluated: employee 10
  reports to 20; leave takes two stages, the manager's and that of employee 30; an expense claim
  takes one any-of stage with both. The subject is the status last written to it.
\<close>

definition example_clock :: clock where
  "example_clock = \<lparr>ck_now = 1000, ck_today = Date 2025 6 1\<rparr>"

definition example_ops :: "subject_status option subject_ops" where
  "example_ops = \<lparr>so_exists = \<lambda>_ _. True, so_set_status = \<lambda>_ st _ _. Some st, so_handle = \<lambda>_ _ _ s. Inr s\<rparr>"

definition named_approver :: "uid \<Rightarrow> approval_stage_approver" where
  "named_approver i = \<lparr>sa_approver_type = AT_SPECIFIC_EMPLOYEE, sa_approver_employee = Some i,
     sa_manager_level = 0, sa_role_code = []\<rparr>"

definition manager_approver :: approval_stage_approver where
  "manager_approver = \<lparr>sa_approver_type = AT_REPORTING_MANAGER, sa_approver_employee = None,
     sa_manager_level = 1, sa_role_code = []\<rparr>"

definition example_stage :: "uid \<Rightarrow> nat \<Rightarrow> approval_stage_mode \<Rightarrow> approval_stage_approver list \<Rightarrow> approval_stage" where
  "example_stage i n m approvers =
     \<lparr>st_id = i, st_name = ''Stage'', st_sequence = n, st_mode = m, st_fallback_type = FB_PRIMARY_ORG_ADMIN,
      st_fallback_employee = None, st_fallback_role_code = [],
      st_sla_policy = Some \<lparr>ep_reminder_after_hours = Some 24, ep_escalate_after_hours = Some 48,
        ep_escalation_target_type = FB_SPECIFIC_EMPLOYEE, ep_escalation_employee = Some 30,
        ep_escalation_role_code = [], ep_is_active = True\<rparr>,
      st_approvers = approvers\<rparr>"

definition example_workflow :: "uid \<Rightarrow> approval_request_kind \<Rightarrow> approval_stage list \<Rightarrow> approval_workflow" where
  "example_workflow i kind stages =
     \<lparr>aw_id = i, aw_organisation = 1, aw_name = ''Default'', aw_is_default = True,
      aw_default_request_kind = Some kind, aw_is_active = True, aw_stages = stages\<rparr>"

definition leave_workflow :: approval_workflow where
  "leave_workflow = example_workflow 1 RK_LEAVE
     [example_stage 2 2 MODE_ALL [named_approver 30], example_stage 1 1 MODE_ALL [manager_approver]]"

definition expense_workflow :: approval_workflow where
  "expense_workflow = example_workflow 2 RK_EXPENSE_CLAIM
     [example_stage 3 1 MODE_ALL [manager_approver, named_approver 30]]"

definition example_start :: "subject_status option approval_state" where
  "example_start =
     \<lparr>ap_org = example_org_db, ap_workflows = [leave_workflow, expense_workflow], ap_rules = [],
      ap_assignments = [], ap_delegations = [], ap_runs = [], ap_actions = [], ap_notifications = [],
      ap_audit = [], ap_next_id = 50, ap_subjects = None\<rparr>"

definition example_requester :: employee where
  "example_requester = example_employee 10 (Some 20)"

definition example_request ::
  "approval_request_kind \<Rightarrow> (subject_status option approval_state \<times> approval_run) res" where
  "example_request kind =
     create_approval_run example_clock (''Subject'', 7) kind example_requester None None ''Request'' None
       empty_context example_start"

definition ok_state :: "('a \<times> 'b) res \<Rightarrow> 'a \<Rightarrow> 'a" where
  "ok_state x d = (case x of Inl _ \<Rightarrow> d | Inr (s, _) \<Rightarrow> s)"

definition ok_or :: "'a res \<Rightarrow> 'a \<Rightarrow> 'a" where
  "ok_or x d = (case x of Inl _ \<Rightarrow> d | Inr s \<Rightarrow> s)"

text \<open>The leave request filed; approved by the manager; approved by both. The claim filed; half approved.\<close>

definition leave_filed :: "subject_status option approval_state" where
  "leave_filed = ok_state (example_request RK_LEAVE) example_start"

definition leave_half :: "subject_status option approval_state" where
  "leave_half = ok_or (approve_action example_clock example_ops 51 120 [] leave_filed) leave_filed"

definition leave_done :: "subject_status option approval_state" where
  "leave_done = ok_or (approve_action example_clock example_ops 52 130 [] leave_half) leave_half"

definition claim_filed :: "subject_status option approval_state" where
  "claim_filed = ok_state (example_request RK_EXPENSE_CLAIM) example_start"

definition claim_half :: "subject_status option approval_state" where
  "claim_half = ok_or (approve_action example_clock example_ops 52 130 [] claim_filed) claim_filed"

section \<open>The states are reachable\<close>

lemma example_start_initial: "initial_approvals example_start"
  by (simp add: initial_approvals_def example_start_def wf_workflows_def leave_workflow_def expense_workflow_def
      example_workflow_def example_stage_def)

lemma request_filed:
  "is_ok (example_request k) \<Longrightarrow> \<exists>r. example_request k = Inr (ok_state (example_request k) d, r)"
  by (cases "example_request k") (auto simp: ok_state_def)

lemma example_requests_ok: "is_ok (example_request RK_LEAVE)" "is_ok (example_request RK_EXPENSE_CLAIM)"
  by code_simp+

lemma reach_request:
  assumes "is_ok (example_request k)"
  shows "approvals_reach example_ops example_start (ok_state (example_request k) example_start)"
proof -
  obtain r where "example_request k = Inr (ok_state (example_request k) example_start, r)"
    using request_filed [OF assms] by blast
  then have "approval_step example_ops example_start (ok_state (example_request k) example_start)"
    by (auto simp: example_request_def intro: step_create)
  then show ?thesis by (simp add: approvals_reach_def)
qed

lemma reach_approve:
  assumes "approvals_reach ops a b" "is_ok (approve_action ck ops i u c b)"
  shows "approvals_reach ops a (ok_or (approve_action ck ops i u c b) b)"
proof -
  from assms(2) have "approve_action ck ops i u c b = Inr (ok_or (approve_action ck ops i u c b) b)"
    by (cases "approve_action ck ops i u c b") (simp_all add: ok_or_def)
  then have "approval_step ops b (ok_or (approve_action ck ops i u c b) b)" by (rule step_approve)
  with assms(1) show ?thesis by (simp add: approvals_reach_def)
qed

lemma leave_filed_reach: "approvals_reach example_ops example_start leave_filed"
  unfolding leave_filed_def by (rule reach_request) (rule example_requests_ok)

lemma claim_filed_reach: "approvals_reach example_ops example_start claim_filed"
  unfolding claim_filed_def by (rule reach_request) (rule example_requests_ok)

lemma example_approvals_ok:
  "is_ok (approve_action example_clock example_ops 51 120 [] leave_filed)"
  "is_ok (approve_action example_clock example_ops 52 130 [] leave_half)"
  "is_ok (approve_action example_clock example_ops 52 130 [] claim_filed)"
  by code_simp+

lemma leave_half_reach: "approvals_reach example_ops example_start leave_half"
  unfolding leave_half_def by (intro reach_approve leave_filed_reach example_approvals_ok)

lemma leave_done_reach: "approvals_reach example_ops example_start leave_done"
  unfolding leave_done_def by (intro reach_approve leave_half_reach example_approvals_ok)

lemma claim_half_reach: "approvals_reach example_ops example_start claim_half"
  unfolding claim_half_def by (intro reach_approve claim_filed_reach example_approvals_ok)

end
