(* ===== verification/ApprovalProperties.thy ===== *)
theory ApprovalProperties
  imports ApprovalExample
begin

text \<open>
  What the approval engine promises: routing picks the workflow by precedence, approvers are never
  the requester by accident, a run waits exactly on its current stage, can always be decided, only
  moves forward and is approved only when every stage was.
\<close>

section \<open>Routing\<close>

lemma first_row_sorted_key:
  "sorted (map k xs) \<Longrightarrow> first_row P xs = Some x \<Longrightarrow> y \<in> set xs \<Longrightarrow> P y \<Longrightarrow> k x \<le> (k y :: nat)"
  by (induction xs) (auto split: if_splits)

text \<open>
  C19: Routing precedence: a request takes the workflow assigned to the employee if there is one;
  else that of a matching rule, and then no matching rule of smaller priority number exists; else
  the default of its kind. The chosen workflow always belongs to the employee's organisation and
  is active.
\<close>

theorem workflow_precedence:
  assumes "resolve_workflow_with_source db e kind lt amount cx = Inr (w, src)"
  shows "usable_workflow e w \<and>
    (case src of
       BY_ASSIGNMENT \<Rightarrow> get_employee_assigned_workflow db e kind = Some w
     | BY_RULE \<Rightarrow> get_employee_assigned_workflow db e kind = None \<and>
         (\<exists>r \<in> set (candidate_rules db (em_organisation e) kind).
            matches_rule r e kind lt amount cx \<and> find_workflow db (rw_workflow r) = Some w \<and>
            (\<forall>q \<in> set (candidate_rules db (em_organisation e) kind).
               matches_rule q e kind lt amount cx \<longrightarrow> rw_priority r \<le> rw_priority q))
     | BY_DEFAULT \<Rightarrow> get_employee_assigned_workflow db e kind = None \<and>
         (\<forall>q \<in> set (candidate_rules db (em_organisation e) kind). \<not> matches_rule q e kind lt amount cx) \<and>
         get_default_workflow db (em_organisation e) kind = Some w)"
proof -
  let ?rs = "candidate_rules db (em_organisation e) kind"
  have least: "rw_priority r \<le> rw_priority q"
    if "first_row (\<lambda>r. matches_rule r e kind lt amount cx) ?rs = Some r" "q \<in> set ?rs" "matches_rule q e kind lt amount cx"
    for r q
    using that by (rule first_row_sorted_key [where k = rw_priority, rotated]) (simp add: candidate_rules_def)
  show ?thesis
    using assms resolve_workflow_usable [OF assms] least
    by (auto simp: resolve_workflow_with_source_def first_row_None_iff dest!: first_row_SomeD
        split: option.splits workflow_source.splits)
qed

definition routed_start :: "subject_status option approval_state" where
  "routed_start = example_start\<lparr>
     ap_workflows := [leave_workflow, (example_workflow 8 RK_LEAVE [])\<lparr>aw_is_default := False\<rparr>],
     ap_rules := [\<lparr>rw_workflow = 8, rw_request_kind = RK_LEAVE, rw_priority = 5, rw_is_active = True,
        rw_department = None, rw_office_location = None, rw_specific_employee = Some 10,
        rw_employment_type = None, rw_designation = [], rw_leave_type = None, rw_min_amount = None,
        rw_max_amount = None, rw_grade = [], rw_band = [], rw_cost_centre = [], rw_legal_entity = []\<rparr>]\<rparr>"

theorem workflow_precedence_witness:
  "\<exists>w. resolve_workflow_with_source routed_start example_requester RK_LEAVE None None empty_context = Inr (w, BY_RULE) \<and>
     aw_id w = 8 \<and> get_employee_assigned_workflow routed_start example_requester RK_LEAVE = None"
proof -
  obtain w where w: "resolve_workflow_with_source routed_start example_requester RK_LEAVE None None empty_context = Inr (w, BY_RULE)"
    "aw_id w = 8"
  proof -
    have "map_sum id (map_prod aw_id id)
        (resolve_workflow_with_source routed_start example_requester RK_LEAVE None None empty_context) = Inr (8, BY_RULE)"
      by code_simp
    then show ?thesis using that by (auto simp: map_sum_def map_prod_def split: sum.splits)
  qed
  then show ?thesis using workflow_precedence [OF w(1)] by auto
qed

text \<open>
  An organisation that passes the check made before employees are invited never sees a request
  fail for want of a workflow: every request of any of its employees, of every kind, resolves.
\<close>

theorem configured_organisation_resolves:
  assumes "ensure_default_workflow_configured db (em_organisation e) = Inr ()"
  shows "\<exists>w src. resolve_workflow_with_source db e kind lt amount cx = Inr (w, src)"
proof -
  have "kind \<in> set get_required_default_request_kinds"
    by (cases kind) (simp_all add: get_required_default_request_kinds_def APPROVAL_REQUEST_KIND_CATALOG_def mk_meta_def)
  with assms have "default_workflows db (em_organisation e) kind \<noteq> []"
    by (auto simp: ensure_default_workflow_configured_def missing_default_kinds_def filter_empty_conv)
  then obtain w where d: "get_default_workflow db (em_organisation e) kind = Some w"
    using get_default_workflow_None [of db "em_organisation e" kind] by (metis option.exhaust)
  show ?thesis
  proof (cases "get_employee_assigned_workflow db e kind")
    case None
    show ?thesis
    proof (cases "first_row (\<lambda>r. matches_rule r e kind lt amount cx) (candidate_rules db (em_organisation e) kind)")
      case (Some r)
      then obtain v where "find_workflow db (rw_workflow r) = Some v"
        using candidate_rules_mem first_row_SomeD by metis
      with Some None show ?thesis by (simp add: resolve_workflow_with_source_def)
    qed (simp add: resolve_workflow_with_source_def None d)
  qed (simp add: resolve_workflow_with_source_def)
qed

definition configured_start :: "subject_status option approval_state" where
  "configured_start = example_start\<lparr>ap_workflows :=
     map (\<lambda>(i, k). example_workflow i k []) (enumerate 100 get_workflow_enabled_request_kinds)\<rparr>"

theorem configured_organisation_resolves_witness:
  "(\<exists>w src. resolve_workflow_with_source configured_start example_requester RK_PROMOTION None None empty_context = Inr (w, src)) \<and>
   ensure_default_workflow_configured example_start 1 \<noteq> Inr ()"
proof
  have "is_ok (ensure_default_workflow_configured configured_start (em_organisation example_requester))"
    by code_simp
  then have "ensure_default_workflow_configured configured_start (em_organisation example_requester) = Inr ()"
    by (cases "ensure_default_workflow_configured configured_start (em_organisation example_requester)") simp_all
  then show "\<exists>w src. resolve_workflow_with_source configured_start example_requester RK_PROMOTION None None empty_context = Inr (w, src)"
    by (rule configured_organisation_resolves)
  have "\<not> is_ok (ensure_default_workflow_configured example_start 1)" by code_simp
  then show "ensure_default_workflow_configured example_start 1 \<noteq> Inr ()" by auto
qed

section \<open>Approvers\<close>

text \<open>
  C32: The approvers of a stage: there is at least one, no user acts twice, and the requester is not
  among them - except for the payroll kinds, or where the stage's fallback is the requester.
\<close>

theorem approvers_exclude_requester:
  assumes "resolve_stage_approvers db today stage (Some e) org kind = Inr approvers"
  shows "approvers \<noteq> [] \<and> distinct (map sg_user approvers) \<and>
    (em_user e \<in> sg_user ` set approvers \<longrightarrow> requester_may_approve kind \<or>
       (\<exists>a. fallback_assignment db today stage (Some e) org kind = [a] \<and> sg_user a = em_user e))"
  using assms stage_approvers_requester [of _ db today stage e org kind]
    stage_approvers_distinct [of db today stage "Some e" org kind]
  by (fastforce simp: resolve_stage_approvers_Inr)

text \<open>The exception is real: the organisation's admin files a request and is its only approver.\<close>

definition admin_requester :: employee where
  "admin_requester = (example_employee 10 None)\<lparr>em_user := 999\<rparr>"

theorem approvers_exclude_requester_witness:
  "(\<exists>as. resolve_stage_approvers example_start (Date 2025 6 1) (example_stage 1 1 MODE_ALL [manager_approver])
      (Some example_requester) 1 RK_LEAVE = Inr as \<and> em_user example_requester \<notin> sg_user ` set as) \<and>
   map_sum id (map sg_user) (resolve_stage_approvers example_start (Date 2025 6 1)
      (example_stage 1 1 MODE_ALL [manager_approver]) (Some admin_requester) 1 RK_LEAVE) = Inr [em_user admin_requester]"
proof
  let ?r = "resolve_stage_approvers example_start (Date 2025 6 1) (example_stage 1 1 MODE_ALL [manager_approver])
      (Some example_requester) 1 RK_LEAVE"
  have "is_ok ?r" by code_simp
  then obtain as where r: "?r = Inr as" by (cases ?r) auto
  have f: "map sg_user (fallback_assignment example_start (Date 2025 6 1) (example_stage 1 1 MODE_ALL [manager_approver])
      (Some example_requester) 1 RK_LEAVE) = [999]" by code_simp
  have u: "em_user example_requester = 110" "\<not> requester_may_approve RK_LEAVE" by code_simp+
  from approvers_exclude_requester [OF r] f u
  have "em_user example_requester \<notin> sg_user ` set as" by auto
  with r show "\<exists>as. ?r = Inr as \<and> em_user example_requester \<notin> sg_user ` set as" by blast
  show "map_sum id (map sg_user) (resolve_stage_approvers example_start (Date 2025 6 1)
      (example_stage 1 1 MODE_ALL [manager_approver]) (Some admin_requester) 1 RK_LEAVE) = Inr [em_user admin_requester]"
    by code_simp
qed

section \<open>Runs\<close>

lemma reachable_run:
  assumes "approvals_reach ops db0 db" "initial_approvals db0" "r \<in> set (ap_runs db)"
  obtains w where "keys_ok db" "find_workflow db (rn_workflow r) = Some w" "run_follows (ap_actions db) r w"
  using reachable_inv [OF assms(1,2)] engine_inv_run [of db r] assms(3) unfolding engine_inv_def by metis

text \<open>
  C2: In every state the engine reaches, an action waiting for a decision belongs to a pending run
  and to a stage at that run's current sequence number: no one is ever asked about a decided run or
  out of turn. The configuration may change in between, but no workflow with runs loses, gains or
  renumbers a stage (\<open>keeps_stages\<close>), which the workflow editor itself does not check.
\<close>

theorem pending_action_is_current:
  assumes "approvals_reach ops db0 db" "initial_approvals db0" "a \<in> set (ap_actions db)" "ac_status a = ACT_PENDING"
  shows "\<exists>r w s. find_run db (ac_run a) = Some r \<and> rn_status r = RUN_PENDING \<and>
    find_workflow db (rn_workflow r) = Some w \<and> s \<in> set (aw_stages w) \<and> st_id s = ac_stage a \<and>
    st_sequence s = rn_current_stage_sequence r"
proof -
  have inv: "engine_inv db" by (rule reachable_inv [OF assms(1,2)])
  then obtain r where r: "r \<in> set (ap_runs db)" "rn_id r = ac_run a"
    using assms(3) by (auto simp: engine_inv_def keys_ok_def)
  obtain w where w: "keys_ok db" "find_workflow db (rn_workflow r) = Some w" "run_follows (ap_actions db) r w"
    by (rule reachable_run [OF assms(1,2) r(1)])
  then have "rn_status r = RUN_PENDING \<and> at_stage w (rn_current_stage_sequence r) a"
    using assms(3,4) r(2) by (simp add: run_follows_def)
  with w r find_run_mem [OF w(1) r(1)] show ?thesis by (auto simp: at_stage_def)
qed

theorem pending_action_is_current_witness:
  "\<exists>a r. a \<in> set (ap_actions leave_half) \<and> ac_status a = ACT_PENDING \<and>
     find_run leave_half (ac_run a) = Some r \<and> rn_current_stage_sequence r = 2"
proof -
  have "list_ex (\<lambda>a. ac_status a = ACT_PENDING) (ap_actions leave_half)" by code_simp
  then obtain a where a: "a \<in> set (ap_actions leave_half)" "ac_status a = ACT_PENDING" by (auto simp: list_ex_iff)
  then obtain r where r: "find_run leave_half (ac_run a) = Some r"
    using pending_action_is_current [OF leave_half_reach example_start_initial a] by blast
  have "list_all (\<lambda>r. rn_current_stage_sequence r = 2) (ap_runs leave_half)" by code_simp
  then have "rn_current_stage_sequence r = 2" using find_run_Some [OF r] by (simp add: list_all_iff)
  with a r show ?thesis by blast
qed

text \<open>
  C15: As long as no workflow with runs loses, gains or renumbers a stage, a pending run is never
  stuck: some action of it waits for a decision, and the user it waits for can reject it (while the
  organisation's licences run and the subject accepts a rejection), which decides the run. The
  condition is one on the changes of configuration between the engine's operations; the workflow
  editor does not check it, and a run whose current stage it deletes is stuck.
\<close>

theorem pending_run_can_be_decided:
  assumes "approvals_reach ops db0 db" "initial_approvals db0" "r \<in> set (ap_runs db)" "rn_status r = RUN_PENDING"
    and "\<not> gd_approval_actions_blocked (get_org_operations_guard (ap_org db) (rn_organisation r) (ck_today ck))"
    and "\<And>s. is_ok (so_handle ops (rn_subject r) SUBJECT_REJECTED c s)"
  shows "\<exists>a db'. a \<in> set (ap_actions db) \<and> ac_run a = rn_id r \<and> ac_status a = ACT_PENDING \<and>
    reject_action ck ops (ac_id a) (ac_approver_user a) c db = Inr db' \<and>
    find_run db' (rn_id r) = Some (r\<lparr>rn_status := RUN_REJECTED\<rparr>)"
proof -
  obtain w where w: "keys_ok db" "run_follows (ap_actions db) r w"
    by (rule reachable_run [OF assms(1-3)])
  then obtain a where a: "a \<in> set (ap_actions db)" "ac_run a = rn_id r" "ac_status a = ACT_PENDING"
    using assms(4) by (auto simp: run_follows_def)
  have f: "find_action db (ac_id a) = Some a" "find_run db (ac_run a) = Some r"
    using find_action_mem [OF w(1) a(1)] find_run_mem [OF w(1) assms(3)] a(2) by simp_all
  have ok: "check_actionable ck a r (ac_approver_user a) db = Inr ()"
    using a(3) assms(5) by (simp add: check_actionable_def Let_def guard_res_def)
  have sub: "\<exists>e'. apply_subject_status ops r SUBJECT_REJECTED c e = Inr e'" for e
    using assms(6) [of "so_set_status ops (rn_subject r) SUBJECT_REJECTED c (ap_subjects e)"]
    by (auto simp: apply_subject_status_def is_ok_def split: sum.splits)
  obtain db' where d: "reject_action ck ops (ac_id a) (ac_approver_user a) c db = Inr db'"
    using f ok sub by (simp add: reject_action_def Let_def) blast
  then have "ap_runs db' = update_where (\<lambda>x. rn_id x = rn_id r) (\<lambda>x. x\<lparr>rn_status := RUN_REJECTED\<rparr>) (ap_runs db)"
    using f by (auto simp: reject_action_def Let_def frame_simps dest!: subject_frames)
  moreover have "first_row (\<lambda>x. rn_id x = rn_id r) (update_where (\<lambda>x. rn_id x = rn_id r) (\<lambda>x. x\<lparr>rn_status := RUN_REJECTED\<rparr>) rs)
      = map_option (\<lambda>x. x\<lparr>rn_status := RUN_REJECTED\<rparr>) (first_row (\<lambda>x. rn_id x = rn_id r) rs)"
    for rs :: "approval_run list"
    by (induction rs) auto
  ultimately have "find_run db' (rn_id r) = Some (r\<lparr>rn_status := RUN_REJECTED\<rparr>)"
    using f(2) a(2) by (simp add: find_run_def)
  with a d show ?thesis by blast
qed

theorem pending_run_can_be_decided_witness:
  "\<exists>r a db'. a \<in> set (ap_actions leave_half) \<and> rn_status r = RUN_PENDING \<and>
     reject_action example_clock example_ops (ac_id a) (ac_approver_user a) ''No'' leave_half = Inr db' \<and>
     find_run db' (rn_id r) = Some (r\<lparr>rn_status := RUN_REJECTED\<rparr>)"
proof -
  have "list_ex (\<lambda>r. rn_status r = RUN_PENDING \<and>
      \<not> gd_approval_actions_blocked (get_org_operations_guard (ap_org leave_half) (rn_organisation r) (ck_today example_clock)))
      (ap_runs leave_half)" by code_simp
  then obtain r where "r \<in> set (ap_runs leave_half)" "rn_status r = RUN_PENDING"
      "\<not> gd_approval_actions_blocked (get_org_operations_guard (ap_org leave_half) (rn_organisation r) (ck_today example_clock))"
    by (auto simp: list_ex_iff)
  with pending_run_can_be_decided [OF leave_half_reach example_start_initial this, of "''No''"]
  show ?thesis by (auto simp: example_ops_def)
qed

text \<open>
  C5: As long as no workflow with runs loses, gains or renumbers a stage, an approved run was approved
  on every stage of its workflow: for each stage some action of the run carries an approval. Modes,
  approvers and everything else of the configuration may change between the engine's operations;
  a stage added by the workflow editor, which does not check the condition, was of course never
  approved by the runs that ended before.
\<close>

theorem approved_run_passed_every_stage:
  assumes "approvals_reach ops db0 db" "initial_approvals db0" "r \<in> set (ap_runs db)" "rn_status r = RUN_APPROVED"
    and "find_workflow db (rn_workflow r) = Some w" "s \<in> set (aw_stages w)"
  shows "\<exists>a \<in> set (ap_actions db). ac_run a = rn_id r \<and> ac_stage a = st_id s \<and> ac_status a = ACT_APPROVED"
proof -
  obtain v where "find_workflow db (rn_workflow r) = Some v" "run_follows (ap_actions db) r v"
    by (rule reachable_run [OF assms(1-3)])
  with assms(4-6) have "approved_stage (acts_of (rn_id r) (ap_actions db)) s" by (simp add: run_follows_def)
  then show ?thesis by (auto simp: approved_stage_def)
qed

theorem approved_run_passed_every_stage_witness:
  "\<exists>a \<in> set (ap_actions leave_done). ac_stage a = 2 \<and> ac_status a = ACT_APPROVED"
proof -
  have "list_ex (\<lambda>r. rn_status r = RUN_APPROVED \<and> rn_workflow r = 1) (ap_runs leave_done)" by code_simp
  then obtain r where r: "r \<in> set (ap_runs leave_done)" "rn_status r = RUN_APPROVED" "rn_workflow r = 1"
    by (auto simp: list_ex_iff)
  have "map_option (\<lambda>w. map st_id (aw_stages w)) (find_workflow leave_done 1) = Some [2, 1]" by code_simp
  then obtain w where "find_workflow leave_done (rn_workflow r) = Some w" "map st_id (aw_stages w) = [2, 1]"
    using r(3) by (auto simp: map_option_case split: option.splits)
  moreover from this(2) have "2 \<in> st_id ` set (aw_stages w)" by (metis list.set_intros(1) set_map)
  then obtain s where "s \<in> set (aw_stages w)" "st_id s = 2" by auto
  ultimately show ?thesis
    using approved_run_passed_every_stage [OF leave_done_reach example_start_initial r(1,2)] by metis
qed

text \<open>
  A run only moves forward: after any further operations it is still there, with the same
  workflow, subject and kind, at the same or a later stage, and once it is approved, rejected or
  cancelled nothing about it changes any more.
\<close>

theorem run_only_moves_forward:
  assumes "approvals_reach ops db0 db" "initial_approvals db0" "approvals_reach ops db db'" "r \<in> set (ap_runs db)"
  shows "\<exists>r' \<in> set (ap_runs db'). rn_id r' = rn_id r \<and> rn_workflow r' = rn_workflow r \<and>
    rn_subject r' = rn_subject r \<and> rn_request_kind r' = rn_request_kind r \<and>
    rn_current_stage_sequence r \<le> rn_current_stage_sequence r' \<and>
    (rn_status r \<noteq> RUN_PENDING \<longrightarrow> r' = r)"
  using reachable_moves [OF assms(3) reachable_inv [OF assms(1,2)]] assms(4)
  unfolding runs_move_def run_moves_def by blast

theorem run_only_moves_forward_witness:
  "\<exists>r \<in> set (ap_runs leave_filed). \<exists>r' \<in> set (ap_runs leave_half). rn_id r' = rn_id r \<and>
     rn_current_stage_sequence r \<le> rn_current_stage_sequence r'"
proof -
  have "ap_runs leave_filed \<noteq> []" by code_simp
  then obtain r where r: "r \<in> set (ap_runs leave_filed)" by (meson hd_in_set)
  have "approvals_reach example_ops leave_filed leave_half"
    unfolding leave_half_def by (intro reach_approve example_approvals_ok) (simp add: approvals_reach_def)
  from run_only_moves_forward [OF leave_filed_reach example_start_initial this r] r show ?thesis by blast
qed

lemma advance_reaches:
  assumes "advance_or_complete_run ck ops r u db = Inr db'" "r \<in> set (ap_runs db)"
  shows "\<exists>r' \<in> set (ap_runs db'). rn_id r' = rn_id r \<and>
    (rn_status r' = RUN_APPROVED \<or> rn_current_stage_sequence r < rn_current_stage_sequence r')"
proof -
  obtain w where w: "find_workflow db (rn_workflow r) = Some w"
    using assms(1) by (auto simp: advance_or_complete_run_def split: option.splits)
  show ?thesis
  proof (cases "next_stage w (rn_current_stage_sequence r)")
    case None
    with assms(1) w have "ap_runs db' = update_where (\<lambda>x. rn_id x = rn_id r) (\<lambda>x. x\<lparr>rn_status := RUN_APPROVED\<rparr>) (ap_runs db)"
      by (auto simp: advance_or_complete_run_def frame_simps dest: subject_frames)
    then have "r\<lparr>rn_status := RUN_APPROVED\<rparr> \<in> set (ap_runs db')"
      using assms(2) by (force simp: set_update_where)
    then show ?thesis by (rule rev_bexI) simp
  next
    case (Some n)
    then have n: "rn_current_stage_sequence r < st_sequence n" by (auto simp: next_stage_def dest: first_row_SomeD)
    from Some assms(1) w have
      "ap_runs db' = update_where (\<lambda>x. rn_id x = rn_id r) (\<lambda>x. x\<lparr>rn_current_stage_sequence := st_sequence n\<rparr>) (ap_runs db)"
      by (auto simp: advance_or_complete_run_def frame_simps dest!: create_stage_actions_runs)
    then have "r\<lparr>rn_current_stage_sequence := st_sequence n\<rparr> \<in> set (ap_runs db')"
      using assms(2) by (force simp: set_update_where)
    then show ?thesis by (rule rev_bexI) (simp add: n)
  qed
qed

text \<open>
  C31: A stage in all-of mode waits for everyone: while another action of the stage is pending, an
  approval leaves every run as it was and that other action pending. The last approval of the stage,
  or the first on an any-of stage, moves the run to a later stage or approves it.
\<close>

theorem stage_mode_decides_advance:
  assumes "approve_action ck ops i u c db = Inr db'"
    and "find_action db i = Some a" "find_run db (ac_run a) = Some r" "find_stage db r (ac_stage a) = Some s"
  shows "if st_mode s = MODE_ALL \<and> (\<exists>b \<in> set (ap_actions db). ac_id b \<noteq> i \<and> ac_run b = ac_run a \<and>
              ac_stage b = ac_stage a \<and> ac_status b = ACT_PENDING)
         then ap_runs db' = ap_runs db \<and> sibling_pending a db'
         else \<exists>r' \<in> set (ap_runs db'). rn_id r' = rn_id r \<and>
              (rn_status r' = RUN_APPROVED \<or> rn_current_stage_sequence r < rn_current_stage_sequence r')"
proof -
  let ?d = "record_approval ck s a c db"
  have a: "a \<in> set (ap_actions db)" "ac_id a = i" using find_action_Some [OF assms(2)] by simp_all
  have r: "r \<in> set (ap_runs db)" "rn_id r = ac_run a" using find_run_Some [OF assms(3)] by simp_all
  have sib: "sibling_pending a ?d \<longleftrightarrow> (\<exists>b \<in> set (ap_actions db). ac_id b \<noteq> i \<and> ac_run b = ac_run a \<and>
      ac_stage b = ac_stage a \<and> ac_status b = ACT_PENDING)" if "st_mode s = MODE_ALL"
    using that a(2) by (auto simp: sibling_pending_def list_ex_iff record_approval_def Let_def frame_simps set_update_where
        split: if_splits)
  have rest: "bind_res (if st_mode s = MODE_ANY \<or> \<not> sibling_pending a ?d
        then advance_or_complete_run ck ops r u ?d else Inr ?d)
      (\<lambda>d. Inr (audit (Some u) ''approval.action.approved'' i d)) = Inr db'"
    using assms(1-4) by (auto simp: approve_action_def Let_def split: if_splits)
  show ?thesis
  proof (cases "st_mode s = MODE_ALL \<and> sibling_pending a ?d")
    case True
    then have "db' = audit (Some u) ''approval.action.approved'' i ?d" using rest by auto
    then show ?thesis using True sib by (simp add: sibling_pending_def frame_simps)
  next
    case False
    then have "st_mode s = MODE_ANY \<or> \<not> sibling_pending a ?d" by (cases "st_mode s") auto
    with rest obtain d where d: "advance_or_complete_run ck ops r u ?d = Inr d"
      "ap_runs db' = ap_runs d" by (auto simp: frame_simps)
    have "\<exists>r' \<in> set (ap_runs d). rn_id r' = rn_id r \<and>
        (rn_status r' = RUN_APPROVED \<or> rn_current_stage_sequence r < rn_current_stage_sequence r')"
      using advance_reaches [OF d(1)] r(1) by (simp add: frame_simps)
    with False sib d(2) show ?thesis by auto
  qed
qed

theorem stage_mode_decides_advance_witness:
  "\<exists>db' a. approve_action example_clock example_ops 52 130 [] claim_filed = Inr db' \<and>
     ap_runs db' = ap_runs claim_filed \<and> sibling_pending a db'"
proof -
  let ?x = "approve_action example_clock example_ops 52 130 [] claim_filed"
  obtain db' where x: "?x = Inr db'" using example_approvals_ok(3) by (cases ?x) auto
  have f: "(case find_action claim_filed 52 of None \<Rightarrow> False | Some a \<Rightarrow>
     (case find_run claim_filed (ac_run a) of None \<Rightarrow> False | Some r \<Rightarrow>
     (case find_stage claim_filed r (ac_stage a) of None \<Rightarrow> False | Some s \<Rightarrow>
       st_mode s = MODE_ALL \<and> list_ex (\<lambda>b. ac_id b \<noteq> 52 \<and> ac_run b = ac_run a \<and>
         ac_stage b = ac_stage a \<and> ac_status b = ACT_PENDING) (ap_actions claim_filed))))"
    by code_simp
  then obtain a r s where f: "find_action claim_filed 52 = Some a" "find_run claim_filed (ac_run a) = Some r"
      "find_stage claim_filed r (ac_stage a) = Some s" "st_mode s = MODE_ALL"
      "\<exists>b \<in> set (ap_actions claim_filed). ac_id b \<noteq> 52 \<and> ac_run b = ac_run a \<and>
         ac_stage b = ac_stage a \<and> ac_status b = ACT_PENDING"
    by (auto simp: list_ex_iff split: option.splits)
  from stage_mode_decides_advance [OF x f(1-3)] f(4,5) x show ?thesis by (simp only: if_True simp_thms) blast
qed

section \<open>Escalation\<close>

text \<open>
  C33: Escalating to someone who already acted on the stage: the job looks only for a pending action
  of the target, while the table allows one action per run, stage and user whatever its status; the
  insertion fails and the whole job ends with an integrity error, its later actions untouched.
\<close>

theorem escalation_to_past_approver_aborts:
  assumes "action_policy db a = Some (run, policy)" "ac_escalated_at a = None"
    and "deadline_passed (ep_escalate_after_hours policy) a now"
    and "resolve_escalation_target db run policy = Some target" "fst target \<noteq> ac_approver_user a"
    and "find_action db (ac_id a) = Some a" "ac_status a = ACT_PENDING"
    and "b \<in> set (ap_actions db)" "action_key b = (ac_run a, ac_stage a, fst target)"
    and "\<not> list_ex (\<lambda>b. action_key b = (ac_run a, ac_stage a, fst target) \<and> ac_status b = ACT_PENDING) (ap_actions db)"
  shows "escalate_all now (a # as) n db = (db, Inl (IntegrityError ''unique_approval_action_per_user_stage''))"
proof -
  have "\<not> list_ex (\<lambda>b. ac_run b = ac_run a \<and> ac_stage b = ac_stage a \<and> ac_approver_user b = fst target \<and>
      ac_status b = ACT_PENDING) (ap_actions db)"
    using assms(10) by (auto simp: action_key_def list_ex_iff)
  moreover have "list_ex (\<lambda>b. ac_run b = ac_run a \<and> ac_stage b = ac_stage a \<and> ac_approver_user b = fst target) (ap_actions db)"
    using assms(8,9) by (auto simp: action_key_def list_ex_iff)
  ultimately have "escalate_locked now a target db = Inl (IntegrityError ''unique_approval_action_per_user_stage'')"
    by (simp add: escalate_locked_def insert_action_def escalated_action_def)
  then show ?thesis using assms(1-7) by (simp add: escalate_step_def)
qed

text \<open>
  Employee 30 has approved the claim, the manager has not; after two days the manager's action
  escalates to employee 30.
\<close>

theorem escalation_to_past_approver_aborts_witness:
  "\<exists>a \<in> set (ap_actions claim_half). ac_status a = ACT_PENDING \<and>
     escalate_all 999999 [a] 0 claim_half = (claim_half, Inl (IntegrityError ''unique_approval_action_per_user_stage''))"
proof -
  have "(case find_action claim_half 51 of None \<Rightarrow> False | Some a \<Rightarrow>
      ac_id a = 51 \<and> ac_status a = ACT_PENDING \<and> ac_escalated_at a = None \<and> ac_approver_user a = 120 \<and>
      list_ex (\<lambda>b. action_key b = (ac_run a, ac_stage a, 130)) (ap_actions claim_half) \<and>
      \<not> list_ex (\<lambda>b. action_key b = (ac_run a, ac_stage a, 130) \<and> ac_status b = ACT_PENDING) (ap_actions claim_half) \<and>
      (case action_policy claim_half a of None \<Rightarrow> False | Some (run, policy) \<Rightarrow>
         deadline_passed (ep_escalate_after_hours policy) a 999999 \<and>
         map_option fst (resolve_escalation_target claim_half run policy) = Some 130))" by code_simp
  then obtain a run policy target where f: "find_action claim_half 51 = Some a" "ac_id a = 51" "ac_status a = ACT_PENDING"
      "ac_escalated_at a = None" "ac_approver_user a = 120" "action_policy claim_half a = Some (run, policy)"
      "deadline_passed (ep_escalate_after_hours policy) a 999999"
      "resolve_escalation_target claim_half run policy = Some target" "fst target = 130"
      "list_ex (\<lambda>b. action_key b = (ac_run a, ac_stage a, 130)) (ap_actions claim_half)"
      "\<not> list_ex (\<lambda>b. action_key b = (ac_run a, ac_stage a, 130) \<and> ac_status b = ACT_PENDING) (ap_actions claim_half)"
    by (auto split: option.splits)
  from f(10) obtain b where b: "b \<in> set (ap_actions claim_half)" "action_key b = (ac_run a, ac_stage a, fst target)"
    using f(9) by (auto simp: list_ex_iff)
  have "escalate_all 999999 [a] 0 claim_half = (claim_half, Inl (IntegrityError ''unique_approval_action_per_user_stage''))"
    by (rule escalation_to_past_approver_aborts [OF f(6,4,7,8) _ _ f(3) b]) (use f in simp_all)
  then show ?thesis using find_action_Some [OF f(1)] f(3) by blast
qed

end
