(* ===== verification/TimeoffModels.thy ===== *)
theory TimeoffModels
  imports OrgModels
begin

text \<open>
  The data model of the time-off application (\<open>timeoff/models.py\<close>): holiday calendars, leave
  cycles, plans and types, balances with their ledger, leave, on-duty and encashment requests,
  compensatory off and leave without pay. A plan carries its rules and its types, a calendar its
  holidays and locations. Attachments and audit columns decide nothing and are left out.
\<close>

section \<open>Enumerations\<close>

datatype day_session = FULL_DAY | FIRST_HALF | SECOND_HALF

datatype holiday_calendar_status = HC_DRAFT | HC_PUBLISHED | HC_ARCHIVED

datatype holiday_classification = HOL_PUBLIC | HOL_RESTRICTED | HOL_COMPANY

datatype leave_cycle_type = CALENDAR_YEAR | FINANCIAL_YEAR | CUSTOM_FIXED_START | EMPLOYEE_JOINING_DATE

datatype leave_credit_frequency = CF_MANUAL | CF_MONTHLY | CF_QUARTERLY | CF_HALF_YEARLY | CF_YEARLY

datatype carry_forward_mode = CARRY_NONE | CARRY_CAPPED | CARRY_UNLIMITED

datatype leave_balance_entry_type =
  BE_OPENING | BE_CREDIT | BE_ADJUSTMENT | BE_DEBIT | BE_CARRY_FORWARD | BE_EXPIRY

datatype leave_request_status = LR_PENDING | LR_APPROVED | LR_REJECTED | LR_CANCELLED | LR_WITHDRAWN

datatype comp_off_status = CO_PENDING | CO_APPROVED | CO_REJECTED | CO_REDEEMED | CO_EXPIRED | CO_CANCELLED

datatype lwp_entry_source = LWP_MANUAL | LWP_ATTENDANCE | LWP_LEAVE_LAPSE | LWP_PAYROLL

datatype lwp_entry_status = LWP_PENDING | LWP_APPROVED | LWP_REJECTED | LWP_CANCELLED

datatype on_duty_request_status = OD_PENDING | OD_APPROVED | OD_REJECTED | OD_CANCELLED | OD_WITHDRAWN

datatype leave_encashment_status = EN_PENDING | EN_APPROVED | EN_REJECTED | EN_PAID | EN_CANCELLED

datatype on_duty_duration_type = OD_FULL_DAY | OD_FIRST_HALF | OD_SECOND_HALF | OD_TIME_RANGE

section \<open>Holidays\<close>

record holiday =
  ho_id :: uid
  ho_name :: string
  ho_date :: date
  ho_classification :: holiday_classification
  ho_session :: day_session

record holiday_calendar =
  hc_id :: uid
  hc_organisation :: uid
  hc_name :: string
  hc_year :: int
  hc_status :: holiday_calendar_status
  hc_is_default :: bool
  hc_published_at :: "instant option"
  hc_locations :: "uid list"
  hc_holidays :: "holiday list"

section \<open>Leave plans\<close>

record leave_cycle =
  lc_id :: uid
  lc_organisation :: uid
  lc_name :: string
  lc_cycle_type :: leave_cycle_type
  lc_start_month :: int
  lc_start_day :: int
  lc_is_default :: bool
  lc_is_active :: bool

record leave_plan_rule =
  lpr_id :: uid
  lpr_name :: string
  lpr_priority :: nat
  lpr_is_active :: bool
  lpr_department :: "uid option"
  lpr_office_location :: "uid option"
  lpr_specific_employee :: "uid option"
  lpr_employment_type :: "employment_type option"
  lpr_designation :: string

record leave_type =
  lt_id :: uid
  lt_code :: string
  lt_name :: string
  lt_color :: string
  lt_is_paid :: bool
  lt_is_loss_of_pay :: bool
  lt_annual_entitlement :: rat
  lt_credit_frequency :: leave_credit_frequency
  lt_prorate_on_join :: bool
  lt_carry_forward_mode :: carry_forward_mode
  lt_carry_forward_cap :: "rat option"
  lt_max_balance :: "rat option"
  lt_allows_encashment :: bool
  lt_max_encashment_days_per_year :: "rat option"
  lt_is_active :: bool

record leave_plan =
  lp_id :: uid
  lp_organisation :: uid
  lp_leave_cycle :: uid
  lp_name :: string
  lp_is_default :: bool
  lp_is_active :: bool
  lp_priority :: nat
  lp_rules :: "leave_plan_rule list"
  lp_leave_types :: "leave_type list"

record leave_plan_employee_assignment =
  lpa_leave_plan :: uid
  lpa_employee :: uid

section \<open>Balances\<close>

record leave_balance =
  lb_id :: uid
  lb_employee :: uid
  lb_leave_type :: uid
  lb_cycle_start :: date
  lb_cycle_end :: date
  lb_opening_balance :: rat
  lb_credited_amount :: rat
  lb_used_amount :: rat
  lb_pending_amount :: rat
  lb_carried_forward_amount :: rat

text \<open>The note of an entry is its template and the values put in.\<close>

record ledger_entry =
  le_leave_balance :: uid
  le_entry_type :: leave_balance_entry_type
  le_amount :: rat
  le_effective_date :: date
  le_note :: string
  le_note_key :: "uid option"
  le_created_by :: "uid option"

record comp_off_accrual =
  ca_off_id :: uid
  ca_off_employee :: uid
  ca_off_accrual_date :: date
  ca_off_units :: rat
  ca_off_expires_on :: "date option"
  ca_off_status :: comp_off_status

record comp_off_redemption =
  cr_employee :: uid
  cr_accrual :: "uid option"
  cr_redemption_date :: date
  cr_units :: rat
  cr_status :: comp_off_status
  cr_leave_request :: "uid option"

record leave_without_pay_entry =
  lwp_employee :: uid
  lwp_entry_date :: date
  lwp_units :: rat
  lwp_source :: lwp_entry_source
  lwp_status :: lwp_entry_status

section \<open>Requests\<close>

record leave_request =
  lr_id :: uid
  lr_employee :: uid
  lr_leave_type :: uid
  lr_start_date :: date
  lr_end_date :: date
  lr_start_session :: day_session
  lr_end_session :: day_session
  lr_total_units :: rat
  lr_status :: leave_request_status
  lr_rejection_reason :: string

record on_duty_policy =
  op_id :: uid
  op_organisation :: uid
  op_name :: string
  op_is_default :: bool
  op_is_active :: bool

text \<open>Times of day are microseconds after midnight.\<close>

record on_duty_request =
  or_id :: uid
  or_employee :: uid
  or_policy :: uid
  or_start_date :: date
  or_end_date :: date
  or_duration_type :: on_duty_duration_type
  or_start_time :: "nat option"
  or_end_time :: "nat option"
  or_total_units :: rat
  or_status :: on_duty_request_status
  or_rejection_reason :: string

record leave_encashment_request =
  en_id :: uid
  en_employee :: uid
  en_leave_type :: uid
  en_cycle_start :: date
  en_cycle_end :: date
  en_days_to_encash :: rat
  en_status :: leave_encashment_status
  en_approval_run :: "uid option"
  en_rejection_reason :: string

record timeoff_db =
  td_calendars :: "holiday_calendar list"
  td_cycles :: "leave_cycle list"
  td_plans :: "leave_plan list"
  td_plan_assignments :: "leave_plan_employee_assignment list"
  td_balances :: "leave_balance list"
  td_ledger :: "ledger_entry list"
  td_accruals :: "comp_off_accrual list"
  td_redemptions :: "comp_off_redemption list"
  td_lwp_entries :: "leave_without_pay_entry list"
  td_leave_requests :: "leave_request list"
  td_on_duty_policies :: "on_duty_policy list"
  td_on_duty_requests :: "on_duty_request list"
  td_encashments :: "leave_encashment_request list"

text \<open>The reverse relations \<open>leave_type.leave_plan\<close> and \<open>leave_plan.leave_types\<close>.\<close>

definition find_leave_type :: "timeoff_db \<Rightarrow> uid \<Rightarrow> leave_type option" where
  "find_leave_type db i = first_row (\<lambda>t. lt_id t = i) (concat (map lp_leave_types (td_plans db)))"

definition plan_of_type :: "timeoff_db \<Rightarrow> uid \<Rightarrow> leave_plan option" where
  "plan_of_type db i = first_row (\<lambda>p. list_ex (\<lambda>t. lt_id t = i) (lp_leave_types p)) (td_plans db)"

definition find_cycle :: "timeoff_db \<Rightarrow> uid \<Rightarrow> leave_cycle option" where
  "find_cycle db i = first_row (\<lambda>c. lc_id c = i) (td_cycles db)"

lemma find_leave_type_id: "find_leave_type db i = Some t \<Longrightarrow> lt_id t = i"
  by (auto simp: find_leave_type_def dest: first_row_SomeD)

lemma find_leave_type_plan: "find_leave_type db i = Some t \<Longrightarrow> \<exists>p. plan_of_type db i = Some p"
proof -
  assume "find_leave_type db i = Some t"
  then have "t \<in> set (concat (map lp_leave_types (td_plans db)))" "lt_id t = i"
    by (auto simp: find_leave_type_def dest: first_row_SomeD)
  then have "plan_of_type db i \<noteq> None" by (auto simp: plan_of_type_def first_row_None_iff list_ex_iff)
  then show ?thesis by blast
qed

end
