(* ===== verification/ExpenseModels.thy ===== *)
theory ExpenseModels
  imports ApprovalModels
begin

text \<open>
  The data model of the expenses application (\<open>expenses/models.py\<close>): policies with their
  categories, claims with their lines. A line carries the number of its receipts; the files
  themselves are not modelled.
\<close>

datatype expense_claim_status = EC_DRAFT | EC_SUBMITTED | EC_APPROVED | EC_REJECTED | EC_CANCELLED

datatype expense_reimbursement_status = RB_NOT_READY | RB_PENDING_PAYROLL | RB_INCLUDED_IN_PAYROLL | RB_PAID

record expense_policy =
  xp_id :: uid
  xp_organisation :: uid
  xp_name :: string
  xp_currency :: string
  xp_is_active :: bool

record expense_category =
  xc_id :: uid
  xc_policy :: uid
  xc_code :: string
  xc_name :: string
  xc_per_claim_limit :: "rat option"
  xc_requires_receipt :: bool
  xc_is_active :: bool

record expense_claim_line =
  xl_category :: "uid option"
  xl_category_name :: string
  xl_expense_date :: date
  xl_merchant :: string
  xl_description :: string
  xl_amount :: rat
  xl_currency :: string
  xl_receipts :: nat

record expense_claim =
  xm_id :: uid
  xm_organisation :: uid
  xm_employee :: uid
  xm_policy :: "uid option"
  xm_title :: string
  xm_claim_date :: date
  xm_currency :: string
  xm_status :: expense_claim_status
  xm_reimbursement_status :: expense_reimbursement_status
  xm_approval_run :: "uid option"
  xm_reimbursement_pay_run :: "uid option"
  xm_reimbursement_pay_run_item :: "uid option"
  xm_submitted_at :: "instant option"
  xm_approved_at :: "instant option"
  xm_rejected_at :: "instant option"
  xm_reimbursed_at :: "instant option"
  xm_rejection_reason :: string
  xm_lines :: "expense_claim_line list"

record expense_db =
  xd_policies :: "expense_policy list"
  xd_categories :: "expense_category list"
  xd_claims :: "expense_claim list"

definition find_claim :: "expense_db \<Rightarrow> uid \<Rightarrow> expense_claim option" where
  "find_claim db i = first_row (\<lambda>c. xm_id c = i) (xd_claims db)"

definition total_amount :: "expense_claim \<Rightarrow> rat" where
  "total_amount claim = quantize2 (sum_list (map xl_amount (xm_lines claim)))"

text \<open>
  The method the approval engine calls when a run on a claim is decided. The engine has already
  written the new status into the row.
\<close>

definition handle_claim_status_change ::
  "instant \<Rightarrow> subject_status \<Rightarrow> string \<Rightarrow> expense_claim \<Rightarrow> expense_claim" where
  "handle_claim_status_change now new_status rejection_reason claim =
     (case new_status of
        SUBJECT_APPROVED \<Rightarrow>
          claim\<lparr>xm_status := EC_APPROVED, xm_reimbursement_status := RB_PENDING_PAYROLL,
                xm_approved_at := Some now, xm_rejection_reason := []\<rparr>
      | SUBJECT_REJECTED \<Rightarrow>
          claim\<lparr>xm_status := EC_REJECTED, xm_reimbursement_status := RB_NOT_READY,
                xm_rejected_at := Some now, xm_rejection_reason := rejection_reason\<rparr>
      | SUBJECT_CANCELLED \<Rightarrow>
          claim\<lparr>xm_status := EC_CANCELLED, xm_reimbursement_status := RB_NOT_READY\<rparr>
      | SUBJECT_WITHDRAWN \<Rightarrow> claim)"

lemma money_total_amount [simp]: "money (total_amount claim)"
  by (simp add: total_amount_def)

end
