(* ===== verification/HrState.thy ===== *)
theory HrState
  imports StatutorySeed TimeoffModels ExpenseModels ApprovalInvariant
begin

text \<open>
  The state the approval engine's subjects live in: the tables of payroll, time off and expenses.
  The rows a pay run writes are modelled here: its items and payslips with their snapshots, JSON
  dictionaries in the source and typed records here (a decimal the source writes as a string is
  kept as the number).
\<close>

section \<open>Snapshots of a pay run\<close>

text \<open>
  A line's name is a format template with its arguments; the lines computed by the run have no cost
  centre, the lines of a claim name it in \<open>sl_source\<close>.
\<close>

record snapshot_line =
  sl_component_code :: string
  sl_component_name :: string
  sl_component_args :: "msg_arg list"
  sl_component_type :: payroll_component_type
  sl_monthly_amount :: rat
  sl_is_taxable :: bool
  sl_auto_calculated :: bool
  sl_template_amount :: "rat option"
  sl_cost_centre :: "uid option"
  sl_source :: "uid option"

record attendance_context =
  at_active_period_start :: date
  at_active_period_end :: date
  at_expected_paid_days :: rat
  at_attendance_paid_days :: rat
  at_leave_only_lop_days :: rat
  at_explicit_lwp_days :: rat
  at_policy_lwp_days :: rat
  at_attendance_based_lop_days :: rat
  at_effective_lop_days :: rat
  at_overtime_minutes :: int
  at_summary_used :: bool

record item_snapshot =
  sn_assignment :: uid
  sn_tax_regime :: tax_regime
  sn_tax_slab_set :: uid
  sn_lines :: "snapshot_line list"
  sn_arrears :: rat
  sn_expense_reimbursements :: rat
  sn_period_start :: date
  sn_period_end :: date
  sn_paid_days :: int
  sn_total_days_in_period :: int
  sn_pro_rate_factor :: rat
  sn_auto_pf :: rat
  sn_pf_employer :: rat
  sn_pf_eligible_basic :: rat
  sn_pf_employee_rate_percent :: rat
  sn_pf_opted_out :: bool
  sn_esi_employee :: rat
  sn_esi_employer :: rat
  sn_esi_eligibility_mode :: esi_eligibility_mode
  sn_esi_period :: "(date \<times> date) option"
  sn_pt_monthly :: rat
  sn_pt_state_code :: string
  sn_pt_taxable_basis :: rat
  sn_lwf_employee :: rat
  sn_lwf_employer :: rat
  sn_lwf_wage_basis :: rat
  sn_lop_days :: rat
  sn_lop_deduction :: rat
  sn_attendance :: attendance_context
  sn_annual_taxable_gross :: rat
  sn_annual_standard_deduction :: rat
  sn_annual_investment_deductions :: rat
  sn_annual_taxable_after_sd :: rat
  sn_tax :: tax_breakdown

text \<open>An item that is ready has the snapshot of its calculation; an exception has a message.\<close>

record payroll_run_item =
  ri_id :: uid
  ri_pay_run :: uid
  ri_employee :: uid
  ri_status :: payroll_run_item_status
  ri_gross_pay :: rat
  ri_employee_deductions :: rat
  ri_employer_contributions :: rat
  ri_eps_employer :: rat
  ri_epf_employer :: rat
  ri_income_tax :: rat
  ri_total_deductions :: rat
  ri_net_pay :: rat
  ri_snapshot :: "item_snapshot option"
  ri_message :: string
  ri_message_args :: "msg_arg list"

text \<open>The keys the payslip copies from the item's snapshot, and no others.\<close>

record payslip_snapshot =
  ps_gross_pay :: rat
  ps_employee_deductions :: rat
  ps_employer_contributions :: rat
  ps_income_tax :: rat
  ps_total_deductions :: rat
  ps_net_pay :: rat
  ps_arrears :: rat
  ps_lines :: "snapshot_line list"
  ps_paid_days :: int
  ps_total_days_in_period :: int
  ps_pro_rate_factor :: rat
  ps_lop_days :: rat
  ps_lop_deduction :: rat
  ps_annual_taxable_gross :: rat
  ps_annual_standard_deduction :: rat
  ps_annual_taxable_after_sd :: rat
  ps_annual_surcharge :: rat
  ps_annual_tax_before_cess :: rat
  ps_annual_cess :: rat
  ps_annual_tax_total :: rat

record payslip =
  py_id :: uid
  py_organisation :: uid
  py_employee :: uid
  py_pay_run :: uid
  py_pay_run_item :: uid
  py_slip_number :: string
  py_period_year :: int
  py_period_month :: int
  py_esi_period :: "(date \<times> date) option"
  py_esi_eligibility_mode :: esi_eligibility_mode
  py_snapshot :: payslip_snapshot

section \<open>The tables\<close>

record payroll_db =
  pd_masters :: statutory_masters
  pd_components :: "payroll_component list"
  pd_cost_centres :: "cost_centre list"
  pd_templates :: "compensation_template list"
  pd_assignments :: "compensation_assignment list"
  pd_investments :: "investment_declaration list"
  pd_arrears :: "arrears list"
  pd_runs :: "payroll_run list"
  pd_items :: "payroll_run_item list"
  pd_payslips :: "payslip list"
  pd_filings :: "statutory_filing_batch list"
  pd_settlements :: "full_and_final_settlement list"

record hr_db =
  hr_payroll :: payroll_db
  hr_timeoff :: timeoff_db
  hr_expenses :: expense_db

type_synonym hr_state = "hr_db approval_state"

abbreviation pay :: "hr_state \<Rightarrow> payroll_db" where
  "pay st \<equiv> hr_payroll (ap_subjects st)"

abbreviation timeoff :: "hr_state \<Rightarrow> timeoff_db" where
  "timeoff st \<equiv> hr_timeoff (ap_subjects st)"

abbreviation expenses :: "hr_state \<Rightarrow> expense_db" where
  "expenses st \<equiv> hr_expenses (ap_subjects st)"

definition update_pay :: "(payroll_db \<Rightarrow> payroll_db) \<Rightarrow> hr_state \<Rightarrow> hr_state" where
  "update_pay f st = st\<lparr>ap_subjects := (ap_subjects st)\<lparr>hr_payroll := f (pay st)\<rparr>\<rparr>"

definition update_timeoff :: "(timeoff_db \<Rightarrow> timeoff_db) \<Rightarrow> hr_state \<Rightarrow> hr_state" where
  "update_timeoff f st = st\<lparr>ap_subjects := (ap_subjects st)\<lparr>hr_timeoff := f (timeoff st)\<rparr>\<rparr>"

definition update_expenses :: "(expense_db \<Rightarrow> expense_db) \<Rightarrow> hr_state \<Rightarrow> hr_state" where
  "update_expenses f st = st\<lparr>ap_subjects := (ap_subjects st)\<lparr>hr_expenses := f (expenses st)\<rparr>\<rparr>"

definition draw_id :: "hr_state \<Rightarrow> hr_state" where
  "draw_id st = st\<lparr>ap_next_id := Suc (ap_next_id st)\<rparr>"

lemmas hr_updates = update_pay_def update_timeoff_def update_expenses_def draw_id_def

lemma hr_frames [frame_simps]:
  "pay (update_pay f st) = f (pay st)" "timeoff (update_pay f st) = timeoff st"
  "expenses (update_pay f st) = expenses st" "ap_org (update_pay f st) = ap_org st"
  "ap_next_id (update_pay f st) = ap_next_id st" "ap_runs (update_pay f st) = ap_runs st"
  "ap_actions (update_pay f st) = ap_actions st" "ap_workflows (update_pay f st) = ap_workflows st"
  "pay (update_expenses g st) = pay st" "timeoff (update_expenses g st) = timeoff st"
  "expenses (update_expenses g st) = g (expenses st)" "ap_org (update_expenses g st) = ap_org st"
  "ap_next_id (update_expenses g st) = ap_next_id st" "ap_runs (update_expenses g st) = ap_runs st"
  "ap_actions (update_expenses g st) = ap_actions st" "ap_workflows (update_expenses g st) = ap_workflows st"
  "pay (update_timeoff h st) = pay st" "timeoff (update_timeoff h st) = h (timeoff st)"
  "expenses (update_timeoff h st) = expenses st" "ap_org (update_timeoff h st) = ap_org st"
  "ap_next_id (update_timeoff h st) = ap_next_id st" "ap_runs (update_timeoff h st) = ap_runs st"
  "ap_actions (update_timeoff h st) = ap_actions st" "ap_workflows (update_timeoff h st) = ap_workflows st"
  by (simp_all add: hr_updates)

lemma draw_id_frames [frame_simps]:
  "ap_subjects (draw_id st) = ap_subjects st" "ap_org (draw_id st) = ap_org st"
  "ap_next_id (draw_id st) = Suc (ap_next_id st)" "ap_runs (draw_id st) = ap_runs st"
  "ap_actions (draw_id st) = ap_actions st" "ap_workflows (draw_id st) = ap_workflows st"
  by (simp_all add: draw_id_def)

lemma audit_hr_frames [frame_simps]:
  "ap_subjects (audit actor event target st) = ap_subjects st" "ap_org (audit actor event target st) = ap_org st"
  by (simp_all add: audit_def)

end
