(* ===== verification/PayrollRules.thy ===== *)
theory PayrollRules
  imports HrState
begin

text \<open>
  The lookups and rules of \<open>payroll/services.py\<close> a calculation draws on: the fiscal year of a
  period, the tax slab set and category of an employee, investment deductions, eligibility for
  state insurance, and professional tax and labour welfare fund by state. With the fiscal year
  helpers of \<open>payroll/filings/__init__.py\<close>.
\<close>

section \<open>Constants\<close>

definition FNF_LEAVE_ENCASHMENT_EXEMPTION_CEILING :: rat where
  "FNF_LEAVE_ENCASHMENT_EXEMPTION_CEILING = 2500000"

definition PF_OPT_OUT_NEW_JOINER_CUTOFF :: date where
  "PF_OPT_OUT_NEW_JOINER_CUTOFF = Date 2014 9 1"

definition PAYROLL_STATE_CODE_ALIASES :: "string \<Rightarrow> string option" where
  "PAYROLL_STATE_CODE_ALIASES =
     map_of [(''OR'', ''OD''), (''OD'', ''OD''), (''CG'', ''CT''), (''CT'', ''CT''), (''TS'', ''TG''), (''TG'', ''TG'')]"

fun tax_regime_value :: "tax_regime \<Rightarrow> string" where
  "tax_regime_value NEW = ''NEW''"
| "tax_regime_value OLD = ''OLD''"

definition canonicalize_payroll_state_code :: "string \<Rightarrow> string" where
  "canonicalize_payroll_state_code state_code =
     (let normalized = py_upper (py_strip state_code)
      in if normalized = [] then [] else or_else (PAYROLL_STATE_CODE_ALIASES normalized) normalized)"

definition validate_pf_opt_out_eligibility :: "employee \<Rightarrow> bool \<Rightarrow> bool \<Rightarrow> unit res" where
  "validate_pf_opt_out_eligibility e is_pf_opted_out is_epf_exempt =
     (if \<not> is_pf_opted_out \<or> is_epf_exempt then Inr ()
      else guard_res (case em_date_of_joining e of None \<Rightarrow> True | Some d \<Rightarrow> d < PF_OPT_OUT_NEW_JOINER_CUTOFF)
        (ValueError ''PF opt-out is only allowed for post-September 2014 joiners or employees explicitly marked as EPF-exempt.'' []))"

section \<open>Fiscal years\<close>

text \<open>\<open>str(year)\<close>; years are positive.\<close>

definition fiscal_label :: "int \<Rightarrow> string" where
  "fiscal_label y = str_of_nat (nat y) @ ''-'' @ str_of_nat (nat (y + 1))"

definition fiscal_year_for_period :: "int \<Rightarrow> int \<Rightarrow> string" where
  "fiscal_year_for_period period_year period_month =
     (if period_month \<ge> 4 then normalize_fiscal_year_label (fiscal_label period_year)
      else normalize_fiscal_year_label (fiscal_label (period_year - 1)))"

definition current_fiscal_year :: "date \<Rightarrow> string" where
  "current_fiscal_year today =
     (if mo today \<ge> 4 then normalize_fiscal_year_label (fiscal_label (yr today))
      else normalize_fiscal_year_label (fiscal_label (yr today - 1)))"

definition fiscal_year_query :: "string \<Rightarrow> string \<Rightarrow> bool" where
  "fiscal_year_query fiscal_year stored =
     (let aliases = fiscal_year_label_aliases fiscal_year
      in if aliases \<noteq> [] then stored \<in> set aliases
         else stored = normalize_fiscal_year_label fiscal_year)"

definition months_remaining_in_fiscal_year :: "int \<Rightarrow> int res" where
  "months_remaining_in_fiscal_year period_month =
     (if period_month < 1 \<or> period_month > 12 then raise_value ''period_month must be between 1 and 12.''
      else if period_month \<le> 3 then Inr (4 - period_month)
      else Inr (16 - period_month))"

text \<open>
  \<open>int(part)\<close> of a label's parts, digits only; the text around the first hyphen. A label without a
  hyphen or with other characters raises.
\<close>

definition parse_year :: "string \<Rightarrow> int res" where
  "parse_year s = (if s \<noteq> [] \<and> list_all is_digit s then Inr (int (nat_of_digits s))
     else raise_value ''invalid literal for int() with base 10'')"

definition label_years :: "string \<Rightarrow> (int \<times> int) res" where
  "label_years fiscal_year =
     (let a = takeWhile (\<lambda>c. c \<noteq> CHR ''-'') fiscal_year; rest = dropWhile (\<lambda>c. c \<noteq> CHR ''-'') fiscal_year
      in if rest = [] then raise_value ''not enough values to unpack''
         else bind_res (parse_year a) (\<lambda>s. bind_res (parse_year (tl rest)) (\<lambda>e. Inr (s, e))))"

definition fiscal_year_bounds :: "string \<Rightarrow> (date \<times> date) res" where
  "fiscal_year_bounds fiscal_year =
     bind_res (label_years fiscal_year) (\<lambda>(s, e).
       bind_res (mk_date s 4 1) (\<lambda>a. bind_res (mk_date e 3 31) (\<lambda>b. Inr (a, b))))"

fun months_of_quarter :: "int \<Rightarrow> int \<Rightarrow> tds_quarter \<Rightarrow> (int \<times> int) list" where
  "months_of_quarter s e Q1 = [(s, 4), (s, 5), (s, 6)]"
| "months_of_quarter s e Q2 = [(s, 7), (s, 8), (s, 9)]"
| "months_of_quarter s e Q3 = [(s, 10), (s, 11), (s, 12)]"
| "months_of_quarter s e Q4 = [(e, 1), (e, 2), (e, 3)]"

definition quarter_months :: "string \<Rightarrow> tds_quarter \<Rightarrow> (int \<times> int) list res" where
  "quarter_months fiscal_year quarter =
     bind_res (label_years fiscal_year) (\<lambda>(s, e). Inr (months_of_quarter s e quarter))"

section \<open>Income tax lookups\<close>

text \<open>
  The default order of slab sets: organisation, fiscal year, regime, category; the filters fix all
  but the fiscal year's spelling.
\<close>

definition regime_slab_sets :: "payroll_tax_slab_set list \<Rightarrow> string \<Rightarrow> tax_regime \<Rightarrow> payroll_tax_slab_set list" where
  "regime_slab_sets table fiscal_year regime =
     sort_key ts_fiscal_year (filter (\<lambda>s. ts_country_code s = ''IN'' \<and> ts_is_active s \<and>
       ts_is_old_regime s = (regime = OLD) \<and>
       fiscal_year_query (normalize_fiscal_year_label fiscal_year) (ts_fiscal_year s)) table)"

fun tax_category_rank :: "tax_category \<Rightarrow> nat" where
  "tax_category_rank INDIVIDUAL = 0"
| "tax_category_rank SENIOR_CITIZEN = 1"
| "tax_category_rank SUPER_SENIOR_CITIZEN = 2"

definition is_ct_master :: "payroll_tax_slab_set \<Rightarrow> bool" where
  "is_ct_master s = (ts_organisation s = None \<and> ts_is_system_master s)"

definition get_active_tax_slab_set ::
  "payroll_tax_slab_set list \<Rightarrow> string \<Rightarrow> uid option \<Rightarrow> tax_regime \<Rightarrow> tax_category \<Rightarrow> payroll_tax_slab_set option" where
  "get_active_tax_slab_set table fiscal_year organisation regime category =
     (let sets = regime_slab_sets table fiscal_year regime
      in case first_row (\<lambda>s. is_ct_master s \<and> ts_tax_category s = category) sets of
           Some s \<Rightarrow> Some s
         | None \<Rightarrow>
             (case (if organisation = None then None
                    else first_row (\<lambda>s. ts_organisation s = organisation \<and> ts_tax_category s = category) sets) of
                Some s \<Rightarrow> Some s
              | None \<Rightarrow>
                  first_row is_ct_master (sort_key (\<lambda>s. tax_category_rank (ts_tax_category s)) sets)))"

definition tax_category_for_fiscal_year :: "employee \<Rightarrow> string \<Rightarrow> tax_category" where
  "tax_category_for_fiscal_year e fiscal_year =
     (case parse_year (takeWhile (\<lambda>c. c \<noteq> CHR ''-'') fiscal_year) of
        Inl _ \<Rightarrow> INDIVIDUAL
      | Inr start_year \<Rightarrow>
          (case em_date_of_birth e of
             None \<Rightarrow> INDIVIDUAL
           | Some dob \<Rightarrow>
               let age_at_fy_start = days_between dob (Date start_year 4 1) div 365
               in if age_at_fy_start \<ge> 80 then SUPER_SENIOR_CITIZEN
                  else if age_at_fy_start \<ge> 60 then SENIOR_CITIZEN
                  else INDIVIDUAL))"

definition section_total ::
  "investment_declaration list \<Rightarrow> uid \<Rightarrow> string \<Rightarrow> investment_section \<Rightarrow> rat" where
  "section_total table employee fiscal_year sec =
     sum_list (map id_declared_amount (filter (\<lambda>d. id_employee d = employee \<and>
       fiscal_year_query fiscal_year (id_fiscal_year d) \<and> id_section d = sec) table))"

definition get_total_80c_deduction :: "investment_declaration list \<Rightarrow> uid \<Rightarrow> string \<Rightarrow> rat" where
  "get_total_80c_deduction table employee fiscal_year =
     quantize2 (min (quantize2 (section_total table employee fiscal_year SECTION_80C))
       (or_else (map_of section_limits SECTION_80C) 0))"

definition investment_deductions :: "investment_declaration list \<Rightarrow> uid \<Rightarrow> string \<Rightarrow> rat" where
  "investment_deductions table employee fiscal_year =
     sum_list (map (\<lambda>(sec, cap). min (quantize2 (section_total table employee fiscal_year sec)) cap) section_limits)"

definition calculate_taxable_income_with_investments ::
  "investment_declaration list \<Rightarrow> uid \<Rightarrow> rat \<Rightarrow> string \<Rightarrow> tax_regime \<Rightarrow> rat" where
  "calculate_taxable_income_with_investments table employee annual_gross fiscal_year regime =
     (let after = calculate_taxable_income_after_standard_deduction annual_gross
      in if regime \<noteq> OLD then after
         else quantize2 (max 0 (after - investment_deductions table employee fiscal_year)))"

section \<open>State insurance\<close>

record esi_eligibility =
  el_mode :: esi_eligibility_mode
  el_force_eligible :: bool
  el_period :: "(date \<times> date) option"

definition resolve_esi_eligibility :: "payslip list \<Rightarrow> uid \<Rightarrow> rat \<Rightarrow> int \<Rightarrow> int \<Rightarrow> esi_eligibility" where
  "resolve_esi_eligibility payslips employee gross_pay period_year period_month =
     (let period = get_esi_contribution_period_bounds period_year period_month
      in if quantize2 gross_pay \<le> ESI_WAGE_CEILING
         then \<lparr>el_mode = ESI_DIRECT, el_force_eligible = False, el_period = Some period\<rparr>
         else if list_ex (\<lambda>p. py_employee p = employee \<and> py_esi_period p = Some period \<and>
                              py_esi_eligibility_mode p \<noteq> ESI_NONE) payslips
         then \<lparr>el_mode = ESI_CONTINUED, el_force_eligible = True, el_period = Some period\<rparr>
         else \<lparr>el_mode = ESI_NONE, el_force_eligible = False, el_period = None\<rparr>)"

section \<open>Professional tax and labour welfare fund\<close>

definition no_payroll_state :: py_error where
  "no_payroll_state = ValueError
     ''No active registered or billing organisation address with a state code is configured for payroll.'' []"

definition state_code_of :: "organisation \<Rightarrow> organisation_address_type \<Rightarrow> string" where
  "state_code_of org type =
     (case first_row (\<lambda>a. ad_is_active a \<and> ad_address_type a = type) (og_addresses org) of
        None \<Rightarrow> [] | Some a \<Rightarrow> ad_state_code a)"

definition resolve_organisation_payroll_state_code :: "organisation \<Rightarrow> string res" where
  "resolve_organisation_payroll_state_code org =
     (if state_code_of org REGISTERED \<noteq> [] then Inr (state_code_of org REGISTERED)
      else if state_code_of org BILLING \<noteq> [] then Inr (state_code_of org BILLING)
      else Inl no_payroll_state)"

text \<open>\<open>order_by('-effective_from', '-created_at')\<close>: the stable sort, reversed.\<close>

definition active_pt_rules :: "professional_tax_rule list \<Rightarrow> date \<Rightarrow> professional_tax_rule list" where
  "active_pt_rules table as_of =
     rev (sort_key ptr_effective_from (filter (\<lambda>r. ptr_country_code r = ''IN'' \<and> ptr_is_active r \<and>
       ptr_effective_from r \<le> as_of \<and>
       (case ptr_effective_to r of None \<Rightarrow> True | Some d \<Rightarrow> as_of \<le> d)) table))"

definition get_active_professional_tax_rule ::
  "professional_tax_rule list \<Rightarrow> string \<Rightarrow> date \<Rightarrow> professional_tax_rule option" where
  "get_active_professional_tax_rule table state_code as_of =
     first_row (\<lambda>r. ptr_state_code r = canonicalize_payroll_state_code state_code) (active_pt_rules table as_of)"

definition canonical_codes :: "string list \<Rightarrow> string list" where
  "canonical_codes codes = filter (\<lambda>c. c \<noteq> []) (map canonicalize_payroll_state_code codes)"

text \<open>
  One query for all states of a run; the first rule met fills a state's slot. The rows come by state
  first, which does not change what a slot gets.
\<close>

definition prefetch_professional_tax_rules ::
  "professional_tax_rule list \<Rightarrow> string list \<Rightarrow> date \<Rightarrow> string \<Rightarrow> professional_tax_rule option" where
  "prefetch_professional_tax_rules table codes as_of =
     fold (\<lambda>r cache. if cache (ptr_state_code r) = None then cache(ptr_state_code r \<mapsto> r) else cache)
       (filter (\<lambda>r. ptr_state_code r \<in> set (canonical_codes codes)) (active_pt_rules table as_of)) Map.empty"

definition basis_amount :: "statutory_income_basis \<Rightarrow> rat \<Rightarrow> rat" where
  "basis_amount basis gross =
     (case basis of IB_HALF_YEARLY \<Rightarrow> quantize2 (dmul gross 6) | IB_ANNUAL \<Rightarrow> quantize2 (dmul gross 12)
      | IB_MONTHLY \<Rightarrow> gross)"

definition pt_gender_priority :: "gender_choice option \<Rightarrow> professional_tax_gender list" where
  "pt_gender_priority g =
     (case g of Some FEMALE \<Rightarrow> [G_FEMALE, G_ANY, G_MALE] | Some MALE \<Rightarrow> [G_MALE, G_ANY]
      | _ \<Rightarrow> [G_ANY, G_MALE, G_FEMALE])"

definition pt_slab_covers :: "rat \<Rightarrow> professional_tax_slab \<Rightarrow> bool" where
  "pt_slab_covers basis s =
     (\<not> basis < pt_min_income s \<and> (case pt_max_income s of None \<Rightarrow> True | Some m \<Rightarrow> \<not> basis > m))"

definition pt_slabs_in_order :: "professional_tax_rule \<Rightarrow> int \<Rightarrow> gender_choice option \<Rightarrow> professional_tax_slab list" where
  "pt_slabs_in_order rule period_month gender =
     (let applicable = filter (\<lambda>s. pt_applicable_months s = [] \<or> period_month \<in> set (pt_applicable_months s))
                         (sort_key pt_min_income (ptr_slabs rule))
      in concat (map (\<lambda>g. filter (\<lambda>s. pt_gender s = g) applicable) (pt_gender_priority gender)))"

definition resolve_professional_tax_amount ::
  "employee \<Rightarrow> string \<Rightarrow> rat \<Rightarrow> int \<Rightarrow> (string \<Rightarrow> professional_tax_rule option)
     \<Rightarrow> (rat \<times> professional_tax_rule \<times> rat) res" where
  "resolve_professional_tax_amount e state_code gross_pay period_month rule_cache =
     (case rule_cache (canonicalize_payroll_state_code state_code) of
        None \<Rightarrow> Inl (ValueError ''No active professional tax rule is configured for state {}.'' [AStr state_code])
      | Some rule \<Rightarrow>
          let taxable_basis = basis_amount (ptr_income_basis rule) (quantize2 gross_pay)
          in (case first_row (pt_slab_covers taxable_basis) (pt_slabs_in_order rule period_month (em_gender e)) of
                Some s \<Rightarrow> Inr (quantize2 (pt_deduction_amount s), rule, taxable_basis)
              | None \<Rightarrow> Inr (0, rule, taxable_basis)))"

definition active_lwf_rules :: "labour_welfare_fund_rule list \<Rightarrow> date \<Rightarrow> labour_welfare_fund_rule list" where
  "active_lwf_rules table as_of =
     rev (sort_key lwr_effective_from (filter (\<lambda>r. lwr_country_code r = ''IN'' \<and> lwr_is_active r \<and>
       lwr_effective_from r \<le> as_of \<and>
       (case lwr_effective_to r of None \<Rightarrow> True | Some d \<Rightarrow> as_of \<le> d)) table))"

definition get_active_labour_welfare_fund_rule ::
  "labour_welfare_fund_rule list \<Rightarrow> string \<Rightarrow> date \<Rightarrow> labour_welfare_fund_rule option" where
  "get_active_labour_welfare_fund_rule table state_code as_of =
     first_row (\<lambda>r. lwr_state_code r = canonicalize_payroll_state_code state_code) (active_lwf_rules table as_of)"

definition prefetch_labour_welfare_fund_rules ::
  "labour_welfare_fund_rule list \<Rightarrow> string list \<Rightarrow> date \<Rightarrow> string \<Rightarrow> labour_welfare_fund_rule option" where
  "prefetch_labour_welfare_fund_rules table codes as_of =
     fold (\<lambda>r cache. if cache (lwr_state_code r) = None then cache(lwr_state_code r \<mapsto> r) else cache)
       (filter (\<lambda>r. lwr_state_code r \<in> set (canonical_codes codes)) (active_lwf_rules table as_of)) Map.empty"

text \<open>Contributions come by minimum wage, a missing one last.\<close>

definition resolve_labour_welfare_fund_amount ::
  "string \<Rightarrow> rat \<Rightarrow> int \<Rightarrow> (string \<Rightarrow> labour_welfare_fund_rule option)
     \<Rightarrow> lwf_result \<times> labour_welfare_fund_rule option \<times> rat" where
  "resolve_labour_welfare_fund_amount state_code gross_pay period_month rule_cache =
     (let code = canonicalize_payroll_state_code state_code; gross = quantize2 gross_pay
      in case rule_cache code of
           None \<Rightarrow> (calculate_labour_welfare_fund code period_month gross [], None, gross)
         | Some rule \<Rightarrow>
             let wage_basis = basis_amount (lwr_wage_basis rule) gross
             in (calculate_labour_welfare_fund code period_month wage_basis
                   (sort_key (\<lambda>c. (lwf_min_wage c = None, or_else (lwf_min_wage c) 0)) (lwr_contributions rule)),
                 Some rule, wage_basis))"

section \<open>Lemmas\<close>

lemma prefetch_fold:
  "fold (\<lambda>r cache. if cache (k r) = None then cache(k r \<mapsto> r) else cache) rs cache c =
     (case cache c of Some r \<Rightarrow> Some r | None \<Rightarrow> first_row (\<lambda>r. k r = c) rs)"
  by (induction rs arbitrary: cache) (auto split: option.splits)

lemma first_row_filter: "(\<And>x. P x \<Longrightarrow> Q x) \<Longrightarrow> first_row P (filter Q xs) = first_row P xs"
  by (induction xs) auto

lemma prefetch_pt_lookup:
  assumes "c \<in> set (canonical_codes codes)"
  shows "prefetch_professional_tax_rules table codes as_of c =
    first_row (\<lambda>r. ptr_state_code r = c) (active_pt_rules table as_of)"
  using assms unfolding prefetch_professional_tax_rules_def prefetch_fold by (simp, subst first_row_filter) auto

lemma prefetch_lwf_lookup:
  assumes "c \<in> set (canonical_codes codes)"
  shows "prefetch_labour_welfare_fund_rules table codes as_of c =
    first_row (\<lambda>r. lwr_state_code r = c) (active_lwf_rules table as_of)"
  using assms unfolding prefetch_labour_welfare_fund_rules_def prefetch_fold by (simp, subst first_row_filter) auto

lemma months_remaining_bounds:
  "months_remaining_in_fiscal_year m = Inr n \<Longrightarrow> 1 \<le> n \<and> n \<le> 12"
  by (auto simp: months_remaining_in_fiscal_year_def split: if_splits)

lemma taxable_with_investments_bounds:
  "0 \<le> calculate_taxable_income_with_investments table e g fy r"
  "money (calculate_taxable_income_with_investments table e g fy r)"
  by (auto simp: calculate_taxable_income_with_investments_def Let_def
      calculate_taxable_income_after_standard_deduction_def intro!: quant.rnd_nonneg)

lemma fiscal_label_long: "fiscal_label (int y) = long_label y"
  by (simp add: fiscal_label_def long_label_def nat_add_distrib)

lemma fiscal_year_label_of_period:
  assumes "1001 \<le> y" "y \<le> 9998"
  shows "fiscal_year_for_period y m = long_label (nat (if 4 \<le> m then y else y - 1))"
  using assms fiscal_label_long [of "nat y"] fiscal_label_long [of "nat (y - 1)"]
  by (simp add: fiscal_year_for_period_def normalize_labels)

lemma digits_no_hyphen:
  assumes "list_all is_digit s"
  shows "takeWhile (\<lambda>c. c \<noteq> CHR ''-'') (s @ CHR ''-'' # t) = s"
    "dropWhile (\<lambda>c. c \<noteq> CHR ''-'') (s @ CHR ''-'' # t) = CHR ''-'' # t"
proof -
  have "c \<noteq> CHR ''-''" if "c \<in> set s" for c
    using assms that by (auto simp: list_all_iff is_digit_def)
  then show "takeWhile (\<lambda>c. c \<noteq> CHR ''-'') (s @ CHR ''-'' # t) = s"
    "dropWhile (\<lambda>c. c \<noteq> CHR ''-'') (s @ CHR ''-'' # t) = CHR ''-'' # t"
    by (simp_all add: takeWhile_append2 dropWhile_append2)
qed

lemma parse_year_str:
  assumes "1000 \<le> y" "y \<le> 9999"
  shows "parse_year (str_of_nat y) = Inr (int y)" "list_all is_digit (str_of_nat y)"
proof -
  show "list_all is_digit (str_of_nat y)" using assms by (simp add: str_of_nat_4)
  then show "parse_year (str_of_nat y) = Inr (int y)"
    using assms nat_of_str_of_nat [OF assms] by (simp add: parse_year_def) (simp add: str_of_nat_4)
qed

lemma label_years_long:
  assumes "1000 \<le> y" "y \<le> 9998"
  shows "label_years (long_label y) = Inr (int y, int (Suc y))"
  using parse_year_str [of y] parse_year_str [of "Suc y"] digits_no_hyphen [of "str_of_nat y" "str_of_nat (Suc y)"] assms
  by (simp add: label_years_def long_label_def Let_def)

text \<open>The fiscal year of a period starts in April of its year or of the one before.\<close>

lemma fiscal_years_of_period:
  assumes "1001 \<le> y" "y \<le> 9998"
  shows "label_years (fiscal_year_for_period y m) = Inr (if 4 \<le> m then y else y - 1, (if 4 \<le> m then y else y - 1) + 1)"
    "fiscal_year_bounds (fiscal_year_for_period y m) =
       Inr (Date (if 4 \<le> m then y else y - 1) 4 1, Date ((if 4 \<le> m then y else y - 1) + 1) 3 31)"
proof -
  show l: "label_years (fiscal_year_for_period y m) = Inr (if 4 \<le> m then y else y - 1, (if 4 \<le> m then y else y - 1) + 1)"
    using assms label_years_long [of "nat y"] label_years_long [of "nat (y - 1)"]
    by (cases "4 \<le> m") (simp_all add: fiscal_year_label_of_period)
  show "fiscal_year_bounds (fiscal_year_for_period y m) =
      Inr (Date (if 4 \<le> m then y else y - 1) 4 1, Date ((if 4 \<le> m then y else y - 1) + 1) 3 31)"
    using assms by (simp add: fiscal_year_bounds_def l mk_date_def valid_date_def days_in_month_def)
qed

section \<open>Properties\<close>

text \<open>
  Periods, fiscal years and quarters agree: the fiscal year label of a pay period parses back
  to bounds that contain the period, and the period is among the months of the quarter its month
  falls in.
\<close>

theorem period_quarter_roundtrip:
  assumes "1001 \<le> y" "y \<le> 9998" "1 \<le> m" "m \<le> 12"
  shows "\<exists>a b ms. fiscal_year_bounds (fiscal_year_for_period y m) = Inr (a, b) \<and>
    a \<le> Date y m 1 \<and> Date y m 1 \<le> b \<and> days_between a b + 1 = year_days (yr b) \<and>
    quarter_months (fiscal_year_for_period y m) (tds_quarter_for_month m) = Inr ms \<and> (y, m) \<in> set ms"
proof -
  let ?s = "if 4 \<le> m then y else y - 1"
  note l = fiscal_years_of_period(1) [OF assms(1,2)] and b = fiscal_years_of_period(2) [OF assms(1,2)]
  have "days_between (Date ?s 4 1) (Date (?s + 1) 3 31) + 1 = year_days (?s + 1)"
    using days_before_year_Suc [of ?s]
    by (simp add: days_between_def toordinal_def days_before_month_def year_days_def)
  moreover have "(y, m) \<in> set (months_of_quarter ?s (?s + 1) (tds_quarter_for_month m))"
    using month_cases [OF assms(3,4)] by (elim disjE) (simp_all add: tds_quarter_for_month_def)
  then have "\<exists>ms. quarter_months (fiscal_year_for_period y m) (tds_quarter_for_month m) = Inr ms \<and> (y, m) \<in> set ms"
    by (simp add: quarter_months_def l)
  ultimately show ?thesis using b assms by auto
qed

theorem period_quarter_roundtrip_witness:
  "fiscal_year_for_period 2025 2 = ''2024-2025'' \<and>
   (\<exists>ms. quarter_months (fiscal_year_for_period 2025 2) (tds_quarter_for_month 2) = Inr ms \<and> (2025, 2) \<in> set ms)"
proof
  show "fiscal_year_for_period 2025 2 = ''2024-2025''" by code_simp
  show "\<exists>ms. quarter_months (fiscal_year_for_period 2025 2) (tds_quarter_for_month 2) = Inr ms \<and> (2025, 2) \<in> set ms"
    using period_quarter_roundtrip [of 2025 2] by auto
qed

text \<open>
  The cache of a pay run is faithful: for a state among the run's, the rule taken from the
  prefetched dictionary is the rule the direct lookup finds.
\<close>

theorem prefetched_rules_are_looked_up:
  assumes "canonicalize_payroll_state_code code \<in> set (canonical_codes codes)"
  shows "prefetch_professional_tax_rules pt codes as_of (canonicalize_payroll_state_code code) =
      get_active_professional_tax_rule pt code as_of \<and>
    prefetch_labour_welfare_fund_rules lwf codes as_of (canonicalize_payroll_state_code code) =
      get_active_labour_welfare_fund_rule lwf code as_of"
  using prefetch_pt_lookup [OF assms] prefetch_lwf_lookup [OF assms]
  by (simp add: get_active_professional_tax_rule_def get_active_labour_welfare_fund_rule_def)

theorem prefetched_rules_are_looked_up_witness:
  "prefetch_professional_tax_rules PROFESSIONAL_TAX_RULES [''MH'', ''or''] (Date 2025 6 1) ''OD'' =
     get_active_professional_tax_rule PROFESSIONAL_TAX_RULES ''or'' (Date 2025 6 1) \<and>
   prefetch_professional_tax_rules PROFESSIONAL_TAX_RULES [''MH'', ''or''] (Date 2025 6 1) ''OD'' \<noteq> None"
proof -
  have c: "canonicalize_payroll_state_code ''or'' = ''OD''"
    "canonicalize_payroll_state_code ''or'' \<in> set (canonical_codes [''MH'', ''or''])" by code_simp+
  have "prefetch_professional_tax_rules PROFESSIONAL_TAX_RULES [''MH'', ''or''] (Date 2025 6 1) ''OD'' \<noteq> None"
    by code_simp
  with prefetched_rules_are_looked_up [OF c(2), of PROFESSIONAL_TAX_RULES "Date 2025 6 1"] c(1) show ?thesis by simp
qed

end
