(* ===== verification/ExpenseClaims.thy ===== *)
theory ExpenseClaims
  imports HrState
begin

text \<open>
  Expense claims (\<open>expenses/services.py\<close>): filing, editing, submitting and cancelling a claim, and what
  a pay run does with the approved ones. Each function is one transaction on the state; files of
  receipts are counted, their upload to the object store is not modelled.
\<close>

section \<open>Filing a claim\<close>

record claim_line_payload =
  xp_line_category :: "uid option"
  xp_line_category_name :: string
  xp_line_expense_date :: date
  xp_line_merchant :: string
  xp_line_description :: string
  xp_line_amount :: rat
  xp_line_currency :: "string option"

definition normalize_amount :: "rat \<Rightarrow> rat" where
  "normalize_amount value = quantize2 value"

definition find_policy :: "expense_db \<Rightarrow> uid \<Rightarrow> expense_policy option" where
  "find_policy db i = first_row (\<lambda>p. xp_id p = i) (xd_policies db)"

definition resolve_category ::
  "expense_db \<Rightarrow> uid \<Rightarrow> uid \<Rightarrow> expense_policy option \<Rightarrow> expense_category res" where
  "resolve_category db org category_id policy =
     (case first_row (\<lambda>c. xc_id c = category_id \<and> xc_is_active c \<and>
         (case find_policy db (xc_policy c) of None \<Rightarrow> False | Some p \<Rightarrow> xp_organisation p = org) \<and>
         (case policy of None \<Rightarrow> True | Some p \<Rightarrow> xc_policy c = xp_id p)) (xd_categories db) of
        None \<Rightarrow> Inl (DoesNotExist ''ExpenseCategory'')
      | Some c \<Rightarrow> Inr c)"

text \<open>A category's policy exists: the foreign key cascades.\<close>

definition validate_line_against_policy ::
  "expense_db \<Rightarrow> string \<Rightarrow> expense_category option \<Rightarrow> rat \<Rightarrow> unit res" where
  "validate_line_against_policy db claim_currency category amount =
     (case category of
        None \<Rightarrow> Inr ()
      | Some c \<Rightarrow>
          if (case find_policy db (xc_policy c) of None \<Rightarrow> False
              | Some p \<Rightarrow> xp_currency p \<noteq> [] \<and> xp_currency p \<noteq> claim_currency)
          then raise_value ''Expense line currency must match the selected policy currency.''
          else guard_res (case xc_per_claim_limit c of None \<Rightarrow> False | Some l \<Rightarrow> amount > l)
                 (ValueError ''Expense line exceeds the per-claim limit for {}.'' [AStr (xc_name c)]))"

definition claim_line_of ::
  "expense_db \<Rightarrow> uid \<Rightarrow> expense_policy option \<Rightarrow> string \<Rightarrow> claim_line_payload \<Rightarrow> expense_claim_line res" where
  "claim_line_of db org policy currency payload =
     bind_res (case xp_line_category payload of
                 None \<Rightarrow> Inr None
               | Some i \<Rightarrow> bind_res (resolve_category db org i policy) (\<lambda>c. Inr (Some c)))
       (\<lambda>category.
     let amount = normalize_amount (xp_line_amount payload)
     in bind_res (guard_res (amount \<le> 0) (ValueError ''Expense line amount must be greater than zero.'' []))
          (\<lambda>_. bind_res (validate_line_against_policy db currency category amount)
          (\<lambda>_. Inr
            \<lparr>xl_category = map_option xc_id category,
             xl_category_name =
               (if xp_line_category_name payload \<noteq> [] then xp_line_category_name payload
                else case category of None \<Rightarrow> ''Uncategorised'' | Some c \<Rightarrow> xc_name c),
             xl_expense_date = xp_line_expense_date payload, xl_merchant = xp_line_merchant payload,
             xl_description = xp_line_description payload, xl_amount = amount,
             xl_currency = or_else (xp_line_currency payload) currency, xl_receipts = 0\<rparr>)))"

text \<open>The checks on lines and policy that filing and editing share.\<close>

definition check_claim_input ::
  "uid \<Rightarrow> claim_line_payload list \<Rightarrow> expense_policy option \<Rightarrow> string \<Rightarrow> unit res" where
  "check_claim_input org lines policy currency =
     (if lines = [] then raise_value ''At least one expense line is required.''
      else if (case policy of None \<Rightarrow> False | Some p \<Rightarrow> xp_organisation p \<noteq> org)
      then raise_value ''Policy does not belong to this organisation.''
      else guard_res (case policy of None \<Rightarrow> False | Some p \<Rightarrow> xp_currency p \<noteq> currency)
             (ValueError ''Claim currency must match the selected policy currency.'' []))"

definition create_expense_claim ::
  "employee \<Rightarrow> string \<Rightarrow> date \<Rightarrow> claim_line_payload list \<Rightarrow> uid option \<Rightarrow> expense_policy option \<Rightarrow> string
     \<Rightarrow> hr_state \<Rightarrow> (hr_state \<times> expense_claim) res" where
  "create_expense_claim e title claim_date lines actor policy currency st =
     bind_res (check_claim_input (em_organisation e) lines policy currency) (\<lambda>_.
     bind_res (map_res (claim_line_of (expenses st) (em_organisation e) policy currency) lines) (\<lambda>rows.
       let claim = \<lparr>xm_id = ap_next_id st, xm_organisation = em_organisation e, xm_employee = em_id e,
             xm_policy = map_option xp_id policy, xm_title = title, xm_claim_date = claim_date,
             xm_currency = currency, xm_status = EC_DRAFT, xm_reimbursement_status = RB_NOT_READY,
             xm_approval_run = None, xm_reimbursement_pay_run = None, xm_reimbursement_pay_run_item = None,
             xm_submitted_at = None, xm_approved_at = None, xm_rejected_at = None, xm_reimbursed_at = None,
             xm_rejection_reason = [], xm_lines = rows\<rparr>
       in Inr (audit actor ''expense.claim.created'' (xm_id claim)
                 (update_expenses (\<lambda>x. x\<lparr>xd_claims := xd_claims x @ [claim]\<rparr>) (draw_id st)), claim)))"

definition update_claim :: "uid \<Rightarrow> (expense_claim \<Rightarrow> expense_claim) \<Rightarrow> hr_state \<Rightarrow> hr_state" where
  "update_claim i f = update_expenses (\<lambda>x. x\<lparr>xd_claims := update_where (\<lambda>c. xm_id c = i) f (xd_claims x)\<rparr>)"

definition update_expense_claim ::
  "expense_claim \<Rightarrow> uid \<Rightarrow> string \<Rightarrow> date \<Rightarrow> claim_line_payload list \<Rightarrow> uid option \<Rightarrow> expense_policy option
     \<Rightarrow> string \<Rightarrow> hr_state \<Rightarrow> hr_state res" where
  "update_expense_claim claim requester title claim_date lines actor policy currency st =
     (if xm_employee claim \<noteq> requester then raise_value ''Only the claim owner can edit this expense claim.''
      else if xm_status claim \<notin> {EC_DRAFT, EC_REJECTED}
      then raise_value ''Only draft or rejected expense claims can be edited.''
      else bind_res (check_claim_input (xm_organisation claim) lines policy currency) (\<lambda>_.
           bind_res (map_res (claim_line_of (expenses st) (xm_organisation claim) policy currency) lines) (\<lambda>rows.
             Inr (audit actor ''expense.claim.updated'' (xm_id claim)
               (update_claim (xm_id claim)
                  (\<lambda>c. c\<lparr>xm_title := title, xm_claim_date := claim_date, xm_policy := map_option xp_id policy,
                         xm_currency := currency, xm_rejection_reason := [], xm_lines := rows\<rparr>) st)))))"

section \<open>Submitting a claim\<close>

definition line_lacks_receipt :: "expense_db \<Rightarrow> expense_claim_line \<Rightarrow> bool" where
  "line_lacks_receipt db l =
     ((case Option.bind (xl_category l) (\<lambda>i. first_row (\<lambda>c. xc_id c = i) (xd_categories db)) of
         None \<Rightarrow> False | Some c \<Rightarrow> xc_requires_receipt c) \<and> xl_receipts l = 0)"

definition claim_ref :: "uid \<Rightarrow> subject_ref" where
  "claim_ref i = (''ExpenseClaim'', i)"

definition submit_expense_claim ::
  "clock \<Rightarrow> expense_claim \<Rightarrow> employee \<Rightarrow> uid option \<Rightarrow> hr_state \<Rightarrow> hr_state res" where
  "submit_expense_claim ck claim requester actor st =
     (if xm_employee claim \<noteq> em_id requester
      then raise_value ''Only the claim owner can submit this expense claim.''
      else if xm_status claim \<notin> {EC_DRAFT, EC_REJECTED}
      then raise_value ''Only draft or rejected expense claims can be submitted.''
      else if xm_lines claim = [] then raise_value ''At least one expense line is required.''
      else (case first_row (line_lacks_receipt (expenses st)) (xm_lines claim) of
          Some l \<Rightarrow> Inl (ValueError ''Receipt is required for {}.'' [AStr (xl_category_name l)])
        | None \<Rightarrow>
            bind_res (create_approval_run ck (claim_ref (xm_id claim)) RK_EXPENSE_CLAIM requester actor None
                        (xm_title claim) (Some (total_amount claim)) empty_context st)
              (\<lambda>(d, run). Inr (audit (Some (or_else actor (em_user requester))) ''expense.claim.submitted'' (xm_id claim)
                 (update_claim (xm_id claim)
                    (\<lambda>c. c\<lparr>xm_approval_run := Some (rn_id run), xm_status := EC_SUBMITTED,
                           xm_reimbursement_status := RB_NOT_READY, xm_submitted_at := Some (ck_now ck)\<rparr>) d)))))"

text \<open>
  The employee cancels a claim of their own through the API (\<open>MyExpenseClaimStatusView\<close> of
  \<open>expenses/views.py\<close>; the serializer admits no other status). A claim of somebody else is not found.
\<close>

definition cancel_expense_claim :: "expense_claim \<Rightarrow> uid \<Rightarrow> hr_state \<Rightarrow> hr_state res" where
  "cancel_expense_claim claim requester st =
     (if xm_employee claim \<noteq> requester then Inl (DoesNotExist ''ExpenseClaim'')
      else if xm_status claim \<notin> {EC_DRAFT, EC_REJECTED}
      then raise_value ''Only draft or rejected expense claims can be cancelled.''
      else Inr (update_claim (xm_id claim) (\<lambda>c. c\<lparr>xm_status := EC_CANCELLED\<rparr>) st))"

text \<open>A receipt of the \<open>n\<close>-th line.\<close>

definition upload_expense_receipt :: "expense_claim \<Rightarrow> nat \<Rightarrow> uid \<Rightarrow> hr_state \<Rightarrow> hr_state" where
  "upload_expense_receipt claim n uploaded_by st =
     audit (Some uploaded_by) ''expense.receipt.uploaded'' (xm_id claim)
       (update_claim (xm_id claim)
          (\<lambda>c. if n < length (xm_lines c)
               then c\<lparr>xm_lines := (xm_lines c)[n := (xm_lines c ! n)\<lparr>xl_receipts := Suc (xl_receipts (xm_lines c ! n))\<rparr>]\<rparr>
               else c) st)"

section \<open>Reports\<close>

text \<open>
  The query groups the join of claims and lines, so \<open>Count('id')\<close> counts a row per line, and one
  for a claim without lines. A status without claims has no entry.
\<close>

definition summarize_group :: "expense_claim list \<Rightarrow> (nat \<times> rat) option" where
  "summarize_group cs =
     (if cs = [] then None
      else Some (sum_list (map (\<lambda>c. max 1 (length (xm_lines c))) cs),
                 quantize2 (sum_list (map (\<lambda>c. sum_list (map xl_amount (xm_lines c))) cs))))"

record claim_summary =
  xs_total_claims :: nat
  xs_total_amount :: rat
  xs_by_status :: "expense_claim_status \<Rightarrow> (nat \<times> rat) option"
  xs_by_reimbursement_status :: "expense_reimbursement_status \<Rightarrow> (nat \<times> rat) option"

definition summarize_expense_claims_for_org :: "expense_db \<Rightarrow> uid \<Rightarrow> claim_summary" where
  "summarize_expense_claims_for_org db org =
     (let claims = filter (\<lambda>c. xm_organisation c = org) (xd_claims db)
      in \<lparr>xs_total_claims = length claims,
          xs_total_amount = quantize2 (sum_list (map (\<lambda>c. sum_list (map xl_amount (xm_lines c))) claims)),
          xs_by_status = (\<lambda>s. summarize_group (filter (\<lambda>c. xm_status c = s) claims)),
          xs_by_reimbursement_status =
            (\<lambda>s. summarize_group (filter (\<lambda>c. xm_reimbursement_status c = s) claims))\<rparr>)"

section \<open>Claims in a pay run\<close>

definition update_claims :: "(expense_claim \<Rightarrow> bool) \<Rightarrow> (expense_claim \<Rightarrow> expense_claim) \<Rightarrow> hr_state \<Rightarrow> hr_state" where
  "update_claims P f = update_expenses (\<lambda>x. x\<lparr>xd_claims := update_where P f (xd_claims x)\<rparr>)"

definition reset_expense_claims_for_pay_run :: "uid \<Rightarrow> hr_state \<Rightarrow> hr_state" where
  "reset_expense_claims_for_pay_run pay_run =
     update_claims
       (\<lambda>c. xm_reimbursement_pay_run c = Some pay_run \<and> xm_reimbursement_status c = RB_INCLUDED_IN_PAYROLL)
       (\<lambda>c. c\<lparr>xm_reimbursement_status := RB_PENDING_PAYROLL, xm_reimbursement_pay_run := None,
              xm_reimbursement_pay_run_item := None\<rparr>)"

text \<open>The claims are grouped by employee; a missing approval time sorts last.\<close>

definition get_pending_expense_claims_by_employee_for_pay_run ::
  "expense_db \<Rightarrow> payroll_run \<Rightarrow> uid \<Rightarrow> expense_claim list" where
  "get_pending_expense_claims_by_employee_for_pay_run db run employee =
     (if pr_run_type run \<noteq> REGULAR then []
      else filter (\<lambda>c. xm_employee c = employee)
             (sort_key (\<lambda>c. (xm_approved_at c = None, or_else (xm_approved_at c) 0))
                (filter (\<lambda>c. xm_organisation c = pr_organisation run \<and> xm_status c = EC_APPROVED \<and>
                             xm_reimbursement_status c = RB_PENDING_PAYROLL) (xd_claims db))))"

definition reimbursement_line :: "expense_claim \<Rightarrow> snapshot_line" where
  "reimbursement_line claim =
     \<lparr>sl_component_code = ''EXPENSE_'' @ str_of_nat (xm_id claim), sl_component_name = xm_title claim,
      sl_component_args = [], sl_component_type = REIMBURSEMENT, sl_monthly_amount = total_amount claim,
      sl_is_taxable = False, sl_auto_calculated = True, sl_template_amount = None, sl_cost_centre = None,
      sl_source = Some (xm_id claim)\<rparr>"

definition build_payroll_reimbursement_lines :: "expense_claim list \<Rightarrow> snapshot_line list \<times> rat" where
  "build_payroll_reimbursement_lines claims =
     (let positive = filter (\<lambda>c. \<not> total_amount c \<le> 0) claims
      in (map reimbursement_line positive, quantize2 (sum_list (map total_amount positive))))"

definition mark_expense_claims_included_in_payroll ::
  "uid \<Rightarrow> uid \<Rightarrow> expense_claim list \<Rightarrow> hr_state \<Rightarrow> hr_state" where
  "mark_expense_claims_included_in_payroll pay_run item claims st =
     (let marked = fold (\<lambda>claim. update_claim (xm_id claim)
            (\<lambda>c. c\<lparr>xm_reimbursement_status := RB_INCLUDED_IN_PAYROLL, xm_reimbursement_pay_run := Some pay_run,
                   xm_reimbursement_pay_run_item := Some item, xm_reimbursed_at := None\<rparr>)) claims st
      in if claims = [] then marked
         else audit None ''expense.claims.included_in_payroll'' pay_run marked)"

definition mark_expense_claims_paid_for_pay_run_item :: "clock \<Rightarrow> uid \<Rightarrow> hr_state \<Rightarrow> hr_state" where
  "mark_expense_claims_paid_for_pay_run_item ck item =
     update_claims
       (\<lambda>c. xm_reimbursement_pay_run_item c = Some item \<and> xm_reimbursement_status c = RB_INCLUDED_IN_PAYROLL)
       (\<lambda>c. c\<lparr>xm_reimbursement_status := RB_PAID, xm_reimbursed_at := Some (ck_now ck)\<rparr>)"

section \<open>What the operations leave alone\<close>

lemma update_claim_frames [frame_simps]:
  "pay (update_claim i f st) = pay st" "timeoff (update_claim i f st) = timeoff st"
  "ap_org (update_claim i f st) = ap_org st" "ap_next_id (update_claim i f st) = ap_next_id st"
  "ap_runs (update_claim i f st) = ap_runs st" "ap_actions (update_claim i f st) = ap_actions st"
  "ap_workflows (update_claim i f st) = ap_workflows st"
  "xd_claims (expenses (update_claim i f st)) = update_where (\<lambda>c. xm_id c = i) f (xd_claims (expenses st))"
  by (simp_all add: update_claim_def frame_simps)

lemma update_claims_frames [frame_simps]:
  "pay (update_claims P f st) = pay st" "timeoff (update_claims P f st) = timeoff st"
  "ap_org (update_claims P f st) = ap_org st" "ap_next_id (update_claims P f st) = ap_next_id st"
  "ap_runs (update_claims P f st) = ap_runs st" "ap_actions (update_claims P f st) = ap_actions st"
  "ap_workflows (update_claims P f st) = ap_workflows st"
  "xd_claims (expenses (update_claims P f st)) = update_where P f (xd_claims (expenses st))"
  by (simp_all add: update_claims_def frame_simps)

lemma mark_included_frames [frame_simps]:
  "pay (mark_expense_claims_included_in_payroll r i cs st) = pay st"
  "timeoff (mark_expense_claims_included_in_payroll r i cs st) = timeoff st"
  "ap_org (mark_expense_claims_included_in_payroll r i cs st) = ap_org st"
  "ap_next_id (mark_expense_claims_included_in_payroll r i cs st) = ap_next_id st"
  "ap_runs (mark_expense_claims_included_in_payroll r i cs st) = ap_runs st"
  "ap_actions (mark_expense_claims_included_in_payroll r i cs st) = ap_actions st"
  "ap_workflows (mark_expense_claims_included_in_payroll r i cs st) = ap_workflows st"
proof -
  let ?f = "\<lambda>claim. update_claim (xm_id claim)
      (\<lambda>c. c\<lparr>xm_reimbursement_status := RB_INCLUDED_IN_PAYROLL, xm_reimbursement_pay_run := Some r,
             xm_reimbursement_pay_run_item := Some i, xm_reimbursed_at := None\<rparr>)"
  have "pay (fold ?f cs st) = pay st \<and> timeoff (fold ?f cs st) = timeoff st \<and> ap_org (fold ?f cs st) = ap_org st \<and>
      ap_next_id (fold ?f cs st) = ap_next_id st \<and> ap_runs (fold ?f cs st) = ap_runs st \<and>
      ap_actions (fold ?f cs st) = ap_actions st \<and> ap_workflows (fold ?f cs st) = ap_workflows st"
    by (induction cs arbitrary: st) (simp_all add: frame_simps)
  then show "pay (mark_expense_claims_included_in_payroll r i cs st) = pay st"
    "timeoff (mark_expense_claims_included_in_payroll r i cs st) = timeoff st"
    "ap_org (mark_expense_claims_included_in_payroll r i cs st) = ap_org st"
    "ap_next_id (mark_expense_claims_included_in_payroll r i cs st) = ap_next_id st"
    "ap_runs (mark_expense_claims_included_in_payroll r i cs st) = ap_runs st"
    "ap_actions (mark_expense_claims_included_in_payroll r i cs st) = ap_actions st"
    "ap_workflows (mark_expense_claims_included_in_payroll r i cs st) = ap_workflows st"
    by (simp_all add: mark_expense_claims_included_in_payroll_def Let_def audit_def)
qed

end
