(* ===== verification/PayrollCalc.thy ===== *)
theory PayrollCalc
  imports PayrollRules ExpenseClaims
begin

text \<open>
  The calculation of one employee's pay, the body of the loop in \<open>calculate_pay_run\<close>
  (\<open>payroll/services.py\<close>), step by step as the source numbers it: component lines and arrears,
  provident fund, state insurance, professional tax and welfare fund, pro-ration, loss of pay, income tax,
  totals. \<open>pay_work\<close> carries the local variables the steps update.
\<close>

record pay_work =
  wk_gross :: rat
  wk_taxable :: rat
  wk_deductions :: rat
  wk_contributions :: rat
  wk_basic :: rat
  wk_lines :: "snapshot_line list"

section \<open>Step 1: component lines and arrears\<close>

definition component_line :: "compensation_assignment_line \<Rightarrow> rat \<Rightarrow> rat option \<Rightarrow> snapshot_line" where
  "component_line line amount template_amount =
     \<lparr>sl_component_code = al_component_code line, sl_component_name = al_component_name line,
      sl_component_args = [], sl_component_type = al_component_type line, sl_monthly_amount = amount,
      sl_is_taxable = al_is_taxable line, sl_auto_calculated = False, sl_template_amount = template_amount,
      sl_cost_centre = al_cost_centre line, sl_source = None\<rparr>"

definition collect_line :: "compensation_assignment_line \<Rightarrow> pay_work \<Rightarrow> pay_work" where
  "collect_line line w0 =
     (let amount = quantize2 (al_monthly_amount line);
          code = al_component_code line;
          w = (if code = ''BASIC'' \<and> al_component_type line = EARNING then w0\<lparr>wk_basic := amount\<rparr> else w0)
      in if code = ''PF_EMPLOYEE'' \<or> code = ''PF_EMPLOYER''
         then w\<lparr>wk_lines := wk_lines w @ [component_line line amount (Some amount)]\<rparr>
         else
           let w1 = w\<lparr>wk_lines := wk_lines w @ [component_line line amount None]\<rparr>
           in (case al_component_type line of
                 EMPLOYEE_DEDUCTION \<Rightarrow> w1\<lparr>wk_deductions := wk_deductions w1 + amount\<rparr>
               | EMPLOYER_CONTRIBUTION \<Rightarrow> w1\<lparr>wk_contributions := wk_contributions w1 + amount\<rparr>
               | _ \<Rightarrow> w1\<lparr>wk_gross := wk_gross w1 + amount,
                         wk_taxable := (if al_is_taxable line then wk_taxable w1 + amount else wk_taxable w1)\<rparr>))"

definition empty_work :: pay_work where
  "empty_work = \<lparr>wk_gross = 0, wk_taxable = 0, wk_deductions = 0, wk_contributions = 0, wk_basic = 0, wk_lines = []\<rparr>"

definition collect_lines :: "compensation_assignment \<Rightarrow> pay_work" where
  "collect_lines assignment = fold collect_line (sort_key al_sequence (ca_lines assignment)) empty_work"

definition get_employee_arrears_for_run :: "arrears list \<Rightarrow> uid \<Rightarrow> uid \<Rightarrow> rat" where
  "get_employee_arrears_for_run table employee pay_run =
     quantize2 (quantize2 (sum_list (map ar_amount (filter (\<lambda>a. ar_employee a = employee \<and>
       ar_pay_run a = Some pay_run \<and> \<not> ar_is_included_in_payslip a) table))))"

definition add_arrears :: "rat \<Rightarrow> pay_work \<Rightarrow> pay_work" where
  "add_arrears amount w =
     (if amount > 0
      then w\<lparr>wk_gross := quantize2 (wk_gross w + amount), wk_taxable := quantize2 (wk_taxable w + amount)\<rparr>
      else w)"

section \<open>Step 2: provident fund\<close>

definition has_line :: "string \<Rightarrow> pay_work \<Rightarrow> bool" where
  "has_line code w = list_ex (\<lambda>l. sl_component_code l = code) (wk_lines w)"

definition auto_line :: "string \<Rightarrow> string \<Rightarrow> msg_arg list \<Rightarrow> payroll_component_type \<Rightarrow> rat \<Rightarrow> snapshot_line" where
  "auto_line code name args type amount =
     \<lparr>sl_component_code = code, sl_component_name = name, sl_component_args = args,
      sl_component_type = type, sl_monthly_amount = amount, sl_is_taxable = False,
      sl_auto_calculated = True, sl_template_amount = None, sl_cost_centre = None, sl_source = None\<rparr>"

definition pf_is_opted_out :: "compensation_assignment \<Rightarrow> employee \<Rightarrow> rat \<Rightarrow> bool" where
  "pf_is_opted_out assignment e basic =
     (ca_is_pf_opted_out assignment \<and> basic > PF_WAGE_CEILING \<and> em_date_of_joining e \<noteq> None)"

definition pf_employee_rate_percent :: "compensation_assignment \<Rightarrow> rat" where
  "pf_employee_rate_percent assignment =
     (if \<not> ca_is_pf_opted_out assignment then ca_vpf_rate_percent assignment else 0)"

definition no_pf :: epf_contributions where
  "no_pf = \<lparr>epf_eligible_basic = 0, epf_employee = 0, epf_employer_total = 0, epf_eps_employer = 0, epf_epf_employer = 0\<rparr>"

definition pf_contributions :: "compensation_assignment \<Rightarrow> employee \<Rightarrow> rat \<Rightarrow> epf_contributions" where
  "pf_contributions assignment e basic =
     (if basic > 0
      then let out = pf_is_opted_out assignment e basic
           in calculate_epf_contributions basic
                (if out then 0 else ddiv (pf_employee_rate_percent assignment) 100) (if out then 0 else PF_RATE)
                (Some PF_WAGE_CEILING) True
      else no_pf)"

definition pf_employee_line :: "compensation_assignment \<Rightarrow> employee \<Rightarrow> rat \<Rightarrow> rat \<Rightarrow> snapshot_line" where
  "pf_employee_line assignment e basic amount =
     (if pf_is_opted_out assignment e basic
      then auto_line ''PF_EMPLOYEE'' ''Employee PF (Opted Out)'' [] EMPLOYEE_DEDUCTION amount
      else auto_line ''PF_EMPLOYEE'' ''Employee PF/VPF ({}% of PF Wages)''
             [ADec (pf_employee_rate_percent assignment)] EMPLOYEE_DEDUCTION amount)"

definition pf_employer_line :: "compensation_assignment \<Rightarrow> employee \<Rightarrow> rat \<Rightarrow> rat \<Rightarrow> snapshot_line" where
  "pf_employer_line assignment e basic amount =
     (if pf_is_opted_out assignment e basic
      then auto_line ''PF_EMPLOYER'' ''Employer PF (Opted Out)'' [] EMPLOYER_CONTRIBUTION amount
      else auto_line ''PF_EMPLOYER'' ''Employer PF ({}% of PF Wages)'' [ADec (quantize2 (dmul PF_RATE 100))]
             EMPLOYER_CONTRIBUTION amount)"

text \<open>A line of the template takes the computed amount and name and keeps its type.\<close>

definition overwrite_line :: "snapshot_line \<Rightarrow> snapshot_line \<Rightarrow> snapshot_line" where
  "overwrite_line auto l =
     (if sl_component_code l = sl_component_code auto
      then l\<lparr>sl_monthly_amount := sl_monthly_amount auto, sl_component_name := sl_component_name auto,
             sl_component_args := sl_component_args auto, sl_auto_calculated := True\<rparr>
      else l)"

definition put_line :: "snapshot_line \<Rightarrow> pay_work \<Rightarrow> pay_work" where
  "put_line auto w =
     (if has_line (sl_component_code auto) w
      then w\<lparr>wk_lines := map (overwrite_line auto) (wk_lines w)\<rparr>
      else w\<lparr>wk_lines := wk_lines w @ [auto]\<rparr>)"

definition apply_pf :: "compensation_assignment \<Rightarrow> employee \<Rightarrow> pay_work \<Rightarrow> pay_work" where
  "apply_pf assignment e w =
     (if wk_basic w > 0
      then let pf = pf_contributions assignment e (wk_basic w)
           in put_line (pf_employer_line assignment e (wk_basic w) (epf_employer_total pf))
                (put_line (pf_employee_line assignment e (wk_basic w) (epf_employee pf))
                   (w\<lparr>wk_deductions := wk_deductions w + epf_employee pf,
                      wk_contributions := wk_contributions w + epf_employer_total pf\<rparr>))
      else w)"

section \<open>Steps 3 and 4: state insurance, professional tax, welfare fund\<close>

definition add_deduction :: "snapshot_line \<Rightarrow> pay_work \<Rightarrow> pay_work" where
  "add_deduction l w =
     w\<lparr>wk_deductions := wk_deductions w + sl_monthly_amount l, wk_lines := wk_lines w @ [l]\<rparr>"

definition add_contribution :: "snapshot_line \<Rightarrow> pay_work \<Rightarrow> pay_work" where
  "add_contribution l w =
     w\<lparr>wk_contributions := wk_contributions w + sl_monthly_amount l, wk_lines := wk_lines w @ [l]\<rparr>"

definition esi_of :: "esi_eligibility \<Rightarrow> rat \<Rightarrow> esi_contributions" where
  "esi_of eligibility gross =
     calculate_esi_contributions gross ESI_EMPLOYEE_RATE ESI_EMPLOYER_RATE ESI_WAGE_CEILING
       (el_force_eligible eligibility)"

definition apply_esi :: "esi_contributions \<Rightarrow> pay_work \<Rightarrow> pay_work" where
  "apply_esi esi w =
     (if esi_is_applicable esi
      then add_contribution (auto_line ''ESI_EMPLOYER'' ''ESI - Employer (3.25%)'' [] EMPLOYER_CONTRIBUTION (esi_employer_amount esi))
             (add_deduction (auto_line ''ESI_EMPLOYEE'' ''ESI - Employee (0.75%)'' [] EMPLOYEE_DEDUCTION (esi_employee_amount esi)) w)
      else w)"

definition apply_pt :: "rat \<Rightarrow> pay_work \<Rightarrow> pay_work" where
  "apply_pt amount w =
     (if amount > 0
      then add_deduction (auto_line ''PROFESSIONAL_TAX'' ''Professional Tax'' [] EMPLOYEE_DEDUCTION amount) w
      else w)"

definition apply_lwf :: "lwf_result \<Rightarrow> pay_work \<Rightarrow> pay_work" where
  "apply_lwf lwf w =
     (if lwf_is_applicable lwf
      then add_contribution (auto_line ''LWF_EMPLOYER'' ''Labour Welfare Fund - Employer'' [] EMPLOYER_CONTRIBUTION (lwf_employer lwf))
             (add_deduction (auto_line ''LWF_EMPLOYEE'' ''Labour Welfare Fund - Employee'' [] EMPLOYEE_DEDUCTION (lwf_employee lwf)) w)
      else w)"

section \<open>Step 5: pro-ration in the month of joining or exit\<close>

definition paid_period_start :: "date option \<Rightarrow> date \<Rightarrow> date \<Rightarrow> date" where
  "paid_period_start joining period_start period_end =
     (case joining of None \<Rightarrow> period_start
      | Some j \<Rightarrow> if period_start \<le> j \<and> j \<le> period_end then j else period_start)"

definition paid_period_end :: "date option \<Rightarrow> date \<Rightarrow> date \<Rightarrow> date" where
  "paid_period_end exit_date period_start period_end =
     (case exit_date of None \<Rightarrow> period_end
      | Some x \<Rightarrow> if period_start \<le> x \<and> x < period_end then x else period_end)"

definition paid_days_of :: "employee \<Rightarrow> date \<Rightarrow> date \<Rightarrow> int" where
  "paid_days_of e period_start period_end =
     max 0 (days_between (paid_period_start (em_date_of_joining e) period_start period_end)
                         (paid_period_end (em_date_of_exit e) period_start period_end) + 1)"

definition prorate_factor :: "int \<Rightarrow> int \<Rightarrow> rat" where
  "prorate_factor paid_days total_days =
     (if paid_days < total_days then ddiv (of_int paid_days) (of_int total_days) else 1)"

definition prorate :: "int \<Rightarrow> int \<Rightarrow> rat \<Rightarrow> rat" where
  "prorate paid_days total_days amount =
     (if paid_days < total_days then quantize2 (dmul amount (prorate_factor paid_days total_days)) else amount)"

section \<open>Step 6: attendance and loss of pay\<close>

definition active_period_start :: "date option \<Rightarrow> date \<Rightarrow> date" where
  "active_period_start joining period_start =
     (case joining of None \<Rightarrow> period_start | Some j \<Rightarrow> if j > period_start then max period_start j else period_start)"

definition active_period_end :: "date option \<Rightarrow> date \<Rightarrow> date" where
  "active_period_end exit_date period_end =
     (case exit_date of None \<Rightarrow> period_end | Some x \<Rightarrow> if x < period_end then min period_end x else period_end)"

definition leave_lop_days :: "timeoff_db \<Rightarrow> uid \<Rightarrow> date \<Rightarrow> date \<Rightarrow> rat" where
  "leave_lop_days db employee period_start period_end =
     quantize2 (sum_list (map lr_total_units (filter (\<lambda>r. lr_employee r = employee \<and>
       (case find_leave_type db (lr_leave_type r) of None \<Rightarrow> False | Some t \<Rightarrow> lt_is_loss_of_pay t) \<and>
       lr_status r = LR_APPROVED \<and> period_start \<le> lr_start_date r \<and> lr_start_date r \<le> period_end)
       (td_leave_requests db))))"

definition explicit_lwp_days :: "timeoff_db \<Rightarrow> uid \<Rightarrow> date \<Rightarrow> date \<Rightarrow> rat" where
  "explicit_lwp_days db employee period_start period_end =
     quantize2 (sum_list (map lwp_units (filter (\<lambda>x. lwp_employee x = employee \<and> lwp_status x = LWP_APPROVED \<and>
       period_start \<le> lwp_entry_date x \<and> lwp_entry_date x \<le> period_end) (td_lwp_entries db))))"

text \<open>
  The attendance service answers with the paid fraction of days and the overtime minutes, or raises
  (\<open>None\<close>), which the calculation treats as unavailable.
\<close>

type_synonym attendance_service = "uid \<Rightarrow> date \<Rightarrow> date \<Rightarrow> (rat \<times> int) option"

definition attendance_context_of ::
  "attendance_service \<Rightarrow> timeoff_db \<Rightarrow> bool \<Rightarrow> employee \<Rightarrow> date \<Rightarrow> date \<Rightarrow> int \<Rightarrow> attendance_context" where
  "attendance_context_of attendance db use_attendance e period_start period_end paid_days =
     (let a = active_period_start (em_date_of_joining e) period_start;
          b = active_period_end (em_date_of_exit e) period_end;
          summary = (if use_attendance \<and> a \<le> b then attendance (em_id e) a b else None);
          attendance_paid = (case summary of None \<Rightarrow> of_int paid_days | Some (f, _) \<Rightarrow> f);
          leave_only = leave_lop_days db (em_id e) period_start period_end;
          explicit = explicit_lwp_days db (em_id e) period_start period_end;
          policy = quantize2 (leave_only + explicit);
          attendance_based = (if use_attendance then max 0 (of_int paid_days - attendance_paid) else 0)
      in \<lparr>at_active_period_start = a, at_active_period_end = b, at_expected_paid_days = of_int paid_days,
          at_attendance_paid_days = attendance_paid, at_leave_only_lop_days = leave_only,
          at_explicit_lwp_days = explicit, at_policy_lwp_days = policy,
          at_attendance_based_lop_days = attendance_based, at_effective_lop_days = max policy attendance_based,
          at_overtime_minutes = (case summary of None \<Rightarrow> 0 | Some (_, m) \<Rightarrow> m),
          at_summary_used = (summary \<noteq> None)\<rparr>)"

definition lop_deduction_of :: "rat \<Rightarrow> rat \<Rightarrow> int \<Rightarrow> rat" where
  "lop_deduction_of lop_days gross total_days =
     (if lop_days > 0 \<and> gross > 0 \<and> total_days > 0
      then min (quantize2 (dmul (quantize2 (ddiv gross (of_int total_days))) lop_days)) gross
      else 0)"

section \<open>Step 7: income tax\<close>

definition annual_breakdown :: "string \<Rightarrow> tax_regime \<Rightarrow> payroll_tax_slab_set \<Rightarrow> rat \<Rightarrow> tax_breakdown" where
  "annual_breakdown fiscal_year regime slab_set taxable =
     (let params = get_rebate_87a_params fiscal_year (tax_regime_value regime)
      in calculate_income_tax_with_rebate taxable slab_set (surcharge_tiers_for_regime (tax_regime_value regime))
           (Some (fst params)) (Some (snd params)))"

section \<open>The item\<close>

text \<open>What the loop needs of the run: its period, its caches, and the tables it reads.\<close>

record run_inputs =
  in_run :: payroll_run
  in_period_start :: date
  in_period_end :: date
  in_fiscal_year :: string
  in_months_remaining :: int
  in_pt_rules :: "string \<Rightarrow> professional_tax_rule option"
  in_lwf_rules :: "string \<Rightarrow> labour_welfare_fund_rule option"

definition total_days :: "run_inputs \<Rightarrow> int" where
  "total_days inp = dy (in_period_end inp)"

text \<open>Steps 1 to 4: the work before pro-ration, for a resolved professional tax amount.\<close>

definition work_after_arrears :: "hr_db \<Rightarrow> run_inputs \<Rightarrow> employee \<Rightarrow> compensation_assignment \<Rightarrow> pay_work" where
  "work_after_arrears db inp e assignment =
     add_arrears (get_employee_arrears_for_run (pd_arrears (hr_payroll db)) (em_id e) (pr_id (in_run inp)))
       (collect_lines assignment)"

definition esi_eligibility_of :: "hr_db \<Rightarrow> run_inputs \<Rightarrow> employee \<Rightarrow> rat \<Rightarrow> esi_eligibility" where
  "esi_eligibility_of db inp e gross =
     resolve_esi_eligibility (pd_payslips (hr_payroll db)) (em_id e) gross
       (pr_period_year (in_run inp)) (pr_period_month (in_run inp))"

definition full_month_work ::
  "hr_db \<Rightarrow> run_inputs \<Rightarrow> employee \<Rightarrow> compensation_assignment \<Rightarrow> rat \<Rightarrow> lwf_result \<Rightarrow> pay_work" where
  "full_month_work db inp e assignment pt lwf =
     (let w = work_after_arrears db inp e assignment
      in apply_lwf lwf (apply_pt pt
           (apply_esi (esi_of (esi_eligibility_of db inp e (wk_gross w)) (wk_gross w)) (apply_pf assignment e w))))"

text \<open>Steps 5 to 8.\<close>

definition ready_item ::
  "attendance_service \<Rightarrow> hr_db \<Rightarrow> run_inputs \<Rightarrow> employee \<Rightarrow> compensation_assignment \<Rightarrow> payroll_tax_slab_set
     \<Rightarrow> string \<Rightarrow> expense_claim list \<Rightarrow> rat \<times> professional_tax_rule \<times> rat
     \<Rightarrow> lwf_result \<times> labour_welfare_fund_rule option \<times> rat \<Rightarrow> uid \<Rightarrow> payroll_run_item" where
  "ready_item attendance db inp e assignment slab_set state_code claims pt_res lwf_res item_id =
     (let run = in_run inp;
          arrears = get_employee_arrears_for_run (pd_arrears (hr_payroll db)) (em_id e) (pr_id run);
          w0 = work_after_arrears db inp e assignment;
          pf = pf_contributions assignment e (wk_basic w0);
          eligibility = esi_eligibility_of db inp e (wk_gross w0);
          esi = esi_of eligibility (wk_gross w0);
          w = full_month_work db inp e assignment (fst pt_res) (fst lwf_res);
          total = total_days inp;
          paid = paid_days_of e (in_period_start inp) (in_period_end inp);
          scale = prorate paid total;
          gross = scale (wk_gross w);
          taxable = scale (wk_taxable w);
          deductions = scale (wk_deductions w);
          contributions = scale (wk_contributions w);
          ctx = attendance_context_of attendance (hr_timeoff db) (pr_use_attendance_inputs run) e
                  (in_period_start inp) (in_period_end inp) paid;
          lop = lop_deduction_of (at_effective_lop_days ctx) gross total;
          annual_gross = quantize2 (dmul taxable (of_int (in_months_remaining inp)));
          annual_taxable = calculate_taxable_income_with_investments (pd_investments (hr_payroll db)) (em_id e)
                             annual_gross (in_fiscal_year inp) (ca_tax_regime assignment);
          tax = annual_breakdown (in_fiscal_year inp) (ca_tax_regime assignment) slab_set annual_taxable;
          income_tax = quantize2 (ddiv (tb_annual_tax tax) (of_int (in_months_remaining inp)));
          reimbursed = build_payroll_reimbursement_lines claims;
          lines = (if snd reimbursed > 0 then wk_lines w @ fst reimbursed else wk_lines w);
          final_gross = (if snd reimbursed > 0 then quantize2 (gross + snd reimbursed) else gross);
          total_deductions = quantize2 (deductions + income_tax + lop)
      in \<lparr>ri_id = item_id, ri_pay_run = pr_id run, ri_employee = em_id e, ri_status = READY,
          ri_gross_pay = quantize2 final_gross, ri_employee_deductions = quantize2 deductions,
          ri_employer_contributions = quantize2 contributions,
          ri_eps_employer = quantize2 (epf_eps_employer pf), ri_epf_employer = quantize2 (epf_epf_employer pf),
          ri_income_tax = income_tax, ri_total_deductions = total_deductions,
          ri_net_pay = ensure_non_negative_net_pay (final_gross - total_deductions),
          ri_snapshot = Some
           \<lparr>sn_assignment = ca_id assignment, sn_tax_regime = ca_tax_regime assignment, sn_tax_slab_set = ts_id slab_set,
            sn_lines = lines, sn_arrears = arrears, sn_expense_reimbursements = snd reimbursed,
            sn_period_start = in_period_start inp, sn_period_end = in_period_end inp, sn_paid_days = paid,
            sn_total_days_in_period = total, sn_pro_rate_factor = prorate_factor paid total,
            sn_auto_pf = scale (epf_employee pf), sn_pf_employer = epf_employer_total pf,
            sn_pf_eligible_basic = epf_eligible_basic pf,
            sn_pf_employee_rate_percent = pf_employee_rate_percent assignment,
            sn_pf_opted_out = pf_is_opted_out assignment e (wk_basic w0),
            sn_esi_employee = scale (if esi_is_applicable esi then esi_employee_amount esi else 0),
            sn_esi_employer = scale (if esi_is_applicable esi then esi_employer_amount esi else 0),
            sn_esi_eligibility_mode = el_mode eligibility, sn_esi_period = el_period eligibility,
            sn_pt_monthly = scale (fst pt_res), sn_pt_state_code = state_code,
            sn_pt_taxable_basis = snd (snd pt_res),
            sn_lwf_employee = scale (if lwf_is_applicable (fst lwf_res) then lwf_employee (fst lwf_res) else 0),
            sn_lwf_employer = scale (if lwf_is_applicable (fst lwf_res) then lwf_employer (fst lwf_res) else 0),
            sn_lwf_wage_basis = snd (snd lwf_res),
            sn_lop_days = at_effective_lop_days ctx, sn_lop_deduction = lop, sn_attendance = ctx,
            sn_annual_taxable_gross = annual_gross, sn_annual_standard_deduction = INDIA_STANDARD_DEDUCTION,
            sn_annual_investment_deductions =
              quantize2 (max 0 (calculate_taxable_income_after_standard_deduction annual_gross - annual_taxable)),
            sn_annual_taxable_after_sd = annual_taxable, sn_tax = tax\<rparr>,
          ri_message = [], ri_message_args = []\<rparr>)"

text \<open>An employee whose pay cannot be computed gets an item that says why.\<close>

definition exception_item :: "uid \<Rightarrow> uid \<Rightarrow> string \<Rightarrow> msg_arg list \<Rightarrow> uid \<Rightarrow> payroll_run_item" where
  "exception_item pay_run employee message args item_id =
     \<lparr>ri_id = item_id, ri_pay_run = pay_run, ri_employee = employee, ri_status = EXCEPTION,
      ri_gross_pay = 0, ri_employee_deductions = 0, ri_employer_contributions = 0, ri_eps_employer = 0,
      ri_epf_employer = 0, ri_income_tax = 0, ri_total_deductions = 0, ri_net_pay = 0, ri_snapshot = None,
      ri_message = message, ri_message_args = args\<rparr>"

text \<open>\<open>str(exc)\<close> of the professional tax lookup, the only call the loop guards.\<close>

fun error_text :: "py_error \<Rightarrow> string \<times> msg_arg list" where
  "error_text (ValueError m args) = (m, args)"
| "error_text (DoesNotExist m) = (m, [])"
| "error_text (IntegrityError m) = (m, [])"
| "error_text (KeyError m) = (m, [])"
| "error_text InvalidOperation = ([], [])"
| "error_text OverflowError = (''date value out of range'', [])"
| "error_text (AttributeError m) = (m, [])"

definition calculate_item ::
  "attendance_service \<Rightarrow> hr_db \<Rightarrow> run_inputs \<Rightarrow> employee \<Rightarrow> compensation_assignment \<Rightarrow> payroll_tax_slab_set
     \<Rightarrow> string \<Rightarrow> expense_claim list \<Rightarrow> uid \<Rightarrow> payroll_run_item" where
  "calculate_item attendance db inp e assignment slab_set state_code claims item_id =
     (let gross = wk_gross (work_after_arrears db inp e assignment)
      in case resolve_professional_tax_amount e state_code gross (pr_period_month (in_run inp)) (in_pt_rules inp) of
           Inl err \<Rightarrow> exception_item (pr_id (in_run inp)) (em_id e) (fst (error_text err)) (snd (error_text err)) item_id
         | Inr pt \<Rightarrow>
             ready_item attendance db inp e assignment slab_set state_code claims pt
               (resolve_labour_welfare_fund_amount state_code gross (pr_period_month (in_run inp)) (in_lwf_rules inp))
               item_id)"

end
