(* ===== verification/PayExample.thy ===== *)
theory PayExample
  imports PayrollCalc ApprovalExample
begin

text \<open>
  A small organisation on which the payroll properties are evaluated: the one of the approval examples,
  registered in Maharashtra, with a compensation assignment for employee 10, one expense claim waiting for payroll,
  and a default workflow for payroll runs.
\<close>

definition example_pt_rule :: professional_tax_rule where
  "example_pt_rule =
     \<lparr>ptr_country_code = ''IN'', ptr_state_code = ''MH'', ptr_state_name = ''Maharashtra'',
      ptr_income_basis = IB_MONTHLY, ptr_deduction_frequency = DF_MONTHLY, ptr_effective_from = Date 2023 7 1,
      ptr_effective_to = None, ptr_is_active = True,
      ptr_slabs = [\<lparr>pt_gender = G_ANY, pt_min_income = 10000, pt_max_income = None, pt_deduction_amount = 200,
                    pt_applicable_months = []\<rparr>]\<rparr>"

definition pay_slab_set :: payroll_tax_slab_set where
  "pay_slab_set = example_slab_set\<lparr>ts_fiscal_year := ''2025-2026''\<rparr>"

definition example_line :: "nat \<Rightarrow> string \<Rightarrow> payroll_component_type \<Rightarrow> rat \<Rightarrow> compensation_assignment_line" where
  "example_line n code type amount =
     \<lparr>al_component_code = code, al_component_name = code, al_component_type = type, al_monthly_amount = amount,
      al_is_taxable = True, al_sequence = n, al_cost_centre = None\<rparr>"

definition example_assignment :: compensation_assignment where
  "example_assignment =
     \<lparr>ca_id = 31, ca_employee = 10, ca_template = 30, ca_effective_from = Date 2025 4 1, ca_version = 1,
      ca_tax_regime = NEW, ca_is_pf_opted_out = False, ca_is_epf_exempt = False, ca_vpf_rate_percent = 12,
      ca_status = CA_APPROVED, ca_approval_run = None,
      ca_lines = [example_line 1 ''BASIC'' EARNING 60000, example_line 3 ''PF_EMPLOYEE'' EMPLOYEE_DEDUCTION 1800,
                  example_line 2 ''HRA'' EARNING 30000]\<rparr>"

definition example_claim :: expense_claim where
  "example_claim =
     \<lparr>xm_id = 41, xm_organisation = 1, xm_employee = 10, xm_policy = None, xm_title = ''Taxi'',
      xm_claim_date = Date 2025 5 20, xm_currency = ''INR'', xm_status = EC_APPROVED,
      xm_reimbursement_status = RB_PENDING_PAYROLL, xm_approval_run = None, xm_reimbursement_pay_run = None,
      xm_reimbursement_pay_run_item = None, xm_submitted_at = Some 900, xm_approved_at = Some 950,
      xm_rejected_at = None, xm_reimbursed_at = None, xm_rejection_reason = [],
      xm_lines = [\<lparr>xl_category = None, xl_category_name = ''Travel'', xl_expense_date = Date 2025 5 19,
                   xl_merchant = [], xl_description = [], xl_amount = 450, xl_currency = ''INR'', xl_receipts = 1\<rparr>]\<rparr>"

definition example_run :: payroll_run where
  "example_run =
     \<lparr>pr_id = 40, pr_organisation = 1, pr_name = ''Jun 2025 Payroll'', pr_period_year = 2025, pr_period_month = 6,
      pr_run_type = REGULAR, pr_status = PR_DRAFT, pr_use_attendance_inputs = False, pr_attendance_snapshot = None,
      pr_source_run = None, pr_approval_run = None, pr_calculated_at = None, pr_submitted_at = None,
      pr_finalized_at = None\<rparr>"

definition example_payroll_db :: payroll_db where
  "example_payroll_db =
     \<lparr>pd_masters = \<lparr>sm_slab_sets = [pay_slab_set], sm_pt_rules = [example_pt_rule], sm_lwf_rules = [],
        sm_surcharge_rules = []\<rparr>,
      pd_components = [], pd_cost_centres = [], pd_templates = [], pd_assignments = [example_assignment],
      pd_investments = [], pd_arrears = [], pd_runs = [example_run], pd_items = [], pd_payslips = [],
      pd_filings = [], pd_settlements = []\<rparr>"

definition empty_timeoff_db :: timeoff_db where
  "empty_timeoff_db =
     \<lparr>td_calendars = [], td_cycles = [], td_plans = [], td_plan_assignments = [], td_balances = [], td_ledger = [],
      td_accruals = [], td_redemptions = [], td_lwp_entries = [], td_leave_requests = [], td_on_duty_policies = [],
      td_on_duty_requests = [], td_encashments = []\<rparr>"

definition example_hr_db :: hr_db where
  "example_hr_db =
     \<lparr>hr_payroll = example_payroll_db, hr_timeoff = empty_timeoff_db,
      hr_expenses = \<lparr>xd_policies = [], xd_categories = [], xd_claims = [example_claim]\<rparr>\<rparr>"

definition payroll_workflow :: approval_workflow where
  "payroll_workflow = example_workflow 3 RK_PAYROLL_PROCESSING
     [example_stage 4 1 MODE_ALL [named_approver 30]]"

definition paid_org_db :: org_db where
  "paid_org_db = example_org_db\<lparr>
     od_organisations := [\<lparr>og_id = 1, og_entity_type = PRIVATE_LIMITED, og_created_by = None,
       og_primary_admin_user = Some 999,
       og_addresses = [\<lparr>ad_address_type = REGISTERED, ad_state_code = ''MH'', ad_is_active = True\<rparr>]\<rparr>],
     od_employees := [example_employee 10 (Some 20), (example_employee 20 None)\<lparr>em_status := ES_RESIGNED\<rparr>,
       (example_employee 30 None)\<lparr>em_organisation := 2\<rparr>]\<rparr>"

definition example_hr_start :: hr_state where
  "example_hr_start =
     \<lparr>ap_org = paid_org_db, ap_workflows = [payroll_workflow], ap_rules = [], ap_assignments = [],
      ap_delegations = [], ap_runs = [], ap_actions = [], ap_notifications = [], ap_audit = [],
      ap_next_id = 50, ap_subjects = example_hr_db\<rparr>"

definition no_attendance :: attendance_service where
  "no_attendance = (\<lambda>_ _ _. None)"

definition example_inputs :: run_inputs where
  "example_inputs =
     \<lparr>in_run = example_run, in_period_start = Date 2025 6 1, in_period_end = Date 2025 6 30,
      in_fiscal_year = ''2025-2026'', in_months_remaining = 10,
      in_pt_rules = (\<lambda>_. Some example_pt_rule), in_lwf_rules = (\<lambda>_. None)\<rparr>"

definition example_item :: payroll_run_item where
  "example_item = calculate_item no_attendance example_hr_db example_inputs (example_employee 10 (Some 20))
     example_assignment pay_slab_set ''MH'' [example_claim] 50"

end
