(* ===== verification/PayrollItems.thy ===== *)
theory PayrollItems
  imports PayExample
begin

text \<open>
  What a calculated item guarantees: its totals are the sums of its lines, deductions and net pay
  account for the gross pay, pro-ration and loss of pay stay within bounds.
\<close>

section \<open>Sums over lines\<close>

definition line_total :: "payroll_component_type \<Rightarrow> snapshot_line list \<Rightarrow> rat" where
  "line_total T ls = sum_list (map sl_monthly_amount (filter (\<lambda>l. sl_component_type l = T) ls))"

lemma line_total_simps [simp]:
  "line_total T [] = 0"
  "line_total T (l # ls) = (if sl_component_type l = T then sl_monthly_amount l else 0) + line_total T ls"
  "line_total T (ls @ ls') = line_total T ls + line_total T ls'"
  by (simp_all add: line_total_def)

definition other_lines :: "snapshot_line list \<Rightarrow> snapshot_line list" where
  "other_lines ls = filter (\<lambda>l. sl_component_code l \<noteq> ''PF_EMPLOYEE'')
     (filter (\<lambda>l. sl_component_code l \<noteq> ''PF_EMPLOYER'') ls)"

lemma other_lines_simps [simp]:
  "other_lines [] = []" "other_lines (ls @ ls') = other_lines ls @ other_lines ls'"
  by (simp_all add: other_lines_def)

lemma fold_induct: "P w \<Longrightarrow> (\<And>x w. P w \<Longrightarrow> P (f x w)) \<Longrightarrow> P (fold f xs w)"
  by (induction xs arbitrary: w) auto

section \<open>Component lines\<close>

text \<open>The sums of step 1 leave the provident fund lines out.\<close>

definition collected_ok :: "pay_work \<Rightarrow> bool" where
  "collected_ok w \<longleftrightarrow>
     wk_gross w = line_total EARNING (other_lines (wk_lines w)) + line_total REIMBURSEMENT (other_lines (wk_lines w)) \<and>
     wk_deductions w = line_total EMPLOYEE_DEDUCTION (other_lines (wk_lines w)) \<and>
     wk_contributions w = line_total EMPLOYER_CONTRIBUTION (other_lines (wk_lines w))"

lemma collect_line_ok: "collected_ok w \<Longrightarrow> collected_ok (collect_line l w)"
  by (cases "al_component_type l")
    (simp_all add: collected_ok_def collect_line_def component_line_def other_lines_def Let_def)

lemma collect_lines_ok: "collected_ok (collect_lines a)"
  unfolding collect_lines_def
  by (rule fold_induct [where P = collected_ok]) (simp_all add: collect_line_ok, simp add: collected_ok_def empty_work_def)

definition work_money :: "pay_work \<Rightarrow> bool" where
  "work_money w \<longleftrightarrow> money (wk_gross w) \<and> money (wk_taxable w) \<and> money (wk_deductions w) \<and>
     money (wk_contributions w) \<and> money (wk_basic w)"

lemma collect_line_money: "work_money w \<Longrightarrow> work_money (collect_line l w)"
  by (cases "al_component_type l") (auto simp: work_money_def collect_line_def Let_def)

lemma collect_lines_money: "work_money (collect_lines a)"
  unfolding collect_lines_def
  by (rule fold_induct [where P = work_money]) (simp_all add: collect_line_money, simp add: work_money_def empty_work_def)

definition line_shape :: "snapshot_line \<Rightarrow> string \<times> payroll_component_type \<times> uid option" where
  "line_shape l = (sl_component_code l, sl_component_type l, sl_source l)"

lemma collect_shapes:
  "map line_shape (wk_lines (fold collect_line xs w)) =
     map line_shape (wk_lines w) @ map (\<lambda>l. (al_component_code l, al_component_type l, None)) xs"
proof (induction xs arbitrary: w)
  case (Cons x xs)
  have "map line_shape (wk_lines (collect_line x w)) =
      map line_shape (wk_lines w) @ [(al_component_code x, al_component_type x, None)]"
    by (cases "al_component_type x") (simp_all add: collect_line_def component_line_def line_shape_def Let_def)
  with Cons.IH [of "collect_line x w"] show ?case by simp
qed simp

lemma collect_lines_shapes:
  "map line_shape (wk_lines (collect_lines a)) =
     map (\<lambda>l. (al_component_code l, al_component_type l, None)) (sort_key al_sequence (ca_lines a))"
  using collect_shapes [of "sort_key al_sequence (ca_lines a)" empty_work]
  by (simp add: collect_lines_def empty_work_def)

lemma collect_lines_shape:
  assumes "l \<in> set (wk_lines (collect_lines a))"
  obtains x where "x \<in> set (ca_lines a)" "line_shape l = (al_component_code x, al_component_type x, None)"
proof -
  from assms have "line_shape l \<in> set (map line_shape (wk_lines (collect_lines a)))" by simp
  then show ?thesis using that unfolding collect_lines_shapes by auto
qed

section \<open>Provident fund lines\<close>

text \<open>At most one line per provident fund code, of the type the component has.\<close>

definition one_line :: "string \<Rightarrow> payroll_component_type \<Rightarrow> snapshot_line list \<Rightarrow> bool" where
  "one_line c T ls \<longleftrightarrow> length (filter (\<lambda>l. sl_component_code l = c) ls) \<le> 1 \<and>
     (\<forall>l \<in> set ls. sl_component_code l = c \<longrightarrow> sl_component_type l = T)"

definition pf_template_ok :: "compensation_assignment \<Rightarrow> bool" where
  "pf_template_ok a =
     (length (filter (\<lambda>l. al_component_code l = ''PF_EMPLOYEE'') (ca_lines a)) \<le> 1 \<and>
      length (filter (\<lambda>l. al_component_code l = ''PF_EMPLOYER'') (ca_lines a)) \<le> 1 \<and>
      list_all (\<lambda>l. (al_component_code l = ''PF_EMPLOYEE'' \<longrightarrow> al_component_type l = EMPLOYEE_DEDUCTION) \<and>
                    (al_component_code l = ''PF_EMPLOYER'' \<longrightarrow> al_component_type l = EMPLOYER_CONTRIBUTION)) (ca_lines a))"

lemma filter_sort_length: "length (filter P (sort_key k xs)) = length (filter P xs)"
  by (metis length_sort filter_sort)

lemma collect_one_line:
  assumes "length (filter (\<lambda>l. al_component_code l = c) (ca_lines a)) \<le> 1"
    "\<And>l. l \<in> set (ca_lines a) \<Longrightarrow> al_component_code l = c \<Longrightarrow> al_component_type l = T"
  shows "one_line c T (wk_lines (collect_lines a))"
proof -
  let ?ls = "wk_lines (collect_lines a)"
  have "length (filter (\<lambda>l. sl_component_code l = c) ?ls) = length (filter (\<lambda>s. fst s = c) (map line_shape ?ls))"
    by (simp add: filter_map o_def line_shape_def)
  also have "\<dots> = length (filter (\<lambda>l. al_component_code l = c) (ca_lines a))"
    unfolding collect_lines_shapes by (simp add: filter_map o_def filter_sort_length)
  finally have "length (filter (\<lambda>l. sl_component_code l = c) ?ls) \<le> 1" using assms(1) by simp
  moreover have "sl_component_type l = T" if "l \<in> set ?ls" "sl_component_code l = c" for l
  proof -
    from that(1) obtain x where "x \<in> set (ca_lines a)" "line_shape l = (al_component_code x, al_component_type x, None)"
      by (rule collect_lines_shape)
    with that(2) assms(2) [of x] show ?thesis by (simp add: line_shape_def)
  qed
  ultimately show ?thesis by (simp add: one_line_def)
qed

lemma overwrite_line_shape [simp]: "line_shape (overwrite_line auto l) = line_shape l"
  by (simp add: overwrite_line_def line_shape_def)

lemma overwrite_line_sels [simp]:
  "sl_component_code (overwrite_line auto l) = sl_component_code l"
  "sl_component_type (overwrite_line auto l) = sl_component_type l"
  "sl_source (overwrite_line auto l) = sl_source l"
  "sl_monthly_amount (overwrite_line auto l) =
     (if sl_component_code l = sl_component_code auto then sl_monthly_amount auto else sl_monthly_amount l)"
  by (simp_all add: overwrite_line_def)

lemma overwrite_total:
  assumes "\<forall>l \<in> set ls. sl_component_code l = sl_component_code auto \<longrightarrow> sl_component_type l = sl_component_type auto"
  shows "line_total T (map (overwrite_line auto) ls) =
     line_total T (filter (\<lambda>l. sl_component_code l \<noteq> sl_component_code auto) ls) +
     of_nat (length (filter (\<lambda>l. sl_component_code l = sl_component_code auto) ls)) *
       (if sl_component_type auto = T then sl_monthly_amount auto else 0)"
  using assms by (induction ls) (auto simp: algebra_simps)

lemma put_line_total:
  assumes "one_line (sl_component_code auto) (sl_component_type auto) (wk_lines w)"
  shows "line_total T (wk_lines (put_line auto w)) =
     line_total T (filter (\<lambda>l. sl_component_code l \<noteq> sl_component_code auto) (wk_lines w)) +
     (if sl_component_type auto = T then sl_monthly_amount auto else 0)"
proof (cases "has_line (sl_component_code auto) w")
  case True
  then have "filter (\<lambda>l. sl_component_code l = sl_component_code auto) (wk_lines w) \<noteq> []"
    by (auto simp: has_line_def list_ex_iff filter_empty_conv)
  with assms have "length (filter (\<lambda>l. sl_component_code l = sl_component_code auto) (wk_lines w)) = 1"
    by (simp add: one_line_def le_Suc_eq)
  with True assms overwrite_total [of "wk_lines w" auto T] show ?thesis
    by (simp add: put_line_def one_line_def)
next
  case False
  then have "filter (\<lambda>l. sl_component_code l \<noteq> sl_component_code auto) (wk_lines w) = wk_lines w"
    by (auto simp: has_line_def list_ex_iff filter_id_conv)
  with False show ?thesis by (simp add: put_line_def)
qed

lemma put_line_frames [simp]:
  "wk_gross (put_line auto w) = wk_gross w" "wk_taxable (put_line auto w) = wk_taxable w"
  "wk_deductions (put_line auto w) = wk_deductions w" "wk_contributions (put_line auto w) = wk_contributions w"
  "wk_basic (put_line auto w) = wk_basic w"
  by (simp_all add: put_line_def)

lemma put_line_one_other:
  assumes "one_line c T (wk_lines w)" "sl_component_code auto \<noteq> c"
  shows "one_line c T (wk_lines (put_line auto w))"
  using assms by (auto simp: one_line_def put_line_def filter_map o_def)

lemma put_line_filter:
  assumes "sl_component_code auto \<noteq> c"
  shows "filter (\<lambda>l. sl_component_code l \<noteq> c) (wk_lines (put_line auto w)) =
     wk_lines (put_line auto (w\<lparr>wk_lines := filter (\<lambda>l. sl_component_code l \<noteq> c) (wk_lines w)\<rparr>))"
  using assms by (auto simp: put_line_def has_line_def list_ex_iff filter_map o_def)

lemma length_filter_filter: "length (filter Q (filter P ls)) \<le> length (filter Q ls)"
  by (induction ls) auto

lemma one_line_filter: "one_line c T ls \<Longrightarrow> one_line c T (filter P ls)"
  using length_filter_filter [of "\<lambda>l. sl_component_code l = c" P ls] by (simp add: one_line_def)

text \<open>Two puts under different codes: what remains of the old lines, and the two amounts.\<close>

lemma put_two_lines:
  assumes one: "one_line (sl_component_code x) (sl_component_type x) (wk_lines w)"
      "one_line (sl_component_code y) (sl_component_type y) (wk_lines w)"
    and ne: "sl_component_code x \<noteq> sl_component_code y"
  shows "line_total T (wk_lines (put_line y (put_line x w))) =
     line_total T (filter (\<lambda>l. sl_component_code l \<noteq> sl_component_code x)
        (filter (\<lambda>l. sl_component_code l \<noteq> sl_component_code y) (wk_lines w))) +
     (if sl_component_type x = T then sl_monthly_amount x else 0) +
     (if sl_component_type y = T then sl_monthly_amount y else 0)"
  using put_line_total [of y "put_line x w" T] put_line_one_other [OF one(2) ne]
    put_line_filter [OF ne, of w]
    put_line_total [of x "w\<lparr>wk_lines := filter (\<lambda>l. sl_component_code l \<noteq> sl_component_code y) (wk_lines w)\<rparr>" T]
    one_line_filter [OF one(1), of "\<lambda>l. sl_component_code l \<noteq> sl_component_code y"]
  by simp

section \<open>All lines\<close>

definition sums_ok :: "pay_work \<Rightarrow> bool" where
  "sums_ok w \<longleftrightarrow> wk_deductions w = line_total EMPLOYEE_DEDUCTION (wk_lines w) \<and>
     wk_contributions w = line_total EMPLOYER_CONTRIBUTION (wk_lines w)"

lemma pf_line_sels [simp]:
  "sl_component_code (pf_employee_line a e b m) = ''PF_EMPLOYEE''" "sl_component_type (pf_employee_line a e b m) = EMPLOYEE_DEDUCTION"
  "sl_monthly_amount (pf_employee_line a e b m) = m" "sl_source (pf_employee_line a e b m) = None"
  "sl_component_code (pf_employer_line a e b m) = ''PF_EMPLOYER''" "sl_component_type (pf_employer_line a e b m) = EMPLOYER_CONTRIBUTION"
  "sl_monthly_amount (pf_employer_line a e b m) = m" "sl_source (pf_employer_line a e b m) = None"
  by (simp_all add: pf_employee_line_def pf_employer_line_def auto_line_def)

lemma auto_line_sels [simp]:
  "sl_component_code (auto_line c n args T m) = c" "sl_component_type (auto_line c n args T m) = T"
  "sl_monthly_amount (auto_line c n args T m) = m" "sl_source (auto_line c n args T m) = None"
  by (simp_all add: auto_line_def)

lemma apply_pf_sums:
  assumes c: "collected_ok w" and b: "0 < wk_basic w"
    and one: "one_line ''PF_EMPLOYEE'' EMPLOYEE_DEDUCTION (wk_lines w)"
      "one_line ''PF_EMPLOYER'' EMPLOYER_CONTRIBUTION (wk_lines w)"
  shows "sums_ok (apply_pf a e w) \<and>
     line_total EARNING (wk_lines (apply_pf a e w)) + line_total REIMBURSEMENT (wk_lines (apply_pf a e w)) = wk_gross w"
proof -
  let ?pf = "pf_contributions a e (wk_basic w)"
  let ?w = "w\<lparr>wk_deductions := wk_deductions w + epf_employee ?pf,
      wk_contributions := wk_contributions w + epf_employer_total ?pf\<rparr>"
  let ?x = "pf_employee_line a e (wk_basic w) (epf_employee ?pf)"
  let ?y = "pf_employer_line a e (wk_basic w) (epf_employer_total ?pf)"
  have eq: "apply_pf a e w = put_line ?y (put_line ?x ?w)"
    using b by (simp add: apply_pf_def Let_def)
  have "line_total T (wk_lines (apply_pf a e w)) = line_total T (other_lines (wk_lines w)) +
      (if T = EMPLOYEE_DEDUCTION then epf_employee ?pf else 0) +
      (if T = EMPLOYER_CONTRIBUTION then epf_employer_total ?pf else 0)" for T
    using put_two_lines [of ?x ?w ?y T] one
    by (simp add: eq other_lines_def)
  with c show ?thesis by (simp add: sums_ok_def collected_ok_def eq)
qed

text \<open>The later steps add lines and amounts together, and no pay.\<close>

definition adds_up :: "rat \<Rightarrow> pay_work \<Rightarrow> bool" where
  "adds_up g w \<longleftrightarrow> sums_ok w \<and> line_total EARNING (wk_lines w) + line_total REIMBURSEMENT (wk_lines w) = g \<and>
     (\<forall>l \<in> set (wk_lines w). sl_source l = None)"

lemma add_deduction_ok:
  "adds_up g w \<Longrightarrow> adds_up g (add_deduction (auto_line c n args EMPLOYEE_DEDUCTION m) w)"
  "adds_up g w \<Longrightarrow> adds_up g (add_contribution (auto_line c n args EMPLOYER_CONTRIBUTION m) w)"
  by (simp_all add: adds_up_def sums_ok_def add_deduction_def add_contribution_def)

lemma late_steps_ok:
  "adds_up g w \<Longrightarrow> adds_up g (apply_esi esi w)" "adds_up g w \<Longrightarrow> adds_up g (apply_pt pt w)"
  "adds_up g w \<Longrightarrow> adds_up g (apply_lwf lwf w)"
  by (simp_all add: apply_esi_def apply_pt_def apply_lwf_def add_deduction_ok)

lemma step_frames [simp]:
  "wk_gross (apply_pf a e w) = wk_gross w" "wk_taxable (apply_pf a e w) = wk_taxable w"
  "wk_gross (apply_esi esi w) = wk_gross w" "wk_taxable (apply_esi esi w) = wk_taxable w"
  "wk_gross (apply_pt pt w) = wk_gross w" "wk_taxable (apply_pt pt w) = wk_taxable w"
  "wk_gross (apply_lwf lwf w) = wk_gross w" "wk_taxable (apply_lwf lwf w) = wk_taxable w"
  by (simp_all add: apply_pf_def apply_esi_def apply_pt_def apply_lwf_def add_deduction_def add_contribution_def Let_def)

lemma money_arrears [simp]: "money (get_employee_arrears_for_run t e r)"
  by (simp add: get_employee_arrears_for_run_def)

lemma add_arrears_effect:
  assumes "work_money w" "money m"
  shows "wk_gross (add_arrears m w) = wk_gross w + max 0 m" "wk_taxable (add_arrears m w) = wk_taxable w + max 0 m"
    "wk_lines (add_arrears m w) = wk_lines w" "wk_deductions (add_arrears m w) = wk_deductions w"
    "wk_contributions (add_arrears m w) = wk_contributions w" "wk_basic (add_arrears m w) = wk_basic w"
  using assms by (auto simp: add_arrears_def work_money_def max_def)

text \<open>The lines of the work add up to its totals, for a template with proper provident fund lines.\<close>

lemma full_month_adds_up:
  assumes ok: "pf_template_ok a" and b: "0 < wk_basic (collect_lines a)"
  shows "adds_up (wk_gross (collect_lines a)) (full_month_work db inp e a pt lwf) \<and>
    wk_gross (full_month_work db inp e a pt lwf) =
      wk_gross (collect_lines a) + max 0 (get_employee_arrears_for_run (pd_arrears (hr_payroll db)) (em_id e) (pr_id (in_run inp)))"
proof -
  let ?m = "get_employee_arrears_for_run (pd_arrears (hr_payroll db)) (em_id e) (pr_id (in_run inp))"
  let ?w = "collect_lines a" and ?w1 = "work_after_arrears db inp e a"
  have eff: "wk_gross ?w1 = wk_gross ?w + max 0 ?m" "wk_lines ?w1 = wk_lines ?w" "wk_deductions ?w1 = wk_deductions ?w"
    "wk_contributions ?w1 = wk_contributions ?w" "wk_basic ?w1 = wk_basic ?w"
    using add_arrears_effect [OF collect_lines_money, of ?m a] by (simp_all add: work_after_arrears_def)
  have one: "one_line ''PF_EMPLOYEE'' EMPLOYEE_DEDUCTION (wk_lines ?w)"
    "one_line ''PF_EMPLOYER'' EMPLOYER_CONTRIBUTION (wk_lines ?w)"
    using ok by (auto simp: pf_template_ok_def list_all_iff intro!: collect_one_line)
  define v where "v = ?w1\<lparr>wk_gross := wk_gross ?w\<rparr>"
  have v: "collected_ok v" "wk_basic v = wk_basic ?w" "wk_lines v = wk_lines ?w" "wk_gross v = wk_gross ?w"
    using collect_lines_ok [of a] eff by (simp_all add: v_def collected_ok_def)
  have s: "sums_ok (apply_pf a e v)"
    "line_total EARNING (wk_lines (apply_pf a e v)) + line_total REIMBURSEMENT (wk_lines (apply_pf a e v)) = wk_gross ?w"
    using apply_pf_sums [OF v(1), of a e] b one v by simp_all
  have same: "wk_lines (apply_pf a e ?w1) = wk_lines (apply_pf a e v)"
    "wk_deductions (apply_pf a e ?w1) = wk_deductions (apply_pf a e v)"
    "wk_contributions (apply_pf a e ?w1) = wk_contributions (apply_pf a e v)"
    by (simp_all add: v_def apply_pf_def put_line_def has_line_def Let_def)
  have "\<forall>l \<in> set (wk_lines ?w). sl_source l = None"
  proof
    fix l assume "l \<in> set (wk_lines ?w)"
    then show "sl_source l = None" by (rule collect_lines_shape) (simp add: line_shape_def)
  qed
  then have "\<forall>l \<in> set (wk_lines (apply_pf a e ?w1)). sl_source l = None"
    by (auto simp: eff apply_pf_def put_line_def Let_def)
  with s same have "adds_up (wk_gross ?w) (apply_pf a e ?w1)"
    by (simp add: adds_up_def sums_ok_def)
  with eff(1) show ?thesis
    by (simp add: full_month_work_def Let_def late_steps_ok)
qed

section \<open>The item\<close>

abbreviation lwf_of :: "run_inputs \<Rightarrow> string \<Rightarrow> rat \<Rightarrow> lwf_result \<times> labour_welfare_fund_rule option \<times> rat" where
  "lwf_of inp code gross \<equiv>
     resolve_labour_welfare_fund_amount code gross (pr_period_month (in_run inp)) (in_lwf_rules inp)"

lemma money_lwf [simp]:
  "money (lwf_employee (fst (lwf_of inp code gross)))" "money (lwf_employer (fst (lwf_of inp code gross)))"
  by (auto simp: resolve_labour_welfare_fund_amount_def calculate_labour_welfare_fund_def Let_def split: option.splits)

lemma calculate_item_ready:
  assumes "calculate_item att db inp e a slabs code claims i = it" "ri_status it = READY"
  shows "\<exists>pt. it = ready_item att db inp e a slabs code claims pt
      (lwf_of inp code (wk_gross (work_after_arrears db inp e a))) i \<and> money (fst pt)"
proof (cases "resolve_professional_tax_amount e code (wk_gross (work_after_arrears db inp e a))
      (pr_period_month (in_run inp)) (in_pt_rules inp)")
  case (Inl err)
  with assms show ?thesis by (auto simp: calculate_item_def exception_item_def Let_def)
next
  case (Inr pt)
  then have "money (fst pt)"
    by (auto simp: resolve_professional_tax_amount_def Let_def split: option.splits)
  moreover have "it = ready_item att db inp e a slabs code claims pt
      (lwf_of inp code (wk_gross (work_after_arrears db inp e a))) i"
    using assms(1) Inr by (simp add: calculate_item_def Let_def)
  ultimately show ?thesis by blast
qed

lemma money_prorate [simp]: "money x \<Longrightarrow> money (prorate p t x)"
  by (simp add: prorate_def)

lemma reimbursement_lines:
  "line_total REIMBURSEMENT (map reimbursement_line cs) = sum_list (map total_amount cs)"
  "T \<noteq> REIMBURSEMENT \<Longrightarrow> line_total T (map reimbursement_line cs) = 0"
  "\<forall>l \<in> set (map reimbursement_line cs). sl_source l \<noteq> None"
  by (induction cs) (auto simp: reimbursement_line_def)

lemma reimbursements_total:
  "snd (build_payroll_reimbursement_lines claims) =
     line_total REIMBURSEMENT (fst (build_payroll_reimbursement_lines claims))"
  "\<not> 0 < snd (build_payroll_reimbursement_lines claims) \<Longrightarrow> fst (build_payroll_reimbursement_lines claims) = []"
proof -
  let ?p = "filter (\<lambda>c. \<not> total_amount c \<le> 0) claims"
  have m: "quantize2 (sum_list (map total_amount ?p)) = sum_list (map total_amount ?p)"
    by (intro quantize2_money money_sum_list) auto
  then show "snd (build_payroll_reimbursement_lines claims) =
     line_total REIMBURSEMENT (fst (build_payroll_reimbursement_lines claims))"
    by (simp add: build_payroll_reimbursement_lines_def Let_def reimbursement_lines)
  assume "\<not> 0 < snd (build_payroll_reimbursement_lines claims)"
  then have "sum_list (map total_amount ?p) \<le> 0"
    using m by (simp add: build_payroll_reimbursement_lines_def Let_def)
  moreover have "0 < sum_list (map total_amount ?p)" if "?p \<noteq> []"
    using that
  proof (induction claims)
    case (Cons c claims)
    have "0 \<le> sum_list (map total_amount (filter (\<lambda>c. \<not> total_amount c \<le> 0) claims))"
      by (rule sum_list_nonneg) auto
    with Cons show ?case by (auto split: if_splits simp: add_pos_nonneg)
  qed simp
  ultimately have "?p = []" by fastforce
  then show "fst (build_payroll_reimbursement_lines claims) = []"
    by (simp add: build_payroll_reimbursement_lines_def Let_def)
qed

lemma work_money_pf: "work_money w \<Longrightarrow> work_money (apply_pf a e w)"
  by (auto simp: apply_pf_def work_money_def pf_contributions_def calculate_epf_contributions_def Let_def)

lemma work_money_steps:
  "work_money w \<Longrightarrow> work_money (apply_esi (esi_of el g) w)"
  "work_money w \<Longrightarrow> money pt \<Longrightarrow> work_money (apply_pt pt w)"
  "work_money w \<Longrightarrow> money (lwf_employee lwf) \<Longrightarrow> money (lwf_employer lwf) \<Longrightarrow> work_money (apply_lwf lwf w)"
  by (auto simp: apply_esi_def apply_pt_def apply_lwf_def add_deduction_def add_contribution_def work_money_def
      esi_of_def calculate_esi_contributions_def auto_line_def Let_def)

lemma work_money_arrears: "work_money (work_after_arrears db inp e a)"
  using collect_lines_money [of a] by (auto simp: work_after_arrears_def add_arrears_def work_money_def)

lemma work_money_full:
  "money pt \<Longrightarrow> money (lwf_employee lwf) \<Longrightarrow> money (lwf_employer lwf) \<Longrightarrow> work_money (full_month_work db inp e a pt lwf)"
  by (simp add: full_month_work_def Let_def work_money_steps work_money_pf work_money_arrears)

lemma ensure_nonneg_money: "money x \<Longrightarrow> ensure_non_negative_net_pay x = max 0 x"
  by (simp add: ensure_non_negative_net_pay_def)

text \<open>The fields of a ready item, the lines apart.\<close>

lemma ready_item_fields:
  fixes db :: hr_db
  assumes it: "it = ready_item att db inp e a slabs code claims pt lwf i" and m: "money (fst pt)"
    "money (lwf_employee (fst lwf))" "money (lwf_employer (fst lwf))"
  defines "w \<equiv> full_month_work db inp e a (fst pt) (fst lwf)"
    and "reimb \<equiv> build_payroll_reimbursement_lines claims"
  obtains sn where "ri_snapshot it = Some sn" "sn_lines sn = wk_lines w @ fst reimb"
    "sn_arrears sn = get_employee_arrears_for_run (pd_arrears (hr_payroll db)) (em_id e) (pr_id (in_run inp))"
    "sn_paid_days sn = paid_days_of e (in_period_start inp) (in_period_end inp)"
    "sn_total_days_in_period sn = total_days inp" "sn_expense_reimbursements sn = snd reimb"
    "ri_gross_pay it = prorate (sn_paid_days sn) (sn_total_days_in_period sn) (wk_gross w) + snd reimb"
    "ri_employee_deductions it = prorate (sn_paid_days sn) (sn_total_days_in_period sn) (wk_deductions w)"
    "ri_employer_contributions it = prorate (sn_paid_days sn) (sn_total_days_in_period sn) (wk_contributions w)"
    "sn_lop_deduction sn = lop_deduction_of (sn_lop_days sn)
       (prorate (sn_paid_days sn) (sn_total_days_in_period sn) (wk_gross w)) (sn_total_days_in_period sn)"
    "ri_total_deductions it = ri_employee_deductions it + ri_income_tax it + sn_lop_deduction sn"
    "ri_net_pay it = max 0 (ri_gross_pay it - ri_total_deductions it)"
proof -
  obtain sn where sn: "ri_snapshot it = Some sn" by (simp add: it ready_item_def Let_def)
  have wm: "money (wk_gross w)" "money (wk_deductions w)" "money (wk_contributions w)"
    using work_money_full [OF m, of db inp e a] by (simp_all add: w_def work_money_def)
  have rm: "money (snd reimb)" by (simp add: reimb_def build_payroll_reimbursement_lines_def Let_def)
  have r0: "fst reimb = [] \<and> snd reimb = 0" if "\<not> 0 < snd reimb"
    using reimbursements_total [of claims] that by (simp add: reimb_def)
  let ?p = "paid_days_of e (in_period_start inp) (in_period_end inp)" and ?t = "total_days inp"
  have p: "sn_paid_days sn = ?p" "sn_total_days_in_period sn = ?t"
    using sn unfolding it ready_item_def Let_def by auto
  have lop: "sn_lop_deduction sn = lop_deduction_of (sn_lop_days sn) (prorate ?p ?t (wk_gross w)) ?t"
    using sn unfolding it ready_item_def Let_def w_def by auto
  then have lm: "money (sn_lop_deduction sn)" using wm by (simp add: lop_deduction_of_def)
  have g: "ri_gross_pay it = prorate ?p ?t (wk_gross w) + snd reimb"
    using wm rm r0 by (auto simp: it ready_item_def Let_def w_def reimb_def)
  have d: "ri_employee_deductions it = prorate ?p ?t (wk_deductions w)"
    "ri_employer_contributions it = prorate ?p ?t (wk_contributions w)"
    using wm by (simp_all add: it ready_item_def Let_def w_def)
  have tax: "money (ri_income_tax it)" by (simp add: it ready_item_def Let_def)
  have "ri_total_deductions it = quantize2 (prorate ?p ?t (wk_deductions w) + ri_income_tax it + sn_lop_deduction sn)"
    using sn by (auto simp: it ready_item_def Let_def w_def)
  with wm tax lm d have tot: "ri_total_deductions it = ri_employee_deductions it + ri_income_tax it + sn_lop_deduction sn"
    by simp
  have "money (ri_gross_pay it)" "money (ri_total_deductions it)" using g tot d wm rm tax lm by auto
  moreover have "ri_net_pay it = ensure_non_negative_net_pay (ri_gross_pay it - ri_total_deductions it)"
    using wm rm by (auto simp: it ready_item_def Let_def w_def reimb_def)
  ultimately have net: "ri_net_pay it = max 0 (ri_gross_pay it - ri_total_deductions it)"
    by (simp add: ensure_nonneg_money)
  have lines: "sn_lines sn = wk_lines w @ fst reimb"
    using sn r0 unfolding it ready_item_def Let_def w_def reimb_def by auto
  have "sn_arrears sn = get_employee_arrears_for_run (pd_arrears (hr_payroll db)) (em_id e) (pr_id (in_run inp))"
    "sn_expense_reimbursements sn = snd reimb"
    using sn unfolding it ready_item_def Let_def reimb_def by auto
  with sn lines p lop g d tot net show ?thesis using that by simp
qed

section \<open>Properties\<close>

text \<open>
  C3: The lines of a ready item account for its totals. For a template with at most one provident
  fund line of each kind and a positive basic pay: gross pay is the pro-rated sum of the earning and
  reimbursement lines and the arrears, plus the expense claims; deductions and employer contributions
  are the pro-rated sums of their lines, the computed provident fund, insurance and tax lines
  included; total deductions add income tax and loss of pay; net pay is the difference, at least zero.
\<close>

theorem item_reconciles_with_lines:
  assumes "calculate_item att db inp e a slabs code claims i = it" "ri_status it = READY"
    and "pf_template_ok a" "0 < wk_basic (collect_lines a)"
  shows "\<exists>sn. ri_snapshot it = Some sn \<and>
    (let scale = prorate (sn_paid_days sn) (sn_total_days_in_period sn);
         own = filter (\<lambda>l. sl_source l = None) (sn_lines sn);
         claimed = filter (\<lambda>l. sl_source l \<noteq> None) (sn_lines sn)
     in ri_gross_pay it = scale (line_total EARNING own + line_total REIMBURSEMENT own + max 0 (sn_arrears sn))
          + line_total REIMBURSEMENT claimed \<and>
        sn_expense_reimbursements sn = line_total REIMBURSEMENT claimed \<and>
        ri_employee_deductions it = scale (line_total EMPLOYEE_DEDUCTION (sn_lines sn)) \<and>
        ri_employer_contributions it = scale (line_total EMPLOYER_CONTRIBUTION (sn_lines sn)) \<and>
        ri_total_deductions it = ri_employee_deductions it + ri_income_tax it + sn_lop_deduction sn \<and>
        ri_net_pay it = max 0 (ri_gross_pay it - ri_total_deductions it))"
proof -
  let ?g = "wk_gross (work_after_arrears db inp e a)" and ?r = "build_payroll_reimbursement_lines claims"
  obtain pt where it: "it = ready_item att db inp e a slabs code claims pt (lwf_of inp code ?g) i" and pt: "money (fst pt)"
    using calculate_item_ready [OF assms(1,2)] by blast
  let ?w = "full_month_work db inp e a (fst pt) (fst (lwf_of inp code ?g))"
  from ready_item_fields [OF it pt money_lwf] obtain sn where sn: "ri_snapshot it = Some sn" "sn_lines sn = wk_lines ?w @ fst ?r"
    "sn_arrears sn = get_employee_arrears_for_run (pd_arrears (hr_payroll db)) (em_id e) (pr_id (in_run inp))"
    "sn_expense_reimbursements sn = snd ?r"
    "ri_gross_pay it = prorate (sn_paid_days sn) (sn_total_days_in_period sn) (wk_gross ?w) + snd ?r"
    "ri_employee_deductions it = prorate (sn_paid_days sn) (sn_total_days_in_period sn) (wk_deductions ?w)"
    "ri_employer_contributions it = prorate (sn_paid_days sn) (sn_total_days_in_period sn) (wk_contributions ?w)"
    "ri_total_deductions it = ri_employee_deductions it + ri_income_tax it + sn_lop_deduction sn"
    "ri_net_pay it = max 0 (ri_gross_pay it - ri_total_deductions it)"
    by metis
  have w: "adds_up (wk_gross (collect_lines a)) ?w" "wk_gross ?w = wk_gross (collect_lines a) + max 0 (sn_arrears sn)"
    using full_month_adds_up [OF assms(3,4)] by (simp_all add: sn(3))
  have r: "\<forall>l \<in> set (fst ?r). sl_source l \<noteq> None" "T \<noteq> REIMBURSEMENT \<Longrightarrow> line_total T (fst ?r) = 0"
    "snd ?r = line_total REIMBURSEMENT (fst ?r)" for T
    using reimbursements_total(1) [of claims] reimbursement_lines(2)
      reimbursement_lines(3) [of "filter (\<lambda>c. \<not> total_amount c \<le> 0) claims"]
    by (simp_all add: build_payroll_reimbursement_lines_def Let_def)
  have split: "filter (\<lambda>l. sl_source l = None) (sn_lines sn) = wk_lines ?w"
    "filter (\<lambda>l. sl_source l \<noteq> None) (sn_lines sn) = fst ?r"
    using w(1) r(1) by (auto simp: sn(2) adds_up_def filter_id_conv filter_empty_conv)
  show ?thesis
    using sn w r(2,3) split by (intro exI [of _ sn]) (simp add: Let_def adds_up_def sums_ok_def)
qed

lemma example_item_ready: "ri_status example_item = READY"
  by code_simp

theorem item_reconciles_with_lines_witness:
  "\<exists>sn. ri_snapshot example_item = Some sn \<and>
     ri_employee_deductions example_item = prorate (sn_paid_days sn) (sn_total_days_in_period sn)
       (line_total EMPLOYEE_DEDUCTION (sn_lines sn)) \<and>
     ri_net_pay example_item = max 0 (ri_gross_pay example_item - ri_total_deductions example_item)"
proof -
  have h: "pf_template_ok example_assignment" "0 < wk_basic (collect_lines example_assignment)"
    by code_simp+
  show ?thesis
    using item_reconciles_with_lines [OF example_item_def [symmetric] example_item_ready h] by (auto simp: Let_def)
qed

lemma paid_days_bounds:
  assumes "1 \<le> m" "m \<le> 12"
  shows "0 \<le> paid_days_of e (Date y m 1) (Date y m (days_in_month y m))"
    "paid_days_of e (Date y m 1) (Date y m (days_in_month y m)) \<le> days_in_month y m"
proof -
  let ?a = "Date y m 1" and ?b = "Date y m (days_in_month y m)"
  have in_month: "yr d = y \<and> mo d = m \<and> 1 \<le> dy d \<and> dy d \<le> days_in_month y m" if "?a \<le> d" "d \<le> ?b" for d
    using that by (cases d) auto
  have s: "?a \<le> paid_period_start j ?a ?b \<and> paid_period_start j ?a ?b \<le> ?b" for j
    using days_in_month_bounds [of y m] by (auto simp: paid_period_start_def split: option.splits)
  have t: "?a \<le> paid_period_end x ?a ?b \<and> paid_period_end x ?a ?b \<le> ?b" for x
    using days_in_month_bounds [of y m] by (auto simp: paid_period_end_def split: option.splits)
  let ?s = "paid_period_start (em_date_of_joining e) ?a ?b" and ?t = "paid_period_end (em_date_of_exit e) ?a ?b"
  have "days_between ?s ?t = dy ?t - dy ?s"
    using in_month [of ?s] in_month [of ?t] s t by (simp add: days_between_def toordinal_def)
  then have "days_between ?s ?t + 1 \<le> days_in_month y m"
    using in_month [of ?s] in_month [of ?t] s t by auto
  then show "0 \<le> paid_days_of e ?a ?b" "paid_days_of e ?a ?b \<le> days_in_month y m"
    using days_in_month_bounds [of y m] by (auto simp: paid_days_of_def)
qed

lemma prorate_bounds:
  assumes "0 \<le> x" "money x" "x < 10 ^ 26" "0 \<le> p" "0 < t"
  shows "0 \<le> prorate p t x" "prorate p t x \<le> x"
proof -
  have f: "0 \<le> prorate_factor p t" using assms(4,5) by (simp add: prorate_factor_def ddiv_nonneg)
  have f1: "prorate_factor p t \<le> 1"
    using assms(4,5) by (auto simp: prorate_factor_def ddiv_def intro!: ctx.rnd_le_fixed money_dec_ctx)
  show "0 \<le> prorate p t x"
    using assms f by (simp add: prorate_def quant.rnd_nonneg dmul_nonneg)
  show "prorate p t x \<le> x"
    using assms f f1 by (auto simp: prorate_def intro!: quantize2_dmul_le mult_right_le_one_le)
qed

lemma lop_bounds:
  assumes "money g" "0 \<le> g" "0 \<le> d"
  shows "0 \<le> lop_deduction_of d g t" "lop_deduction_of d g t \<le> g"
  using assms by (auto simp: lop_deduction_of_def quant.rnd_nonneg dmul_nonneg ddiv_nonneg)

text \<open>
  Bounds of the pro-ration and of loss of pay: an employee is paid between none and all days of
  the period; a pro-rated amount lies between zero and the full amount; the loss of pay never
  exceeds the pro-rated gross pay; and net pay is never negative.
\<close>

theorem proration_within_bounds:
  assumes "calculate_item att db inp e a slabs code claims i = it" "ri_status it = READY"
    and "in_period_start inp = Date y m 1" "in_period_end inp = Date y m (days_in_month y m)" "1 \<le> m" "m \<le> 12"
    and "wk_gross (work_after_arrears db inp e a) = g" "0 \<le> g" "g < 10 ^ 26"
  shows "\<exists>sn. ri_snapshot it = Some sn \<and>
    0 \<le> sn_paid_days sn \<and> sn_paid_days sn \<le> days_in_month y m \<and> sn_total_days_in_period sn = days_in_month y m \<and>
    (let paid = ri_gross_pay it - sn_expense_reimbursements sn
     in 0 \<le> paid \<and> paid \<le> g \<and> (sn_paid_days sn = days_in_month y m \<longrightarrow> paid = g) \<and>
        (0 \<le> sn_lop_days sn \<longrightarrow> 0 \<le> sn_lop_deduction sn \<and> sn_lop_deduction sn \<le> paid)) \<and>
    0 \<le> ri_net_pay it"
proof -
  obtain pt where it: "it = ready_item att db inp e a slabs code claims pt (lwf_of inp code g) i" and pt: "money (fst pt)"
    using calculate_item_ready [OF assms(1,2)] assms(7) by blast
  let ?w = "full_month_work db inp e a (fst pt) (fst (lwf_of inp code g))"
  from ready_item_fields [OF it pt money_lwf] obtain sn where sn: "ri_snapshot it = Some sn"
    "sn_paid_days sn = paid_days_of e (in_period_start inp) (in_period_end inp)"
    "sn_total_days_in_period sn = total_days inp"
    "ri_gross_pay it = prorate (sn_paid_days sn) (sn_total_days_in_period sn) (wk_gross ?w) + sn_expense_reimbursements sn"
    "sn_lop_deduction sn = lop_deduction_of (sn_lop_days sn)
       (prorate (sn_paid_days sn) (sn_total_days_in_period sn) (wk_gross ?w)) (sn_total_days_in_period sn)"
    "ri_net_pay it = max 0 (ri_gross_pay it - ri_total_deductions it)"
    by metis
  have g: "wk_gross ?w = g" "money g"
    using work_money_arrears [of db inp e a] assms(7) by (simp_all add: full_month_work_def Let_def work_money_def)
  have d: "0 \<le> sn_paid_days sn" "sn_paid_days sn \<le> days_in_month y m" "sn_total_days_in_period sn = days_in_month y m"
    "0 < days_in_month y m"
    using paid_days_bounds [OF assms(5,6), of e y] days_in_month_bounds [of y m]
    by (simp_all add: sn(2,3) assms(3,4) total_days_def)
  let ?p = "prorate (sn_paid_days sn) (days_in_month y m) g"
  have p: "0 \<le> ?p" "?p \<le> g" "sn_paid_days sn = days_in_month y m \<Longrightarrow> ?p = g"
    using prorate_bounds [OF assms(8) g(2) assms(9) d(1,4)] by (simp_all add: prorate_def)
  show ?thesis
    using sn d g p lop_bounds [of ?p "sn_lop_days sn" "days_in_month y m"]
    by (intro exI [of _ sn]) (simp add: Let_def)
qed

theorem proration_within_bounds_witness:
  "\<exists>sn. ri_snapshot example_item = Some sn \<and> sn_paid_days sn \<le> 30 \<and> 0 \<le> ri_net_pay example_item"
proof -
  have h: "in_period_start example_inputs = Date 2025 6 1" "days_in_month 2025 6 = 30"
    "in_period_end example_inputs = Date 2025 6 (days_in_month 2025 6)"
    "wk_gross (work_after_arrears example_hr_db example_inputs (example_employee 10 (Some 20)) example_assignment) = 90000"
    by code_simp+
  show ?thesis
    using proration_within_bounds [OF example_item_def [symmetric] example_item_ready h(1,3) _ _ h(4)]
    by (auto simp: h(2) Let_def)
qed

section \<open>Well-formed items\<close>

definition lines_money :: "snapshot_line list \<Rightarrow> bool" where
  "lines_money ls \<longleftrightarrow> (\<forall>l \<in> set ls. money (sl_monthly_amount l))"

lemma lines_money_simps [simp]:
  "lines_money []"
  "lines_money (l # ls) \<longleftrightarrow> money (sl_monthly_amount l) \<and> lines_money ls"
  "lines_money (ls @ ls') \<longleftrightarrow> lines_money ls \<and> lines_money ls'"
  by (auto simp: lines_money_def)

lemma collected_lines_money: "lines_money (wk_lines (collect_lines a))"
  unfolding collect_lines_def
proof (rule fold_induct [where P = "\<lambda>w. lines_money (wk_lines w)"])
  fix l and w :: pay_work
  assume "lines_money (wk_lines w)"
  then show "lines_money (wk_lines (collect_line l w))"
    by (cases "al_component_type l") (simp_all add: collect_line_def component_line_def Let_def)
qed (simp add: empty_work_def)

lemma put_line_money:
  "lines_money (wk_lines w) \<Longrightarrow> money (sl_monthly_amount auto) \<Longrightarrow> lines_money (wk_lines (put_line auto w))"
  by (auto simp: put_line_def lines_money_def overwrite_line_def)

lemma pf_contributions_money [simp]:
  "money (epf_employee (pf_contributions a e b))" "money (epf_employer_total (pf_contributions a e b))"
  by (simp_all add: pf_contributions_def calculate_epf_contributions_def no_pf_def Let_def)

lemma full_month_lines_money:
  assumes "money pt" "money (lwf_employee lwf)" "money (lwf_employer lwf)"
  shows "lines_money (wk_lines (full_month_work db inp e a pt lwf))"
proof -
  have "lines_money (wk_lines (work_after_arrears db inp e a))"
    using collected_lines_money [of a] by (simp add: work_after_arrears_def add_arrears_def)
  then have "lines_money (wk_lines (apply_pf a e (work_after_arrears db inp e a)))"
    by (auto simp: apply_pf_def Let_def pf_employee_line_def pf_employer_line_def auto_line_def intro!: put_line_money)
  moreover have "lines_money (wk_lines (apply_lwf lwf (apply_pt pt (apply_esi (esi_of el g) w))))"
    if "lines_money (wk_lines w)" for w el g
    using that assms
    by (auto simp: apply_esi_def apply_pt_def apply_lwf_def add_deduction_def add_contribution_def auto_line_def
        esi_of_def calculate_esi_contributions_def Let_def)
  ultimately show ?thesis by (simp add: full_month_work_def Let_def)
qed

lemma reimbursement_lines_money: "lines_money (fst (build_payroll_reimbursement_lines claims))"
  by (auto simp: build_payroll_reimbursement_lines_def lines_money_def reimbursement_line_def Let_def)

definition amounts_of :: "payroll_run_item \<Rightarrow> rat list" where
  "amounts_of it = [ri_gross_pay it, ri_employee_deductions it, ri_employer_contributions it, ri_eps_employer it,
     ri_epf_employer it, ri_income_tax it, ri_total_deductions it, ri_net_pay it]"

definition snapshot_amounts :: "item_snapshot \<Rightarrow> rat list" where
  "snapshot_amounts sn = [sn_arrears sn, sn_expense_reimbursements sn, sn_auto_pf sn, sn_pf_employer sn, sn_esi_employee sn,
     sn_esi_employer sn, sn_pt_monthly sn, sn_lwf_employee sn, sn_lwf_employer sn, sn_lop_deduction sn,
     sn_annual_taxable_gross sn, sn_annual_investment_deductions sn]"

definition item_well_formed :: "payroll_run_item \<Rightarrow> bool" where
  "item_well_formed it \<longleftrightarrow>
     list_all money (amounts_of it) \<and> 0 \<le> ri_net_pay it \<and>
     (case ri_status it of
        READY \<Rightarrow> (\<exists>sn. ri_snapshot it = Some sn \<and> lines_money (sn_lines sn) \<and> list_all money (snapshot_amounts sn))
      | EXCEPTION \<Rightarrow> ri_snapshot it = None \<and> list_all (\<lambda>x. x = 0) (amounts_of it))"

lemma ready_item_well_formed:
  assumes "money (fst pt)" "money (lwf_employee (fst lwf))" "money (lwf_employer (fst lwf))"
  shows "item_well_formed (ready_item att db inp e a slabs code claims pt lwf i)" (is "item_well_formed ?it")
proof -
  let ?w = "full_month_work db inp e a (fst pt) (fst lwf)"
  obtain sn where sn: "ri_snapshot ?it = Some sn" "sn_lines sn = wk_lines ?w @ fst (build_payroll_reimbursement_lines claims)"
      "ri_net_pay ?it = max 0 (ri_gross_pay ?it - ri_total_deductions ?it)"
    using ready_item_fields [OF refl assms] by metis
  have lines: "lines_money (sn_lines sn)"
    using full_month_lines_money [OF assms] reimbursement_lines_money by (simp add: sn(2))
  have own: "list_all money (amounts_of ?it)"
    by (simp add: amounts_of_def sn(3)) (simp add: ready_item_def Let_def)
  have "money (wk_gross ?w)" using work_money_full [OF assms] by (simp add: work_money_def)
  then have "list_all money (snapshot_amounts sn)"
    using sn(1) assms
    by (auto simp: snapshot_amounts_def ready_item_def Let_def lop_deduction_of_def esi_of_def
        calculate_esi_contributions_def build_payroll_reimbursement_lines_def get_employee_arrears_for_run_def)
  with sn lines own show ?thesis by (auto simp: item_well_formed_def ready_item_def Let_def)
qed

text \<open>what a calculation stores is well formed, whatever the attendance service, the tables and the claims
say: every amount of an item is a decimal of two places, net pay is not negative, a ready item carries a
snapshot whose lines and amounts have two places too, and an item that could not be computed carries
zeroes and no snapshot.\<close>

theorem calculated_item_well_formed:
  "item_well_formed (calculate_item att db inp e a slabs code claims i)"
proof (cases "resolve_professional_tax_amount e code (wk_gross (work_after_arrears db inp e a))
      (pr_period_month (in_run inp)) (in_pt_rules inp)")
  case (Inl err)
  then show ?thesis
    by (simp add: calculate_item_def exception_item_def item_well_formed_def amounts_of_def Let_def)
next
  case (Inr pt)
  then have "money (fst pt)"
    by (auto simp: resolve_professional_tax_amount_def Let_def split: option.splits)
  with Inr show ?thesis by (simp add: calculate_item_def Let_def ready_item_well_formed)
qed

end
