(* ===== verification/HrCommit.thy ===== *)
theory HrCommit
  imports HrState
begin

text \<open>
  Requests are not wrapped in a transaction, so a function that raises keeps what it wrote before,
  except inside \<open>transaction.atomic()\<close>. Such a function returns the state it leaves together with
  its value or error; \<open>then_do\<close> runs one step after another, \<open>atomically\<close> is a transaction.
\<close>

type_synonym ('s, 'a) step_result = "'s \<times> 'a res"
type_synonym 'a outcome = "(hr_state, 'a) step_result"

definition give :: "'a \<Rightarrow> 's \<Rightarrow> ('s, 'a) step_result" where
  "give a st = (st, Inr a)"

definition fail :: "py_error \<Rightarrow> 's \<Rightarrow> ('s, 'a) step_result" where
  "fail e st = (st, Inl e)"

definition then_do ::
  "('s, 'a) step_result \<Rightarrow> ('a \<Rightarrow> 's \<Rightarrow> ('s, 'b) step_result) \<Rightarrow> ('s, 'b) step_result" where
  "then_do x f = (case snd x of Inl e \<Rightarrow> (fst x, Inl e) | Inr a \<Rightarrow> f a (fst x))"

definition atomically :: "('s \<times> 'a) res \<Rightarrow> 's \<Rightarrow> ('s, 'a) step_result" where
  "atomically r st = (case r of Inl e \<Rightarrow> (st, Inl e) | Inr (st', a) \<Rightarrow> (st', Inr a))"

definition from_res :: "'a res \<Rightarrow> 's \<Rightarrow> ('s, 'a) step_result" where
  "from_res r st = (st, r)"

lemma outcome_simps [simp]:
  "then_do (st, Inl e) f = (st, Inl e)" "then_do (st, Inr a) f = f a st"
  "atomically (Inl e) st = (st, Inl e)" "atomically (Inr (st', a)) st = (st', Inr a)"
  "from_res r st = (st, r)" "give a st = (st, Inr a)" "fail e st = (st, Inl e)"
  by (simp_all add: then_do_def atomically_def from_res_def give_def fail_def)

lemma then_do_Inr:
  "then_do x f = (st', Inr b) \<longleftrightarrow> (\<exists>a st. x = (st, Inr a) \<and> f a st = (st', Inr b))"
  by (cases x; cases "snd x") (auto simp: then_do_def)

lemma then_do_cases:
  assumes "then_do x f = (st', r)"
  obtains (raised) e where "x = (st', Inl e)" "r = Inl e" | (ran) st a where "x = (st, Inr a)" "f a st = (st', r)"
  using assms by (cases x; cases "snd x") (auto simp: then_do_def)

text \<open>A property every step keeps, whether it raises or not.\<close>

definition keeps :: "(hr_state \<Rightarrow> bool) \<Rightarrow> (hr_state \<Rightarrow> 'a outcome) \<Rightarrow> bool" where
  "keeps P f \<longleftrightarrow> (\<forall>st. P st \<longrightarrow> P (fst (f st)))"

lemma then_do_keeps:
  assumes "P (fst x)" "\<And>a st. x = (st, Inr a) \<Longrightarrow> P (fst (f a st))"
  shows "P (fst (then_do x f))"
  using assms by (cases x; cases "snd x") auto

lemma atomically_keeps:
  assumes "P st" "\<And>st' a. r = Inr (st', a) \<Longrightarrow> P st'"
  shows "P (fst (atomically r st))"
  using assms by (cases r) auto

end
