(* ===== verification/TimeoffPlans.thy ===== *)
theory TimeoffPlans
  imports PayrollRules HrCommit
begin

text \<open>
  Leave cycles, plans, on-duty policies and holiday calendars (\<open>timeoff/services.py\<close>): their upserts, which
  keep at most one default, the plan of an employee, and the window of a cycle around a date. The
  keyword arguments of an upsert are a record of options, absent ones keeping the row's value or,
  on creation, the column's default.
\<close>

section \<open>One default per organisation\<close>

text \<open>
  The contract the upserts share: other rows with the same key lose their default before a row that
  is to be default is written.
\<close>

definition clear_defaults :: "('r \<Rightarrow> 'k) \<Rightarrow> ('r \<Rightarrow> uid) \<Rightarrow> ('r \<Rightarrow> 'r) \<Rightarrow> 'k \<Rightarrow> uid option \<Rightarrow> 'r list \<Rightarrow> 'r list" where
  "clear_defaults key ident undefault k keep t =
     update_where (\<lambda>r. key r = k \<and> Some (ident r) \<noteq> keep) undefault t"

definition one_default :: "('r \<Rightarrow> 'k) \<Rightarrow> ('r \<Rightarrow> uid) \<Rightarrow> ('r \<Rightarrow> bool) \<Rightarrow> 'r list \<Rightarrow> bool" where
  "one_default key ident dflt t \<longleftrightarrow> distinct (map ident t) \<and>
     (\<forall>x \<in> set t. \<forall>y \<in> set t. dflt x \<and> dflt y \<and> key x = key y \<longrightarrow> ident x = ident y)"

definition below :: "nat \<Rightarrow> ('r \<Rightarrow> nat) \<Rightarrow> 'r list \<Rightarrow> bool" where
  "below n ident t \<longleftrightarrow> (\<forall>r \<in> set t. ident r < n)"

lemma below_mono: "below n ident t \<Longrightarrow> n \<le> m \<Longrightarrow> below m ident t"
  by (auto simp: below_def)

lemma below_fresh: "below n ident t \<Longrightarrow> n \<notin> ident ` set t"
  by (auto simp: below_def)

lemma below_append [simp]: "below n ident (t @ [r]) \<longleftrightarrow> below n ident t \<and> ident r < n"
  by (auto simp: below_def)

lemma below_update_where:
  "below n ident t \<Longrightarrow> (\<And>r. P r \<Longrightarrow> ident (f r) = ident r) \<Longrightarrow> below n ident (update_where P f t)"
  by (auto simp: below_def set_update_where)

locale defaulted =
  fixes key :: "'r \<Rightarrow> 'k" and ident :: "'r \<Rightarrow> uid" and dflt :: "'r \<Rightarrow> bool" and undefault :: "'r \<Rightarrow> 'r"
  assumes key_undefault: "key (undefault r) = key r"
    and ident_undefault: "ident (undefault r) = ident r"
    and dflt_undefault: "\<not> dflt (undefault r)"
begin

abbreviation clear where "clear \<equiv> clear_defaults key ident undefault"
abbreviation single where "single \<equiv> one_default key ident dflt"

lemma clear_default_mem:
  "x \<in> set (clear k keep t) \<Longrightarrow> dflt x \<Longrightarrow> x \<in> set t \<and> (key x = k \<longrightarrow> Some (ident x) = keep)"
  by (auto simp: clear_defaults_def set_update_where dflt_undefault split: if_splits)

lemma clear_idents [simp]: "map ident (clear k keep t) = map ident t"
  by (simp add: clear_defaults_def map_update_where_frame ident_undefault)

lemma singleI:
  assumes "distinct (map ident t)"
    and "\<And>x y. x \<in> set t \<Longrightarrow> y \<in> set t \<Longrightarrow> dflt x \<Longrightarrow> dflt y \<Longrightarrow> key x = key y \<Longrightarrow> ident x = ident y"
  shows "single t"
  using assms unfolding one_default_def by blast

lemma singleD:
  assumes "single t"
  shows "distinct (map ident t)"
    "x \<in> set t \<Longrightarrow> y \<in> set t \<Longrightarrow> dflt x \<Longrightarrow> dflt y \<Longrightarrow> key x = key y \<Longrightarrow> ident x = ident y"
  using assms unfolding one_default_def by blast+

lemma clear_single:
  assumes "single t"
  shows "single (clear k keep t)"
proof (rule singleI)
  show "distinct (map ident (clear k keep t))" unfolding clear_idents by (rule singleD(1) [OF assms])
next
  fix x y
  assume "x \<in> set (clear k keep t)" "y \<in> set (clear k keep t)" "dflt x" "dflt y" "key x = key y"
  then show "ident x = ident y" using clear_default_mem singleD(2) [OF assms] by blast
qed

lemma insert_single:
  assumes "single t" "ident r \<notin> ident ` set t"
  shows "single ((if dflt r then clear (key r) None t else t) @ [r])"
proof -
  define u where "u = (if dflt r then clear (key r) None t else t)"
  have one: "single u" using assms(1) clear_single by (simp add: u_def)
  have "map ident u = map ident t" by (simp add: u_def)
  then have ids: "ident ` set u = ident ` set t" by (metis set_map)
  have ne: "key x \<noteq> key r" if "dflt r" "x \<in> set u" "dflt x" for x
    using that clear_default_mem [of x "key r" None t] by (auto simp: u_def)
  have "single (u @ [r])"
  proof (rule singleI)
    show "distinct (map ident (u @ [r]))"
      using singleD(1) [OF one] ids assms(2) by simp
  next
    fix x y
    assume xy: "x \<in> set (u @ [r])" "y \<in> set (u @ [r])" "dflt x" "dflt y" "key x = key y"
    have "x = r \<or> x \<in> set u" "y = r \<or> y \<in> set u" using xy(1,2) by simp_all
    then show "ident x = ident y"
      using xy(3-5) ne [of x] ne [of y] singleD(2) [OF one, of x y] by metis
  qed
  then show ?thesis by (simp add: u_def)
qed

lemma rewrite_single:
  assumes "single t" "ident r = i"
  shows "single (update_where (\<lambda>x. ident x = i) (\<lambda>_. r) (if dflt r then clear (key r) (Some i) t else t))"
proof -
  define u where "u = (if dflt r then clear (key r) (Some i) t else t)"
  have one: "single u" using assms(1) clear_single by (simp add: u_def)
  have other: "ident x = i" if "dflt r" "x \<in> set u" "dflt x" "key x = key r" for x
    using that clear_default_mem [of x "key r" "Some i" t] by (auto simp: u_def)
  have "single (update_where (\<lambda>x. ident x = i) (\<lambda>_. r) u)"
  proof (rule singleI)
    have "map ident (update_where (\<lambda>x. ident x = i) (\<lambda>_. r) u) = map ident u"
      using assms(2) by (intro map_update_where_frame) simp
    then show "distinct (map ident (update_where (\<lambda>x. ident x = i) (\<lambda>_. r) u))"
      using singleD(1) [OF one] by simp
  next
    fix x y
    assume xy: "x \<in> set (update_where (\<lambda>x. ident x = i) (\<lambda>_. r) u)" "y \<in> set (update_where (\<lambda>x. ident x = i) (\<lambda>_. r) u)"
      "dflt x" "dflt y" "key x = key y"
    have "x = r \<or> x \<in> set u" "y = r \<or> y \<in> set u" using xy(1,2) by (auto elim: mem_update_whereE)
    then show "ident x = ident y"
      using xy(3-5) other singleD(2) [OF one] assms(2) by metis
  qed
  then show ?thesis by (simp add: u_def)
qed

lemma clear_below: "below n ident (clear k keep t) = below n ident t"
  using clear_idents [of k keep t] unfolding below_def by (metis (no_types, lifting) image_eqI imageE list.set_map)

lemma insert_ok:
  assumes "single t" "below n ident t" "ident r = n" "key r = k"
  shows "single ((if dflt r then clear k None t else t) @ [r])"
    and "below (Suc n) ident ((if dflt r then clear k None t else t) @ [r])"
proof -
  show "single ((if dflt r then clear k None t else t) @ [r])"
    unfolding assms(4) [symmetric] by (rule insert_single) (simp_all add: assms below_fresh)
  show "below (Suc n) ident ((if dflt r then clear k None t else t) @ [r])"
    using assms(3) below_mono [OF assms(2), of "Suc n"] by (simp add: clear_below)
qed

lemma rewrite_ok:
  assumes "single t" "below n ident t" "ident r = i" "key r = k" "i < n"
  shows "single (update_where (\<lambda>x. ident x = i) (\<lambda>_. r) (if dflt r then clear k (Some i) t else t))"
    and "below n ident (update_where (\<lambda>x. ident x = i) (\<lambda>_. r) (if dflt r then clear k (Some i) t else t))"
proof -
  show "single (update_where (\<lambda>x. ident x = i) (\<lambda>_. r) (if dflt r then clear k (Some i) t else t))"
    unfolding assms(4) [symmetric] by (rule rewrite_single) (simp_all add: assms)
  show "below n ident (update_where (\<lambda>x. ident x = i) (\<lambda>_. r) (if dflt r then clear k (Some i) t else t))"
    using assms(2,3) by (simp add: clear_below below_update_where)
qed

lemma frame_single:
  assumes "single t" "\<And>x. ident (f x) = ident x \<and> key (f x) = key x \<and> dflt (f x) = dflt x"
  shows "single (update_where P f t)"
proof (rule singleI)
  show "distinct (map ident (update_where P f t))"
    using singleD(1) [OF assms(1)] assms(2) by (simp add: map_update_where_frame)
next
  have pre: "\<exists>z \<in> set t. ident z = ident x \<and> key z = key x \<and> dflt z = dflt x" if "x \<in> set (update_where P f t)" for x
    using that assms(2) by (elim mem_update_whereE) auto
  fix x y
  assume "x \<in> set (update_where P f t)" "y \<in> set (update_where P f t)" "dflt x" "dflt y" "key x = key y"
  with pre [of x] pre [of y] singleD(2) [OF assms(1)] show "ident x = ident y" by metis
qed

end

section \<open>Leave cycles\<close>

definition get_default_leave_cycle :: "timeoff_db \<Rightarrow> uid \<Rightarrow> leave_cycle option" where
  "get_default_leave_cycle db org =
     first_row (\<lambda>c. lc_organisation c = org \<and> lc_is_default c \<and> lc_is_active c) (sort_key lc_name (td_cycles db))"

record leave_cycle_fields =
  lf_name :: "string option"
  lf_cycle_type :: "leave_cycle_type option"
  lf_start_month :: "int option"
  lf_start_day :: "int option"
  lf_is_default :: "bool option"
  lf_is_active :: "bool option"

definition set_cycle_fields :: "leave_cycle_fields \<Rightarrow> leave_cycle \<Rightarrow> leave_cycle" where
  "set_cycle_fields fs c =
     c\<lparr>lc_name := or_else (lf_name fs) (lc_name c), lc_cycle_type := or_else (lf_cycle_type fs) (lc_cycle_type c),
       lc_start_month := or_else (lf_start_month fs) (lc_start_month c),
       lc_start_day := or_else (lf_start_day fs) (lc_start_day c),
       lc_is_default := or_else (lf_is_default fs) (lc_is_default c),
       lc_is_active := or_else (lf_is_active fs) (lc_is_active c)\<rparr>"

definition new_leave_cycle :: "uid \<Rightarrow> uid \<Rightarrow> leave_cycle" where
  "new_leave_cycle i org =
     \<lparr>lc_id = i, lc_organisation = org, lc_name = [], lc_cycle_type = CALENDAR_YEAR, lc_start_month = 1,
      lc_start_day = 1, lc_is_default = False, lc_is_active = True\<rparr>"

definition clear_default_cycles :: "uid \<Rightarrow> uid option \<Rightarrow> leave_cycle list \<Rightarrow> leave_cycle list" where
  "clear_default_cycles = clear_defaults lc_organisation lc_id (\<lambda>c. c\<lparr>lc_is_default := False\<rparr>)"

definition put_leave_cycle :: "uid \<Rightarrow> uid \<Rightarrow> leave_cycle option \<Rightarrow> leave_cycle_fields \<Rightarrow> leave_cycle list \<Rightarrow> leave_cycle list" where
  "put_leave_cycle fresh org cycle fs t =
     (case cycle of
        None \<Rightarrow>
          (let row = set_cycle_fields fs (new_leave_cycle fresh org)
           in (if lc_is_default row then clear_default_cycles org None t else t) @ [row])
      | Some c \<Rightarrow>
          let row = set_cycle_fields fs c
          in update_where (\<lambda>d. lc_id d = lc_id c) (\<lambda>_. row)
               (if lc_is_default row then clear_default_cycles org (Some (lc_id c)) t else t))"

definition upsert_leave_cycle ::
  "uid \<Rightarrow> uid option \<Rightarrow> leave_cycle option \<Rightarrow> leave_cycle_fields \<Rightarrow> hr_state \<Rightarrow> hr_state" where
  "upsert_leave_cycle org actor cycle fs st =
     audit actor ''leave_cycle.upserted'' (case cycle of None \<Rightarrow> ap_next_id st | Some c \<Rightarrow> lc_id c)
       (update_timeoff (\<lambda>t. t\<lparr>td_cycles := put_leave_cycle (ap_next_id st) org cycle fs (td_cycles t)\<rparr>)
          (if cycle = None then draw_id st else st))"

section \<open>On-duty policies\<close>

record on_duty_policy_fields =
  of_name :: "string option"
  of_is_default :: "bool option"
  of_is_active :: "bool option"

definition set_policy_fields :: "on_duty_policy_fields \<Rightarrow> on_duty_policy \<Rightarrow> on_duty_policy" where
  "set_policy_fields fs p =
     p\<lparr>op_name := or_else (of_name fs) (op_name p), op_is_default := or_else (of_is_default fs) (op_is_default p),
       op_is_active := or_else (of_is_active fs) (op_is_active p)\<rparr>"

definition clear_default_policies :: "uid \<Rightarrow> uid option \<Rightarrow> on_duty_policy list \<Rightarrow> on_duty_policy list" where
  "clear_default_policies = clear_defaults op_organisation op_id (\<lambda>p. p\<lparr>op_is_default := False\<rparr>)"

definition put_on_duty_policy ::
  "uid \<Rightarrow> uid \<Rightarrow> on_duty_policy option \<Rightarrow> on_duty_policy_fields \<Rightarrow> on_duty_policy list \<Rightarrow> on_duty_policy list" where
  "put_on_duty_policy fresh org policy fs t =
     (case policy of
        None \<Rightarrow>
          (let row = set_policy_fields fs \<lparr>op_id = fresh, op_organisation = org, op_name = [], op_is_default = False,
                       op_is_active = True\<rparr>
           in (if op_is_default row then clear_default_policies org None t else t) @ [row])
      | Some p \<Rightarrow>
          let row = set_policy_fields fs p
          in update_where (\<lambda>q. op_id q = op_id p) (\<lambda>_. row)
               (if op_is_default row then clear_default_policies org (Some (op_id p)) t else t))"

definition upsert_on_duty_policy ::
  "uid \<Rightarrow> uid option \<Rightarrow> on_duty_policy option \<Rightarrow> on_duty_policy_fields \<Rightarrow> hr_state \<Rightarrow> hr_state" where
  "upsert_on_duty_policy org actor policy fs st =
     audit actor ''on_duty_policy.upserted'' (case policy of None \<Rightarrow> ap_next_id st | Some p \<Rightarrow> op_id p)
       (update_timeoff (\<lambda>t. t\<lparr>td_on_duty_policies := put_on_duty_policy (ap_next_id st) org policy fs (td_on_duty_policies t)\<rparr>)
          (if policy = None then draw_id st else st))"

section \<open>Leave plans\<close>

text \<open>An entry with an identifier updates that type; the entitlement is always written, zero when absent.\<close>

record leave_type_fields =
  tf_id :: "uid option"
  tf_code :: "string option"
  tf_name :: "string option"
  tf_color :: "string option"
  tf_is_paid :: "bool option"
  tf_is_loss_of_pay :: "bool option"
  tf_annual_entitlement :: "rat option"
  tf_credit_frequency :: "leave_credit_frequency option"
  tf_prorate_on_join :: "bool option"
  tf_carry_forward_mode :: "carry_forward_mode option"
  tf_carry_forward_cap :: "rat option option"
  tf_max_balance :: "rat option option"
  tf_allows_encashment :: "bool option"
  tf_max_encashment_days_per_year :: "rat option option"
  tf_is_active :: "bool option"

definition set_type_fields :: "leave_type_fields \<Rightarrow> leave_type \<Rightarrow> leave_type" where
  "set_type_fields fs t =
     t\<lparr>lt_code := or_else (tf_code fs) (lt_code t), lt_name := or_else (tf_name fs) (lt_name t),
       lt_color := or_else (tf_color fs) (lt_color t), lt_is_paid := or_else (tf_is_paid fs) (lt_is_paid t),
       lt_is_loss_of_pay := or_else (tf_is_loss_of_pay fs) (lt_is_loss_of_pay t),
       lt_annual_entitlement := quantize2 (or_else (tf_annual_entitlement fs) 0),
       lt_credit_frequency := or_else (tf_credit_frequency fs) (lt_credit_frequency t),
       lt_prorate_on_join := or_else (tf_prorate_on_join fs) (lt_prorate_on_join t),
       lt_carry_forward_mode := or_else (tf_carry_forward_mode fs) (lt_carry_forward_mode t),
       lt_carry_forward_cap := (case tf_carry_forward_cap fs of None \<Rightarrow> lt_carry_forward_cap t | Some c \<Rightarrow> map_option quantize2 c),
       lt_max_balance := (case tf_max_balance fs of None \<Rightarrow> lt_max_balance t | Some c \<Rightarrow> map_option quantize2 c),
       lt_allows_encashment := or_else (tf_allows_encashment fs) (lt_allows_encashment t),
       lt_max_encashment_days_per_year := or_else (tf_max_encashment_days_per_year fs) (lt_max_encashment_days_per_year t),
       lt_is_active := or_else (tf_is_active fs) (lt_is_active t)\<rparr>"

definition new_leave_type :: "uid \<Rightarrow> leave_type" where
  "new_leave_type i =
     \<lparr>lt_id = i, lt_code = [], lt_name = [], lt_color = ''#2563eb'', lt_is_paid = True, lt_is_loss_of_pay = False,
      lt_annual_entitlement = 0, lt_credit_frequency = CF_YEARLY, lt_prorate_on_join = True,
      lt_carry_forward_mode = CARRY_NONE, lt_carry_forward_cap = None, lt_max_balance = None,
      lt_allows_encashment = False, lt_max_encashment_days_per_year = None, lt_is_active = True\<rparr>"

text \<open>
  The loop over the payloads: the table, the next key, and the keys kept. Every save checks the
  unique constraint on plan and code.
\<close>

definition unique_codes :: "leave_type list \<Rightarrow> leave_type list res" where
  "unique_codes t = (if distinct (map lt_code t) then Inr t else Inl (IntegrityError ''unique_leave_type_code_per_plan''))"

fun put_leave_types ::
  "leave_type_fields list \<Rightarrow> leave_type list \<Rightarrow> uid \<Rightarrow> uid list \<Rightarrow> (leave_type list \<times> uid \<times> uid list) res" where
  "put_leave_types [] t next keep = Inr (t, next, keep)"
| "put_leave_types (p # ps) t next keep =
     (case tf_id p of
        Some i \<Rightarrow>
          if list_ex (\<lambda>x. lt_id x = i) t
          then bind_res (unique_codes (update_where (\<lambda>x. lt_id x = i) (set_type_fields p) t))
                 (\<lambda>u. put_leave_types ps u next (keep @ [i]))
          else Inl (DoesNotExist ''LeaveType'')
      | None \<Rightarrow> bind_res (unique_codes (t @ [set_type_fields p (new_leave_type next)]))
                 (\<lambda>u. put_leave_types ps u (Suc next) (keep @ [next])))"

record plan_rule_fields =
  rf_id :: "uid option"
  rf_name :: "string option"
  rf_priority :: "nat option"
  rf_is_active :: "bool option"
  rf_department :: "uid option option"
  rf_office_location :: "uid option option"
  rf_specific_employee :: "uid option option"
  rf_employment_type :: "employment_type option option"
  rf_designation :: "string option"

definition set_rule_fields :: "plan_rule_fields \<Rightarrow> leave_plan_rule \<Rightarrow> leave_plan_rule" where
  "set_rule_fields fs r =
     r\<lparr>lpr_name := or_else (rf_name fs) (lpr_name r), lpr_priority := or_else (rf_priority fs) (lpr_priority r),
       lpr_is_active := or_else (rf_is_active fs) (lpr_is_active r),
       lpr_department := or_else (rf_department fs) (lpr_department r),
       lpr_office_location := or_else (rf_office_location fs) (lpr_office_location r),
       lpr_specific_employee := or_else (rf_specific_employee fs) (lpr_specific_employee r),
       lpr_employment_type := or_else (rf_employment_type fs) (lpr_employment_type r),
       lpr_designation := or_else (rf_designation fs) (lpr_designation r)\<rparr>"

definition new_plan_rule :: "uid \<Rightarrow> leave_plan_rule" where
  "new_plan_rule i =
     \<lparr>lpr_id = i, lpr_name = [], lpr_priority = 100, lpr_is_active = True, lpr_department = None,
      lpr_office_location = None, lpr_specific_employee = None, lpr_employment_type = None, lpr_designation = []\<rparr>"

fun put_plan_rules ::
  "plan_rule_fields list \<Rightarrow> leave_plan_rule list \<Rightarrow> uid \<Rightarrow> uid list \<Rightarrow> (leave_plan_rule list \<times> uid \<times> uid list) res" where
  "put_plan_rules [] t next keep = Inr (t, next, keep)"
| "put_plan_rules (p # ps) t next keep =
     (case rf_id p of
        Some i \<Rightarrow>
          if list_ex (\<lambda>x. lpr_id x = i) t
          then put_plan_rules ps (update_where (\<lambda>x. lpr_id x = i) (set_rule_fields p) t) next (keep @ [i])
          else Inl (DoesNotExist ''LeavePlanRule'')
      | None \<Rightarrow> put_plan_rules ps (t @ [set_rule_fields p (new_plan_rule next)]) (Suc next) (keep @ [next]))"

text \<open>
  Deleting leave types: requests and encashments protect their type, balances with their ledger and
  approval rules on the type go with it.
\<close>

definition delete_leave_types :: "uid list \<Rightarrow> hr_state \<Rightarrow> hr_state res" where
  "delete_leave_types gone st =
     (let t = timeoff st;
          lost = map lb_id (filter (\<lambda>b. lb_leave_type b \<in> set gone) (td_balances t))
      in if list_ex (\<lambda>r. lr_leave_type r \<in> set gone) (td_leave_requests t) \<or>
            list_ex (\<lambda>r. en_leave_type r \<in> set gone) (td_encashments t)
         then Inl (IntegrityError ''ProtectedError'')
         else Inr (update_timeoff (\<lambda>t. t\<lparr>td_balances := filter (\<lambda>b. lb_leave_type b \<notin> set gone) (td_balances t),
                      td_ledger := filter (\<lambda>l. le_leave_balance l \<notin> set lost) (td_ledger t)\<rparr>)
                (st\<lparr>ap_rules := filter (\<lambda>r. case rw_leave_type r of None \<Rightarrow> True | Some i \<Rightarrow> i \<notin> set gone) (ap_rules st)\<rparr>)))"

definition update_plan :: "uid \<Rightarrow> (leave_plan \<Rightarrow> leave_plan) \<Rightarrow> hr_state \<Rightarrow> hr_state" where
  "update_plan i f = update_timeoff (\<lambda>t. t\<lparr>td_plans := update_where (\<lambda>p. lp_id p = i) f (td_plans t)\<rparr>)"

definition find_plan :: "timeoff_db \<Rightarrow> uid \<Rightarrow> leave_plan option" where
  "find_plan db i = first_row (\<lambda>p. lp_id p = i) (td_plans db)"

definition set_next_id :: "uid \<Rightarrow> hr_state \<Rightarrow> hr_state" where
  "set_next_id n st = st\<lparr>ap_next_id := n\<rparr>"

definition upsert_leave_plan_relations ::
  "uid \<Rightarrow> leave_type_fields list option \<Rightarrow> plan_rule_fields list option \<Rightarrow> hr_state \<Rightarrow> hr_state res" where
  "upsert_leave_plan_relations i leave_types rules st =
     (case find_plan (timeoff st) i of
        None \<Rightarrow> Inl (DoesNotExist ''LeavePlan'')
      | Some plan \<Rightarrow>
          bind_res (case leave_types of
              None \<Rightarrow> Inr st
            | Some ps \<Rightarrow>
                bind_res (put_leave_types ps (lp_leave_types plan) (ap_next_id st) []) (\<lambda>(t, next, keep).
                  delete_leave_types (map lt_id (filter (\<lambda>x. lt_id x \<notin> set keep) t))
                         (set_next_id next (update_plan i
                            (\<lambda>p. p\<lparr>lp_leave_types := filter (\<lambda>x. lt_id x \<in> set keep) t\<rparr>) st))))
            (\<lambda>d. case rules of
              None \<Rightarrow> Inr d
            | Some ps \<Rightarrow>
                bind_res (put_plan_rules ps (lp_rules plan) (ap_next_id d) []) (\<lambda>(t, next, keep).
                  Inr (set_next_id next (update_plan i
                         (\<lambda>p. p\<lparr>lp_rules := filter (\<lambda>x. lpr_id x \<in> set keep) t\<rparr>) d)))))"

record leave_plan_fields =
  pf_leave_cycle :: "uid option"
  pf_name :: "string option"
  pf_is_default :: "bool option"
  pf_is_active :: "bool option"
  pf_priority :: "nat option"

definition set_plan_fields :: "leave_plan_fields \<Rightarrow> leave_plan \<Rightarrow> leave_plan" where
  "set_plan_fields fs p =
     p\<lparr>lp_leave_cycle := or_else (pf_leave_cycle fs) (lp_leave_cycle p), lp_name := or_else (pf_name fs) (lp_name p),
       lp_is_default := or_else (pf_is_default fs) (lp_is_default p),
       lp_is_active := or_else (pf_is_active fs) (lp_is_active p),
       lp_priority := or_else (pf_priority fs) (lp_priority p)\<rparr>"

definition clear_default_plans :: "uid \<Rightarrow> uid option \<Rightarrow> leave_plan list \<Rightarrow> leave_plan list" where
  "clear_default_plans = clear_defaults lp_organisation lp_id (\<lambda>p. p\<lparr>lp_is_default := False\<rparr>)"

definition insert_plan_row :: "uid \<Rightarrow> uid \<Rightarrow> leave_plan_fields \<Rightarrow> leave_plan list \<Rightarrow> leave_plan list" where
  "insert_plan_row fresh org fs t =
     (let row = set_plan_fields fs \<lparr>lp_id = fresh, lp_organisation = org, lp_leave_cycle = 0, lp_name = [],
            lp_is_default = False, lp_is_active = True, lp_priority = 100, lp_rules = [], lp_leave_types = []\<rparr>
      in (if lp_is_default row then clear_default_plans org None t else t) @ [row])"

definition update_plan_row :: "leave_plan \<Rightarrow> leave_plan_fields \<Rightarrow> leave_plan list \<Rightarrow> leave_plan list" where
  "update_plan_row plan fs t =
     (let row = set_plan_fields fs plan
      in update_where (\<lambda>p. lp_id p = lp_id plan) (\<lambda>_. row)
           (if lp_is_default row then clear_default_plans (lp_organisation plan) (Some (lp_id plan)) t else t))"

definition create_leave_plan ::
  "uid \<Rightarrow> uid option \<Rightarrow> leave_type_fields list \<Rightarrow> plan_rule_fields list \<Rightarrow> leave_plan_fields \<Rightarrow> hr_state
     \<Rightarrow> (hr_state \<times> uid) res" where
  "create_leave_plan org actor leave_types rules fs st =
     (let i = ap_next_id st
      in bind_res (upsert_leave_plan_relations i (Some leave_types) (Some rules)
           (update_timeoff (\<lambda>t. t\<lparr>td_plans := insert_plan_row i org fs (td_plans t)\<rparr>) (draw_id st)))
           (\<lambda>d. Inr (audit actor ''leave_plan.created'' i d, i)))"

definition update_leave_plan ::
  "leave_plan \<Rightarrow> uid option \<Rightarrow> leave_type_fields list option \<Rightarrow> plan_rule_fields list option \<Rightarrow> leave_plan_fields
     \<Rightarrow> hr_state \<Rightarrow> hr_state res" where
  "update_leave_plan plan actor leave_types rules fs st =
     bind_res (upsert_leave_plan_relations (lp_id plan) leave_types rules
         (update_timeoff (\<lambda>t. t\<lparr>td_plans := update_plan_row plan fs (td_plans t)\<rparr>) st))
       (\<lambda>d. Inr (audit actor ''leave_plan.updated'' (lp_id plan) d))"

section \<open>The plan of an employee\<close>

definition rule_matches_employee :: "leave_plan_rule \<Rightarrow> employee \<Rightarrow> bool" where
  "rule_matches_employee r e =
     (lpr_is_active r \<and>
      (case lpr_department r of None \<Rightarrow> True | Some d \<Rightarrow> em_department e = Some d) \<and>
      (case lpr_office_location r of None \<Rightarrow> True | Some l \<Rightarrow> em_office_location e = Some l) \<and>
      (case lpr_specific_employee r of None \<Rightarrow> True | Some i \<Rightarrow> em_id e = i) \<and>
      (case lpr_employment_type r of None \<Rightarrow> True | Some x \<Rightarrow> em_employment_type e = x) \<and>
      (lpr_designation r = [] \<or> py_lower (py_strip (em_designation e)) = py_lower (py_strip (lpr_designation r))))"

text \<open>Plans come by priority and name, a plan's rules by priority.\<close>

definition active_plans :: "timeoff_db \<Rightarrow> uid \<Rightarrow> leave_plan list" where
  "active_plans db org =
     sort_key (\<lambda>p. (lp_priority p, lp_name p)) (filter (\<lambda>p. lp_organisation p = org \<and> lp_is_active p) (td_plans db))"

definition first_matching_rule :: "leave_plan \<Rightarrow> employee \<Rightarrow> leave_plan_rule option" where
  "first_matching_rule p e = first_row (\<lambda>r. rule_matches_employee r e) (sort_key lpr_priority (lp_rules p))"

definition matching_plans :: "timeoff_db \<Rightarrow> employee \<Rightarrow> (nat \<times> nat \<times> leave_plan) list" where
  "matching_plans db e =
     concat (map (\<lambda>p. case first_matching_rule p e of None \<Rightarrow> [] | Some r \<Rightarrow> [(lpr_priority r, lp_priority p, p)])
       (active_plans db (em_organisation e)))"

definition resolve_employee_leave_plan :: "timeoff_db \<Rightarrow> employee \<Rightarrow> leave_plan option" where
  "resolve_employee_leave_plan db e =
     (case first_row (\<lambda>a. lpa_employee a = em_id e) (td_plan_assignments db) of
        Some a \<Rightarrow> find_plan db (lpa_leave_plan a)
      | None \<Rightarrow>
          (case sort_key (\<lambda>(r, q, p). (r, q, lp_name p)) (matching_plans db e) of
             (_, _, p) # _ \<Rightarrow> Some p
           | [] \<Rightarrow> first_row lp_is_default (active_plans db (em_organisation e))))"

section \<open>The window of a cycle\<close>

definition get_cycle_window :: "leave_cycle \<Rightarrow> employee \<Rightarrow> date \<Rightarrow> (date \<times> date) res" where
  "get_cycle_window cycle e today =
     (let window = (\<lambda>m d.
        bind_res (mk_date (yr today) m d) (\<lambda>s0.
        bind_res (if s0 > today then mk_date (yr today - 1) m d else Inr s0) (\<lambda>start.
        bind_res (mk_date (yr start + 1) m d) (\<lambda>next. Inr (start, prev_day next)))))
      in case lc_cycle_type cycle of
           EMPLOYEE_JOINING_DATE \<Rightarrow>
             (case em_date_of_joining e of
                None \<Rightarrow> bind_res (mk_date (yr today + 1) (mo today) (dy today)) (\<lambda>next. Inr (today, prev_day next))
              | Some j \<Rightarrow> window (mo j) (dy j))
         | FINANCIAL_YEAR \<Rightarrow> window 4 1
         | _ \<Rightarrow> window (lc_start_month cycle) (lc_start_day cycle))"

section \<open>Holiday calendars\<close>

record holiday_fields =
  hf_id :: "uid option"
  hf_name :: "string option"
  hf_date :: "date option"
  hf_classification :: "holiday_classification option"
  hf_session :: "day_session option"

definition set_holiday_fields :: "holiday_fields \<Rightarrow> holiday \<Rightarrow> holiday" where
  "set_holiday_fields fs h =
     h\<lparr>ho_name := or_else (hf_name fs) (ho_name h), ho_date := or_else (hf_date fs) (ho_date h),
       ho_classification := or_else (hf_classification fs) (ho_classification h),
       ho_session := or_else (hf_session fs) (ho_session h)\<rparr>"

definition new_holiday :: "uid \<Rightarrow> holiday" where
  "new_holiday i = \<lparr>ho_id = i, ho_name = [], ho_date = Date 1 1 1, ho_classification = HOL_PUBLIC, ho_session = FULL_DAY\<rparr>"

text \<open>Every save checks the unique constraint on calendar, date and name.\<close>

definition unique_holidays :: "holiday list \<Rightarrow> holiday list res" where
  "unique_holidays hs =
     (if distinct (map (\<lambda>h. (ho_date h, ho_name h)) hs) then Inr hs
      else Inl (IntegrityError ''unique_holiday_per_calendar_date_name''))"

fun put_holidays :: "holiday_fields list \<Rightarrow> holiday list \<Rightarrow> uid \<Rightarrow> uid list \<Rightarrow> (holiday list \<times> uid \<times> uid list) res" where
  "put_holidays [] t next keep = Inr (t, next, keep)"
| "put_holidays (p # ps) t next keep =
     (case hf_id p of
        Some i \<Rightarrow>
          if list_ex (\<lambda>x. ho_id x = i) t
          then bind_res (unique_holidays (update_where (\<lambda>x. ho_id x = i) (set_holiday_fields p) t))
                 (\<lambda>u. put_holidays ps u next (keep @ [i]))
          else Inl (DoesNotExist ''Holiday'')
      | None \<Rightarrow> bind_res (unique_holidays (t @ [set_holiday_fields p (new_holiday next)]))
                 (\<lambda>u. put_holidays ps u (Suc next) (keep @ [next])))"

record calendar_fields =
  kf_name :: "string option"
  kf_year :: "int option"
  kf_status :: "holiday_calendar_status option"
  kf_is_default :: "bool option"

definition set_calendar_fields :: "calendar_fields \<Rightarrow> holiday_calendar \<Rightarrow> holiday_calendar" where
  "set_calendar_fields fs c =
     c\<lparr>hc_name := or_else (kf_name fs) (hc_name c), hc_year := or_else (kf_year fs) (hc_year c),
       hc_status := or_else (kf_status fs) (hc_status c), hc_is_default := or_else (kf_is_default fs) (hc_is_default c)\<rparr>"

definition calendar_key :: "holiday_calendar \<Rightarrow> uid \<times> int" where
  "calendar_key c = (hc_organisation c, hc_year c)"

definition clear_default_calendars :: "uid \<times> int \<Rightarrow> uid option \<Rightarrow> holiday_calendar list \<Rightarrow> holiday_calendar list" where
  "clear_default_calendars = clear_defaults calendar_key hc_id (\<lambda>c. c\<lparr>hc_is_default := False\<rparr>)"

definition insert_calendar_row :: "holiday_calendar \<Rightarrow> holiday_calendar list \<Rightarrow> holiday_calendar list" where
  "insert_calendar_row row t =
     (if hc_is_default row then clear_default_calendars (calendar_key row) None t else t) @ [row]"

definition update_calendar_row :: "holiday_calendar \<Rightarrow> holiday_calendar list \<Rightarrow> holiday_calendar list" where
  "update_calendar_row row t =
     update_where (\<lambda>c. hc_id c = hc_id row) (\<lambda>_. row)
       (if hc_is_default row then clear_default_calendars (calendar_key row) (Some (hc_id row)) t else t)"

definition create_holiday_calendar ::
  "uid \<Rightarrow> uid option \<Rightarrow> holiday_fields list \<Rightarrow> uid list \<Rightarrow> calendar_fields \<Rightarrow> hr_state \<Rightarrow> (hr_state \<times> uid) res" where
  "create_holiday_calendar org actor holidays location_ids fs st =
     (let i = ap_next_id st
      in bind_res (put_holidays (map (\<lambda>h. h\<lparr>hf_id := None\<rparr>) holidays) [] (Suc i) []) (\<lambda>(hs, next, _).
         if \<not> distinct location_ids then Inl (IntegrityError ''unique_holiday_calendar_location_assignment'')
         else
           let row = set_calendar_fields fs \<lparr>hc_id = i, hc_organisation = org, hc_name = [], hc_year = 0,
                 hc_status = HC_DRAFT, hc_is_default = False, hc_published_at = None, hc_locations = location_ids,
                 hc_holidays = hs\<rparr>
           in Inr (audit actor ''holiday_calendar.created'' i
                (update_timeoff (\<lambda>t. t\<lparr>td_calendars := insert_calendar_row row (td_calendars t)\<rparr>) (set_next_id next st)), i)))"

definition new_locations :: "uid list \<Rightarrow> uid list \<Rightarrow> uid list" where
  "new_locations location_ids existing =
     filter (\<lambda>l. l \<in> set location_ids) existing @ filter (\<lambda>l. l \<notin> set existing) location_ids"

definition update_holiday_calendar ::
  "holiday_calendar \<Rightarrow> uid option \<Rightarrow> holiday_fields list option \<Rightarrow> uid list option \<Rightarrow> calendar_fields \<Rightarrow> hr_state
     \<Rightarrow> hr_state res" where
  "update_holiday_calendar cal actor holidays location_ids fs st =
     bind_res (case holidays of None \<Rightarrow> Inr (hc_holidays cal, ap_next_id st)
        | Some ps \<Rightarrow> bind_res (put_holidays ps (hc_holidays cal) (ap_next_id st) []) (\<lambda>(hs, next, keep).
            Inr (filter (\<lambda>h. ho_id h \<in> set keep) hs, next)))
       (\<lambda>(hs, next).
     bind_res (case location_ids of None \<Rightarrow> Inr (hc_locations cal)
        | Some ls \<Rightarrow>
            if distinct (new_locations ls (hc_locations cal)) then Inr (new_locations ls (hc_locations cal))
            else Inl (IntegrityError ''unique_holiday_calendar_location_assignment''))
       (\<lambda>locations.
          let row = (set_calendar_fields fs cal)\<lparr>hc_holidays := hs, hc_locations := locations\<rparr>
          in Inr (audit actor ''holiday_calendar.updated'' (hc_id cal)
               (update_timeoff (\<lambda>t. t\<lparr>td_calendars := update_calendar_row row (td_calendars t)\<rparr>) (set_next_id next st)))))"

definition publish_holiday_calendar :: "clock \<Rightarrow> uid \<Rightarrow> uid option \<Rightarrow> hr_state \<Rightarrow> hr_state" where
  "publish_holiday_calendar ck i actor st =
     audit actor ''holiday_calendar.published'' i
       (update_timeoff (\<lambda>t. t\<lparr>td_calendars := update_where (\<lambda>c. hc_id c = i)
          (\<lambda>c. c\<lparr>hc_status := HC_PUBLISHED, hc_published_at := Some (ck_now ck)\<rparr>) (td_calendars t)\<rparr>) st)"

end
