(* ===== verification/TimeoffDefaults.thy ===== *)
theory TimeoffDefaults
  imports TimeoffPlans PayExample
begin

text \<open>
  The upserts of \<open>timeoff/services.py\<close> keep at most one default per organisation (per organisation
  and year for calendars): the contract \<open>defaulted\<close> on the four tables, and the invariant over any
  sequence of the operations that write them.
\<close>

section \<open>Single defaults\<close>

interpretation cycles: defaulted lc_organisation lc_id lc_is_default "\<lambda>c. c\<lparr>lc_is_default := False\<rparr>"
  by unfold_locales simp_all

interpretation policies: defaulted op_organisation op_id op_is_default "\<lambda>p. p\<lparr>op_is_default := False\<rparr>"
  by unfold_locales simp_all

interpretation plans: defaulted lp_organisation lp_id lp_is_default "\<lambda>p. p\<lparr>lp_is_default := False\<rparr>"
  by unfold_locales simp_all

interpretation calendars: defaulted calendar_key hc_id hc_is_default "\<lambda>c. c\<lparr>hc_is_default := False\<rparr>"
  by unfold_locales (simp_all add: calendar_key_def)

text \<open>Every table has at most one default per key, and its keys are below the next one to be drawn.\<close>

definition defaults_ok :: "hr_state \<Rightarrow> bool" where
  "defaults_ok st \<longleftrightarrow>
     one_default lc_organisation lc_id lc_is_default (td_cycles (timeoff st)) \<and> below (ap_next_id st) lc_id (td_cycles (timeoff st)) \<and>
     one_default op_organisation op_id op_is_default (td_on_duty_policies (timeoff st)) \<and>
       below (ap_next_id st) op_id (td_on_duty_policies (timeoff st)) \<and>
     one_default lp_organisation lp_id lp_is_default (td_plans (timeoff st)) \<and> below (ap_next_id st) lp_id (td_plans (timeoff st)) \<and>
     one_default calendar_key hc_id hc_is_default (td_calendars (timeoff st)) \<and> below (ap_next_id st) hc_id (td_calendars (timeoff st))"

lemma put_leave_cycle_ok:
  assumes "one_default lc_organisation lc_id lc_is_default t" "below n lc_id t"
    and "\<And>c. cycle = Some c \<Longrightarrow> lc_organisation c = org \<and> lc_id c < n"
  shows "one_default lc_organisation lc_id lc_is_default (put_leave_cycle n org cycle fs t)"
    "below (if cycle = None then Suc n else n) lc_id (put_leave_cycle n org cycle fs t)"
proof -
  have frame: "lc_organisation (set_cycle_fields fs c) = lc_organisation c" "lc_id (set_cycle_fields fs c) = lc_id c" for c
    by (simp_all add: set_cycle_fields_def)
  note defs = put_leave_cycle_def clear_default_cycles_def Let_def option.case
  have "one_default lc_organisation lc_id lc_is_default (put_leave_cycle n org cycle fs t) \<and>
      below (if cycle = None then Suc n else n) lc_id (put_leave_cycle n org cycle fs t)"
  proof (cases cycle)
    case None
    have "lc_id (new_leave_cycle n org) = n" "lc_organisation (new_leave_cycle n org) = org"
      by (simp_all add: new_leave_cycle_def)
    then show ?thesis unfolding None defs
      using cycles.insert_ok [OF assms(1,2), of "set_cycle_fields fs (new_leave_cycle n org)" org] frame
      by (simp split del: if_split)
  next
    case (Some c)
    then show ?thesis unfolding defs Some
      using cycles.rewrite_ok [OF assms(1,2), of "set_cycle_fields fs c" "lc_id c" org] frame assms(3) [OF Some]
      by (simp split del: if_split)
  qed
  then show "one_default lc_organisation lc_id lc_is_default (put_leave_cycle n org cycle fs t)"
    "below (if cycle = None then Suc n else n) lc_id (put_leave_cycle n org cycle fs t)" by blast+
qed

lemma put_on_duty_policy_ok:
  assumes "one_default op_organisation op_id op_is_default t" "below n op_id t"
    and "\<And>c. policy = Some c \<Longrightarrow> op_organisation c = org \<and> op_id c < n"
  shows "one_default op_organisation op_id op_is_default (put_on_duty_policy n org policy fs t)"
    "below (if policy = None then Suc n else n) op_id (put_on_duty_policy n org policy fs t)"
proof -
  have frame: "op_organisation (set_policy_fields fs c) = op_organisation c" "op_id (set_policy_fields fs c) = op_id c" for c
    by (simp_all add: set_policy_fields_def)
  note defs = put_on_duty_policy_def clear_default_policies_def Let_def option.case
  have "one_default op_organisation op_id op_is_default (put_on_duty_policy n org policy fs t) \<and>
      below (if policy = None then Suc n else n) op_id (put_on_duty_policy n org policy fs t)"
  proof (cases policy)
    case None
    show ?thesis unfolding None defs
      using policies.insert_ok [OF assms(1,2), of "set_policy_fields fs \<lparr>op_id = n, op_organisation = org,
        op_name = [], op_is_default = False, op_is_active = True\<rparr>" org] frame
      by (simp split del: if_split)
  next
    case (Some c)
    then show ?thesis unfolding defs Some
      using policies.rewrite_ok [OF assms(1,2), of "set_policy_fields fs c" "op_id c" org] frame assms(3) [OF Some]
      by (simp split del: if_split)
  qed
  then show "one_default op_organisation op_id op_is_default (put_on_duty_policy n org policy fs t)"
    "below (if policy = None then Suc n else n) op_id (put_on_duty_policy n org policy fs t)" by blast+
qed

lemma insert_plan_ok:
  assumes "one_default lp_organisation lp_id lp_is_default t" "below n lp_id t"
  shows "one_default lp_organisation lp_id lp_is_default (insert_plan_row n org fs t)"
    "below (Suc n) lp_id (insert_plan_row n org fs t)"
proof -
  have frame: "lp_organisation (set_plan_fields fs c) = lp_organisation c" "lp_id (set_plan_fields fs c) = lp_id c" for c
    by (simp_all add: set_plan_fields_def)
  show "one_default lp_organisation lp_id lp_is_default (insert_plan_row n org fs t)"
    "below (Suc n) lp_id (insert_plan_row n org fs t)"
    unfolding insert_plan_row_def clear_default_plans_def Let_def
    by (rule plans.insert_ok [OF assms]; simp add: frame)+
qed

lemma update_plan_row_ok:
  assumes "one_default lp_organisation lp_id lp_is_default t" "below n lp_id t" "lp_id plan < n"
  shows "one_default lp_organisation lp_id lp_is_default (update_plan_row plan fs t)"
    "below n lp_id (update_plan_row plan fs t)"
proof -
  have frame: "lp_organisation (set_plan_fields fs c) = lp_organisation c" "lp_id (set_plan_fields fs c) = lp_id c" for c
    by (simp_all add: set_plan_fields_def)
  show "one_default lp_organisation lp_id lp_is_default (update_plan_row plan fs t)"
    "below n lp_id (update_plan_row plan fs t)"
    unfolding update_plan_row_def clear_default_plans_def Let_def
    by (rule plans.rewrite_ok [OF assms(1,2)]; simp add: frame assms(3))+
qed

lemma update_plan_defaults:
  assumes "defaults_ok st" "\<And>p. lp_id (f p) = lp_id p \<and> lp_organisation (f p) = lp_organisation p \<and> lp_is_default (f p) = lp_is_default p"
  shows "defaults_ok (update_plan i f st)" "ap_next_id (update_plan i f st) = ap_next_id st"
proof -
  show "ap_next_id (update_plan i f st) = ap_next_id st" by (simp add: update_plan_def frame_simps)
  have "one_default lp_organisation lp_id lp_is_default (update_where (\<lambda>p. lp_id p = i) f (td_plans (timeoff st)))"
    by (rule plans.frame_single) (use assms in \<open>simp_all add: defaults_ok_def\<close>)
  with assms show "defaults_ok (update_plan i f st)"
    by (simp add: defaults_ok_def update_plan_def frame_simps below_update_where)
qed

lemma set_next_id_defaults: "defaults_ok st \<Longrightarrow> ap_next_id st \<le> n \<Longrightarrow> defaults_ok (set_next_id n st)"
  by (auto simp: defaults_ok_def set_next_id_def intro: below_mono)

lemma put_leave_types_next: "put_leave_types ps t n keep = Inr (t', n', keep') \<Longrightarrow> n \<le> n'"
  by (induction ps t n keep rule: put_leave_types.induct) (auto split: option.splits if_splits dest: Suc_leD)

lemma put_plan_rules_next: "put_plan_rules ps t n keep = Inr (t', n', keep') \<Longrightarrow> n \<le> n'"
  by (induction ps t n keep rule: put_plan_rules.induct) (auto split: option.splits if_splits dest: Suc_leD)

lemma put_holidays_next: "put_holidays ps t n keep = Inr (t', n', keep') \<Longrightarrow> n \<le> n'"
  by (induction ps t n keep rule: put_holidays.induct) (auto split: option.splits if_splits dest: Suc_leD)

lemma delete_leave_types_defaults: "delete_leave_types gone st = Inr d \<Longrightarrow> defaults_ok st \<Longrightarrow> defaults_ok d"
  by (auto simp: delete_leave_types_def Let_def defaults_ok_def frame_simps split: if_splits)

lemma relations_defaults:
  assumes "upsert_leave_plan_relations i leave_types rules st = Inr d" "defaults_ok st"
  shows "defaults_ok d"
proof -
  obtain plan where p: "find_plan (timeoff st) i = Some plan"
    using assms(1) by (auto simp: upsert_leave_plan_relations_def split: option.splits)
  note types = update_plan_defaults [of _ "\<lambda>p. p\<lparr>lp_leave_types := x\<rparr>" i for x]
  note rules = update_plan_defaults [of _ "\<lambda>p. p\<lparr>lp_rules := x\<rparr>" i for x]
  obtain s where s: "defaults_ok s" and r: "(case rules of None \<Rightarrow> Inr s
            | Some ps \<Rightarrow> bind_res (put_plan_rules ps (lp_rules plan) (ap_next_id s) []) (\<lambda>(t, n', keep).
                  Inr (set_next_id n' (update_plan i (\<lambda>p. p\<lparr>lp_rules := filter (\<lambda>x. lpr_id x \<in> set keep) t\<rparr>) s)))) = Inr d"
  proof (cases leave_types)
    case None
    with assms that show ?thesis by (auto simp: upsert_leave_plan_relations_def p)
  next
    case (Some ps)
    from assms(1) obtain s where e: "bind_res (put_leave_types ps (lp_leave_types plan) (ap_next_id st) []) (\<lambda>(t, n', keep).
                  delete_leave_types (map lt_id (filter (\<lambda>x. lt_id x \<notin> set keep) t))
                         (set_next_id n' (update_plan i
                            (\<lambda>p. p\<lparr>lp_leave_types := filter (\<lambda>x. lt_id x \<in> set keep) t\<rparr>) st))) = Inr s"
      and r: "(case rules of None \<Rightarrow> Inr s
            | Some ps \<Rightarrow> bind_res (put_plan_rules ps (lp_rules plan) (ap_next_id s) []) (\<lambda>(t, n', keep).
                  Inr (set_next_id n' (update_plan i (\<lambda>p. p\<lparr>lp_rules := filter (\<lambda>x. lpr_id x \<in> set keep) t\<rparr>) s)))) = Inr d"
      unfolding upsert_leave_plan_relations_def p Some by auto
    from e obtain t n' k where t: "put_leave_types ps (lp_leave_types plan) (ap_next_id st) [] = Inr (t, n', k)"
      and del: "delete_leave_types (map lt_id (filter (\<lambda>x. lt_id x \<notin> set k) t))
                         (set_next_id n' (update_plan i (\<lambda>p. p\<lparr>lp_leave_types := filter (\<lambda>x. lt_id x \<in> set k) t\<rparr>) st)) = Inr s"
      by (auto split: if_splits)
    have "defaults_ok s"
      using put_leave_types_next [OF t]
      by (intro delete_leave_types_defaults [OF del] set_next_id_defaults types assms) (simp_all add: update_plan_def frame_simps)
    with r that show ?thesis by blast
  qed
  show ?thesis
  proof (cases rules)
    case None
    with r s show ?thesis by simp
  next
    case (Some ps)
    with r obtain t n' k where t: "put_plan_rules ps (lp_rules plan) (ap_next_id s) [] = Inr (t, n', k)"
      and d: "d = set_next_id n' (update_plan i (\<lambda>p. p\<lparr>lp_rules := filter (\<lambda>x. lpr_id x \<in> set k) t\<rparr>) s)"
      by auto
    show ?thesis unfolding d
      using put_plan_rules_next [OF t]
      by (intro set_next_id_defaults rules s) (simp_all add: update_plan_def frame_simps)
  qed
qed

section \<open>The operations and the invariant\<close>

lemma defaults_audit [simp]: "defaults_ok (audit actor event target st) = defaults_ok st"
  by (simp add: defaults_ok_def audit_def)

lemma below_Suc: "below n ident t \<Longrightarrow> below (Suc n) ident t"
  by (erule below_mono) simp

inductive plan_op :: "uid \<Rightarrow> hr_state \<Rightarrow> hr_state \<Rightarrow> bool" for org :: uid where
  cycle: "(\<And>c. cycle = Some c \<Longrightarrow> c \<in> set (td_cycles (timeoff st)) \<and> lc_organisation c = org) \<Longrightarrow>
    plan_op org st (upsert_leave_cycle org actor cycle fs st)"
| policy: "(\<And>p. policy = Some p \<Longrightarrow> p \<in> set (td_on_duty_policies (timeoff st)) \<and> op_organisation p = org) \<Longrightarrow>
    plan_op org st (upsert_on_duty_policy org actor policy ps st)"
| new_plan: "create_leave_plan org actor types rules ls st = Inr (st', i) \<Longrightarrow> plan_op org st st'"
| change_plan: "plan \<in> set (td_plans (timeoff st)) \<Longrightarrow>
    update_leave_plan plan actor types' rules' ls st = Inr st' \<Longrightarrow> plan_op org st st'"
| new_calendar: "create_holiday_calendar org actor holidays locations ks st = Inr (st', i) \<Longrightarrow> plan_op org st st'"
| change_calendar: "cal \<in> set (td_calendars (timeoff st)) \<Longrightarrow>
    update_holiday_calendar cal actor holidays' locations' ks st = Inr st' \<Longrightarrow> plan_op org st st'"
| publish: "plan_op org st (publish_holiday_calendar ck i actor st)"

lemma upsert_cycle_defaults:
  assumes "defaults_ok st" "\<And>c. cycle = Some c \<Longrightarrow> c \<in> set (td_cycles (timeoff st)) \<and> lc_organisation c = org"
  shows "defaults_ok (upsert_leave_cycle org actor cycle fs st)"
proof -
  have "below (ap_next_id st) lc_id (td_cycles (timeoff st))" using assms(1) by (simp add: defaults_ok_def)
  then have old: "lc_organisation c = org \<and> lc_id c < ap_next_id st" if "cycle = Some c" for c
    using assms(2) [OF that] by (auto simp: below_def)
  note ok = put_leave_cycle_ok [where t = "td_cycles (timeoff st)" and n = "ap_next_id st" and cycle = cycle and org = org and fs = fs, OF _ _ old]
  show ?thesis
    using assms(1) ok by (auto simp: upsert_leave_cycle_def defaults_ok_def frame_simps draw_id_def intro: below_Suc split: if_splits)
qed

lemma upsert_policy_defaults:
  assumes "defaults_ok st" "\<And>p. policy = Some p \<Longrightarrow> p \<in> set (td_on_duty_policies (timeoff st)) \<and> op_organisation p = org"
  shows "defaults_ok (upsert_on_duty_policy org actor policy fs st)"
proof -
  have "below (ap_next_id st) op_id (td_on_duty_policies (timeoff st))" using assms(1) by (simp add: defaults_ok_def)
  then have old: "op_organisation p = org \<and> op_id p < ap_next_id st" if "policy = Some p" for p
    using assms(2) [OF that] by (auto simp: below_def)
  note ok = put_on_duty_policy_ok [where t = "td_on_duty_policies (timeoff st)" and n = "ap_next_id st" and policy = policy and org = org and fs = fs, OF _ _ old]
  show ?thesis
    using assms(1) ok by (auto simp: upsert_on_duty_policy_def defaults_ok_def frame_simps draw_id_def intro: below_Suc split: if_splits)
qed

lemma create_plan_defaults:
  assumes "create_leave_plan org actor types rules fs st = Inr (st', i)" "defaults_ok st"
  shows "defaults_ok st'"
proof -
  let ?s = "update_timeoff (\<lambda>t. t\<lparr>td_plans := insert_plan_row (ap_next_id st) org fs (td_plans t)\<rparr>) (draw_id st)"
  obtain d where d: "upsert_leave_plan_relations (ap_next_id st) (Some types) (Some rules) ?s = Inr d"
    and st': "st' = audit actor ''leave_plan.created'' (ap_next_id st) d"
    using assms(1) by (auto simp: create_leave_plan_def Let_def)
  have "defaults_ok ?s"
    using assms(2) insert_plan_ok [of "td_plans (timeoff st)" "ap_next_id st" org fs]
    by (simp add: defaults_ok_def frame_simps draw_id_def below_Suc)
  then show ?thesis using relations_defaults [OF d] by (simp add: st')
qed

lemma update_plan_row_defaults:
  assumes "update_leave_plan plan actor types rules fs st = Inr st'" "defaults_ok st" "plan \<in> set (td_plans (timeoff st))"
  shows "defaults_ok st'"
proof -
  let ?s = "update_timeoff (\<lambda>t. t\<lparr>td_plans := update_plan_row plan fs (td_plans t)\<rparr>) st"
  obtain d where d: "upsert_leave_plan_relations (lp_id plan) types rules ?s = Inr d"
    and st': "st' = audit actor ''leave_plan.updated'' (lp_id plan) d"
    using assms(1) by (auto simp: update_leave_plan_def)
  have "lp_id plan < ap_next_id st" using assms(2,3) by (simp add: defaults_ok_def below_def)
  with assms(2) have "defaults_ok ?s"
    using update_plan_row_ok [of "td_plans (timeoff st)" "ap_next_id st" plan fs]
    by (simp add: defaults_ok_def frame_simps)
  then show ?thesis using relations_defaults [OF d] by (simp add: st')
qed

lemma insert_calendar_ok:
  assumes "one_default calendar_key hc_id hc_is_default t" "below n hc_id t" "hc_id row = n"
  shows "one_default calendar_key hc_id hc_is_default (insert_calendar_row row t)" "below (Suc n) hc_id (insert_calendar_row row t)"
  unfolding insert_calendar_row_def clear_default_calendars_def by (rule calendars.insert_ok [OF assms refl])+

lemma update_calendar_ok:
  assumes "one_default calendar_key hc_id hc_is_default t" "below n hc_id t" "hc_id row < n"
  shows "one_default calendar_key hc_id hc_is_default (update_calendar_row row t)" "below n hc_id (update_calendar_row row t)"
  unfolding update_calendar_row_def clear_default_calendars_def by (rule calendars.rewrite_ok [OF assms(1,2) refl refl assms(3)])+

lemma create_calendar_defaults:
  assumes "create_holiday_calendar org actor holidays locations fs st = Inr (st', i)" "defaults_ok st"
  shows "defaults_ok st'"
proof -
  let ?i = "ap_next_id st"
  let ?row = "\<lambda>hs. set_calendar_fields fs \<lparr>hc_id = ?i, hc_organisation = org, hc_name = [], hc_year = 0,
    hc_status = HC_DRAFT, hc_is_default = False, hc_published_at = None, hc_locations = locations, hc_holidays = hs\<rparr>"
  obtain hs n keep where hs: "put_holidays (map (\<lambda>h. h\<lparr>hf_id := None\<rparr>) holidays) [] (Suc ?i) [] = Inr (hs, n, keep)"
    and st': "st' = audit actor ''holiday_calendar.created'' ?i
      (update_timeoff (\<lambda>t. t\<lparr>td_calendars := insert_calendar_row (?row hs) (td_calendars t)\<rparr>) (set_next_id n st))"
    using assms(1) by (auto simp: create_holiday_calendar_def Let_def split: if_splits)
  have row: "hc_id (?row hs) = ?i" by (simp add: set_calendar_fields_def)
  have "Suc ?i \<le> n" by (rule put_holidays_next [OF hs])
  with assms(2) insert_calendar_ok [of "td_calendars (timeoff st)" ?i "?row hs"] row
  show ?thesis unfolding st' defaults_audit
    by (simp add: defaults_ok_def frame_simps set_next_id_def) (meson Suc_leD below_mono)
qed

lemma update_calendar_defaults:
  assumes "update_holiday_calendar cal actor holidays locations fs st = Inr st'" "defaults_ok st"
    "cal \<in> set (td_calendars (timeoff st))"
  shows "defaults_ok st'"
proof -
  obtain hs n ls where hs: "(case holidays of None \<Rightarrow> Inr (hc_holidays cal, ap_next_id st)
        | Some ps \<Rightarrow> bind_res (put_holidays ps (hc_holidays cal) (ap_next_id st) []) (\<lambda>(hs, n, keep).
            Inr (filter (\<lambda>h. ho_id h \<in> set keep) hs, n))) = Inr (hs, n)"
    and st': "st' = audit actor ''holiday_calendar.updated'' (hc_id cal)
      (update_timeoff (\<lambda>t. t\<lparr>td_calendars := update_calendar_row
         ((set_calendar_fields fs cal)\<lparr>hc_holidays := hs, hc_locations := ls\<rparr>) (td_calendars t)\<rparr>) (set_next_id n st))"
    using assms(1) unfolding update_holiday_calendar_def by (auto simp: Let_def)
  have "ap_next_id st \<le> n"
    using hs by (auto split: option.splits if_splits dest: put_holidays_next)
  moreover have "hc_id ((set_calendar_fields fs cal)\<lparr>hc_holidays := hs, hc_locations := ls\<rparr>) < ap_next_id st"
    using assms(2,3) by (auto simp: set_calendar_fields_def defaults_ok_def below_def)
  ultimately show ?thesis unfolding st' defaults_audit
    using assms(2) update_calendar_ok [of "td_calendars (timeoff st)" "ap_next_id st"
      "(set_calendar_fields fs cal)\<lparr>hc_holidays := hs, hc_locations := ls\<rparr>"]
    by (simp add: defaults_ok_def frame_simps set_next_id_def) (meson below_mono)
qed

lemma publish_defaults: "defaults_ok st \<Longrightarrow> defaults_ok (publish_holiday_calendar ck i actor st)"
  unfolding publish_holiday_calendar_def defaults_audit
  by (simp add: defaults_ok_def frame_simps below_update_where calendars.frame_single calendar_key_def)

lemma plan_op_defaults: "plan_op org st st' \<Longrightarrow> defaults_ok st \<Longrightarrow> defaults_ok st'"
proof (induction rule: plan_op.induct)
  case (cycle cycle st actor fs)
  then show ?case by (intro upsert_cycle_defaults) auto
next
  case (policy policy st actor ps)
  then show ?case by (intro upsert_policy_defaults) auto
qed (auto intro: create_plan_defaults update_plan_row_defaults create_calendar_defaults update_calendar_defaults publish_defaults)

text \<open>
  C27: from a state in which every organisation has at most one default leave cycle, on-duty policy
  and leave plan, and at most one default holiday calendar per year, any sequence of the operations
  that write these tables (each given a row of its table) leads to such a state.
\<close>
theorem at_most_one_default:
  assumes "(plan_op org)\<^sup>*\<^sup>* st st'" "defaults_ok st"
  shows "defaults_ok st'"
  using assms by (induction rule: rtranclp_induct) (auto intro: plan_op_defaults)

definition default_cycle_named :: "string \<Rightarrow> leave_cycle_fields" where
  "default_cycle_named n =
     \<lparr>lf_name = Some n, lf_cycle_type = Some FINANCIAL_YEAR, lf_start_month = None, lf_start_day = None,
      lf_is_default = Some True, lf_is_active = None\<rparr>"

theorem at_most_one_default_witness:
  "let st1 = upsert_leave_cycle 1 None None (default_cycle_named ''A'') example_hr_start;
       st2 = upsert_leave_cycle 1 None None (default_cycle_named ''B'') st1
   in defaults_ok st2 \<and> map (\<lambda>c. (lc_name c, lc_is_default c)) (td_cycles (timeoff st2)) = [(''A'', False), (''B'', True)]"
proof -
  let ?st1 = "upsert_leave_cycle 1 None None (default_cycle_named ''A'') example_hr_start"
  let ?st2 = "upsert_leave_cycle 1 None None (default_cycle_named ''B'') ?st1"
  have empty: "timeoff example_hr_start = empty_timeoff_db" by (simp add: example_hr_start_def example_hr_db_def)
  have "defaults_ok example_hr_start"
    by (simp add: defaults_ok_def empty empty_timeoff_db_def one_default_def below_def)
  moreover have "plan_op 1 example_hr_start ?st1" "plan_op 1 ?st1 ?st2" by (rule plan_op.cycle, simp)+
  then have "(plan_op 1)\<^sup>*\<^sup>* example_hr_start ?st2" by (meson r_into_rtranclp rtranclp.rtrancl_into_rtrancl)
  ultimately have "defaults_ok ?st2" by (rule at_most_one_default [rotated])
  then show ?thesis
    by (simp add: Let_def upsert_leave_cycle_def put_leave_cycle_def frame_simps empty empty_timeoff_db_def
        set_cycle_fields_def new_leave_cycle_def default_cycle_named_def clear_default_cycles_def clear_defaults_def)
qed

section \<open>The window of a cycle\<close>

lemma mk_date_safe: "1 \<le> y \<Longrightarrow> y \<le> 9999 \<Longrightarrow> 1 \<le> m \<Longrightarrow> m \<le> 12 \<Longrightarrow> 1 \<le> d \<Longrightarrow> d \<le> 28 \<Longrightarrow> mk_date y m d = Inr (Date y m d)"
  using days_in_month_bounds [of y m] by (simp add: mk_date_def valid_date_def)

lemma le_prev_day: "valid_date a \<Longrightarrow> valid_date b \<Longrightarrow> Date 1 1 1 < b \<Longrightarrow> a \<le> prev_day b \<longleftrightarrow> a < b"
  using toordinal_prev_day [of b] valid_prev_day [of b] toordinal_le_iff [of a "prev_day b"] toordinal_less_iff [of a b]
  by simp

text \<open>The month and day a cycle starts on.\<close>

definition cycle_anchor :: "leave_cycle \<Rightarrow> employee \<Rightarrow> (int \<times> int) option" where
  "cycle_anchor cycle e =
     (case lc_cycle_type cycle of
        EMPLOYEE_JOINING_DATE \<Rightarrow> map_option (\<lambda>j. (mo j, dy j)) (em_date_of_joining e)
      | FINANCIAL_YEAR \<Rightarrow> Some (4, 1)
      | _ \<Rightarrow> Some (lc_start_month cycle, lc_start_day cycle))"

lemma get_cycle_window_anchor:
  assumes "cycle_anchor cycle e = Some (m, d)" "1 \<le> m" "m \<le> 12" "1 \<le> d" "d \<le> 28"
    "valid_date today" "2 \<le> yr today" "yr today \<le> 9998"
  shows "get_cycle_window cycle e today =
    Inr (let y = (if Date (yr today) m d > today then yr today - 1 else yr today) in (Date y m d, prev_day (Date (y + 1) m d)))"
  using assms mk_date_safe [of _ m d]
  by (auto simp: get_cycle_window_def cycle_anchor_def Let_def split: leave_cycle_type.splits)

text \<open>
  a cycle that starts on a day every year has (not the 29th of February, and for the years whose
  neighbours exist) divides the calendar: the window of a date contains the date, and it is the
  window of every date it contains.
\<close>
theorem cycle_windows_partition_dates:
  assumes "cycle_anchor cycle e = Some (m, d)" "1 \<le> m" "m \<le> 12" "1 \<le> d" "d \<le> 28"
    "valid_date today" "3 \<le> yr today" "yr today \<le> 9997"
  shows "\<exists>s t. get_cycle_window cycle e today = Inr (s, t) \<and> s \<le> today \<and> today \<le> t \<and>
    (\<forall>day. valid_date day \<and> s \<le> day \<and> day \<le> t \<longrightarrow> get_cycle_window cycle e day = Inr (s, t))"
proof -
  define y where "y = (if Date (yr today) m d > today then yr today - 1 else yr today)"
  have y: "2 \<le> y" "y \<le> 9997" using assms(7,8) by (auto simp: y_def)
  have start: "valid_date (Date k m d)" if "1 \<le> k" "k \<le> 9999" for k
    using mk_date_safe [OF that assms(2-5)] by (simp add: mk_date_Inr)
  have bound: "a \<le> prev_day (Date (y + 1) m d) \<longleftrightarrow> a < Date (y + 1) m d" if "valid_date a" for a
    using le_prev_day [OF that, of "Date (y + 1) m d"] start [of "y + 1"] y by simp
  have inside: "get_cycle_window cycle e day = Inr (Date y m d, prev_day (Date (y + 1) m d))"
    if day: "valid_date day" "Date y m d \<le> day" "day < Date (y + 1) m d" for day
  proof -
    have k: "(if Date (yr day) m d > day then yr day - 1 else yr day) = y" and "y \<le> yr day" "yr day \<le> y + 1"
      using day(2,3) by (cases day; auto split: if_splits)+
    with y show ?thesis
      using get_cycle_window_anchor [OF assms(1-5) day(1)] by (simp add: Let_def)
  qed
  have "Date y m d \<le> today" "today < Date (y + 1) m d"
    by (cases today; auto simp: y_def)+
  with inside bound assms(6) show ?thesis
    by (intro exI [of _ "Date y m d"] exI [of _ "prev_day (Date (y + 1) m d)"]) auto
qed

definition april_cycle :: leave_cycle where
  "april_cycle = (new_leave_cycle 7 1)\<lparr>lc_cycle_type := FINANCIAL_YEAR\<rparr>"

theorem cycle_windows_partition_dates_witness:
  "\<exists>s t. get_cycle_window april_cycle (example_employee 10 None) (Date 2025 3 31) = Inr (s, t) \<and>
    s \<le> Date 2025 3 31 \<and> Date 2025 3 31 \<le> t \<and>
    (\<forall>day. valid_date day \<and> s \<le> day \<and> day \<le> t \<longrightarrow> get_cycle_window april_cycle (example_employee 10 None) day = Inr (s, t))"
  by (rule cycle_windows_partition_dates [of _ _ 4 1])
    (simp_all add: cycle_anchor_def april_cycle_def valid_date_def days_in_month_def)

text \<open>
  an employee who joined on the 29th of February has no window in a cycle that starts on the
  joining date, whatever the day it is asked for: every call raises.
\<close>
theorem leap_day_joiner_has_no_window:
  assumes "lc_cycle_type cycle = EMPLOYEE_JOINING_DATE" "em_date_of_joining e = Some (Date y 2 29)"
  shows "get_cycle_window cycle e today = raise_value ''day is out of range for month''"
proof -
  have leap: "is_leap k" if "valid_date (Date k 2 29)" for k
    using that by (simp add: valid_date_def days_in_month_def split: if_splits)
  have next_common: "\<not> is_leap (k + 1)" if "is_leap k" for k
  proof -
    have "k mod 4 = 0" using that by (simp add: is_leap_def)
    then have "(k + 1) mod 4 = 1" by presburger
    then show ?thesis by (simp add: is_leap_def)
  qed
  then have after: "mk_date (k + 1) 2 29 = raise_value ''day is out of range for month''" if "valid_date (Date k 2 29)" for k
    using leap that unfolding mk_date_def by metis
  have ok: "mk_date k 2 29 = Inr (Date k 2 29) \<and> valid_date (Date k 2 29) \<or>
      mk_date k 2 29 = raise_value ''day is out of range for month''" for k
    by (simp add: mk_date_def)
  have window: "bind_res (mk_date k 2 29) (\<lambda>start. bind_res (mk_date (yr start + 1) 2 29) (f start)) =
      raise_value ''day is out of range for month''" for k and f :: "date \<Rightarrow> date \<Rightarrow> (date \<times> date) res"
    using ok [of k] after [of k] by (elim disjE conjE) simp_all
  show ?thesis
    using ok [of "yr today"] after [of "yr today"] window [of "yr today - 1"]
    by (elim disjE conjE) (simp_all add: get_cycle_window_def assms Let_def)
qed

theorem leap_day_joiner_has_no_window_witness:
  "get_cycle_window (april_cycle\<lparr>lc_cycle_type := EMPLOYEE_JOINING_DATE\<rparr>)
     ((example_employee 10 None)\<lparr>em_date_of_joining := Some (Date 2020 2 29)\<rparr>) (Date 2024 3 1) =
   raise_value ''day is out of range for month''"
  by (rule leap_day_joiner_has_no_window [of _ _ 2020]) simp_all

end
