(* ===== verification/TimeoffBalances.thy ===== *)
theory TimeoffBalances
  imports TimeoffPlans
begin

text \<open>
  Leave balances (\<open>timeoff/services.py\<close>, \<open>timeoff/repositories.py\<close>, \<open>timeoff/tasks.py\<close>): the credit of a
  period, the balance row of a cycle and its ledger, periodic credits, carry-forward, the lapse and
  the cap at the end of a cycle, and the nightly task. A function given a row works on that row as it
  was loaded and writes only the columns it names.
\<close>

section \<open>Queries\<close>

definition get_leave_balance_record :: "timeoff_db \<Rightarrow> uid \<Rightarrow> uid \<Rightarrow> date \<Rightarrow> date \<Rightarrow> leave_balance option" where
  "get_leave_balance_record db employee leave_type s t =
     first_row (\<lambda>b. lb_employee b = employee \<and> lb_leave_type b = leave_type \<and> lb_cycle_start b = s \<and> lb_cycle_end b = t)
       (td_balances db)"

definition get_leave_request_total_units ::
  "timeoff_db \<Rightarrow> uid \<Rightarrow> uid \<Rightarrow> leave_request_status \<Rightarrow> date \<Rightarrow> date \<Rightarrow> rat" where
  "get_leave_request_total_units db employee leave_type status s t =
     sum_list (map lr_total_units (filter (\<lambda>r. lr_employee r = employee \<and> lr_leave_type r = leave_type \<and>
       lr_status r = status \<and> s \<le> lr_start_date r \<and> lr_end_date r \<le> t) (td_leave_requests db)))"

definition list_overlapping_leave_requests :: "timeoff_db \<Rightarrow> uid \<Rightarrow> date \<Rightarrow> date \<Rightarrow> leave_request list" where
  "list_overlapping_leave_requests db employee s t =
     filter (\<lambda>r. lr_employee r = employee \<and> lr_status r \<in> {LR_PENDING, LR_APPROVED} \<and>
       lr_start_date r \<le> t \<and> s \<le> lr_end_date r) (td_leave_requests db)"

definition get_total_days_to_encash ::
  "timeoff_db \<Rightarrow> uid \<Rightarrow> uid \<Rightarrow> date \<Rightarrow> date \<Rightarrow> leave_encashment_status set \<Rightarrow> rat" where
  "get_total_days_to_encash db employee leave_type s t statuses =
     sum_list (map en_days_to_encash (filter (\<lambda>r. en_employee r = employee \<and> en_leave_type r = leave_type \<and>
       en_cycle_start r = s \<and> en_cycle_end r = t \<and> en_status r \<in> statuses) (td_encashments db)))"

definition list_leave_requests_in_range :: "timeoff_db \<Rightarrow> uid \<Rightarrow> date \<Rightarrow> date \<Rightarrow> leave_request list" where
  "list_leave_requests_in_range db employee s t =
     filter (\<lambda>r. lr_employee r = employee \<and> lr_start_date r \<le> t \<and> s \<le> lr_end_date r) (td_leave_requests db)"

definition get_lwp_days_for_period :: "timeoff_db \<Rightarrow> uid \<Rightarrow> date \<Rightarrow> date \<Rightarrow> rat" where
  "get_lwp_days_for_period db employee s t =
     quantize2 (sum_list (map lr_total_units (filter (\<lambda>r. lr_employee r = employee \<and>
       (case find_leave_type db (lr_leave_type r) of None \<Rightarrow> False | Some x \<Rightarrow> lt_is_loss_of_pay x) \<and>
       lr_status r = LR_APPROVED \<and> lr_start_date r \<le> t \<and> s \<le> lr_end_date r) (td_leave_requests db))))"

section \<open>The credit of a period\<close>

definition months_spanned :: "date \<Rightarrow> date \<Rightarrow> int" where
  "months_spanned s t = (yr t - yr s) * 12 + mo t - mo s + 1"

text \<open>\<open>math.ceil(months / k)\<close>: the quotient is a double, exact enough for month counts.\<close>

definition ceil_div :: "int \<Rightarrow> int \<Rightarrow> int" where
  "ceil_div n k = - ((- n) div k)"

definition periods_elapsed :: "date \<Rightarrow> date \<Rightarrow> leave_credit_frequency \<Rightarrow> int" where
  "periods_elapsed s t frequency =
     (case frequency of
        CF_YEARLY \<Rightarrow> 1
      | CF_MONTHLY \<Rightarrow> max 1 (months_spanned s t)
      | CF_QUARTERLY \<Rightarrow> max 1 (ceil_div (months_spanned s t) 3)
      | CF_HALF_YEARLY \<Rightarrow> max 1 (ceil_div (months_spanned s t) 6)
      | CF_MANUAL \<Rightarrow> 0)"

definition joined_within :: "leave_type \<Rightarrow> employee \<Rightarrow> date \<Rightarrow> date \<Rightarrow> date option" where
  "joined_within lt e s t =
     (case em_date_of_joining e of
        None \<Rightarrow> None
      | Some j \<Rightarrow> if lt_prorate_on_join lt \<and> s \<le> j \<and> j \<le> t then Some j else None)"

definition periods_per_year :: "leave_credit_frequency \<Rightarrow> rat" where
  "periods_per_year frequency =
     (case frequency of CF_MONTHLY \<Rightarrow> 12 | CF_QUARTERLY \<Rightarrow> 4 | CF_HALF_YEARLY \<Rightarrow> 2 | _ \<Rightarrow> 1)"

definition prorated :: "date option \<Rightarrow> date \<Rightarrow> date \<Rightarrow> rat \<Rightarrow> rat" where
  "prorated joined s t amount =
     (case joined of
        None \<Rightarrow> amount
      | Some j \<Rightarrow> ddiv (dmul amount (of_int (days_between j t + 1))) (of_int (days_between s t + 1)))"

definition compute_credit_for_period :: "date \<Rightarrow> employee \<Rightarrow> leave_type \<Rightarrow> date \<Rightarrow> date \<Rightarrow> rat" where
  "compute_credit_for_period today e lt s t =
     (let annual = quantize2 (lt_annual_entitlement lt);
          frequency = lt_credit_frequency lt;
          joined = joined_within lt e s t
      in if frequency = CF_MANUAL then 0
         else if frequency = CF_YEARLY then
           (case joined of None \<Rightarrow> annual | Some _ \<Rightarrow> quantize2 (prorated joined s t annual))
         else quantize2 (prorated joined s t
                (dmul (ddiv annual (periods_per_year frequency)) (of_int (periods_elapsed s today frequency)))))"

definition calculate_period_credit_amount :: "leave_type \<Rightarrow> rat" where
  "calculate_period_credit_amount lt =
     (let annual = quantize2 (lt_annual_entitlement lt) in
      case lt_credit_frequency lt of
        CF_MANUAL \<Rightarrow> 0
      | CF_YEARLY \<Rightarrow> annual
      | frequency \<Rightarrow> quantize2 (ddiv annual (periods_per_year frequency)))"

definition leave_request_units :: "date \<Rightarrow> date \<Rightarrow> day_session \<Rightarrow> day_session \<Rightarrow> rat" where
  "leave_request_units s t start_session end_session =
     (if s = t \<and> start_session \<noteq> FULL_DAY \<and> end_session \<noteq> FULL_DAY then 1 / 2
      else quantize2 (of_int (days_between s t + 1) - (if start_session \<noteq> FULL_DAY then 1 / 2 else 0)
                        - (if end_session \<noteq> FULL_DAY then 1 / 2 else 0)))"

section \<open>The row of a cycle\<close>

definition available_balance :: "leave_balance \<Rightarrow> rat" where
  "available_balance b =
     lb_opening_balance b + lb_carried_forward_amount b + lb_credited_amount b - lb_used_amount b - lb_pending_amount b"

definition new_leave_balance :: "uid \<Rightarrow> uid \<Rightarrow> uid \<Rightarrow> date \<Rightarrow> date \<Rightarrow> leave_balance" where
  "new_leave_balance i employee leave_type s t =
     \<lparr>lb_id = i, lb_employee = employee, lb_leave_type = leave_type, lb_cycle_start = s, lb_cycle_end = t,
      lb_opening_balance = 0, lb_credited_amount = 0, lb_used_amount = 0, lb_pending_amount = 0,
      lb_carried_forward_amount = 0\<rparr>"

text \<open>\<open>get_or_create\<close>: the state, the row and whether it was created.\<close>

definition get_or_create_balance_row ::
  "uid \<Rightarrow> uid \<Rightarrow> date \<Rightarrow> date \<Rightarrow> hr_state \<Rightarrow> hr_state \<times> leave_balance \<times> bool" where
  "get_or_create_balance_row employee leave_type s t st =
     (case get_leave_balance_record (timeoff st) employee leave_type s t of
        Some b \<Rightarrow> (st, b, False)
      | None \<Rightarrow>
          let b = new_leave_balance (ap_next_id st) employee leave_type s t
          in (update_timeoff (\<lambda>d. d\<lparr>td_balances := td_balances d @ [b]\<rparr>) (draw_id st), b, True))"

definition update_balance :: "uid \<Rightarrow> (leave_balance \<Rightarrow> leave_balance) \<Rightarrow> hr_state \<Rightarrow> hr_state" where
  "update_balance i f = update_timeoff (\<lambda>d. d\<lparr>td_balances := update_where (\<lambda>b. lb_id b = i) f (td_balances d)\<rparr>)"

definition add_ledger :: "ledger_entry \<Rightarrow> hr_state \<Rightarrow> hr_state" where
  "add_ledger l = update_timeoff (\<lambda>d. d\<lparr>td_ledger := td_ledger d @ [l]\<rparr>)"

definition cycle_of_type :: "timeoff_db \<Rightarrow> uid \<Rightarrow> leave_cycle res" where
  "cycle_of_type db leave_type =
     (case Option.bind (plan_of_type db leave_type) (\<lambda>p. find_cycle db (lp_leave_cycle p)) of
        None \<Rightarrow> Inl (DoesNotExist ''LeaveCycle'')
      | Some c \<Rightarrow> Inr c)"

text \<open>The three columns that are recomputed, for a row and the employee's requests.\<close>

definition recomputed_balance :: "date \<Rightarrow> timeoff_db \<Rightarrow> employee \<Rightarrow> leave_type \<Rightarrow> leave_balance \<Rightarrow> leave_balance" where
  "recomputed_balance today db e lt b =
     (let s = lb_cycle_start b; t = lb_cycle_end b;
          credited = compute_credit_for_period today e lt s t;
          used = quantize2 (get_leave_request_total_units db (em_id e) (lt_id lt) LR_APPROVED s t);
          pending = quantize2 (get_leave_request_total_units db (em_id e) (lt_id lt) LR_PENDING s t);
          capped = (case lt_max_balance lt of
              None \<Rightarrow> quantize2 credited
            | Some m \<Rightarrow> max 0 (min (quantize2 credited)
                (quantize2 (m - lb_opening_balance b - lb_carried_forward_amount b + used + pending))))
      in b\<lparr>lb_credited_amount := capped, lb_used_amount := used, lb_pending_amount := pending\<rparr>)"

definition get_or_create_leave_balance ::
  "clock \<Rightarrow> employee \<Rightarrow> leave_type \<Rightarrow> date option \<Rightarrow> hr_state \<Rightarrow> (hr_state \<times> leave_balance) res" where
  "get_or_create_leave_balance ck e lt as_of st =
     bind_res (cycle_of_type (timeoff st) (lt_id lt)) (\<lambda>cycle.
     bind_res (get_cycle_window cycle e (or_else as_of (ck_today ck))) (\<lambda>(s, t).
       let (d, row, created) = get_or_create_balance_row (em_id e) (lt_id lt) s t st;
           b = recomputed_balance (ck_today ck) (timeoff d) e lt row;
           d1 = update_balance (lb_id row) (\<lambda>x. x\<lparr>lb_credited_amount := lb_credited_amount b,
                  lb_used_amount := lb_used_amount b, lb_pending_amount := lb_pending_amount b\<rparr>) d
       in Inr (if created
               then add_ledger \<lparr>le_leave_balance = lb_id row, le_entry_type = BE_CREDIT, le_amount = lb_credited_amount b,
                      le_effective_date = s, le_note = [], le_note_key = None, le_created_by = None\<rparr> d1
               else d1, b)))"

section \<open>Periodic credit\<close>

definition credit_leave_for_period ::
  "clock \<Rightarrow> employee \<Rightarrow> leave_type \<Rightarrow> date \<Rightarrow> date \<Rightarrow> date option \<Rightarrow> uid option \<Rightarrow> hr_state
     \<Rightarrow> hr_state \<times> leave_balance option" where
  "credit_leave_for_period ck e lt s t credit_date actor st =
     (let amount = calculate_period_credit_amount lt
      in if amount \<le> 0 then (st, None)
         else
           let (d, row, _) = get_or_create_balance_row (em_id e) (lt_id lt) s t st;
               capacity = map_option (\<lambda>m. quantize2 (m - available_balance row)) (lt_max_balance lt)
           in if (case capacity of None \<Rightarrow> False | Some c \<Rightarrow> c \<le> 0) then (d, Some row)
              else
                let credit = (case capacity of None \<Rightarrow> amount | Some c \<Rightarrow> min amount c);
                    b = row\<lparr>lb_credited_amount := quantize2 (lb_credited_amount row + credit)\<rparr>
                in (add_ledger \<lparr>le_leave_balance = lb_id row, le_entry_type = BE_CREDIT, le_amount = credit,
                       le_effective_date = or_else credit_date (ck_today ck), le_note = ''Periodic credit ({})'',
                       le_note_key = None, le_created_by = actor\<rparr>
                      (update_balance (lb_id row) (\<lambda>x. x\<lparr>lb_credited_amount := lb_credited_amount b\<rparr>) d), Some b))"

section \<open>The balances of an employee\<close>

record balance_view =
  bv_leave_type :: uid
  bv_leave_type_name :: string
  bv_color :: string
  bv_available :: rat
  bv_credited :: rat
  bv_used :: rat
  bv_pending :: rat

fun collect_leave_balances :: "clock \<Rightarrow> employee \<Rightarrow> leave_type list \<Rightarrow> hr_state \<Rightarrow> balance_view list outcome" where
  "collect_leave_balances ck e [] st = give [] st"
| "collect_leave_balances ck e (lt # lts) st =
     then_do (atomically (get_or_create_leave_balance ck e lt None st) st) (\<lambda>b. \<lambda>d.
     then_do (collect_leave_balances ck e lts d) (\<lambda>rest. \<lambda>d.
       give (\<lparr>bv_leave_type = lt_id lt, bv_leave_type_name = lt_name lt, bv_color = lt_color lt,
              bv_available = quantize2 (available_balance b), bv_credited = lb_credited_amount b,
              bv_used = lb_used_amount b, bv_pending = lb_pending_amount b\<rparr> # rest) d))"

definition get_employee_leave_balances :: "clock \<Rightarrow> employee \<Rightarrow> hr_state \<Rightarrow> balance_view list outcome" where
  "get_employee_leave_balances ck e st =
     (case resolve_employee_leave_plan (timeoff st) e of
        None \<Rightarrow> give [] st
      | Some p \<Rightarrow> collect_leave_balances ck e (sort_key lt_name (filter lt_is_active (lp_leave_types p))) st)"

section \<open>The end of a cycle\<close>

definition carry_forward_amount_of :: "leave_type \<Rightarrow> leave_balance option \<Rightarrow> rat" where
  "carry_forward_amount_of lt old =
     (let carry = (case old of None \<Rightarrow> 0 | Some b \<Rightarrow> max 0 (available_balance b)) in
      case lt_carry_forward_mode lt of
        CARRY_NONE \<Rightarrow> 0
      | CARRY_UNLIMITED \<Rightarrow> quantize2 carry
      | CARRY_CAPPED \<Rightarrow> min (quantize2 carry) (quantize2 (or_else (lt_carry_forward_cap lt) 0)))"

text \<open>\<open>update_or_create\<close> of the carry-forward entry of a balance.\<close>

definition put_carry_forward_entry :: "ledger_entry \<Rightarrow> hr_state \<Rightarrow> hr_state" where
  "put_carry_forward_entry l st =
     (let same = (\<lambda>x. le_leave_balance x = le_leave_balance l \<and> le_entry_type x = BE_CARRY_FORWARD \<and>
            le_effective_date x = le_effective_date l)
      in if list_ex same (td_ledger (timeoff st))
         then update_timeoff (\<lambda>d. d\<lparr>td_ledger := update_where same
                (\<lambda>x. x\<lparr>le_amount := le_amount l, le_note := le_note l, le_created_by := le_created_by l\<rparr>) (td_ledger d)\<rparr>) st
         else add_ledger l st)"

definition process_cycle_end_carry_forward ::
  "employee \<Rightarrow> leave_type \<Rightarrow> date \<Rightarrow> date \<Rightarrow> date \<Rightarrow> date \<Rightarrow> uid option \<Rightarrow> hr_state \<Rightarrow> hr_state \<times> leave_balance" where
  "process_cycle_end_carry_forward e lt old_start old_end new_start new_end actor st =
     (let amount = carry_forward_amount_of lt (get_leave_balance_record (timeoff st) (em_id e) (lt_id lt) old_start old_end);
          (d, row, _) = get_or_create_balance_row (em_id e) (lt_id lt) new_start new_end st
      in (put_carry_forward_entry \<lparr>le_leave_balance = lb_id row, le_entry_type = BE_CARRY_FORWARD, le_amount = amount,
             le_effective_date = new_start, le_note = ''Carry forward from {} to {}'', le_note_key = None,
             le_created_by = actor\<rparr>
            (update_balance (lb_id row) (\<lambda>x. x\<lparr>lb_carried_forward_amount := amount\<rparr>) d),
          row\<lparr>lb_carried_forward_amount := amount\<rparr>))"

definition expire_entry :: "leave_balance \<Rightarrow> rat \<Rightarrow> string \<Rightarrow> ledger_entry" where
  "expire_entry b amount note =
     \<lparr>le_leave_balance = lb_id b, le_entry_type = BE_EXPIRY, le_amount = amount, le_effective_date = lb_cycle_end b,
      le_note = note, le_note_key = None, le_created_by = None\<rparr>"

definition reduce_credit :: "leave_balance \<Rightarrow> rat \<Rightarrow> hr_state \<Rightarrow> hr_state" where
  "reduce_credit b amount =
     update_balance (lb_id b) (\<lambda>x. x\<lparr>lb_credited_amount := max 0 (quantize2 (lb_credited_amount b - amount))\<rparr>)"

definition has_expiry :: "timeoff_db \<Rightarrow> uid \<Rightarrow> bool" where
  "has_expiry db i = list_ex (\<lambda>l. le_leave_balance l = i \<and> le_entry_type l = BE_EXPIRY) (td_ledger db)"

definition process_cycle_end_lapse :: "uid \<Rightarrow> leave_balance \<Rightarrow> hr_state \<Rightarrow> hr_state" where
  "process_cycle_end_lapse employee b st =
     (let remaining = available_balance b in
      if remaining \<le> 0 then st
      else if has_expiry (timeoff st) (lb_id b) then st
      else
        let amount = quantize2 remaining;
            d = add_ledger (expire_entry b amount ''Cycle end lapse: {} - {}'') st;
            lop = (case find_leave_type (timeoff st) (lb_leave_type b) of None \<Rightarrow> False | Some x \<Rightarrow> lt_is_loss_of_pay x)
        in reduce_credit b amount
             (if lop then update_timeoff (\<lambda>t. t\<lparr>td_lwp_entries := td_lwp_entries t @
                  [\<lparr>lwp_employee = employee, lwp_entry_date = lb_cycle_end b, lwp_units = amount,
                    lwp_source = LWP_LEAVE_LAPSE, lwp_status = LWP_APPROVED\<rparr>]\<rparr>) d
              else d))"

definition process_cycle_end_cap :: "employee \<Rightarrow> leave_type \<Rightarrow> leave_balance \<Rightarrow> hr_state \<Rightarrow> hr_state res" where
  "process_cycle_end_cap e lt b st =
     (case lt_carry_forward_cap lt of
        None \<Rightarrow> Inr st
      | Some c \<Rightarrow>
          let cap = quantize2 c;
              available = quantize2 (max 0 (available_balance b));
              excess = quantize2 (available - cap);
              d = (if available > cap
                   then reduce_credit b excess
                          (add_ledger (expire_entry b excess ''Carry-forward cap lapse: allowed {}, lapsed {}'') st)
                   else st)
          in bind_res (cycle_of_type (timeoff st) (lt_id lt)) (\<lambda>cycle.
             bind_res (get_cycle_window cycle e (next_day (lb_cycle_end b))) (\<lambda>(new_start, new_end).
               Inr (fst (process_cycle_end_carry_forward e lt (lb_cycle_start b) (lb_cycle_end b) new_start new_end None d)))))"

section \<open>The nightly task\<close>

definition ended_balances :: "date \<Rightarrow> carry_forward_mode \<Rightarrow> hr_state \<Rightarrow> (employee \<times> leave_type \<times> leave_balance) list" where
  "ended_balances today mode st =
     concat (map (\<lambda>b.
       case (find_employee (ap_org st) (lb_employee b), find_leave_type (timeoff st) (lb_leave_type b)) of
         (Some e, Some lt) \<Rightarrow>
           if lb_cycle_end b < today \<and> lt_carry_forward_mode lt = mode \<and> em_status e = ES_ACTIVE then [(e, lt, b)] else []
       | _ \<Rightarrow> []) (td_balances (timeoff st)))"

definition lapse_ended :: "date \<Rightarrow> hr_state \<Rightarrow> hr_state" where
  "lapse_ended today st =
     fold (\<lambda>(e, lt, b). process_cycle_end_lapse (em_id e) b) (ended_balances today CARRY_NONE st) st"

text \<open>Each balance is a transaction; the first that raises ends the task and keeps the ones before.\<close>

fun cap_ended :: "(employee \<times> leave_type \<times> leave_balance) list \<Rightarrow> hr_state \<Rightarrow> unit outcome" where
  "cap_ended [] st = give () st"
| "cap_ended ((e, lt, b) # bs) st =
     then_do (atomically (bind_res (process_cycle_end_cap e lt b st) (\<lambda>d. Inr (d, ()))) st) (\<lambda>_. cap_ended bs)"

definition run_leave_lapse_for_all_active_cycles :: "clock \<Rightarrow> hr_state \<Rightarrow> unit outcome" where
  "run_leave_lapse_for_all_active_cycles ck st =
     (let d = lapse_ended (ck_today ck) st in cap_ended (ended_balances (ck_today ck) CARRY_CAPPED d) d)"

section \<open>Validation\<close>

text \<open>
  The window form reads the stored row; otherwise the balance is brought up to date first, which
  stays written when the check raises.
\<close>

definition check_available :: "rat \<Rightarrow> rat \<Rightarrow> unit res" where
  "check_available requested available =
     guard_res (quantize2 requested > quantize2 available)
       (ValueError ''Insufficient leave balance. Available: {} days, Requested: {} days.''
          [ADec (quantize2 available), ADec (quantize2 requested)])"

definition validate_leave_balance ::
  "clock \<Rightarrow> employee \<Rightarrow> leave_type \<Rightarrow> rat \<Rightarrow> (date \<times> date) option \<Rightarrow> date option \<Rightarrow> hr_state \<Rightarrow> unit outcome" where
  "validate_leave_balance ck e lt requested window as_of st =
     (if lt_is_loss_of_pay lt then give () st
      else (case window of
          Some (s, t) \<Rightarrow>
            from_res (check_available requested
              (case get_leave_balance_record (timeoff st) (em_id e) (lt_id lt) s t of
                 None \<Rightarrow> 0 | Some b \<Rightarrow> available_balance b)) st
        | None \<Rightarrow>
            then_do (atomically (get_or_create_leave_balance ck e lt as_of st) st)
              (\<lambda>b. from_res (check_available requested (available_balance b)))))"

end
