(* ===== verification/TimeoffRequests.thy ===== *)
theory TimeoffRequests
  imports TimeoffBalances
begin

text \<open>
  Leave, on-duty and encashment requests and compensatory off (\<open>timeoff/services.py\<close>). Leave and
  on-duty requests are filed without a surrounding transaction, so the result is the state reached
  and the value or error; encashment requests are one transaction. The subject operations that the
  approval engine calls back are an argument where a run is cancelled.
\<close>

section \<open>Overlap\<close>

definition get_single_day_half_session :: "date \<Rightarrow> date \<Rightarrow> day_session \<Rightarrow> day_session \<Rightarrow> day_session option" where
  "get_single_day_half_session s t start_session end_session =
     (if s \<noteq> t then None
      else if start_session \<noteq> end_session then None
      else if start_session \<notin> {FIRST_HALF, SECOND_HALF} then None
      else Some start_session)"

definition half_session_of :: "leave_request \<Rightarrow> day_session option" where
  "half_session_of r =
     get_single_day_half_session (lr_start_date r) (lr_end_date r) (lr_start_session r) (lr_end_session r)"

definition leave_requests_overlap :: "leave_request \<Rightarrow> date \<Rightarrow> date \<Rightarrow> day_session \<Rightarrow> day_session \<Rightarrow> bool" where
  "leave_requests_overlap existing s t start_session end_session =
     (let requested = get_single_day_half_session s t start_session end_session;
          present = half_session_of existing
      in \<not> (requested \<noteq> None \<and> present \<noteq> None \<and>
            s = t \<and> t = lr_start_date existing \<and> lr_start_date existing = lr_end_date existing \<and> requested \<noteq> present))"

section \<open>Compensatory off\<close>

definition is_comp_off_leave_type :: "leave_type \<Rightarrow> bool" where
  "is_comp_off_leave_type lt = (py_upper (py_strip (lt_code lt)) = ''COMP_OFF'')"

definition comp_off_reserved_statuses :: "comp_off_status set" where
  "comp_off_reserved_statuses = {CO_PENDING, CO_APPROVED, CO_REDEEMED}"

definition accrual_expired :: "date \<Rightarrow> comp_off_accrual \<Rightarrow> bool" where
  "accrual_expired today a = (case ca_off_expires_on a of None \<Rightarrow> False | Some d \<Rightarrow> d < today)"

definition approved_accruals :: "timeoff_db \<Rightarrow> uid \<Rightarrow> comp_off_accrual list" where
  "approved_accruals db employee = filter (\<lambda>a. ca_off_employee a = employee \<and> ca_off_status a = CO_APPROVED) (td_accruals db)"

definition redeemed_units :: "timeoff_db \<Rightarrow> uid \<Rightarrow> comp_off_status set \<Rightarrow> rat" where
  "redeemed_units db employee statuses =
     quantize2 (sum_list (map cr_units (filter (\<lambda>r. cr_employee r = employee \<and> cr_status r \<in> statuses) (td_redemptions db))))"

definition get_available_comp_off_units :: "date \<Rightarrow> timeoff_db \<Rightarrow> uid \<Rightarrow> rat" where
  "get_available_comp_off_units today db employee =
     max 0 (quantize2
       (sum_list (map (\<lambda>a. quantize2 (ca_off_units a)) (filter (\<lambda>a. \<not> accrual_expired today a) (approved_accruals db employee)))
        - redeemed_units db employee comp_off_reserved_statuses))"

definition comp_off_error :: "date \<Rightarrow> timeoff_db \<Rightarrow> uid \<Rightarrow> rat \<Rightarrow> py_error" where
  "comp_off_error today db employee requested =
     ValueError ''Insufficient comp off balance. Available: {} days, Requested: {} days.''
       [ADec (get_available_comp_off_units today db employee), ADec (quantize2 requested)]"

definition validate_comp_off_balance :: "date \<Rightarrow> timeoff_db \<Rightarrow> uid \<Rightarrow> rat \<Rightarrow> unit res" where
  "validate_comp_off_balance today db employee requested =
     guard_res (quantize2 requested > get_available_comp_off_units today db employee)
       (comp_off_error today db employee requested)"

text \<open>The units of an accrual that redemptions hold.\<close>

definition reserved_of :: "timeoff_db \<Rightarrow> uid \<Rightarrow> rat" where
  "reserved_of db accrual =
     quantize2 (sum_list (map cr_units (filter (\<lambda>r. cr_accrual r = Some accrual \<and> cr_status r \<in> comp_off_reserved_statuses)
       (td_redemptions db))))"

definition redemption_of :: "leave_request \<Rightarrow> uid \<Rightarrow> rat \<Rightarrow> comp_off_redemption" where
  "redemption_of request accrual units =
     \<lparr>cr_employee = lr_employee request, cr_accrual = Some accrual, cr_redemption_date = lr_start_date request,
      cr_units = units, cr_status = CO_PENDING, cr_leave_request = Some (lr_id request)\<rparr>"

fun reserve_from :: "date \<Rightarrow> leave_request \<Rightarrow> comp_off_accrual list \<Rightarrow> rat \<Rightarrow> timeoff_db \<Rightarrow> timeoff_db \<times> rat" where
  "reserve_from today request [] remaining db = (db, remaining)"
| "reserve_from today request (a # as) remaining db =
     (if accrual_expired today a then reserve_from today request as remaining db
      else
        let available = max 0 (quantize2 (ca_off_units a - reserved_of db (ca_off_id a)))
        in if available \<le> 0 then reserve_from today request as remaining db
           else
             let units = min remaining available;
                 db1 = db\<lparr>td_redemptions := td_redemptions db @ [redemption_of request (ca_off_id a) units]\<rparr>;
                 rest = quantize2 (remaining - units)
             in if rest \<le> 0 then (db1, rest) else reserve_from today request as rest db1)"

text \<open>Accruals that expire first are used first; those that never expire come last.\<close>

definition accruals_in_order :: "timeoff_db \<Rightarrow> uid \<Rightarrow> comp_off_accrual list" where
  "accruals_in_order db employee =
     sort_key (\<lambda>a. (ca_off_expires_on a = None, or_else (ca_off_expires_on a) (Date 1 1 1), ca_off_accrual_date a))
       (approved_accruals db employee)"

definition reserve_comp_off_redemption :: "date \<Rightarrow> leave_request \<Rightarrow> hr_state \<Rightarrow> unit outcome" where
  "reserve_comp_off_redemption today request st =
     (let (db, remaining) = reserve_from today request (accruals_in_order (timeoff st) (lr_employee request))
            (quantize2 (lr_total_units request)) (timeoff st);
          d = update_timeoff (\<lambda>_. db) st
      in if remaining > 0 then fail (comp_off_error today db (lr_employee request) (lr_total_units request)) d
         else give () d)"

definition comp_off_target :: "leave_request_status \<Rightarrow> comp_off_status" where
  "comp_off_target new_status =
     (case new_status of
        LR_APPROVED \<Rightarrow> CO_APPROVED | LR_WITHDRAWN \<Rightarrow> CO_CANCELLED | LR_REJECTED \<Rightarrow> CO_REJECTED
      | LR_CANCELLED \<Rightarrow> CO_CANCELLED | LR_PENDING \<Rightarrow> CO_PENDING)"

definition sync_comp_off_redemptions_for_leave_request ::
  "leave_request \<Rightarrow> leave_request_status \<Rightarrow> timeoff_db \<Rightarrow> timeoff_db" where
  "sync_comp_off_redemptions_for_leave_request request new_status db =
     (case find_leave_type db (lr_leave_type request) of
        None \<Rightarrow> db
      | Some lt \<Rightarrow>
          if \<not> is_comp_off_leave_type lt then db
          else db\<lparr>td_redemptions := update_where
                 (\<lambda>r. cr_leave_request r = Some (lr_id request) \<and> cr_status r \<noteq> comp_off_target new_status)
                 (\<lambda>r. r\<lparr>cr_status := comp_off_target new_status\<rparr>) (td_redemptions db)\<rparr>)"

record comp_off_summary =
  cs_available :: rat
  cs_earned :: rat
  cs_used :: rat
  cs_pending :: rat
  cs_history :: "comp_off_accrual list"

definition get_employee_comp_off_summary :: "date \<Rightarrow> timeoff_db \<Rightarrow> uid \<Rightarrow> comp_off_summary" where
  "get_employee_comp_off_summary today db employee =
     (let accruals = rev (sort_key ca_off_accrual_date (approved_accruals db employee));
          live = filter (\<lambda>a. \<not> accrual_expired today a) accruals;
          earned = quantize2 (sum_list (map ca_off_units accruals));
          used = redeemed_units db employee {CO_APPROVED, CO_REDEEMED};
          pending = redeemed_units db employee {CO_PENDING}
      in \<lparr>cs_available = max 0 (quantize2 (sum_list (map (\<lambda>a. quantize2 (ca_off_units a)) live) - used - pending)),
          cs_earned = earned, cs_used = used, cs_pending = pending, cs_history = live\<rparr>)"

section \<open>Encashment\<close>

definition encashment_ref :: "uid \<Rightarrow> subject_ref" where
  "encashment_ref i = (''LeaveEncashmentRequest'', i)"

definition update_encashment :: "uid \<Rightarrow> (leave_encashment_request \<Rightarrow> leave_encashment_request) \<Rightarrow> hr_state \<Rightarrow> hr_state" where
  "update_encashment i f = update_timeoff (\<lambda>d. d\<lparr>td_encashments := update_where (\<lambda>r. en_id r = i) f (td_encashments d)\<rparr>)"

definition create_leave_encashment_request ::
  "clock \<Rightarrow> employee \<Rightarrow> leave_type \<Rightarrow> date \<Rightarrow> date \<Rightarrow> rat \<Rightarrow> uid option \<Rightarrow> hr_state \<Rightarrow> (hr_state \<times> uid) res" where
  "create_leave_encashment_request ck e lt s t days actor st =
     (if \<not> lt_allows_encashment lt
      then Inl (ValueError ''Leave type {} does not allow encashment.'' [AStr (lt_name lt)])
      else
        let available = (case get_leave_balance_record (timeoff st) (em_id e) (lt_id lt) s t of
              None \<Rightarrow> 0 | Some b \<Rightarrow> available_balance b)
        in if quantize2 days > quantize2 available
           then Inl (ValueError ''Cannot encash {} days. Available balance: {} days.'' [ADec (quantize2 days), ADec (quantize2 available)])
           else if (case lt_max_encashment_days_per_year lt of
                      None \<Rightarrow> False
                    | Some m \<Rightarrow>
                        quantize2 (get_total_days_to_encash (timeoff st) (em_id e) (lt_id lt) s t {EN_PENDING, EN_APPROVED, EN_PAID})
                          + quantize2 days > quantize2 m)
           then Inl (ValueError ''Exceeds annual encashment limit of {} days.''
                  [ADec (or_else (lt_max_encashment_days_per_year lt) 0)])
           else
             let i = ap_next_id st;
                 row = \<lparr>en_id = i, en_employee = em_id e, en_leave_type = lt_id lt, en_cycle_start = s, en_cycle_end = t,
                        en_days_to_encash = quantize2 days, en_status = EN_PENDING, en_approval_run = None,
                        en_rejection_reason = []\<rparr>
             in bind_res (create_approval_run ck (encashment_ref i) RK_LEAVE e actor (Some (lt_id lt))
                            (lt_name lt @ '' encashment'') None empty_context
                            (update_timeoff (\<lambda>d. d\<lparr>td_encashments := td_encashments d @ [row]\<rparr>) (draw_id st)))
                  (\<lambda>(d, run). Inr (update_encashment i (\<lambda>r. r\<lparr>en_approval_run := Some (rn_id run)\<rparr>) d, i)))"

definition encashment_debit :: "uid \<Rightarrow> ledger_entry \<Rightarrow> bool" where
  "encashment_debit i l =
     (le_entry_type l = BE_DEBIT \<and> le_note l = ''Leave encashment - request {}'' \<and> le_note_key l = Some i)"

definition finalize_leave_encashment :: "date \<Rightarrow> leave_encashment_request \<Rightarrow> timeoff_db \<Rightarrow> timeoff_db res" where
  "finalize_leave_encashment today r db =
     (case get_leave_balance_record db (en_employee r) (en_leave_type r) (en_cycle_start r) (en_cycle_end r) of
        None \<Rightarrow> Inl (DoesNotExist ''LeaveBalance'')
      | Some b \<Rightarrow>
          if list_ex (\<lambda>l. le_leave_balance l = lb_id b \<and> encashment_debit (en_id r) l) (td_ledger db) then Inr db
          else Inr (db\<lparr>td_balances := update_where (\<lambda>x. lb_id x = lb_id b)
                  (\<lambda>x. x\<lparr>lb_used_amount := quantize2 (lb_used_amount b + en_days_to_encash r)\<rparr>) (td_balances db),
                td_ledger := td_ledger db @
                  [\<lparr>le_leave_balance = lb_id b, le_entry_type = BE_DEBIT, le_amount = en_days_to_encash r,
                    le_effective_date = today, le_note = ''Leave encashment - request {}'', le_note_key = Some (en_id r),
                    le_created_by = None\<rparr>]\<rparr>))"

section \<open>Leave requests\<close>

definition pad_number :: "nat \<Rightarrow> int \<Rightarrow> string" where
  "pad_number k n = (let s = str_of_nat (nat n) in replicate (k - length s) (CHR ''0'') @ s)"

definition isoformat :: "date \<Rightarrow> string" where
  "isoformat d = pad_number 4 (yr d) @ ''-'' @ pad_number 2 (mo d) @ ''-'' @ pad_number 2 (dy d)"

definition leave_ref :: "uid \<Rightarrow> subject_ref" where
  "leave_ref i = (''LeaveRequest'', i)"

definition update_leave_request :: "uid \<Rightarrow> (leave_request \<Rightarrow> leave_request) \<Rightarrow> hr_state \<Rightarrow> hr_state" where
  "update_leave_request i f = update_timeoff (\<lambda>d. d\<lparr>td_leave_requests := update_where (\<lambda>r. lr_id r = i) f (td_leave_requests d)\<rparr>)"

text \<open>Steps whose value the caller ignores.\<close>

definition as_step :: "hr_state res \<Rightarrow> hr_state \<Rightarrow> unit outcome" where
  "as_step r st = atomically (bind_res r (\<lambda>d. Inr (d, ()))) st"

definition refresh_balance :: "clock \<Rightarrow> employee \<Rightarrow> leave_type \<Rightarrow> hr_state \<Rightarrow> unit outcome" where
  "refresh_balance ck e lt st = as_step (bind_res (get_or_create_leave_balance ck e lt None st) (\<lambda>(d, _). Inr d)) st"

definition check_leave_balance ::
  "clock \<Rightarrow> employee \<Rightarrow> leave_type \<Rightarrow> rat \<Rightarrow> date \<Rightarrow> hr_state \<Rightarrow> unit outcome" where
  "check_leave_balance ck e lt units s st =
     (if is_comp_off_leave_type lt
      then from_res (validate_comp_off_balance (ck_today ck) (timeoff st) (em_id e) units) st
      else validate_leave_balance ck e lt units None (Some s) st)"

definition new_leave_request ::
  "uid \<Rightarrow> uid \<Rightarrow> uid \<Rightarrow> date \<Rightarrow> date \<Rightarrow> day_session \<Rightarrow> day_session \<Rightarrow> leave_request" where
  "new_leave_request i employee leave_type s t start_session end_session =
     \<lparr>lr_id = i, lr_employee = employee, lr_leave_type = leave_type, lr_start_date = s, lr_end_date = t,
      lr_start_session = start_session, lr_end_session = end_session,
      lr_total_units = leave_request_units s t start_session end_session, lr_status = LR_PENDING,
      lr_rejection_reason = []\<rparr>"

text \<open>What follows the insertion of the row; a step that raises leaves the row behind.\<close>

definition open_leave_request ::
  "clock \<Rightarrow> employee \<Rightarrow> leave_type \<Rightarrow> leave_request \<Rightarrow> uid option \<Rightarrow> hr_state \<Rightarrow> uid outcome" where
  "open_leave_request ck e lt row actor st =
     then_do (if is_comp_off_leave_type lt then reserve_comp_off_redemption (ck_today ck) row st else give () st) (\<lambda>_. \<lambda>d.
     then_do (as_step (bind_res (create_approval_run ck (leave_ref (lr_id row)) RK_LEAVE e actor (Some (lt_id lt))
                (lt_name lt @ '': '' @ isoformat (lr_start_date row) @ '' to '' @ isoformat (lr_end_date row)) None empty_context d)
                (\<lambda>(x, _). Inr x)) d) (\<lambda>_. \<lambda>d.
     then_do (if is_comp_off_leave_type lt then give () d else refresh_balance ck e lt d) (\<lambda>_. \<lambda>d.
       give (lr_id row) (audit (Some (or_else actor (em_user e))) ''leave.request.created'' (lr_id row) d))))"

definition create_leave_request ::
  "clock \<Rightarrow> employee \<Rightarrow> leave_type \<Rightarrow> date \<Rightarrow> date \<Rightarrow> day_session \<Rightarrow> day_session \<Rightarrow> uid option \<Rightarrow> hr_state \<Rightarrow> uid outcome" where
  "create_leave_request ck e lt s t start_session end_session actor st =
     (if t < s then fail (ValueError ''End date cannot be before start date.'' []) st
      else if list_ex (\<lambda>r. leave_requests_overlap r s t start_session end_session)
                (list_overlapping_leave_requests (timeoff st) (em_id e) s t)
      then fail (ValueError ''A leave request already exists for the selected dates.'' []) st
      else then_do (check_leave_balance ck e lt (leave_request_units s t start_session end_session) s st) (\<lambda>_. \<lambda>d.
             let row = new_leave_request (ap_next_id d) (em_id e) (lt_id lt) s t start_session end_session
             in open_leave_request ck e lt row actor
                  (update_timeoff (\<lambda>x. x\<lparr>td_leave_requests := td_leave_requests x @ [row]\<rparr>) (draw_id d))))"

text \<open>Runs come latest first.\<close>

definition run_of_subject :: "hr_state \<Rightarrow> subject_ref \<Rightarrow> approval_run option" where
  "run_of_subject st subject = first_row (\<lambda>r. rn_subject r = subject) (rev (ap_runs st))"

definition cancel_run_of_subject ::
  "clock \<Rightarrow> hr_db subject_ops \<Rightarrow> subject_ref \<Rightarrow> uid option \<Rightarrow> hr_state \<Rightarrow> unit outcome" where
  "cancel_run_of_subject ck ops subject actor st =
     (case run_of_subject st subject of
        None \<Rightarrow> give () st
      | Some run \<Rightarrow> as_step (cancel_approval_run ck ops (rn_id run) actor (Some SUBJECT_WITHDRAWN) st) st)"

definition withdraw_leave_request ::
  "clock \<Rightarrow> hr_db subject_ops \<Rightarrow> leave_request \<Rightarrow> employee \<Rightarrow> leave_type \<Rightarrow> uid option \<Rightarrow> hr_state \<Rightarrow> unit outcome" where
  "withdraw_leave_request ck ops request e lt actor st =
     (if lr_status request \<notin> {LR_PENDING, LR_APPROVED}
      then fail (ValueError ''Only pending or approved leave requests can be withdrawn.'' []) st
      else
        then_do (cancel_run_of_subject ck ops (leave_ref (lr_id request)) actor
                   (update_leave_request (lr_id request) (\<lambda>r. r\<lparr>lr_status := LR_WITHDRAWN\<rparr>) st)) (\<lambda>_. \<lambda>d.
        then_do (let x = update_timeoff (sync_comp_off_redemptions_for_leave_request request LR_WITHDRAWN) d
                 in if is_comp_off_leave_type lt then give () x else refresh_balance ck e lt x) (\<lambda>_. \<lambda>x.
          give () (audit actor ''leave.request.withdrawn'' (lr_id request) x))))"

section \<open>On-duty requests\<close>

definition on_duty_ref :: "uid \<Rightarrow> subject_ref" where
  "on_duty_ref i = (''OnDutyRequest'', i)"

definition check_on_duty_input ::
  "date \<Rightarrow> date \<Rightarrow> on_duty_duration_type \<Rightarrow> nat option \<Rightarrow> nat option \<Rightarrow> unit res" where
  "check_on_duty_input s t duration start_time end_time =
     (if t < s then raise_value ''End date cannot be before start date.''
      else if duration = OD_TIME_RANGE then
        (case (start_time, end_time) of
           (Some x, Some y) \<Rightarrow> guard_res (y \<le> x)
              (ValueError ''Start time must be earlier than end time for time-range on-duty requests.'' [])
         | _ \<Rightarrow> raise_value ''Start and end time are required for time-range on-duty requests.'')
      else guard_res (start_time \<noteq> None \<or> end_time \<noteq> None)
             (ValueError ''Start and end time can only be provided for time-range on-duty requests.'' []))"

definition on_duty_units :: "on_duty_duration_type \<Rightarrow> rat" where
  "on_duty_units duration = (if duration \<in> {OD_FIRST_HALF, OD_SECOND_HALF} then 1 / 2 else 1)"

definition create_on_duty_request ::
  "clock \<Rightarrow> employee \<Rightarrow> uid \<Rightarrow> date \<Rightarrow> date \<Rightarrow> on_duty_duration_type \<Rightarrow> nat option \<Rightarrow> nat option \<Rightarrow> uid option
     \<Rightarrow> hr_state \<Rightarrow> uid outcome" where
  "create_on_duty_request ck e policy s t duration start_time end_time actor st =
     then_do (from_res (check_on_duty_input s t duration start_time end_time) st) (\<lambda>_. \<lambda>st.
       let i = ap_next_id st;
           row = \<lparr>or_id = i, or_employee = em_id e, or_policy = policy, or_start_date = s, or_end_date = t,
                  or_duration_type = duration, or_start_time = start_time, or_end_time = end_time,
                  or_total_units = on_duty_units duration, or_status = OD_PENDING, or_rejection_reason = []\<rparr>;
           d = update_timeoff (\<lambda>x. x\<lparr>td_on_duty_requests := td_on_duty_requests x @ [row]\<rparr>) (draw_id st)
       in then_do (as_step (bind_res (create_approval_run ck (on_duty_ref i) RK_ON_DUTY e actor None
                     (''On Duty: '' @ isoformat s) None empty_context d) (\<lambda>(x, _). Inr x)) d)
            (\<lambda>_. \<lambda>x. give i (audit (Some (or_else actor (em_user e))) ''on_duty.request.created'' i x)))"

definition withdraw_on_duty_request ::
  "clock \<Rightarrow> hr_db subject_ops \<Rightarrow> on_duty_request \<Rightarrow> uid option \<Rightarrow> hr_state \<Rightarrow> unit outcome" where
  "withdraw_on_duty_request ck ops request actor st =
     (if or_status request \<notin> {OD_PENDING, OD_APPROVED}
      then fail (ValueError ''Only pending or approved on-duty requests can be withdrawn.'' []) st
      else
        then_do (cancel_run_of_subject ck ops (on_duty_ref (or_id request)) actor
                   (update_timeoff (\<lambda>d. d\<lparr>td_on_duty_requests := update_where (\<lambda>r. or_id r = or_id request)
                      (\<lambda>r. r\<lparr>or_status := OD_WITHDRAWN\<rparr>) (td_on_duty_requests d)\<rparr>) st))
          (\<lambda>_. \<lambda>d. give () (audit actor ''on_duty.request.withdrawn'' (or_id request) d)))"

end
