(* ===== verification/AttendanceModels.thy ===== *)
theory AttendanceModels
  imports HrCommit
begin

text \<open>
  The rows of \<open>attendance/models.py\<close>. A point in time is a number of microseconds (\<open>moment\<close>), in UTC
  for what is stored; a time of day is microseconds after midnight. The time zone database is not
  part of the program: the two conversions of a zone are components of the environment. They answer
  for the default zone when the name is unknown, as \<open>_policy_timezone\<close> does.
\<close>

type_synonym moment = int

section \<open>Enumerations\<close>

datatype attendance_day_status =
    AD_PRESENT | AD_HALF_DAY | AD_ABSENT | AD_INCOMPLETE | AD_HOLIDAY | AD_WEEK_OFF | AD_ON_LEAVE | AD_ON_DUTY | AD_WFH

datatype punch_action_type = CHECK_IN | CHECK_OUT | RAW_PUNCH

datatype punch_source = PS_WEB | PS_IMPORT | PS_API | PS_DEVICE | PS_REGULARIZATION | PS_MANUAL | PS_MOBILE

datatype regularization_status = RG_PENDING | RG_APPROVED | RG_REJECTED | RG_CANCELLED | RG_WITHDRAWN

datatype source_config_kind = SC_API | SC_EXCEL | SC_DEVICE

datatype record_source = EXCEL_IMPORT | MANUAL_OVERRIDE | REGULARIZATION_RECORD

datatype overtime_status = OA_PENDING | OA_APPROVED | OA_REJECTED | OA_CANCELLED

datatype geo_fence_enforcement_mode = GF_WARN | GF_BLOCK

section \<open>Policies and shifts\<close>

record attendance_policy =
  po_id :: uid
  po_organisation :: uid
  po_name :: string
  po_timezone_name :: string
  po_default_start_time :: int
  po_default_end_time :: int
  po_grace_minutes :: int
  po_full_day_min_minutes :: int
  po_half_day_min_minutes :: int
  po_overtime_after_minutes :: int
  po_overtime_approval_required :: bool
  po_week_off_days :: "int list"
  po_allow_web_punch :: bool
  po_restrict_by_ip :: bool
  po_allowed_ip_ranges :: "string list"
  po_is_default :: bool
  po_is_active :: bool

text \<open>A shift has no column for the approval of overtime.\<close>

record shift =
  sh_id :: uid
  sh_organisation :: uid
  sh_start_time :: int
  sh_end_time :: int
  sh_grace_minutes :: "int option"
  sh_full_day_min_minutes :: "int option"
  sh_half_day_min_minutes :: "int option"
  sh_overtime_after_minutes :: "int option"
  sh_is_overnight :: bool
  sh_is_active :: bool

record shift_assignment =
  sa_id :: uid
  sa_organisation :: uid
  sa_employee :: uid
  sa_shift :: uid
  sa_start_date :: date
  sa_end_date :: "date option"
  sa_is_active :: bool

record shift_rotation_template =
  rt_id :: uid
  rt_organisation :: uid
  rt_rotation_interval_days :: int
  rt_shift_sequence :: "uid list"
  rt_is_active :: bool

record shift_rotation_assignment =
  ra_id :: uid
  ra_organisation :: uid
  ra_employee :: uid
  ra_template :: uid
  ra_start_date :: date
  ra_end_date :: "date option"
  ra_is_active :: bool

record geo_fence_policy =
  gf_id :: uid
  gf_organisation :: uid
  gf_location :: uid
  gf_latitude :: rat
  gf_longitude :: rat
  gf_radius_metres :: nat
  gf_enforcement_mode :: geo_fence_enforcement_mode
  gf_is_active :: bool

section \<open>Punches, records and days\<close>

record attendance_source_config =
  sc_id :: uid
  sc_organisation :: uid
  sc_name :: string
  sc_kind :: source_config_kind
  sc_is_active :: bool

record attendance_punch =
  pu_id :: uid
  pu_organisation :: uid
  pu_employee :: uid
  pu_source_config :: "uid option"
  pu_action_type :: punch_action_type
  pu_source :: punch_source
  pu_at :: moment

record attendance_record =
  ar_rec_id :: uid
  ar_rec_organisation :: uid
  ar_rec_employee :: uid
  ar_rec_date :: date
  ar_rec_check_in_at :: moment
  ar_rec_check_out_at :: "moment option"
  ar_rec_source :: record_source

datatype shift_source = POLICY_DEFAULT | ROTATION | DIRECT

text \<open>The columns a recalculation writes; \<open>source\<close> and the entries of \<open>metadata\<close> are absent when the code writes the empty string.\<close>

record day_summary =
  ds_policy :: uid
  ds_shift :: "uid option"
  ds_status :: attendance_day_status
  ds_source :: "punch_source option"
  ds_check_in_at :: "moment option"
  ds_check_out_at :: "moment option"
  ds_worked_minutes :: int
  ds_overtime_minutes :: int
  ds_late_minutes :: int
  ds_is_late :: bool
  ds_needs_regularization :: bool
  ds_paid_fraction :: rat
  ds_leave_fraction :: rat
  ds_on_duty_fraction :: rat
  ds_is_holiday :: bool
  ds_is_week_off :: bool
  ds_raw_punch_count :: nat
  ds_note :: string
  ds_shift_source :: shift_source
  ds_holiday_name :: string
  ds_override_source :: "record_source option"
  ds_overtime_status :: "overtime_status option"
  ds_approved_overtime_minutes :: int
  ds_wfh_session :: "day_session option"
  ds_geo_fence_warning :: bool

record attendance_day =
  ad_id :: uid
  ad_organisation :: uid
  ad_employee :: uid
  ad_date :: date
  ad_summary :: day_summary

text \<open>One approval per day.\<close>

record overtime_approval =
  oa_id :: uid
  oa_day :: uid
  oa_employee :: uid
  oa_approved_minutes :: int
  oa_status :: overtime_status

record regularization_request =
  rg_id :: uid
  rg_organisation :: uid
  rg_employee :: uid
  rg_day :: "uid option"
  rg_date :: date
  rg_requested_check_in_at :: "moment option"
  rg_requested_check_out_at :: "moment option"
  rg_status :: regularization_status
  rg_rejection_reason :: string
  rg_approval_run :: "uid option"

text \<open>\<open>WFHRequest\<close>; its statuses are those of an on-duty request.\<close>

record wfh_request =
  wf_employee :: uid
  wf_start_date :: date
  wf_end_date :: date
  wf_session :: day_session
  wf_status :: on_duty_request_status

section \<open>The tables\<close>

record att_db =
  tb_policies :: "attendance_policy list"
  tb_shifts :: "shift list"
  tb_assignments :: "shift_assignment list"
  tb_rotation_templates :: "shift_rotation_template list"
  tb_rotations :: "shift_rotation_assignment list"
  tb_geo_fences :: "geo_fence_policy list"
  tb_sources :: "attendance_source_config list"
  tb_punches :: "attendance_punch list"
  tb_records :: "attendance_record list"
  tb_days :: "attendance_day list"
  tb_overtime :: "overtime_approval list"
  tb_regularizations :: "regularization_request list"
  tb_wfh_requests :: "wfh_request list"
  tb_audit :: "audit_entry list"
  tb_next_id :: uid

text \<open>
  What a request reads beside these tables: the clock, the two conversions of a zone (wall time to
  UTC, a point in time to its date), the membership test of the \<open>ipaddress\<close> module, the floating-point
  distance test of a geo-fence, the employees and the tables of time off.
\<close>

record att_env =
  ae_now :: moment
  ae_utc_of :: "string \<Rightarrow> int \<Rightarrow> moment"
  ae_local_date :: "string \<Rightarrow> moment \<Rightarrow> date"
  ae_default_zone :: string
  ae_in_network :: "string \<Rightarrow> string \<Rightarrow> bool"
  ae_within_fence :: "geo_fence_policy \<Rightarrow> rat \<Rightarrow> rat \<Rightarrow> bool"
  ae_employees :: "employee list"
  ae_timeoff :: timeoff_db

type_synonym 'a att_outcome = "(att_db, 'a) step_result"

definition log_att :: "uid option \<Rightarrow> string \<Rightarrow> uid \<Rightarrow> att_db \<Rightarrow> att_db" where
  "log_att actor event target db =
     db\<lparr>tb_audit := tb_audit db @ [\<lparr>au_actor = actor, au_event = event, au_target = target\<rparr>]\<rparr>"

end
