(* ===== verification/TimeoffCalendar.thy ===== *)
theory TimeoffCalendar
  imports TimeoffRequests PayExample AttendanceModels
begin

text \<open>
  The month an employee sees (\<open>get_employee_calendar_month\<close> and \<open>get_employee_holiday_entries\<close> of
  \<open>timeoff/services.py\<close>): holidays, leave, on-duty and work-from-home days, compensatory off and days
  without pay. A request is walked day by day from its first day to its last, also outside the month;
  the walk is a recursion on the date that may not end, and is proved to.
\<close>

section \<open>Entries\<close>

datatype entry_kind = HOLIDAY | LEAVE | ON_DUTY | WFH | COMP_OFF | LWP

datatype entry_status =
    Holiday_status holiday_classification
  | Leave_status leave_request_status
  | On_duty_status on_duty_request_status
  | Wfh_status on_duty_request_status
  | Comp_off_status comp_off_status
  | Lwp_status lwp_entry_status

datatype entry_session = Day_session day_session | Duty_session on_duty_duration_type

text \<open>The date of an entry is its ISO form in the source; the day is read back from it.\<close>

record calendar_entry =
  ce_date :: date
  ce_kind :: entry_kind
  ce_label :: string
  ce_status :: entry_status
  ce_color :: string
  ce_session :: entry_session

section \<open>Holidays\<close>

definition calendar_applies :: "employee \<Rightarrow> int \<Rightarrow> holiday_calendar \<Rightarrow> bool" where
  "calendar_applies e year c =
     (hc_organisation c = em_organisation e \<and> hc_status c = HC_PUBLISHED \<and> hc_year c = year \<and>
      (hc_locations c = [] \<or> (case em_office_location e of None \<Rightarrow> False | Some l \<Rightarrow> l \<in> set (hc_locations c))))"

definition holiday_entry :: "holiday \<Rightarrow> calendar_entry" where
  "holiday_entry h =
     \<lparr>ce_date = ho_date h, ce_kind = HOLIDAY, ce_label = ho_name h, ce_status = Holiday_status (ho_classification h),
      ce_color = (if ho_classification h = HOL_RESTRICTED then ''#f59e0b'' else ''#10b981''), ce_session = Day_session (ho_session h)\<rparr>"

text \<open>Calendars by \<open>-year, name\<close>, the holidays of one by date and name.\<close>

definition get_employee_holiday_entries :: "timeoff_db \<Rightarrow> employee \<Rightarrow> int \<Rightarrow> int \<Rightarrow> calendar_entry list" where
  "get_employee_holiday_entries db e year month =
     concat (map (\<lambda>c. map holiday_entry (sort_key (\<lambda>h. (ho_date h, ho_name h))
         (filter (\<lambda>h. Date year month 1 \<le> ho_date h \<and> ho_date h \<le> Date year month (days_in_month year month)) (hc_holidays c))))
       (sort_key hc_name (filter (calendar_applies e year) (td_calendars db))))"

section \<open>The map of days\<close>

type_synonym day_map = "(int \<times> calendar_entry list) list"

definition empty_days :: "int \<Rightarrow> day_map" where
  "empty_days n = map (\<lambda>d. (d, [])) [1..n]"

definition add_entry :: "calendar_entry \<Rightarrow> day_map \<Rightarrow> day_map" where
  "add_entry x m = map (\<lambda>(d, es). if d = dy (ce_date x) then (d, es @ [x]) else (d, es)) m"

definition entries_on :: "int \<Rightarrow> day_map \<Rightarrow> calendar_entry list" where
  "entries_on d m = or_else (map_of m d) []"

text \<open>The walk over the days of a request, \<open>entry\<close> being the entry of a day.\<close>

partial_function (option) mark_days ::
  "int \<Rightarrow> int \<Rightarrow> (date \<Rightarrow> calendar_entry) \<Rightarrow> date \<Rightarrow> date \<Rightarrow> day_map \<Rightarrow> day_map res option" where
  "mark_days year month entry current final m =
     (if \<not> current \<le> final then Some (Inr m)
      else
        let m1 = (if mo current = month \<and> yr current = year then add_entry (entry current) m else m)
        in if current = date_max then Some (Inl OverflowError)
           else mark_days year month entry (next_day current) final m1)"

declare mark_days.simps [code]

section \<open>The month\<close>

definition leave_entry :: "timeoff_db \<Rightarrow> leave_request \<Rightarrow> date \<Rightarrow> calendar_entry" where
  "leave_entry db r d =
     \<lparr>ce_date = d, ce_kind = LEAVE,
      ce_label = (case find_leave_type db (lr_leave_type r) of None \<Rightarrow> [] | Some lt \<Rightarrow> lt_name lt),
      ce_status = Leave_status (lr_status r),
      ce_color = (case find_leave_type db (lr_leave_type r) of None \<Rightarrow> [] | Some lt \<Rightarrow> lt_color lt),
      ce_session = Day_session (if lr_start_date r = lr_end_date r then lr_start_session r else FULL_DAY)\<rparr>"

definition on_duty_entry :: "on_duty_request \<Rightarrow> date \<Rightarrow> calendar_entry" where
  "on_duty_entry r d =
     \<lparr>ce_date = d, ce_kind = ON_DUTY, ce_label = ''On Duty'', ce_status = On_duty_status (or_status r),
      ce_color = ''#6366f1'', ce_session = Duty_session (or_duration_type r)\<rparr>"

definition wfh_entry :: "wfh_request \<Rightarrow> date \<Rightarrow> calendar_entry" where
  "wfh_entry r d =
     \<lparr>ce_date = d, ce_kind = WFH, ce_label = ''Work From Home'', ce_status = Wfh_status (wf_status r),
      ce_color = ''#0284c7'', ce_session = Day_session (wf_session r)\<rparr>"

definition comp_off_entry :: "comp_off_accrual \<Rightarrow> calendar_entry" where
  "comp_off_entry a =
     \<lparr>ce_date = ca_off_accrual_date a, ce_kind = COMP_OFF, ce_label = ''Comp Off'', ce_status = Comp_off_status (ca_off_status a),
      ce_color = ''#0f766e'', ce_session = Day_session FULL_DAY\<rparr>"

definition lwp_entry :: "leave_without_pay_entry \<Rightarrow> calendar_entry" where
  "lwp_entry l =
     \<lparr>ce_date = lwp_entry_date l, ce_kind = LWP, ce_label = ''Loss Of Pay'', ce_status = Lwp_status (lwp_status l),
      ce_color = ''#dc2626'', ce_session = Day_session FULL_DAY\<rparr>"

text \<open>Walks over requests, one after the other; the first that raises ends them.\<close>

fun mark_requests ::
  "int \<Rightarrow> int \<Rightarrow> ((date \<Rightarrow> calendar_entry) \<times> date \<times> date) list \<Rightarrow> day_map \<Rightarrow> day_map res option" where
  "mark_requests year month [] m = Some (Inr m)"
| "mark_requests year month ((entry, s, t) # rs) m =
     Option.bind (mark_days year month entry s t m)
       (\<lambda>r. case r of Inl e \<Rightarrow> Some (Inl e) | Inr m1 \<Rightarrow> mark_requests year month rs m1)"

text \<open>The requests in the order the queries give them (\<open>-created_at\<close>).\<close>

definition requests_of :: "timeoff_db \<Rightarrow> wfh_request list \<Rightarrow> employee \<Rightarrow> date \<Rightarrow> date \<Rightarrow> ((date \<Rightarrow> calendar_entry) \<times> date \<times> date) list" where
  "requests_of db wfh e first_day last_day =
     map (\<lambda>r. (leave_entry db r, lr_start_date r, lr_end_date r))
       (rev (list_leave_requests_in_range db (em_id e) first_day last_day)) @
     map (\<lambda>r. (on_duty_entry r, or_start_date r, or_end_date r))
       (rev (filter (\<lambda>r. or_employee r = em_id e \<and> or_start_date r \<le> last_day \<and> first_day \<le> or_end_date r) (td_on_duty_requests db))) @
     map (\<lambda>r. (wfh_entry r, wf_start_date r, wf_end_date r))
       (rev (filter (\<lambda>r. wf_employee r = em_id e \<and> wf_start_date r \<le> last_day \<and> first_day \<le> wf_end_date r \<and>
         wf_status r = OD_APPROVED) wfh))"

definition single_entries :: "timeoff_db \<Rightarrow> employee \<Rightarrow> date \<Rightarrow> date \<Rightarrow> calendar_entry list" where
  "single_entries db e first_day last_day =
     map comp_off_entry (rev (sort_key ca_off_accrual_date (filter (\<lambda>a. ca_off_employee a = em_id e \<and>
       first_day \<le> ca_off_accrual_date a \<and> ca_off_accrual_date a \<le> last_day \<and> ca_off_status a = CO_APPROVED) (td_accruals db)))) @
     map lwp_entry (rev (sort_key lwp_entry_date (filter (\<lambda>l. lwp_employee l = em_id e \<and>
       first_day \<le> lwp_entry_date l \<and> lwp_entry_date l \<le> last_day \<and> lwp_status l = LWP_APPROVED) (td_lwp_entries db))))"

record month_view =
  mv_year :: int
  mv_month :: int
  mv_days :: "(date \<times> calendar_entry list) list"

text \<open>The month asked for, split at the hyphen and read as numbers, or today's.\<close>

definition get_employee_calendar_month ::
  "clock \<Rightarrow> timeoff_db \<Rightarrow> wfh_request list \<Rightarrow> employee \<Rightarrow> (int \<times> int) option \<Rightarrow> month_view res option" where
  "get_employee_calendar_month ck db wfh e calendar_month =
     (let (year, month) = or_else calendar_month (yr (ck_today ck), mo (ck_today ck)) in
      case mk_date year month 1 of
        Inl err \<Rightarrow> Some (Inl err)
      | Inr first_day \<Rightarrow>
          let n = days_in_month year month;
              last_day = Date year month n;
              holidays = fold add_entry (get_employee_holiday_entries db e year month) (empty_days n)
          in Option.bind (mark_requests year month (requests_of db wfh e first_day last_day) holidays)
               (\<lambda>r. case r of
                  Inl err \<Rightarrow> Some (Inl err)
                | Inr m \<Rightarrow>
                    let full = fold add_entry (single_entries db e first_day last_day) m
                    in Some (Inr \<lparr>mv_year = year, mv_month = month,
                         mv_days = map (\<lambda>d. (Date year month d, entries_on d full)) [1..n]\<rparr>)))"

section \<open>The walk ends\<close>

lemma mark_days_overflow:
  assumes "valid_date current" "date_max \<le> final"
  shows "mark_days year month entry current final m = Some (Inl OverflowError)"
  using assms(1)
proof (induction "nat (days_between current date_max)" arbitrary: current m rule: less_induct)
  case less
  have max: "current \<le> date_max" "valid_date date_max"
    using less.prems days_in_month_bounds(2) [of "yr current" 12] by (cases current; auto simp: date_max_def valid_date_def days_in_month_def)+
  show ?case
  proof (cases "current = date_max")
    case True
    then show ?thesis using assms(2) by (subst mark_days.simps) simp
  next
    case False
    with max(1) have lt: "current < date_max" by simp
    then have v: "valid_date (next_day current)" using valid_next_day less.prems by (simp add: date_max_def)
    have "toordinal (next_day current) = toordinal current + 1" "toordinal current < toordinal date_max"
      using toordinal_next_day [OF less.prems] toordinal_mono_less [OF less.prems max(2) lt] by simp_all
    then have "nat (days_between (next_day current) date_max) < nat (days_between current date_max)"
      by (simp add: days_between_def)
    from less.hyps [OF this v] show ?thesis
      using False max(1) assms(2) by (subst mark_days.simps) (simp add: Let_def)
  qed
qed

text \<open>The days of a walk from \<open>s\<close> to \<open>t\<close> that fall into a month, with the entries they add.\<close>

definition walk_entry :: "int \<Rightarrow> int \<Rightarrow> (date \<Rightarrow> calendar_entry) \<Rightarrow> date \<Rightarrow> date \<Rightarrow> int \<Rightarrow> calendar_entry list" where
  "walk_entry year month entry s t d = (if s \<le> Date year month d \<and> Date year month d \<le> t then [entry (Date year month d)] else [])"

lemma next_day_le_iff:
  assumes "valid_date s" "valid_date x" "s < date_max"
  shows "next_day s \<le> x \<longleftrightarrow> s < x"
proof -
  have v: "valid_date (next_day s)" using valid_next_day assms(1,3) by (simp add: date_max_def)
  show ?thesis
    using toordinal_le_iff [OF v assms(2)] toordinal_less_iff [OF assms(1,2)] toordinal_next_day [OF assms(1)]
    by (metis add1_zle_eq)
qed

lemma map_of_add: "map_of (add_entry x m) d = map_option (\<lambda>es. if d = dy (ce_date x) then es @ [x] else es) (map_of m d)"
  by (induction m) (auto simp: add_entry_def)

lemma entries_add: "d \<in> fst ` set m \<Longrightarrow> entries_on d (add_entry x m) = entries_on d m @ (if dy (ce_date x) = d then [x] else [])"
  by (auto simp: entries_on_def map_of_add dest!: weak_map_of_SomeI)

lemma keys_add [simp]: "map fst (add_entry x m) = map fst m"
  by (simp add: add_entry_def case_prod_beta comp_def if_distrib [of fst] cong: if_cong)

lemma fold_keys [simp]: "map fst (fold add_entry xs m) = map fst m"
  by (induction xs arbitrary: m) simp_all

lemma fold_entries:
  "d \<in> fst ` set m \<Longrightarrow> entries_on d (fold add_entry xs m) = entries_on d m @ filter (\<lambda>x. dy (ce_date x) = d) xs"
proof (induction xs arbitrary: m)
  case (Cons x xs)
  have "d \<in> fst ` set (add_entry x m)" using Cons.prems keys_add [of x m] by (metis list.set_map)
  from Cons.IH [OF this] show ?case using entries_add [OF Cons.prems] by simp
qed simp

lemma mark_days_result:
  assumes "valid_date s" "valid_date t" "t < date_max" "\<And>d. ce_date (entry d) = d"
  shows "\<exists>m'. mark_days year month entry s t m = Some (Inr m') \<and> map fst m' = map fst m \<and>
    (\<forall>d \<in> fst ` set m. valid_date (Date year month d) \<longrightarrow> entries_on d m' = entries_on d m @ walk_entry year month entry s t d)"
  using assms(1)
proof (induction "nat (days_between s t + 1)" arbitrary: s m rule: less_induct)
  case less
  show ?case
  proof (cases "s \<le> t")
    case False
    then show ?thesis by (subst mark_days.simps) (auto simp: walk_entry_def)
  next
    case True
    then have max: "s < date_max" using assms(3) by simp
    then have v: "valid_date (next_day s)" using valid_next_day less.prems by (simp add: date_max_def)
    let ?m = "if mo s = month \<and> yr s = year then add_entry (entry s) m else m"
    have "toordinal s \<le> toordinal t" using toordinal_le_iff [OF less.prems assms(2)] True by simp
    then have "nat (days_between (next_day s) t + 1) < nat (days_between s t + 1)"
      using toordinal_next_day [OF less.prems] by (simp add: days_between_def)
    from less.hyps [OF this v, of ?m] obtain m' where m': "mark_days year month entry (next_day s) t ?m = Some (Inr m')"
      "map fst m' = map fst ?m"
      "\<And>d. d \<in> fst ` set ?m \<Longrightarrow> valid_date (Date year month d) \<Longrightarrow> entries_on d m' = entries_on d ?m @ walk_entry year month entry (next_day s) t d"
      by blast
    have keys: "map fst ?m = map fst m" by simp
    then have set: "fst ` set ?m = fst ` set m" by (metis list.set_map)
    have "entries_on d m' = entries_on d m @ walk_entry year month entry s t d"
      if d: "d \<in> fst ` set m" "valid_date (Date year month d)" for d
    proof -
      have one: "entries_on d ?m = entries_on d m @ (if Date year month d = s then [entry s] else [])"
        using entries_add [OF d(1), of "entry s"] by (cases s) (auto simp: assms(4))
      have "walk_entry year month entry s t d =
          (if Date year month d = s then [entry s] else []) @ walk_entry year month entry (next_day s) t d"
        using next_day_le_iff [OF less.prems d(2) max] True by (auto simp: walk_entry_def)
      with m'(3) [of d] one d set show ?thesis by simp
    qed
    with m'(1,2) True max keys show ?thesis by (subst mark_days.simps) (auto simp: Let_def)
  qed
qed

definition walked :: "int \<Rightarrow> int \<Rightarrow> ((date \<Rightarrow> calendar_entry) \<times> date \<times> date) list \<Rightarrow> int \<Rightarrow> calendar_entry list" where
  "walked year month rs d = concat (map (\<lambda>(entry, s, t). walk_entry year month entry s t d) rs)"

lemma mark_requests_result:
  assumes "\<And>entry s t. (entry, s, t) \<in> set rs \<Longrightarrow> valid_date s \<and> valid_date t \<and> t < date_max \<and> (\<forall>d. ce_date (entry d) = d)"
  shows "\<exists>m'. mark_requests year month rs m = Some (Inr m') \<and> map fst m' = map fst m \<and>
    (\<forall>d \<in> fst ` set m. valid_date (Date year month d) \<longrightarrow> entries_on d m' = entries_on d m @ walked year month rs d)"
  using assms
proof (induction rs arbitrary: m)
  case Nil
  then show ?case by (simp add: walked_def)
next
  case (Cons r rs)
  obtain entry s t where r: "r = (entry, s, t)" by (cases r)
  have "valid_date s" "valid_date t" "t < date_max" "\<And>d. ce_date (entry d) = d" using Cons.prems [of entry s t] r by auto
  then obtain m1 where m1: "mark_days year month entry s t m = Some (Inr m1)" "map fst m1 = map fst m"
    "\<forall>d \<in> fst ` set m. valid_date (Date year month d) \<longrightarrow> entries_on d m1 = entries_on d m @ walk_entry year month entry s t d"
    using mark_days_result [of s t entry year month m] by blast
  obtain m2 where "mark_requests year month rs m1 = Some (Inr m2)" "map fst m2 = map fst m1"
    "\<forall>d \<in> fst ` set m1. valid_date (Date year month d) \<longrightarrow> entries_on d m2 = entries_on d m1 @ walked year month rs d"
    using Cons.IH [of m1] Cons.prems by (metis list.set_intros(2))
  moreover have "fst ` set m1 = fst ` set m" using m1(2) by (metis list.set_map)
  ultimately show ?case using m1 by (auto simp: r walked_def)
qed

end
