(* ===== verification/TimeoffProperties.thy ===== *)
theory TimeoffProperties
  imports TimeoffCalendar
begin

text \<open>
  What requests and balances keep: compensatory off is never taken twice, a credit never lifts a
  balance over its maximum, an encashment's debit does not survive the next look at the balance, and
  the month of an employee is complete.
\<close>

section \<open>An example\<close>

text \<open>Employee 10 has two accruals of compensatory off, a balance of earned leave close to its maximum and an encashment of it.\<close>

definition earned_leave :: leave_type where
  "earned_leave =
     \<lparr>lt_id = 71, lt_code = ''EL'', lt_name = ''Earned'', lt_color = [], lt_is_paid = True, lt_is_loss_of_pay = False,
      lt_annual_entitlement = 12, lt_credit_frequency = CF_MONTHLY, lt_prorate_on_join = False,
      lt_carry_forward_mode = CARRY_NONE, lt_carry_forward_cap = None, lt_max_balance = Some 10, lt_allows_encashment = True,
      lt_max_encashment_days_per_year = None, lt_is_active = True\<rparr>"

definition example_accrual :: "uid \<Rightarrow> rat \<Rightarrow> date option \<Rightarrow> comp_off_accrual" where
  "example_accrual i units expires =
     \<lparr>ca_off_id = i, ca_off_employee = 10, ca_off_accrual_date = Date 2025 5 4, ca_off_units = units,
      ca_off_expires_on = expires, ca_off_status = CO_APPROVED\<rparr>"

definition example_balance :: leave_balance where
  "example_balance =
     \<lparr>lb_id = 45, lb_employee = 10, lb_leave_type = 71, lb_cycle_start = Date 2025 1 1, lb_cycle_end = Date 2025 12 31,
      lb_opening_balance = 7 / 2, lb_credited_amount = 6, lb_used_amount = 0, lb_pending_amount = 0,
      lb_carried_forward_amount = 0\<rparr>"

definition example_encashment :: leave_encashment_request where
  "example_encashment =
     \<lparr>en_id = 46, en_employee = 10, en_leave_type = 71, en_cycle_start = Date 2025 1 1, en_cycle_end = Date 2025 12 31,
      en_days_to_encash = 2, en_status = EN_APPROVED, en_approval_run = None, en_rejection_reason = []\<rparr>"

definition comp_off_request :: leave_request where
  "comp_off_request = new_leave_request 47 10 72 (Date 2025 6 9) (Date 2025 6 10) FULL_DAY FULL_DAY"

definition example_timeoff :: timeoff_db where
  "example_timeoff = empty_timeoff_db
     \<lparr>td_cycles := [\<lparr>lc_id = 40, lc_organisation = 1, lc_name = ''Year'', lc_cycle_type = CALENDAR_YEAR, lc_start_month = 1,
        lc_start_day = 1, lc_is_default = True, lc_is_active = True\<rparr>],
      td_plans := [\<lparr>lp_id = 41, lp_organisation = 1, lp_leave_cycle = 40, lp_name = ''Plan'', lp_is_default = True,
        lp_is_active = True, lp_priority = 1, lp_rules = [], lp_leave_types = [earned_leave]\<rparr>],
      td_balances := [example_balance], td_encashments := [example_encashment], td_leave_requests := [comp_off_request],
      td_accruals := [example_accrual 43 1 (Some (Date 2025 6 30)), example_accrual 44 2 None]\<rparr>"

definition timeoff_start :: hr_state where
  "timeoff_start = update_timeoff (\<lambda>_. example_timeoff) example_hr_start"

section \<open>Compensatory off\<close>

definition redemptions_money :: "timeoff_db \<Rightarrow> bool" where
  "redemptions_money db \<longleftrightarrow> (\<forall>r \<in> set (td_redemptions db). money (cr_units r))"

lemma reserved_money [simp]: "money (reserved_of db x)"
  by (simp add: reserved_of_def)

lemma reserved_append:
  assumes "redemptions_money db" "money u"
  shows "reserved_of (db\<lparr>td_redemptions := td_redemptions db @ [redemption_of r a u]\<rparr>) x =
    reserved_of db x + (if x = a then u else 0)"
proof -
  have m: "money (sum_list (map cr_units (filter P (td_redemptions db))))" for P
    using assms(1) by (intro money_sum_list) (auto simp: redemptions_money_def)
  show ?thesis
    using assms(2) m by (auto simp: reserved_of_def redemption_of_def comp_off_reserved_statuses_def money_closed(2))
qed

lemma redemption_of_simps [simp]:
  "cr_status (redemption_of req a u) = CO_PENDING" "cr_leave_request (redemption_of req a u) = Some (lr_id req)"
  "cr_units (redemption_of req a u) = u" "cr_accrual (redemption_of req a u) = Some a"
  by (simp_all add: redemption_of_def)

lemma reserve_from_effect:
  assumes "reserve_from today req as remaining db = (db', rest)" "redemptions_money db"
    "\<And>a. a \<in> set as \<Longrightarrow> money (ca_off_units a)" "distinct (map ca_off_id as)" "money remaining" "0 \<le> remaining"
  shows "\<exists>new. td_redemptions db' = td_redemptions db @ new \<and> sum_list (map cr_units new) = remaining - rest \<and> 0 \<le> rest \<and>
    (\<forall>r \<in> set new. cr_status r = CO_PENDING \<and> cr_leave_request r = Some (lr_id req) \<and> 0 \<le> cr_units r \<and>
       (\<exists>a \<in> set as. cr_accrual r = Some (ca_off_id a) \<and> \<not> accrual_expired today a)) \<and>
    (\<forall>x. x \<notin> ca_off_id ` set as \<longrightarrow> reserved_of db' x = reserved_of db x) \<and>
    (\<forall>a \<in> set as. reserved_of db' (ca_off_id a) \<le> max (reserved_of db (ca_off_id a)) (ca_off_units a))"
  using assms
proof (induction as arbitrary: remaining db)
  case Nil
  then show ?case by simp
next
  case (Cons a as)
  let ?avail = "max 0 (quantize2 (ca_off_units a - reserved_of db (ca_off_id a)))"
  have av: "?avail = max 0 (ca_off_units a - reserved_of db (ca_off_id a))"
    using Cons.prems(3) [of a] by (simp add: money_closed(3))
  show ?case
  proof (cases "accrual_expired today a \<or> ?avail \<le> 0")
    case True
    then have "reserve_from today req as remaining db = (db', rest)"
      using Cons.prems(1) by (cases "accrual_expired today a") (simp_all add: Let_def split: if_splits)
    from Cons.IH [OF this Cons.prems(2)] Cons.prems(3-6) obtain new where new: "td_redemptions db' = td_redemptions db @ new"
      "sum_list (map cr_units new) = remaining - rest" "0 \<le> rest"
      "\<forall>r \<in> set new. cr_status r = CO_PENDING \<and> cr_leave_request r = Some (lr_id req) \<and> 0 \<le> cr_units r \<and>
       (\<exists>a \<in> set as. cr_accrual r = Some (ca_off_id a) \<and> \<not> accrual_expired today a)"
      "\<forall>x. x \<notin> ca_off_id ` set as \<longrightarrow> reserved_of db' x = reserved_of db x"
      "\<forall>a \<in> set as. reserved_of db' (ca_off_id a) \<le> max (reserved_of db (ca_off_id a)) (ca_off_units a)"
      by auto
    moreover have "ca_off_id a \<notin> ca_off_id ` set as" using Cons.prems(4) by simp
    ultimately show ?thesis by (intro exI [of _ new]) auto
  next
    case False
    let ?u = "min remaining ?avail"
    let ?db = "db\<lparr>td_redemptions := td_redemptions db @ [redemption_of req (ca_off_id a) ?u]\<rparr>"
    have u: "money ?u" "0 \<le> ?u" "?u \<le> ca_off_units a - reserved_of db (ca_off_id a)" "?u \<le> remaining"
      using False Cons.prems(3) [of a] Cons.prems(5,6) av by (auto simp: money_closed)
    have rest: "quantize2 (remaining - ?u) = remaining - ?u" using u(1) Cons.prems(5) by (simp add: money_closed(3))
    have res: "reserved_of ?db x = reserved_of db x + (if x = ca_off_id a then ?u else 0)" for x
      by (rule reserved_append [OF Cons.prems(2) u(1)])
    have red: "redemptions_money ?db" using Cons.prems(2) u(1) by (auto simp: redemptions_money_def redemption_of_def)
    have id: "ca_off_id a \<notin> ca_off_id ` set as" using Cons.prems(4) by simp
    show ?thesis
    proof (cases "remaining - ?u \<le> 0")
      case True
      then have "db' = ?db" "rest = remaining - ?u" using Cons.prems(1) False rest by (auto simp: Let_def)
      moreover have "reserved_of ?db (ca_off_id b) \<le> max (reserved_of db (ca_off_id b)) (ca_off_units b)" if "b \<in> set (a # as)" for b
        using that id u(3) by (cases "b = a") (simp_all add: res, metis imageI max.cobounded1)
      moreover have "0 \<le> remaining - ?u" "\<not> accrual_expired today a" using u(4) False by simp_all
      ultimately show ?thesis
        using u(2) id res by (intro exI [of _ "[redemption_of req (ca_off_id a) ?u]"]) simp
    next
      case go: False
      then have "reserve_from today req as (remaining - ?u) ?db = (db', rest)"
        using Cons.prems(1) False rest by (auto simp: Let_def)
      from Cons.IH [OF this red] Cons.prems(3-6) u(1,4) obtain new where new: "td_redemptions db' = td_redemptions ?db @ new"
        "sum_list (map cr_units new) = remaining - ?u - rest" "0 \<le> rest"
        "\<forall>r \<in> set new. cr_status r = CO_PENDING \<and> cr_leave_request r = Some (lr_id req) \<and> 0 \<le> cr_units r \<and>
         (\<exists>a \<in> set as. cr_accrual r = Some (ca_off_id a) \<and> \<not> accrual_expired today a)"
        "\<forall>x. x \<notin> ca_off_id ` set as \<longrightarrow> reserved_of db' x = reserved_of ?db x"
        "\<forall>a \<in> set as. reserved_of db' (ca_off_id a) \<le> max (reserved_of ?db (ca_off_id a)) (ca_off_units a)"
        by (auto simp: money_closed(3))
      have "reserved_of db' (ca_off_id b) \<le> max (reserved_of db (ca_off_id b)) (ca_off_units b)" if "b \<in> set (a # as)" for b
      proof (cases "b = a")
        case True
        then have "reserved_of db' (ca_off_id b) = reserved_of db (ca_off_id a) + ?u" using new(5) id res by simp
        with u(3) True show ?thesis by simp
      next
        case False
        with that have b: "b \<in> set as" by simp
        with id have "ca_off_id b \<noteq> ca_off_id a" by (metis imageI)
        then have "reserved_of ?db (ca_off_id b) = reserved_of db (ca_off_id b)" by (simp add: res)
        with bspec [OF new(6) b] show ?thesis by simp
      qed
      moreover have "\<not> accrual_expired today a" using False by simp
      ultimately show ?thesis
        using new(1-5) u(2) res by (intro exI [of _ "redemption_of req (ca_off_id a) ?u # new"]) auto
    qed
  qed
qed

text \<open>C14: compensatory off is never taken twice. A reservation that succeeds adds pending redemptions of the
  request whose units are exactly those requested, each against an approved accrual of the employee
  that has not expired, and no accrual is held for more than its units (nor for more than before).\<close>

theorem comp_off_never_overdrawn:
  assumes "reserve_comp_off_redemption today req st = (d, Inr ())" "redemptions_money (timeoff st)"
    "\<forall>a \<in> set (td_accruals (timeoff st)). money (ca_off_units a)" "distinct (map ca_off_id (td_accruals (timeoff st)))"
    "0 \<le> lr_total_units req"
  shows "\<exists>new. td_redemptions (timeoff d) = td_redemptions (timeoff st) @ new \<and>
    sum_list (map cr_units new) = quantize2 (lr_total_units req) \<and>
    (\<forall>r \<in> set new. cr_status r = CO_PENDING \<and> cr_leave_request r = Some (lr_id req) \<and> 0 \<le> cr_units r \<and>
       (\<exists>a \<in> set (approved_accruals (timeoff st) (lr_employee req)). cr_accrual r = Some (ca_off_id a) \<and> \<not> accrual_expired today a)) \<and>
    (\<forall>a \<in> set (td_accruals (timeoff st)).
       reserved_of (timeoff d) (ca_off_id a) \<le> max (reserved_of (timeoff st) (ca_off_id a)) (ca_off_units a))"
proof -
  let ?as = "accruals_in_order (timeoff st) (lr_employee req)"
  obtain db rest where r: "reserve_from today req ?as (quantize2 (lr_total_units req)) (timeoff st) = (db, rest)" by force
  then have d: "timeoff d = db" "rest \<le> 0"
    using assms(1) by (auto simp: reserve_comp_off_redemption_def Let_def frame_simps split: if_splits)
  have set: "set ?as = set (approved_accruals (timeoff st) (lr_employee req))" by (simp add: accruals_in_order_def)
  have sub: "set ?as \<subseteq> set (td_accruals (timeoff st))" unfolding set by (auto simp: approved_accruals_def)
  have dist: "distinct (map ca_off_id ?as)"
  proof -
    have "distinct (map ca_off_id (approved_accruals (timeoff st) (lr_employee req)))"
      unfolding approved_accruals_def by (rule distinct_map_filter [OF assms(4)])
    then show ?thesis by (simp add: accruals_in_order_def distinct_map)
  qed
  have nonneg: "0 \<le> quantize2 (lr_total_units req)" by (rule quant.rnd_nonneg [OF assms(5)])
  obtain new where new: "td_redemptions db = td_redemptions (timeoff st) @ new" "sum_list (map cr_units new) = quantize2 (lr_total_units req) - rest"
    "0 \<le> rest" "\<forall>r \<in> set new. cr_status r = CO_PENDING \<and> cr_leave_request r = Some (lr_id req) \<and> 0 \<le> cr_units r \<and>
       (\<exists>a \<in> set ?as. cr_accrual r = Some (ca_off_id a) \<and> \<not> accrual_expired today a)"
    "\<forall>x. x \<notin> ca_off_id ` set ?as \<longrightarrow> reserved_of db x = reserved_of (timeoff st) x"
    "\<forall>a \<in> set ?as. reserved_of db (ca_off_id a) \<le> max (reserved_of (timeoff st) (ca_off_id a)) (ca_off_units a)"
    using reserve_from_effect [OF r assms(2) _ dist money_quantize2 nonneg] assms(3) sub by blast
  have "reserved_of db (ca_off_id a) \<le> max (reserved_of (timeoff st) (ca_off_id a)) (ca_off_units a)"
    if "a \<in> set (td_accruals (timeoff st))" for a
  proof (cases "ca_off_id a \<in> ca_off_id ` set ?as")
    case True
    then obtain b where b: "b \<in> set ?as" "ca_off_id b = ca_off_id a" by auto
    with sub that have "b = a" by (intro distinct_key_eq [OF assms(4)]) auto
    with new(6) b show ?thesis by simp
  qed (use new(5) in simp)
  with new d set show ?thesis by (intro exI [of _ new]) auto
qed

lemma comp_off_never_overdrawn_witness:
  "\<exists>new. td_redemptions (timeoff (fst (reserve_comp_off_redemption (Date 2025 6 1) comp_off_request timeoff_start))) = new \<and>
    sum_list (map cr_units new) = 2"
proof -
  have "snd (reserve_comp_off_redemption (Date 2025 6 1) comp_off_request timeoff_start) = Inr ()"
    "quantize2 (lr_total_units comp_off_request) = 2" "td_redemptions (timeoff timeoff_start) = []"
    by code_simp+
  moreover have "redemptions_money (timeoff timeoff_start)" "\<forall>a \<in> set (td_accruals (timeoff timeoff_start)). money (ca_off_units a)"
    "distinct (map ca_off_id (td_accruals (timeoff timeoff_start)))" "0 \<le> lr_total_units comp_off_request"
    unfolding redemptions_money_def by code_simp+
  ultimately show ?thesis
    using comp_off_never_overdrawn [of "Date 2025 6 1" comp_off_request timeoff_start
        "fst (reserve_comp_off_redemption (Date 2025 6 1) comp_off_request timeoff_start)"]
    by (metis append_Nil prod.collapse)
qed

section \<open>Balances\<close>

lemma new_row_frames:
  assumes "get_or_create_balance_row e lt s t st = (d, row, created)"
  shows "td_leave_requests (timeoff d) = td_leave_requests (timeoff st)"
    "lb_cycle_start row = s \<and> lb_cycle_end row = t"
  using assms
  by (auto simp: get_or_create_balance_row_def Let_def frame_simps new_leave_balance_def get_leave_balance_record_def
      split: option.splits dest!: first_row_SomeD)

definition balance_money :: "leave_balance \<Rightarrow> bool" where
  "balance_money b \<longleftrightarrow> money (lb_opening_balance b) \<and> money (lb_carried_forward_amount b) \<and> money (lb_credited_amount b) \<and>
     money (lb_used_amount b) \<and> money (lb_pending_amount b)"

text \<open>Balance rows have keys of their own, drawn before the next key.\<close>

definition balances_ok :: "hr_state \<Rightarrow> bool" where
  "balances_ok st \<longleftrightarrow> distinct (map lb_id (td_balances (timeoff st))) \<and>
     (\<forall>b \<in> set (td_balances (timeoff st)). lb_id b < ap_next_id st)"

lemma first_row_update_key:
  assumes "distinct (map lb_id bs)" "first_row P bs = Some row" "\<And>x. P (f x) = P x"
  shows "first_row P (update_where (\<lambda>x. lb_id x = lb_id row) f bs) = Some (f row)"
  using assms by (induction bs) (auto split: if_splits dest!: first_row_SomeD)

text \<open>The row of a cycle, found or created, is the stored one, with its balance or zero.\<close>

lemma balance_row_effect:
  assumes "get_or_create_balance_row e lt s t st = (d, row, created)" "balances_ok st"
  shows "get_leave_balance_record (timeoff d) e lt s t = Some row" "distinct (map lb_id (td_balances (timeoff d)))"
    "td_ledger (timeoff d) = td_ledger (timeoff st)"
    "get_leave_balance_record (timeoff st) e lt s t = Some row \<or>
     get_leave_balance_record (timeoff st) e lt s t = None \<and> row = new_leave_balance (ap_next_id st) e lt s t"
proof -
  have "ap_next_id st \<notin> lb_id ` set (td_balances (timeoff st))" using assms(2) by (auto simp: balances_ok_def)
  then show "distinct (map lb_id (td_balances (timeoff d)))"
    using assms by (auto simp: get_or_create_balance_row_def Let_def frame_simps balances_ok_def new_leave_balance_def split: option.splits)
  show "get_leave_balance_record (timeoff d) e lt s t = Some row" "td_ledger (timeoff d) = td_ledger (timeoff st)"
    "get_leave_balance_record (timeoff st) e lt s t = Some row \<or>
     get_leave_balance_record (timeoff st) e lt s t = None \<and> row = new_leave_balance (ap_next_id st) e lt s t"
    using assms(1)
    by (auto simp: get_or_create_balance_row_def Let_def frame_simps get_leave_balance_record_def first_row_append
        new_leave_balance_def split: option.splits)
qed

lemma credited_row_stored:
  assumes "get_leave_balance_record (timeoff d) e lt s t = Some row" "distinct (map lb_id (td_balances (timeoff d)))"
  shows "get_leave_balance_record (timeoff (add_ledger l (update_balance (lb_id row) (\<lambda>x. x\<lparr>lb_credited_amount := c\<rparr>) d))) e lt s t =
    Some (row\<lparr>lb_credited_amount := c\<rparr>)"
  using assms first_row_update_key [OF assms(2), of _ row "\<lambda>x. x\<lparr>lb_credited_amount := c\<rparr>"]
  by (simp add: get_leave_balance_record_def add_ledger_def update_balance_def frame_simps)

text \<open>What is available before a credit: nothing when the cycle has no row yet.\<close>

definition available_before :: "timeoff_db \<Rightarrow> uid \<Rightarrow> uid \<Rightarrow> date \<Rightarrow> date \<Rightarrow> rat" where
  "available_before db e lt s t = (case get_leave_balance_record db e lt s t of None \<Rightarrow> 0 | Some b \<Rightarrow> available_balance b)"

text \<open>C34: a periodic credit never lifts a balance above the maximum of its leave type. On a type with a
  maximum, the credit of a period that credits anything adds exactly the period's amount or what is
  still missing to the maximum, whichever is less, and nothing to a balance at or above the maximum;
  so it is positive below the maximum. This holds on the first credit of a cycle, which creates the
  row, as on the later ones; the row is stored, and the ledger has an entry of that amount exactly
  when something was credited. The amounts of the stored balances and the maximum have two decimals, as
  their columns do, and balances have keys of their own.\<close>

theorem credit_respects_maximum:
  assumes "credit_leave_for_period ck e lt s t day actor st = (d, Some b)" "lt_max_balance lt = Some m" "money m"
    and "balances_ok st" "\<forall>x \<in> set (td_balances (timeoff st)). balance_money x"
    and "k = max 0 (min (calculate_period_credit_amount lt) (m - available_before (timeoff st) (em_id e) (lt_id lt) s t))"
  shows "get_leave_balance_record (timeoff d) (em_id e) (lt_id lt) s t = Some b \<and>
    available_balance b = available_before (timeoff st) (em_id e) (lt_id lt) s t + k \<and>
    (available_before (timeoff st) (em_id e) (lt_id lt) s t < m \<longrightarrow> 0 < k \<and> available_balance b \<le> m) \<and>
    map (\<lambda>l. (le_leave_balance l, le_entry_type l, le_amount l)) (td_ledger (timeoff d)) =
      map (\<lambda>l. (le_leave_balance l, le_entry_type l, le_amount l)) (td_ledger (timeoff st)) @
      (if k = 0 then [] else [(lb_id b, BE_CREDIT, k)])"
proof -
  let ?c = "calculate_period_credit_amount lt" and ?old = "available_before (timeoff st) (em_id e) (lt_id lt) s t"
  obtain d0 row created where row: "get_or_create_balance_row (em_id e) (lt_id lt) s t st = (d0, row, created)"
    by (metis prod_cases3)
  note eff = balance_row_effect [OF row assms(4)]
  have old: "?old = available_balance row"
    using eff(4) by (auto simp: available_before_def available_balance_def new_leave_balance_def)
  have "balance_money row"
    using eff(4) assms(5) by (auto simp: get_leave_balance_record_def balance_money_def new_leave_balance_def dest!: first_row_SomeD)
  then have av: "money (available_balance row)" "money (lb_credited_amount row)"
    by (auto simp: available_balance_def balance_money_def)
  have pos: "\<not> ?c \<le> 0" using assms(1) by (auto simp: credit_leave_for_period_def Let_def split: if_splits)
  have cap: "quantize2 (m - available_balance row) = m - available_balance row" using av assms(3) by (simp add: money_closed(3))
  have mc: "money ?c" by (auto simp: calculate_period_credit_amount_def Let_def split: leave_credit_frequency.split)
  show ?thesis
  proof (cases "m - available_balance row \<le> 0")
    case True
    then have "b = row" "d = d0" "k = 0"
      using assms(1,6) pos by (simp_all add: credit_leave_for_period_def row assms(2) cap old)
    with True eff(1,3) old show ?thesis by simp
  next
    case False
    have k: "k = min ?c (m - available_balance row)" "0 < k" using assms(6) pos False by (simp_all add: old)
    have b: "b = row\<lparr>lb_credited_amount := quantize2 (lb_credited_amount row + k)\<rparr>"
      and d: "map (\<lambda>l. (le_leave_balance l, le_entry_type l, le_amount l)) (td_ledger (timeoff d)) =
        map (\<lambda>l. (le_leave_balance l, le_entry_type l, le_amount l)) (td_ledger (timeoff d0)) @ [(lb_id row, BE_CREDIT, k)]"
      using assms(1) pos False by (auto simp: credit_leave_for_period_def row assms(2) cap Let_def k(1) add_ledger_def update_balance_def frame_simps)
    have "get_leave_balance_record (timeoff d) (em_id e) (lt_id lt) s t = Some b"
      using assms(1) pos False credited_row_stored [OF eff(1,2)]
      by (auto simp: credit_leave_for_period_def row assms(2) cap Let_def)
    moreover have "quantize2 (lb_credited_amount row + k) = lb_credited_amount row + k"
      using assms(3) mc av by (simp add: k(1) money_closed)
    then have "available_balance b = available_balance row + k" by (simp add: b available_balance_def)
    moreover have "k \<le> m - available_balance row" by (simp add: k(1))
    moreover have "lb_id b = lb_id row" by (simp add: b)
    ultimately show ?thesis using k(2) d eff(3) by (simp add: old)
  qed
qed

lemma credit_respects_maximum_witness:
  "\<exists>d b. credit_leave_for_period example_clock (example_employee 10 None) earned_leave (Date 2025 1 1) (Date 2025 12 31)
      None None timeoff_start = (d, Some b) \<and> available_balance b = 10 \<and>
   get_leave_balance_record (timeoff d) 10 (lt_id earned_leave) (Date 2025 1 1) (Date 2025 12 31) = Some b"
proof -
  let ?x = "credit_leave_for_period example_clock (example_employee 10 None) earned_leave (Date 2025 1 1) (Date 2025 12 31) None None timeoff_start"
  have ok: "snd ?x \<noteq> None" "lt_max_balance earned_leave = Some 10" "money 10" 
    "\<forall>x \<in> set (td_balances (timeoff timeoff_start)). balance_money x" "em_id (example_employee 10 None) = 10"
    "(available_before (timeoff timeoff_start) 10 (lt_id earned_leave) (Date 2025 1 1) (Date 2025 12 31),
      calculate_period_credit_amount earned_leave) = (19 / 2, 1)"
    by code_simp+
  have "balances_ok timeoff_start" unfolding balances_ok_def by code_simp
  obtain d b where x: "?x = (d, Some b)" using ok(1) by (metis not_Some_eq prod.collapse)
  from credit_respects_maximum [OF x ok(2,3) \<open>balances_ok timeoff_start\<close> ok(4) refl] ok(5,6)
  show ?thesis using x by (intro exI [of _ d] exI [of _ b]) simp
qed

text \<open>The three recomputed columns do not depend on what they were.\<close>

lemma recomputed_forgets:
  assumes "lb_cycle_start a = lb_cycle_start b" "lb_cycle_end a = lb_cycle_end b" "lb_opening_balance a = lb_opening_balance b"
    "lb_carried_forward_amount a = lb_carried_forward_amount b" "lb_id a = lb_id b" "lb_employee a = lb_employee b"
    "lb_leave_type a = lb_leave_type b" "td_leave_requests x = td_leave_requests y"
  shows "recomputed_balance today x e lt a = recomputed_balance today y e lt b"
  unfolding recomputed_balance_def Let_def get_leave_request_total_units_def assms
  by (rule leave_balance.equality) (simp_all add: assms)

lemma balance_record_update:
  assumes "\<And>b. lb_employee (f b) = lb_employee b \<and> lb_leave_type (f b) = lb_leave_type b \<and> lb_cycle_start (f b) = lb_cycle_start b \<and>
      lb_cycle_end (f b) = lb_cycle_end b" "td_balances db' = update_where P f (td_balances db)"
  shows "get_leave_balance_record db' e lt s t = map_option (\<lambda>b. if P b then f b else b) (get_leave_balance_record db e lt s t)"
proof -
  have "first_row Q (update_where P f bs) = map_option (\<lambda>b. if P b then f b else b) (first_row Q bs)"
    if "\<And>b. Q (f b) = Q b" for Q bs
    using that by (induction bs) auto
  then show ?thesis using assms by (simp add: get_leave_balance_record_def)
qed

text \<open>C35: an encashment's debit does not survive. Finalising an approved encashment that was not debited
  before adds its days to the used amount of the stored balance row of its cycle and writes a debit of
  them to the ledger; the next look at the balance (\<open>get_or_create_leave_balance\<close>, which every balance page
  and every leave request calls) recomputes the used amount from leave requests alone and returns
  exactly what it would have returned had the encashment never been approved.\<close>

theorem encashment_debit_is_forgotten:
  assumes "finalize_leave_encashment today r (timeoff st) = Inr db"
    and "\<forall>l \<in> set (td_ledger (timeoff st)). \<not> encashment_debit (en_id r) l"
    and "distinct (map lb_id (td_balances (timeoff st)))"
    and "get_or_create_leave_balance ck e lt as_of st = Inr (d, b)"
  shows "(\<exists>row entry. get_leave_balance_record (timeoff st) (en_employee r) (en_leave_type r) (en_cycle_start r) (en_cycle_end r) = Some row \<and>
      get_leave_balance_record db (en_employee r) (en_leave_type r) (en_cycle_start r) (en_cycle_end r) =
        Some (row\<lparr>lb_used_amount := quantize2 (lb_used_amount row + en_days_to_encash r)\<rparr>) \<and>
      td_ledger db = td_ledger (timeoff st) @ [entry] \<and> encashment_debit (en_id r) entry \<and>
      le_leave_balance entry = lb_id row \<and> le_amount entry = en_days_to_encash r) \<and>
    lb_used_amount b = quantize2 (get_leave_request_total_units (timeoff st) (em_id e) (lt_id lt) LR_APPROVED (lb_cycle_start b) (lb_cycle_end b)) \<and>
    (\<exists>d'. get_or_create_leave_balance ck e lt as_of (update_timeoff (\<lambda>_. db) st) = Inr (d', b))"
proof -
  let ?st = "update_timeoff (\<lambda>_. db) st"
  obtain x where x: "get_leave_balance_record (timeoff st) (en_employee r) (en_leave_type r) (en_cycle_start r) (en_cycle_end r) = Some x"
    using assms(1) by (auto simp: finalize_leave_encashment_def split: option.splits)
  have fr: "td_leave_requests db = td_leave_requests (timeoff st)" "td_plans db = td_plans (timeoff st)" "td_cycles db = td_cycles (timeoff st)"
    using assms(1) x by (auto simp: finalize_leave_encashment_def split: if_splits)
  have "\<not> list_ex (\<lambda>l. le_leave_balance l = lb_id x \<and> encashment_debit (en_id r) l) (td_ledger (timeoff st))"
    using assms(2) by (auto simp: list_ex_iff)
  then have debit: "\<exists>row entry. get_leave_balance_record (timeoff st) (en_employee r) (en_leave_type r) (en_cycle_start r) (en_cycle_end r) = Some row \<and>
      get_leave_balance_record db (en_employee r) (en_leave_type r) (en_cycle_start r) (en_cycle_end r) =
        Some (row\<lparr>lb_used_amount := quantize2 (lb_used_amount row + en_days_to_encash r)\<rparr>) \<and>
      td_ledger db = td_ledger (timeoff st) @ [entry] \<and> encashment_debit (en_id r) entry \<and>
      le_leave_balance entry = lb_id row \<and> le_amount entry = en_days_to_encash r"
    using assms(1) x first_row_update_key [OF assms(3), of _ x "\<lambda>y. y\<lparr>lb_used_amount := quantize2 (lb_used_amount x + en_days_to_encash r)\<rparr>"]
    by (auto simp: finalize_leave_encashment_def get_leave_balance_record_def encashment_debit_def)
  have bal: "td_balances db = update_where (\<lambda>y. lb_id y = lb_id x) (\<lambda>y. y\<lparr>lb_used_amount := quantize2 (lb_used_amount x + en_days_to_encash r)\<rparr>)
        (td_balances (timeoff st)) \<or> td_balances db = td_balances (timeoff st)"
    using assms(1) x by (auto simp: finalize_leave_encashment_def split: if_splits)
  have cyc: "cycle_of_type db i = cycle_of_type (timeoff st) i" for i
    by (simp add: cycle_of_type_def plan_of_type_def find_cycle_def fr)
  obtain s t where w: "bind_res (cycle_of_type (timeoff st) (lt_id lt)) (\<lambda>c. get_cycle_window c e (or_else as_of (ck_today ck))) = Inr (s, t)"
    using assms(4) by (auto simp: get_or_create_leave_balance_def split del: if_split)
  obtain d1 row c where row: "get_or_create_balance_row (em_id e) (lt_id lt) s t st = (d1, row, c)" by (metis prod_cases3)
  obtain d2 row2 c2 where row2: "get_or_create_balance_row (em_id e) (lt_id lt) s t ?st = (d2, row2, c2)" by (metis prod_cases3)
  define f where "f y = y\<lparr>lb_used_amount := quantize2 (lb_used_amount x + en_days_to_encash r)\<rparr>" for y :: leave_balance
  have rec: "get_leave_balance_record db a i s' t' = map_option (\<lambda>y. if lb_id y = lb_id x \<and> td_balances db \<noteq> td_balances (timeoff st) then f y else y)
      (get_leave_balance_record (timeoff st) a i s' t')" for a i s' t'
    using bal balance_record_update [of f db "\<lambda>y. lb_id y = lb_id x" "timeoff st" a i s' t']
    by (cases "td_balances db = td_balances (timeoff st)") (auto simp: f_def [abs_def] get_leave_balance_record_def option.map_ident cong: option.map_cong)
  have "row2 = row \<or> row2 = f row"
    using row row2 by (auto simp: get_or_create_balance_row_def frame_simps rec Let_def split: option.splits if_splits)
  then have "recomputed_balance (ck_today ck) (timeoff d2) e lt row2 = recomputed_balance (ck_today ck) (timeoff d1) e lt row"
    using new_row_frames(1) [OF row] new_row_frames(1) [OF row2] fr
    by (intro recomputed_forgets) (auto simp: f_def frame_simps)
  then have "\<exists>d'. get_or_create_leave_balance ck e lt as_of ?st = Inr (d', b)"
    using assms(4) w
    by (auto simp: get_or_create_leave_balance_def row row2 frame_simps cyc Let_def)
  moreover have "lb_used_amount b = quantize2 (get_leave_request_total_units (timeoff st) (em_id e) (lt_id lt) LR_APPROVED
      (lb_cycle_start b) (lb_cycle_end b))"
    using assms(4) w new_row_frames(1) [OF row]
    by (auto simp: get_or_create_leave_balance_def row Let_def recomputed_balance_def get_leave_request_total_units_def)
  ultimately show ?thesis using debit by blast
qed

lemma encashment_debit_is_forgotten_witness:
  "\<exists>b d'. get_or_create_leave_balance example_clock (example_employee 10 None) earned_leave None
      (update_timeoff (\<lambda>_. projr (finalize_leave_encashment (Date 2025 6 1) example_encashment (timeoff timeoff_start))) timeoff_start) =
    Inr (d', b) \<and> lb_used_amount b = 0 \<and>
   (\<exists>row. get_leave_balance_record (projr (finalize_leave_encashment (Date 2025 6 1) example_encashment (timeoff timeoff_start)))
      (en_employee example_encashment) (en_leave_type example_encashment) (en_cycle_start example_encashment)
      (en_cycle_end example_encashment) = Some row \<and> lb_used_amount row = quantize2 (en_days_to_encash example_encashment))"
proof -
  let ?f = "finalize_leave_encashment (Date 2025 6 1) example_encashment (timeoff timeoff_start)"
  let ?g = "get_or_create_leave_balance example_clock (example_employee 10 None) earned_leave None timeoff_start"
  have "is_ok ?f" by code_simp
  then have f: "?f = Inr (projr ?f)" by (cases ?f) simp_all
  have "cycle_of_type (timeoff timeoff_start) (lt_id earned_leave) = Inr (hd (td_cycles example_timeoff))"
    "get_cycle_window (hd (td_cycles example_timeoff)) (example_employee 10 None) (ck_today example_clock) = Inr (Date 2025 1 1, Date 2025 12 31)"
    "get_leave_balance_record (timeoff timeoff_start) (em_id (example_employee 10 None)) (lt_id earned_leave) (Date 2025 1 1)
      (Date 2025 12 31) = Some example_balance"
    by code_simp+
  then obtain d where "?g = Inr (d, recomputed_balance (ck_today example_clock) (timeoff timeoff_start) (example_employee 10 None)
      earned_leave example_balance)"
    by (simp add: get_or_create_leave_balance_def get_or_create_balance_row_def Let_def)
  moreover have "lb_used_amount (recomputed_balance (ck_today example_clock) (timeoff timeoff_start) (example_employee 10 None)
      earned_leave example_balance) = 0"
    by code_simp
  moreover have "\<forall>l \<in> set (td_ledger (timeoff timeoff_start)). \<not> encashment_debit (en_id example_encashment) l"
    "distinct (map lb_id (td_balances (timeoff timeoff_start)))"
    "map_option lb_used_amount (get_leave_balance_record (timeoff timeoff_start) (en_employee example_encashment)
       (en_leave_type example_encashment) (en_cycle_start example_encashment) (en_cycle_end example_encashment)) = Some 0"
    by code_simp+
  ultimately show ?thesis using encashment_debit_is_forgotten [OF f] by fastforce
qed

section \<open>The month of an employee\<close>

definition requests_valid :: "timeoff_db \<Rightarrow> wfh_request list \<Rightarrow> uid \<Rightarrow> bool" where
  "requests_valid db wfh e \<longleftrightarrow>
     (\<forall>r \<in> set (td_leave_requests db). lr_employee r = e \<longrightarrow> valid_date (lr_start_date r) \<and> valid_date (lr_end_date r) \<and> lr_end_date r < date_max) \<and>
     (\<forall>r \<in> set (td_on_duty_requests db). or_employee r = e \<longrightarrow> valid_date (or_start_date r) \<and> valid_date (or_end_date r) \<and> or_end_date r < date_max) \<and>
     (\<forall>r \<in> set wfh. wf_employee r = e \<longrightarrow> valid_date (wf_start_date r) \<and> valid_date (wf_end_date r) \<and> wf_end_date r < date_max)"

lemma requests_of_valid:
  assumes "requests_valid db wfh (em_id e)" "(entry, s, t) \<in> set (requests_of db wfh e a b)"
  shows "valid_date s \<and> valid_date t \<and> t < date_max \<and> (\<forall>d. ce_date (entry d) = d)"
  using assms by (auto simp: requests_valid_def requests_of_def list_leave_requests_in_range_def leave_entry_def on_duty_entry_def wfh_entry_def)

lemma empty_days_facts [simp]: "map fst (empty_days n) = [1..n]" "entries_on d (empty_days n) = []"
  by (simp add: empty_days_def comp_def)
    (cases "map_of (empty_days n) d"; auto simp: entries_on_def empty_days_def dest: map_of_SomeD)

lemma concat_singletons: "concat (map (\<lambda>x. if P x then [f x] else []) xs) = map f (filter P xs)"
  by (induction xs) auto

text \<open>The leave entries among those a day collects are those of the leave requests that cover it.\<close>

lemma leave_walked:
  assumes "Date y m 1 \<le> Date y m d" "Date y m d \<le> Date y m n"
  shows "filter (\<lambda>x. ce_kind x = LEAVE) (walked y m (requests_of db wfh e (Date y m 1) (Date y m n)) d) =
    map (\<lambda>r. leave_entry db r (Date y m d)) (rev (filter (\<lambda>r. lr_employee r = em_id e \<and> lr_start_date r \<le> Date y m d \<and>
      Date y m d \<le> lr_end_date r) (td_leave_requests db)))"
proof -
  define D where "D = Date y m d"
  let ?L = "list_leave_requests_in_range db (em_id e) (Date y m 1) (Date y m n)"
  have kinds: "ce_kind (on_duty_entry r D) \<noteq> LEAVE" "ce_kind (wfh_entry w D) \<noteq> LEAVE" "ce_kind (leave_entry db l D) = LEAVE" for r w l
    by (simp_all add: on_duty_entry_def wfh_entry_def leave_entry_def)
  have "filter (\<lambda>x. ce_kind x = LEAVE) (walked y m (requests_of db wfh e (Date y m 1) (Date y m n)) d) =
      map (\<lambda>r. leave_entry db r D) (filter (\<lambda>r. lr_start_date r \<le> D \<and> D \<le> lr_end_date r) (rev ?L))"
    by (simp add: walked_def requests_of_def comp_def walk_entry_def concat_singletons D_def [symmetric] kinds filter_map)
  also have "filter (\<lambda>r. lr_start_date r \<le> D \<and> D \<le> lr_end_date r) (rev ?L) =
      rev (filter (\<lambda>r. lr_employee r = em_id e \<and> lr_start_date r \<le> D \<and> D \<le> lr_end_date r) (td_leave_requests db))"
    unfolding rev_filter [symmetric] list_leave_requests_in_range_def filter_filter
    by (rule arg_cong [of _ _ rev], rule filter_cong [OF refl]) (use assms in \<open>auto simp: D_def [symmetric]\<close>)
  finally show ?thesis by (simp add: D_def)
qed

text \<open>C36: the month of an employee is computed and complete. Although every request is walked day by day from
  its own first day to its own last, the walk ends, whatever the requests, as long as none of the
  employee's ends on the last day of the calendar; the view then has every day of the month in
  order, and the leave entries of a day are those of exactly the leave requests that cover it,
  latest first.\<close>

theorem calendar_month_complete:
  assumes "valid_date (Date y m 1)" "requests_valid db wfh (em_id e)"
  shows "\<exists>v. get_employee_calendar_month ck db wfh e (Some (y, m)) = Some (Inr v) \<and>
    map fst (mv_days v) = map (Date y m) [1..days_in_month y m] \<and>
    (\<forall>(D, xs) \<in> set (mv_days v). filter (\<lambda>x. ce_kind x = LEAVE) xs = map (\<lambda>r. leave_entry db r D)
       (rev (filter (\<lambda>r. lr_employee r = em_id e \<and> lr_start_date r \<le> D \<and> D \<le> lr_end_date r) (td_leave_requests db))))"
proof -
  let ?n = "days_in_month y m" and ?a = "Date y m 1"
  let ?rs = "requests_of db wfh e ?a (Date y m ?n)"
  define hs where "hs = get_employee_holiday_entries db e y m"
  define h where "h = fold add_entry hs (empty_days ?n)"
  have kh: "map fst h = [1..?n]" by (simp add: h_def)
  then have sh: "fst ` set h = {1..?n}" by (metis list.set_map set_upto)
  obtain m1 where m1: "mark_requests y m ?rs h = Some (Inr m1)" "map fst m1 = map fst h"
    "\<forall>d \<in> fst ` set h. valid_date (Date y m d) \<longrightarrow> entries_on d m1 = entries_on d h @ walked y m ?rs d"
    using mark_requests_result [of ?rs y m h] requests_of_valid [OF assms(2)] by blast
  then have s1: "fst ` set m1 = {1..?n}" using sh by (metis list.set_map)
  define singles where "singles = single_entries db e ?a (Date y m ?n)"
  define v where "v = \<lparr>mv_year = y, mv_month = m, mv_days = map (\<lambda>d. (Date y m d, entries_on d (fold add_entry singles m1))) [1..?n]\<rparr>"
  have "mk_date y m 1 = Inr ?a" using assms(1) by (simp add: mk_date_def)
  then have "get_employee_calendar_month ck db wfh e (Some (y, m)) = Some (Inr v)"
    using m1(1) by (simp add: get_employee_calendar_month_def Let_def v_def h_def hs_def singles_def)
  moreover have "map fst (mv_days v) = map (Date y m) [1..?n]" by (simp add: v_def comp_def)
  moreover have "filter (\<lambda>x. ce_kind x = LEAVE) xs = map (\<lambda>r. leave_entry db r D)
       (rev (filter (\<lambda>r. lr_employee r = em_id e \<and> lr_start_date r \<le> D \<and> D \<le> lr_end_date r) (td_leave_requests db)))"
    if "(D, xs) \<in> set (mv_days v)" for D xs
  proof -
    from that obtain d where d: "d \<in> {1..?n}" "D = Date y m d" "xs = entries_on d (fold add_entry singles m1)" by (auto simp: v_def)
    have valid: "valid_date (Date y m d)" using assms(1) d(1) by (simp add: valid_date_def)
    have other: "filter (\<lambda>x. ce_kind x = LEAVE) (filter P hs) = []" "filter (\<lambda>x. ce_kind x = LEAVE) (filter P singles) = []" for P
      by (auto simp: filter_empty_conv hs_def singles_def get_employee_holiday_entries_def holiday_entry_def single_entries_def
          comp_off_entry_def lwp_entry_def)
    have "xs = filter (\<lambda>x. dy (ce_date x) = d) hs @ walked y m ?rs d @ filter (\<lambda>x. dy (ce_date x) = d) singles"
    proof -
      have "d \<in> fst ` set (empty_days ?n)" using d(1) by (simp flip: list.set_map)
      then have "entries_on d h = filter (\<lambda>x. dy (ce_date x) = d) hs" unfolding h_def by (simp add: fold_entries)
      moreover have "d \<in> fst ` set m1" "d \<in> fst ` set h" unfolding s1 sh by (fact d(1))+
      ultimately show ?thesis using bspec [OF m1(3), of d] valid fold_entries [of d m1 singles] by (simp add: d(3))
    qed
    then show ?thesis using leave_walked [of y m d ?n db wfh e] d(1) unfolding d(2)
      by (simp only: filter_append other append_Nil append_Nil2 atLeastAtMost_iff) (simp add: valid_date_def)
  qed
  ultimately show ?thesis by blast
qed

lemma calendar_month_complete_witness:
  "\<exists>v xs. get_employee_calendar_month example_clock example_timeoff [] (example_employee 10 None) (Some (2025, 6)) = Some (Inr v) \<and>
    (Date 2025 6 10, xs) \<in> set (mv_days v) \<and>
    filter (\<lambda>x. ce_kind x = LEAVE) xs = [leave_entry example_timeoff comp_off_request (Date 2025 6 10)]"
proof -
  have ok: "valid_date (Date 2025 6 1)" "requests_valid example_timeoff [] (em_id (example_employee 10 None))"
    unfolding requests_valid_def by code_simp+
  obtain v where v: "get_employee_calendar_month example_clock example_timeoff [] (example_employee 10 None) (Some (2025, 6)) = Some (Inr v)"
    "map fst (mv_days v) = map (Date 2025 6) [1..days_in_month 2025 6]"
    "\<forall>(D, xs) \<in> set (mv_days v). filter (\<lambda>x. ce_kind x = LEAVE) xs = map (\<lambda>r. leave_entry example_timeoff r D)
       (rev (filter (\<lambda>r. lr_employee r = em_id (example_employee 10 None) \<and> lr_start_date r \<le> D \<and> D \<le> lr_end_date r)
         (td_leave_requests example_timeoff)))"
    using calendar_month_complete [OF ok] by blast
  have "Date 2025 6 10 \<in> set (map fst (mv_days v))" unfolding v(2) by (simp add: days_in_month_def)
  then obtain xs where xs: "(Date 2025 6 10, xs) \<in> set (mv_days v)" by auto
  moreover have "filter (\<lambda>r. lr_employee r = em_id (example_employee 10 None) \<and> lr_start_date r \<le> Date 2025 6 10 \<and> Date 2025 6 10 \<le> lr_end_date r)
         (td_leave_requests example_timeoff) = [comp_off_request]"
    by (simp add: example_timeoff_def comp_off_request_def new_leave_request_def example_employee_def)
  ultimately show ?thesis using v(1,3) by fastforce
qed

end
