(* ===== verification/PayrollSetup.thy ===== *)
theory PayrollSetup
  imports PayrollRules HrCommit
begin

text \<open>
  Setting up payroll (\<open>payroll/services.py\<close>): default components and tax master, tax slab sets,
  compensation templates and assignments, and the approval runs payroll opens.
\<close>

section \<open>Defaults\<close>

record component_payload =
  cp_code :: string
  cp_name :: string
  cp_type :: payroll_component_type
  cp_is_taxable :: "bool option"

definition default_component :: "string \<Rightarrow> string \<Rightarrow> payroll_component_type \<Rightarrow> bool \<Rightarrow> component_payload" where
  "default_component code name type taxable =
     \<lparr>cp_code = code, cp_name = name, cp_type = type, cp_is_taxable = Some taxable\<rparr>"

definition DEFAULT_COMPONENTS :: "component_payload list" where
  "DEFAULT_COMPONENTS =
     [default_component ''BASIC'' ''Basic Pay'' EARNING True,
      default_component ''HRA'' ''House Rent Allowance'' EARNING True,
      default_component ''SPECIAL_ALLOWANCE'' ''Special Allowance'' EARNING True,
      default_component ''PF_EMPLOYEE'' ''Employee PF'' EMPLOYEE_DEDUCTION False,
      default_component ''PF_EMPLOYER'' ''Employer PF'' EMPLOYER_CONTRIBUTION False,
      default_component ''ESI_EMPLOYEE'' ''ESI (Employee)'' EMPLOYEE_DEDUCTION False,
      default_component ''ESI_EMPLOYER'' ''ESI (Employer)'' EMPLOYER_CONTRIBUTION False,
      default_component ''LWF_EMPLOYEE'' ''Labour Welfare Fund (Employee)'' EMPLOYEE_DEDUCTION False,
      default_component ''LWF_EMPLOYER'' ''Labour Welfare Fund (Employer)'' EMPLOYER_CONTRIBUTION False,
      default_component ''PROFESSIONAL_TAX'' ''Professional Tax'' EMPLOYEE_DEDUCTION False]"

definition DEFAULT_TAX_SLABS :: "payroll_tax_slab list" where
  "DEFAULT_TAX_SLABS =
     [\<lparr>min_income = 0, max_income = Some 300000, rate_percent = 0\<rparr>,
      \<lparr>min_income = 300000, max_income = Some 700000, rate_percent = 5\<rparr>,
      \<lparr>min_income = 700000, max_income = Some 1000000, rate_percent = 10\<rparr>,
      \<lparr>min_income = 1000000, max_income = Some 1200000, rate_percent = 15\<rparr>,
      \<lparr>min_income = 1200000, max_income = Some 1500000, rate_percent = 20\<rparr>,
      \<lparr>min_income = 1500000, max_income = None, rate_percent = 30\<rparr>]"

section \<open>Tax slab sets\<close>

definition normalize_slab :: "payroll_tax_slab \<Rightarrow> payroll_tax_slab" where
  "normalize_slab s =
     \<lparr>min_income = quantize2 (min_income s), max_income = map_option quantize2 (max_income s),
      rate_percent = quantize2 (rate_percent s)\<rparr>"

abbreviation slab_sets :: "hr_state \<Rightarrow> payroll_tax_slab_set list" where
  "slab_sets st \<equiv> sm_slab_sets (pd_masters (pay st))"

definition update_slab_sets ::
  "(payroll_tax_slab_set list \<Rightarrow> payroll_tax_slab_set list) \<Rightarrow> hr_state \<Rightarrow> hr_state" where
  "update_slab_sets f = update_pay (\<lambda>p. p\<lparr>pd_masters := (pd_masters p)\<lparr>sm_slab_sets := f (sm_slab_sets (pd_masters p))\<rparr>\<rparr>)"

text \<open>The labels of the choices, in ASCII.\<close>

fun tax_category_label :: "tax_category \<Rightarrow> string" where
  "tax_category_label INDIVIDUAL = ''Individual (age < 60)''"
| "tax_category_label SENIOR_CITIZEN = ''Senior Citizen (age 60-79)''"
| "tax_category_label SUPER_SENIOR_CITIZEN = ''Super Senior Citizen (age >= 80)''"

text \<open>One master per country, fiscal year, regime and category.\<close>

definition master_exists :: "payroll_tax_slab_set list \<Rightarrow> string \<Rightarrow> string \<Rightarrow> bool \<Rightarrow> tax_category \<Rightarrow> bool" where
  "master_exists table country fiscal_year old_regime category =
     list_ex (\<lambda>s. ts_organisation s = None \<and> ts_country_code s = country \<and> ts_is_old_regime s = old_regime \<and>
       ts_tax_category s = category \<and> fiscal_year_query fiscal_year (ts_fiscal_year s)) table"

definition create_tax_slab_set ::
  "string \<Rightarrow> string \<Rightarrow> string \<Rightarrow> payroll_tax_slab list \<Rightarrow> uid option \<Rightarrow> uid option \<Rightarrow> uid option \<Rightarrow> bool \<Rightarrow> bool
     \<Rightarrow> tax_category \<Rightarrow> hr_state \<Rightarrow> (hr_state \<times> payroll_tax_slab_set) res" where
  "create_tax_slab_set fiscal_year name country slabs actor organisation source_set active old_regime category st =
     (let fy = normalize_fiscal_year_label fiscal_year
      in if slabs = [] then raise_value ''At least one tax slab is required.''
         else if organisation = None \<and> master_exists (slab_sets st) country fy old_regime category
         then Inl (ValueError ''A master already exists for {} {} - {}. Edit or delete the existing master instead.''
                [AStr fy, AStr (if old_regime then ''Old Regime'' else ''New Regime''), AStr (tax_category_label category)])
         else
           let s = \<lparr>ts_id = fresh_id ts_id (slab_sets st), ts_organisation = organisation, ts_source_set = source_set,
                    ts_name = name, ts_country_code = country, ts_fiscal_year = fy, ts_is_active = active,
                    ts_is_system_master = (organisation = None), ts_is_old_regime = old_regime,
                    ts_tax_category = category, ts_slabs = map normalize_slab slabs\<rparr>
           in Inr (audit actor ''payroll.tax_slab_set.created'' (ts_id s) (update_slab_sets (\<lambda>t. t @ [s]) st), s))"

record slab_set_changes =
  ch_name :: "string option"
  ch_fiscal_year :: "string option"
  ch_is_active :: "bool option"
  ch_is_old_regime :: "bool option"
  ch_tax_category :: "tax_category option"
  ch_slabs :: "payroll_tax_slab list option"

definition change_slab_set :: "slab_set_changes \<Rightarrow> payroll_tax_slab_set \<Rightarrow> payroll_tax_slab_set" where
  "change_slab_set ch s =
     s\<lparr>ts_name := or_else (ch_name ch) (ts_name s),
       ts_fiscal_year := (case ch_fiscal_year ch of None \<Rightarrow> ts_fiscal_year s | Some f \<Rightarrow> normalize_fiscal_year_label f),
       ts_is_active := or_else (ch_is_active ch) (ts_is_active s),
       ts_is_old_regime := or_else (ch_is_old_regime ch) (ts_is_old_regime s),
       ts_tax_category := or_else (ch_tax_category ch) (ts_tax_category s),
       ts_slabs := (case ch_slabs ch of None \<Rightarrow> ts_slabs s | Some ls \<Rightarrow> map normalize_slab ls)\<rparr>"

definition update_tax_slab_set :: "uid \<Rightarrow> slab_set_changes \<Rightarrow> uid option \<Rightarrow> hr_state \<Rightarrow> hr_state" where
  "update_tax_slab_set i ch actor st =
     audit actor ''payroll.tax_slab_set.updated'' i
       (update_slab_sets (update_where (\<lambda>s. ts_id s = i) (change_slab_set ch)) st)"

definition delete_tax_slab_set :: "uid \<Rightarrow> uid option \<Rightarrow> hr_state \<Rightarrow> hr_state" where
  "delete_tax_slab_set i actor st =
     update_slab_sets (filter (\<lambda>s. ts_id s \<noteq> i)) (audit actor ''payroll.tax_slab_set.deleted'' i st)"

text \<open>The latest active new-regime individual master of the year, or a minimal one created now.\<close>

definition ensure_global_default_tax_master ::
  "clock \<Rightarrow> uid option \<Rightarrow> string option \<Rightarrow> hr_state \<Rightarrow> (hr_state \<times> payroll_tax_slab_set) res" where
  "ensure_global_default_tax_master ck actor fiscal_year st =
     (let target = normalize_fiscal_year_label (or_else fiscal_year (current_fiscal_year (ck_today ck)))
      in case first_row (\<lambda>s. ts_organisation s = None \<and> ts_is_system_master s \<and> ts_is_active s \<and>
             ts_country_code s = ''IN'' \<and> ts_fiscal_year s = target \<and> \<not> ts_is_old_regime s \<and>
             ts_tax_category s = INDIVIDUAL) (rev (slab_sets st)) of
           Some s \<Rightarrow> Inr (st, s)
         | None \<Rightarrow>
             create_tax_slab_set target ''Default India New Regime (Individual)'' ''IN'' DEFAULT_TAX_SLABS actor
               None None True False INDIVIDUAL st)"

section \<open>Components\<close>

definition find_component :: "payroll_db \<Rightarrow> uid \<Rightarrow> payroll_component option" where
  "find_component db i = first_row (\<lambda>c. pc_id c = i) (pd_components db)"

definition get_or_create_default :: "uid \<Rightarrow> component_payload \<Rightarrow> hr_state \<Rightarrow> hr_state" where
  "get_or_create_default org payload st =
     (if list_ex (\<lambda>c. pc_organisation c = org \<and> pc_code c = cp_code payload) (pd_components (pay st)) then st
      else update_pay (\<lambda>p. p\<lparr>pd_components := pd_components p @
             [\<lparr>pc_id = ap_next_id st, pc_organisation = org, pc_code = cp_code payload, pc_name = cp_name payload,
               pc_component_type = cp_type payload, pc_is_taxable = or_else (cp_is_taxable payload) True,
               pc_is_system_default = True\<rparr>]\<rparr>) (draw_id st))"

definition get_or_create_component :: "uid \<Rightarrow> component_payload \<Rightarrow> hr_state \<Rightarrow> hr_state \<times> uid" where
  "get_or_create_component org payload st =
     (case first_row (\<lambda>c. pc_organisation c = org \<and> pc_code c = cp_code payload) (pd_components (pay st)) of
        Some c \<Rightarrow>
          (update_pay (\<lambda>p. p\<lparr>pd_components := update_where (\<lambda>d. pc_id d = pc_id c)
             (\<lambda>d. d\<lparr>pc_name := cp_name payload, pc_component_type := cp_type payload,
                    pc_is_taxable := or_else (cp_is_taxable payload) (pc_is_taxable d)\<rparr>) (pd_components p)\<rparr>) st, pc_id c)
      | None \<Rightarrow>
          (update_pay (\<lambda>p. p\<lparr>pd_components := pd_components p @
             [\<lparr>pc_id = ap_next_id st, pc_organisation = org, pc_code = cp_code payload, pc_name = cp_name payload,
               pc_component_type = cp_type payload, pc_is_taxable = or_else (cp_is_taxable payload) True,
               pc_is_system_default = False\<rparr>]\<rparr>) (draw_id st), ap_next_id st))"

definition resolve_cost_centre :: "payroll_db \<Rightarrow> uid \<Rightarrow> uid option \<Rightarrow> uid option" where
  "resolve_cost_centre db org i =
     (case i of None \<Rightarrow> None
      | Some j \<Rightarrow> map_option cc_id (first_row (\<lambda>c. cc_organisation c = org \<and> cc_id c = j \<and> cc_is_active c)
                    (pd_cost_centres db)))"

definition ensure_org_payroll_setup :: "clock \<Rightarrow> uid \<Rightarrow> uid option \<Rightarrow> hr_state \<Rightarrow> unit outcome" where
  "ensure_org_payroll_setup ck org actor st =
     (let seeded = update_pay (\<lambda>p. p\<lparr>pd_masters := fst (seed_statutory_master_data (pd_masters p))\<rparr>) st
      in then_do (atomically (ensure_global_default_tax_master ck actor (Some (current_fiscal_year (ck_today ck))) seeded) seeded)
           (\<lambda>_. \<lambda>d. give () (fold (get_or_create_default org) DEFAULT_COMPONENTS d)))"

section \<open>Compensation templates\<close>

record template_line_payload = component_payload +
  tp_monthly_amount :: rat
  tp_cost_centre :: "uid option"

definition find_template :: "payroll_db \<Rightarrow> uid \<Rightarrow> compensation_template option" where
  "find_template db i = first_row (\<lambda>t. ct_id t = i) (pd_templates db)"

definition update_template :: "uid \<Rightarrow> (compensation_template \<Rightarrow> compensation_template) \<Rightarrow> hr_state \<Rightarrow> hr_state" where
  "update_template i f = update_pay (\<lambda>p. p\<lparr>pd_templates := update_where (\<lambda>t. ct_id t = i) f (pd_templates p)\<rparr>)"

text \<open>One turn of the loop over the lines: the component is written before the cost centre is checked.\<close>

definition create_template_line :: "uid \<Rightarrow> uid \<Rightarrow> nat \<times> template_line_payload \<Rightarrow> hr_state \<Rightarrow> unit outcome" where
  "create_template_line org template_id indexed st =
     (case indexed of (index, line) \<Rightarrow>
       let (st1, component) = get_or_create_component org (component_payload.truncate line) st;
           cost_centre = resolve_cost_centre (pay st1) org (tp_cost_centre line)
       in if tp_cost_centre line \<noteq> None \<and> cost_centre = None
          then fail (ValueError ''Select an active cost centre from this organisation.'' []) st1
          else give () (update_template template_id
                 (\<lambda>t. t\<lparr>ct_lines := ct_lines t @ [\<lparr>tl_component = component, tl_monthly_amount = quantize2 (tp_monthly_amount line),
                    tl_sequence = index, tl_cost_centre = cost_centre\<rparr>]\<rparr>) st1))"

fun create_template_lines :: "uid \<Rightarrow> uid \<Rightarrow> (nat \<times> template_line_payload) list \<Rightarrow> hr_state \<Rightarrow> unit outcome" where
  "create_template_lines org i [] st = give () st"
| "create_template_lines org i (l # ls) st =
     then_do (create_template_line org i l st) (\<lambda>_. create_template_lines org i ls)"

definition numbered :: "'a list \<Rightarrow> (nat \<times> 'a) list" where
  "numbered xs = zip [1..<Suc (length xs)] xs"

text \<open>A transaction around steps that would otherwise commit one by one.\<close>

definition rollback :: "(hr_state \<Rightarrow> 'a outcome) \<Rightarrow> hr_state \<Rightarrow> 'a outcome" where
  "rollback f st = (case f st of (st', Inl e) \<Rightarrow> (st, Inl e) | (st', Inr a) \<Rightarrow> (st', Inr a))"

definition create_compensation_template ::
  "clock \<Rightarrow> uid \<Rightarrow> string \<Rightarrow> string \<Rightarrow> template_line_payload list \<Rightarrow> uid option \<Rightarrow> hr_state \<Rightarrow> uid outcome" where
  "create_compensation_template ck org name description lines actor st0 =
     then_do (ensure_org_payroll_setup ck org actor st0) (\<lambda>_. \<lambda>st.
       if lines = [] then fail (ValueError ''At least one compensation line is required.'' []) st
       else if list_ex (\<lambda>t. ct_organisation t = org \<and> ct_name t = name) (pd_templates (pay st))
       then fail (IntegrityError ''unique_compensation_template_name_per_org'') st
       else
         let i = ap_next_id st
         in then_do (rollback (\<lambda>d. create_template_lines org i (numbered lines)
                (update_pay (\<lambda>p. p\<lparr>pd_templates := pd_templates p @
                   [\<lparr>ct_id = i, ct_organisation = org, ct_name = name, ct_description = description,
                     ct_status = CT_DRAFT, ct_approval_run = None, ct_lines = []\<rparr>]\<rparr>) (draw_id d))) st)
              (\<lambda>_. \<lambda>d. give i (audit actor ''payroll.compensation_template.created'' i d)))"

text \<open>No transaction: a failing line leaves the new name and status and the lines created before it.\<close>

definition update_compensation_template ::
  "uid \<Rightarrow> string option \<Rightarrow> string option \<Rightarrow> template_line_payload list option \<Rightarrow> uid option \<Rightarrow> hr_state \<Rightarrow> unit outcome" where
  "update_compensation_template i name description lines actor st =
     (case find_template (pay st) i of
        None \<Rightarrow> fail (DoesNotExist ''CompensationTemplate'') st
      | Some t \<Rightarrow>
          if (case name of None \<Rightarrow> False
              | Some n \<Rightarrow> list_ex (\<lambda>u. ct_id u \<noteq> i \<and> ct_organisation u = ct_organisation t \<and> ct_name u = n) (pd_templates (pay st)))
          then fail (IntegrityError ''unique_compensation_template_name_per_org'') st
          else
            let st1 = update_template i
                  (\<lambda>u. u\<lparr>ct_name := or_else name (ct_name u), ct_description := or_else description (ct_description u),
                         ct_status := (if ct_status u = CT_APPROVED then CT_DRAFT else ct_status u)\<rparr>) st
            in then_do (case lines of None \<Rightarrow> give () st1
                 | Some ls \<Rightarrow> create_template_lines (ct_organisation t) i (numbered ls)
                                (update_template i (\<lambda>u. u\<lparr>ct_lines := []\<rparr>) st1))
                 (\<lambda>_. \<lambda>d. give () (audit actor ''payroll.compensation_template.updated'' i d)))"

section \<open>Approval runs of payroll\<close>

definition resolve_payroll_requester_context ::
  "uid option \<Rightarrow> employee option \<Rightarrow> uid option \<Rightarrow> (uid \<times> uid \<times> employee option) res" where
  "resolve_payroll_requester_context requester_user requester_employee organisation =
     (case requester_employee of
        Some e \<Rightarrow> Inr (em_organisation e, or_else requester_user (em_user e), Some e)
      | None \<Rightarrow>
          (case (requester_user, organisation) of
             (Some u, Some g) \<Rightarrow> Inr (g, u, None)
           | _ \<Rightarrow> raise_value ''A payroll requester user and organisation are required.''))"

definition no_payroll_workflow :: "approval_request_kind \<Rightarrow> py_error" where
  "no_payroll_workflow kind =
     ValueError ''No active default approval workflow is configured for {} requests.'' [AStr (request_kind_words kind)]"

definition create_payroll_approval_run ::
  "clock \<Rightarrow> subject_ref \<Rightarrow> approval_request_kind \<Rightarrow> uid \<Rightarrow> uid \<Rightarrow> employee option \<Rightarrow> string \<Rightarrow> rat
     \<Rightarrow> hr_state \<Rightarrow> (hr_state \<times> approval_run) res" where
  "create_payroll_approval_run ck subject kind org requester_user requester_employee label amount st =
     bind_res (case requester_employee of
                 Some e \<Rightarrow> bind_res (resolve_workflow st e kind None (Some amount) empty_context) (\<lambda>w. Inr (Some w))
               | None \<Rightarrow> Inr (get_default_workflow st org kind))
       (\<lambda>workflow. case workflow of
          None \<Rightarrow> Inl (no_payroll_workflow kind)
        | Some w \<Rightarrow> open_approval_run ck w subject kind org (map_option em_id requester_employee) requester_user
                       requester_user label st)"

definition template_ref :: "uid \<Rightarrow> subject_ref" where "template_ref i = (''CompensationTemplate'', i)"
definition assignment_ref :: "uid \<Rightarrow> subject_ref" where "assignment_ref i = (''CompensationAssignment'', i)"
definition pay_run_ref :: "uid \<Rightarrow> subject_ref" where "pay_run_ref i = (''PayrollRun'', i)"

definition submit_compensation_template_for_approval ::
  "clock \<Rightarrow> compensation_template \<Rightarrow> uid option \<Rightarrow> employee option \<Rightarrow> hr_state \<Rightarrow> hr_state res" where
  "submit_compensation_template_for_approval ck t requester_user requester_employee st =
     (if ct_status t \<notin> {CT_DRAFT, CT_REJECTED}
      then raise_value ''Only draft or rejected templates can be submitted for approval.''
      else bind_res (resolve_payroll_requester_context requester_user requester_employee (Some (ct_organisation t)))
        (\<lambda>(org, user, e).
      bind_res (create_payroll_approval_run ck (template_ref (ct_id t)) RK_COMPENSATION_TEMPLATE_CHANGE org user e
                  (ct_name t) (sum_list (map tl_monthly_amount (ct_lines t))) st)
        (\<lambda>(d, run). Inr (update_template (ct_id t)
           (\<lambda>u. u\<lparr>ct_approval_run := Some (rn_id run), ct_status := CT_PENDING_APPROVAL\<rparr>) d))))"

section \<open>Compensation assignments\<close>

definition copy_line :: "payroll_db \<Rightarrow> compensation_template_line \<Rightarrow> compensation_assignment_line res" where
  "copy_line db l =
     (case find_component db (tl_component l) of
        None \<Rightarrow> Inl (DoesNotExist ''PayrollComponent'')
      | Some c \<Rightarrow> Inr \<lparr>al_component_code = pc_code c, al_component_name = pc_name c,
          al_component_type = pc_component_type c, al_monthly_amount = tl_monthly_amount l,
          al_is_taxable = pc_is_taxable c, al_sequence = tl_sequence l, al_cost_centre = tl_cost_centre l\<rparr>)"

record assignment_options =
  ao_auto_approve :: bool
  ao_tax_regime :: tax_regime
  ao_is_pf_opted_out :: bool
  ao_is_epf_exempt :: bool
  ao_vpf_rate_percent :: rat

definition assign_employee_compensation ::
  "employee \<Rightarrow> compensation_template \<Rightarrow> date \<Rightarrow> uid option \<Rightarrow> assignment_options \<Rightarrow> hr_state
     \<Rightarrow> (hr_state \<times> compensation_assignment) res" where
  "assign_employee_compensation e t effective_from actor opts st =
     (let rate = (if ao_is_pf_opted_out opts then 0 else quantize2 (ao_vpf_rate_percent opts)) in
      bind_res (validate_pf_opt_out_eligibility e (ao_is_pf_opted_out opts) (ao_is_epf_exempt opts)) (\<lambda>_.
      bind_res (guard_res (\<not> ao_is_pf_opted_out opts \<and> rate < 12)
        (ValueError ''Employee PF/VPF rate cannot be below 12% unless PF is opted out.'' [])) (\<lambda>_.
      bind_res (guard_res (rate > 100)
        (ValueError ''Employee PF/VPF rate cannot exceed 100% of PF wages.'' [])) (\<lambda>_.
      bind_res (map_res (copy_line (pay st)) (sort_key tl_sequence (ct_lines t))) (\<lambda>lines.
        let a = \<lparr>ca_id = ap_next_id st, ca_employee = em_id e, ca_template = ct_id t, ca_effective_from = effective_from,
                 ca_version = length (filter (\<lambda>a. ca_employee a = em_id e) (pd_assignments (pay st))) + 1,
                 ca_tax_regime = ao_tax_regime opts, ca_is_pf_opted_out = ao_is_pf_opted_out opts,
                 ca_is_epf_exempt = ao_is_epf_exempt opts, ca_vpf_rate_percent = rate,
                 ca_status = (if ao_auto_approve opts then CA_APPROVED else CA_DRAFT), ca_approval_run = None,
                 ca_lines = lines\<rparr>
        in Inr (audit actor ''payroll.compensation_assignment.created'' (ca_id a)
                  (update_pay (\<lambda>p. p\<lparr>pd_assignments := pd_assignments p @ [a]\<rparr>) (draw_id st)), a))))))"

definition update_assignment :: "uid \<Rightarrow> (compensation_assignment \<Rightarrow> compensation_assignment) \<Rightarrow> hr_state \<Rightarrow> hr_state" where
  "update_assignment i f = update_pay (\<lambda>p. p\<lparr>pd_assignments := update_where (\<lambda>a. ca_id a = i) f (pd_assignments p)\<rparr>)"

definition submit_compensation_assignment_for_approval ::
  "clock \<Rightarrow> compensation_assignment \<Rightarrow> uid option \<Rightarrow> employee option \<Rightarrow> hr_state \<Rightarrow> hr_state res" where
  "submit_compensation_assignment_for_approval ck a requester_user requester_employee st =
     (if ca_status a \<notin> {CA_DRAFT, CA_REJECTED}
      then raise_value ''Only draft or rejected compensation assignments can be submitted for approval.''
      else (case find_employee (ap_org st) (ca_employee a) of
          None \<Rightarrow> Inl (DoesNotExist ''Employee'')
        | Some owner \<Rightarrow>
      bind_res (resolve_payroll_requester_context requester_user requester_employee (Some (em_organisation owner)))
        (\<lambda>(org, user, e).
      bind_res (create_payroll_approval_run ck (assignment_ref (ca_id a)) RK_SALARY_REVISION org user e
                  (em_full_name owner @ '' salary revision'') (sum_list (map al_monthly_amount (ca_lines a))) st)
        (\<lambda>(d, run). Inr (update_assignment (ca_id a)
           (\<lambda>b. b\<lparr>ca_approval_run := Some (rn_id run), ca_status := CA_PENDING_APPROVAL\<rparr>) d)))))"

text \<open>\<open>order_by('-effective_from', '-version', '-created_at')\<close>: the stable sort, reversed.\<close>

definition approved_assignments :: "compensation_assignment list \<Rightarrow> date \<Rightarrow> compensation_assignment list" where
  "approved_assignments table as_of =
     rev (sort_key (\<lambda>a. (ca_effective_from a, ca_version a))
       (filter (\<lambda>a. ca_effective_from a \<le> as_of \<and> ca_status a = CA_APPROVED) table))"

definition get_effective_compensation_assignment ::
  "compensation_assignment list \<Rightarrow> uid \<Rightarrow> date \<Rightarrow> compensation_assignment option" where
  "get_effective_compensation_assignment table employee as_of =
     first_row (\<lambda>a. ca_employee a = employee) (approved_assignments table as_of)"

text \<open>Gross and basic pay of an assignment; the last \<open>BASIC\<close> line counts.\<close>

definition get_assignment_monthly_amounts :: "compensation_assignment \<Rightarrow> rat \<times> rat" where
  "get_assignment_monthly_amounts a =
     fold (\<lambda>l (gross, basic).
         (if al_component_type l = EARNING then gross + quantize2 (al_monthly_amount l) else gross,
          if al_component_code l = ''BASIC'' then quantize2 (al_monthly_amount l) else basic))
       (sort_key al_sequence (ca_lines a)) (0, 0)"

end
