(* ===== verification/PayRun.thy ===== *)
theory PayRun
  imports PayrollSetup PayrollItems
begin

text \<open>
  The life of a pay run (\<open>payroll/services.py\<close>): creation, calculation of all employees, submission
  for approval, finalisation into payslips, and reruns.
\<close>

section \<open>Runs and items\<close>

definition find_pay_run :: "payroll_db \<Rightarrow> uid \<Rightarrow> payroll_run option" where
  "find_pay_run db i = first_row (\<lambda>r. pr_id r = i) (pd_runs db)"

definition update_pay_run :: "uid \<Rightarrow> (payroll_run \<Rightarrow> payroll_run) \<Rightarrow> hr_state \<Rightarrow> hr_state" where
  "update_pay_run i f = update_pay (\<lambda>p. p\<lparr>pd_runs := update_where (\<lambda>r. pr_id r = i) f (pd_runs p)\<rparr>)"

definition run_items :: "payroll_db \<Rightarrow> uid \<Rightarrow> payroll_run_item list" where
  "run_items db i = filter (\<lambda>x. ri_pay_run x = i) (pd_items db)"

definition ready_items :: "payroll_db \<Rightarrow> uid \<Rightarrow> payroll_run_item list" where
  "ready_items db i = filter (\<lambda>x. ri_status x = READY) (run_items db i)"

section \<open>Creation\<close>

definition month_abbr :: "int \<Rightarrow> string" where
  "month_abbr m =
     [''Jan'', ''Feb'', ''Mar'', ''Apr'', ''May'', ''Jun'', ''Jul'', ''Aug'', ''Sep'', ''Oct'', ''Nov'', ''Dec''] ! nat (m - 1)"

definition pay_run_name :: "int \<Rightarrow> int \<Rightarrow> payroll_run_type \<Rightarrow> string res" where
  "pay_run_name y m run_type =
     bind_res (mk_date y m 1) (\<lambda>_.
       Inr (month_abbr m @ '' '' @ str_of_nat (nat y) @ (if run_type = RERUN then '' Payroll Rerun'' else '' Payroll'')))"

definition create_payroll_run ::
  "clock \<Rightarrow> uid \<Rightarrow> int \<Rightarrow> int \<Rightarrow> uid option \<Rightarrow> uid option \<Rightarrow> uid option \<Rightarrow> payroll_run_type \<Rightarrow> string \<Rightarrow> bool
     \<Rightarrow> hr_state \<Rightarrow> uid outcome" where
  "create_payroll_run ck org y m actor requester_user source_run run_type name use_attendance st0 =
     (let who = (case actor of Some a \<Rightarrow> Some a | None \<Rightarrow> requester_user) in
      then_do (ensure_org_payroll_setup ck org who st0) (\<lambda>_. \<lambda>st.
      then_do (from_res (if name = [] then pay_run_name y m run_type else Inr name) st) (\<lambda>label. \<lambda>d.
        let i = ap_next_id d;
            run = \<lparr>pr_id = i, pr_organisation = org, pr_name = label, pr_period_year = y, pr_period_month = m,
                   pr_run_type = run_type, pr_status = PR_DRAFT, pr_use_attendance_inputs = use_attendance,
                   pr_attendance_snapshot = None, pr_source_run = source_run, pr_approval_run = None,
                   pr_calculated_at = None, pr_submitted_at = None, pr_finalized_at = None\<rparr>
        in give i (audit who ''payroll.run.created'' i
                    (update_pay (\<lambda>p. p\<lparr>pd_runs := pd_runs p @ [run]\<rparr>) (draw_id d))))))"

section \<open>Calculation\<close>

text \<open>Deleting items takes their payslips along and clears the claims' link.\<close>

definition delete_items :: "uid \<Rightarrow> hr_state \<Rightarrow> hr_state" where
  "delete_items i st =
     (let gone = map ri_id (run_items (pay st) i)
      in update_claims (\<lambda>c. case xm_reimbursement_pay_run_item c of None \<Rightarrow> False | Some x \<Rightarrow> x \<in> set gone)
           (\<lambda>c. c\<lparr>xm_reimbursement_pay_run_item := None\<rparr>)
           (update_pay (\<lambda>p. p\<lparr>pd_items := filter (\<lambda>x. ri_pay_run x \<noteq> i) (pd_items p),
                              pd_payslips := filter (\<lambda>s. py_pay_run_item s \<notin> set gone) (pd_payslips p)\<rparr>) st))"

definition insert_item :: "payroll_run_item \<Rightarrow> hr_state \<Rightarrow> hr_state" where
  "insert_item x st = update_pay (\<lambda>p. p\<lparr>pd_items := pd_items p @ [x]\<rparr>) (draw_id st)"

text \<open>\<open>order_by('date_of_joining', 'id')\<close>; a missing date sorts last.\<close>

definition payable_employees :: "org_db \<Rightarrow> uid \<Rightarrow> employee list" where
  "payable_employees db org =
     sort_key (\<lambda>e. (em_date_of_joining e = None, or_else (em_date_of_joining e) (Date 1 1 1), em_id e))
       (filter (\<lambda>e. em_organisation e = org \<and> em_status e = ES_ACTIVE) (employee_objects db))"

text \<open>The state of an employee: that of the office's address, else the organisation's.\<close>

definition employee_state :: "string \<Rightarrow> employee \<Rightarrow> string" where
  "employee_state org_state e = (if em_office_state_code e \<noteq> [] then em_office_state_code e else org_state)"

definition no_assignment_message :: string where
  "no_assignment_message = ''No approved compensation assignment is effective for this period.''"

text \<open>The slab set of an employee; a missing new-regime master is created on the way.\<close>

definition slab_set_for ::
  "clock \<Rightarrow> run_inputs \<Rightarrow> employee \<Rightarrow> tax_regime \<Rightarrow> hr_state \<Rightarrow> (hr_state \<times> payroll_tax_slab_set option) res" where
  "slab_set_for ck inp e regime st =
     (let category = tax_category_for_fiscal_year e (in_fiscal_year inp);
          look = (\<lambda>d. get_active_tax_slab_set (slab_sets d) (in_fiscal_year inp) (Some (em_organisation e)) regime category)
      in if look st = None \<and> regime = NEW
         then bind_res (ensure_global_default_tax_master ck None (Some (in_fiscal_year inp)) st)
                (\<lambda>(d, _). Inr (d, look d))
         else Inr (st, look st))"

text \<open>One turn of the loop over the employees. The organisation's state may be unresolved.\<close>

definition calculate_step ::
  "clock \<Rightarrow> attendance_service \<Rightarrow> run_inputs \<Rightarrow> string res \<Rightarrow> (uid \<Rightarrow> expense_claim list) \<Rightarrow> employee
     \<Rightarrow> hr_state \<Rightarrow> hr_state res" where
  "calculate_step ck attendance inp org_state claims e st =
     (let run = in_run inp in
      case org_state of
        Inl err \<Rightarrow> Inr (insert_item (exception_item (pr_id run) (em_id e) (fst (error_text err)) (snd (error_text err)) (ap_next_id st)) st)
      | Inr code \<Rightarrow>
     (case get_effective_compensation_assignment (pd_assignments (pay st)) (em_id e) (in_period_end inp) of
        None \<Rightarrow> Inr (insert_item (exception_item (pr_id run) (em_id e) no_assignment_message [] (ap_next_id st)) st)
      | Some a \<Rightarrow>
     bind_res (slab_set_for ck inp e (ca_tax_regime a) st) (\<lambda>(d, found).
     (case found of
        None \<Rightarrow> Inr (insert_item (exception_item (pr_id run) (em_id e)
               ''No active {} tax slab set is configured for this payroll period.''
               [AStr (py_lower (tax_regime_value (ca_tax_regime a)))] (ap_next_id d)) d)
      | Some slabs \<Rightarrow>
          let item = calculate_item attendance (ap_subjects d) inp e a slabs (employee_state code e) (claims (em_id e)) (ap_next_id d);
              d1 = insert_item item d
          in Inr (if ri_status item = READY
                  then mark_expense_claims_included_in_payroll (pr_id run) (ri_id item) (claims (em_id e)) d1
                  else d1)))))"

definition attendance_entry_of :: "org_db \<Rightarrow> payroll_run_item \<Rightarrow> attendance_entry" where
  "attendance_entry_of db x =
     (let code = (case find_employee db (ri_employee x) of None \<Rightarrow> [] | Some e \<Rightarrow> or_else (em_employee_code e) [])
      in case ri_snapshot x of
           None \<Rightarrow> Entry_exception (ri_employee x) code (ri_message x) (ri_message_args x)
         | Some sn \<Rightarrow> Entry_ready (ri_employee x) code (at_active_period_start (sn_attendance sn))
             (at_active_period_end (sn_attendance sn)) (at_attendance_paid_days (sn_attendance sn))
             (at_effective_lop_days (sn_attendance sn)) (at_overtime_minutes (sn_attendance sn)))"

definition sum_attendance :: "(attendance_context \<Rightarrow> 'a) \<Rightarrow> payroll_run_item list \<Rightarrow> ('a :: comm_monoid_add)" where
  "sum_attendance f items = sum_list (map (\<lambda>x. case ri_snapshot x of None \<Rightarrow> 0 | Some sn \<Rightarrow> f (sn_attendance sn)) items)"

definition run_attendance_of :: "org_db \<Rightarrow> run_inputs \<Rightarrow> payroll_run_item list \<Rightarrow> run_attendance" where
  "run_attendance_of db inp items =
     \<lparr>rt_use_attendance_inputs = pr_use_attendance_inputs (in_run inp), rt_period_start = in_period_start inp,
      rt_period_end = in_period_end inp, rt_employee_count = length items,
      rt_ready_item_count = length (filter (\<lambda>x. ri_status x = READY) items),
      rt_exception_item_count = length (filter (\<lambda>x. ri_status x = EXCEPTION) items),
      rt_total_attendance_paid_days = quantize2 (sum_attendance at_attendance_paid_days items),
      rt_total_lop_days = quantize2 (sum_attendance at_effective_lop_days items),
      rt_total_overtime_minutes = sum_attendance at_overtime_minutes items,
      rt_employees = map (attendance_entry_of db) items\<rparr>"

text \<open>What the loop reads: the period, the fiscal year, and the rules of the states concerned.\<close>

definition inputs_of :: "payroll_run \<Rightarrow> employee list \<Rightarrow> string res \<Rightarrow> hr_state \<Rightarrow> run_inputs res" where
  "inputs_of run employees org_state st =
     bind_res (mk_date (pr_period_year run) (pr_period_month run) 1) (\<lambda>period_start.
     bind_res (months_remaining_in_fiscal_year (pr_period_month run)) (\<lambda>months.
       let codes = (case org_state of Inl _ \<Rightarrow> []
                    | Inr code \<Rightarrow> code # filter (\<lambda>c. c \<noteq> []) (map (employee_state code) employees))
       in Inr \<lparr>in_run = run, in_period_start = period_start,
               in_period_end = Date (pr_period_year run) (pr_period_month run)
                                 (days_in_month (pr_period_year run) (pr_period_month run)),
               in_fiscal_year = fiscal_year_for_period (pr_period_year run) (pr_period_month run),
               in_months_remaining = months,
               in_pt_rules = prefetch_professional_tax_rules (sm_pt_rules (pd_masters (pay st))) codes period_start,
               in_lwf_rules = prefetch_labour_welfare_fund_rules (sm_lwf_rules (pd_masters (pay st))) codes period_start\<rparr>))"

text \<open>The transaction of a calculation.\<close>

definition calculate_transaction ::
  "clock \<Rightarrow> attendance_service \<Rightarrow> payroll_run \<Rightarrow> hr_state \<Rightarrow> hr_state res" where
  "calculate_transaction ck attendance run st =
     (case find_organisation (ap_org st) (pr_organisation run) of
        None \<Rightarrow> Inl (DoesNotExist ''Organisation'')
      | Some org \<Rightarrow>
     (let org_state = resolve_organisation_payroll_state_code org;
          employees = payable_employees (ap_org st) (pr_organisation run);
          cleared = delete_items (pr_id run) (reset_expense_claims_for_pay_run (pr_id run) st);
          claims = get_pending_expense_claims_by_employee_for_pay_run (expenses cleared) run
      in bind_res (inputs_of run employees org_state st) (\<lambda>inp.
         bind_res (fold_res (calculate_step ck attendance inp org_state claims) employees cleared) (\<lambda>done_st.
           Inr (update_pay_run (pr_id run)
             (\<lambda>r. r\<lparr>pr_attendance_snapshot := Some (run_attendance_of (ap_org st) inp (run_items (pay done_st) (pr_id run))),
                    pr_status := PR_CALCULATED, pr_calculated_at := Some (ck_now ck), pr_submitted_at := None,
                    pr_approval_run := pr_approval_run run\<rparr>) done_st)))))"

text \<open>
  A pending approval is cancelled first, in a transaction of its own; the run's link to it is
  cleared in memory and written with the result.
\<close>

definition pending_approval :: "hr_state \<Rightarrow> payroll_run \<Rightarrow> uid option" where
  "pending_approval st run =
     (case pr_approval_run run of None \<Rightarrow> None
      | Some a \<Rightarrow> (case find_run st a of None \<Rightarrow> None
                  | Some r \<Rightarrow> if rn_status r = RUN_PENDING then Some a else None))"

definition calculate_pay_run ::
  "clock \<Rightarrow> hr_db subject_ops \<Rightarrow> attendance_service \<Rightarrow> uid \<Rightarrow> uid option \<Rightarrow> hr_state \<Rightarrow> unit outcome" where
  "calculate_pay_run ck ops attendance i actor st =
     (case find_pay_run (pay st) i of
        None \<Rightarrow> fail (DoesNotExist ''PayrollRun'') st
      | Some run \<Rightarrow>
          if pr_status run = PR_APPROVED
          then fail (ValueError ''Approved payroll runs cannot be recalculated. Create a rerun or move the run back to draft first.'' []) st
          else if pr_status run = PR_FINALIZED
          then fail (ValueError ''Finalized payroll runs cannot be recalculated.'' []) st
          else
            then_do (case pending_approval st run of
                       None \<Rightarrow> give run st
                     | Some a \<Rightarrow> atomically (bind_res (cancel_approval_run ck ops a actor None st)
                                   (\<lambda>d. Inr (d, run\<lparr>pr_approval_run := None\<rparr>))) st)
              (\<lambda>r. \<lambda>d.
            then_do (atomically (bind_res (calculate_transaction ck attendance r d) (\<lambda>x. Inr (x, ()))) d)
              (\<lambda>_. \<lambda>x. give () (audit actor ''payroll.run.calculated'' i x))))"

section \<open>Submission\<close>

text \<open>Items come by employee code; the summary names the first three exceptions.\<close>

definition by_employee_code :: "org_db \<Rightarrow> payroll_run_item list \<Rightarrow> payroll_run_item list" where
  "by_employee_code db xs =
     sort_key (\<lambda>x. case find_employee db (ri_employee x) of None \<Rightarrow> (True, [])
                   | Some e \<Rightarrow> (em_employee_code e = None, or_else (em_employee_code e) [])) xs"

definition exceptions_in_order :: "hr_state \<Rightarrow> uid \<Rightarrow> payroll_run_item list" where
  "exceptions_in_order st i = by_employee_code (ap_org st) (filter (\<lambda>x. ri_status x = EXCEPTION) (run_items (pay st) i))"

definition exception_name :: "hr_state \<Rightarrow> payroll_run_item \<Rightarrow> string" where
  "exception_name st x =
     (case find_employee (ap_org st) (ri_employee x) of
        None \<Rightarrow> str_of_nat (ri_employee x)
      | Some e \<Rightarrow> if em_full_name e \<noteq> [] then em_full_name e
                  else if or_else (em_employee_code e) [] \<noteq> [] then or_else (em_employee_code e) []
                  else str_of_nat (em_id e))"

definition summarize_pay_run_exceptions :: "hr_state \<Rightarrow> uid \<Rightarrow> py_error option" where
  "summarize_pay_run_exceptions st i =
     (let xs = exceptions_in_order st i in
      if xs = [] then None
      else Some (ValueError ''Resolve payroll exceptions before proceeding: {}''
             (concat (map (\<lambda>x. AStr (exception_name st x) #
                 (if ri_message x = [] then [AStr ''Payroll data is incomplete.'']
                  else AStr (ri_message x) # ri_message_args x)) (take 3 xs)) @
              (if length xs > 3 then [AInt (int (length xs) - 3)] else []))))"

definition submit_pay_run_for_approval ::
  "clock \<Rightarrow> uid \<Rightarrow> uid option \<Rightarrow> employee option \<Rightarrow> hr_state \<Rightarrow> hr_state res" where
  "submit_pay_run_for_approval ck i requester_user requester_employee st =
     (case find_pay_run (pay st) i of
        None \<Rightarrow> Inl (DoesNotExist ''PayrollRun'')
      | Some run \<Rightarrow>
          if pr_status run \<noteq> PR_CALCULATED
          then raise_value ''Only calculated payroll runs can be submitted for approval.''
          else (case summarize_pay_run_exceptions st i of
              Some e \<Rightarrow> Inl e
            | None \<Rightarrow>
                if ready_items (pay st) i = []
                then raise_value ''Calculate payroll successfully for at least one employee before submitting the run for approval.''
                else bind_res (resolve_payroll_requester_context requester_user requester_employee (Some (pr_organisation run)))
                       (\<lambda>(org, user, e).
                     bind_res (create_payroll_approval_run ck (pay_run_ref i) RK_PAYROLL_PROCESSING org user e (pr_name run)
                                 (sum_list (map ri_gross_pay (ready_items (pay st) i))) st)
                       (\<lambda>(d, approval). Inr (update_pay_run i
                          (\<lambda>r. r\<lparr>pr_approval_run := Some (rn_id approval), pr_status := PR_APPROVAL_PENDING,
                                 pr_submitted_at := Some (ck_now ck)\<rparr>) d)))))"

section \<open>Finalisation\<close>

text \<open>The keys taken from the calculation; other keys of its snapshot are not copied.\<close>

definition payslip_snapshot_of :: "payroll_run_item \<Rightarrow> item_snapshot \<Rightarrow> payslip_snapshot" where
  "payslip_snapshot_of x sn =
     \<lparr>ps_gross_pay = ri_gross_pay x, ps_employee_deductions = ri_employee_deductions x,
      ps_employer_contributions = ri_employer_contributions x, ps_income_tax = ri_income_tax x,
      ps_total_deductions = ri_total_deductions x, ps_net_pay = ri_net_pay x, ps_arrears = sn_arrears sn,
      ps_lines = sn_lines sn, ps_paid_days = sn_paid_days sn, ps_total_days_in_period = sn_total_days_in_period sn,
      ps_pro_rate_factor = sn_pro_rate_factor sn, ps_lop_days = sn_lop_days sn, ps_lop_deduction = sn_lop_deduction sn,
      ps_annual_taxable_gross = sn_annual_taxable_gross sn,
      ps_annual_standard_deduction = sn_annual_standard_deduction sn,
      ps_annual_taxable_after_sd = sn_annual_taxable_after_sd sn, ps_annual_surcharge = tb_surcharge (sn_tax sn),
      ps_annual_tax_before_cess = tb_tax_after_rebate (sn_tax sn), ps_annual_cess = tb_cess (sn_tax sn),
      ps_annual_tax_total = tb_annual_tax (sn_tax sn)\<rparr>"

definition two_digits :: "int \<Rightarrow> string" where
  "two_digits n = (if n < 10 then ''0'' else []) @ str_of_nat (nat n)"

definition slip_number :: "hr_state \<Rightarrow> payroll_run \<Rightarrow> uid \<Rightarrow> string" where
  "slip_number st run employee =
     str_of_nat (nat (pr_period_year run)) @ two_digits (pr_period_month run) @ ''-'' @
     (let code = (case find_employee (ap_org st) employee of None \<Rightarrow> [] | Some e \<Rightarrow> or_else (em_employee_code e) [])
      in if code \<noteq> [] then code else str_of_nat employee)"

text \<open>\<open>update_or_create\<close> on the item's payslip; items that are ready carry a snapshot.\<close>

definition write_payslip :: "payroll_run \<Rightarrow> payroll_run_item \<Rightarrow> item_snapshot \<Rightarrow> hr_state \<Rightarrow> hr_state" where
  "write_payslip run x sn st =
     (let slip = \<lparr>py_id = ap_next_id st, py_organisation = pr_organisation run, py_employee = ri_employee x,
            py_pay_run = pr_id run, py_pay_run_item = ri_id x, py_slip_number = slip_number st run (ri_employee x),
            py_period_year = pr_period_year run, py_period_month = pr_period_month run,
            py_esi_period = sn_esi_period sn, py_esi_eligibility_mode = sn_esi_eligibility_mode sn,
            py_snapshot = payslip_snapshot_of x sn\<rparr>
      in if list_ex (\<lambda>s. py_pay_run_item s = ri_id x) (pd_payslips (pay st))
         then update_pay (\<lambda>p. p\<lparr>pd_payslips := update_where (\<lambda>s. py_pay_run_item s = ri_id x)
                (\<lambda>s. slip\<lparr>py_id := py_id s\<rparr>) (pd_payslips p)\<rparr>) st
         else update_pay (\<lambda>p. p\<lparr>pd_payslips := pd_payslips p @ [slip]\<rparr>) (draw_id st))"

definition include_arrears :: "uid \<Rightarrow> uid \<Rightarrow> hr_state \<Rightarrow> hr_state" where
  "include_arrears employee run =
     update_pay (\<lambda>p. p\<lparr>pd_arrears := update_where
       (\<lambda>a. ar_employee a = employee \<and> ar_pay_run a = Some run \<and> \<not> ar_is_included_in_payslip a)
       (\<lambda>a. a\<lparr>ar_is_included_in_payslip := True\<rparr>) (pd_arrears p)\<rparr>)"

definition finalize_item :: "clock \<Rightarrow> payroll_run \<Rightarrow> payroll_run_item \<Rightarrow> hr_state \<Rightarrow> hr_state" where
  "finalize_item ck run x st =
     (case ri_snapshot x of None \<Rightarrow> st
      | Some sn \<Rightarrow> mark_expense_claims_paid_for_pay_run_item ck (ri_id x)
                    (include_arrears (ri_employee x) (pr_id run) (write_payslip run x sn st)))"

definition month_name :: "int \<Rightarrow> string" where
  "month_name m = [''January'', ''February'', ''March'', ''April'', ''May'', ''June'', ''July'', ''August'',
     ''September'', ''October'', ''November'', ''December''] ! nat (m - 1)"

definition notify_payslip :: "uid option \<Rightarrow> string \<Rightarrow> payslip \<Rightarrow> hr_state \<Rightarrow> hr_state" where
  "notify_payslip actor period_label s st =
     (case find_employee (ap_org st) (py_employee s) of None \<Rightarrow> st
      | Some e \<Rightarrow> audit actor ''payroll.payslip.notification_queued'' (py_id s)
          (notify (em_user e) NK_PAYROLL_FINALIZED ''Your payslip for {} is ready'' [AStr period_label] [] (py_pay_run s) st))"

text \<open>Payslips come latest first.\<close>

definition notify_employees_payroll_finalized :: "uid option \<Rightarrow> payroll_run \<Rightarrow> hr_state \<Rightarrow> hr_state" where
  "notify_employees_payroll_finalized actor run st =
     fold (notify_payslip actor (month_name (pr_period_month run) @ '' '' @ str_of_nat (nat (pr_period_year run))))
       (rev (filter (\<lambda>s. py_pay_run s = pr_id run) (pd_payslips (pay st)))) st"

definition finalize_pay_run :: "clock \<Rightarrow> uid \<Rightarrow> uid option \<Rightarrow> bool \<Rightarrow> hr_state \<Rightarrow> hr_state res" where
  "finalize_pay_run ck i actor skip_approval st =
     (case find_pay_run (pay st) i of
        None \<Rightarrow> Inl (DoesNotExist ''PayrollRun'')
      | Some run \<Rightarrow>
          if pr_status run \<notin> {PR_APPROVED, PR_CALCULATED}
          then raise_value ''Only approved or explicitly bypassed calculated payroll runs can be finalized.''
          else if pr_status run = PR_CALCULATED \<and> \<not> skip_approval
          then raise_value ''Approval is required before finalization.''
          else (case summarize_pay_run_exceptions st i of
              Some e \<Rightarrow> Inl e
            | None \<Rightarrow>
                if ready_items (pay st) i = []
                then raise_value ''Calculate payroll successfully for at least one employee before finalization.''
                else
                  let d = fold (finalize_item ck run) (by_employee_code (ap_org st) (ready_items (pay st) i)) st;
                      d1 = update_pay_run i (\<lambda>r. r\<lparr>pr_status := PR_FINALIZED, pr_finalized_at := Some (ck_now ck)\<rparr>) d
                  in Inr (audit actor ''payroll.run.finalized'' i (notify_employees_payroll_finalized actor run d1))))"

definition rerun_payroll_run :: "clock \<Rightarrow> uid \<Rightarrow> uid option \<Rightarrow> uid option \<Rightarrow> hr_state \<Rightarrow> uid outcome" where
  "rerun_payroll_run ck i actor requester_user st =
     (case find_pay_run (pay st) i of
        None \<Rightarrow> fail (DoesNotExist ''PayrollRun'') st
      | Some run \<Rightarrow>
          if pr_status run \<noteq> PR_FINALIZED then fail (ValueError ''Only finalized payroll runs can be rerun.'' []) st
          else then_do (create_payroll_run ck (pr_organisation run) (pr_period_year run) (pr_period_month run) actor
                          requester_user (Some i) RERUN [] False st)
                 (\<lambda>new_run. \<lambda>d. give new_run
                    (audit (case actor of Some a \<Rightarrow> Some a | None \<Rightarrow> requester_user) ''payroll.run.rerun_created'' new_run d)))"

end
