(* ===== verification/HrSubjects.thy ===== *)
theory HrSubjects
  imports TimeoffRequests PayRun
begin

text \<open>
  The rows approval runs are about, as the operations the engine calls back: whether the row exists,
  the status (and, where the table has one, the rejection reason) it writes into it, and the method
  \<open>handle_approval_status_change\<close> it calls afterwards, where the model class has one
  (\<open>expenses/models.py\<close>, \<open>timeoff/models.py\<close>; the payroll classes have none). A status that is not a
  choice of the row's column is written by no caller of the engine and leaves the row alone here.
\<close>

section \<open>The statuses\<close>

definition payroll_status_of :: "subject_status \<Rightarrow> payroll_run_status option" where
  "payroll_status_of s =
     (case s of SUBJECT_APPROVED \<Rightarrow> Some PR_APPROVED | SUBJECT_REJECTED \<Rightarrow> Some PR_REJECTED
      | SUBJECT_CANCELLED \<Rightarrow> Some PR_CANCELLED | SUBJECT_WITHDRAWN \<Rightarrow> None)"

definition template_status_of :: "subject_status \<Rightarrow> compensation_template_status option" where
  "template_status_of s =
     (case s of SUBJECT_APPROVED \<Rightarrow> Some CT_APPROVED | SUBJECT_REJECTED \<Rightarrow> Some CT_REJECTED | _ \<Rightarrow> None)"

definition assignment_status_of :: "subject_status \<Rightarrow> compensation_assignment_status option" where
  "assignment_status_of s =
     (case s of SUBJECT_APPROVED \<Rightarrow> Some CA_APPROVED | SUBJECT_REJECTED \<Rightarrow> Some CA_REJECTED | _ \<Rightarrow> None)"

definition claim_status_of :: "subject_status \<Rightarrow> expense_claim_status option" where
  "claim_status_of s =
     (case s of SUBJECT_APPROVED \<Rightarrow> Some EC_APPROVED | SUBJECT_REJECTED \<Rightarrow> Some EC_REJECTED
      | SUBJECT_CANCELLED \<Rightarrow> Some EC_CANCELLED | SUBJECT_WITHDRAWN \<Rightarrow> None)"

definition leave_status_of :: "subject_status \<Rightarrow> leave_request_status" where
  "leave_status_of s =
     (case s of SUBJECT_APPROVED \<Rightarrow> LR_APPROVED | SUBJECT_REJECTED \<Rightarrow> LR_REJECTED
      | SUBJECT_CANCELLED \<Rightarrow> LR_CANCELLED | SUBJECT_WITHDRAWN \<Rightarrow> LR_WITHDRAWN)"

definition on_duty_status_of :: "subject_status \<Rightarrow> on_duty_request_status" where
  "on_duty_status_of s =
     (case s of SUBJECT_APPROVED \<Rightarrow> OD_APPROVED | SUBJECT_REJECTED \<Rightarrow> OD_REJECTED
      | SUBJECT_CANCELLED \<Rightarrow> OD_CANCELLED | SUBJECT_WITHDRAWN \<Rightarrow> OD_WITHDRAWN)"

definition encashment_status_of :: "subject_status \<Rightarrow> leave_encashment_status option" where
  "encashment_status_of s =
     (case s of SUBJECT_APPROVED \<Rightarrow> Some EN_APPROVED | SUBJECT_REJECTED \<Rightarrow> Some EN_REJECTED
      | SUBJECT_CANCELLED \<Rightarrow> Some EN_CANCELLED | SUBJECT_WITHDRAWN \<Rightarrow> None)"

section \<open>The operations\<close>

definition hr_exists :: "subject_ref \<Rightarrow> hr_db \<Rightarrow> bool" where
  "hr_exists ref db =
     (case ref of (model, i) \<Rightarrow>
        if model = ''PayrollRun'' then list_ex (\<lambda>r. pr_id r = i) (pd_runs (hr_payroll db))
        else if model = ''CompensationTemplate'' then list_ex (\<lambda>r. ct_id r = i) (pd_templates (hr_payroll db))
        else if model = ''CompensationAssignment'' then list_ex (\<lambda>r. ca_id r = i) (pd_assignments (hr_payroll db))
        else if model = ''ExpenseClaim'' then list_ex (\<lambda>r. xm_id r = i) (xd_claims (hr_expenses db))
        else if model = ''LeaveRequest'' then list_ex (\<lambda>r. lr_id r = i) (td_leave_requests (hr_timeoff db))
        else if model = ''OnDutyRequest'' then list_ex (\<lambda>r. or_id r = i) (td_on_duty_requests (hr_timeoff db))
        else if model = ''LeaveEncashmentRequest'' then list_ex (\<lambda>r. en_id r = i) (td_encashments (hr_timeoff db))
        else False)"

definition on_payroll :: "(payroll_db \<Rightarrow> payroll_db) \<Rightarrow> hr_db \<Rightarrow> hr_db" where
  "on_payroll f db = db\<lparr>hr_payroll := f (hr_payroll db)\<rparr>"

definition on_timeoff :: "(timeoff_db \<Rightarrow> timeoff_db) \<Rightarrow> hr_db \<Rightarrow> hr_db" where
  "on_timeoff f db = db\<lparr>hr_timeoff := f (hr_timeoff db)\<rparr>"

definition on_claim :: "uid \<Rightarrow> (expense_claim \<Rightarrow> expense_claim) \<Rightarrow> hr_db \<Rightarrow> hr_db" where
  "on_claim i f db =
     db\<lparr>hr_expenses := (hr_expenses db)\<lparr>xd_claims := update_where (\<lambda>c. xm_id c = i) f (xd_claims (hr_expenses db))\<rparr>\<rparr>"

text \<open>A reason is written only when there is one.\<close>

definition reason_or :: "string \<Rightarrow> string \<Rightarrow> string" where
  "reason_or reason old = (if reason = [] then old else reason)"

definition hr_set_status :: "subject_ref \<Rightarrow> subject_status \<Rightarrow> string \<Rightarrow> hr_db \<Rightarrow> hr_db" where
  "hr_set_status ref s reason db =
     (case ref of (model, i) \<Rightarrow>
        if model = ''PayrollRun'' then
          on_payroll (\<lambda>p. p\<lparr>pd_runs := update_where (\<lambda>r. pr_id r = i)
            (\<lambda>r. r\<lparr>pr_status := or_else (payroll_status_of s) (pr_status r)\<rparr>) (pd_runs p)\<rparr>) db
        else if model = ''CompensationTemplate'' then
          on_payroll (\<lambda>p. p\<lparr>pd_templates := update_where (\<lambda>r. ct_id r = i)
            (\<lambda>r. r\<lparr>ct_status := or_else (template_status_of s) (ct_status r)\<rparr>) (pd_templates p)\<rparr>) db
        else if model = ''CompensationAssignment'' then
          on_payroll (\<lambda>p. p\<lparr>pd_assignments := update_where (\<lambda>r. ca_id r = i)
            (\<lambda>r. r\<lparr>ca_status := or_else (assignment_status_of s) (ca_status r)\<rparr>) (pd_assignments p)\<rparr>) db
        else if model = ''ExpenseClaim'' then
          on_claim i (\<lambda>c. c\<lparr>xm_status := or_else (claim_status_of s) (xm_status c),
            xm_rejection_reason := reason_or reason (xm_rejection_reason c)\<rparr>) db
        else if model = ''LeaveRequest'' then
          on_timeoff (\<lambda>t. t\<lparr>td_leave_requests := update_where (\<lambda>r. lr_id r = i)
            (\<lambda>r. r\<lparr>lr_status := leave_status_of s, lr_rejection_reason := reason_or reason (lr_rejection_reason r)\<rparr>)
            (td_leave_requests t)\<rparr>) db
        else if model = ''OnDutyRequest'' then
          on_timeoff (\<lambda>t. t\<lparr>td_on_duty_requests := update_where (\<lambda>r. or_id r = i)
            (\<lambda>r. r\<lparr>or_status := on_duty_status_of s, or_rejection_reason := reason_or reason (or_rejection_reason r)\<rparr>)
            (td_on_duty_requests t)\<rparr>) db
        else if model = ''LeaveEncashmentRequest'' then
          on_timeoff (\<lambda>t. t\<lparr>td_encashments := update_where (\<lambda>r. en_id r = i)
            (\<lambda>r. r\<lparr>en_status := or_else (encashment_status_of s) (en_status r),
                   en_rejection_reason := reason_or reason (en_rejection_reason r)\<rparr>) (td_encashments t)\<rparr>) db
        else db)"

definition hr_handle :: "clock \<Rightarrow> subject_ref \<Rightarrow> subject_status \<Rightarrow> string \<Rightarrow> hr_db \<Rightarrow> hr_db res" where
  "hr_handle ck ref s reason db =
     (case ref of (model, i) \<Rightarrow>
        if model = ''ExpenseClaim'' then Inr (on_claim i (handle_claim_status_change (ck_now ck) s reason) db)
        else if model = ''LeaveRequest'' then
          (case first_row (\<lambda>r. lr_id r = i) (td_leave_requests (hr_timeoff db)) of
             None \<Rightarrow> Inr db
           | Some r \<Rightarrow> Inr (on_timeoff (sync_comp_off_redemptions_for_leave_request r (leave_status_of s)) db))
        else if model = ''LeaveEncashmentRequest'' \<and> s = SUBJECT_APPROVED then
          (case first_row (\<lambda>r. en_id r = i) (td_encashments (hr_timeoff db)) of
             None \<Rightarrow> Inr db
           | Some r \<Rightarrow> bind_res (finalize_leave_encashment (ck_today ck) r (hr_timeoff db))
                        (\<lambda>t. Inr (on_timeoff (\<lambda>_. t) db)))
        else Inr db)"

definition hr_ops :: "clock \<Rightarrow> hr_db subject_ops" where
  "hr_ops ck = \<lparr>so_exists = hr_exists, so_set_status = hr_set_status, so_handle = hr_handle ck\<rparr>"

section \<open>What a decision does to the rows\<close>

lemma on_frames [simp]:
  "hr_payroll (on_timeoff f db) = hr_payroll db" "hr_expenses (on_timeoff f db) = hr_expenses db"
  "hr_timeoff (on_timeoff f db) = f (hr_timeoff db)"
  "hr_payroll (on_payroll g db) = g (hr_payroll db)" "hr_expenses (on_payroll g db) = hr_expenses db"
  "hr_timeoff (on_payroll g db) = hr_timeoff db"
  "hr_payroll (on_claim i h db) = hr_payroll db" "hr_timeoff (on_claim i h db) = hr_timeoff db"
  "xd_claims (hr_expenses (on_claim i h db)) = update_where (\<lambda>c. xm_id c = i) h (xd_claims (hr_expenses db))"
  by (simp_all add: on_timeoff_def on_payroll_def on_claim_def)

text \<open>A decision on a subject as one function.\<close>

definition decide_subject :: "clock \<Rightarrow> subject_ref \<Rightarrow> subject_status \<Rightarrow> string \<Rightarrow> hr_db \<Rightarrow> hr_db res" where
  "decide_subject ck ref s reason db =
     (if \<not> hr_exists ref db then Inr db else hr_handle ck ref s reason (hr_set_status ref s reason db))"

lemma apply_subject_status_hr:
  "apply_subject_status (hr_ops ck) run s reason st =
     bind_res (decide_subject ck (rn_subject run) s reason (ap_subjects st)) (\<lambda>d. Inr (st\<lparr>ap_subjects := d\<rparr>))"
  by (simp add: apply_subject_status_def decide_subject_def hr_ops_def)

definition decided_run :: "subject_status \<Rightarrow> payroll_run \<Rightarrow> payroll_run" where
  "decided_run s r = r\<lparr>pr_status := or_else (payroll_status_of s) (pr_status r)\<rparr>"

definition decided_claim :: "instant \<Rightarrow> subject_status \<Rightarrow> string \<Rightarrow> expense_claim \<Rightarrow> expense_claim" where
  "decided_claim now s reason c =
     handle_claim_status_change now s reason
       (c\<lparr>xm_status := or_else (claim_status_of s) (xm_status c), xm_rejection_reason := reason_or reason (xm_rejection_reason c)\<rparr>)"

lemma update_where_absent: "\<not> list_ex P t \<Longrightarrow> update_where P f t = t"
  by (auto simp: list_ex_iff intro: update_where_none)

lemma update_where_twice:
  "(\<And>x. P (f x) = P x) \<Longrightarrow> update_where P g (update_where P f t) = update_where P (\<lambda>x. g (f x)) t"
  by (simp add: update_where_def)

text \<open>A decision writes the pay run or the claim it is about, and no other pay run or claim.\<close>

lemma decide_runs:
  assumes "decide_subject ck ref s reason db = Inr d"
  shows "pd_runs (hr_payroll d) =
    (if fst ref = ''PayrollRun'' then update_where (\<lambda>r. pr_id r = snd ref) (decided_run s) (pd_runs (hr_payroll db))
     else pd_runs (hr_payroll db))"
  using assms
  by (cases ref) (auto simp: decide_subject_def hr_exists_def hr_set_status_def hr_handle_def decided_run_def [abs_def]
      update_where_absent split: if_splits option.splits)

lemma decide_claims:
  assumes "decide_subject ck ref s reason db = Inr d"
  shows "xd_claims (hr_expenses d) =
    (if fst ref = ''ExpenseClaim'' then update_where (\<lambda>c. xm_id c = snd ref) (decided_claim (ck_now ck) s reason) (xd_claims (hr_expenses db))
     else xd_claims (hr_expenses db))"
  using assms
  by (cases ref) (auto simp: decide_subject_def hr_exists_def hr_set_status_def hr_handle_def decided_claim_def [abs_def]
      update_where_absent update_where_twice split: if_splits option.splits)

end
