(* ===== verification/Desk.thy ===== *)
theory Desk
  imports HrSubjects
begin

text \<open>
  An abstract specification of the life of pay runs, expense claims and leave requests under
  approval. A desk knows the status of each pay run and claim with the approval run it points to,
  each leave request, and the approval runs that are still pending with the rows they are about. It
  moves by the events below; its invariant ties pending approvals to rows that wait for them. The
  refinement from the operations of the services is proved in \<open>DeskRefinement\<close>.
\<close>

section \<open>The desk\<close>

record desk =
  dk_runs :: "uid \<Rightarrow> (payroll_run_status \<times> uid option) option"
  dk_claims :: "uid \<Rightarrow> (expense_claim_status \<times> expense_reimbursement_status \<times> uid option) option"
  dk_leaves :: "uid \<Rightarrow> leave_request option"
  dk_pending :: "(uid \<times> subject_ref) set"
  dk_next :: uid

definition tracked :: "string set" where
  "tracked = {''PayrollRun'', ''ExpenseClaim'', ''LeaveRequest''}"

definition active_request :: "leave_request \<Rightarrow> bool" where
  "active_request r \<longleftrightarrow> lr_status r \<in> {LR_PENDING, LR_APPROVED}"

text \<open>Two requests of one employee that cannot both stand.\<close>

definition clash :: "leave_request \<Rightarrow> leave_request \<Rightarrow> bool" where
  "clash a b \<longleftrightarrow> lr_employee a = lr_employee b \<and> active_request a \<and> active_request b \<and>
     lr_start_date a \<le> lr_end_date b \<and> lr_start_date b \<le> lr_end_date a \<and>
     leave_requests_overlap a (lr_start_date b) (lr_end_date b) (lr_start_session b) (lr_end_session b)"

lemma clash_sym: "clash a b \<Longrightarrow> clash b a"
  by (auto simp: clash_def leave_requests_overlap_def half_session_of_def Let_def get_single_day_half_session_def
      split: if_splits)

text \<open>A decision on the row a run is about.\<close>

definition reimbursement_after :: "subject_status \<Rightarrow> expense_reimbursement_status \<Rightarrow> expense_reimbursement_status" where
  "reimbursement_after s r = (case s of SUBJECT_APPROVED \<Rightarrow> RB_PENDING_PAYROLL | SUBJECT_WITHDRAWN \<Rightarrow> r | _ \<Rightarrow> RB_NOT_READY)"

definition decide_row :: "subject_ref \<Rightarrow> subject_status \<Rightarrow> desk \<Rightarrow> desk" where
  "decide_row ref s d =
     (case ref of (k, i) \<Rightarrow>
        if k = ''PayrollRun'' then
          d\<lparr>dk_runs := (dk_runs d)(i := map_option (\<lambda>(q, l). (or_else (payroll_status_of s) q, l)) (dk_runs d i))\<rparr>
        else if k = ''ExpenseClaim'' then
          d\<lparr>dk_claims := (dk_claims d)(i := map_option (\<lambda>(q, r, l). (or_else (claim_status_of s) q, reimbursement_after s r, l))
               (dk_claims d i))\<rparr>
        else if k = ''LeaveRequest'' then
          d\<lparr>dk_leaves := (dk_leaves d)(i := map_option (\<lambda>r. r\<lparr>lr_status := leave_status_of s\<rparr>) (dk_leaves d i))\<rparr>
        else d)"

definition no_pending :: "desk \<Rightarrow> subject_ref \<Rightarrow> bool" where
  "no_pending d ref \<longleftrightarrow> (\<forall>a. (a, ref) \<notin> dk_pending d)"

definition reimbursement_moves :: "(expense_reimbursement_status \<times> expense_reimbursement_status) set" where
  "reimbursement_moves =
     {(RB_PENDING_PAYROLL, RB_INCLUDED_IN_PAYROLL), (RB_INCLUDED_IN_PAYROLL, RB_PENDING_PAYROLL), (RB_INCLUDED_IN_PAYROLL, RB_PAID)}"

inductive desk_step :: "desk \<Rightarrow> desk \<Rightarrow> bool" where
  ids: "dk_next d \<le> n \<Longrightarrow> desk_step d (d\<lparr>dk_next := n\<rparr>)"
| new_run: "dk_next d \<le> i \<Longrightarrow> i < n \<Longrightarrow>
    desk_step d (d\<lparr>dk_runs := (dk_runs d)(i := Some (PR_DRAFT, None)), dk_next := n\<rparr>)"
| calculated: "dk_runs d i = Some (s, l) \<Longrightarrow> s \<notin> {PR_APPROVED, PR_FINALIZED} \<Longrightarrow> no_pending d (pay_run_ref i) \<Longrightarrow>
    desk_step d (d\<lparr>dk_runs := (dk_runs d)(i := Some (PR_CALCULATED, l'))\<rparr>)"
| submitted: "dk_runs d i = Some (PR_CALCULATED, l) \<Longrightarrow> dk_next d \<le> a \<Longrightarrow> a < n \<Longrightarrow>
    desk_step d (d\<lparr>dk_runs := (dk_runs d)(i := Some (PR_APPROVAL_PENDING, Some a)),
      dk_pending := insert (a, pay_run_ref i) (dk_pending d), dk_next := n\<rparr>)"
| finalized: "dk_runs d i = Some (s, l) \<Longrightarrow> s \<in> {PR_APPROVED, PR_CALCULATED} \<Longrightarrow>
    desk_step d (d\<lparr>dk_runs := (dk_runs d)(i := Some (PR_FINALIZED, l))\<rparr>)"
| new_claim: "dk_next d \<le> i \<Longrightarrow> i < n \<Longrightarrow>
    desk_step d (d\<lparr>dk_claims := (dk_claims d)(i := Some (EC_DRAFT, RB_NOT_READY, None)), dk_next := n\<rparr>)"
| submitted_claim: "dk_claims d i = Some (s, r, l) \<Longrightarrow> s \<in> {EC_DRAFT, EC_REJECTED} \<Longrightarrow> dk_next d \<le> a \<Longrightarrow> a < n \<Longrightarrow>
    desk_step d (d\<lparr>dk_claims := (dk_claims d)(i := Some (EC_SUBMITTED, RB_NOT_READY, Some a)),
      dk_pending := insert (a, claim_ref i) (dk_pending d), dk_next := n\<rparr>)"
| cancelled_claim: "dk_claims d i = Some (s, r, l) \<Longrightarrow> s \<in> {EC_DRAFT, EC_REJECTED} \<Longrightarrow>
    desk_step d (d\<lparr>dk_claims := (dk_claims d)(i := Some (EC_CANCELLED, r, l))\<rparr>)"
| reimbursed: "dk_claims d i = Some (s, r, l) \<Longrightarrow> (r, r') \<in> reimbursement_moves \<Longrightarrow>
    desk_step d (d\<lparr>dk_claims := (dk_claims d)(i := Some (s, r', l))\<rparr>)"
| new_leave: "dk_next d \<le> i \<Longrightarrow> i < n \<Longrightarrow> lr_id row = i \<Longrightarrow> lr_status row = LR_PENDING \<Longrightarrow>
    (\<And>j x. dk_leaves d j = Some x \<Longrightarrow> \<not> clash x row) \<Longrightarrow>
    desk_step d (d\<lparr>dk_leaves := (dk_leaves d)(i := Some row), dk_next := n\<rparr>)"
| opened_leave: "dk_leaves d i = Some row \<Longrightarrow> lr_status row = LR_PENDING \<Longrightarrow> no_pending d (leave_ref i) \<Longrightarrow>
    dk_next d \<le> a \<Longrightarrow> a < n \<Longrightarrow>
    desk_step d (d\<lparr>dk_pending := insert (a, leave_ref i) (dk_pending d), dk_next := n\<rparr>)"
| withdrawn: "dk_leaves d i = Some row \<Longrightarrow> active_request row \<Longrightarrow>
    desk_step d (d\<lparr>dk_leaves := (dk_leaves d)(i := Some (row\<lparr>lr_status := LR_WITHDRAWN\<rparr>)),
      dk_pending := {x \<in> dk_pending d. snd x \<noteq> leave_ref i}\<rparr>)"
| opened_other: "fst ref \<notin> tracked \<Longrightarrow> dk_next d \<le> a \<Longrightarrow> a < n \<Longrightarrow>
    desk_step d (d\<lparr>dk_pending := insert (a, ref) (dk_pending d), dk_next := n\<rparr>)"
| decided: "(a, ref) \<in> dk_pending d \<Longrightarrow>
    desk_step d (decide_row ref s (d\<lparr>dk_pending := dk_pending d - {(a, ref)}\<rparr>))"
| dropped: "(a, ref) \<in> dk_pending d \<Longrightarrow> desk_step d (d\<lparr>dk_pending := dk_pending d - {(a, ref)}\<rparr>)"

section \<open>Its invariant\<close>

text \<open>Rows wait for the pending runs about them.\<close>

definition rows_wait :: "desk \<Rightarrow> bool" where
  "rows_wait d \<longleftrightarrow>
     (\<forall>a i. (a, pay_run_ref i) \<in> dk_pending d \<longrightarrow> dk_runs d i = Some (PR_APPROVAL_PENDING, Some a)) \<and>
     (\<forall>a i. (a, claim_ref i) \<in> dk_pending d \<longrightarrow> dk_claims d i = Some (EC_SUBMITTED, RB_NOT_READY, Some a)) \<and>
     (\<forall>a i. (a, leave_ref i) \<in> dk_pending d \<longrightarrow> (\<exists>r. dk_leaves d i = Some r \<and> lr_status r = LR_PENDING)) \<and>
     (\<forall>a b i. (a, leave_ref i) \<in> dk_pending d \<and> (b, leave_ref i) \<in> dk_pending d \<longrightarrow> a = b)"

definition ids_drawn :: "desk \<Rightarrow> bool" where
  "ids_drawn d \<longleftrightarrow> (\<forall>i. dk_next d \<le> i \<longrightarrow> dk_runs d i = None \<and> dk_claims d i = None \<and> dk_leaves d i = None)"

definition claims_earned :: "desk \<Rightarrow> bool" where
  "claims_earned d \<longleftrightarrow> (\<forall>i s r l. dk_claims d i = Some (s, r, l) \<longrightarrow> r \<noteq> RB_NOT_READY \<longrightarrow> s = EC_APPROVED)"

definition no_double_booking :: "desk \<Rightarrow> bool" where
  "no_double_booking d \<longleftrightarrow> (\<forall>i j x y. i \<noteq> j \<and> dk_leaves d i = Some x \<and> dk_leaves d j = Some y \<longrightarrow> \<not> clash x y)"

definition desk_inv :: "desk \<Rightarrow> bool" where
  "desk_inv d \<longleftrightarrow> rows_wait d \<and> ids_drawn d \<and> claims_earned d \<and> no_double_booking d"

lemma rows_waitD:
  assumes "rows_wait d"
  shows "(a, pay_run_ref i) \<in> dk_pending d \<Longrightarrow> dk_runs d i = Some (PR_APPROVAL_PENDING, Some a)"
    "(a, claim_ref i) \<in> dk_pending d \<Longrightarrow> dk_claims d i = Some (EC_SUBMITTED, RB_NOT_READY, Some a)"
    "(a, leave_ref i) \<in> dk_pending d \<Longrightarrow> \<exists>r. dk_leaves d i = Some r \<and> lr_status r = LR_PENDING"
    "(a, leave_ref i) \<in> dk_pending d \<Longrightarrow> (b, leave_ref i) \<in> dk_pending d \<Longrightarrow> a = b"
  using assms unfolding rows_wait_def by blast+

lemma rows_waitI:
  assumes "\<And>a i. (a, pay_run_ref i) \<in> dk_pending d \<Longrightarrow> dk_runs d i = Some (PR_APPROVAL_PENDING, Some a)"
    "\<And>a i. (a, claim_ref i) \<in> dk_pending d \<Longrightarrow> dk_claims d i = Some (EC_SUBMITTED, RB_NOT_READY, Some a)"
    "\<And>a i. (a, leave_ref i) \<in> dk_pending d \<Longrightarrow> \<exists>r. dk_leaves d i = Some r \<and> lr_status r = LR_PENDING"
    "\<And>a b i. (a, leave_ref i) \<in> dk_pending d \<Longrightarrow> (b, leave_ref i) \<in> dk_pending d \<Longrightarrow> a = b"
  shows "rows_wait d"
  using assms unfolding rows_wait_def by blast

lemmas ref_defs = pay_run_ref_def claim_ref_def leave_ref_def

lemma ref_simps [simp]:
  "pay_run_ref i = pay_run_ref j \<longleftrightarrow> i = j" "claim_ref i = claim_ref j \<longleftrightarrow> i = j" "leave_ref i = leave_ref j \<longleftrightarrow> i = j"
  "pay_run_ref i \<noteq> claim_ref j" "claim_ref j \<noteq> pay_run_ref i" "pay_run_ref i \<noteq> leave_ref j" "leave_ref j \<noteq> pay_run_ref i"
  "claim_ref i \<noteq> leave_ref j" "leave_ref j \<noteq> claim_ref i"
  by (simp_all add: ref_defs)

lemma untracked_refs:
  assumes "fst ref \<notin> tracked"
  shows "ref \<noteq> pay_run_ref i" "ref \<noteq> claim_ref i" "ref \<noteq> leave_ref i"
  using assms by (auto simp: tracked_def ref_defs)

lemma clash_inactive: "\<not> active_request y \<Longrightarrow> \<not> clash x y" "\<not> active_request y \<Longrightarrow> \<not> clash y x"
  by (simp_all add: clash_def)

lemma clash_restatus:
  assumes "active_request r" "clash x (r\<lparr>lr_status := s\<rparr>)"
  shows "clash x r"
  using assms by (simp add: clash_def)

lemma clash_restatus':
  assumes "active_request r" "clash (r\<lparr>lr_status := s\<rparr>) x"
  shows "clash r x"
  using assms by (simp add: clash_def leave_requests_overlap_def half_session_of_def)

lemma booksD: "no_double_booking d \<Longrightarrow> i \<noteq> j \<Longrightarrow> dk_leaves d i = Some x \<Longrightarrow> dk_leaves d j = Some y \<Longrightarrow> \<not> clash x y"
  unfolding no_double_booking_def by blast

lemma booksI:
  assumes "\<And>i j x y. i \<noteq> j \<Longrightarrow> dk_leaves d i = Some x \<Longrightarrow> dk_leaves d j = Some y \<Longrightarrow> \<not> clash x y"
  shows "no_double_booking d"
  using assms unfolding no_double_booking_def by blast

text \<open>A row put at a key clashes with nothing when it clashes with no other row.\<close>

lemma put_books:
  assumes "no_double_booking d" "\<And>j x. j \<noteq> i \<Longrightarrow> dk_leaves d j = Some x \<Longrightarrow> \<not> clash x row"
    "dk_leaves d' = (dk_leaves d)(i := Some row)"
  shows "no_double_booking d'"
proof (rule booksI)
  fix k j x y
  assume "k \<noteq> j" "dk_leaves d' k = Some x" "dk_leaves d' j = Some y"
  then show "\<not> clash x y"
    using assms booksD [OF assms(1), of k j x y] clash_sym [of x y] by (cases "k = i"; cases "j = i"; simp; metis)
qed

text \<open>A new status of an active request makes no new clash.\<close>

lemma restatus_books:
  assumes "no_double_booking d" "dk_leaves d i = Some r" "active_request r"
    "dk_leaves d' = (dk_leaves d)(i := Some (r\<lparr>lr_status := s\<rparr>))"
  shows "no_double_booking d'"
  by (rule put_books [OF assms(1) _ assms(4)]) (use booksD [OF assms(1) _ _ assms(2)] clash_restatus [OF assms(3)] in blast)

lemma books_frame: "no_double_booking d \<Longrightarrow> dk_leaves d' = dk_leaves d \<Longrightarrow> no_double_booking d'"
  by (simp add: no_double_booking_def)

lemma decide_row_frames:
  "dk_pending (decide_row ref s d) = dk_pending d" "dk_next (decide_row ref s d) = dk_next d"
  "dk_runs (decide_row (pay_run_ref i) s d) =
     (dk_runs d)(i := map_option (\<lambda>(q, l). (or_else (payroll_status_of s) q, l)) (dk_runs d i))"
  "dk_claims (decide_row (claim_ref i) s d) =
     (dk_claims d)(i := map_option (\<lambda>(q, r, l). (or_else (claim_status_of s) q, reimbursement_after s r, l)) (dk_claims d i))"
  "dk_leaves (decide_row (leave_ref i) s d) =
     (dk_leaves d)(i := map_option (\<lambda>r. r\<lparr>lr_status := leave_status_of s\<rparr>) (dk_leaves d i))"
  "fst ref \<noteq> ''PayrollRun'' \<Longrightarrow> dk_runs (decide_row ref s d) = dk_runs d"
  "fst ref \<noteq> ''ExpenseClaim'' \<Longrightarrow> dk_claims (decide_row ref s d) = dk_claims d"
  "fst ref \<noteq> ''LeaveRequest'' \<Longrightarrow> dk_leaves (decide_row ref s d) = dk_leaves d"
  by (cases ref; simp add: decide_row_def ref_defs)+

text \<open>The row a decision is about, by the kind of its reference.\<close>

lemma ref_cases:
  obtains (run) i where "ref = pay_run_ref i" | (claim) i where "ref = claim_ref i" | (leave) i where "ref = leave_ref i"
    | (other) "fst ref \<notin> tracked"
  by (cases ref) (auto simp: ref_defs tracked_def)

lemma ref_kinds [simp]:
  "fst (pay_run_ref i) = ''PayrollRun''" "fst (claim_ref i) = ''ExpenseClaim''" "fst (leave_ref i) = ''LeaveRequest''"
  by (simp_all add: ref_defs)

lemma decide_other: "fst ref \<notin> tracked \<Longrightarrow> decide_row ref s d = d"
  by (cases ref) (simp add: decide_row_def tracked_def)

section \<open>Every event keeps it\<close>

lemma desk_step_ids: "desk_step d d' \<Longrightarrow> ids_drawn d \<Longrightarrow> ids_drawn d' \<and> dk_next d \<le> dk_next d'"
proof (induction rule: desk_step.induct)
  case (decided a ref d s)
  then show ?case by (cases ref rule: ref_cases) (auto simp: ids_drawn_def decide_row_frames decide_other)
qed (fastforce simp: ids_drawn_def)+

lemma desk_step_books:
  assumes "desk_step d d'" "rows_wait d" "no_double_booking d"
  shows "no_double_booking d'"
  using assms
proof (induction rule: desk_step.induct)
  case (new_leave d i n row)
  then show ?case by (intro put_books [OF new_leave.prems(2)]) auto
next
  case (withdrawn d i row)
  then show ?case by (intro restatus_books [OF withdrawn.prems(2) withdrawn.hyps]) simp
next
  case (decided a ref d s)
  show ?case
  proof (cases ref rule: ref_cases)
    case (leave i)
    with decided obtain r where r: "dk_leaves d i = Some r" "lr_status r = LR_PENDING"
      using rows_waitD(3) by blast
    show ?thesis
      by (rule restatus_books [OF decided.prems(2) r(1), where s = "leave_status_of s"])
        (simp_all add: leave decide_row_frames r active_request_def)
  qed (use decided in \<open>auto intro: books_frame simp: decide_row_frames decide_other\<close>)
qed (auto intro: books_frame)

lemma desk_step_claims:
  assumes "desk_step d d'" "rows_wait d" "claims_earned d"
  shows "claims_earned d'"
  using assms
proof (induction rule: desk_step.induct)
  case (reimbursed d i s r l r')
  then have "s = EC_APPROVED" by (auto simp: claims_earned_def reimbursement_moves_def)
  with reimbursed show ?case by (auto simp: claims_earned_def)
next
  case (cancelled_claim d i s r l)
  then have "r = RB_NOT_READY" by (auto simp: claims_earned_def)
  with cancelled_claim show ?case by (auto simp: claims_earned_def)
next
  case (decided a ref d s)
  show ?case
  proof (cases ref rule: ref_cases)
    case (claim i)
    with decided have "dk_claims d i = Some (EC_SUBMITTED, RB_NOT_READY, Some a)" by (auto simp: rows_wait_def)
    with decided claim show ?thesis
      by (cases s) (auto simp: claims_earned_def decide_row_frames reimbursement_after_def claim_status_of_def)
  qed (use decided in \<open>auto simp: claims_earned_def decide_row_frames decide_other\<close>)
qed (auto simp: claims_earned_def)

lemma one_pending:
  assumes "rows_wait d" "(a, ref) \<in> dk_pending d" "(b, ref) \<in> dk_pending d" "fst ref \<in> tracked"
  shows "a = b"
proof (cases ref rule: ref_cases)
  case (run i)
  then show ?thesis using rows_waitD(1) [OF assms(1), of a i] rows_waitD(1) [OF assms(1), of b i] assms(2,3) by simp
next
  case (claim i)
  then show ?thesis using rows_waitD(2) [OF assms(1), of a i] rows_waitD(2) [OF assms(1), of b i] assms(2,3) by simp
next
  case (leave i)
  then show ?thesis using rows_waitD(4) [OF assms(1)] assms(2,3) by blast
qed (use assms(4) in blast)

lemma tracked_refs [simp]: "fst (pay_run_ref i) \<in> tracked" "fst (claim_ref i) \<in> tracked" "fst (leave_ref i) \<in> tracked"
    "''PayrollRun'' \<in> tracked" "''ExpenseClaim'' \<in> tracked" "''LeaveRequest'' \<in> tracked"
  by (simp_all add: tracked_def)

lemma desk_step_waits:
  assumes "desk_step d d'" "rows_wait d" "ids_drawn d"
  shows "rows_wait d'"
  using assms
proof (induction rule: desk_step.induct)
  case (decided a ref d s)
  show ?case
  proof (rule rows_waitI)
    fix b i assume "(b, pay_run_ref i) \<in> dk_pending (decide_row ref s (d\<lparr>dk_pending := dk_pending d - {(a, ref)}\<rparr>))"
    then have b: "(b, pay_run_ref i) \<in> dk_pending d" "(b, pay_run_ref i) \<noteq> (a, ref)" by (simp_all add: decide_row_frames)
    have "ref \<noteq> pay_run_ref i" using b decided.hyps one_pending [OF decided.prems(1) b(1), of a] by auto
    then show "dk_runs (decide_row ref s (d\<lparr>dk_pending := dk_pending d - {(a, ref)}\<rparr>)) i = Some (PR_APPROVAL_PENDING, Some b)"
      using rows_waitD(1) [OF decided.prems(1) b(1)] by (cases ref rule: ref_cases) (auto simp: decide_row_frames decide_other)
  next
    fix b i assume "(b, claim_ref i) \<in> dk_pending (decide_row ref s (d\<lparr>dk_pending := dk_pending d - {(a, ref)}\<rparr>))"
    then have b: "(b, claim_ref i) \<in> dk_pending d" "(b, claim_ref i) \<noteq> (a, ref)" by (simp_all add: decide_row_frames)
    have "ref \<noteq> claim_ref i" using b decided.hyps one_pending [OF decided.prems(1) b(1), of a] by auto
    then show "dk_claims (decide_row ref s (d\<lparr>dk_pending := dk_pending d - {(a, ref)}\<rparr>)) i =
        Some (EC_SUBMITTED, RB_NOT_READY, Some b)"
      using rows_waitD(2) [OF decided.prems(1) b(1)] by (cases ref rule: ref_cases) (auto simp: decide_row_frames decide_other)
  next
    fix b i assume "(b, leave_ref i) \<in> dk_pending (decide_row ref s (d\<lparr>dk_pending := dk_pending d - {(a, ref)}\<rparr>))"
    then have b: "(b, leave_ref i) \<in> dk_pending d" "(b, leave_ref i) \<noteq> (a, ref)" by (simp_all add: decide_row_frames)
    have "ref \<noteq> leave_ref i" using b decided.hyps one_pending [OF decided.prems(1) b(1), of a] by auto
    then show "\<exists>r. dk_leaves (decide_row ref s (d\<lparr>dk_pending := dk_pending d - {(a, ref)}\<rparr>)) i = Some r \<and> lr_status r = LR_PENDING"
      using rows_waitD(3) [OF decided.prems(1) b(1)] by (cases ref rule: ref_cases) (auto simp: decide_row_frames decide_other)
  next
    fix b c i
    assume "(b, leave_ref i) \<in> dk_pending (decide_row ref s (d\<lparr>dk_pending := dk_pending d - {(a, ref)}\<rparr>))"
      "(c, leave_ref i) \<in> dk_pending (decide_row ref s (d\<lparr>dk_pending := dk_pending d - {(a, ref)}\<rparr>))"
    then show "b = c" using rows_waitD(4) [OF decided.prems(1), of b i c] by (simp add: decide_row_frames)
  qed
next
  case (calculated d i s l l')
  then show ?case by (intro rows_waitI) (auto simp: no_pending_def dest: rows_waitD)
next
  case (submitted d i l a n)
  have none: "(b, pay_run_ref i) \<notin> dk_pending d" for b
    using rows_waitD(1) [OF submitted.prems(1), of b i] submitted.hyps by auto
  with submitted show ?case by (intro rows_waitI) (auto dest: rows_waitD)
next
  case (submitted_claim d i s r l a n)
  have none: "(b, claim_ref i) \<notin> dk_pending d" for b
    using rows_waitD(2) [OF submitted_claim.prems(1), of b i] submitted_claim.hyps by auto
  with submitted_claim show ?case by (intro rows_waitI) (auto dest: rows_waitD)
next
  case (cancelled_claim d i s r l)
  have none: "(b, claim_ref i) \<notin> dk_pending d" for b
    using rows_waitD(2) [OF cancelled_claim.prems(1), of b i] cancelled_claim.hyps by auto
  with cancelled_claim show ?case by (intro rows_waitI) (auto dest: rows_waitD)
next
  case (finalized d i s l)
  then show ?case by (intro rows_waitI) (auto dest: rows_waitD)
next
  case (reimbursed d i s r l r')
  have none: "(b, claim_ref i) \<notin> dk_pending d" for b
    using rows_waitD(2) [OF reimbursed.prems(1), of b i] reimbursed.hyps by (auto simp: reimbursement_moves_def)
  with reimbursed show ?case by (intro rows_waitI) (auto dest: rows_waitD)
next
  case (opened_leave d i row a n)
  then show ?case by (intro rows_waitI) (auto simp: no_pending_def dest: rows_waitD)
next
  case (opened_other ref d a n)
  note other = untracked_refs [OF opened_other.hyps(1), symmetric]
  from opened_other.prems(1) show ?case by (intro rows_waitI) (auto simp: other dest: rows_waitD)
next
  case (new_run d i n)
  have "(b, pay_run_ref i) \<notin> dk_pending d" for b
    using new_run rows_waitD(1) [OF new_run.prems(1), of b i] by (auto simp: ids_drawn_def)
  with new_run.prems(1) show ?case by (intro rows_waitI) (auto dest: rows_waitD)
next
  case (new_claim d i n)
  have "(b, claim_ref i) \<notin> dk_pending d" for b
    using new_claim rows_waitD(2) [OF new_claim.prems(1), of b i] by (auto simp: ids_drawn_def)
  with new_claim.prems(1) show ?case by (intro rows_waitI) (auto dest: rows_waitD)
next
  case (new_leave d i n row)
  then show ?case by (intro rows_waitI) (auto dest: rows_waitD)
next
  case (withdrawn d i row)
  then show ?case by (intro rows_waitI) (auto dest: rows_waitD)
next
  case (dropped a ref d)
  then show ?case by (intro rows_waitI) (auto dest: rows_waitD)
next
  case (ids d n)
  then show ?case by (intro rows_waitI) (auto dest: rows_waitD)
qed

lemma desk_step_inv: "desk_step d d' \<Longrightarrow> desk_inv d \<Longrightarrow> desk_inv d'"
  unfolding desk_inv_def using desk_step_ids desk_step_books desk_step_claims desk_step_waits by blast

lemma desk_steps_inv: "desk_step\<^sup>*\<^sup>* d d' \<Longrightarrow> desk_inv d \<Longrightarrow> desk_inv d'"
  by (induction rule: rtranclp_induct) (auto intro: desk_step_inv)

section \<open>Life cycles\<close>

fun run_next :: "payroll_run_status \<Rightarrow> payroll_run_status set" where
  "run_next PR_DRAFT = {PR_CALCULATED}"
| "run_next PR_CALCULATED = {PR_CALCULATED, PR_APPROVAL_PENDING, PR_FINALIZED}"
| "run_next PR_APPROVAL_PENDING = {PR_CALCULATED, PR_APPROVED, PR_REJECTED, PR_CANCELLED}"
| "run_next PR_APPROVED = {PR_FINALIZED}"
| "run_next PR_REJECTED = {PR_CALCULATED}"
| "run_next PR_CANCELLED = {PR_CALCULATED}"
| "run_next PR_FINALIZED = {}"

text \<open>A claim's status with its reimbursement status.\<close>

inductive claim_next :: "expense_claim_status \<times> expense_reimbursement_status \<Rightarrow> expense_claim_status \<times> expense_reimbursement_status \<Rightarrow> bool" where
  submit: "s \<in> {EC_DRAFT, EC_REJECTED} \<Longrightarrow> claim_next (s, RB_NOT_READY) (EC_SUBMITTED, RB_NOT_READY)"
| cancel: "s \<in> {EC_DRAFT, EC_REJECTED} \<Longrightarrow> claim_next (s, RB_NOT_READY) (EC_CANCELLED, RB_NOT_READY)"
| approve: "claim_next (EC_SUBMITTED, RB_NOT_READY) (EC_APPROVED, RB_PENDING_PAYROLL)"
| turn_down: "s \<in> {EC_REJECTED, EC_CANCELLED} \<Longrightarrow> claim_next (EC_SUBMITTED, RB_NOT_READY) (s, RB_NOT_READY)"
| reimburse: "(r, r') \<in> reimbursement_moves \<Longrightarrow> claim_next (EC_APPROVED, r) (EC_APPROVED, r')"

inductive_cases claim_next_paidE: "claim_next (s, RB_PAID) y"

lemma desk_step_run:
  assumes "desk_step d d'" "desk_inv d" "dk_runs d i = Some (s, l)"
  shows "\<exists>s' l'. dk_runs d' i = Some (s', l') \<and> (s' = s \<or> s' \<in> run_next s)"
  using assms
proof (induction rule: desk_step.induct)
  case (decided a ref d t)
  show ?case
  proof (cases ref rule: ref_cases)
    case (run j)
    then have "(a, pay_run_ref j) \<in> dk_pending d" "rows_wait d"
      using decided by (simp_all add: desk_inv_def)
    then have "dk_runs d j = Some (PR_APPROVAL_PENDING, Some a)" using rows_waitD(1) by blast
    with decided.prems(2) run show ?thesis
      by (cases t) (auto simp: decide_row_frames payroll_status_of_def)
  qed (use decided.prems in \<open>simp_all add: decide_row_frames decide_other\<close>)
next
  case (calculated d j s' l0 l1)
  then show ?case by (cases s') auto
qed (auto simp: desk_inv_def ids_drawn_def)

lemma desk_step_claim:
  assumes "desk_step d d'" "desk_inv d" "dk_claims d i = Some (s, r, l)"
  shows "\<exists>s' r' l'. dk_claims d' i = Some (s', r', l') \<and> claim_next\<^sup>=\<^sup>= (s, r) (s', r')"
  using assms
proof (induction rule: desk_step.induct)
  case (decided a ref d t)
  show ?case
  proof (cases ref rule: ref_cases)
    case (claim j)
    then have "(a, claim_ref j) \<in> dk_pending d" "rows_wait d"
      using decided by (simp_all add: desk_inv_def)
    then have "dk_claims d j = Some (EC_SUBMITTED, RB_NOT_READY, Some a)" using rows_waitD(2) by blast
    with decided.prems(2) claim show ?thesis
      by (cases t) (auto simp: decide_row_frames claim_status_of_def reimbursement_after_def intro: claim_next.intros)
  qed (use decided.prems in \<open>simp_all add: decide_row_frames decide_other\<close>)
next
  case (reimbursed d j s0 r0 l0 r1)
  then have "s0 = EC_APPROVED" by (auto simp: desk_inv_def claims_earned_def reimbursement_moves_def)
  with reimbursed show ?case by (auto intro: claim_next.reimburse)
next
  case (submitted_claim d j s0 r0 l0 a n)
  then have "r0 = RB_NOT_READY" by (auto simp: desk_inv_def claims_earned_def)
  with submitted_claim show ?case by (auto intro: claim_next.submit)
next
  case (cancelled_claim d j s0 r0 l0)
  then have "r0 = RB_NOT_READY" by (auto simp: desk_inv_def claims_earned_def)
  with cancelled_claim show ?case by (auto intro: claim_next.cancel)
qed (auto simp: desk_inv_def ids_drawn_def)

end
