(* ===== verification/DeskRefinement.thy ===== *)
theory DeskRefinement
  imports Desk
begin

text \<open>
  The desk of a state of the services, and the parts of the refinement that every operation shares:
  what an operation leaves alone, how an approval run is opened, decided and cancelled.
\<close>

section \<open>Tables as maps\<close>

definition table :: "('r \<Rightarrow> uid) \<Rightarrow> ('r \<Rightarrow> 'v) \<Rightarrow> 'r list \<Rightarrow> uid \<Rightarrow> 'v option" where
  "table key val t = map_of (map (\<lambda>r. (key r, val r)) t)"

lemma table_update:
  assumes "\<And>r. key r = i \<Longrightarrow> key (f r) = i \<and> val (f r) = g (val r)"
  shows "table key val (update_where (\<lambda>r. key r = i) f t) = (table key val t)(i := map_option g (table key val t i))"
proof (induction t)
  case (Cons r t)
  then show ?case using assms [of r] by (auto simp: table_def fun_eq_iff)
qed (simp add: table_def fun_eq_iff)

lemma table_frame:
  assumes "\<And>r. P r \<Longrightarrow> key (f r) = key r \<and> val (f r) = val r"
  shows "table key val (update_where P f t) = table key val t"
  using assms by (induction t) (auto simp: table_def)

lemma table_append:
  "table key val t (key r) = None \<Longrightarrow> table key val (t @ [r]) = (table key val t)(key r := Some (val r))"
  unfolding table_def by (auto simp: map_of_append fun_eq_iff map_add_def split: option.split)

lemma table_first: "table key val t i = map_option val (first_row (\<lambda>r. key r = i) t)"
  by (induction t) (simp_all add: table_def)

lemma table_mem: "r \<in> set t \<Longrightarrow> table key val t (key r) \<noteq> None"
  by (induction t) (auto simp: table_def)

section \<open>The desk of a state\<close>

definition booking_of :: "leave_request \<Rightarrow> leave_request" where
  "booking_of r = r\<lparr>lr_rejection_reason := []\<rparr>"

definition run_table :: "payroll_run list \<Rightarrow> uid \<Rightarrow> (payroll_run_status \<times> uid option) option" where
  "run_table = table pr_id (\<lambda>r. (pr_status r, pr_approval_run r))"

definition claim_table ::
  "expense_claim list \<Rightarrow> uid \<Rightarrow> (expense_claim_status \<times> expense_reimbursement_status \<times> uid option) option" where
  "claim_table = table xm_id (\<lambda>c. (xm_status c, xm_reimbursement_status c, xm_approval_run c))"

definition leave_table :: "leave_request list \<Rightarrow> uid \<Rightarrow> leave_request option" where
  "leave_table = table lr_id booking_of"

definition pending_of :: "approval_run list \<Rightarrow> (uid \<times> subject_ref) set" where
  "pending_of rs = {(rn_id r, rn_subject r) | r. r \<in> set rs \<and> rn_status r = RUN_PENDING}"

definition desk_of :: "hr_state \<Rightarrow> desk" where
  "desk_of st =
     \<lparr>dk_runs = run_table (pd_runs (pay st)), dk_claims = claim_table (xd_claims (expenses st)),
      dk_leaves = leave_table (td_leave_requests (timeoff st)), dk_pending = pending_of (ap_runs st),
      dk_next = ap_next_id st\<rparr>"

lemma desk_of_simps [simp]:
  "dk_runs (desk_of st) = run_table (pd_runs (pay st))" "dk_claims (desk_of st) = claim_table (xd_claims (expenses st))"
  "dk_leaves (desk_of st) = leave_table (td_leave_requests (timeoff st))" "dk_pending (desk_of st) = pending_of (ap_runs st)"
  "dk_next (desk_of st) = ap_next_id st"
  by (simp_all add: desk_of_def)

lemma desk_eqI:
  assumes "dk_runs d = dk_runs e" "dk_claims d = dk_claims e" "dk_leaves d = dk_leaves e" "dk_pending d = dk_pending e"
    "dk_next d = dk_next e"
  shows "(d :: desk) = e"
  using assms by simp

text \<open>A leave request has one approval run at most.\<close>

definition leave_runs_ok :: "hr_state \<Rightarrow> bool" where
  "leave_runs_ok st \<longleftrightarrow>
     (\<forall>r \<in> set (ap_runs st). \<forall>i. rn_subject r = leave_ref i \<longrightarrow> i < ap_next_id st \<and>
        (\<forall>r' \<in> set (ap_runs st). rn_subject r' = leave_ref i \<longrightarrow> rn_id r' = rn_id r))"

definition rows_ok :: "hr_state \<Rightarrow> bool" where
  "rows_ok st \<longleftrightarrow> leave_runs_ok st \<and> distinct (map xm_id (xd_claims (expenses st)))"

definition hr_inv :: "hr_state \<Rightarrow> bool" where
  "hr_inv st \<longleftrightarrow> engine_inv st \<and> rows_ok st \<and> desk_inv (desk_of st)"

definition sim :: "hr_state \<Rightarrow> hr_state \<Rightarrow> bool" where
  "sim st st' \<longleftrightarrow> (hr_inv st \<longrightarrow> hr_inv st' \<and> desk_step\<^sup>*\<^sup>* (desk_of st) (desk_of st'))"

lemma sim_refl [simp]: "sim st st"
  by (simp add: sim_def)

lemma sim_trans: "sim a b \<Longrightarrow> sim b c \<Longrightarrow> sim a c"
  unfolding sim_def by (meson rtranclp_trans)

lemma simI:
  assumes "hr_inv st \<Longrightarrow> engine_inv st'" "hr_inv st \<Longrightarrow> rows_ok st'" "hr_inv st \<Longrightarrow> desk_step\<^sup>*\<^sup>* (desk_of st) (desk_of st')"
  shows "sim st st'"
  using assms desk_steps_inv unfolding sim_def hr_inv_def by blast

lemma then_do_sim:
  assumes "sim st (fst x)" "\<And>a d. x = (d, Inr a) \<Longrightarrow> sim d (fst (f a d))"
  shows "sim st (fst (then_do x f))"
  using assms by (cases x; cases "snd x") (auto intro: sim_trans)

lemma atomically_sim: "(\<And>d a. r = Inr (d, a) \<Longrightarrow> sim st d) \<Longrightarrow> sim st (fst (atomically r st))"
  by (cases r) auto

lemma as_step_sim: "(\<And>d. r = Inr d \<Longrightarrow> sim st d) \<Longrightarrow> sim st (fst (as_step r st))"
  by (cases r) (auto simp: as_step_def)

section \<open>What an operation leaves alone\<close>

definition frame :: "hr_state \<Rightarrow> hr_state \<Rightarrow> bool" where
  "frame st st' \<longleftrightarrow> ap_workflows st' = ap_workflows st \<and> ap_runs st' = ap_runs st \<and> ap_actions st' = ap_actions st \<and>
     pd_runs (pay st') = pd_runs (pay st) \<and> xd_claims (expenses st') = xd_claims (expenses st) \<and>
     td_leave_requests (timeoff st') = td_leave_requests (timeoff st) \<and> ap_next_id st \<le> ap_next_id st'"

lemma frame_refl [simp]: "frame st st"
  by (simp add: frame_def)

lemma frame_trans [trans]: "frame a b \<Longrightarrow> frame b c \<Longrightarrow> frame a c"
  by (simp add: frame_def)

lemma keys_ok_grow:
  assumes "ap_workflows db' = ap_workflows db" "ap_runs db' = ap_runs db" "ap_actions db' = ap_actions db"
    "ap_next_id db \<le> ap_next_id db'" "keys_ok db"
  shows "keys_ok db'"
  using assms by (fastforce simp: keys_ok_def)

lemma engine_inv_grow:
  assumes "ap_workflows db' = ap_workflows db" "ap_runs db' = ap_runs db" "ap_actions db' = ap_actions db"
    "ap_next_id db \<le> ap_next_id db'" "engine_inv db"
  shows "engine_inv db'"
  using keys_ok_grow [OF assms(1-4)] assms(5) by (simp add: engine_inv_def run_ok_cong [OF assms(1)] assms(2,3))

lemma frame_sim: "frame st st' \<Longrightarrow> sim st st'"
proof (rule simI)
  assume f: "frame st st'" and i: "hr_inv st"
  show "engine_inv st'" using engine_inv_grow [of st' st] f i by (simp add: frame_def hr_inv_def)
  have "ap_runs st' = ap_runs st" "ap_next_id st \<le> ap_next_id st'" "leave_runs_ok st"
    using f i by (simp_all add: frame_def hr_inv_def rows_ok_def)
  then have "leave_runs_ok st'" unfolding leave_runs_ok_def by (metis less_le_trans)
  then show "rows_ok st'" using f i by (simp add: rows_ok_def frame_def hr_inv_def)
  have "desk_of st' = (desk_of st)\<lparr>dk_next := ap_next_id st'\<rparr>"
    using f by (intro desk_eqI) (simp_all add: frame_def)
  moreover have "dk_next (desk_of st) \<le> ap_next_id st'" using f by (simp add: frame_def)
  ultimately show "desk_step\<^sup>*\<^sup>* (desk_of st) (desk_of st')" using desk_step.ids by (metis r_into_rtranclp)
qed

lemma frame_audit [simp]: "frame st (audit a e t st)"
  by (simp add: frame_def audit_def)

lemma frame_notify [simp]: "frame st (notify u k m as c i st)"
  by (simp add: frame_def notify_def)

lemma frame_draw [simp]: "frame st (draw_id st)"
  by (simp add: frame_def frame_simps)

lemma frame_pay: "pd_runs (f (pay st)) = pd_runs (pay st) \<Longrightarrow> frame st (update_pay f st)"
  by (simp add: frame_def frame_simps)

lemma frame_timeoff: "td_leave_requests (f (timeoff st)) = td_leave_requests (timeoff st) \<Longrightarrow> frame st (update_timeoff f st)"
  by (simp add: frame_def frame_simps)

lemma frame_expenses: "xd_claims (f (expenses st)) = xd_claims (expenses st) \<Longrightarrow> frame st (update_expenses f st)"
  by (simp add: frame_def frame_simps)

lemma sim_audit: "sim st d \<Longrightarrow> sim st (audit a e t d)"
  by (meson frame_audit frame_sim sim_trans)

section \<open>Opening a run\<close>

lemma stage_actions_effect:
  assumes "create_stage_actions ck run s st = Inr st'"
  shows "ap_subjects st' = ap_subjects st \<and> ap_runs st' = ap_runs st \<and> ap_next_id st \<le> ap_next_id st'"
proof -
  have "ap_subjects d = ap_subjects st \<and> ap_runs d = ap_runs st \<and> ap_next_id st \<le> ap_next_id d"
    if "fold_res (\<lambda>g d. insert_action (new_action ck (rn_id run) (st_id s) g d) d) as st = Inr d" for as d
    using that by (rule fold_res_invariant) (auto simp: insert_action_def split: if_splits)
  with assms show ?thesis by (auto simp: create_stage_actions_def)
qed

lemma open_effect:
  assumes "open_approval_run ck w subject kind org e u actor label st = Inr (st', run)" "hr_inv st" "w \<in> set (ap_workflows st)"
  shows "engine_inv st'" "ap_subjects st' = ap_subjects st" "ap_next_id st < ap_next_id st'"
    "rn_id run = ap_next_id st" "rn_subject run = subject" "ap_runs st' = ap_runs st @ [run]" "rn_status run = RUN_PENDING"
proof -
  show "engine_inv st'" using assms by (cases subject) (auto simp: hr_inv_def intro: open_approval_run_inv)
  obtain s d where s: "first_stage w = Some s" and r: "rn_id run = ap_next_id st \<and> rn_subject run = subject \<and> rn_status run = RUN_PENDING"
    and d: "create_stage_actions ck run s (insert_run run st) = Inr d" "st' = audit (Some actor) ''approval.run.created'' (rn_id run) d"
    using assms(1) by (auto simp: open_approval_run_def Let_def split: option.splits)
  note eff = stage_actions_effect [OF d(1)]
  show "ap_subjects st' = ap_subjects st" "ap_next_id st < ap_next_id st'" "ap_runs st' = ap_runs st @ [run]"
    using eff by (simp_all add: d(2) frame_simps) (simp_all add: insert_run_def)
  show "rn_id run = ap_next_id st" "rn_subject run = subject" "rn_status run = RUN_PENDING" using r by simp_all
qed

section \<open>Deciding a run\<close>

lemma decide_leaves:
  assumes "decide_subject ck ref s reason db = Inr d"
  shows "td_leave_requests (hr_timeoff d) =
    (if fst ref = ''LeaveRequest'' then update_where (\<lambda>r. lr_id r = snd ref)
        (\<lambda>r. r\<lparr>lr_status := leave_status_of s, lr_rejection_reason := reason_or reason (lr_rejection_reason r)\<rparr>)
        (td_leave_requests (hr_timeoff db))
     else td_leave_requests (hr_timeoff db))"
proof -
  have sync: "td_leave_requests (sync_comp_off_redemptions_for_leave_request r x t) = td_leave_requests t" for r x t
    by (simp add: sync_comp_off_redemptions_for_leave_request_def split: option.split)
  have fin: "finalize_leave_encashment a r t = Inr t' \<Longrightarrow> td_leave_requests t' = td_leave_requests t" for a r t t'
    by (auto simp: finalize_leave_encashment_def split: option.splits if_splits)
  show ?thesis
    using assms
    by (cases ref) (auto simp: decide_subject_def hr_exists_def hr_set_status_def hr_handle_def update_where_absent sync
        dest!: fin split: if_splits option.splits)
qed

text \<open>The run \<open>r\<close> was settled with status \<open>f\<close> and its row decided.\<close>

definition settled :: "clock \<Rightarrow> approval_run \<Rightarrow> approval_run_status \<Rightarrow> subject_status \<Rightarrow> string \<Rightarrow> hr_state \<Rightarrow> hr_state \<Rightarrow> bool" where
  "settled ck r f s reason st st' \<longleftrightarrow> r \<in> set (ap_runs st) \<and> rn_status r = RUN_PENDING \<and> f \<noteq> RUN_PENDING \<and>
     ap_runs st' = update_where (\<lambda>x. rn_id x = rn_id r) (\<lambda>x. x\<lparr>rn_status := f\<rparr>) (ap_runs st) \<and> ap_next_id st' = ap_next_id st \<and>
     decide_subject ck (rn_subject r) s reason (ap_subjects st) = Inr (ap_subjects st')"

text \<open>Runs kept their status: a stage was completed, or nothing happened to runs.\<close>

definition ongoing :: "hr_state \<Rightarrow> hr_state \<Rightarrow> bool" where
  "ongoing st st' \<longleftrightarrow> ap_subjects st' = ap_subjects st \<and> ap_next_id st \<le> ap_next_id st' \<and>
     map (\<lambda>r. (rn_id r, rn_subject r, rn_status r)) (ap_runs st') = map (\<lambda>r. (rn_id r, rn_subject r, rn_status r)) (ap_runs st)"

lemma pending_settled:
  assumes "keys_ok st" "r \<in> set (ap_runs st)" "f \<noteq> RUN_PENDING"
  shows "pending_of (update_where (\<lambda>x. rn_id x = rn_id r) (\<lambda>x. x\<lparr>rn_status := f\<rparr>) (ap_runs st)) =
    pending_of (ap_runs st) - {(rn_id r, rn_subject r)}"
  using same_run [OF assms(1) _ assms(2)] assms(3) unfolding pending_of_def set_update_where by fastforce

lemma pending_map:
  "pending_of rs = {(fst x, fst (snd x)) | x. x \<in> set (map (\<lambda>r. (rn_id r, rn_subject r, rn_status r)) rs) \<and> snd (snd x) = RUN_PENDING}"
  by (force simp: pending_of_def)

lemma ongoing_keys:
  assumes "ongoing st st'"
  shows "map (\<lambda>r. (rn_id r, rn_subject r)) (ap_runs st') = map (\<lambda>r. (rn_id r, rn_subject r)) (ap_runs st)"
proof -
  have "map (\<lambda>r. (rn_id r, rn_subject r, rn_status r)) (ap_runs st') = map (\<lambda>r. (rn_id r, rn_subject r, rn_status r)) (ap_runs st)"
    using assms by (simp only: ongoing_def)
  from arg_cong [OF this, of "map (\<lambda>(a, b, c). (a, b))"] show ?thesis by (simp add: comp_def del: map_eq_conv)
qed

lemma leave_runs_grow:
  assumes "leave_runs_ok st" "map (\<lambda>r. (rn_id r, rn_subject r)) (ap_runs st') = map (\<lambda>r. (rn_id r, rn_subject r)) (ap_runs st)"
    "ap_next_id st \<le> ap_next_id st'"
  shows "leave_runs_ok st'"
proof -
  have old: "\<exists>r' \<in> set (ap_runs st). rn_id r' = rn_id r \<and> rn_subject r' = rn_subject r" if "r \<in> set (ap_runs st')" for r
  proof -
    have "(rn_id r, rn_subject r) \<in> set (map (\<lambda>r. (rn_id r, rn_subject r)) (ap_runs st))"
      using that by (simp add: image_iff flip: assms(2)) blast
    then show ?thesis by auto
  qed
  show ?thesis
    unfolding leave_runs_ok_def
  proof (intro ballI allI impI conjI)
    fix r i assume r: "r \<in> set (ap_runs st')" "rn_subject r = leave_ref i"
    obtain q where q: "q \<in> set (ap_runs st)" "rn_id q = rn_id r" "rn_subject q = leave_ref i"
      using old [OF r(1)] r(2) by metis
    then show "i < ap_next_id st'" using assms(1,3) unfolding leave_runs_ok_def by (metis less_le_trans)
    fix r' assume r': "r' \<in> set (ap_runs st')" "rn_subject r' = leave_ref i"
    obtain q' where "q' \<in> set (ap_runs st)" "rn_id q' = rn_id r'" "rn_subject q' = leave_ref i"
      using old [OF r'(1)] r'(2) by metis
    with q show "rn_id r' = rn_id r" using assms(1) unfolding leave_runs_ok_def by metis
  qed
qed

lemma ongoing_sim:
  assumes "ongoing st st'" "engine_inv st \<Longrightarrow> engine_inv st'"
  shows "sim st st'"
proof (rule simI)
  assume i: "hr_inv st"
  show "engine_inv st'" using assms(2) i by (simp add: hr_inv_def)
  show "rows_ok st'" using leave_runs_grow [OF _ ongoing_keys [OF assms(1)]] assms(1) i by (simp add: ongoing_def hr_inv_def rows_ok_def)
  have "desk_of st' = (desk_of st)\<lparr>dk_next := ap_next_id st'\<rparr>"
    using assms(1) by (intro desk_eqI) (simp_all add: ongoing_def pending_map del: set_map)
  then show "desk_step\<^sup>*\<^sup>* (desk_of st) (desk_of st')"
    using desk_step.ids [of "desk_of st" "ap_next_id st'"] assms(1) by (simp add: ongoing_def r_into_rtranclp)
qed

lemma snd_refs [simp]: "snd (pay_run_ref i) = i" "snd (claim_ref i) = i" "snd (leave_ref i) = i"
  by (simp_all add: ref_defs)

lemma settled_desk:
  assumes "settled ck r f s reason st st'" "keys_ok st"
  shows "desk_of st' = decide_row (rn_subject r) s ((desk_of st)\<lparr>dk_pending := dk_pending (desk_of st) - {(rn_id r, rn_subject r)}\<rparr>)"
proof -
  have d: "decide_subject ck (rn_subject r) s reason (ap_subjects st) = Inr (ap_subjects st')"
    and pend: "pending_of (ap_runs st') = pending_of (ap_runs st) - {(rn_id r, rn_subject r)}" "ap_next_id st' = ap_next_id st"
    using assms(1) pending_settled [OF assms(2), of r f] by (simp_all add: settled_def)
  have runs: "run_table (update_where (\<lambda>r. pr_id r = i) (decided_run s) t) =
      (run_table t)(i := map_option (\<lambda>(q, l). (or_else (payroll_status_of s) q, l)) (run_table t i))" for i t
    unfolding run_table_def by (rule table_update) (simp add: decided_run_def)
  have claims: "claim_table (update_where (\<lambda>c. xm_id c = i) (decided_claim (ck_now ck) s reason) t) =
      (claim_table t)(i := map_option (\<lambda>(q, r, l). (or_else (claim_status_of s) q, reimbursement_after s r, l)) (claim_table t i))" for i t
    unfolding claim_table_def
    by (rule table_update) (cases s; simp add: decided_claim_def handle_claim_status_change_def claim_status_of_def reimbursement_after_def)
  have leaves: "leave_table (update_where (\<lambda>r. lr_id r = i)
        (\<lambda>r. r\<lparr>lr_status := leave_status_of s, lr_rejection_reason := reason_or reason (lr_rejection_reason r)\<rparr>) t) =
      (leave_table t)(i := map_option (\<lambda>r. r\<lparr>lr_status := leave_status_of s\<rparr>) (leave_table t i))" for i t
    unfolding leave_table_def by (rule table_update) (simp add: booking_of_def)
  note rows = decide_runs [OF d] decide_claims [OF d] decide_leaves [OF d]
  show ?thesis
  proof (cases "rn_subject r" rule: ref_cases)
    case other
    then have "fst (rn_subject r) \<noteq> ''PayrollRun''" "fst (rn_subject r) \<noteq> ''ExpenseClaim''" "fst (rn_subject r) \<noteq> ''LeaveRequest''"
      by (auto simp: tracked_def)
    with rows other show ?thesis by (intro desk_eqI) (simp_all add: decide_other pend)
  qed (use rows in \<open>intro desk_eqI; simp add: decide_row_frames pend runs claims leaves\<close>)+
qed

lemma settled_sim:
  assumes "hr_inv st \<Longrightarrow> settled ck r f s reason st st'" "engine_inv st \<Longrightarrow> engine_inv st'"
  shows "sim st st'"
proof (rule simI)
  assume i: "hr_inv st"
  note set = assms(1) [OF i]
  have k: "keys_ok st" using i by (simp add: hr_inv_def engine_inv_def)
  show "engine_inv st'" using assms(2) i by (simp add: hr_inv_def)
  have "map (\<lambda>r. (rn_id r, rn_subject r)) (ap_runs st') = map (\<lambda>r. (rn_id r, rn_subject r)) (ap_runs st)"
    using set by (simp add: settled_def map_update_where_frame)
  then have lv: "leave_runs_ok st'" using leave_runs_grow [of st st'] set i by (simp add: settled_def hr_inv_def rows_ok_def)
  have "xm_id (decided_claim (ck_now ck) s reason c) = xm_id c" for c
    by (cases s) (simp_all add: decided_claim_def handle_claim_status_change_def)
  then have "map xm_id (xd_claims (expenses st')) = map xm_id (xd_claims (expenses st))"
    using decide_claims [of ck "rn_subject r" s reason "ap_subjects st"] set by (simp add: settled_def map_update_where_frame)
  with lv show "rows_ok st'" using i by (simp add: rows_ok_def hr_inv_def)
  have "(rn_id r, rn_subject r) \<in> dk_pending (desk_of st)" using set by (auto simp: settled_def pending_of_def)
  then show "desk_step\<^sup>*\<^sup>* (desk_of st) (desk_of st')"
    unfolding settled_desk [OF set k] by (intro r_into_rtranclp desk_step.decided)
qed

section \<open>The operations of the engine\<close>

lemma subject_row_frames:
  "ap_subjects (record_approval ck s a c db) = ap_subjects db" "ap_subjects (update_actions P f db) = ap_subjects db"
  "ap_subjects (update_run i g db) = ap_subjects db" "ap_subjects (notify_approval_outcome ops r q c db) = ap_subjects db"
  "ap_subjects (notify u k m as c i db) = ap_subjects db"
  by (simp_all add: record_approval_def Let_def update_actions_def update_run_def notify_approval_outcome_def notify_def
      split: option.split)

lemmas engine_frames = frame_simps subject_row_frames

lemma ongoing_refl [simp]: "ongoing st st"
  by (simp add: ongoing_def)

lemma ongoing_trans: "ongoing a b \<Longrightarrow> ongoing b c \<Longrightarrow> ongoing a c"
  by (simp add: ongoing_def)

lemma advance_run_effect:
  assumes adv: "advance_or_complete_run ck (hr_ops ck) r u db = Inr d"
    and st: "ap_runs db = ap_runs st" "ap_next_id db = ap_next_id st" "ap_subjects db = ap_subjects st"
    and r: "r \<in> set (ap_runs st)" "rn_status r = RUN_PENDING"
  shows "ongoing st d \<or> settled ck r RUN_APPROVED SUBJECT_APPROVED [] st d"
proof -
  obtain w where w: "find_workflow db (rn_workflow r) = Some w"
    using adv by (auto simp: advance_or_complete_run_def split: option.splits)
  show ?thesis
  proof (cases "next_stage w (rn_current_stage_sequence r)")
    case None
    with adv w have "settled ck r RUN_APPROVED SUBJECT_APPROVED [] st d"
      by (auto simp: advance_or_complete_run_def apply_subject_status_hr settled_def engine_frames st r)
    then show ?thesis ..
  next
    case (Some n)
    with adv w obtain e where "create_stage_actions ck r n (update_run (rn_id r) (\<lambda>r. r\<lparr>rn_current_stage_sequence := st_sequence n\<rparr>) db) = Inr e"
      "d = audit (Some u) ''approval.run.advanced'' (rn_id r) e"
      by (auto simp: advance_or_complete_run_def)
    with stage_actions_effect [OF this(1)] have "ongoing st d"
      by (simp add: ongoing_def engine_frames st map_update_where_frame)
    then show ?thesis ..
  qed
qed

lemma approve_effect:
  assumes app: "approve_action ck (hr_ops ck) i u c st = Inr st'" and inv: "engine_inv st"
  obtains "ongoing st st'" | r where "settled ck r RUN_APPROVED SUBJECT_APPROVED [] st st'"
proof -
  from app obtain a r s where f: "find_action st i = Some a" "find_run st (ac_run a) = Some r"
    "check_actionable ck a r u st = Inr ()"
    and rest: "bind_res (if st_mode s = MODE_ANY \<or> \<not> sibling_pending a (record_approval ck s a c st)
        then advance_or_complete_run ck (hr_ops ck) r u (record_approval ck s a c st)
        else Inr (record_approval ck s a c st))
      (\<lambda>d. Inr (audit (Some u) ''approval.action.approved'' i d)) = Inr st'"
    by (auto simp: approve_action_def Let_def split: option.splits)
  have r: "r \<in> set (ap_runs st)" "rn_id r = ac_run a" and a: "a \<in> set (ap_actions st)" "ac_status a = ACT_PENDING"
    using find_action_Some [OF f(1)] find_run_Some [OF f(2)] check_actionable_Inr [OF f(3)] by simp_all
  then have p: "rn_status r = RUN_PENDING"
    using engine_inv_run [OF inv, of r] unfolding run_follows_def by metis
  let ?d = "record_approval ck s a c st"
  from rest obtain d where d: "d = ?d \<or> advance_or_complete_run ck (hr_ops ck) r u ?d = Inr d"
    and st': "st' = audit (Some u) ''approval.action.approved'' i d"
    by (auto split: if_splits)
  have "ongoing st ?d" by (simp add: ongoing_def engine_frames)
  with d have "ongoing st d \<or> settled ck r RUN_APPROVED SUBJECT_APPROVED [] st d"
    using advance_run_effect [OF _ _ _ _ r(1) p, of ck u ?d d] by (auto simp: engine_frames)
  then have "ongoing st st' \<or> settled ck r RUN_APPROVED SUBJECT_APPROVED [] st st'"
    by (simp add: ongoing_def settled_def st' engine_frames)
  with that show thesis by blast
qed

lemma reject_effect:
  assumes rej: "reject_action ck (hr_ops ck) i u c st = Inr st'" and inv: "engine_inv st"
  obtains r where "settled ck r RUN_REJECTED SUBJECT_REJECTED c st st'"
proof -
  from rej obtain a r where f: "find_action st i = Some a" "find_run st (ac_run a) = Some r"
    "check_actionable ck a r u st = Inr ()"
    by (auto simp: reject_action_def Let_def split: option.splits)
  have r: "r \<in> set (ap_runs st)" "rn_id r = ac_run a" and a: "a \<in> set (ap_actions st)" "ac_status a = ACT_PENDING"
    using find_action_Some [OF f(1)] find_run_Some [OF f(2)] check_actionable_Inr [OF f(3)] by simp_all
  then have p: "rn_status r = RUN_PENDING"
    using engine_inv_run [OF inv, of r] unfolding run_follows_def by metis
  have "settled ck r RUN_REJECTED SUBJECT_REJECTED c st st'"
    using rej by (auto simp: reject_action_def f Let_def apply_subject_status_hr settled_def engine_frames r(1) p)
  with that show thesis .
qed

lemma cancel_effect:
  assumes "cancel_approval_run ck (hr_ops ck) i u (Some s) st = Inr st'"
  obtains "ongoing st st'" | r where "settled ck r RUN_CANCELLED s [] st st'" "rn_id r = i"
proof -
  obtain r where f: "find_run st i = Some r" using assms by (auto simp: cancel_approval_run_def split: option.splits)
  note r = find_run_Some [OF f]
  have "ongoing st st' \<or> settled ck r RUN_CANCELLED s [] st st'"
    using assms by (auto simp: cancel_approval_run_def f Let_def apply_subject_status_hr settled_def engine_frames r split: if_splits)
  with that r show thesis by blast
qed

lemma remind_step_ongoing: "ongoing st (fst acc) \<Longrightarrow> ongoing st (fst (remind_step now a acc))"
  by (cases acc) (simp add: remind_step_def Let_def ongoing_def engine_frames split: option.split)

lemma reminders_ongoing: "ongoing st (fst (send_pending_action_reminders now st))"
proof -
  have "ongoing st (fst (fold (remind_step now) as acc))" if "ongoing st (fst acc)" for as acc
    using that by (induction as arbitrary: acc) (simp_all add: remind_step_ongoing)
  then show ?thesis by (simp add: send_pending_action_reminders_def)
qed

lemma escalate_step_ongoing: "escalate_step now a db = Inr (d, flag) \<Longrightarrow> ongoing db d"
  by (auto simp: escalate_step_def escalate_locked_def insert_action_def ongoing_def engine_frames
      split: option.splits if_splits)

lemma escalations_ongoing: "ongoing st (fst (process_pending_action_escalations now st))"
proof -
  have "ongoing db (fst (escalate_all now as n db))" for as n db
    by (induction as arbitrary: n db) (auto dest!: escalate_step_ongoing split: sum.split intro: ongoing_trans)
  then show ?thesis by (simp add: process_pending_action_escalations_def)
qed

lemma delegation_ongoing: "upsert_approval_delegation org de dg ks sd ed active act d db = Inr (db', row) \<Longrightarrow> ongoing db db'"
  by (cases d) (auto simp: upsert_approval_delegation_def ongoing_def frame_simps Let_def split: if_splits)

lemma approve_sim: "approve_action ck (hr_ops ck) i u c st = Inr st' \<Longrightarrow> sim st st'"
  by (rule ccontr) (metis approve_effect approve_action_inv ongoing_sim settled_sim hr_inv_def sim_def)

lemma reject_sim: "reject_action ck (hr_ops ck) i u c st = Inr st' \<Longrightarrow> sim st st'"
  by (rule ccontr) (metis reject_effect reject_action_inv settled_sim hr_inv_def sim_def)

lemma reminders_sim: "sim st (fst (send_pending_action_reminders now st))"
  by (rule ongoing_sim [OF reminders_ongoing send_reminders_inv])

lemma escalations_sim: "sim st (fst (process_pending_action_escalations now st))"
  by (rule ongoing_sim [OF escalations_ongoing process_escalations_inv])

lemma delegation_sim: "upsert_approval_delegation org de dg ks sd ed active act d st = Inr (st', row) \<Longrightarrow> sim st st'"
  by (rule ongoing_sim [OF delegation_ongoing upsert_delegation_inv])

end
