(* ===== verification/DeskOperations.thy ===== *)
theory DeskOperations
  imports DeskRefinement
begin

text \<open>
  The operations of payroll, expenses and time off as moves of the desk: each operation that touches
  a pay run, a claim, a leave request or opens an approval is simulated by the desk's events.
\<close>

section \<open>Moves\<close>

lemma hr_invD:
  assumes "hr_inv st"
  shows "engine_inv st" "keys_ok st" "leave_runs_ok st" "rows_ok st" "desk_inv (desk_of st)" "rows_wait (desk_of st)" "ids_drawn (desk_of st)"
    "distinct (map xm_id (xd_claims (expenses st)))"
  using assms by (simp_all add: hr_inv_def rows_ok_def engine_inv_def desk_inv_def)

text \<open>An operation that leaves the engine's tables alone and makes one move.\<close>

lemma move_sim:
  assumes "ap_workflows st' = ap_workflows st" "ap_runs st' = ap_runs st" "ap_actions st' = ap_actions st"
    "ap_next_id st \<le> ap_next_id st'"
    "hr_inv st \<Longrightarrow> distinct (map xm_id (xd_claims (expenses st')))"
    "hr_inv st \<Longrightarrow> desk_step\<^sup>*\<^sup>* (desk_of st) (desk_of st')"
  shows "sim st st'"
proof (rule simI)
  assume i: "hr_inv st"
  show "engine_inv st'" using engine_inv_grow [OF assms(1-4)] hr_invD(1) [OF i] .
  have "leave_runs_ok st'" using leave_runs_grow [OF hr_invD(3) [OF i]] assms(2,4) by simp
  with assms(5) i show "rows_ok st'" by (simp add: rows_ok_def)
qed (use assms(6) in blast)

text \<open>A row at the next id is new.\<close>

lemma fresh_rows:
  assumes "hr_inv st" "ap_next_id st \<le> i"
  shows "run_table (pd_runs (pay st)) i = None" "claim_table (xd_claims (expenses st)) i = None"
    "leave_table (td_leave_requests (timeoff st)) i = None"
  using hr_invD(7) [OF assms(1)] assms(2) by (auto simp: ids_drawn_def)

lemma table_absent: "table key val t i = None \<Longrightarrow> i \<notin> key ` set t"
  by (metis imageE table_mem)

lemma frame_intros:
  "frame st d \<Longrightarrow> frame st (audit a e t d)" "frame st d \<Longrightarrow> frame st (notify u k m as c i d)" "frame st d \<Longrightarrow> frame st (draw_id d)"
  "frame st d \<Longrightarrow> pd_runs (f (pay d)) = pd_runs (pay d) \<Longrightarrow> frame st (update_pay f d)"
  "frame st d \<Longrightarrow> td_leave_requests (g (timeoff d)) = td_leave_requests (timeoff d) \<Longrightarrow> frame st (update_timeoff g d)"
  "frame st d \<Longrightarrow> xd_claims (h (expenses d)) = xd_claims (expenses d) \<Longrightarrow> frame st (update_expenses h d)"
  "frame st d \<Longrightarrow> frame st (update_slab_sets s d)"
  by (simp_all add: frame_def frame_simps update_slab_sets_def audit_def notify_def)

section \<open>Setting up payroll\<close>

lemma frame_master:
  assumes "ensure_global_default_tax_master ck actor fy st = Inr (d, s)"
  shows "frame st d"
  using assms
  by (auto simp: ensure_global_default_tax_master_def create_tax_slab_set_def Let_def intro!: frame_intros
      split: option.splits if_splits)

lemma frame_default [simp]: "frame st (get_or_create_default org p st)"
  by (auto simp: get_or_create_default_def intro!: frame_intros)

lemma frame_fold: "(\<And>x d. frame d (f x d)) \<Longrightarrow> frame st (fold f xs st)"
  by (induction xs arbitrary: st) (auto intro: frame_trans)

lemma frame_then_do:
  assumes "frame st (fst x)" "\<And>a d. x = (d, Inr a) \<Longrightarrow> frame d (fst (f a d))"
  shows "frame st (fst (then_do x f))"
  using assms by (cases x; cases "snd x") (auto intro: frame_trans)

lemma frame_atomically: "(\<And>d a. r = Inr (d, a) \<Longrightarrow> frame st d) \<Longrightarrow> frame st (fst (atomically r st))"
  by (cases r) auto

lemma frame_setup [simp]: "frame st (fst (ensure_org_payroll_setup ck org actor st))"
  unfolding ensure_org_payroll_setup_def Let_def
  by (rule frame_then_do)
    (auto intro!: frame_trans [OF frame_pay frame_atomically] frame_fold dest: frame_master)

section \<open>Pay runs\<close>

lemma pay_run_status:
  assumes "find_pay_run (pay st) i = Some run"
  shows "run_table (pd_runs (pay st)) i = Some (pr_status run, pr_approval_run run)" "pr_id run = i"
  using assms first_row_SomeD [of _ _ run] by (auto simp: run_table_def table_first find_pay_run_def)

lemma run_status_update:
  assumes "\<And>r. pr_id (f r) = pr_id r \<and> pr_status (f r) = s \<and> pr_approval_run (f r) = l" "run_table t i \<noteq> None"
  shows "run_table (update_where (\<lambda>r. pr_id r = i) f t) = (run_table t)(i := Some (s, l))"
proof -
  have "run_table (update_where (\<lambda>r. pr_id r = i) f t) = (run_table t)(i := map_option (\<lambda>_. (s, l)) (run_table t i))"
    unfolding run_table_def by (rule table_update) (use assms(1) in simp)
  with assms(2) show ?thesis by auto
qed

lemma create_run_sim: "sim st (fst (create_payroll_run ck org y m actor user src ty name att st))"
  unfolding create_payroll_run_def Let_def
proof (intro then_do_sim)
  show "sim st (fst (ensure_org_payroll_setup ck org (case actor of None \<Rightarrow> user | Some a \<Rightarrow> Some a) st))"
    by (rule frame_sim) simp
next
  fix label and d e :: hr_state
  assume "from_res (if name = [] then pay_run_name y m ty else Inr name) e = (d, Inr label)"
  let ?run = "\<lparr>pr_id = ap_next_id d, pr_organisation = org, pr_name = label, pr_period_year = y, pr_period_month = m,
                   pr_run_type = ty, pr_status = PR_DRAFT, pr_use_attendance_inputs = att,
                   pr_attendance_snapshot = None, pr_source_run = src, pr_approval_run = None,
                   pr_calculated_at = None, pr_submitted_at = None, pr_finalized_at = None\<rparr>"
  let ?d = "update_pay (\<lambda>p. p\<lparr>pd_runs := pd_runs p @ [?run]\<rparr>) (draw_id d)"
  have "sim d ?d"
  proof (rule move_sim)
    assume i: "hr_inv d"
    have "desk_of ?d = (desk_of d)\<lparr>dk_runs := (dk_runs (desk_of d))(ap_next_id d := Some (PR_DRAFT, None)), dk_next := Suc (ap_next_id d)\<rparr>"
      using fresh_rows(1) [OF i order_refl] table_append [of pr_id "\<lambda>r. (pr_status r, pr_approval_run r)" "pd_runs (pay d)" ?run]
      by (intro desk_eqI) (simp_all add: frame_simps run_table_def)
    then show "desk_step\<^sup>*\<^sup>* (desk_of d) (desk_of ?d)"
      using desk_step.new_run [of "desk_of d" "ap_next_id d" "Suc (ap_next_id d)"] by (simp add: r_into_rtranclp)
  qed (simp_all add: frame_simps hr_invD)
  then show "sim d (fst (give (ap_next_id d) (audit (case actor of None \<Rightarrow> user | Some a \<Rightarrow> Some a) ''payroll.run.created'' (ap_next_id d) ?d)))"
    by (simp add: sim_audit)
qed simp

lemma rerun_sim: "sim st (fst (rerun_payroll_run ck i actor user st))"
  unfolding rerun_payroll_run_def
  by (split option.split) (auto intro!: then_do_sim create_run_sim intro: frame_sim)

section \<open>Claims in a pay run\<close>

text \<open>Claims change their reimbursement status only, by one move each.\<close>

definition claims_move :: "hr_state \<Rightarrow> hr_state \<Rightarrow> bool" where
  "claims_move st st' \<longleftrightarrow>
     (\<forall>i. claim_table (xd_claims (expenses st')) i = claim_table (xd_claims (expenses st)) i \<or>
        (\<exists>s r r' l. claim_table (xd_claims (expenses st)) i = Some (s, r, l) \<and>
           claim_table (xd_claims (expenses st')) i = Some (s, r', l) \<and> (r, r') \<in> reimbursement_moves))"

lemma reimbursed_many:
  assumes "finite D" "\<And>i. i \<in> D \<Longrightarrow> \<exists>s r r' l. dk_claims d i = Some (s, r, l) \<and> T i = Some (s, r', l) \<and> (r, r') \<in> reimbursement_moves"
    "\<And>i. i \<notin> D \<Longrightarrow> T i = dk_claims d i"
  shows "desk_step\<^sup>*\<^sup>* d (d\<lparr>dk_claims := T\<rparr>)"
  using assms
proof (induction D arbitrary: d rule: finite_induct)
  case empty
  then have "T = dk_claims d" by auto
  then show ?case by simp
next
  case (insert i D)
  obtain s r r' l where i: "dk_claims d i = Some (s, r, l)" "T i = Some (s, r', l)" "(r, r') \<in> reimbursement_moves"
    using insert.prems(1) [of i] by auto
  let ?d = "d\<lparr>dk_claims := (dk_claims d)(i := Some (s, r', l))\<rparr>"
  have "desk_step d ?d" using i by (intro desk_step.reimbursed) auto
  moreover have "desk_step\<^sup>*\<^sup>* ?d (?d\<lparr>dk_claims := T\<rparr>)"
  proof (rule insert.IH)
    fix j assume "j \<in> D"
    then show "\<exists>s r r' l. dk_claims ?d j = Some (s, r, l) \<and> T j = Some (s, r', l) \<and> (r, r') \<in> reimbursement_moves"
      using insert.prems(1) [of j] insert.hyps(2) by auto
  next
    fix j assume "j \<notin> D"
    then show "T j = dk_claims ?d j" using insert.prems(2) [of j] i(2) by auto
  qed
  ultimately show ?case by (simp add: converse_rtranclp_into_rtranclp)
qed

lemma claims_move_desk:
  assumes "claims_move st st'"
  shows "desk_step\<^sup>*\<^sup>* (desk_of st) ((desk_of st)\<lparr>dk_claims := claim_table (xd_claims (expenses st'))\<rparr>)"
proof (rule reimbursed_many)
  let ?D = "{i. claim_table (xd_claims (expenses st')) i \<noteq> claim_table (xd_claims (expenses st)) i}"
  have "?D \<subseteq> dom (claim_table (xd_claims (expenses st)))"
    using assms by (auto simp: claims_move_def)
  then show "finite ?D" by (rule finite_subset) (simp add: claim_table_def table_def finite_dom_map_of)
  show "\<exists>s r r' l. dk_claims (desk_of st) i = Some (s, r, l) \<and> claim_table (xd_claims (expenses st')) i = Some (s, r', l) \<and>
      (r, r') \<in> reimbursement_moves" if "i \<in> ?D" for i
    using assms that by (auto simp: claims_move_def)
qed simp

lemma table_update_where:
  assumes "\<And>r. key (f r) = key r"
  shows "table key val (update_where P f t) i = map_option (\<lambda>r. val (if P r then f r else r)) (first_row (\<lambda>r. key r = i) t)"
  by (induction t) (simp_all add: table_def assms)

lemma claims_move_update:
  assumes "xd_claims (expenses st') = update_where P f (xd_claims (expenses st))" "\<And>c. xm_id (f c) = xm_id c"
    "\<And>c. P c \<Longrightarrow> xm_status (f c) = xm_status c \<and> xm_approval_run (f c) = xm_approval_run c \<and>
       (xm_reimbursement_status c, xm_reimbursement_status (f c)) \<in> reimbursement_moves"
  shows "claims_move st st'"
  unfolding claims_move_def
proof
  fix i
  show "claim_table (xd_claims (expenses st')) i = claim_table (xd_claims (expenses st)) i \<or>
        (\<exists>s r r' l. claim_table (xd_claims (expenses st)) i = Some (s, r, l) \<and>
           claim_table (xd_claims (expenses st')) i = Some (s, r', l) \<and> (r, r') \<in> reimbursement_moves)"
    unfolding claim_table_def assms(1) table_update_where [of xm_id f, OF assms(2)]
    unfolding table_first
    by (cases "first_row (\<lambda>r. xm_id r = i) (xd_claims (expenses st))") (use assms(3) in auto)
qed

lemma claim_ids_update:
  "(\<And>c. P c \<Longrightarrow> xm_id (f c) = xm_id c) \<Longrightarrow> map xm_id (update_where P f t) = map xm_id t"
  by (rule map_update_where_frame)

lemma claims_move_sim:
  assumes "ap_workflows st' = ap_workflows st" "ap_runs st' = ap_runs st" "ap_actions st' = ap_actions st"
    "ap_next_id st' = ap_next_id st" "pay st' = pay st" "timeoff st' = timeoff st"
    "map xm_id (xd_claims (expenses st')) = map xm_id (xd_claims (expenses st))" "claims_move st st'"
  shows "sim st st'"
proof (rule move_sim)
  have "desk_of st' = (desk_of st)\<lparr>dk_claims := claim_table (xd_claims (expenses st'))\<rparr>"
    by (intro desk_eqI) (simp_all add: assms)
  with claims_move_desk [OF assms(8)] show "desk_step\<^sup>*\<^sup>* (desk_of st) (desk_of st')" by simp
qed (simp_all add: assms hr_invD)

lemma reset_sim: "sim st (reset_expense_claims_for_pay_run i st)"
  by (rule claims_move_sim)
    (auto simp: reset_expense_claims_for_pay_run_def frame_simps reimbursement_moves_def intro!: claim_ids_update claims_move_update)

lemma frame_delete_items:
  "pd_runs (pay (delete_items i st)) = pd_runs (pay st)" "sim st (delete_items i st)" "ap_runs (delete_items i st) = ap_runs st"
proof -
  let ?d = "delete_items i st"
  have cl: "\<exists>P f. xd_claims (expenses ?d) = update_where P f (xd_claims (expenses st)) \<and>
      (\<forall>c. xm_id (f c) = xm_id c \<and> xm_status (f c) = xm_status c \<and> xm_reimbursement_status (f c) = xm_reimbursement_status c \<and>
           xm_approval_run (f c) = xm_approval_run c)"
    by (simp add: delete_items_def Let_def frame_simps)
      (rule exI, rule exI [of _ "\<lambda>c. c\<lparr>xm_reimbursement_pay_run_item := None\<rparr>"], simp)
  have fr: "ap_workflows ?d = ap_workflows st" "ap_runs ?d = ap_runs st" "ap_actions ?d = ap_actions st" "ap_next_id ?d = ap_next_id st"
    "pd_runs (pay ?d) = pd_runs (pay st)" "timeoff ?d = timeoff st"
    by (simp_all add: delete_items_def Let_def frame_simps)
  then show "pd_runs (pay ?d) = pd_runs (pay st)" "ap_runs ?d = ap_runs st" by simp_all
  from cl have tab: "claim_table (xd_claims (expenses ?d)) = claim_table (xd_claims (expenses st))"
    and ids: "map xm_id (xd_claims (expenses ?d)) = map xm_id (xd_claims (expenses st))"
    unfolding claim_table_def by (auto intro!: table_frame map_update_where_frame)
  show "sim st ?d"
  proof (rule move_sim)
    have "desk_of ?d = desk_of st" by (intro desk_eqI) (simp_all add: fr tab)
    then show "desk_step\<^sup>*\<^sup>* (desk_of st) (desk_of ?d)" by simp
  qed (simp_all add: fr ids hr_invD)
qed

text \<open>Claims that a calculation may include: pending ones, or already included by it.\<close>

definition includable :: "hr_state \<Rightarrow> uid \<Rightarrow> bool" where
  "includable st i \<longleftrightarrow> (\<exists>s r l. claim_table (xd_claims (expenses st)) i = Some (s, r, l) \<and> r \<in> {RB_PENDING_PAYROLL, RB_INCLUDED_IN_PAYROLL})"

lemma include_one:
  assumes "includable st i" "\<And>c. xm_id (f c) = xm_id c \<and> xm_status (f c) = xm_status c \<and>
      xm_reimbursement_status (f c) = RB_INCLUDED_IN_PAYROLL \<and> xm_approval_run (f c) = xm_approval_run c"
  shows "sim st (update_claim i f st)" "includable st j \<Longrightarrow> includable (update_claim i f st) j"
proof -
  obtain s r l where i: "claim_table (xd_claims (expenses st)) i = Some (s, r, l)" "r \<in> {RB_PENDING_PAYROLL, RB_INCLUDED_IN_PAYROLL}"
    using assms(1) by (auto simp: includable_def)
  have tab: "claim_table (xd_claims (expenses (update_claim i f st))) =
      (claim_table (xd_claims (expenses st)))(i := Some (s, RB_INCLUDED_IN_PAYROLL, l))"
    unfolding claim_table_def frame_simps
    by (subst table_update [where g = "\<lambda>(s, r, l). (s, RB_INCLUDED_IN_PAYROLL, l)"])
      (use assms(2) i in \<open>auto simp: claim_table_def\<close>)
  then show "includable st j \<Longrightarrow> includable (update_claim i f st) j" by (auto simp: includable_def)
  have "claims_move st (update_claim i f st)"
    unfolding claims_move_def tab using i by (auto simp: reimbursement_moves_def)
  then show "sim st (update_claim i f st)"
    by (intro claims_move_sim) (simp_all add: frame_simps assms(2) claim_ids_update)
qed

lemma include_many:
  assumes "\<And>c. c \<in> set cs \<Longrightarrow> includable st (xm_id c)"
  shows "sim st (mark_expense_claims_included_in_payroll r x cs st) \<and>
    (\<forall>j. includable st j \<longrightarrow> includable (mark_expense_claims_included_in_payroll r x cs st) j)"
proof -
  let ?f = "\<lambda>claim. update_claim (xm_id claim)
      (\<lambda>c. c\<lparr>xm_reimbursement_status := RB_INCLUDED_IN_PAYROLL, xm_reimbursement_pay_run := Some r,
             xm_reimbursement_pay_run_item := Some x, xm_reimbursed_at := None\<rparr>)"
  have one: "sim d (?f c d)" "includable d j \<Longrightarrow> includable (?f c d) j" if "includable d (xm_id c)" for c d j
    using include_one [OF that] by simp_all
  have "sim st (fold ?f cs st) \<and> (\<forall>j. includable st j \<longrightarrow> includable (fold ?f cs st) j)"
    using assms
  proof (induction cs arbitrary: st)
    case (Cons c cs)
    have "sim (?f c st) (fold ?f cs (?f c st)) \<and> (\<forall>j. includable (?f c st) j \<longrightarrow> includable (fold ?f cs (?f c st)) j)"
      by (rule Cons.IH) (simp add: Cons.prems one(2))
    with one [of st c] Cons.prems show ?case by (auto intro: sim_trans)
  qed simp
  then show ?thesis
    by (auto simp: mark_expense_claims_included_in_payroll_def Let_def includable_def frame_simps intro: sim_audit)
qed

section \<open>Calculation\<close>

lemma frame_insert_item [simp]: "frame st (insert_item x st)"
  by (auto simp: insert_item_def intro!: frame_intros)

lemma frame_slab_set_for: "slab_set_for ck inp e regime st = Inr (d, found) \<Longrightarrow> frame st d"
  by (auto simp: slab_set_for_def Let_def dest!: frame_master split: if_splits)

text \<open>What the loop of a calculation keeps.\<close>

definition calc_keeps :: "(uid \<Rightarrow> expense_claim list) \<Rightarrow> hr_state \<Rightarrow> hr_state \<Rightarrow> bool" where
  "calc_keeps claims st d \<longleftrightarrow> sim st d \<and> pd_runs (pay d) = pd_runs (pay st) \<and> ap_runs d = ap_runs st \<and>
     (\<forall>e. \<forall>c \<in> set (claims e). includable d (xm_id c))"

lemma calc_keeps_frame:
  assumes "calc_keeps claims st d" "frame d d'"
  shows "calc_keeps claims st d'"
  using assms frame_sim [OF assms(2)] by (auto simp: calc_keeps_def includable_def frame_def intro: sim_trans)

lemma calculate_step_keeps:
  assumes "calculate_step ck att inp org_state claims e d = Inr d'" "calc_keeps claims st d"
  shows "calc_keeps claims st d'"
proof -
  note ins = calc_keeps_frame [OF _ frame_insert_item]
  show ?thesis
  proof (cases org_state)
    case (Inl err)
    with assms show ?thesis by (auto simp: calculate_step_def Let_def intro: ins)
  next
    case (Inr code)
    show ?thesis
    proof (cases "get_effective_compensation_assignment (pd_assignments (pay d)) (em_id e) (in_period_end inp)")
      case None
      with Inr assms show ?thesis by (auto simp: calculate_step_def Let_def intro: ins)
    next
      case (Some a)
      with Inr assms(1) obtain x found where x: "slab_set_for ck inp e (ca_tax_regime a) d = Inr (x, found)"
        by (auto simp: calculate_step_def Let_def)
      have kx: "calc_keeps claims st x" using calc_keeps_frame [OF assms(2) frame_slab_set_for [OF x]] .
      show ?thesis
      proof (cases found)
        case None
        with Inr Some x assms(1) kx show ?thesis by (auto simp: calculate_step_def Let_def intro: ins)
      next
        case (Some slabs)
        let ?item = "calculate_item att (ap_subjects x) inp e a slabs (employee_state code e) (claims (em_id e)) (ap_next_id x)"
        define item where "item = ?item"
        have item: "d' = (if ri_status item = READY
            then mark_expense_claims_included_in_payroll (pr_id (in_run inp)) (ri_id item) (claims (em_id e)) (insert_item item x)
            else insert_item item x)"
          using Some Inr \<open>get_effective_compensation_assignment _ _ _ = Some a\<close> x assms(1)
          unfolding item_def by (simp add: calculate_step_def Let_def split: if_splits)
        have ki: "calc_keeps claims st (insert_item item x)" by (rule ins [OF kx])
        then have inc: "\<And>c. c \<in> set (claims (em_id e)) \<Longrightarrow> includable (insert_item item x) (xm_id c)"
          by (simp add: calc_keeps_def)
        show ?thesis
          using ki include_many [OF inc, where r = "pr_id (in_run inp)" and x = "ri_id item"]
          by (auto simp: item calc_keeps_def frame_simps intro: sim_trans)
      qed
    qed
  qed
qed

lemma pending_claims_includable:
  assumes "hr_inv st" "c \<in> set (get_pending_expense_claims_by_employee_for_pay_run (expenses st) run e)"
  shows "includable st (xm_id c)"
proof -
  have c: "c \<in> set (xd_claims (expenses st))" "xm_reimbursement_status c = RB_PENDING_PAYROLL"
    using assms(2) by (auto simp: get_pending_expense_claims_by_employee_for_pay_run_def split: if_splits)
  have "first_row (\<lambda>x. xm_id x = xm_id c) (xd_claims (expenses st)) = Some c"
    by (rule first_row_distinct [OF hr_invD(8) [OF assms(1)] c(1)])
  then show ?thesis by (simp add: includable_def claim_table_def table_first c(2))
qed

lemma calculated_sim:
  assumes "run_table (pd_runs (pay st)) i = Some (s, l)" "s \<notin> {PR_APPROVED, PR_FINALIZED}" "no_pending (desk_of st) (pay_run_ref i)"
    "\<And>r. pr_id (f r) = pr_id r \<and> pr_status (f r) = PR_CALCULATED \<and> pr_approval_run (f r) = l'"
  shows "sim st (update_pay_run i f st)"
proof (rule move_sim)
  have "run_table (pd_runs (pay (update_pay_run i f st))) = (run_table (pd_runs (pay st)))(i := Some (PR_CALCULATED, l'))"
    using run_status_update [OF assms(4), of "pd_runs (pay st)" i] assms(1) by (simp add: update_pay_run_def frame_simps)
  then have "desk_of (update_pay_run i f st) = (desk_of st)\<lparr>dk_runs := (dk_runs (desk_of st))(i := Some (PR_CALCULATED, l'))\<rparr>"
    by (intro desk_eqI) (simp_all add: update_pay_run_def frame_simps)
  then show "desk_step\<^sup>*\<^sup>* (desk_of st) (desk_of (update_pay_run i f st))"
    using desk_step.calculated [of "desk_of st" i s l l'] assms(1-3) by (simp add: r_into_rtranclp)
qed (simp_all add: update_pay_run_def frame_simps hr_invD)

lemma calculate_transaction_sim:
  assumes tr: "calculate_transaction ck att run st = Inr st'" and i: "hr_inv st"
    and run: "run_table (pd_runs (pay st)) (pr_id run) = Some (s, l)" "s \<notin> {PR_APPROVED, PR_FINALIZED}"
      "no_pending (desk_of st) (pay_run_ref (pr_id run))"
  shows "sim st st'"
proof -
  obtain org where org: "find_organisation (ap_org st) (pr_organisation run) = Some org"
    using tr by (auto simp: calculate_transaction_def split: option.splits)
  define d where "d = delete_items (pr_id run) (reset_expense_claims_for_pay_run (pr_id run) st)"
  define claims where "claims = get_pending_expense_claims_by_employee_for_pay_run (expenses d) run"
  define code where "code = resolve_organisation_payroll_state_code org"
  define es where "es = payable_employees (ap_org st) (pr_organisation run)"
  have d: "sim st d" "pd_runs (pay d) = pd_runs (pay st)" "ap_runs d = ap_runs st"
    using sim_trans [OF reset_sim frame_delete_items(2)]
    by (simp_all add: d_def frame_delete_items(1,3)) (simp_all add: reset_expense_claims_for_pay_run_def frame_simps)
  with i have di: "hr_inv d" by (simp add: sim_def)
  obtain inp x where inp: "inputs_of run es code d = Inr inp \<or> inputs_of run es code st = Inr inp"
    and x: "fold_res (calculate_step ck att inp code claims) es d = Inr x"
    and st': "st' = update_pay_run (pr_id run)
             (\<lambda>r. r\<lparr>pr_attendance_snapshot := Some (run_attendance_of (ap_org st) inp (run_items (pay x) (pr_id run))),
                    pr_status := PR_CALCULATED, pr_calculated_at := Some (ck_now ck), pr_submitted_at := None,
                    pr_approval_run := pr_approval_run run\<rparr>) x"
    using tr org by (auto simp: calculate_transaction_def Let_def claims_def d_def code_def es_def)
  have "calc_keeps claims st d"
    using d pending_claims_includable [OF di] by (simp add: calc_keeps_def claims_def)
  then have "calc_keeps claims st x"
    by (rule fold_res_invariant [OF x]) (rule calculate_step_keeps)
  then have k: "sim st x" "pd_runs (pay x) = pd_runs (pay st)" "ap_runs x = ap_runs st" by (simp_all add: calc_keeps_def)
  have "sim x st'"
    unfolding st' by (rule calculated_sim [where s = s and l = l and l' = "pr_approval_run run"])
      (use run k in \<open>simp_all add: no_pending_def\<close>)
  with k(1) show ?thesis by (rule sim_trans)
qed

lemma drop_effect:
  assumes can: "cancel_approval_run ck ops a u None st = Inr d" and r: "find_run st a = Some r" "rn_status r = RUN_PENDING"
    and i: "hr_inv st"
  shows "sim st d" "desk_of d = (desk_of st)\<lparr>dk_pending := dk_pending (desk_of st) - {(a, rn_subject r)}\<rparr>"
    "ap_subjects d = ap_subjects st"
proof -
  have m: "r \<in> set (ap_runs st)" "rn_id r = a" using find_run_Some [OF r(1)] by simp_all
  have eff: "ap_runs d = update_where (\<lambda>x. rn_id x = a) (\<lambda>x. x\<lparr>rn_status := RUN_CANCELLED\<rparr>) (ap_runs st)"
    "ap_next_id d = ap_next_id st" "ap_subjects d = ap_subjects st"
    using can r by (auto simp: cancel_approval_run_def Let_def engine_frames)
  then show "ap_subjects d = ap_subjects st" by simp
  show desk: "desk_of d = (desk_of st)\<lparr>dk_pending := dk_pending (desk_of st) - {(a, rn_subject r)}\<rparr>"
    using pending_settled [OF hr_invD(2) [OF i] m(1), of RUN_CANCELLED] by (intro desk_eqI) (simp_all add: eff m(2))
  show "sim st d"
  proof (rule simI)
    show "engine_inv d" using cancel_approval_run_inv [OF can hr_invD(1) [OF i]] .
    have "map (\<lambda>r. (rn_id r, rn_subject r)) (ap_runs d) = map (\<lambda>r. (rn_id r, rn_subject r)) (ap_runs st)"
      by (simp add: eff map_update_where_frame)
    then show "rows_ok d" using leave_runs_grow [of st d] hr_invD(3,8) [OF i] by (simp add: rows_ok_def eff)
    have "(a, rn_subject r) \<in> dk_pending (desk_of st)" using m r(2) by (auto simp: pending_of_def)
    then show "desk_step\<^sup>*\<^sup>* (desk_of st) (desk_of d)" unfolding desk by (intro r_into_rtranclp desk_step.dropped)
  qed
qed

lemma pending_run:
  assumes "hr_inv st" "(a, ref) \<in> dk_pending (desk_of st)"
  obtains r where "find_run st a = Some r" "rn_status r = RUN_PENDING" "rn_subject r = ref"
proof -
  from assms(2) obtain r where r: "r \<in> set (ap_runs st)" "rn_id r = a" "rn_subject r = ref" "rn_status r = RUN_PENDING"
    by (auto simp: pending_of_def)
  with find_run_mem [OF hr_invD(2) [OF assms(1)] r(1)] that show thesis by simp
qed

lemma calculate_sim: "sim st (fst (calculate_pay_run ck ops att i actor st))"
proof (cases "hr_inv st")
  case inv: True
  show ?thesis
  proof (cases "find_pay_run (pay st) i")
    case None
    then show ?thesis by (simp add: calculate_pay_run_def)
  next
    case (Some run)
    note st = pay_run_status [OF Some]
    have end_sim: "sim st (fst (then_do (atomically (bind_res (calculate_transaction ck att r d) (\<lambda>x. Inr (x, ()))) d)
        (\<lambda>_ x. give () (audit actor ''payroll.run.calculated'' i x))))"
      if "sim st d" "pr_id r = i" "pd_runs (pay d) = pd_runs (pay st)" "no_pending (desk_of d) (pay_run_ref i)"
        "pr_status run \<notin> {PR_APPROVED, PR_FINALIZED}" for r d
    proof -
      have "hr_inv d" using that(1) inv by (simp add: sim_def)
      then have "sim d x" if "calculate_transaction ck att r d = Inr x" for x
        using calculate_transaction_sim [OF that, of "pr_status run" "pr_approval_run run"] st
          \<open>pd_runs (pay d) = _\<close> \<open>pr_id r = i\<close> \<open>no_pending _ _\<close> \<open>pr_status run \<notin> _\<close> by simp
      with that(1) show ?thesis
        by (intro sim_trans [OF that(1)] then_do_sim atomically_sim) (auto intro: sim_audit)
    qed
    have link: "pr_approval_run run = Some b" if "(b, pay_run_ref i) \<in> dk_pending (desk_of st)" for b
      using rows_waitD(1) [OF hr_invD(6) [OF inv] that] st(1) by simp
    show ?thesis
    proof (cases "pending_approval st run")
      case None
      have "no_pending (desk_of st) (pay_run_ref i)"
        unfolding no_pending_def
      proof (intro allI notI)
        fix b assume b: "(b, pay_run_ref i) \<in> dk_pending (desk_of st)"
        obtain r where "find_run st b = Some r" "rn_status r = RUN_PENDING" by (rule pending_run [OF inv b])
        with link [OF b] None show False by (simp add: pending_approval_def)
      qed
      then show ?thesis using end_sim [OF sim_refl, of run] st(2) Some None by (simp add: calculate_pay_run_def)
    next
      case (Some a)
      then obtain r where r: "find_run st a = Some r" "rn_status r = RUN_PENDING" and a: "pr_approval_run run = Some a"
        by (auto simp: pending_approval_def split: option.splits if_splits)
      show ?thesis
      proof (cases "cancel_approval_run ck ops a actor None st")
        case (Inl e)
        with Some \<open>find_pay_run _ _ = Some run\<close> show ?thesis by (simp add: calculate_pay_run_def)
      next
        case (Inr d)
        note eff = drop_effect [OF Inr r inv]
        have "no_pending (desk_of d) (pay_run_ref i)"
          unfolding no_pending_def
        proof (intro allI notI)
          fix b assume "(b, pay_run_ref i) \<in> dk_pending (desk_of d)"
          then have b: "(b, pay_run_ref i) \<in> dk_pending (desk_of st)" "(b, pay_run_ref i) \<noteq> (a, rn_subject r)"
            by (simp_all add: eff(2))
          obtain q where "find_run st b = Some q" "rn_subject q = pay_run_ref i" by (rule pending_run [OF inv b(1)])
          with link [OF b(1)] a r(1) b(2) show False by simp
        qed
        then show ?thesis
          using end_sim [OF eff(1), of "run\<lparr>pr_approval_run := None\<rparr>"] st(2) Some Inr \<open>find_pay_run _ _ = Some run\<close> eff(3)
          by (simp add: calculate_pay_run_def)
      qed
    qed
  qed
qed (simp add: sim_def)

section \<open>Opening approvals\<close>

lemma payroll_approval_opens:
  assumes "create_payroll_approval_run ck subject kind org u e label amount st = Inr (st', run)"
  obtains w where "open_approval_run ck w subject kind org (map_option em_id e) u u label st = Inr (st', run)" "w \<in> set (ap_workflows st)"
proof (cases e)
  case None
  with assms obtain w where "get_default_workflow st org kind = Some w"
    "open_approval_run ck w subject kind org (map_option em_id e) u u label st = Inr (st', run)"
    by (auto simp: create_payroll_approval_run_def split: option.splits)
  with that show thesis
    by (auto simp: get_default_workflow_def default_workflows_def dest!: first_row_SomeD)
next
  case (Some x)
  with assms obtain w src where "resolve_workflow_with_source st x kind None (Some amount) empty_context = Inr (w, src)"
    "open_approval_run ck w subject kind org (map_option em_id e) u u label st = Inr (st', run)"
    by (auto simp: create_payroll_approval_run_def resolve_workflow_def)
  with that resolve_workflow_usable show thesis by blast
qed

lemma approval_opens:
  assumes "create_approval_run ck subject kind e act lt label amount cx st = Inr (st', run)"
  obtains w org q u a where "open_approval_run ck w subject kind org q u a label st = Inr (st', run)" "w \<in> set (ap_workflows st)"
proof -
  from assms obtain w src where "resolve_workflow_with_source st e kind lt amount cx = Inr (w, src)"
    "open_approval_run ck w subject kind (em_organisation e) (Some (em_id e)) (em_user e)
       (or_else act (em_user e)) label st = Inr (st', run)"
    by (auto simp: create_approval_run_def resolve_workflow_def)
  with that resolve_workflow_usable show thesis by blast
qed

lemma pending_append:
  "rn_status r = RUN_PENDING \<Longrightarrow> pending_of (rs @ [r]) = insert (rn_id r, rn_subject r) (pending_of rs)"
  by (auto simp: pending_of_def)

lemma open_facts:
  assumes "open_approval_run ck w subject kind org e u actor label st = Inr (d, run)" "w \<in> set (ap_workflows st)" "hr_inv st"
    "\<And>i. subject = leave_ref i \<Longrightarrow> i < ap_next_id st \<and> (\<forall>r \<in> set (ap_runs st). rn_subject r \<noteq> leave_ref i)"
  shows "engine_inv d" "leave_runs_ok d" "ap_subjects d = ap_subjects st" "rn_id run = ap_next_id st" "ap_next_id st < ap_next_id d"
    "desk_of d = (desk_of st)\<lparr>dk_pending := insert (ap_next_id st, subject) (dk_pending (desk_of st)), dk_next := ap_next_id d\<rparr>"
proof -
  note eff = open_effect [OF assms(1,3,2)]
  show "engine_inv d" "ap_subjects d = ap_subjects st" "rn_id run = ap_next_id st" "ap_next_id st < ap_next_id d" by (fact eff)+
  have "pending_of (ap_runs d) = insert (ap_next_id st, subject) (pending_of (ap_runs st))"
    using pending_append [OF eff(7), of "ap_runs st"] by (simp only: eff(4-6))
  with eff show "desk_of d = (desk_of st)\<lparr>dk_pending := insert (ap_next_id st, subject) (dk_pending (desk_of st)), dk_next := ap_next_id d\<rparr>"
    by (intro desk_eqI) simp_all
  show "leave_runs_ok d"
    unfolding leave_runs_ok_def eff(6)
  proof (intro ballI allI impI)
    fix r i assume r: "r \<in> set (ap_runs st @ [run])" "rn_subject r = leave_ref i"
    have old: "i < ap_next_id st \<and> (\<forall>q \<in> set (ap_runs st). rn_subject q = leave_ref i \<longrightarrow> rn_id q = rn_id p)"
      if "p \<in> set (ap_runs st)" "rn_subject p = leave_ref i" for p
      using hr_invD(3) [OF assms(3)] that unfolding leave_runs_ok_def by blast
    show "i < ap_next_id d \<and> (\<forall>r' \<in> set (ap_runs st @ [run]). rn_subject r' = leave_ref i \<longrightarrow> rn_id r' = rn_id r)"
    proof (cases "subject = leave_ref i")
      case True
      then have "r = run" using r assms(4) by auto
      with True assms(4) eff(3) show ?thesis by fastforce
    next
      case False
      then have "r \<in> set (ap_runs st)" using r eff(5) by auto
      with old [OF _ r(2)] False eff(3,5) show ?thesis by (auto intro: less_trans)
    qed
  qed
qed

lemma open_other_sim:
  assumes "open_approval_run ck w subject kind org e u actor label st = Inr (d, run)" "w \<in> set (ap_workflows st)" "fst subject \<notin> tracked"
  shows "sim st d"
proof (rule simI)
  assume i: "hr_inv st"
  note eff = open_facts [OF assms(1,2) i]
  have no: "subject \<noteq> leave_ref j" for j using untracked_refs [OF assms(3)] by blast
  show "engine_inv d" using eff(1) no by blast
  show "rows_ok d" using eff(2,3) hr_invD(8) [OF i] no unfolding rows_ok_def by metis
  have d: "desk_of d = (desk_of st)\<lparr>dk_pending := insert (ap_next_id st, subject) (dk_pending (desk_of st)), dk_next := ap_next_id d\<rparr>"
    "ap_next_id st < ap_next_id d" using eff(5,6) no by blast+
  show "desk_step\<^sup>*\<^sup>* (desk_of st) (desk_of d)"
    unfolding d(1) by (intro r_into_rtranclp desk_step.opened_other) (use d(2) assms(3) in simp_all)
qed

section \<open>Submission and finalisation of a pay run\<close>

lemma submit_run_sim:
  assumes sub: "submit_pay_run_for_approval ck i user e st = Inr st'"
  shows "sim st st'"
proof (rule simI)
  assume inv: "hr_inv st"
  obtain run where run: "find_pay_run (pay st) i = Some run" "pr_status run = PR_CALCULATED"
    using sub by (auto simp: submit_pay_run_for_approval_def split: option.splits if_splits)
  then obtain org u q d approval amount where
    op: "create_payroll_approval_run ck (pay_run_ref i) RK_PAYROLL_PROCESSING org u q (pr_name run) amount st = Inr (d, approval)"
    and st': "st' = update_pay_run i (\<lambda>r. r\<lparr>pr_approval_run := Some (rn_id approval), pr_status := PR_APPROVAL_PENDING,
                                 pr_submitted_at := Some (ck_now ck)\<rparr>) d"
    using sub by (auto simp: submit_pay_run_for_approval_def split: option.splits if_splits)
  obtain w where w: "open_approval_run ck w (pay_run_ref i) RK_PAYROLL_PROCESSING org (map_option em_id q) u u (pr_name run) st = Inr (d, approval)"
    "w \<in> set (ap_workflows st)"
    by (rule payroll_approval_opens [OF op])
  have eff: "engine_inv d" "leave_runs_ok d" "ap_subjects d = ap_subjects st" "rn_id approval = ap_next_id st" "ap_next_id st < ap_next_id d"
    "desk_of d = (desk_of st)\<lparr>dk_pending := insert (ap_next_id st, pay_run_ref i) (dk_pending (desk_of st)), dk_next := ap_next_id d\<rparr>"
    by (rule open_facts [OF w inv]; simp)+
  have fr: "ap_workflows st' = ap_workflows d" "ap_runs st' = ap_runs d" "ap_actions st' = ap_actions d" "ap_next_id st' = ap_next_id d"
    "timeoff st' = timeoff st" "expenses st' = expenses st"
    by (simp_all add: st' update_pay_run_def frame_simps eff(3))
  show "engine_inv st'" using engine_inv_cong [OF fr(1-4)] eff(1) by simp
  show "rows_ok st'" using leave_runs_grow [OF eff(2), of st'] hr_invD(8) [OF inv] by (simp add: rows_ok_def fr)
  note rt = pay_run_status [OF run(1)]
  have "run_table (pd_runs (pay st')) = (run_table (pd_runs (pay st)))(i := Some (PR_APPROVAL_PENDING, Some (ap_next_id st)))"
    unfolding st' by (simp add: update_pay_run_def frame_simps eff(3,4) run_status_update [where s = PR_APPROVAL_PENDING and l = "Some (ap_next_id st)"] rt)
  moreover have "pending_of (ap_runs d) = insert (ap_next_id st, pay_run_ref i) (pending_of (ap_runs st))"
    using arg_cong [OF eff(6), of dk_pending] by simp
  ultimately have "desk_of st' = (desk_of st)\<lparr>dk_runs := (dk_runs (desk_of st))(i := Some (PR_APPROVAL_PENDING, Some (ap_next_id st))),
      dk_pending := insert (ap_next_id st, pay_run_ref i) (dk_pending (desk_of st)), dk_next := ap_next_id d\<rparr>"
    by (intro desk_eqI) (simp_all add: fr)
  then show "desk_step\<^sup>*\<^sup>* (desk_of st) (desk_of st')"
    using desk_step.submitted [of "desk_of st" i "pr_approval_run run" "ap_next_id st" "ap_next_id d"] rt run(2) eff(5)
    by (simp add: r_into_rtranclp)
qed

lemma paid_sim: "sim st (mark_expense_claims_paid_for_pay_run_item ck x st)"
  by (rule claims_move_sim)
    (auto simp: mark_expense_claims_paid_for_pay_run_item_def frame_simps reimbursement_moves_def intro!: claim_ids_update claims_move_update)

lemma frame_payslip: "frame st (write_payslip run x sn st)"
  by (auto simp: write_payslip_def Let_def intro!: frame_intros)

lemma finalize_item_keeps:
  "sim st (finalize_item ck run x st)" "pd_runs (pay (finalize_item ck run x st)) = pd_runs (pay st)"
proof -
  have fr: "frame st (include_arrears e i (write_payslip run x sn st))" for e i sn
    unfolding include_arrears_def by (rule frame_intros(4) [OF frame_payslip]) simp
  show "sim st (finalize_item ck run x st)"
    by (auto simp: finalize_item_def split: option.split intro: sim_trans [OF frame_sim [OF fr] paid_sim])
  show "pd_runs (pay (finalize_item ck run x st)) = pd_runs (pay st)"
    using fr by (auto simp: finalize_item_def mark_expense_claims_paid_for_pay_run_item_def frame_simps frame_def split: option.split)
qed

lemma finalize_items_keep:
  "sim st (fold (finalize_item ck run) xs st) \<and> pd_runs (pay (fold (finalize_item ck run) xs st)) = pd_runs (pay st)"
  by (induction xs arbitrary: st) (auto simp: finalize_item_keeps intro: sim_trans [OF finalize_item_keeps(1)])

lemma frame_notify_payslips: "frame st (notify_employees_payroll_finalized actor run st)"
  unfolding notify_employees_payroll_finalized_def
  by (rule frame_fold) (auto simp: notify_payslip_def split: option.split intro!: frame_intros)

lemma finalize_run_sim:
  assumes fin: "finalize_pay_run ck i actor skip st = Inr st'"
  shows "sim st st'"
proof -
  obtain run where run: "find_pay_run (pay st) i = Some run" "pr_status run \<in> {PR_APPROVED, PR_CALCULATED}"
    using fin by (auto simp: finalize_pay_run_def split: option.splits if_splits)
  define d where "d = fold (finalize_item ck run) (by_employee_code (ap_org st) (ready_items (pay st) i)) st"
  let ?f = "\<lambda>r. r\<lparr>pr_status := PR_FINALIZED, pr_finalized_at := Some (ck_now ck)\<rparr>"
  have st': "st' = audit actor ''payroll.run.finalized'' i (notify_employees_payroll_finalized actor run (update_pay_run i ?f d))"
    using fin run(1) by (auto simp: finalize_pay_run_def Let_def d_def split: option.splits if_splits)
  have d: "sim st d" "pd_runs (pay d) = pd_runs (pay st)" using finalize_items_keep by (simp_all add: d_def)
  note rt = pay_run_status [OF run(1), folded d(2)]
  have "sim d (update_pay_run i ?f d)"
  proof (rule move_sim)
    have "run_table (pd_runs (pay (update_pay_run i ?f d))) = (run_table (pd_runs (pay d)))(i := map_option (\<lambda>(q, l). (PR_FINALIZED, l)) (run_table (pd_runs (pay d)) i))"
      unfolding run_table_def update_pay_run_def frame_simps by (simp, rule table_update) simp
    then have "desk_of (update_pay_run i ?f d) =
        (desk_of d)\<lparr>dk_runs := (dk_runs (desk_of d))(i := Some (PR_FINALIZED, pr_approval_run run))\<rparr>"
      using rt by (intro desk_eqI) (simp_all add: update_pay_run_def frame_simps)
    then show "desk_step\<^sup>*\<^sup>* (desk_of d) (desk_of (update_pay_run i ?f d))"
      using desk_step.finalized [of "desk_of d" i "pr_status run" "pr_approval_run run"] rt run(2) by (simp add: r_into_rtranclp)
  qed (simp_all add: update_pay_run_def frame_simps hr_invD)
  then show ?thesis
    unfolding st' by (intro sim_audit sim_trans [OF _ frame_sim [OF frame_notify_payslips]]) (rule sim_trans [OF d(1)])
qed

section \<open>Expense claims\<close>

text \<open>The claim a request names, as it is stored.\<close>

definition stored_claim :: "hr_state \<Rightarrow> expense_claim \<Rightarrow> bool" where
  "stored_claim st c \<longleftrightarrow> first_row (\<lambda>x. xm_id x = xm_id c) (xd_claims (expenses st)) = Some c"

lemma stored_claim_status:
  "stored_claim st c \<Longrightarrow> claim_table (xd_claims (expenses st)) (xm_id c) = Some (xm_status c, xm_reimbursement_status c, xm_approval_run c)"
  by (simp add: stored_claim_def claim_table_def table_first)

lemma create_claim_sim:
  assumes "create_expense_claim e title day lines actor policy currency st = Inr (st', claim)"
  shows "sim st st'"
proof -
  have c: "xm_id claim = ap_next_id st" "xm_status claim = EC_DRAFT" "xm_reimbursement_status claim = RB_NOT_READY"
      "xm_approval_run claim = None"
    and st': "st' = audit actor ''expense.claim.created'' (xm_id claim)
      (update_expenses (\<lambda>x. x\<lparr>xd_claims := xd_claims x @ [claim]\<rparr>) (draw_id st))"
    using assms by (auto simp: create_expense_claim_def Let_def)
  let ?d = "update_expenses (\<lambda>x. x\<lparr>xd_claims := xd_claims x @ [claim]\<rparr>) (draw_id st)"
  have "sim st ?d"
  proof (rule move_sim)
    assume i: "hr_inv st"
    note none = fresh_rows(2) [OF i order_refl, unfolded claim_table_def]
    show "distinct (map xm_id (xd_claims (expenses ?d)))"
      using hr_invD(8) [OF i] table_absent [OF none] by (simp add: frame_simps c)
    have "claim_table (xd_claims (expenses ?d)) =
        (claim_table (xd_claims (expenses st)))(ap_next_id st := Some (EC_DRAFT, RB_NOT_READY, None))"
      using table_append [of xm_id "\<lambda>c. (xm_status c, xm_reimbursement_status c, xm_approval_run c)" "xd_claims (expenses st)" claim] none
      by (simp add: frame_simps claim_table_def c)
    then have "desk_of ?d = (desk_of st)\<lparr>dk_claims := (dk_claims (desk_of st))(ap_next_id st := Some (EC_DRAFT, RB_NOT_READY, None)),
        dk_next := Suc (ap_next_id st)\<rparr>"
      by (intro desk_eqI) (simp_all add: frame_simps)
    then show "desk_step\<^sup>*\<^sup>* (desk_of st) (desk_of ?d)"
      using desk_step.new_claim [of "desk_of st" "ap_next_id st" "Suc (ap_next_id st)"] by (simp add: r_into_rtranclp)
  qed (simp_all add: frame_simps)
  then show ?thesis unfolding st' by (rule sim_audit)
qed

lemma edit_claim_sim:
  assumes "\<And>c. xm_id (f c) = xm_id c \<and> xm_status (f c) = xm_status c \<and> xm_reimbursement_status (f c) = xm_reimbursement_status c \<and>
      xm_approval_run (f c) = xm_approval_run c"
  shows "sim st (update_claim i f st)"
proof (rule claims_move_sim)
  have "claim_table (xd_claims (expenses (update_claim i f st))) = claim_table (xd_claims (expenses st))"
    unfolding claim_table_def frame_simps by (rule table_frame) (simp add: assms)
  then show "claims_move st (update_claim i f st)" by (simp add: claims_move_def)
qed (simp_all add: frame_simps claim_ids_update assms)

lemma update_claim_sim: "update_expense_claim claim e title day lines actor policy currency st = Inr st' \<Longrightarrow> sim st st'"
  by (auto simp: update_expense_claim_def split: if_splits intro!: sim_audit edit_claim_sim)

lemma upload_sim: "sim st (upload_expense_receipt claim n user st)"
  unfolding upload_expense_receipt_def by (intro sim_audit edit_claim_sim) simp

lemma submit_claim_sim:
  assumes sub: "submit_expense_claim ck claim e actor st = Inr st'" and row: "stored_claim st claim"
  shows "sim st st'"
proof (rule simI)
  assume inv: "hr_inv st"
  let ?i = "xm_id claim"
  have s: "xm_status claim \<in> {EC_DRAFT, EC_REJECTED}"
    using sub by (auto simp: submit_expense_claim_def split: if_splits)
  obtain d run where
    op: "create_approval_run ck (claim_ref ?i) RK_EXPENSE_CLAIM e actor None (xm_title claim) (Some (total_amount claim)) empty_context st = Inr (d, run)"
    and st': "st' = audit (Some (or_else actor (em_user e))) ''expense.claim.submitted'' ?i
      (update_claim ?i (\<lambda>c. c\<lparr>xm_approval_run := Some (rn_id run), xm_status := EC_SUBMITTED,
                           xm_reimbursement_status := RB_NOT_READY, xm_submitted_at := Some (ck_now ck)\<rparr>) d)"
    using sub by (auto simp: submit_expense_claim_def split: option.splits if_splits)
  obtain w g q u a where w: "open_approval_run ck w (claim_ref ?i) RK_EXPENSE_CLAIM g q u a (xm_title claim) st = Inr (d, run)"
    "w \<in> set (ap_workflows st)"
    by (rule approval_opens [OF op])
  have eff: "engine_inv d" "leave_runs_ok d" "ap_subjects d = ap_subjects st" "rn_id run = ap_next_id st" "ap_next_id st < ap_next_id d"
    "desk_of d = (desk_of st)\<lparr>dk_pending := insert (ap_next_id st, claim_ref ?i) (dk_pending (desk_of st)), dk_next := ap_next_id d\<rparr>"
    by (rule open_facts [OF w inv]; simp)+
  have fr: "ap_workflows st' = ap_workflows d" "ap_runs st' = ap_runs d" "ap_actions st' = ap_actions d" "ap_next_id st' = ap_next_id d"
    "timeoff st' = timeoff st" "pay st' = pay st"
    by (simp_all add: st' frame_simps eff(3))
  show "engine_inv st'" using engine_inv_cong [OF fr(1-4)] eff(1) by simp
  show "rows_ok st'"
    using leave_runs_grow [OF eff(2), of st'] hr_invD(8) [OF inv] by (simp add: rows_ok_def fr) (simp add: st' frame_simps eff(3) claim_ids_update)
  have "claim_table (xd_claims (expenses st')) = (claim_table (xd_claims (expenses st)))(?i := map_option
      (\<lambda>_. (EC_SUBMITTED, RB_NOT_READY, Some (ap_next_id st))) (claim_table (xd_claims (expenses st)) ?i))"
    unfolding claim_table_def st' frame_simps eff(3,4) by (rule table_update) simp
  moreover have "pending_of (ap_runs d) = insert (ap_next_id st, claim_ref ?i) (pending_of (ap_runs st))"
    using arg_cong [OF eff(6), of dk_pending] by simp
  ultimately have "desk_of st' = (desk_of st)\<lparr>dk_claims := (dk_claims (desk_of st))(?i := Some (EC_SUBMITTED, RB_NOT_READY, Some (ap_next_id st))),
      dk_pending := insert (ap_next_id st, claim_ref ?i) (dk_pending (desk_of st)), dk_next := ap_next_id d\<rparr>"
    by (intro desk_eqI) (simp_all add: fr stored_claim_status [OF row])
  then show "desk_step\<^sup>*\<^sup>* (desk_of st) (desk_of st')"
    using desk_step.submitted_claim [of "desk_of st" ?i "xm_status claim" "xm_reimbursement_status claim" "xm_approval_run claim"
        "ap_next_id st" "ap_next_id d"] stored_claim_status [OF row] s eff(5)
    by (simp add: r_into_rtranclp)
qed

lemma cancel_claim_sim:
  assumes "cancel_expense_claim claim e st = Inr st'" and row: "stored_claim st claim"
  shows "sim st st'"
proof (rule move_sim)
  let ?i = "xm_id claim"
  have s: "xm_status claim \<in> {EC_DRAFT, EC_REJECTED}" and st': "st' = update_claim ?i (\<lambda>c. c\<lparr>xm_status := EC_CANCELLED\<rparr>) st"
    using assms(1) by (auto simp: cancel_expense_claim_def split: if_splits)
  show "distinct (map xm_id (xd_claims (expenses st')))" if "hr_inv st"
    using hr_invD(8) [OF that] by (simp add: st' frame_simps claim_ids_update)
  have "claim_table (xd_claims (expenses st')) = (claim_table (xd_claims (expenses st)))(?i := map_option
      (\<lambda>(s, r, l). (EC_CANCELLED, r, l)) (claim_table (xd_claims (expenses st)) ?i))"
    unfolding claim_table_def st' frame_simps by (rule table_update) simp
  then have "desk_of st' = (desk_of st)\<lparr>dk_claims := (dk_claims (desk_of st))(?i := Some (EC_CANCELLED,
      xm_reimbursement_status claim, xm_approval_run claim))\<rparr>"
    by (intro desk_eqI) (simp_all add: st' frame_simps stored_claim_status [OF row])
  then show "desk_step\<^sup>*\<^sup>* (desk_of st) (desk_of st')" if "hr_inv st"
    using desk_step.cancelled_claim [of "desk_of st" ?i "xm_status claim" "xm_reimbursement_status claim" "xm_approval_run claim"]
      stored_claim_status [OF row] s
    by (simp add: r_into_rtranclp)
qed (use assms(1) in \<open>auto simp: cancel_expense_claim_def frame_simps split: if_splits\<close>)

text \<open>Changes of the organisation and of the approval configuration between calls.\<close>

lemma configure_sim:
  assumes st': "st' = st\<lparr>ap_org := og, ap_workflows := ws, ap_rules := rs, ap_assignments := as, ap_next_id := n\<rparr>"
    and ws: "wf_workflows ws" and kept: "keeps_stages st st'" and n: "ap_next_id st \<le> n"
  shows "sim st st'"
proof (rule simI)
  assume inv: "hr_inv st"
  show "engine_inv st'"
    by (rule configure_inv [where og = og and rs = rs and as = as and ss = "ap_subjects st", OF _ ws kept n]) (use inv in \<open>simp_all add: st' hr_inv_def\<close>)
  show "rows_ok st'"
    using leave_runs_grow [OF _, of st st'] inv n by (simp add: hr_inv_def rows_ok_def st')
  have "desk_of st' = (desk_of st)\<lparr>dk_next := n\<rparr>" by (intro desk_eqI) (simp_all add: st')
  then show "desk_step\<^sup>*\<^sup>* (desk_of st) (desk_of st')"
    using desk_step.ids [of "desk_of st" n] n by (simp add: r_into_rtranclp)
qed

section \<open>Time off\<close>

lemma frame_balance_row: "get_or_create_balance_row e lt s t st = (d, b, created) \<Longrightarrow> frame st d"
  by (auto simp: get_or_create_balance_row_def Let_def split: option.splits intro!: frame_intros)

lemma frame_leave_balance:
  assumes "get_or_create_leave_balance ck e lt as_of st = Inr (d, b)"
  shows "frame st d"
proof -
  obtain s t where w: "bind_res (cycle_of_type (timeoff st) (lt_id lt)) (\<lambda>cycle. get_cycle_window cycle e (or_else as_of (ck_today ck))) = Inr (s, t)"
    using assms by (auto simp: get_or_create_leave_balance_def split del: if_split)
  obtain x row created where row: "get_or_create_balance_row (em_id e) (lt_id lt) s t st = (x, row, created)" by (metis prod_cases3)
  show ?thesis
    using assms w frame_balance_row [OF row]
    by (auto simp: get_or_create_leave_balance_def row update_balance_def add_ledger_def Let_def intro!: frame_intros)
qed

lemma frame_balance_step: "frame st (fst (atomically (get_or_create_leave_balance ck e lt as_of st) st))"
  by (rule frame_atomically) (rule frame_leave_balance)

lemma frame_refresh: "frame st (fst (refresh_balance ck e lt st))"
  unfolding refresh_balance_def as_step_def by (rule frame_atomically) (auto dest: frame_leave_balance)

lemma frame_check_balance: "frame st (fst (check_leave_balance ck e lt u s st))"
  by (auto simp: check_leave_balance_def validate_leave_balance_def intro!: frame_then_do frame_balance_step)

lemma reserve_leaves: "td_leave_requests (fst (reserve_from today r as u db)) = td_leave_requests db"
  by (induction today r as u db rule: reserve_from.induct) (auto simp: Let_def)

lemma frame_reserve: "frame st (fst (reserve_comp_off_redemption today r st))"
  using reserve_leaves [of today r "accruals_in_order (timeoff st) (lr_employee r)" "quantize2 (lr_total_units r)" "timeoff st"]
  by (auto simp: reserve_comp_off_redemption_def Let_def split: prod.splits intro!: frame_timeoff)

lemma leave_row:
  "leave_table (td_leave_requests (timeoff st)) i = Some x \<Longrightarrow> \<exists>r \<in> set (td_leave_requests (timeoff st)). x = booking_of r \<and> lr_id r = i"
  by (auto simp: leave_table_def table_first dest!: first_row_SomeD)

lemma booking_frames [simp]:
  "lr_status (booking_of r) = lr_status r" "lr_id (booking_of r) = lr_id r" "active_request (booking_of r) = active_request r"
  "clash (booking_of x) y = clash x y" "clash x (booking_of y) = clash x y"
  by (simp_all add: booking_of_def active_request_def clash_def leave_requests_overlap_def half_session_of_def)

text \<open>The overlap check of a new request rules out every clash.\<close>

lemma no_clash_checked:
  assumes "\<not> list_ex (\<lambda>r. leave_requests_overlap r s t a b) (list_overlapping_leave_requests (timeoff st) e s t)"
    "r \<in> set (td_leave_requests (timeoff st))"
  shows "\<not> clash r (new_leave_request i e lt s t a b)"
  using assms by (auto simp: list_overlapping_leave_requests_def list_ex_iff clash_def new_leave_request_def active_request_def)

lemma file_leave_sim:
  assumes "\<not> list_ex (\<lambda>r. leave_requests_overlap r s t a b) (list_overlapping_leave_requests (timeoff st) e s t)"
  shows "sim st (update_timeoff (\<lambda>x. x\<lparr>td_leave_requests := td_leave_requests x @ [new_leave_request (ap_next_id st) e lt s t a b]\<rparr>) (draw_id st))"
    (is "sim st ?d")
proof (rule move_sim)
  assume i: "hr_inv st"
  let ?r = "new_leave_request (ap_next_id st) e lt s t a b"
  have r: "lr_id ?r = ap_next_id st" "lr_status ?r = LR_PENDING" "booking_of ?r = ?r"
    by (simp_all add: new_leave_request_def booking_of_def)
  have "leave_table (td_leave_requests (timeoff ?d)) = (leave_table (td_leave_requests (timeoff st)))(ap_next_id st := Some ?r)"
    using table_append [of lr_id booking_of "td_leave_requests (timeoff st)" ?r] fresh_rows(3) [OF i order_refl]
    by (simp add: leave_table_def frame_simps r)
  then have d: "desk_of ?d = (desk_of st)\<lparr>dk_leaves := (dk_leaves (desk_of st))(ap_next_id st := Some ?r), dk_next := Suc (ap_next_id st)\<rparr>"
    by (intro desk_eqI) (simp_all add: frame_simps)
  have "\<not> clash x ?r" if "dk_leaves (desk_of st) j = Some x" for j x
    using leave_row that no_clash_checked [OF assms] by fastforce
  then show "desk_step\<^sup>*\<^sup>* (desk_of st) (desk_of ?d)"
    unfolding d by (intro r_into_rtranclp desk_step.new_leave) (simp_all add: r)
qed (simp_all add: frame_simps hr_invD)

end
