(* ===== verification/DeskLeaves.thy ===== *)
theory DeskLeaves
  imports DeskOperations
begin

text \<open>
  The rest of time off as moves of the desk: filing and withdrawing leave, on-duty and encashment
  requests, the templates and assignments of payroll, and the nightly lapse.
\<close>

section \<open>Filing leave\<close>

lemma pending_ofD: "(a, ref) \<in> pending_of rs \<Longrightarrow> \<exists>r \<in> set rs. rn_id r = a \<and> rn_subject r = ref"
  by (auto simp: pending_of_def)

lemma open_leave_sim:
  assumes op: "create_approval_run ck (leave_ref i) RK_LEAVE e actor lt label amount cx st = Inr (d, run)"
    and row: "leave_table (td_leave_requests (timeoff st)) i = Some r" "lr_status r = LR_PENDING"
    and fresh: "i < ap_next_id st" "\<And>x. x \<in> set (ap_runs st) \<Longrightarrow> rn_subject x \<noteq> leave_ref i"
  shows "sim st d"
proof (rule simI)
  assume inv: "hr_inv st"
  obtain w g q u a where w: "open_approval_run ck w (leave_ref i) RK_LEAVE g q u a label st = Inr (d, run)" "w \<in> set (ap_workflows st)"
    by (rule approval_opens [OF op])
  have eff: "engine_inv d" "leave_runs_ok d" "ap_subjects d = ap_subjects st" "ap_next_id st < ap_next_id d"
    "desk_of d = (desk_of st)\<lparr>dk_pending := insert (ap_next_id st, leave_ref i) (dk_pending (desk_of st)), dk_next := ap_next_id d\<rparr>"
    by (rule open_facts [OF w inv]; use fresh in simp)+
  show "engine_inv d" by (fact eff(1))
  show "rows_ok d" using eff(2) hr_invD(8) [OF inv] by (simp add: rows_ok_def eff(3))
  have "no_pending (desk_of st) (leave_ref i)" by (metis no_pending_def pending_ofD desk_of_simps(4) fresh(2))
  then show "desk_step\<^sup>*\<^sup>* (desk_of st) (desk_of d)"
    unfolding eff(5) using row eff(4) by (intro r_into_rtranclp desk_step.opened_leave [of _ _ r]) simp_all
qed

lemma no_run_of_new_row: "hr_inv st \<Longrightarrow> ap_next_id st \<le> i \<Longrightarrow> x \<in> set (ap_runs st) \<Longrightarrow> rn_subject x \<noteq> leave_ref i"
  using hr_invD(3) unfolding leave_runs_ok_def by (meson leD)

lemma frame_leave_table:
  "frame st d \<Longrightarrow> leave_table (td_leave_requests (timeoff d)) = leave_table (td_leave_requests (timeoff st))"
  "frame st d \<Longrightarrow> ap_runs d = ap_runs st" "frame st d \<Longrightarrow> ap_next_id st \<le> ap_next_id d"
  by (simp_all add: frame_def)

lemma open_leave_request_sim:
  assumes row: "leave_table (td_leave_requests (timeoff st)) (lr_id r) = Some x" "lr_status x = LR_PENDING"
    and fresh: "lr_id r < ap_next_id st" "\<And>y. y \<in> set (ap_runs st) \<Longrightarrow> rn_subject y \<noteq> leave_ref (lr_id r)"
  shows "sim st (fst (open_leave_request ck e lt r actor st))"
proof -
  let ?reserve = "if is_comp_off_leave_type lt then reserve_comp_off_redemption (ck_today ck) r st else give () st"
  have fr: "frame st (fst ?reserve)" by (simp add: frame_reserve)
  have last: "sim d (fst (then_do (if is_comp_off_leave_type lt then give () d else refresh_balance ck e lt d)
      (\<lambda>_ d. give (lr_id r) (audit a ev t d))))" for d a ev t
    by (auto intro!: then_do_sim intro: frame_sim frame_refresh)
  have op: "sim d (fst (as_step (bind_res (create_approval_run ck (leave_ref (lr_id r)) RK_LEAVE e actor l label amount cx d)
      (\<lambda>(x, _). Inr x)) d))" if "frame st d" for d l label amount cx
    using row fresh frame_leave_table [OF that]
    by (intro as_step_sim) (auto intro!: open_leave_sim [where i = "lr_id r" and r = x])
  show ?thesis
    unfolding open_leave_request_def
  proof (rule then_do_sim [OF frame_sim [OF fr]])
    fix y and d :: hr_state
    assume "?reserve = (d, Inr y)"
    with fr have "frame st d" by (metis fst_conv)
    then show "sim d (fst (then_do (as_step (bind_res (create_approval_run ck (leave_ref (lr_id r)) RK_LEAVE e actor (Some (lt_id lt))
                (lt_name lt @ '': '' @ isoformat (lr_start_date r) @ '' to '' @ isoformat (lr_end_date r)) None empty_context d)
                (\<lambda>(x, _). Inr x)) d) (\<lambda>_. \<lambda>d.
     then_do (if is_comp_off_leave_type lt then give () d else refresh_balance ck e lt d) (\<lambda>_. \<lambda>d.
       give (lr_id r) (audit (Some (or_else actor (em_user e))) ''leave.request.created'' (lr_id r) d)))))"
      by (intro then_do_sim op last)
  qed
qed

lemma create_leave_sim: "sim st (fst (create_leave_request ck e lt s t a b actor st))"
proof (cases "t < s \<or> list_ex (\<lambda>r. leave_requests_overlap r s t a b) (list_overlapping_leave_requests (timeoff st) (em_id e) s t)")
  case False
  let ?check = "check_leave_balance ck e lt (leave_request_units s t a b) s st"
  have "sim st (fst (then_do ?check (\<lambda>_ d.
             let row = new_leave_request (ap_next_id d) (em_id e) (lt_id lt) s t a b
             in open_leave_request ck e lt row actor
                  (update_timeoff (\<lambda>x. x\<lparr>td_leave_requests := td_leave_requests x @ [row]\<rparr>) (draw_id d)))))"
  proof (rule then_do_sim)
    show "sim st (fst ?check)" by (rule frame_sim [OF frame_check_balance])
    fix u and d :: hr_state
    assume "?check = (d, Inr u)"
    then have fr: "frame st d" using frame_check_balance by (metis fst_conv)
    then have free: "\<not> list_ex (\<lambda>r. leave_requests_overlap r s t a b) (list_overlapping_leave_requests (timeoff d) (em_id e) s t)"
      using False by (simp add: list_overlapping_leave_requests_def frame_def)
    let ?row = "new_leave_request (ap_next_id d) (em_id e) (lt_id lt) s t a b"
    let ?d = "update_timeoff (\<lambda>x. x\<lparr>td_leave_requests := td_leave_requests x @ [?row]\<rparr>) (draw_id d)"
    have filed: "sim d ?d" by (rule file_leave_sim [OF free])
    have "sim d (fst (open_leave_request ck e lt ?row actor ?d))"
    proof (cases "hr_inv d")
      case True
      have id: "lr_id ?row = ap_next_id d" "lr_status ?row = LR_PENDING" by (simp_all add: new_leave_request_def)
      have "leave_table (td_leave_requests (timeoff ?d)) (lr_id ?row) = Some (booking_of ?row)"
        using table_append [of lr_id booking_of "td_leave_requests (timeoff d)" ?row] fresh_rows(3) [OF True order_refl]
        by (simp add: leave_table_def frame_simps id)
      then have "sim ?d (fst (open_leave_request ck e lt ?row actor ?d))"
        by (rule open_leave_request_sim)
          (use no_run_of_new_row [OF True order_refl] in \<open>simp_all add: frame_simps id\<close>)
      with filed show ?thesis by (rule sim_trans)
    qed (simp add: sim_def)
    then show "sim d (fst (let row = ?row in open_leave_request ck e lt row actor
                  (update_timeoff (\<lambda>x. x\<lparr>td_leave_requests := td_leave_requests x @ [row]\<rparr>) (draw_id d))))"
      by (simp add: Let_def)
  qed
  with False show ?thesis by (simp add: create_leave_request_def)
qed (auto simp: create_leave_request_def)

section \<open>Withdrawal\<close>

lemma decide_leave_total: "\<exists>d. decide_subject ck (leave_ref i) s reason db = Inr d"
  by (simp add: decide_subject_def hr_handle_def leave_ref_def split: option.split)

text \<open>The request a withdrawal names, as it is stored.\<close>

definition stored_leave :: "hr_state \<Rightarrow> leave_request \<Rightarrow> bool" where
  "stored_leave st r \<longleftrightarrow> first_row (\<lambda>x. lr_id x = lr_id r) (td_leave_requests (timeoff st)) = Some r"

lemma run_of_subject_mem: "run_of_subject st ref = Some r \<Longrightarrow> r \<in> set (ap_runs st) \<and> rn_subject r = ref"
  by (auto simp: run_of_subject_def dest: first_row_SomeD)

lemma run_of_subject_none: "run_of_subject st ref = None \<Longrightarrow> x \<in> set (ap_runs st) \<Longrightarrow> rn_subject x \<noteq> ref"
  by (auto simp: run_of_subject_def first_row_None_iff)

lemma withdraw_desk:
  assumes inv: "hr_inv st" and row: "stored_leave st r" "lr_status r \<in> {LR_PENDING, LR_APPROVED}"
  defines "d \<equiv> update_leave_request (lr_id r) (\<lambda>x. x\<lparr>lr_status := LR_WITHDRAWN\<rparr>) st"
  shows "sim st (fst (cancel_run_of_subject ck (hr_ops ck) (leave_ref (lr_id r)) actor d))"
proof -
  let ?i = "lr_id r" and ?x = "fst (cancel_run_of_subject ck (hr_ops ck) (leave_ref (lr_id r)) actor d)"
  let ?f = "\<lambda>x. x\<lparr>lr_status := LR_WITHDRAWN\<rparr>"
  have fr: "ap_workflows d = ap_workflows st" "ap_runs d = ap_runs st" "ap_actions d = ap_actions st" "ap_next_id d = ap_next_id st"
    "pay d = pay st" "expenses d = expenses st"
    by (simp_all add: d_def update_leave_request_def frame_simps)
  have ed: "engine_inv d" using engine_inv_cong [OF fr(1-4)] hr_invD(1) [OF inv] by simp
  have kd: "keys_ok d" using ed by (simp add: engine_inv_def)
  have lt: "leave_table (td_leave_requests (timeoff st)) ?i = Some (booking_of r)"
    using row(1) by (simp add: leave_table_def table_first stored_leave_def)
  have ld: "leave_table (td_leave_requests (timeoff d)) = (leave_table (td_leave_requests (timeoff st)))(?i := Some (booking_of r\<lparr>lr_status := LR_WITHDRAWN\<rparr>))"
    using table_update [of lr_id ?i ?f booking_of ?f "td_leave_requests (timeoff st)"] lt
    by (simp add: d_def update_leave_request_def frame_simps leave_table_def booking_of_def)
  let ?D = "(desk_of st)\<lparr>dk_leaves := (dk_leaves (desk_of st))(?i := Some (booking_of r\<lparr>lr_status := LR_WITHDRAWN\<rparr>)),
      dk_pending := {x \<in> dk_pending (desk_of st). snd x \<noteq> leave_ref ?i}\<rparr>"
  have step: "desk_step\<^sup>*\<^sup>* (desk_of st) ?D"
    by (intro r_into_rtranclp desk_step.withdrawn) (use lt row(2) in \<open>simp_all add: active_request_def\<close>)
  have "engine_inv ?x \<and> rows_ok ?x \<and> desk_of ?x = ?D"
  proof (cases "run_of_subject d (leave_ref ?i)")
    case None
    have "snd p \<noteq> leave_ref ?i" if "p \<in> pending_of (ap_runs st)" for p
      using run_of_subject_none [OF None] that by (auto simp: pending_of_def fr)
    then have "desk_of d = ?D" by (intro desk_eqI) (auto simp: fr ld)
    moreover have "rows_ok d" using leave_runs_grow [of st d] hr_invD(3,8) [OF inv] by (simp add: rows_ok_def fr)
    ultimately show ?thesis using None ed by (simp add: cancel_run_of_subject_def)
  next
    case (Some q)
    note q = run_of_subject_mem [OF Some]
    have only: "rn_id p = rn_id q" if "p \<in> set (ap_runs st)" "rn_subject p = leave_ref ?i" for p
      using hr_invD(3) [OF inv] that q unfolding leave_runs_ok_def fr by blast
    have fq: "find_run d (rn_id q) = Some q" using find_run_mem [OF kd] q by simp
    let ?e = "update_actions (\<lambda>a. ac_run a = rn_id q \<and> ac_status a = ACT_PENDING)
      (\<lambda>a. a\<lparr>ac_status := ACT_CANCELLED, ac_acted_at := Some (ck_now ck)\<rparr>) (update_run (rn_id q) (\<lambda>r. r\<lparr>rn_status := RUN_CANCELLED\<rparr>) d)"
    obtain z where "decide_subject ck (rn_subject q) SUBJECT_WITHDRAWN [] (ap_subjects ?e) = Inr z"
      unfolding conjunct2 [OF q] using decide_leave_total by blast
    then have "\<exists>x. cancel_approval_run ck (hr_ops ck) (rn_id q) actor (Some SUBJECT_WITHDRAWN) d = Inr x"
      by (simp add: cancel_approval_run_def fq Let_def apply_subject_status_hr)
    then obtain x where x: "cancel_approval_run ck (hr_ops ck) (rn_id q) actor (Some SUBJECT_WITHDRAWN) d = Inr x" ..
    then have xe: "?x = x" using Some by (simp add: cancel_run_of_subject_def as_step_def)
    have ex: "engine_inv x" using cancel_approval_run_inv [OF x ed] .
    have pend: "{p \<in> pending_of (ap_runs st). snd p \<noteq> leave_ref ?i} = pending_of (ap_runs st) - {(rn_id q, leave_ref ?i)}"
      using only by (auto simp: pending_of_def)
    have "rows_ok x \<and> desk_of x = ?D"
    proof (cases "rn_status q = RUN_PENDING")
      case False
      then have "x = d" using x by (simp add: cancel_approval_run_def fq)
      moreover have "(rn_id q, leave_ref ?i) \<notin> pending_of (ap_runs st)"
        using False q same_run [OF kd _ conjunct1 [OF q]] by (auto simp: pending_of_def fr)
      then have "desk_of d = ?D" by (intro desk_eqI) (simp_all add: fr ld pend)
      moreover have "rows_ok d" using leave_runs_grow [of st d] hr_invD(3,8) [OF inv] by (simp add: rows_ok_def fr)
      ultimately show ?thesis by simp
    next
      case True
      have s: "settled ck q RUN_CANCELLED SUBJECT_WITHDRAWN [] d x"
        using x True q by (auto simp: cancel_approval_run_def fq Let_def apply_subject_status_hr settled_def engine_frames)
      have "map (\<lambda>r. (rn_id r, rn_subject r)) (ap_runs x) = map (\<lambda>r. (rn_id r, rn_subject r)) (ap_runs st)"
        using s by (simp add: settled_def map_update_where_frame fr)
      moreover have "xd_claims (expenses x) = xd_claims (expenses st)"
        using s q decide_claims [of ck "rn_subject q" SUBJECT_WITHDRAWN "[]" "ap_subjects d"] by (simp add: settled_def fr)
      ultimately have "rows_ok x"
        using leave_runs_grow [of st x] hr_invD(3,8) [OF inv] s by (simp add: rows_ok_def settled_def fr)
      moreover have "desk_of x = ?D"
        unfolding settled_desk [OF s kd] using q
        by (intro desk_eqI) (simp_all add: decide_row_frames fr ld pend leave_status_of_def)
      ultimately show ?thesis ..
    qed
    with ex show ?thesis by (simp add: xe)
  qed
  with step show ?thesis by (intro simI) simp_all
qed

lemma withdraw_leave_sim:
  assumes row: "stored_leave st r"
  shows "sim st (fst (withdraw_leave_request ck (hr_ops ck) r e lt actor st))"
proof (cases "hr_inv st \<and> lr_status r \<in> {LR_PENDING, LR_APPROVED}")
  case True
  have sync: "frame d (update_timeoff (sync_comp_off_redemptions_for_leave_request r LR_WITHDRAWN) d)" for d
    by (rule frame_timeoff) (simp add: sync_comp_off_redemptions_for_leave_request_def split: option.split)
  have "sim d (fst (then_do (let x = update_timeoff (sync_comp_off_redemptions_for_leave_request r LR_WITHDRAWN) d
                 in if is_comp_off_leave_type lt then give () x else refresh_balance ck e lt x) (\<lambda>_. \<lambda>x.
          give () (audit actor ''leave.request.withdrawn'' (lr_id r) x))))" for d
    unfolding Let_def
    by (rule then_do_sim) (auto intro: frame_sim frame_trans [OF sync frame_refresh] sync)
  with withdraw_desk [OF conjunct1 [OF True] row] True show ?thesis
    by (simp add: withdraw_leave_request_def then_do_sim)
qed (auto simp: withdraw_leave_request_def sim_def)

section \<open>Other requests\<close>

lemma open_other_step:
  assumes "create_approval_run ck subject kind e actor lt label amount cx st = Inr (d, run)" "fst subject \<notin> tracked"
  shows "sim st d"
  by (rule approval_opens [OF assms(1)]) (rule open_other_sim [OF _ _ assms(2)])

lemma open_payroll_step:
  assumes "create_payroll_approval_run ck subject kind org u e label amount st = Inr (d, run)" "fst subject \<notin> tracked"
  shows "sim st d"
  by (rule payroll_approval_opens [OF assms(1)]) (rule open_other_sim [OF _ _ assms(2)])

lemma other_refs [simp]:
  "fst (on_duty_ref i) \<notin> tracked" "fst (encashment_ref i) \<notin> tracked" "fst (template_ref i) \<notin> tracked" "fst (assignment_ref i) \<notin> tracked"
  by (simp_all add: on_duty_ref_def encashment_ref_def template_ref_def assignment_ref_def tracked_def)

lemma cancel_other_sim: "sim st (fst (cancel_run_of_subject ck (hr_ops ck) ref actor st))"
proof (cases "run_of_subject st ref")
  case (Some q)
  have "sim st d" if "cancel_approval_run ck (hr_ops ck) (rn_id q) actor (Some SUBJECT_WITHDRAWN) st = Inr d" for d
    by (rule cancel_effect [OF that]) (use that cancel_approval_run_inv in \<open>blast intro: ongoing_sim settled_sim\<close>)+
  with Some show ?thesis by (simp add: cancel_run_of_subject_def as_step_sim)
qed (simp add: cancel_run_of_subject_def)

lemma create_on_duty_sim: "sim st (fst (create_on_duty_request ck e policy s t dur a b actor st))"
  unfolding create_on_duty_request_def Let_def
proof (rule then_do_sim)
  fix u and d0 d :: hr_state
  let ?row = "\<lparr>or_id = ap_next_id d, or_employee = em_id e, or_policy = policy, or_start_date = s, or_end_date = t,
                  or_duration_type = dur, or_start_time = a, or_end_time = b,
                  or_total_units = on_duty_units dur, or_status = OD_PENDING, or_rejection_reason = []\<rparr>"
  let ?d = "update_timeoff (\<lambda>x. x\<lparr>td_on_duty_requests := td_on_duty_requests x @ [?row]\<rparr>) (draw_id d)"
  have "frame d ?d" by (intro frame_intros) simp_all
  then have "sim d ?d" by (rule frame_sim)
  moreover have "sim ?d (fst (then_do (as_step (bind_res (create_approval_run ck (on_duty_ref (ap_next_id d)) RK_ON_DUTY e actor None
                     (''On Duty: '' @ isoformat s) None empty_context ?d) (\<lambda>(x, _). Inr x)) ?d)
            (\<lambda>_. \<lambda>x. give (ap_next_id d) (audit (Some (or_else actor (em_user e))) ''on_duty.request.created'' (ap_next_id d) x))))"
    by (intro then_do_sim as_step_sim) (auto intro: open_other_step sim_audit)
  ultimately show "sim d (fst (then_do (as_step (bind_res (create_approval_run ck (on_duty_ref (ap_next_id d)) RK_ON_DUTY e actor None
                     (''On Duty: '' @ isoformat s) None empty_context ?d) (\<lambda>(x, _). Inr x)) ?d)
            (\<lambda>_. \<lambda>x. give (ap_next_id d) (audit (Some (or_else actor (em_user e))) ''on_duty.request.created'' (ap_next_id d) x))))"
    by (rule sim_trans)
qed simp

lemma withdraw_on_duty_sim: "sim st (fst (withdraw_on_duty_request ck (hr_ops ck) r actor st))"
proof -
  have fr: "sim st (update_timeoff (\<lambda>d. d\<lparr>td_on_duty_requests := update_where (\<lambda>r'. or_id r' = or_id r)
                      (\<lambda>r. r\<lparr>or_status := OD_WITHDRAWN\<rparr>) (td_on_duty_requests d)\<rparr>) st)"
    by (rule frame_sim [OF frame_timeoff]) simp
  show ?thesis
    unfolding withdraw_on_duty_request_def
    by (auto intro!: then_do_sim intro: sim_trans [OF fr cancel_other_sim] frame_sim [OF frame_audit])
qed

lemma create_encashment_sim: "create_leave_encashment_request ck e lt s t days actor st = Inr (st', i) \<Longrightarrow> sim st st'"
proof -
  assume cr: "create_leave_encashment_request ck e lt s t days actor st = Inr (st', i)"
  obtain row d run where
    op: "create_approval_run ck (encashment_ref (ap_next_id st)) RK_LEAVE e actor (Some (lt_id lt))
                            (lt_name lt @ '' encashment'') None empty_context
           (update_timeoff (\<lambda>d. d\<lparr>td_encashments := td_encashments d @ [row]\<rparr>) (draw_id st)) = Inr (d, run)"
    and st': "st' = update_encashment (ap_next_id st) (\<lambda>r. r\<lparr>en_approval_run := Some (rn_id run)\<rparr>) d"
    using cr by (auto simp: create_leave_encashment_request_def Let_def split: if_splits)
  have "frame st (update_timeoff (\<lambda>d. d\<lparr>td_encashments := td_encashments d @ [row]\<rparr>) (draw_id st))"
    by (intro frame_intros) simp_all
  moreover have "frame d st'" unfolding st' update_encashment_def by (intro frame_timeoff) simp
  ultimately show ?thesis using open_other_step [OF op] frame_sim sim_trans by simp blast
qed

lemma submit_template_sim: "submit_compensation_template_for_approval ck t u e st = Inr st' \<Longrightarrow> sim st st'"
  by (auto simp: submit_compensation_template_for_approval_def update_template_def split: if_splits
      intro: sim_trans [OF open_payroll_step frame_sim [OF frame_pay]])

lemma submit_assignment_sim: "submit_compensation_assignment_for_approval ck a u e st = Inr st' \<Longrightarrow> sim st st'"
  by (auto simp: submit_compensation_assignment_for_approval_def update_assignment_def split: if_splits option.splits
      intro: sim_trans [OF open_payroll_step frame_sim [OF frame_pay]])

end
