(* ===== verification/DeskProperties.thy ===== *)
theory DeskProperties
  imports DeskLeaves PayExample
begin

text \<open>
  The operations of the services as one transition system, its refinement of the desk, and what
  follows for pay runs, claims and leave requests in every state the services reach.
\<close>

section \<open>Life cycles\<close>

text \<open>
  The contract of a table whose rows carry a status: every step keeps the rows and moves a status
  along the life cycle \<open>moves\<close>, or leaves it.
\<close>

locale life_cycle =
  fixes step :: "'d \<Rightarrow> 'd \<Rightarrow> bool" and ok :: "'d \<Rightarrow> bool"
    and status :: "'d \<Rightarrow> uid \<Rightarrow> 'q option" and moves :: "'q \<Rightarrow> 'q \<Rightarrow> bool"
  assumes step_ok: "step d d' \<Longrightarrow> ok d \<Longrightarrow> ok d'"
    and step_moves: "step d d' \<Longrightarrow> ok d \<Longrightarrow> status d i = Some q \<Longrightarrow> \<exists>q'. status d' i = Some q' \<and> moves\<^sup>=\<^sup>= q q'"
begin

lemma reach_ok: "step\<^sup>*\<^sup>* d d' \<Longrightarrow> ok d \<Longrightarrow> ok d'"
  by (induction rule: rtranclp_induct) (auto intro: step_ok)

lemma reach_moves:
  assumes "step\<^sup>*\<^sup>* d d'" "ok d" "status d i = Some q"
  shows "\<exists>q'. status d' i = Some q' \<and> moves\<^sup>*\<^sup>* q q'"
  using assms
proof (induction rule: rtranclp_induct)
  case (step e e')
  then obtain q1 where q1: "status e i = Some q1" "moves\<^sup>*\<^sup>* q q1" by blast
  obtain q2 where "status e' i = Some q2" "moves\<^sup>=\<^sup>= q1 q2"
    using step_moves [OF step.hyps(2) reach_ok [OF step.hyps(1) step.prems(1)] q1(1)] by blast
  with q1(2) show ?case by (auto intro: rtranclp.rtrancl_into_rtrancl)
qed auto

lemma final_stays:
  assumes "step\<^sup>*\<^sup>* d d'" "ok d" "status d i = Some q" "\<And>q'. \<not> moves q q'"
  shows "status d' i = Some q"
  using reach_moves [OF assms(1-3)] assms(4) by (metis converse_rtranclpE)

end

definition run_status :: "desk \<Rightarrow> uid \<Rightarrow> payroll_run_status option" where
  "run_status d i = map_option fst (dk_runs d i)"

definition claim_status :: "desk \<Rightarrow> uid \<Rightarrow> (expense_claim_status \<times> expense_reimbursement_status) option" where
  "claim_status d i = map_option (\<lambda>(s, r, l). (s, r)) (dk_claims d i)"

interpretation runs: life_cycle desk_step desk_inv run_status "\<lambda>s t. t \<in> run_next s"
proof unfold_locales
  fix d d' i q
  assume "desk_step d d'" "desk_inv d" "run_status d i = Some q"
  then show "\<exists>q'. run_status d' i = Some q' \<and> (\<lambda>s t. t \<in> run_next s)\<^sup>=\<^sup>= q q'"
    using desk_step_run [of d d' i] by (fastforce simp: run_status_def)
qed (rule desk_step_inv)

interpretation claims: life_cycle desk_step desk_inv claim_status claim_next
proof unfold_locales
  fix d d' i q
  assume a: "desk_step d d'" "desk_inv d" "claim_status d i = Some q"
  then obtain s r l where "dk_claims d i = Some (s, r, l)" "q = (s, r)" by (auto simp: claim_status_def)
  with desk_step_claim [OF a(1,2)] show "\<exists>q'. claim_status d' i = Some q' \<and> claim_next\<^sup>=\<^sup>= q q'"
    by (fastforce simp: claim_status_def)
qed (rule desk_step_inv)

section \<open>The services\<close>

text \<open>
  One step is one call of an operation, whether it succeeds or raises; where a call raises and is
  one transaction the state is the same and there is no step. A claim or a leave request passed to
  an operation is the stored row. Between the calls the organisation and the approval configuration
  may change, as long as no workflow with runs loses, gains or renumbers a stage.
\<close>

inductive hr_step :: "hr_state \<Rightarrow> hr_state \<Rightarrow> bool" where
  create_run: "hr_step st (fst (create_payroll_run ck org y m actor user source ty name attendance st))"
| calculate: "hr_step st (fst (calculate_pay_run ck (hr_ops ck) service i actor st))"
| submit_run: "submit_pay_run_for_approval ck i user e st = Inr st' \<Longrightarrow> hr_step st st'"
| finalize: "finalize_pay_run ck i actor skip st = Inr st' \<Longrightarrow> hr_step st st'"
| rerun: "hr_step st (fst (rerun_payroll_run ck i actor user st))"
| submit_template: "submit_compensation_template_for_approval ck t user e st = Inr st' \<Longrightarrow> hr_step st st'"
| submit_assignment: "submit_compensation_assignment_for_approval ck a user e st = Inr st' \<Longrightarrow> hr_step st st'"
| file_claim: "create_expense_claim e title day lines actor policy currency st = Inr (st', claim) \<Longrightarrow> hr_step st st'"
| edit_claim: "update_expense_claim claim i title day lines actor policy currency st = Inr st' \<Longrightarrow> hr_step st st'"
| submit_claim: "stored_claim st claim \<Longrightarrow> submit_expense_claim ck claim e actor st = Inr st' \<Longrightarrow> hr_step st st'"
| cancel_claim: "stored_claim st claim \<Longrightarrow> cancel_expense_claim claim i st = Inr st' \<Longrightarrow> hr_step st st'"
| upload: "hr_step st (upload_expense_receipt claim n user st)"
| file_leave: "hr_step st (fst (create_leave_request ck e lt s t a b actor st))"
| withdraw_leave: "stored_leave st r \<Longrightarrow> hr_step st (fst (withdraw_leave_request ck (hr_ops ck) r e lt actor st))"
| file_on_duty: "hr_step st (fst (create_on_duty_request ck e i s t duration x y actor st))"
| withdraw_on_duty: "hr_step st (fst (withdraw_on_duty_request ck (hr_ops ck) d actor st))"
| file_encashment: "create_leave_encashment_request ck e lt s t days actor st = Inr (st', i) \<Longrightarrow> hr_step st st'"
| approve: "approve_action ck (hr_ops ck) i user comment st = Inr st' \<Longrightarrow> hr_step st st'"
| reject: "reject_action ck (hr_ops ck) i user comment st = Inr st' \<Longrightarrow> hr_step st st'"
| remind: "hr_step st (fst (send_pending_action_reminders now st))"
| escalate: "hr_step st (fst (process_pending_action_escalations now st))"
| delegate: "upsert_approval_delegation org de dg ks sd ed active act d st = Inr (st', row) \<Longrightarrow> hr_step st st'"
| configure: "st' = st\<lparr>ap_org := og, ap_workflows := ws, ap_rules := rs, ap_assignments := as, ap_next_id := n\<rparr> \<Longrightarrow>
    wf_workflows ws \<Longrightarrow> keeps_stages st st' \<Longrightarrow> ap_next_id st \<le> n \<Longrightarrow> hr_step st st'"

definition hr_reaches :: "hr_state \<Rightarrow> hr_state \<Rightarrow> bool" where
  "hr_reaches = hr_step\<^sup>*\<^sup>*"

lemma hr_step_sim: "hr_step st st' \<Longrightarrow> sim st st'"
proof (induction rule: hr_step.induct)
  case (submit_claim st claim ck e actor st')
  then show ?case by (intro submit_claim_sim)
next
  case (cancel_claim st claim i st')
  then show ?case by (intro cancel_claim_sim)
next
  case (configure st' st og ws rs as n)
  then show ?case by (intro configure_sim)
qed (fast intro: create_run_sim calculate_sim submit_run_sim finalize_run_sim rerun_sim submit_template_sim submit_assignment_sim
      create_claim_sim update_claim_sim upload_sim create_leave_sim withdraw_leave_sim create_on_duty_sim withdraw_on_duty_sim
      create_encashment_sim approve_sim reject_sim reminders_sim escalations_sim delegation_sim)+

lemma hr_reaches_sim: "hr_reaches st st' \<Longrightarrow> sim st st'"
  unfolding hr_reaches_def by (induction rule: rtranclp_induct) (auto intro: hr_step_sim sim_trans)

lemma hr_reachesD:
  assumes "hr_reaches st st'" "hr_inv st"
  shows "hr_inv st'" "desk_step\<^sup>*\<^sup>* (desk_of st) (desk_of st')" "desk_inv (desk_of st)"
  using hr_reaches_sim [OF assms(1)] assms(2) by (auto simp: sim_def hr_inv_def)

section \<open>An example\<close>

text \<open>
  A calculated pay run of one employee whose claim it includes. It is submitted, approved by employee
  30 and finalised.
\<close>

definition small_snapshot :: item_snapshot where
  "small_snapshot =
     \<lparr>sn_assignment = 31, sn_tax_regime = NEW, sn_tax_slab_set = 5, sn_lines = [reimbursement_line example_claim], sn_arrears = 0,
      sn_expense_reimbursements = 450, sn_period_start = Date 2025 6 1, sn_period_end = Date 2025 6 30, sn_paid_days = 30,
      sn_total_days_in_period = 30, sn_pro_rate_factor = 1, sn_auto_pf = 0, sn_pf_employer = 0, sn_pf_eligible_basic = 0,
      sn_pf_employee_rate_percent = 0, sn_pf_opted_out = True, sn_esi_employee = 0, sn_esi_employer = 0,
      sn_esi_eligibility_mode = ESI_NONE, sn_esi_period = None, sn_pt_monthly = 0, sn_pt_state_code = ''MH'',
      sn_pt_taxable_basis = 0, sn_lwf_employee = 0, sn_lwf_employer = 0, sn_lwf_wage_basis = 0, sn_lop_days = 0,
      sn_lop_deduction = 0,
      sn_attendance = \<lparr>at_active_period_start = Date 2025 6 1, at_active_period_end = Date 2025 6 30, at_expected_paid_days = 30,
        at_attendance_paid_days = 30, at_leave_only_lop_days = 0, at_explicit_lwp_days = 0, at_policy_lwp_days = 0,
        at_attendance_based_lop_days = 0, at_effective_lop_days = 0, at_overtime_minutes = 0, at_summary_used = False\<rparr>,
      sn_annual_taxable_gross = 0, sn_annual_standard_deduction = 0, sn_annual_investment_deductions = 0,
      sn_annual_taxable_after_sd = 0,
      sn_tax = \<lparr>tb_tax_before_rebate = 0, tb_rebate_87a = 0, tb_tax_after_rebate = 0, tb_surcharge = 0, tb_cess = 0, tb_annual_tax = 0\<rparr>\<rparr>"

definition small_item :: payroll_run_item where
  "small_item =
     \<lparr>ri_id = 45, ri_pay_run = 40, ri_employee = 10, ri_status = READY, ri_gross_pay = 450, ri_employee_deductions = 0,
      ri_employer_contributions = 0, ri_eps_employer = 0, ri_epf_employer = 0, ri_income_tax = 0, ri_total_deductions = 0,
      ri_net_pay = 450, ri_snapshot = Some small_snapshot, ri_message = [], ri_message_args = []\<rparr>"

definition desk_start :: hr_state where
  "desk_start = example_hr_start\<lparr>ap_subjects := example_hr_db
     \<lparr>hr_payroll := example_payroll_db\<lparr>pd_runs := [example_run\<lparr>pr_status := PR_CALCULATED\<rparr>], pd_items := [small_item]\<rparr>,
      hr_expenses := \<lparr>xd_policies = [], xd_categories = [], xd_claims = [example_claim\<lparr>
        xm_reimbursement_status := RB_INCLUDED_IN_PAYROLL, xm_reimbursement_pay_run := Some 40,
        xm_reimbursement_pay_run_item := Some 45\<rparr>]\<rparr>\<rparr>\<rparr>"

definition run_submitted :: hr_state where
  "run_submitted = projr (submit_pay_run_for_approval example_clock 40 (Some 120) None desk_start)"

definition run_approved :: hr_state where
  "run_approved = projr (approve_action example_clock (hr_ops example_clock) 51 130 [] run_submitted)"

definition run_finalized :: hr_state where
  "run_finalized = projr (finalize_pay_run example_clock 40 (Some 1) False run_approved)"

lemma example_life_ok:
  "is_ok (submit_pay_run_for_approval example_clock 40 (Some 120) None desk_start)"
  "is_ok (approve_action example_clock (hr_ops example_clock) 51 130 [] run_submitted)"
  "is_ok (finalize_pay_run example_clock 40 (Some 1) False run_approved)"
  by code_simp+

lemma run_finalized_rows:
  "(map (\<lambda>r. (pr_id r, pr_status r, pr_approval_run r)) (pd_runs (pay run_finalized)),
    map (\<lambda>c. (xm_id c, xm_status c, xm_reimbursement_status c)) (xd_claims (expenses run_finalized))) =
   ([(40, PR_FINALIZED, Some 50)], [(41, EC_APPROVED, RB_PAID)])"
  by code_simp

lemma ok_projr: "is_ok r \<Longrightarrow> r = Inr (projr r)"
  by (cases r) simp_all

lemma hr_reaches_step: "hr_reaches a b \<Longrightarrow> hr_step b c \<Longrightarrow> hr_reaches a c"
  unfolding hr_reaches_def by (rule rtranclp.rtrancl_into_rtrancl)

lemma example_life:
  "hr_reaches desk_start run_submitted" "hr_reaches desk_start run_approved" "hr_reaches desk_start run_finalized"
proof -
  have "hr_reaches desk_start desk_start" by (simp add: hr_reaches_def)
  then show b: "hr_reaches desk_start run_submitted"
    unfolding run_submitted_def by (rule hr_reaches_step) (rule hr_step.submit_run [OF ok_projr [OF example_life_ok(1)]])
  show c: "hr_reaches desk_start run_approved"
    unfolding run_approved_def by (rule hr_reaches_step [OF b]) (rule hr_step.approve [OF ok_projr [OF example_life_ok(2)]])
  show "hr_reaches desk_start run_finalized"
    unfolding run_finalized_def by (rule hr_reaches_step [OF c]) (rule hr_step.finalize [OF ok_projr [OF example_life_ok(3)]])
qed

lemma desk_start_tables:
  "map (\<lambda>r. (pr_id r, pr_status r, pr_approval_run r)) (pd_runs (pay desk_start)) = [(40, PR_CALCULATED, None)]"
  "map (\<lambda>c. (xm_id c, xm_status c, xm_reimbursement_status c)) (xd_claims (expenses desk_start)) = [(41, EC_APPROVED, RB_INCLUDED_IN_PAYROLL)]"
  "td_leave_requests (timeoff desk_start) = []" "ap_runs desk_start = []" "ap_actions desk_start = []" "ap_next_id desk_start = 50"
  "ap_workflows desk_start = [payroll_workflow]"
  by (simp_all add: desk_start_def example_hr_start_def example_hr_db_def example_payroll_db_def empty_timeoff_db_def example_run_def
      example_claim_def)

lemma desk_start_inv: "hr_inv desk_start"
proof -
  have wf: "wf_workflows [payroll_workflow]"
    by (simp add: wf_workflows_def payroll_workflow_def example_workflow_def example_stage_def)
  have none: "pending_of [] = {}" "leave_table [] = Map.empty"
    by (simp_all add: pending_of_def leave_table_def table_def fun_eq_iff)
  have runs: "run_table (pd_runs (pay desk_start)) = [40 \<mapsto> (PR_CALCULATED, None)]"
    and claims: "claim_table (xd_claims (expenses desk_start)) = [41 \<mapsto> (EC_APPROVED, RB_INCLUDED_IN_PAYROLL, None)]"
    by (simp_all add: run_table_def claim_table_def table_def desk_start_def example_hr_start_def example_hr_db_def
        example_payroll_db_def example_run_def example_claim_def)
  have "desk_inv (desk_of desk_start)"
    by (simp add: desk_inv_def rows_wait_def ids_drawn_def claims_earned_def no_double_booking_def none runs claims desk_start_tables)
  moreover have "engine_inv desk_start" by (simp add: engine_inv_def keys_ok_def desk_start_tables wf)
  moreover have "rows_ok desk_start"
    by (simp add: rows_ok_def leave_runs_ok_def desk_start_tables(4)) (simp add: desk_start_def example_claim_def)
  ultimately show ?thesis by (simp add: hr_inv_def)
qed

section \<open>Properties\<close>

text \<open>C1: the operations of payroll, expenses, time off and the approval engine, and the cancelling of a
  claim by its owner, refine the desk: from a state that satisfies the invariant every sequence of
  calls is a sequence of events of the desk, whichever of them raise halfway, and the invariant holds
  again. In particular an operation of these services that moves a pay run, a claim or a leave
  request does so only by the desk's events. Between calls the configuration may change, as long as
  no workflow with runs loses, gains or renumbers a stage.\<close>

theorem services_refine_desk:
  assumes "hr_reaches st st'" "hr_inv st"
  shows "hr_inv st' \<and> desk_step\<^sup>*\<^sup>* (desk_of st) (desk_of st')"
  using hr_reachesD [OF assms] by blast

lemma services_refine_desk_witness:
  "desk_step\<^sup>*\<^sup>* (desk_of desk_start) (desk_of run_finalized) \<and>
   dk_runs (desk_of desk_start) 40 = Some (PR_CALCULATED, None) \<and> dk_runs (desk_of run_finalized) 40 = Some (PR_FINALIZED, Some 50)"
  using services_refine_desk [OF example_life(3) desk_start_inv] desk_start_tables(1) run_finalized_rows
  by (auto simp: run_table_def table_def)

text \<open>C4: the life cycle of a pay run. Whatever operations are called in between, a run's status only moves
  along \<open>run_next\<close> (draft, calculated, awaiting approval, approved or rejected or cancelled,
  finalized); it is never deleted, approval cannot be skipped back, and a finalized run stays finalized.\<close>

theorem pay_run_life_cycle:
  assumes "hr_reaches st st'" "hr_inv st" "find_pay_run (pay st) i = Some r"
  shows "\<exists>r'. find_pay_run (pay st') i = Some r' \<and> (\<lambda>s t. t \<in> run_next s)\<^sup>*\<^sup>* (pr_status r) (pr_status r') \<and>
    (pr_status r = PR_FINALIZED \<longrightarrow> pr_status r' = PR_FINALIZED)"
proof -
  note d = hr_reachesD [OF assms(1,2)]
  have st: "run_status (desk_of st) i = Some (pr_status r)" using pay_run_status [OF assms(3)] by (simp add: run_status_def)
  obtain s' where s': "run_status (desk_of st') i = Some s'" "(\<lambda>s t. t \<in> run_next s)\<^sup>*\<^sup>* (pr_status r) s'"
    using runs.reach_moves [OF d(2,3) st] by blast
  then obtain r' where r': "find_pay_run (pay st') i = Some r'" "pr_status r' = s'"
    by (auto simp: run_status_def run_table_def table_first find_pay_run_def)
  have "s' = PR_FINALIZED" if "pr_status r = PR_FINALIZED"
    using runs.final_stays [OF d(2,3) st] s'(1) that by simp
  with r' s'(2) show ?thesis by blast
qed

lemma pay_run_life_cycle_witness:
  "\<exists>r'. find_pay_run (pay run_finalized) 40 = Some r' \<and> (\<lambda>s t. t \<in> run_next s)\<^sup>*\<^sup>* PR_CALCULATED (pr_status r') \<and> pr_status r' = PR_FINALIZED"
proof -
  obtain r where "find_pay_run (pay desk_start) 40 = Some r" "pr_status r = PR_CALCULATED"
    using desk_start_tables(1) by (auto simp: find_pay_run_def)
  with pay_run_life_cycle [OF example_life(3) desk_start_inv] run_finalized_rows show ?thesis
    by (fastforce simp: find_pay_run_def)
qed

text \<open>C17: the life cycle of an expense claim. Its status and reimbursement status only move along
  \<open>claim_next\<close>, where a draft or rejected claim may be submitted or cancelled: a claim is owed or paid
  only once it is approved, an approved claim is never reopened, a cancelled one stays cancelled, and
  a paid claim is never included in another pay run.\<close>

theorem claim_life_cycle:
  assumes "hr_reaches st st'" "hr_inv st" "first_row (\<lambda>c. xm_id c = i) (xd_claims (expenses st)) = Some c"
  shows "\<exists>c'. first_row (\<lambda>c. xm_id c = i) (xd_claims (expenses st')) = Some c' \<and>
    claim_next\<^sup>*\<^sup>* (xm_status c, xm_reimbursement_status c) (xm_status c', xm_reimbursement_status c') \<and>
    (xm_reimbursement_status c' \<noteq> RB_NOT_READY \<longrightarrow> xm_status c' = EC_APPROVED) \<and>
    (xm_status c = EC_CANCELLED \<longrightarrow> xm_status c' = EC_CANCELLED) \<and>
    (xm_reimbursement_status c = RB_PAID \<longrightarrow> xm_reimbursement_status c' = RB_PAID)"
proof -
  note d = hr_reachesD [OF assms(1,2)]
  have st: "claim_status (desk_of st) i = Some (xm_status c, xm_reimbursement_status c)"
    using assms(3) by (simp add: claim_status_def claim_table_def table_first)
  obtain q where q: "claim_status (desk_of st') i = Some q" "claim_next\<^sup>*\<^sup>* (xm_status c, xm_reimbursement_status c) q"
    using claims.reach_moves [OF d(2,3) st] by blast
  then obtain c' where c': "first_row (\<lambda>c. xm_id c = i) (xd_claims (expenses st')) = Some c'"
    "q = (xm_status c', xm_reimbursement_status c')"
    by (auto simp: claim_status_def claim_table_def table_first)
  have "xm_status c' = EC_APPROVED" if "xm_reimbursement_status c' \<noteq> RB_NOT_READY"
  proof -
    have "dk_claims (desk_of st') i = Some (xm_status c', xm_reimbursement_status c', xm_approval_run c')"
      using c'(1) by (simp add: claim_table_def table_first)
    with hr_invD(5) [OF d(1)] that show ?thesis unfolding desk_inv_def claims_earned_def by blast
  qed
  moreover have "xm_reimbursement_status c' = RB_PAID" if "xm_reimbursement_status c = RB_PAID"
  proof -
    have "\<not> claim_next (xm_status c, xm_reimbursement_status c) y" for y
      using that by (auto simp: reimbursement_moves_def elim: claim_next.cases)
    then show ?thesis using claims.final_stays [OF d(2,3) st] q(1) c'(2) that by simp
  qed
  moreover have "xm_status c' = EC_CANCELLED" if "xm_status c = EC_CANCELLED"
  proof -
    have none: "dk_claims (desk_of st) i = Some (EC_CANCELLED, xm_reimbursement_status c, xm_approval_run c)"
      using assms(3) that by (simp add: claim_table_def table_first)
    then have "xm_reimbursement_status c = RB_NOT_READY"
      using d(3) unfolding desk_inv_def claims_earned_def by force
    then have "\<not> claim_next (xm_status c, xm_reimbursement_status c) y" for y
      using that by (auto simp: reimbursement_moves_def elim: claim_next.cases)
    then show ?thesis using claims.final_stays [OF d(2,3) st] q(1) c'(2) that by simp
  qed
  ultimately show ?thesis using c' q(2) by blast
qed

lemma claim_life_cycle_witness:
  "\<exists>c'. first_row (\<lambda>c. xm_id c = 41) (xd_claims (expenses run_finalized)) = Some c' \<and> xm_reimbursement_status c' = RB_PAID \<and>
    claim_next\<^sup>*\<^sup>* (EC_APPROVED, RB_INCLUDED_IN_PAYROLL) (xm_status c', xm_reimbursement_status c')"
proof -
  obtain c where "first_row (\<lambda>c. xm_id c = 41) (xd_claims (expenses desk_start)) = Some c" "xm_status c = EC_APPROVED"
    "xm_reimbursement_status c = RB_INCLUDED_IN_PAYROLL"
    using desk_start_tables(2) by auto
  with claim_life_cycle [OF example_life(3) desk_start_inv] run_finalized_rows show ?thesis by fastforce
qed

text \<open>C6: no double booking. Of two leave requests of one employee that are both pending or approved, no
  state has overlapping dates, half days of opposite sessions apart, however the requests were filed,
  withdrawn, approved and rejected, and whichever of those calls raised halfway.\<close>

theorem no_overlapping_leave:
  assumes "hr_reaches st st'" "hr_inv st" "i \<noteq> j"
    "first_row (\<lambda>r. lr_id r = i) (td_leave_requests (timeoff st')) = Some a"
    "first_row (\<lambda>r. lr_id r = j) (td_leave_requests (timeoff st')) = Some b"
    "lr_employee a = lr_employee b" "lr_status a \<in> {LR_PENDING, LR_APPROVED}" "lr_status b \<in> {LR_PENDING, LR_APPROVED}"
    "lr_start_date a \<le> lr_end_date b" "lr_start_date b \<le> lr_end_date a"
  shows "lr_start_date a = lr_end_date a \<and> lr_start_date b = lr_end_date b \<and> lr_start_date a = lr_start_date b \<and>
    half_session_of a \<noteq> None \<and> half_session_of b \<noteq> None \<and> half_session_of a \<noteq> half_session_of b"
proof -
  have "no_double_booking (desk_of st')" using hr_invD(5) [OF hr_reachesD(1) [OF assms(1,2)]] by (simp add: desk_inv_def)
  moreover have "dk_leaves (desk_of st') i = Some (booking_of a)" "dk_leaves (desk_of st') j = Some (booking_of b)"
    using assms(4,5) by (simp_all add: leave_table_def table_first)
  ultimately have "\<not> clash a b" using booksD assms(3) booking_frames(4,5) by metis
  then have "\<not> leave_requests_overlap a (lr_start_date b) (lr_end_date b) (lr_start_session b) (lr_end_session b)"
    using assms(6-10) by (auto simp: clash_def active_request_def)
  then show ?thesis by (auto simp: leave_requests_overlap_def half_session_of_def Let_def)
qed

text \<open>
  Two half days of one date. Employee 10 has no leave plan and there is no workflow for leave, so
  each call raises after it has filed the request.
\<close>

definition unpaid_leave :: leave_type where
  "unpaid_leave =
     \<lparr>lt_id = 70, lt_code = ''LWP'', lt_name = ''Unpaid'', lt_color = [], lt_is_paid = False, lt_is_loss_of_pay = True,
      lt_annual_entitlement = 0, lt_credit_frequency = CF_MANUAL, lt_prorate_on_join = False,
      lt_carry_forward_mode = CARRY_NONE, lt_carry_forward_cap = None, lt_max_balance = None, lt_allows_encashment = False,
      lt_max_encashment_days_per_year = None, lt_is_active = True\<rparr>"

definition file_half_day :: "day_session \<Rightarrow> hr_state \<Rightarrow> hr_state" where
  "file_half_day session st = fst (create_leave_request example_clock (example_employee 10 (Some 20)) unpaid_leave
     (Date 2025 7 1) (Date 2025 7 1) session session None st)"

lemma half_days_filed:
  "map (\<lambda>r. (lr_id r, lr_employee r, lr_status r, lr_start_date r, lr_end_date r))
      (td_leave_requests (timeoff (file_half_day SECOND_HALF (file_half_day FIRST_HALF desk_start)))) =
    [(50, 10, LR_PENDING, Date 2025 7 1, Date 2025 7 1), (51, 10, LR_PENDING, Date 2025 7 1, Date 2025 7 1)]"
  by code_simp

lemma half_days_reached: "hr_reaches desk_start (file_half_day SECOND_HALF (file_half_day FIRST_HALF desk_start))"
  unfolding file_half_day_def hr_reaches_def by (rule rtranclp.rtrancl_into_rtrancl [OF r_into_rtranclp]) (rule hr_step.file_leave)+

lemma no_overlapping_leave_witness:
  "\<exists>a b. td_leave_requests (timeoff (file_half_day SECOND_HALF (file_half_day FIRST_HALF desk_start))) = [a, b] \<and>
    lr_start_date a = lr_start_date b \<and> half_session_of a \<noteq> None \<and> half_session_of a \<noteq> half_session_of b"
proof -
  obtain a b where t: "td_leave_requests (timeoff (file_half_day SECOND_HALF (file_half_day FIRST_HALF desk_start))) = [a, b]"
    "lr_id a = 50" "lr_id b = 51" "lr_employee a = 10" "lr_employee b = 10" "lr_status a = LR_PENDING" "lr_status b = LR_PENDING"
    "lr_start_date a = Date 2025 7 1" "lr_end_date a = Date 2025 7 1" "lr_start_date b = Date 2025 7 1" "lr_end_date b = Date 2025 7 1"
    using half_days_filed by (auto simp: map_eq_Cons_conv)
  have "half_session_of a \<noteq> None \<and> half_session_of a \<noteq> half_session_of b"
    using no_overlapping_leave [OF half_days_reached desk_start_inv, of 50 51 a b] t by simp
  with t show ?thesis by auto
qed

text \<open>approvals and rows agree. While an approval run about a pay run or a claim is pending, the row is
  the one that waits for it: its status is the submitted one and it points to that very run, so a
  pay run or claim never has two pending approvals, and a finalized, edited or recalculated one has none.\<close>

theorem pending_approval_is_awaited:
  assumes "hr_reaches st st'" "hr_inv st" "a \<in> set (ap_runs st')" "rn_status a = RUN_PENDING"
  shows "(rn_subject a = pay_run_ref i \<longrightarrow> (\<exists>r. find_pay_run (pay st') i = Some r \<and> pr_status r = PR_APPROVAL_PENDING \<and>
      pr_approval_run r = Some (rn_id a))) \<and>
    (rn_subject a = claim_ref i \<longrightarrow> (\<exists>c. first_row (\<lambda>c. xm_id c = i) (xd_claims (expenses st')) = Some c \<and>
      xm_status c = EC_SUBMITTED \<and> xm_approval_run c = Some (rn_id a)))"
proof -
  note w = hr_invD(6) [OF hr_reachesD(1) [OF assms(1,2)]]
  have p: "(rn_id a, rn_subject a) \<in> dk_pending (desk_of st')" using assms(3,4) by (auto simp: pending_of_def)
  show ?thesis
  proof (intro conjI impI)
    assume "rn_subject a = pay_run_ref i"
    with rows_waitD(1) [OF w] p show "\<exists>r. find_pay_run (pay st') i = Some r \<and> pr_status r = PR_APPROVAL_PENDING \<and>
        pr_approval_run r = Some (rn_id a)"
      by (fastforce simp: run_table_def table_first find_pay_run_def)
  next
    assume "rn_subject a = claim_ref i"
    with rows_waitD(2) [OF w] p show "\<exists>c. first_row (\<lambda>c. xm_id c = i) (xd_claims (expenses st')) = Some c \<and>
        xm_status c = EC_SUBMITTED \<and> xm_approval_run c = Some (rn_id a)"
      by (fastforce simp: claim_table_def table_first)
  qed
qed

lemma pending_approval_is_awaited_witness:
  "\<exists>r. find_pay_run (pay run_submitted) 40 = Some r \<and> pr_status r = PR_APPROVAL_PENDING \<and> pr_approval_run r = Some 50"
proof -
  have "map (\<lambda>a. (rn_id a, rn_status a, rn_subject a)) (ap_runs run_submitted) = [(50, RUN_PENDING, pay_run_ref 40)]"
    by code_simp
  then obtain a where "a \<in> set (ap_runs run_submitted)" "rn_status a = RUN_PENDING" "rn_subject a = pay_run_ref 40" "rn_id a = 50"
    by auto
  with pending_approval_is_awaited [OF example_life(1) desk_start_inv, of a 40] show ?thesis by simp
qed

end
