(* ===== verification/DayLoop.thy ===== *)
theory DayLoop
  imports HrCommit
begin

text \<open>
  The loop \<open>while current <= final: ...; current += timedelta(days=1)\<close> over the days of a period, whose
  body reads and writes a state and may raise. It may not end, so it is a partial function; for
  valid dates it is proved to run its body once for each day.
\<close>

partial_function (option) day_loop ::
  "(date \<Rightarrow> 's \<Rightarrow> ('s, unit) step_result) \<Rightarrow> date \<Rightarrow> date \<Rightarrow> 's \<Rightarrow> ('s, unit) step_result option" where
  "day_loop body current final s =
     (if \<not> current \<le> final then Some (give () s)
      else case snd (body current s) of
             Inl e \<Rightarrow> Some (fail e (fst (body current s)))
           | Inr _ \<Rightarrow>
               if current = date_max then Some (fail OverflowError (fst (body current s)))
               else day_loop body (next_day current) final (fst (body current s)))"

declare day_loop.simps [code]

fun dates_from :: "date \<Rightarrow> nat \<Rightarrow> date list" where
  "dates_from d 0 = []"
| "dates_from d (Suc n) = d # dates_from (next_day d) n"

fun run_days :: "(date \<Rightarrow> 's \<Rightarrow> ('s, unit) step_result) \<Rightarrow> date list \<Rightarrow> 's \<Rightarrow> ('s, unit) step_result" where
  "run_days body [] s = give () s"
| "run_days body (d # ds) s = then_do (body d s) (\<lambda>_. run_days body ds)"

text \<open>The days of a period, first and last included.\<close>

definition period_days :: "date \<Rightarrow> date \<Rightarrow> date list" where
  "period_days s t = (if s \<le> t then dates_from s (nat (days_between s t + 1)) else [])"

lemma length_dates_from [simp]: "length (dates_from d n) = n"
  by (induction n arbitrary: d) simp_all

lemma length_period_days:
  "valid_date s \<Longrightarrow> valid_date t \<Longrightarrow> s \<le> t \<Longrightarrow> int (length (period_days s t)) = days_between s t + 1"
  using days_between_nonneg [of s t] by (simp add: period_days_def)

lemma day_loop_result:
  assumes "valid_date s" "valid_date t" "t < date_max"
  shows "day_loop body s t st = Some (run_days body (period_days s t) st)"
  using assms(1)
proof (induction "nat (days_between s t + 1)" arbitrary: s st rule: less_induct)
  case less
  show ?case
  proof (cases "s \<le> t")
    case True
    then have ne: "s \<noteq> date_max" using assms(3) by auto
    note v = following_day_valid(2,3) [OF less.prems ne]
    have n: "nat (days_between s t + 1) = Suc (nat (days_between (next_day s) t + 1))"
      using v(2) True days_between_nonneg [OF less.prems assms(2) True] by (simp add: days_between_def)
    have "next_day s \<le> t \<longleftrightarrow> 0 \<le> days_between (next_day s) t"
      using v(1) assms(2) by (simp add: days_between_def toordinal_le_iff)
    then have "period_days s t = s # period_days (next_day s) t"
      using True n by (auto simp: period_days_def)
    moreover have "day_loop body (next_day s) t x = Some (run_days body (period_days (next_day s) t) x)" for x
      by (rule less.hyps) (use n v in simp_all)
    ultimately show ?thesis
      using True ne by (subst day_loop.simps) (auto simp: then_do_def give_def fail_def split: sum.splits)
  qed (subst day_loop.simps, simp add: period_days_def)
qed

lemma run_days_keeps:
  assumes "\<And>d s. d \<in> set ds \<Longrightarrow> P s \<Longrightarrow> P (fst (body d s))" "P s"
  shows "P (fst (run_days body ds s))"
  using assms
proof (induction ds arbitrary: s)
  case (Cons d ds)
  show ?case unfolding run_days.simps
    by (rule then_do_keeps) (use Cons in \<open>force+\<close>)
qed (simp add: give_def)

end
