(* ===== verification/AttendanceDays.thy ===== *)
theory AttendanceDays
  imports AttendanceModels DayLoop TimeoffPlans
begin

text \<open>
  How a day is computed from punches, overrides, holidays and requests (\<open>attendance/services.py\<close>):
  policies and shifts, the windows of a day, the fractions requests account for, the summary of a day
  and what it leaves in \<open>AttendanceDay\<close>, and the summary payroll asks for. Wall-clock times of a zone
  are microseconds since the first of January of year 1; arithmetic on them follows the clock, as
  Python's does on datetimes of one zone, and only comparisons with stored times go through UTC.
\<close>

section \<open>Policies\<close>

abbreviation DAY_US :: int where "DAY_US \<equiv> 86400000000"
abbreviation MINUTE_US :: int where "MINUTE_US \<equiv> 60000000"

definition DEFAULT_WEEK_OFF_DAYS :: "int list" where
  "DEFAULT_WEEK_OFF_DAYS = [6]"

definition new_attendance_policy :: "uid \<Rightarrow> uid \<Rightarrow> string \<Rightarrow> bool \<Rightarrow> attendance_policy" where
  "new_attendance_policy i org name is_default =
     \<lparr>po_id = i, po_organisation = org, po_name = name, po_timezone_name = ''Asia/Kolkata'',
      po_default_start_time = 9 * 60 * MINUTE_US, po_default_end_time = 18 * 60 * MINUTE_US, po_grace_minutes = 15,
      po_full_day_min_minutes = 480, po_half_day_min_minutes = 240, po_overtime_after_minutes = 540,
      po_overtime_approval_required = False, po_week_off_days = DEFAULT_WEEK_OFF_DAYS, po_allow_web_punch = True,
      po_restrict_by_ip = False, po_allowed_ip_ranges = [], po_is_default = is_default, po_is_active = True\<rparr>"

definition find_default_policy :: "att_db \<Rightarrow> uid \<Rightarrow> attendance_policy option" where
  "find_default_policy db org =
     first_row (\<lambda>p. po_organisation p = org \<and> po_is_default p \<and> po_is_active p) (sort_key po_name (tb_policies db))"

text \<open>The unique constraint on default policies counts inactive ones too.\<close>

definition get_default_attendance_policy :: "uid \<Rightarrow> att_db \<Rightarrow> attendance_policy att_outcome" where
  "get_default_attendance_policy org db =
     (case find_default_policy db org of
        Some p \<Rightarrow> give p db
      | None \<Rightarrow>
          if list_ex (\<lambda>p. po_organisation p = org \<and> po_is_default p) (tb_policies db)
          then fail (IntegrityError ''unique_default_attendance_policy_per_org'') db
          else
            let p = new_attendance_policy (tb_next_id db) org ''Default Attendance Policy'' True
            in give p (db\<lparr>tb_policies := tb_policies db @ [p], tb_next_id := Suc (tb_next_id db)\<rparr>))"

text \<open>The fields of an upsert; an absent one stays as it is, or takes the column's default.\<close>

record policy_fields =
  pf_name :: "string option"
  pf_timezone_name :: "string option"
  pf_default_start_time :: "int option"
  pf_default_end_time :: "int option"
  pf_grace_minutes :: "int option"
  pf_full_day_min_minutes :: "int option"
  pf_half_day_min_minutes :: "int option"
  pf_overtime_after_minutes :: "int option"
  pf_overtime_approval_required :: "bool option"
  pf_week_off_days :: "int list option"
  pf_allow_web_punch :: "bool option"
  pf_restrict_by_ip :: "bool option"
  pf_allowed_ip_ranges :: "string list option"
  pf_is_default :: "bool option"
  pf_is_active :: "bool option"

definition set_attendance_fields :: "policy_fields \<Rightarrow> attendance_policy \<Rightarrow> attendance_policy" where
  "set_attendance_fields fs p =
     p\<lparr>po_name := or_else (pf_name fs) (po_name p), po_timezone_name := or_else (pf_timezone_name fs) (po_timezone_name p),
       po_default_start_time := or_else (pf_default_start_time fs) (po_default_start_time p),
       po_default_end_time := or_else (pf_default_end_time fs) (po_default_end_time p),
       po_grace_minutes := or_else (pf_grace_minutes fs) (po_grace_minutes p),
       po_full_day_min_minutes := or_else (pf_full_day_min_minutes fs) (po_full_day_min_minutes p),
       po_half_day_min_minutes := or_else (pf_half_day_min_minutes fs) (po_half_day_min_minutes p),
       po_overtime_after_minutes := or_else (pf_overtime_after_minutes fs) (po_overtime_after_minutes p),
       po_overtime_approval_required := or_else (pf_overtime_approval_required fs) (po_overtime_approval_required p),
       po_week_off_days := or_else (pf_week_off_days fs) (po_week_off_days p),
       po_allow_web_punch := or_else (pf_allow_web_punch fs) (po_allow_web_punch p),
       po_restrict_by_ip := or_else (pf_restrict_by_ip fs) (po_restrict_by_ip p),
       po_allowed_ip_ranges := or_else (pf_allowed_ip_ranges fs) (po_allowed_ip_ranges p),
       po_is_default := or_else (pf_is_default fs) (po_is_default p),
       po_is_active := or_else (pf_is_active fs) (po_is_active p)\<rparr>"

definition clear_default_attendance :: "uid \<Rightarrow> uid option \<Rightarrow> attendance_policy list \<Rightarrow> attendance_policy list" where
  "clear_default_attendance = clear_defaults po_organisation po_id (\<lambda>p. p\<lparr>po_is_default := False\<rparr>)"

definition put_attendance_policy ::
  "uid \<Rightarrow> uid \<Rightarrow> attendance_policy option \<Rightarrow> policy_fields \<Rightarrow> attendance_policy list \<Rightarrow> attendance_policy list" where
  "put_attendance_policy fresh org policy fs t =
     (case policy of
        None \<Rightarrow>
          (let row = set_attendance_fields fs (new_attendance_policy fresh org [] False)
           in (if po_is_default row then clear_default_attendance org None t else t) @ [row])
      | Some p \<Rightarrow>
          (let row0 = set_attendance_fields fs p;
               row = (if po_week_off_days row0 = [] then row0\<lparr>po_week_off_days := DEFAULT_WEEK_OFF_DAYS\<rparr> else row0)
           in update_where (\<lambda>q. po_id q = po_id p) (\<lambda>_. row)
                (if po_is_default row then clear_default_attendance org (Some (po_id p)) t else t)))"

definition upsert_attendance_policy ::
  "uid \<Rightarrow> uid option \<Rightarrow> attendance_policy option \<Rightarrow> policy_fields \<Rightarrow> att_db \<Rightarrow> att_db" where
  "upsert_attendance_policy org actor policy fs db =
     log_att actor ''attendance.policy.upserted'' (case policy of None \<Rightarrow> tb_next_id db | Some p \<Rightarrow> po_id p)
       (db\<lparr>tb_policies := put_attendance_policy (tb_next_id db) org policy fs (tb_policies db),
           tb_next_id := (if policy = None then Suc (tb_next_id db) else tb_next_id db)\<rparr>)"

section \<open>Shifts\<close>

definition find_shift :: "att_db \<Rightarrow> uid \<Rightarrow> shift option" where
  "find_shift db i = first_row (\<lambda>s. sh_id s = i) (tb_shifts db)"

text \<open>\<open>order_by('-start_date', '-created_at').first()\<close>.\<close>

definition latest_by :: "('a \<Rightarrow> date) \<Rightarrow> ('a \<Rightarrow> bool) \<Rightarrow> 'a list \<Rightarrow> 'a option" where
  "latest_by start P xs = first_row (\<lambda>_. True) (rev (sort_key start (filter P xs)))"

definition covers :: "date \<Rightarrow> date option \<Rightarrow> date \<Rightarrow> bool" where
  "covers s t d \<longleftrightarrow> s \<le> d \<and> (case t of None \<Rightarrow> True | Some e \<Rightarrow> d \<le> e)"

definition resolve_rotation_shift :: "att_db \<Rightarrow> shift_rotation_assignment option \<Rightarrow> date \<Rightarrow> shift option" where
  "resolve_rotation_shift db rotation d =
     (case rotation of
        None \<Rightarrow> None
      | Some ra \<Rightarrow>
     (case first_row (\<lambda>t. rt_id t = ra_template ra) (tb_rotation_templates db) of
        None \<Rightarrow> None
      | Some t \<Rightarrow>
          let sequence = rt_shift_sequence t;
              interval = max 1 (rt_rotation_interval_days t);
              elapsed = days_between (ra_start_date ra) d
          in if sequence = [] \<or> elapsed < 0 then None
             else first_row (\<lambda>s. sh_organisation s = ra_organisation ra \<and>
                    sh_id s = sequence ! nat ((elapsed div interval) mod int (length sequence)) \<and> sh_is_active s) (tb_shifts db)))"

definition get_effective_shift :: "att_db \<Rightarrow> employee \<Rightarrow> date \<Rightarrow> (shift \<times> shift_source) option" where
  "get_effective_shift db e d =
     (case resolve_rotation_shift db (latest_by ra_start_date
             (\<lambda>r. ra_employee r = em_id e \<and> ra_organisation r = em_organisation e \<and> ra_is_active r \<and>
                covers (ra_start_date r) (ra_end_date r) d) (tb_rotations db)) d of
        Some s \<Rightarrow> Some (s, ROTATION)
      | None \<Rightarrow>
     (case latest_by sa_start_date
             (\<lambda>a. sa_employee a = em_id e \<and> sa_organisation a = em_organisation e \<and> sa_is_active a \<and>
                covers (sa_start_date a) (sa_end_date a) d) (tb_assignments db) of
        None \<Rightarrow> None
      | Some a \<Rightarrow> map_option (\<lambda>s. (s, DIRECT)) (find_shift db (sa_shift a))))"

text \<open>\<open>_get_threshold\<close>: a column of the shift that is set, else the policy's.\<close>

definition get_threshold :: "(shift \<Rightarrow> int option) \<Rightarrow> (attendance_policy \<Rightarrow> int) \<Rightarrow> attendance_policy \<Rightarrow> shift option \<Rightarrow> int" where
  "get_threshold shift_attr policy_attr policy s =
     or_else (case s of None \<Rightarrow> None | Some x \<Rightarrow> shift_attr x) (policy_attr policy)"

section \<open>Windows\<close>

definition wall :: "date \<Rightarrow> int \<Rightarrow> int" where
  "wall d t = toordinal d * DAY_US + t"

text \<open>Datetimes end with the year 9999; a sum beyond it raises.\<close>

definition wall_plus :: "int \<Rightarrow> int \<Rightarrow> int res" where
  "wall_plus w delta =
     (if wall (Date 1 1 1) 0 \<le> w + delta \<and> w + delta < wall date_max DAY_US then Inr (w + delta) else Inl OverflowError)"

definition get_shift_windows :: "attendance_policy \<Rightarrow> shift option \<Rightarrow> date \<Rightarrow> (int \<times> int) res" where
  "get_shift_windows policy s d =
     (let start_time = (case s of None \<Rightarrow> po_default_start_time policy | Some x \<Rightarrow> sh_start_time x);
          end_time = (case s of None \<Rightarrow> po_default_end_time policy | Some x \<Rightarrow> sh_end_time x);
          shift_start = wall d start_time;
          next_end = bind_res (following_day d) (\<lambda>n. Inr (shift_start, wall n end_time))
      in if (case s of None \<Rightarrow> False | Some x \<Rightarrow> sh_is_overnight x) then next_end
         else if wall d end_time < shift_start then next_end
         else Inr (shift_start, wall d end_time))"

record day_bounds =
  db_day_start :: int
  db_day_end :: int
  db_shift_start :: int

definition get_day_bounds :: "attendance_policy \<Rightarrow> shift option \<Rightarrow> date \<Rightarrow> day_bounds res" where
  "get_day_bounds policy s d =
     bind_res (get_shift_windows policy s d) (\<lambda>(shift_start, shift_end).
       if (case s of None \<Rightarrow> False | Some x \<Rightarrow> sh_is_overnight x)
       then bind_res (wall_plus shift_start (- 6 * 60 * MINUTE_US)) (\<lambda>a.
            bind_res (wall_plus shift_end (6 * 60 * MINUTE_US)) (\<lambda>b.
            Inr \<lparr>db_day_start = a, db_day_end = b, db_shift_start = shift_start\<rparr>))
       else Inr \<lparr>db_day_start = wall d 0, db_day_end = wall d (DAY_US - 1), db_shift_start = shift_start\<rparr>)"

text \<open>\<open>weekday()\<close> counts from Monday; the first of January of year 1 is one.\<close>

definition weekday_week_off :: "attendance_policy \<Rightarrow> date \<Rightarrow> bool" where
  "weekday_week_off policy d =
     ((toordinal d - 1) mod 7 \<in>
        set (if po_week_off_days policy = [] then DEFAULT_WEEK_OFF_DAYS else po_week_off_days policy))"

section \<open>Requests\<close>

text \<open>Calendars by name; the first that has a holiday on the day gives its first, by name.\<close>

definition get_holiday_for_date :: "timeoff_db \<Rightarrow> employee \<Rightarrow> date \<Rightarrow> holiday option" where
  "get_holiday_for_date db e d =
     first_row (\<lambda>_. True) (concat (map (\<lambda>c. sort_key ho_name (filter (\<lambda>h. ho_date h = d) (hc_holidays c)))
       (sort_key hc_name (filter (\<lambda>c. hc_organisation c = em_organisation e \<and> hc_status c = HC_PUBLISHED \<and> hc_year c = yr d \<and>
          (hc_locations c = [] \<or> (case em_office_location e of None \<Rightarrow> False | Some l \<Rightarrow> l \<in> set (hc_locations c))))
          (td_calendars db)))))"

definition request_day_fraction :: "date \<Rightarrow> date \<Rightarrow> date \<Rightarrow> day_session \<Rightarrow> day_session \<Rightarrow> rat" where
  "request_day_fraction s t d start_session end_session =
     (if d < s \<or> t < d then 0
      else if s = t \<and> t = d then (if start_session \<noteq> FULL_DAY \<or> end_session \<noteq> FULL_DAY then 1 / 2 else 1)
      else if d = s \<and> start_session \<noteq> FULL_DAY then 1 / 2
      else if d = t \<and> end_session \<noteq> FULL_DAY then 1 / 2
      else 1)"

definition get_leave_fraction :: "timeoff_db \<Rightarrow> uid \<Rightarrow> date \<Rightarrow> rat" where
  "get_leave_fraction db employee d =
     min (sum_list (map (\<lambda>r. request_day_fraction (lr_start_date r) (lr_end_date r) d (lr_start_session r) (lr_end_session r))
       (filter (\<lambda>r. lr_employee r = employee \<and> lr_status r = LR_APPROVED \<and> lr_start_date r \<le> d \<and> d \<le> lr_end_date r)
          (td_leave_requests db)))) 1"

definition on_duty_day_units :: "date \<Rightarrow> int \<Rightarrow> on_duty_request \<Rightarrow> rat" where
  "on_duty_day_units d half_day_minutes r =
     (if or_duration_type r = OD_TIME_RANGE \<and> or_start_date r = or_end_date r \<and> or_end_date r = d
      then (case (or_start_time r, or_end_time r) of
              (Some a, Some b) \<Rightarrow> if max 0 ((int b - int a) div MINUTE_US) \<ge> half_day_minutes then 1 else 1 / 2
            | _ \<Rightarrow> 0)
      else (case or_duration_type r of
              OD_FULL_DAY \<Rightarrow> 1
            | OD_FIRST_HALF \<Rightarrow> 1 / 2
            | OD_SECOND_HALF \<Rightarrow> 1 / 2
            | OD_TIME_RANGE \<Rightarrow> request_day_fraction (or_start_date r) (or_end_date r) d FULL_DAY FULL_DAY))"

definition get_on_duty_fraction :: "timeoff_db \<Rightarrow> uid \<Rightarrow> date \<Rightarrow> int \<Rightarrow> rat" where
  "get_on_duty_fraction db employee d half_day_minutes =
     min (sum_list (map (on_duty_day_units d half_day_minutes)
       (filter (\<lambda>r. or_employee r = employee \<and> or_status r = OD_APPROVED \<and> or_start_date r \<le> d \<and> d \<le> or_end_date r)
          (td_on_duty_requests db)))) 1"

definition get_wfh_request :: "att_db \<Rightarrow> uid \<Rightarrow> date \<Rightarrow> wfh_request option" where
  "get_wfh_request db employee d =
     first_row (\<lambda>r. wf_employee r = employee \<and> wf_status r = OD_APPROVED \<and> wf_start_date r \<le> d \<and> d \<le> wf_end_date r)
       (rev (tb_wfh_requests db))"

definition get_wfh_fraction :: "wfh_request option \<Rightarrow> rat" where
  "get_wfh_fraction request =
     (case request of None \<Rightarrow> 0 | Some r \<Rightarrow> if wf_session r = FULL_DAY then 1 else 1 / 2)"

end
