(* ===== verification/AttendanceSummary.thy ===== *)
theory AttendanceSummary
  imports AttendanceDays
begin

text \<open>
  The summary of a day (\<open>_summarize_day\<close>), the row it is kept in (\<open>recalculate_attendance_day\<close>), and
  the summary of a period for payroll (\<open>get_payroll_attendance_summary\<close>) of \<open>attendance/services.py\<close>.
\<close>

section \<open>The interval of a day\<close>

text \<open>Punches come in the order of their times.\<close>

definition pick_interval_from_punches :: "attendance_punch list \<Rightarrow> moment option \<times> moment option" where
  "pick_interval_from_punches punches =
     (if punches = [] then (None, None)
      else
        let ins = map pu_at (filter (\<lambda>p. pu_action_type p = CHECK_IN) punches);
            check_in = (if ins \<noteq> [] then fold min (tl ins) (hd ins) else pu_at (hd punches));
            outs = filter (\<lambda>t. check_in \<le> t) (map pu_at (filter (\<lambda>p. pu_action_type p = CHECK_OUT) punches));
            check_out = (if outs \<noteq> [] then Some (fold max (tl outs) (hd outs))
                         else if length punches > 1 \<and> pu_at (last punches) > check_in then Some (pu_at (last punches))
                         else None)
        in (Some check_in, check_out))"

definition get_attendance_override :: "att_db \<Rightarrow> employee \<Rightarrow> date \<Rightarrow> attendance_record option" where
  "get_attendance_override db e d =
     first_row (\<lambda>r. ar_rec_organisation r = em_organisation e \<and> ar_rec_employee r = em_id e \<and> ar_rec_date r = d) (tb_records db)"

definition find_day :: "att_db \<Rightarrow> employee \<Rightarrow> date \<Rightarrow> attendance_day option" where
  "find_day db e d =
     first_row (\<lambda>x. ad_organisation x = em_organisation e \<and> ad_employee x = em_id e \<and> ad_date x = d) (tb_days db)"

definition get_overtime_approval :: "att_db \<Rightarrow> employee \<Rightarrow> date \<Rightarrow> overtime_approval option" where
  "get_overtime_approval db e d =
     first_row (\<lambda>a. oa_employee a = em_id e \<and> list_ex (\<lambda>x. ad_id x = oa_day a \<and> ad_date x = d) (tb_days db)) (rev (tb_overtime db))"

definition punches_between :: "att_db \<Rightarrow> employee \<Rightarrow> moment \<Rightarrow> moment \<Rightarrow> attendance_punch list" where
  "punches_between db e a b =
     sort_key pu_at (filter (\<lambda>p. pu_organisation p = em_organisation e \<and> pu_employee p = em_id e \<and> a \<le> pu_at p \<and> pu_at p \<le> b)
       (tb_punches db))"

fun punch_source_of_record :: "record_source \<Rightarrow> punch_source" where
  "punch_source_of_record REGULARIZATION_RECORD = PS_REGULARIZATION"
| "punch_source_of_record MANUAL_OVERRIDE = PS_MANUAL"
| "punch_source_of_record EXCEL_IMPORT = PS_IMPORT"

text \<open>Whole minutes, rounded down; never negative.\<close>

definition minutes_between :: "moment \<Rightarrow> moment \<Rightarrow> int" where
  "minutes_between a b = max 0 ((b - a) div MINUTE_US)"

section \<open>Status and pay of a day\<close>

record day_marks =
  dm_status :: attendance_day_status
  dm_paid :: rat
  dm_worked :: int
  dm_late :: int
  dm_overtime :: int
  dm_is_late :: bool
  dm_needs_regularization :: bool
  dm_note :: string

definition absent_marks :: day_marks where
  "absent_marks =
     \<lparr>dm_status = AD_ABSENT, dm_paid = 0, dm_worked = 0, dm_late = 0, dm_overtime = 0, dm_is_late = False,
      dm_needs_regularization = False, dm_note = []\<rparr>"

definition marks_of_interval :: "int \<Rightarrow> int \<Rightarrow> int \<Rightarrow> moment \<Rightarrow> moment \<Rightarrow> moment \<Rightarrow> day_marks" where
  "marks_of_interval full half overtime_after late_threshold check_in check_out =
     (let worked = minutes_between check_in check_out;
          late = late_threshold < check_in
      in absent_marks\<lparr>
           dm_status := (if full \<le> worked then AD_PRESENT else if half \<le> worked then AD_HALF_DAY else AD_ABSENT),
           dm_paid := (if full \<le> worked then 1 else if half \<le> worked then 1 / 2 else 0),
           dm_worked := worked, dm_late := (if late then minutes_between late_threshold check_in else 0),
           dm_overtime := (if overtime_after < worked then worked - overtime_after else 0), dm_is_late := late\<rparr>)"

definition incomplete_marks :: day_marks where
  "incomplete_marks = absent_marks\<lparr>dm_status := AD_INCOMPLETE, dm_needs_regularization := True,
     dm_note := ''Only one punch is available for this day.''\<rparr>"

definition marks_of_no_punch :: "bool \<Rightarrow> bool \<Rightarrow> rat \<Rightarrow> day_marks" where
  "marks_of_no_punch is_holiday is_week_off wfh =
     (if is_holiday then absent_marks\<lparr>dm_status := AD_HOLIDAY, dm_paid := 1\<rparr>
      else if is_week_off then absent_marks\<lparr>dm_status := AD_WEEK_OFF, dm_paid := 1\<rparr>
      else if 1 \<le> wfh then absent_marks\<lparr>dm_status := AD_WFH, dm_paid := 1\<rparr>
      else absent_marks)"

definition half_added :: "attendance_day_status \<Rightarrow> day_marks \<Rightarrow> day_marks" where
  "half_added otherwise m =
     (let paid = min 1 (dm_paid m + 1 / 2)
      in m\<lparr>dm_paid := paid, dm_status := (if 1 \<le> paid then AD_PRESENT else otherwise), dm_needs_regularization := False\<rparr>)"

definition whole_day :: "attendance_day_status \<Rightarrow> day_marks \<Rightarrow> day_marks" where
  "whole_day status m = m\<lparr>dm_status := status, dm_paid := 1, dm_needs_regularization := False\<rparr>"

definition apply_requests :: "rat \<Rightarrow> rat \<Rightarrow> rat \<Rightarrow> day_marks \<Rightarrow> day_marks" where
  "apply_requests leave on_duty wfh m =
     (if 1 \<le> leave then whole_day AD_ON_LEAVE m
      else if 1 \<le> on_duty \<and> dm_status m \<in> {AD_ABSENT, AD_INCOMPLETE} then whole_day AD_ON_DUTY m
      else if leave = 1 / 2 then half_added AD_HALF_DAY m
      else if on_duty = 1 / 2 \<and> dm_status m \<in> {AD_ABSENT, AD_HALF_DAY, AD_INCOMPLETE} then half_added AD_HALF_DAY m
      else if 1 \<le> wfh \<and> dm_status m \<in> {AD_ABSENT, AD_INCOMPLETE} then whole_day AD_WFH m
      else if wfh = 1 / 2 \<and> dm_status m \<in> {AD_ABSENT, AD_HALF_DAY, AD_INCOMPLETE} then half_added AD_WFH m
      else m)"

section \<open>The summary\<close>

text \<open>The interval from an override, or else from the punches, and where it comes from.\<close>

definition day_interval ::
  "attendance_record option \<Rightarrow> attendance_punch list \<Rightarrow> (moment option \<times> moment option) \<times> punch_source option" where
  "day_interval override punches =
     (case override of
        Some r \<Rightarrow> ((Some (ar_rec_check_in_at r), ar_rec_check_out_at r), Some (punch_source_of_record (ar_rec_source r)))
      | None \<Rightarrow>
          if punches = [] then ((None, None), None)
          else (pick_interval_from_punches punches, Some (pu_source (last punches))))"

text \<open>The late threshold is computed only when both ends of the interval are known.\<close>

fun interval_marks ::
  "moment option \<times> moment option \<Rightarrow> int \<Rightarrow> int \<Rightarrow> int \<Rightarrow> moment res \<Rightarrow> day_marks \<Rightarrow> day_marks res" where
  "interval_marks (Some a, Some b) full half overtime_after threshold no_punch =
     bind_res threshold (\<lambda>t. Inr (marks_of_interval full half overtime_after t a b))"
| "interval_marks (Some a, None) full half overtime_after threshold no_punch = Inr incomplete_marks"
| "interval_marks (None, out) full half overtime_after threshold no_punch = Inr no_punch"

definition summary_of ::
  "att_env \<Rightarrow> att_db \<Rightarrow> employee \<Rightarrow> date \<Rightarrow> attendance_policy \<Rightarrow> day_summary res" where
  "summary_of env db e d policy =
     (let assignment = get_effective_shift db e d;
          s = map_option fst assignment;
          utc = ae_utc_of env (po_timezone_name policy)
      in bind_res (get_day_bounds policy s d) (\<lambda>bounds.
      let half = get_threshold sh_half_day_min_minutes po_half_day_min_minutes policy s;
          full = get_threshold sh_full_day_min_minutes po_full_day_min_minutes policy s;
          overtime_after = get_threshold sh_overtime_after_minutes po_overtime_after_minutes policy s;
          grace = get_threshold sh_grace_minutes po_grace_minutes policy s;
          holiday = get_holiday_for_date (ae_timeoff env) e d;
          leave = get_leave_fraction (ae_timeoff env) (em_id e) d;
          on_duty = get_on_duty_fraction (ae_timeoff env) (em_id e) d half;
          wfh_request = get_wfh_request db (em_id e) d;
          wfh = get_wfh_fraction wfh_request;
          overtime = get_overtime_approval db e d;
          override = get_attendance_override db e d;
          punches = punches_between db e (utc (db_day_start bounds)) (utc (db_day_end bounds));
          found = day_interval override punches;
          interval = fst found;
          week_off = weekday_week_off policy d
      in bind_res (interval_marks interval full half overtime_after
             (bind_res (wall_plus (db_shift_start bounds) (grace * MINUTE_US)) (\<lambda>w. Inr (utc w)))
             (marks_of_no_punch (holiday \<noteq> None) week_off wfh)) (\<lambda>m0.
           let m = apply_requests leave on_duty wfh m0
           in Inr \<lparr>ds_policy = po_id policy, ds_shift = map_option sh_id s, ds_status = dm_status m, ds_source = snd found,
                ds_check_in_at = fst interval, ds_check_out_at = snd interval, ds_worked_minutes = dm_worked m,
                ds_overtime_minutes = dm_overtime m, ds_late_minutes = dm_late m, ds_is_late = dm_is_late m,
                ds_needs_regularization = dm_needs_regularization m, ds_paid_fraction = quantize2 (dm_paid m),
                ds_leave_fraction = quantize2 leave, ds_on_duty_fraction = quantize2 on_duty, ds_is_holiday = (holiday \<noteq> None),
                ds_is_week_off = week_off, ds_raw_punch_count = length punches, ds_note = dm_note m,
                ds_shift_source = (case assignment of None \<Rightarrow> POLICY_DEFAULT | Some (_, x) \<Rightarrow> x),
                ds_holiday_name = (case holiday of None \<Rightarrow> [] | Some h \<Rightarrow> ho_name h),
                ds_override_source = map_option ar_rec_source override, ds_overtime_status = map_option oa_status overtime,
                ds_approved_overtime_minutes = (case overtime of None \<Rightarrow> 0 | Some o1 \<Rightarrow> oa_approved_minutes o1),
                ds_wfh_session = map_option wf_session wfh_request, ds_geo_fence_warning = False\<rparr>)))"

definition summarize_day :: "att_env \<Rightarrow> employee \<Rightarrow> date \<Rightarrow> att_db \<Rightarrow> day_summary att_outcome" where
  "summarize_day env e d db =
     then_do (get_default_attendance_policy (em_organisation e) db) (\<lambda>policy. \<lambda>db1.
       from_res (summary_of env db1 e d policy) db1)"

section \<open>The row of a day\<close>

definition put_day :: "employee \<Rightarrow> date \<Rightarrow> day_summary \<Rightarrow> att_db \<Rightarrow> attendance_day \<times> att_db" where
  "put_day e d summary db =
     (case find_day db e d of
        Some x \<Rightarrow>
          let row = x\<lparr>ad_summary := summary\<rparr>
          in (row, db\<lparr>tb_days := update_where (\<lambda>y. ad_id y = ad_id x) (\<lambda>_. row) (tb_days db)\<rparr>)
      | None \<Rightarrow>
          let row = \<lparr>ad_id = tb_next_id db, ad_organisation = em_organisation e, ad_employee = em_id e, ad_date = d,
                     ad_summary = summary\<rparr>
          in (row, db\<lparr>tb_days := tb_days db @ [row], tb_next_id := Suc (tb_next_id db)\<rparr>))"

definition recalculate_attendance_day ::
  "att_env \<Rightarrow> employee \<Rightarrow> date \<Rightarrow> uid option \<Rightarrow> att_db \<Rightarrow> attendance_day att_outcome" where
  "recalculate_attendance_day env e d actor db =
     then_do (summarize_day env e d db) (\<lambda>summary. \<lambda>db1.
       let (row, db2) = put_day e d summary db1
       in give row (if actor = None then db2 else log_att actor ''attendance.day.recalculated'' (ad_id row) db2))"

section \<open>What payroll asks for\<close>

text \<open>
  \<open>_get_payable_overtime_minutes\<close> reads the column \<open>overtime_approval_required\<close> through \<open>_get_threshold\<close>, which
  takes it from the shift when there is one; a shift has no such attribute.
\<close>

definition get_payable_overtime_minutes :: "employee \<Rightarrow> attendance_day \<Rightarrow> att_db \<Rightarrow> int att_outcome" where
  "get_payable_overtime_minutes e day db =
     then_do (get_default_attendance_policy (em_organisation e) db) (\<lambda>policy. \<lambda>db1.
       case get_effective_shift db1 e (ad_date day) of
         Some _ \<Rightarrow> fail (AttributeError ''overtime_approval_required'') db1
       | None \<Rightarrow>
           (case first_row (\<lambda>a. oa_day a = ad_id day) (tb_overtime db1) of
              Some a \<Rightarrow>
                if oa_status a = OA_APPROVED then give (oa_approved_minutes a) db1
                else give (if po_overtime_approval_required policy then 0 else ds_overtime_minutes (ad_summary day)) db1
            | None \<Rightarrow> give (if po_overtime_approval_required policy then 0 else ds_overtime_minutes (ad_summary day)) db1))"

definition payroll_day ::
  "att_env \<Rightarrow> employee \<Rightarrow> date \<Rightarrow> att_db \<times> rat \<times> int \<Rightarrow> (att_db \<times> rat \<times> int, unit) step_result" where
  "payroll_day env e d s =
     (case s of (db, paid, overtime) \<Rightarrow>
      case recalculate_attendance_day env e d None db of
        (db1, Inl err) \<Rightarrow> fail err (db1, paid, overtime)
      | (db1, Inr day) \<Rightarrow>
          let paid1 = paid + quantize2 (ds_paid_fraction (ad_summary day))
          in (case get_payable_overtime_minutes e day db1 of
                (db2, Inl err) \<Rightarrow> fail err (db2, paid1, overtime)
              | (db2, Inr m) \<Rightarrow> give () (db2, paid1, overtime + m)))"

record payroll_attendance_summary =
  ps_att_paid_fraction :: rat
  ps_att_lop_days :: rat
  ps_att_overtime_minutes :: int

definition get_payroll_attendance_summary ::
  "att_env \<Rightarrow> employee \<Rightarrow> date \<Rightarrow> date \<Rightarrow> att_db \<Rightarrow> payroll_attendance_summary att_outcome option" where
  "get_payroll_attendance_summary env e s t db =
     map_option (\<lambda>((db1, paid, overtime), r).
       (db1, bind_res r (\<lambda>_. Inr
          \<lparr>ps_att_paid_fraction = quantize2 paid,
           ps_att_lop_days = quantize2 (max 0 (of_int (days_between s t + 1) - paid)),
           ps_att_overtime_minutes = overtime\<rparr>)))
       (day_loop (payroll_day env e) s t (db, 0, 0))"

end
