(* ===== verification/AttendanceOps.thy ===== *)
theory AttendanceOps
  imports AttendanceSummary TimeoffRequests
begin

text \<open>
  Punches, overrides and regularizations (\<open>attendance/services.py\<close>). A regularization is decided by the
  approval engine, which reaches it through \<open>att_ops\<close>.
\<close>

section \<open>Where a punch may come from\<close>

definition validate_ip :: "att_env \<Rightarrow> attendance_policy \<Rightarrow> string \<Rightarrow> unit res" where
  "validate_ip env policy remote_ip =
     (if \<not> po_restrict_by_ip policy then Inr ()
      else if remote_ip = [] then raise_value ''This attendance policy allows punches only from approved IP ranges.''
      else if list_ex (\<lambda>n. ae_in_network env n remote_ip) (po_allowed_ip_ranges policy) then Inr ()
      else raise_value ''Your current network is not allowed by the attendance policy.'')"

definition validate_geo_fence ::
  "att_env \<Rightarrow> att_db \<Rightarrow> uid \<Rightarrow> rat option \<Rightarrow> rat option \<Rightarrow> uid option \<Rightarrow> bool \<times> string option" where
  "validate_geo_fence env db org latitude longitude location =
     (case (latitude, longitude, location) of
        (Some lat, Some lon, Some l) \<Rightarrow>
          let policies = filter (\<lambda>g. gf_organisation g = org \<and> gf_is_active g \<and> gf_location g = l) (tb_geo_fences db);
              outside = ''You are outside all configured geo-fence locations.''
          in if policies = [] then (True, None)
             else if list_ex (\<lambda>g. ae_within_fence env g lat lon) policies then (True, None)
             else if list_ex (\<lambda>g. gf_enforcement_mode g = GF_BLOCK) policies then (False, Some outside)
             else if list_ex (\<lambda>g. gf_enforcement_mode g = GF_WARN) policies
             then (True, Some ''Warning: You are outside the approved geo-fence area. Your punch has been recorded.'')
             else (False, Some outside)
      | _ \<Rightarrow> (True, None))"

section \<open>Punches\<close>

definition update_day :: "uid \<Rightarrow> (day_summary \<Rightarrow> day_summary) \<Rightarrow> att_db \<Rightarrow> att_db" where
  "update_day i f db = db\<lparr>tb_days := update_where (\<lambda>x. ad_id x = i) (\<lambda>x. x\<lparr>ad_summary := f (ad_summary x)\<rparr>) (tb_days db)\<rparr>"

definition add_punch ::
  "employee \<Rightarrow> uid option \<Rightarrow> punch_action_type \<Rightarrow> punch_source \<Rightarrow> moment \<Rightarrow> att_db \<Rightarrow> att_db" where
  "add_punch e config action source tm db =
     db\<lparr>tb_punches := tb_punches db @ [\<lparr>pu_id = tb_next_id db, pu_organisation = em_organisation e, pu_employee = em_id e,
          pu_source_config = config, pu_action_type = action, pu_source = source, pu_at = tm\<rparr>],
        tb_next_id := Suc (tb_next_id db)\<rparr>"

text \<open>The day of the clock in the zone of the policy.\<close>

definition policy_local_date :: "att_env \<Rightarrow> attendance_policy \<Rightarrow> date" where
  "policy_local_date env policy = ae_local_date env (po_timezone_name policy) (ae_now env)"

definition check_punch_order :: "punch_action_type \<Rightarrow> attendance_day \<Rightarrow> unit res" where
  "check_punch_order action day =
     (let s = ad_summary day
      in if action = CHECK_IN \<and> ds_check_in_at s \<noteq> None \<and> ds_check_out_at s = None
         then raise_value ''You are already checked in for today.''
         else if action = CHECK_OUT \<and> ds_check_in_at s = None then raise_value ''Check in before punching out.''
         else Inr ())"

definition record_employee_punch ::
  "att_env \<Rightarrow> employee \<Rightarrow> punch_action_type \<Rightarrow> uid option \<Rightarrow> string \<Rightarrow> rat option \<Rightarrow> rat option \<Rightarrow> punch_source
     \<Rightarrow> att_db \<Rightarrow> (uid \<times> attendance_day) att_outcome" where
  "record_employee_punch env e action actor remote_ip latitude longitude source db =
     then_do (get_default_attendance_policy (em_organisation e) db) (\<lambda>policy. \<lambda>db1.
     if source = PS_WEB \<and> \<not> po_allow_web_punch policy
     then fail (ValueError ''Web punch is disabled for this attendance policy.'' []) db1
     else then_do (from_res (validate_ip env policy remote_ip) db1) (\<lambda>_. \<lambda>db1.
     let (allowed, warning) = (case em_office_location e of
            None \<Rightarrow> (True, None)
          | Some l \<Rightarrow> validate_geo_fence env db1 (em_organisation e) latitude longitude (Some l))
     in if \<not> allowed then fail (ValueError (or_else warning []) []) db1
     else
       let today = policy_local_date env policy
       in then_do (recalculate_attendance_day env e today None db1) (\<lambda>day. \<lambda>db2.
          then_do (from_res (check_punch_order action day) db2) (\<lambda>_. \<lambda>db2.
          then_do (recalculate_attendance_day env e today actor (add_punch e None action source (ae_now env) db2)) (\<lambda>day1. \<lambda>db3.
            let db4 = (if warning = None then db3 else update_day (ad_id day1) (\<lambda>s. s\<lparr>ds_geo_fence_warning := True\<rparr>) db3)
            in give (tb_next_id db2, day1\<lparr>ad_summary := (ad_summary day1)\<lparr>ds_geo_fence_warning := (warning \<noteq> None)\<rparr>\<rparr>)
                 (log_att (Some (or_else actor (em_user e))) ''attendance.punch.recorded'' (tb_next_id db2) db4))))))"

text \<open>Punches of a device. The result of the call is a status; a punch within a minute of another of its kind is left out.\<close>

datatype source_punch_result = Skipped string | Refused string | Created uid

definition action_of_direction :: "string \<Rightarrow> punch_action_type" where
  "action_of_direction direction =
     (if py_upper direction = ''IN'' then CHECK_IN else if py_upper direction = ''OUT'' then CHECK_OUT else RAW_PUNCH)"

definition punch_within_minute :: "employee \<Rightarrow> uid \<Rightarrow> punch_action_type \<Rightarrow> moment \<Rightarrow> att_db \<Rightarrow> bool" where
  "punch_within_minute e org action tm db =
     list_ex (\<lambda>p. pu_organisation p = org \<and> pu_employee p = em_id e \<and> pu_action_type p = action \<and>
        tm - MINUTE_US \<le> pu_at p \<and> pu_at p \<le> tm + MINUTE_US) (tb_punches db)"

definition active_with_code :: "att_env \<Rightarrow> uid \<Rightarrow> string \<Rightarrow> employee list" where
  "active_with_code env org code =
     filter (\<lambda>e. em_organisation e = org \<and> em_employee_code e = Some code \<and> em_status e = ES_ACTIVE) (ae_employees env)"

definition create_punch_from_source ::
  "att_env \<Rightarrow> string \<Rightarrow> moment \<Rightarrow> uid \<Rightarrow> string \<Rightarrow> punch_source \<Rightarrow> uid option \<Rightarrow> att_db \<Rightarrow> source_punch_result att_outcome" where
  "create_punch_from_source env employee_code tm org direction source config db =
     (case active_with_code env org (py_upper (py_strip employee_code)) of
        [] \<Rightarrow> give (Skipped ''No active employee with code {}'') db
      | [e] \<Rightarrow>
          let action = action_of_direction direction
          in if punch_within_minute e org action tm db then give (Skipped ''Duplicate punch within 1-minute window'') db
             else
               let db1 = add_punch e config action source tm db
               in then_do (get_default_attendance_policy (em_organisation e) db1) (\<lambda>policy. \<lambda>db2.
                  then_do (recalculate_attendance_day env e (ae_local_date env (po_timezone_name policy) tm) None db2) (\<lambda>_. \<lambda>db3.
                    give (Created (tb_next_id db)) db3))
      | _ \<Rightarrow> give (Refused ''Multiple employees match code {}'') db)"

text \<open>
  A batch from a source. A payload comes with its parsed time (\<open>_parse_datetime_value\<close>) and its action, absent
  when it is none of the three; only a \<open>ValueError\<close> is counted, another error ends the batch. The day that is
  recalculated is the day of the default zone, not of the policy's.
\<close>

record punch_payload =
  py_employee_code :: string
  py_at :: "moment res"
  py_action :: "punch_action_type option"

record ingest_counts =
  ic_ingested :: nat
  ic_duplicates :: nat
  ic_errors :: nat

definition resolve_employee :: "att_env \<Rightarrow> uid \<Rightarrow> string \<Rightarrow> employee res" where
  "resolve_employee env org code =
     (let normalized = py_upper (py_strip code)
      in if normalized = [] then raise_value ''Employee code is required.''
         else case active_with_code env org normalized of
                [] \<Rightarrow> raise_value ''Employee code was not found in this organisation or is not active.''
              | e # _ \<Rightarrow> Inr e)"

definition ingest_one ::
  "att_env \<Rightarrow> attendance_source_config \<Rightarrow> uid option \<Rightarrow> punch_payload \<Rightarrow> att_db \<Rightarrow> bool att_outcome" where
  "ingest_one env config actor payload db =
     then_do (from_res (resolve_employee env (sc_organisation config) (py_upper (py_strip (py_employee_code payload)))) db) (\<lambda>e. \<lambda>db.
     then_do (from_res (py_at payload) db) (\<lambda>tm. \<lambda>db.
     case py_action payload of
       None \<Rightarrow> fail (ValueError ''Action type must be CHECK_IN, CHECK_OUT, or RAW.'' []) db
     | Some action \<Rightarrow>
         if list_ex (\<lambda>p. pu_organisation p = sc_organisation config \<and> pu_employee p = em_id e \<and>
              pu_source_config p = Some (sc_id config) \<and> pu_at p = tm \<and> pu_action_type p = action) (tb_punches db)
         then give False db
         else then_do (recalculate_attendance_day env e (ae_local_date env (ae_default_zone env) tm) actor
                (add_punch e (Some (sc_id config)) action (if sc_kind config = SC_API then PS_API else PS_MANUAL) tm db)) (\<lambda>_.
              give True)))"

definition ingest_step ::
  "att_env \<Rightarrow> attendance_source_config \<Rightarrow> uid option \<Rightarrow> punch_payload \<Rightarrow> att_db \<times> ingest_counts \<Rightarrow> (att_db \<times> ingest_counts) res" where
  "ingest_step env config actor payload s =
     (case ingest_one env config actor payload (fst s) of
        (db, Inr True) \<Rightarrow> Inr (db, (snd s)\<lparr>ic_ingested := Suc (ic_ingested (snd s))\<rparr>)
      | (db, Inr False) \<Rightarrow> Inr (db, (snd s)\<lparr>ic_duplicates := Suc (ic_duplicates (snd s))\<rparr>)
      | (db, Inl (ValueError m args)) \<Rightarrow> Inr (db, (snd s)\<lparr>ic_errors := Suc (ic_errors (snd s))\<rparr>)
      | (db, Inl e) \<Rightarrow> Inl e)"

section \<open>Overrides\<close>

definition put_record ::
  "employee \<Rightarrow> date \<Rightarrow> moment \<Rightarrow> moment option \<Rightarrow> record_source \<Rightarrow> att_db \<Rightarrow> uid \<times> att_db" where
  "put_record e d check_in check_out source db =
     (case get_attendance_override db e d of
        Some r \<Rightarrow> (ar_rec_id r, db\<lparr>tb_records := update_where (\<lambda>x. ar_rec_id x = ar_rec_id r)
          (\<lambda>x. x\<lparr>ar_rec_check_in_at := check_in, ar_rec_check_out_at := check_out, ar_rec_source := source\<rparr>) (tb_records db)\<rparr>)
      | None \<Rightarrow> (tb_next_id db, db\<lparr>tb_records := tb_records db @ [\<lparr>ar_rec_id = tb_next_id db, ar_rec_organisation = em_organisation e,
          ar_rec_employee = em_id e, ar_rec_date = d, ar_rec_check_in_at = check_in, ar_rec_check_out_at = check_out,
          ar_rec_source = source\<rparr>], tb_next_id := Suc (tb_next_id db)\<rparr>))"

definition upsert_attendance_override ::
  "att_env \<Rightarrow> employee \<Rightarrow> date \<Rightarrow> moment option \<Rightarrow> moment option \<Rightarrow> record_source \<Rightarrow> uid option \<Rightarrow> string
     \<Rightarrow> att_db \<Rightarrow> attendance_day att_outcome" where
  "upsert_attendance_override env e d check_in_at check_out_at source actor note db =
     (case (if check_in_at = None then check_out_at else check_in_at) of
        None \<Rightarrow> fail (ValueError ''A check-in time is required to save an attendance override.'' []) db
      | Some check_in \<Rightarrow>
          let (record_id, db1) = put_record e d check_in check_out_at source db
          in then_do (recalculate_attendance_day env e d actor db1) (\<lambda>day. \<lambda>db2.
               let db3 = (if note = [] then db2 else update_day (ad_id day) (\<lambda>s. s\<lparr>ds_note := note\<rparr>) db2);
                   day1 = (if note = [] then day else day\<lparr>ad_summary := (ad_summary day)\<lparr>ds_note := note\<rparr>\<rparr>)
               in give day1 (log_att actor ''attendance.override.upserted'' record_id db3)))"

section \<open>Regularizations\<close>

fun regularization_status_of :: "subject_status \<Rightarrow> regularization_status" where
  "regularization_status_of SUBJECT_APPROVED = RG_APPROVED"
| "regularization_status_of SUBJECT_REJECTED = RG_REJECTED"
| "regularization_status_of SUBJECT_CANCELLED = RG_CANCELLED"
| "regularization_status_of SUBJECT_WITHDRAWN = RG_WITHDRAWN"

definition update_regularization :: "uid \<Rightarrow> (regularization_request \<Rightarrow> regularization_request) \<Rightarrow> att_db \<Rightarrow> att_db" where
  "update_regularization i f db = db\<lparr>tb_regularizations := update_where (\<lambda>r. rg_id r = i) f (tb_regularizations db)\<rparr>"

definition find_regularization :: "att_db \<Rightarrow> uid \<Rightarrow> regularization_request option" where
  "find_regularization db i = first_row (\<lambda>r. rg_id r = i) (tb_regularizations db)"

definition set_regularization_status :: "uid \<Rightarrow> regularization_status \<Rightarrow> string \<Rightarrow> att_db \<Rightarrow> att_db" where
  "set_regularization_status i s reason =
     update_regularization i (\<lambda>r. r\<lparr>rg_status := s, rg_rejection_reason := (if reason = [] then rg_rejection_reason r else reason)\<rparr>)"

definition first_of :: "'a option \<Rightarrow> 'a option \<Rightarrow> 'a option" where
  "first_of x y = (case x of None \<Rightarrow> y | Some _ \<Rightarrow> x)"

definition apply_regularization_status_change ::
  "att_env \<Rightarrow> regularization_request \<Rightarrow> employee \<Rightarrow> regularization_status \<Rightarrow> string \<Rightarrow> att_db \<Rightarrow> unit att_outcome" where
  "apply_regularization_status_change env r e new_status reason db =
     (let db1 = set_regularization_status (rg_id r) new_status reason db
      in if new_status = RG_APPROVED
         then then_do (recalculate_attendance_day env e (rg_date r) None db1) (\<lambda>existing. \<lambda>db2.
           let check_in = first_of (rg_requested_check_in_at r)
                 (first_of (ds_check_in_at (ad_summary existing)) (rg_requested_check_out_at r));
               check_out = first_of (rg_requested_check_out_at r) (ds_check_out_at (ad_summary existing))
           in then_do (upsert_attendance_override env e (rg_date r) check_in check_out REGULARIZATION_RECORD None
                ''Approved attendance regularization applied.'' db2) (\<lambda>_. give ()))
         else then_do (recalculate_attendance_day env e (rg_date r) None db1) (\<lambda>_. give ()))"

text \<open>What the engine sees of a regularization. Its decision runs in one transaction.\<close>

definition regularization_ref :: "uid \<Rightarrow> subject_ref" where
  "regularization_ref i = (''AttendanceRegularizationRequest'', i)"

definition employee_of_regularization :: "att_env \<Rightarrow> regularization_request \<Rightarrow> employee option" where
  "employee_of_regularization env r = first_row (\<lambda>e. em_id e = rg_employee r) (ae_employees env)"

definition att_handle :: "att_env \<Rightarrow> subject_ref \<Rightarrow> subject_status \<Rightarrow> string \<Rightarrow> att_db \<Rightarrow> att_db res" where
  "att_handle env ref s reason db =
     (case find_regularization db (snd ref) of
        None \<Rightarrow> Inr db
      | Some r \<Rightarrow>
     (case employee_of_regularization env r of
        None \<Rightarrow> Inl (DoesNotExist ''Employee'')
      | Some e \<Rightarrow>
          case apply_regularization_status_change env r e (regularization_status_of s) reason db of
            (db1, Inl err) \<Rightarrow> Inl err
          | (db1, Inr _) \<Rightarrow> Inr db1))"

definition att_ops :: "att_env \<Rightarrow> att_db subject_ops" where
  "att_ops env =
     \<lparr>so_exists = (\<lambda>ref db. fst ref = fst (regularization_ref 0) \<and> find_regularization db (snd ref) \<noteq> None),
      so_set_status = (\<lambda>ref s reason. set_regularization_status (snd ref) (regularization_status_of s) reason),
      so_handle = att_handle env\<rparr>"

type_synonym att_state = "att_db approval_state"

definition on_att :: "(att_db \<Rightarrow> (att_db, 'a) step_result) \<Rightarrow> att_state \<Rightarrow> (att_state, 'a) step_result" where
  "on_att f st = (st\<lparr>ap_subjects := fst (f (ap_subjects st))\<rparr>, snd (f (ap_subjects st)))"

definition create_regularization_request ::
  "att_env \<Rightarrow> clock \<Rightarrow> employee \<Rightarrow> date \<Rightarrow> moment option \<Rightarrow> moment option \<Rightarrow> uid option \<Rightarrow> att_state \<Rightarrow> (att_state, uid) step_result" where
  "create_regularization_request env ck e d check_in check_out actor st =
     (if check_in = None \<and> check_out = None
      then fail (ValueError ''Provide a check-in time, a check-out time, or both.'' []) st
      else then_do (on_att (recalculate_attendance_day env e d None) st) (\<lambda>day. \<lambda>st1.
        let db = ap_subjects st1
        in if list_ex (\<lambda>r. rg_employee r = em_id e \<and> rg_date r = d \<and> rg_status r = RG_PENDING) (tb_regularizations db)
           then fail (ValueError ''A pending regularization request already exists for this date.'' []) st1
           else
             let i = tb_next_id db;
                 row = \<lparr>rg_id = i, rg_organisation = em_organisation e, rg_employee = em_id e, rg_day = Some (ad_id day),
                        rg_date = d, rg_requested_check_in_at = check_in, rg_requested_check_out_at = check_out,
                        rg_status = RG_PENDING, rg_rejection_reason = [], rg_approval_run = None\<rparr>;
                 st2 = st1\<lparr>ap_subjects := db\<lparr>tb_regularizations := tb_regularizations db @ [row], tb_next_id := Suc i\<rparr>\<rparr>
             in then_do (atomically (bind_res (create_approval_run ck (regularization_ref i) RK_ATTENDANCE_REGULARIZATION e
                    (Some (or_else actor (em_user e))) None (''Attendance regularization for '' @ isoformat d) None empty_context st2)
                  (\<lambda>(st3, run). Inr (st3\<lparr>ap_subjects :=
                     update_regularization i (\<lambda>r. r\<lparr>rg_approval_run := Some (rn_id run)\<rparr>) (ap_subjects st3)\<rparr>, i))) st1)
                (\<lambda>i. on_att (\<lambda>x. give i (log_att (Some (or_else actor (em_user e))) ''attendance.regularization.created'' i x)))))"

definition withdraw_regularization_request ::
  "att_env \<Rightarrow> clock \<Rightarrow> regularization_request \<Rightarrow> uid option \<Rightarrow> att_state \<Rightarrow> (att_state, unit) step_result" where
  "withdraw_regularization_request env ck r actor st =
     (if rg_status r \<noteq> RG_PENDING then fail (ValueError ''Only pending regularization requests can be withdrawn.'' []) st
      else
        let st1 = st\<lparr>ap_subjects := update_regularization (rg_id r) (\<lambda>x. x\<lparr>rg_status := RG_WITHDRAWN\<rparr>) (ap_subjects st)\<rparr>
        in then_do (case rg_approval_run r of
             None \<Rightarrow> give () st1
           | Some run \<Rightarrow> atomically (bind_res (cancel_approval_run ck (att_ops env) run actor (Some SUBJECT_WITHDRAWN) st1)
                            (\<lambda>x. Inr (x, ()))) st1)
           (\<lambda>_. on_att (\<lambda>x. give () (log_att actor ''attendance.regularization.withdrawn'' (rg_id r) x))))"

section \<open>The interface payroll uses\<close>

definition attendance_of :: "att_env \<Rightarrow> att_db \<Rightarrow> uid \<Rightarrow> date \<Rightarrow> date \<Rightarrow> (rat \<times> int) option" where
  "attendance_of env db i s t =
     (case first_row (\<lambda>e. em_id e = i) (ae_employees env) of
        None \<Rightarrow> None
      | Some e \<Rightarrow>
          case get_payroll_attendance_summary env e s t db of
            Some (_, Inr x) \<Rightarrow> Some (ps_att_paid_fraction x, ps_att_overtime_minutes x)
          | _ \<Rightarrow> None)"

end
