(* ===== verification/AttendanceExample.thy ===== *)
theory AttendanceExample
  imports AttendanceOps PayExample
begin

text \<open>
  A concrete organisation for the witnesses: its default policy, an employee without a shift and one with,
  a zone five and a half hours ahead of UTC, and punches of the second of June 2025, a Monday.
\<close>

definition worker :: employee where
  "worker = example_employee 10 (Some 20)"

text \<open>A time of the second of June 2025, in UTC, from hours and minutes in the zone.\<close>

definition june_second :: "int \<Rightarrow> int \<Rightarrow> moment" where
  "june_second h m = wall (Date 2025 6 2) ((h * 60 + m - 330) * MINUTE_US)"

definition example_env :: att_env where
  "example_env =
     \<lparr>ae_now = june_second 18 30, ae_utc_of = (\<lambda>_ w. w - 330 * MINUTE_US), ae_local_date = (\<lambda>_ _. Date 2025 6 2),
      ae_default_zone = ''UTC'', ae_in_network = (=), ae_within_fence = (\<lambda>_ _ _. True),
      ae_employees = [worker], ae_timeoff = empty_timeoff_db\<rparr>"

definition example_punch :: "uid \<Rightarrow> punch_action_type \<Rightarrow> moment \<Rightarrow> attendance_punch" where
  "example_punch i action t =
     \<lparr>pu_id = i, pu_organisation = em_organisation worker, pu_employee = em_id worker, pu_source_config = None,
      pu_action_type = action, pu_source = PS_DEVICE, pu_at = t\<rparr>"

definition example_att_db :: att_db where
  "example_att_db =
     \<lparr>tb_policies = [new_attendance_policy 60 (em_organisation worker) ''Default'' True], tb_shifts = [], tb_assignments = [],
      tb_rotation_templates = [], tb_rotations = [], tb_geo_fences = [], tb_sources = [],
      tb_punches = [example_punch 61 CHECK_IN (june_second 9 30)], tb_records = [],
      tb_days = [], tb_overtime = [], tb_regularizations = [], tb_wfh_requests = [], tb_audit = [], tb_next_id = 70\<rparr>"

definition example_regularization :: regularization_request where
  "example_regularization =
     \<lparr>rg_id = 65, rg_organisation = em_organisation worker, rg_employee = em_id worker, rg_day = None, rg_date = Date 2025 6 2,
      rg_requested_check_in_at = None, rg_requested_check_out_at = Some (june_second 18 0), rg_status = RG_PENDING,
      rg_rejection_reason = [], rg_approval_run = None\<rparr>"

definition day_shift :: shift where
  "day_shift =
     \<lparr>sh_id = 62, sh_organisation = em_organisation worker, sh_start_time = 8 * 60 * MINUTE_US, sh_end_time = 16 * 60 * MINUTE_US,
      sh_grace_minutes = None, sh_full_day_min_minutes = None, sh_half_day_min_minutes = None, sh_overtime_after_minutes = None,
      sh_is_overnight = False, sh_is_active = True\<rparr>"

definition shift_db :: att_db where
  "shift_db = example_att_db\<lparr>tb_shifts := [day_shift],
     tb_assignments := [\<lparr>sa_id = 63, sa_organisation = em_organisation worker, sa_employee = em_id worker, sa_shift = 62,
       sa_start_date = Date 2025 1 1, sa_end_date = None, sa_is_active = True\<rparr>]\<rparr>"

definition attendance_inputs :: run_inputs where
  "attendance_inputs = example_inputs\<lparr>in_run := (in_run example_inputs)\<lparr>pr_use_attendance_inputs := True\<rparr>\<rparr>"

definition example_day :: "attendance_day att_outcome" where
  "example_day = recalculate_attendance_day example_env worker (Date 2025 6 2) None example_att_db"

lemma example_day_ok: "recalculate_attendance_day example_env worker (Date 2025 6 2) None example_att_db =
    (fst example_day, Inr (projr (snd example_day)))"
proof -
  have "is_ok (snd example_day)" by code_simp
  then show ?thesis by (cases "snd example_day") (auto simp: example_day_def simp flip: surjective_pairing intro: prod_eqI)
qed

end
