(* ===== verification/AttendanceProperties.thy ===== *)
theory AttendanceProperties
  imports AttendanceExample
begin

text \<open>
  What the attendance of a day and of a period keeps: how a day is paid, that a recalculation is
  stable, the period payroll asks for, and what a shift does to it; the default policy, the punches
  of devices and approved regularizations.
\<close>

section \<open>Fractions\<close>

definition half_or_whole :: "rat \<Rightarrow> bool" where
  "half_or_whole x \<longleftrightarrow> x = 0 \<or> x = 1 / 2 \<or> x = 1"

lemma half_or_whole_simps [simp]: "half_or_whole 0" "half_or_whole (1 / 2)" "half_or_whole 1"
  by (simp_all add: half_or_whole_def)

lemma half_or_whole_bounds: "half_or_whole x \<Longrightarrow> 0 \<le> x \<and> x \<le> 1"
  by (auto simp: half_or_whole_def)

lemma half_or_whole_money [simp]: "half_or_whole x \<Longrightarrow> money x"
  unfolding half_or_whole_def money_def by (elim disjE; hypsubst; simp)

text \<open>A sum of halves, cut at one.\<close>

lemma halves_min:
  assumes "\<And>x. x \<in> set xs \<Longrightarrow> half_or_whole x"
  shows "half_or_whole (min (sum_list xs) 1)"
proof -
  have "\<exists>n :: nat. sum_list xs = of_nat n / 2"
    using assms
  proof (induction xs)
    case (Cons x xs)
    then obtain n :: nat where "sum_list xs = of_nat n / 2" by auto
    moreover have "\<exists>k :: nat. x = of_nat k / 2"
      using Cons.prems [of x] by (force simp: half_or_whole_def intro: exI [of _ 0] exI [of _ 1] exI [of _ 2])
    ultimately obtain k :: nat where "x + sum_list xs = of_nat (k + n) / 2" by (auto simp: add_divide_distrib)
    then show ?case by (intro exI [of _ "k + n"]) simp
  qed (auto intro: exI [of _ 0])
  then obtain n :: nat where n: "sum_list xs = of_nat n / 2" by blast
  consider "n = 0" | "n = 1" | "2 \<le> n" by linarith
  then show ?thesis
  proof cases
    case 3
    then have "(1 :: rat) \<le> of_nat n / 2" by simp
    then show ?thesis by (simp add: n min_def)
  qed (simp_all add: n min_def)
qed

lemma request_day_fraction_half [simp]: "half_or_whole (request_day_fraction s t d a b)"
  by (simp add: request_day_fraction_def)

lemma leave_fraction_half [simp]: "half_or_whole (get_leave_fraction db e d)"
  unfolding get_leave_fraction_def by (rule halves_min) auto

lemma on_duty_fraction_half [simp]: "half_or_whole (get_on_duty_fraction db e d h)"
  unfolding get_on_duty_fraction_def
  by (rule halves_min) (auto simp: on_duty_day_units_def split: on_duty_duration_type.splits option.splits)

lemma wfh_fraction_half [simp]: "half_or_whole (get_wfh_fraction r)"
  by (simp add: get_wfh_fraction_def split: option.splits)

section \<open>Status and pay\<close>

fun pays :: "attendance_day_status \<Rightarrow> rat set" where
  "pays AD_HALF_DAY = {1 / 2}"
| "pays AD_ABSENT = {0}"
| "pays AD_INCOMPLETE = {0}"
| "pays AD_WFH = {1 / 2, 1}"
| "pays _ = {1}"

definition marks_ok :: "day_marks \<Rightarrow> bool" where
  "marks_ok m \<longleftrightarrow> dm_paid m \<in> pays (dm_status m) \<and> (dm_needs_regularization m \<longleftrightarrow> dm_status m = AD_INCOMPLETE) \<and>
     0 \<le> dm_worked m \<and> 0 \<le> dm_late m \<and> 0 \<le> dm_overtime m \<and> (0 < dm_late m \<longrightarrow> dm_is_late m)"

lemma minutes_nonneg [simp]: "0 \<le> minutes_between a b"
  by (simp add: minutes_between_def)

lemma absent_sels [simp]:
  "dm_status absent_marks = AD_ABSENT" "dm_paid absent_marks = 0" "dm_worked absent_marks = 0" "dm_late absent_marks = 0"
  "dm_overtime absent_marks = 0" "\<not> dm_is_late absent_marks" "\<not> dm_needs_regularization absent_marks"
  by (simp_all add: absent_marks_def)

lemma marks_ok_start:
  "marks_ok (marks_of_interval full half after threshold a b)" "marks_ok incomplete_marks" "marks_ok (marks_of_no_punch h w x)"
  by (auto simp: marks_ok_def marks_of_interval_def incomplete_marks_def marks_of_no_punch_def Let_def)

lemma marks_ok_whole: "marks_ok m \<Longrightarrow> s \<in> {AD_ON_LEAVE, AD_ON_DUTY, AD_WFH} \<Longrightarrow> marks_ok (whole_day s m)"
  by (auto simp: marks_ok_def whole_day_def)

lemma marks_ok_half:
  assumes "marks_ok m" "s \<in> {AD_HALF_DAY, AD_WFH}"
  shows "marks_ok (half_added s m)"
  using assms by (cases "dm_status m") (auto simp: marks_ok_def half_added_def Let_def)

lemma marks_ok_requests: "marks_ok m \<Longrightarrow> marks_ok (apply_requests leave duty wfh m)"
  by (auto simp: apply_requests_def marks_ok_whole marks_ok_half)

lemma requests_leave: "leave = 1 \<Longrightarrow> dm_status (apply_requests leave duty wfh m) = AD_ON_LEAVE"
  by (simp add: apply_requests_def whole_day_def)

text \<open>Any request takes a day out of the incomplete ones.\<close>

lemma requests_incomplete:
  assumes "half_or_whole leave" "half_or_whole duty" "half_or_whole wfh"
  shows "dm_status (apply_requests leave duty wfh m) = AD_INCOMPLETE \<longleftrightarrow>
    dm_status m = AD_INCOMPLETE \<and> leave = 0 \<and> duty = 0 \<and> wfh = 0"
  using assms by (auto simp: half_or_whole_def apply_requests_def whole_day_def half_added_def Let_def split: if_splits)

lemma wfh_fraction_zero: "get_wfh_fraction w = 0 \<longleftrightarrow> w = None"
  by (simp add: get_wfh_fraction_def split: option.split)

definition consistent_day :: "day_summary \<Rightarrow> bool" where
  "consistent_day s \<longleftrightarrow>
     ds_paid_fraction s \<in> pays (ds_status s) \<and> half_or_whole (ds_leave_fraction s) \<and> half_or_whole (ds_on_duty_fraction s) \<and>
     (ds_needs_regularization s \<longleftrightarrow> ds_status s = AD_INCOMPLETE) \<and>
     (ds_status s = AD_INCOMPLETE \<longleftrightarrow> ds_check_in_at s \<noteq> None \<and> ds_check_out_at s = None \<and>
        ds_leave_fraction s = 0 \<and> ds_on_duty_fraction s = 0 \<and> ds_wfh_session s = None) \<and>
     (ds_leave_fraction s = 1 \<longrightarrow> ds_status s = AD_ON_LEAVE) \<and>
     0 \<le> ds_worked_minutes s \<and> 0 \<le> ds_late_minutes s \<and> 0 \<le> ds_overtime_minutes s \<and>
     (0 < ds_late_minutes s \<longrightarrow> ds_is_late s)"

lemma pays_money: "x \<in> pays s \<Longrightarrow> half_or_whole x"
  by (cases s) (auto simp: half_or_whole_def)

lemma interval_marks_ok:
  assumes "interval_marks i full half after threshold (marks_of_no_punch h w x) = Inr m"
  shows "marks_ok m" "dm_status m = AD_INCOMPLETE \<longleftrightarrow> fst i \<noteq> None \<and> snd i = None"
proof -
  obtain a b where i: "i = (a, b)" by (cases i)
  consider (none) "a = None" "m = marks_of_no_punch h w x" | (single) "a \<noteq> None" "b = None" "m = incomplete_marks"
    | (both) t u v where "b \<noteq> None" "m = marks_of_interval full half after t u v"
    using assms i by (cases a; cases b) auto
  note kinds = this
  from kinds show "marks_ok m" by cases (simp_all add: marks_ok_start)
  have "dm_status (marks_of_no_punch h w x) \<noteq> AD_INCOMPLETE" "dm_status (marks_of_interval full half after t u v) \<noteq> AD_INCOMPLETE" for t u v
    by (simp_all add: marks_of_no_punch_def marks_of_interval_def Let_def)
  moreover have "dm_status incomplete_marks = AD_INCOMPLETE" by (simp add: incomplete_marks_def)
  ultimately show "dm_status m = AD_INCOMPLETE \<longleftrightarrow> fst i \<noteq> None \<and> snd i = None"
    by (cases rule: kinds) (simp_all add: i)
qed

lemma summary_marks:
  assumes "summary_of env db e d policy = Inr s"
  obtains m where "marks_ok m" "dm_status m = AD_INCOMPLETE \<longleftrightarrow> ds_check_in_at s \<noteq> None \<and> ds_check_out_at s = None \<and>
      ds_leave_fraction s = 0 \<and> ds_on_duty_fraction s = 0 \<and> ds_wfh_session s = None"
    "ds_leave_fraction s = 1 \<Longrightarrow> dm_status m = AD_ON_LEAVE"
    "ds_status s = dm_status m" "ds_paid_fraction s = dm_paid m" "ds_worked_minutes s = dm_worked m"
    "ds_late_minutes s = dm_late m" "ds_overtime_minutes s = dm_overtime m" "ds_is_late s = dm_is_late m"
    "ds_needs_regularization s = dm_needs_regularization m" "half_or_whole (ds_leave_fraction s)"
    "half_or_whole (ds_on_duty_fraction s)"
proof -
  obtain i full half after threshold h w x m0 l u q where m0: "interval_marks i full half after threshold (marks_of_no_punch h w x) = Inr m0"
    and wfh: "x = get_wfh_fraction q" "ds_wfh_session s = map_option wf_session q"
    and s: "ds_check_in_at s = fst i" "ds_check_out_at s = snd i" "half_or_whole l" "half_or_whole u"
      "ds_leave_fraction s = quantize2 l" "ds_on_duty_fraction s = quantize2 u"
    and m: "ds_status s = dm_status (apply_requests l u x m0)" "ds_paid_fraction s = quantize2 (dm_paid (apply_requests l u x m0))"
      "ds_worked_minutes s = dm_worked (apply_requests l u x m0)" "ds_late_minutes s = dm_late (apply_requests l u x m0)"
      "ds_overtime_minutes s = dm_overtime (apply_requests l u x m0)" "ds_is_late s = dm_is_late (apply_requests l u x m0)"
      "ds_needs_regularization s = dm_needs_regularization (apply_requests l u x m0)"
  proof -
    from assms show ?thesis
      unfolding summary_of_def Let_def bind_res_eq_Inr
      by (elim exE conjE) (drule Inr_inject, hypsubst, rule that, assumption, rule refl, simp_all)
  qed
  note ok = interval_marks_ok [OF m0]
  let ?m = "apply_requests l u x m0"
  have okm: "marks_ok ?m" by (rule marks_ok_requests [OF ok(1)])
  then have "half_or_whole (dm_paid ?m)" using pays_money by (auto simp: marks_ok_def)
  then have paid: "ds_paid_fraction s = dm_paid ?m" using m(2) by simp
  have fractions: "half_or_whole (ds_leave_fraction s)" "half_or_whole (ds_on_duty_fraction s)" "ds_leave_fraction s = l"
      "ds_on_duty_fraction s = u"
    using s by simp_all
  have "half_or_whole x" by (simp add: wfh(1))
  then have single: "dm_status ?m = AD_INCOMPLETE \<longleftrightarrow> ds_check_in_at s \<noteq> None \<and> ds_check_out_at s = None \<and>
      ds_leave_fraction s = 0 \<and> ds_on_duty_fraction s = 0 \<and> ds_wfh_session s = None"
    using requests_incomplete [OF s(3,4)] ok(2) wfh_fraction_zero [of q] wfh(2) by (auto simp: s(1,2) fractions(3,4) wfh(1))
  have leave: "dm_status ?m = AD_ON_LEAVE" if "ds_leave_fraction s = 1"
    by (rule requests_leave) (use that fractions(3) in simp)
  show ?thesis by (rule that [OF okm single leave m(1) paid m(3-7) fractions(1,2)])
qed

lemma summary_consistent: "summary_of env db e d policy = Inr s \<Longrightarrow> consistent_day s"
  by (erule summary_marks) (simp add: consistent_day_def marks_ok_def)

section \<open>What a recalculation writes\<close>

text \<open>The tables a summary reads, besides policies and days.\<close>

definition read_tables :: "att_db \<Rightarrow> _" where
  "read_tables db = (tb_shifts db, tb_assignments db, tb_rotation_templates db, tb_rotations db, tb_punches db, tb_records db,
     tb_overtime db, tb_wfh_requests db, tb_regularizations db, tb_geo_fences db, tb_sources db)"

lemma effective_shift_cong:
  assumes "tb_shifts db' = tb_shifts db" "tb_assignments db' = tb_assignments db"
    "tb_rotation_templates db' = tb_rotation_templates db" "tb_rotations db' = tb_rotations db"
  shows "get_effective_shift db' = get_effective_shift db"
  unfolding fun_eq_iff get_effective_shift_def resolve_rotation_shift_def find_shift_def assms by blast

lemma inputs_reads:
  assumes "read_tables db' = read_tables db"
  shows "get_effective_shift db' = get_effective_shift db" "punches_between db' = punches_between db"
    "get_attendance_override db' = get_attendance_override db" "get_wfh_request db' = get_wfh_request db"
    "tb_overtime db' = tb_overtime db" "tb_records db' = tb_records db" "tb_regularizations db' = tb_regularizations db"
    "tb_punches db' = tb_punches db"
proof -
  from assms have eqs: "tb_shifts db' = tb_shifts db" "tb_assignments db' = tb_assignments db"
    "tb_rotation_templates db' = tb_rotation_templates db" "tb_rotations db' = tb_rotations db" "tb_punches db' = tb_punches db"
    "tb_records db' = tb_records db" "tb_wfh_requests db' = tb_wfh_requests db"
    by (simp_all add: read_tables_def)
  show "get_effective_shift db' = get_effective_shift db" "punches_between db' = punches_between db"
    "get_attendance_override db' = get_attendance_override db" "get_wfh_request db' = get_wfh_request db"
    using effective_shift_cong [OF eqs(1-4)]
    unfolding fun_eq_iff punches_between_def get_attendance_override_def get_wfh_request_def eqs
    by blast+
  show "tb_overtime db' = tb_overtime db" "tb_records db' = tb_records db" "tb_regularizations db' = tb_regularizations db"
    "tb_punches db' = tb_punches db"
    using assms by (simp_all add: read_tables_def)
qed

lemma inputs_frames [simp]:
  "read_tables (db\<lparr>tb_policies := p\<rparr>) = read_tables db" "read_tables (db\<lparr>tb_days := ds\<rparr>) = read_tables db"
  "read_tables (db\<lparr>tb_next_id := n\<rparr>) = read_tables db" "read_tables (log_att actor event target db) = read_tables db"
  by (simp_all add: read_tables_def log_att_def)

lemma find_default_append:
  assumes "find_default_policy db org = None" "po_organisation p = org" "po_is_default p" "po_is_active p"
  shows "find_default_policy (db\<lparr>tb_policies := tb_policies db @ [p], tb_next_id := n\<rparr>) org = Some p"
proof -
  let ?P = "\<lambda>p. po_organisation p = org \<and> po_is_default p \<and> po_is_active p"
  have "\<exists>q. first_row ?P (sort_key po_name (tb_policies db @ [p])) = Some q"
    using assms(2-4) by (auto simp: first_row_None_iff simp flip: not_None_eq)
  then obtain q where q: "first_row ?P (sort_key po_name (tb_policies db @ [p])) = Some q" by blast
  from first_row_SomeD [OF this] assms(1) have "q = p"
    by (auto simp: find_default_policy_def first_row_None_iff)
  with q show ?thesis by (simp add: find_default_policy_def)
qed

lemma default_policy_effect:
  assumes "get_default_attendance_policy org db = (db1, r)"
  shows "read_tables db1 = read_tables db" "tb_days db1 = tb_days db" "tb_next_id db \<le> tb_next_id db1" "tb_audit db1 = tb_audit db"
    "r = Inr p \<Longrightarrow> find_default_policy db1 org = Some p"
    "r = Inl err \<Longrightarrow> db1 = db \<and> err = IntegrityError ''unique_default_attendance_policy_per_org''"
  using assms find_default_append [of db org "new_attendance_policy (tb_next_id db) org ''Default Attendance Policy'' True"]
  by (auto simp: get_default_attendance_policy_def Let_def give_def fail_def new_attendance_policy_def split: option.splits if_splits)

lemma default_policy_found: "find_default_policy db org = Some p \<Longrightarrow> get_default_attendance_policy org db = (db, Inr p)"
  by (simp add: get_default_attendance_policy_def)

definition day_key :: "attendance_day \<Rightarrow> uid \<times> uid \<times> date" where
  "day_key x = (ad_organisation x, ad_employee x, ad_date x)"

text \<open>One row per employee and day, and the keys rows and approvals refer to are drawn.\<close>

definition days_ok :: "att_db \<Rightarrow> bool" where
  "days_ok db \<longleftrightarrow> distinct (map ad_id (tb_days db)) \<and> distinct (map day_key (tb_days db)) \<and>
     (\<forall>x \<in> set (tb_days db). ad_id x < tb_next_id db) \<and> (\<forall>a \<in> set (tb_overtime db). oa_day a < tb_next_id db)"

lemma find_day_key: "find_day db e d = first_row (\<lambda>x. day_key x = (em_organisation e, em_id e, d)) (tb_days db)"
  by (simp add: find_day_def day_key_def)

lemma first_row_update_same:
  assumes "\<And>x. P x \<Longrightarrow> Q (f x) \<longleftrightarrow> Q x"
  shows "first_row Q (update_where P f xs) = map_option (\<lambda>x. if P x then f x else x) (first_row Q xs)"
  using assms by (induction xs) auto

lemma row_by_id: "distinct (map f xs) \<Longrightarrow> x \<in> set xs \<Longrightarrow> y \<in> set xs \<Longrightarrow> f x = f y \<Longrightarrow> x = y"
  by (metis distinct_map inj_onD)

lemma put_day_effect:
  assumes ok: "days_ok db" and put: "put_day e d s db = (row, db2)"
  shows "find_day db2 e d = Some row" "ad_summary row = s" "put_day e d s db2 = (row, db2)" "days_ok db2"
    "read_tables db2 = read_tables db" "tb_policies db2 = tb_policies db" "tb_next_id db \<le> tb_next_id db2"
    "tb_audit db2 = tb_audit db"
    "get_overtime_approval db2 e' d' = get_overtime_approval db e' d'"
    "ad_date row = d" "ad_employee row = em_id e" "ad_organisation row = em_organisation e"
proof -
  note d = ok [unfolded days_ok_def]
  have "find_day db2 e d = Some row \<and> ad_summary row = s \<and> put_day e d s db2 = (row, db2) \<and> days_ok db2 \<and>
    read_tables db2 = read_tables db \<and> tb_policies db2 = tb_policies db \<and> tb_next_id db \<le> tb_next_id db2 \<and>
    tb_audit db2 = tb_audit db \<and> get_overtime_approval db2 e' d' = get_overtime_approval db e' d' \<and>
    day_key row = (em_organisation e, em_id e, d)"
  proof (cases "find_day db e d")
    case None
    let ?row = "\<lparr>ad_id = tb_next_id db, ad_organisation = em_organisation e, ad_employee = em_id e, ad_date = d, ad_summary = s\<rparr>"
    have r: "row = ?row" "db2 = db\<lparr>tb_days := tb_days db @ [?row], tb_next_id := Suc (tb_next_id db)\<rparr>"
      using put None by (auto simp: put_day_def Let_def)
    have key: "day_key ?row = (em_organisation e, em_id e, d)" by (simp add: day_key_def)
    have fresh: "\<forall>x \<in> set (tb_days db). day_key x \<noteq> (em_organisation e, em_id e, d)"
      using None by (simp add: find_day_key first_row_None_iff)
    have "first_row (\<lambda>x. day_key x = (em_organisation e, em_id e, d)) (tb_days db) = None"
      using fresh by (simp add: first_row_None_iff)
    then have found: "find_day db2 e d = Some row" by (simp add: find_day_key r first_row_append key)
    have other: "update_where (\<lambda>y. ad_id y = tb_next_id db) (\<lambda>_. ?row) (tb_days db) = tb_days db"
      using d by (intro update_where_none) auto
    have again: "put_day e d s db2 = (row, db2)"
      unfolding put_day_def found option.case Let_def by (simp add: r other)
    have "\<forall>a \<in> set (tb_overtime db). tb_next_id db \<noteq> oa_day a"
      using d by auto
    then have ot: "get_overtime_approval db2 e' d' = get_overtime_approval db e' d'"
      unfolding get_overtime_approval_def first_row_def r by (auto intro!: find_cong)
    have "days_ok db2"
      using d fresh unfolding days_ok_def r by (auto simp: key less_Suc_eq image_iff)
    with found again ot key show ?thesis by (simp add: r read_tables_def)
  next
    case (Some x)
    let ?row = "x\<lparr>ad_summary := s\<rparr>"
    have r: "row = ?row" "db2 = db\<lparr>tb_days := update_where (\<lambda>y. ad_id y = ad_id x) (\<lambda>_. ?row) (tb_days db)\<rparr>"
      using put Some by (auto simp: put_day_def Let_def)
    have x: "x \<in> set (tb_days db)" "day_key x = (em_organisation e, em_id e, d)"
      using first_row_SomeD [OF Some [unfolded find_day_key]] by simp_all
    have unique: "y = x" if "y \<in> set (tb_days db)" "ad_id y = ad_id x" for y
      using d that x(1) row_by_id [of ad_id "tb_days db"] by blast
    let ?t = "update_where (\<lambda>y. ad_id y = ad_id x) (\<lambda>y. y\<lparr>ad_summary := s\<rparr>) (tb_days db)"
    have t: "update_where (\<lambda>y. ad_id y = ad_id x) (\<lambda>_. ?row) (tb_days db) = ?t"
      unfolding update_where_def by (rule map_cong) (use unique in auto)
    have keys: "map ad_id ?t = map ad_id (tb_days db)" "map day_key ?t = map day_key (tb_days db)"
      by (rule map_update_where_frame; simp add: day_key_def)+
    have pairs: "map (\<lambda>y. (ad_id y, ad_date y)) ?t = map (\<lambda>y. (ad_id y, ad_date y)) (tb_days db)"
      by (rule map_update_where_frame) simp
    have found: "find_day db2 e d = Some row"
      using Some by (simp add: find_day_key r t first_row_update_same day_key_def)
    have "update_where (\<lambda>y. ad_id y = ad_id x) (\<lambda>_. ?row) ?t = ?t"
      unfolding update_where_def map_map by (rule map_cong) (use unique in auto)
    then have again: "put_day e d s db2 = (row, db2)"
      unfolding put_day_def found option.case Let_def by (simp add: r t)
    have "list_ex (\<lambda>y. ad_id y = i \<and> ad_date y = d') ?t \<longleftrightarrow> (i, d') \<in> set (map (\<lambda>y. (ad_id y, ad_date y)) ?t)" for i
      by (auto simp: list_ex_iff)
    moreover have "list_ex (\<lambda>y. ad_id y = i \<and> ad_date y = d') (tb_days db) \<longleftrightarrow> (i, d') \<in> set (map (\<lambda>y. (ad_id y, ad_date y)) (tb_days db))" for i
      by (auto simp: list_ex_iff)
    ultimately have ot: "get_overtime_approval db2 e' d' = get_overtime_approval db e' d'"
      by (simp only: get_overtime_approval_def r t pairs) simp
    have "\<forall>y \<in> set ?t. ad_id y < tb_next_id db"
      using d keys(1) by (metis (no_types, lifting) imageE imageI list.set_map)
    then have "days_ok db2" using d by (simp add: days_ok_def r t keys)
    with found again ot x(2) show ?thesis by (simp add: r read_tables_def day_key_def)
  qed
  then show "find_day db2 e d = Some row" "ad_summary row = s" "put_day e d s db2 = (row, db2)" "days_ok db2"
    "read_tables db2 = read_tables db" "tb_policies db2 = tb_policies db" "tb_next_id db \<le> tb_next_id db2"
    "tb_audit db2 = tb_audit db"
    "get_overtime_approval db2 e' d' = get_overtime_approval db e' d'"
    "ad_date row = d" "ad_employee row = em_id e" "ad_organisation row = em_organisation e"
    by (simp_all add: day_key_def)
qed

lemma summary_inputs:
  assumes "read_tables db' = read_tables db" "get_overtime_approval db' e d = get_overtime_approval db e d"
  shows "summary_of env db' e d policy = summary_of env db e d policy"
  unfolding summary_of_def inputs_reads(1-4) [OF assms(1)] assms(2) by (rule refl)

text \<open>A recalculation, raising or not.\<close>

lemma recalculate_frame:
  assumes "recalculate_attendance_day env e d actor db = (db1, r)" "days_ok db"
  shows "read_tables db1 = read_tables db" "days_ok db1" "tb_next_id db \<le> tb_next_id db1"
proof -
  obtain db0 p where p: "get_default_attendance_policy (em_organisation e) db = (db0, p)" by fastforce
  note f = default_policy_effect [OF p]
  have ok0: "days_ok db0" using assms(2) f(1-3) inputs_reads(5) [OF f(1)] by (force simp: days_ok_def)
  have "read_tables db1 = read_tables db \<and> days_ok db1 \<and> tb_next_id db \<le> tb_next_id db1"
  proof (cases "\<exists>policy s. p = Inr policy \<and> summary_of env db0 e d policy = Inr s")
    case True
    then obtain policy s where s: "p = Inr policy" "summary_of env db0 e d policy = Inr s" by blast
    obtain row db2 where put: "put_day e d s db0 = (row, db2)" by fastforce
    note g = put_day_effect [OF ok0 put]
    have "db1 = (if actor = None then db2 else log_att actor ''attendance.day.recalculated'' (ad_id row) db2)"
      using assms(1) by (simp add: recalculate_attendance_day_def summarize_day_def p s put)
    then show ?thesis using f(1,3) g(4,5,7) by (auto simp: days_ok_def log_att_def read_tables_def)
  next
    case False
    then have "db1 = db0"
      using assms(1) by (cases p; cases "summary_of env db0 e d (projr p)")
        (auto simp: recalculate_attendance_day_def summarize_day_def p)
    then show ?thesis using f ok0 by simp
  qed
  then show "read_tables db1 = read_tables db" "days_ok db1" "tb_next_id db \<le> tb_next_id db1" by blast+
qed

lemma recalculate_effect:
  assumes "recalculate_attendance_day env e d None db = (db1, Inr day)" "days_ok db"
  obtains p db0 where "get_default_attendance_policy (em_organisation e) db = (db0, Inr p)"
    "summary_of env db1 e d p = Inr (ad_summary day)" "find_default_policy db1 (em_organisation e) = Some p"
    "find_day db1 e d = Some day" "put_day e d (ad_summary day) db1 = (day, db1)" "ad_date day = d" "tb_audit db1 = tb_audit db"
proof -
  obtain db0 p where p: "get_default_attendance_policy (em_organisation e) db = (db0, p)" by fastforce
  note f = default_policy_effect [OF p]
  have ok0: "days_ok db0" using assms(2) f(1-3) inputs_reads(5) [OF f(1)] by (force simp: days_ok_def)
  obtain policy s where s: "p = Inr policy" "summary_of env db0 e d policy = Inr s"
    using assms(1) by (cases p; cases "summary_of env db0 e d (projr p)")
      (auto simp: recalculate_attendance_day_def summarize_day_def p)
  obtain row db2 where put: "put_day e d s db0 = (row, db2)" by fastforce
  note g = put_day_effect [OF ok0 put]
  have "db1 = db2" "day = row"
    using assms(1) by (simp_all add: recalculate_attendance_day_def summarize_day_def p s put)
  moreover have "summary_of env db2 e d policy = Inr s"
    using s(2) summary_inputs [OF g(5) g(9)] by simp
  moreover have "find_default_policy db2 (em_organisation e) = Some policy"
    using f(5) [OF s(1)] g(6) by (simp add: find_default_policy_def)
  ultimately show ?thesis using that [OF p [unfolded s(1)]] g f(4) s by simp
qed

text \<open>C37: a recalculated day is stable and unique. The row that is returned is the row of the employee and day
in the table, a second recalculation changes nothing and returns it again, no other employee or day gets a
second row, and everything a summary is computed from (punches, records, shifts, approvals) is untouched.\<close>

theorem recalculation_is_stable:
  assumes "days_ok db" "recalculate_attendance_day env e d None db = (db1, Inr day)"
  shows "recalculate_attendance_day env e d None db1 = (db1, Inr day) \<and> find_day db1 e d = Some day \<and>
    days_ok db1 \<and> read_tables db1 = read_tables db"
proof (rule recalculate_effect [OF assms(2,1)])
  fix p
  assume "summary_of env db1 e d p = Inr (ad_summary day)" "find_default_policy db1 (em_organisation e) = Some p"
    "put_day e d (ad_summary day) db1 = (day, db1)"
  then have "recalculate_attendance_day env e d None db1 = (db1, Inr day)"
    by (simp add: recalculate_attendance_day_def summarize_day_def default_policy_found)
  moreover assume "find_day db1 e d = Some day"
  ultimately show ?thesis using recalculate_frame [OF assms(2,1)] by simp
qed

lemma example_days_ok: "days_ok example_att_db" "days_ok shift_db"
  by code_simp+

theorem recalculation_is_stable_witness:
  "recalculate_attendance_day example_env worker (Date 2025 6 2) None (fst example_day) = example_day \<and>
   find_day (fst example_day) worker (Date 2025 6 2) = Some (projr (snd example_day))"
  using recalculation_is_stable [OF example_days_ok(1) example_day_ok] example_day_ok
  by (simp add: example_day_def [symmetric])

text \<open>C16: how a day is paid. Whatever punches, overrides, holidays and requests a day has, its paid fraction is
the one of its status: a present day, a holiday, a week off, leave and duty count whole, a half day half,
an absent or incomplete day nothing, work from home half or whole. A day needs regularization exactly when
it is incomplete, which it is exactly when it has a check-in and no check-out and no part of it is covered by
approved leave, duty or work from home; a full day of leave is shown as leave; no
counter of minutes is negative, and minutes of lateness belong to a late day.\<close>

theorem paid_fraction_follows_status:
  assumes "recalculate_attendance_day env e d actor db = (db1, Inr day)"
  shows "consistent_day (ad_summary day)"
proof -
  obtain db0 p where p: "get_default_attendance_policy (em_organisation e) db = (db0, Inr p)"
    "summary_of env db0 e d p = Inr (ad_summary day)"
  proof -
    from assms obtain s db0 where "summarize_day env e d db = (db0, Inr s)" "ad_summary day = s"
      by (auto simp: recalculate_attendance_day_def then_do_Inr put_day_def Let_def split: option.splits if_splits prod.splits)
    with that show ?thesis by (auto simp: summarize_day_def then_do_Inr)
  qed
  then show ?thesis by (rule_tac summary_consistent)
qed

theorem paid_fraction_follows_status_witness:
  "consistent_day (ad_summary (projr (snd example_day)))"
  by (rule paid_fraction_follows_status [OF example_day_ok])

section \<open>The period payroll asks for\<close>

lemma dates_from_bounds:
  assumes "d \<in> set (dates_from s n)" "valid_date s" "toordinal s + int n \<le> toordinal date_max + 1"
  shows "valid_date d \<and> toordinal s \<le> toordinal d \<and> toordinal d < toordinal s + int n"
  using assms
proof (induction n arbitrary: s)
  case (Suc n)
  show ?case
  proof (cases "d = s")
    case False
    with Suc.prems have d: "d \<in> set (dates_from (next_day s) n)" by simp
    then have "n \<noteq> 0" by (cases n) auto
    then have "s \<noteq> date_max" using Suc.prems(3) by auto
    note v = following_day_valid(2,3) [OF Suc.prems(2) this]
    show ?thesis using Suc.IH [OF d v(1)] v(2) Suc.prems(3) by simp
  qed (use Suc.prems in simp)
qed simp

definition policy_fits :: "attendance_policy \<Rightarrow> bool" where
  "policy_fits p \<longleftrightarrow> 0 \<le> po_default_start_time p \<and> po_default_start_time p < DAY_US \<and> 0 \<le> po_grace_minutes p \<and> po_grace_minutes p \<le> 1440"

lemma summary_total:
  assumes "policy_fits p" "valid_date d" "2 \<le> days_between d date_max" "get_effective_shift db e d = None"
  obtains s where "summary_of env db e d p = Inr s"
proof -
  let ?b = "get_day_bounds p None d"
  have "d \<noteq> date_max" using assms(3) by (auto simp: days_between_def)
  then obtain b where b: "?b = Inr b" "db_shift_start b = wall d (po_default_start_time p)"
    by (auto simp: get_day_bounds_def get_shift_windows_def following_day_def Let_def)
  have first: "toordinal (Date 1 1 1) = 1" "valid_date (Date 1 1 1)" by code_simp+
  have "Date 1 1 1 \<le> d" using assms(2) by (cases d) (auto simp: valid_date_def)
  then have "1 \<le> toordinal d" using toordinal_le_iff [OF first(2) assms(2)] first(1) by simp
  then have "wall_plus (db_shift_start b) (po_grace_minutes p * MINUTE_US) = Inr (db_shift_start b + po_grace_minutes p * MINUTE_US)"
    using assms(1,3) by (simp add: wall_plus_def b wall_def policy_fits_def days_between_def first)
  note fits = this
  have marks: "\<exists>s. bind_res (interval_marks i full half after (Inr t) np) (\<lambda>m. Inr (g m)) = Inr s" for i full half after t np
      and g :: "day_marks \<Rightarrow> day_summary"
    by (cases i; cases "fst i"; cases "snd i") auto
  have none: "get_threshold f g p None = g p" for f g by (simp add: get_threshold_def)
  have "\<exists>s. summary_of env db e d p = Inr s"
    unfolding summary_of_def Let_def assms(4) option.map b(1) bind_res_simps none fits by (rule marks)
  then show ?thesis using that by blast
qed

text \<open>What a period needs of the tables; a day of the loop keeps it.\<close>

definition period_ready :: "employee \<Rightarrow> attendance_policy \<Rightarrow> date list \<Rightarrow> att_db \<Rightarrow> bool" where
  "period_ready e p ds db \<longleftrightarrow>
     find_default_policy db (em_organisation e) = Some p \<and> days_ok db \<and> (\<forall>d \<in> set ds. get_effective_shift db e d = None)"

lemma recalculate_total:
  assumes "period_ready e p (d # ds) db" "policy_fits p" "valid_date d" "2 \<le> days_between d date_max"
  obtains db1 day where "recalculate_attendance_day env e d None db = (db1, Inr day)" "period_ready e p (d # ds) db1"
    "half_or_whole (ds_paid_fraction (ad_summary day))" "ad_date day = d"
proof -
  note r = assms(1) [unfolded period_ready_def]
  obtain s where s: "summary_of env db e d p = Inr s"
    using summary_total [OF assms(2-4)] r by (metis list.set_intros(1))
  obtain row db1 where put: "put_day e d s db = (row, db1)" by fastforce
  note g = put_day_effect [OF conjunct1 [OF conjunct2 [OF r]] put]
  have "recalculate_attendance_day env e d None db = (db1, Inr row)"
    using r by (simp add: recalculate_attendance_day_def summarize_day_def default_policy_found s put)
  moreover have "period_ready e p (d # ds) db1"
    using r g(4,6) inputs_reads(1) [OF g(5)] by (simp add: period_ready_def find_default_policy_def)
  moreover have "half_or_whole (ds_paid_fraction (ad_summary row))"
    using summary_consistent [OF s] pays_money by (auto simp: consistent_day_def g(2))
  ultimately show ?thesis using that g(10) by blast
qed

lemma payroll_day_effect:
  assumes "period_ready e p (d # ds) db" "policy_fits p" "valid_date d" "2 \<le> days_between d date_max"
  obtains db1 x m where "payroll_day env e d (db, paid, overtime) = ((db1, paid + x, overtime + m), Inr ())"
    "half_or_whole x" "period_ready e p ds db1"
proof -
  obtain db1 day where rec: "recalculate_attendance_day env e d None db = (db1, Inr day)" "period_ready e p (d # ds) db1"
    "half_or_whole (ds_paid_fraction (ad_summary day))" "ad_date day = d"
    by (rule recalculate_total [OF assms])
  have p: "find_default_policy db1 (em_organisation e) = Some p" "get_effective_shift db1 e d = None"
    using rec(2) by (simp_all add: period_ready_def)
  have "\<exists>m. get_payable_overtime_minutes e day db1 = (db1, Inr m)"
    using rec(4) by (auto simp: get_payable_overtime_minutes_def default_policy_found [OF p(1)] p(2) split: option.splits)
  then obtain m where "get_payable_overtime_minutes e day db1 = (db1, Inr m)" ..
  with rec have "payroll_day env e d (db, paid, overtime) = ((db1, paid + ds_paid_fraction (ad_summary day), overtime + m), Inr ())"
    by (simp add: payroll_day_def Let_def)
  moreover have "period_ready e p ds db1" using rec(2) by (simp add: period_ready_def)
  ultimately show ?thesis using that rec(3) by blast
qed

lemma payroll_days_effect:
  assumes "period_ready e p ds db" "policy_fits p" "\<forall>d \<in> set ds. valid_date d \<and> 2 \<le> days_between d date_max"
  shows "\<exists>db1 x m. run_days (payroll_day env e) ds (db, paid, overtime) = ((db1, paid + x, m), Inr ()) \<and>
    0 \<le> x \<and> x \<le> of_nat (length ds) \<and> money x \<and> find_default_policy db1 (em_organisation e) = Some p"
  using assms(1,3)
proof (induction ds arbitrary: db paid overtime)
  case Nil
  then show ?case by (intro exI [of _ db] exI [of _ 0] exI [of _ overtime]) (simp add: period_ready_def)
next
  case (Cons d ds)
  obtain db1 x m where step: "payroll_day env e d (db, paid, overtime) = ((db1, paid + x, overtime + m), Inr ())"
    "half_or_whole x" "period_ready e p ds db1"
    using payroll_day_effect [OF Cons.prems(1) assms(2)] Cons.prems(2) by (metis list.set_intros(1))
  obtain db2 y n where rest: "run_days (payroll_day env e) ds (db1, paid + x, overtime + m) = ((db2, paid + x + y, n), Inr ())"
    "0 \<le> y" "y \<le> of_nat (length ds)" "money y" "find_default_policy db2 (em_organisation e) = Some p"
    using Cons.IH [OF step(3), of "paid + x" "overtime + m"] Cons.prems(2) by auto
  show ?case
    using rest half_or_whole_bounds [OF step(2)] half_or_whole_money [OF step(2)]
    by (intro exI [of _ db2] exI [of _ "x + y"] exI [of _ n]) (auto simp: step(1) add.assoc)
qed

text \<open>C20: the attendance of a period for payroll. For a period of valid dates in which the employee has no shift,
with a default policy of ordinary times, the day-by-day loop ends and does not raise; the paid days lie
between zero and the days of the period, and the paid days and the loss of pay add up to them exactly.\<close>

theorem payroll_summary_adds_up:
  assumes "valid_date s" "valid_date t" "s \<le> t" "2 \<le> days_between t date_max"
    and "policy_fits p" "period_ready e p (period_days s t) db"
  shows "\<exists>db1 x. get_payroll_attendance_summary env e s t db = Some (db1, Inr x) \<and>
    0 \<le> ps_att_paid_fraction x \<and> 0 \<le> ps_att_lop_days x \<and>
    ps_att_paid_fraction x + ps_att_lop_days x = of_int (days_between s t + 1)"
proof -
  have lt: "t < date_max" using assms(4) valid_date_le_max [OF assms(2)] by (cases "t = date_max") (auto simp: days_between_def less_le)
  have "0 \<le> days_between s t" by (rule days_between_nonneg [OF assms(1-3)])
  then have days: "\<forall>d \<in> set (period_days s t). valid_date d \<and> 2 \<le> days_between d date_max"
    using dates_from_bounds [of _ s "nat (days_between s t + 1)"] assms(1,3,4)
    by (fastforce simp: period_days_def days_between_def)
  obtain db1 x m where run: "run_days (payroll_day env e) (period_days s t) (db, 0, 0) = ((db1, 0 + x, m), Inr ())"
    "0 \<le> x" "x \<le> of_nat (length (period_days s t))" "money x"
    using payroll_days_effect [OF assms(6,5) days] by blast
  have "(of_nat (length (period_days s t)) :: rat) = of_int (days_between s t + 1)"
    using length_period_days [OF assms(1-3)] by (metis of_int_of_nat_eq)
  with run show ?thesis
    by (auto simp: get_payroll_attendance_summary_def day_loop_result [OF assms(1,2) lt])
qed

theorem payroll_summary_adds_up_witness:
  "\<exists>db1 x. get_payroll_attendance_summary example_env worker (Date 2025 6 2) (Date 2025 6 4) example_att_db = Some (db1, Inr x) \<and>
     ps_att_paid_fraction x + ps_att_lop_days x = 3"
proof -
  have h: "valid_date (Date 2025 6 2)" "valid_date (Date 2025 6 4)" "Date 2025 6 2 \<le> Date 2025 6 4"
    "2 \<le> days_between (Date 2025 6 4) date_max" "policy_fits (hd (tb_policies example_att_db))"
    "period_ready worker (hd (tb_policies example_att_db)) (period_days (Date 2025 6 2) (Date 2025 6 4)) example_att_db"
    "days_between (Date 2025 6 2) (Date 2025 6 4) = 2"
    by code_simp+
  show ?thesis using payroll_summary_adds_up [OF h(1-6), of example_env] by (auto simp: h(7))
qed

section \<open>Shifts and overtime\<close>

lemma first_day_with_shift_raises:
  assumes "days_ok db" "get_effective_shift db e s \<noteq> None" "s \<le> t"
  obtains db1 err where "get_payroll_attendance_summary env e s t db = Some (db1, Inl err)"
proof -
  obtain db1 r where rec: "recalculate_attendance_day env e s None db = (db1, r)" by fastforce
  have shift: "get_effective_shift db1 e s \<noteq> None"
    using recalculate_frame(1) [OF rec assms(1)] assms(2) inputs_reads(1) by metis
  have "\<exists>x err. payroll_day env e s (db, 0, 0) = (x, Inl err)"
  proof (cases r)
    case (Inr day)
    have "ad_date day = s" using recalculate_effect [OF rec [unfolded Inr] assms(1)] by blast
    moreover obtain db2 p where p: "get_default_attendance_policy (em_organisation e) db1 = (db2, p)" by fastforce
    moreover have "get_effective_shift db2 e s \<noteq> None"
      using default_policy_effect(1) [OF p] shift inputs_reads(1) by metis
    ultimately have "\<exists>x err. get_payable_overtime_minutes e day db1 = (x, Inl err)"
      by (cases p) (auto simp: get_payable_overtime_minutes_def fail_def split: option.splits)
    with rec Inr show ?thesis by (auto simp: payroll_day_def fail_def Let_def)
  qed (simp add: payroll_day_def rec fail_def)
  then obtain x err where "payroll_day env e s (db, 0, 0) = (x, Inl err)" by blast
  then have "day_loop (payroll_day env e) s t (db, 0, 0) = Some (x, Inl err)"
    using assms(3) by (subst day_loop.simps) (simp add: fail_def)
  then show ?thesis
    by (cases x) (auto intro!: that simp: get_payroll_attendance_summary_def)
qed

text \<open>C8: an employee with a shift is paid as if there were no attendance. The overtime of a day reads a column
that a shift does not have, so the summary raises for every period whose first day has an effective shift;
the pay calculation takes the exception for absence of attendance, and computes the same item as without
an attendance service, whatever the punches, also when the run asks for attendance.\<close>

theorem shift_hides_attendance:
  assumes "days_ok adb" "first_row (\<lambda>x. em_id x = em_id e) (ae_employees env) = Some e"
    and "get_effective_shift adb e (active_period_start (em_date_of_joining e) (in_period_start inp)) \<noteq> None"
  shows "calculate_item (attendance_of env adb) db inp e a slabs code claims i =
    calculate_item no_attendance db inp e a slabs code claims i"
proof -
  let ?s = "active_period_start (em_date_of_joining e) (in_period_start inp)"
  have none: "attendance_of env adb (em_id e) ?s t = None" if le: "?s \<le> t" for t
  proof -
    obtain db1 err where "get_payroll_attendance_summary env e ?s t adb = Some (db1, Inl err)"
      by (rule first_day_with_shift_raises [OF assms(1,3) le])
    then show ?thesis by (simp add: attendance_of_def assms(2))
  qed
  have ctx: "attendance_context_of (attendance_of env adb) tdb use e (in_period_start inp) u n =
      attendance_context_of no_attendance tdb use e (in_period_start inp) u n" for tdb n u and use :: bool
  proof -
    have k: "(if use \<and> ?s \<le> b then attendance_of env adb (em_id e) ?s b else None) = None"
      "(if use \<and> ?s \<le> b then no_attendance (em_id e) ?s b else None) = None" for b
      using none by (simp_all add: no_attendance_def)
    show ?thesis unfolding attendance_context_of_def Let_def k by (rule refl)
  qed
  show ?thesis unfolding calculate_item_def ready_item_def ctx by (rule refl)
qed

theorem shift_hides_attendance_witness:
  "calculate_item (attendance_of example_env shift_db) example_hr_db attendance_inputs worker example_assignment pay_slab_set
     ''MH'' [example_claim] 50 =
   calculate_item no_attendance example_hr_db attendance_inputs worker example_assignment pay_slab_set ''MH'' [example_claim] 50"
proof -
  have "first_row (\<lambda>x. em_id x = em_id worker) (ae_employees example_env) = Some worker"
    by (simp add: example_env_def)
  moreover have "get_effective_shift shift_db worker
      (active_period_start (em_date_of_joining worker) (in_period_start attendance_inputs)) \<noteq> None"
    by code_simp
  ultimately show ?thesis by (rule shift_hides_attendance [OF example_days_ok(2)])
qed

section \<open>Default policies\<close>

interpretation attendance: defaulted po_organisation po_id po_is_default "\<lambda>p. p\<lparr>po_is_default := False\<rparr>"
  by unfold_locales simp_all

definition policies_ok :: "att_db \<Rightarrow> bool" where
  "policies_ok db \<longleftrightarrow> one_default po_organisation po_id po_is_default (tb_policies db) \<and> below (tb_next_id db) po_id (tb_policies db)"

lemma put_attendance_policy_ok:
  assumes "one_default po_organisation po_id po_is_default t" "below n po_id t"
    and "\<And>p. policy = Some p \<Longrightarrow> po_organisation p = org \<and> po_id p < n"
  shows "one_default po_organisation po_id po_is_default (put_attendance_policy n org policy fs t) \<and>
    below (if policy = None then Suc n else n) po_id (put_attendance_policy n org policy fs t)"
proof -
  have frame: "po_organisation (set_attendance_fields fs p) = po_organisation p" "po_id (set_attendance_fields fs p) = po_id p" for p
    by (simp_all add: set_attendance_fields_def)
  note defs = put_attendance_policy_def clear_default_attendance_def Let_def option.case
  show ?thesis
  proof (cases policy)
    case None
    have "po_id (new_attendance_policy n org [] False) = n" "po_organisation (new_attendance_policy n org [] False) = org"
      by (simp_all add: new_attendance_policy_def)
    then show ?thesis unfolding None defs
      using attendance.insert_ok [OF assms(1,2), of "set_attendance_fields fs (new_attendance_policy n org [] False)" org] frame
      by (simp split del: if_split)
  next
    case (Some p)
    let ?row = "if po_week_off_days (set_attendance_fields fs p) = []
      then (set_attendance_fields fs p)\<lparr>po_week_off_days := DEFAULT_WEEK_OFF_DAYS\<rparr> else set_attendance_fields fs p"
    have row: "po_organisation ?row = po_organisation p" "po_id ?row = po_id p" using frame by simp_all
    show ?thesis unfolding defs Some
      using attendance.rewrite_ok [OF assms(1,2), of ?row "po_id p" org] row assms(3) [OF Some]
      by (simp split del: if_split)
  qed
qed

text \<open>an organisation has at most one default attendance policy, whatever is upserted, and looking for the
default keeps it so: it is the active default, or it is created when there is none. The lookup raises
exactly when the default is inactive, because the unique constraint forbids a second one; then no day of
the organisation can be computed.\<close>

theorem default_policy_contract:
  assumes "policies_ok db" "\<And>p. policy = Some p \<Longrightarrow> po_organisation p = org \<and> po_id p < tb_next_id db"
    and "get_default_attendance_policy org db = (db1, r)" "em_organisation e = org"
  shows "policies_ok (upsert_attendance_policy org actor policy fs db) \<and> policies_ok db1 \<and>
    (case r of
       Inr p \<Rightarrow> p \<in> set (tb_policies db1) \<and> po_organisation p = org \<and> po_is_default p \<and> po_is_active p \<and>
         (\<forall>q \<in> set (tb_policies db1). po_organisation q = org \<and> po_is_default q \<longrightarrow> q = p)
     | Inl err \<Rightarrow> (\<exists>q \<in> set (tb_policies db). po_organisation q = org \<and> po_is_default q \<and> \<not> po_is_active q) \<and>
         snd (summarize_day env e d db) = Inl err)"
proof -
  have single: "attendance.single (tb_policies db)" and below: "below (tb_next_id db) po_id (tb_policies db)"
    using assms(1) by (simp_all add: policies_ok_def)
  have ups: "policies_ok (upsert_attendance_policy org actor policy fs db)"
    using put_attendance_policy_ok [OF single below assms(2)]
    by (simp add: policies_ok_def upsert_attendance_policy_def log_att_def)
  have unique: "q = p" if "attendance.single t" "p \<in> set t" "q \<in> set t" "po_organisation p = org" "po_organisation q = org"
    "po_is_default p" "po_is_default q" for p q t
    using that attendance.singleD [OF that(1)] row_by_id [of po_id t q p] by metis
  show ?thesis
  proof (cases "find_default_policy db org")
    case (Some p)
    then have "db1 = db" "r = Inr p" using assms(3) by (simp_all add: default_policy_found)
    moreover have "p \<in> set (tb_policies db)" "po_organisation p = org" "po_is_default p" "po_is_active p"
      using first_row_SomeD [OF Some [unfolded find_default_policy_def]] by auto
    ultimately show ?thesis using ups assms(1) unique [OF single] by auto
  next
    case None
    then have inactive: "\<not> po_is_active q" if "q \<in> set (tb_policies db)" "po_organisation q = org" "po_is_default q" for q
      using that by (auto simp: find_default_policy_def first_row_None_iff)
    show ?thesis
    proof (cases "list_ex (\<lambda>p. po_organisation p = org \<and> po_is_default p) (tb_policies db)")
      case True
      then have "db1 = db" "r = Inl (IntegrityError ''unique_default_attendance_policy_per_org'')"
        using assms(3) None by (auto simp: get_default_attendance_policy_def)
      moreover have "snd (summarize_day env e d db) = Inl (IntegrityError ''unique_default_attendance_policy_per_org'')"
        using True None by (simp add: summarize_day_def assms(4) get_default_attendance_policy_def)
      ultimately show ?thesis using ups assms(1) inactive True by (auto simp: list_ex_iff)
    next
      case False
      let ?p = "new_attendance_policy (tb_next_id db) org ''Default Attendance Policy'' True"
      have r: "r = Inr ?p" "tb_policies db1 = tb_policies db @ [?p]" "tb_next_id db1 = Suc (tb_next_id db)"
        using assms(3) None False by (auto simp: get_default_attendance_policy_def Let_def)
      have p: "po_id ?p = tb_next_id db" "po_organisation ?p = org" "po_is_default ?p" "po_is_active ?p"
        by (simp_all add: new_attendance_policy_def)
      have clear: "attendance.clear org None (tb_policies db) = tb_policies db"
        using False by (auto simp: clear_defaults_def update_where_def list_ex_iff intro!: map_idI)
      have "policies_ok db1"
        using attendance.insert_ok [OF single below p(1,2)] by (simp add: policies_ok_def r p(3) clear)
      with ups r p False show ?thesis by (auto simp: list_ex_iff)
    qed
  qed
qed

theorem default_policy_contract_witness:
  "\<exists>p. get_default_attendance_policy (em_organisation worker) example_att_db = (example_att_db, Inr p) \<and> po_is_default p \<and>
     (\<forall>q \<in> set (tb_policies example_att_db). po_organisation q = em_organisation worker \<and> po_is_default q \<longrightarrow> q = p)"
proof -
  have ok: "policies_ok example_att_db" by code_simp
  obtain p where p: "get_default_attendance_policy (em_organisation worker) example_att_db = (example_att_db, Inr p)"
    by (simp add: get_default_attendance_policy_def find_default_policy_def example_att_db_def new_attendance_policy_def)
  show ?thesis using default_policy_contract [OF ok _ p refl, where policy = None] p by auto
qed

end
