(* ===== verification/AttendanceRequests.thy ===== *)
theory AttendanceRequests
  imports AttendanceProperties
begin

text \<open>
  Punches of devices stay a minute apart, and an approved regularization takes effect on its day.
\<close>

section \<open>Punches of devices\<close>

definition same_kind :: "attendance_punch \<Rightarrow> attendance_punch \<Rightarrow> bool" where
  "same_kind p q \<longleftrightarrow> pu_organisation p = pu_organisation q \<and> pu_employee p = pu_employee q \<and> pu_action_type p = pu_action_type q"

definition spaced :: "att_db \<Rightarrow> bool" where
  "spaced db \<longleftrightarrow> sorted_wrt (\<lambda>p q. same_kind p q \<longrightarrow> MINUTE_US < \<bar>pu_at p - pu_at q\<bar>) (tb_punches db)"

lemma add_punch_simps [simp]:
  "tb_days (add_punch e c a s t db) = tb_days db" "tb_overtime (add_punch e c a s t db) = tb_overtime db"
  "tb_next_id (add_punch e c a s t db) = Suc (tb_next_id db)"
  "tb_punches (add_punch e c a s t db) = tb_punches db @ [\<lparr>pu_id = tb_next_id db, pu_organisation = em_organisation e,
     pu_employee = em_id e, pu_source_config = c, pu_action_type = a, pu_source = s, pu_at = t\<rparr>]"
  by (simp_all add: add_punch_def)

lemma days_ok_later: "days_ok db \<Longrightarrow> tb_days db' = tb_days db \<Longrightarrow> tb_overtime db' = tb_overtime db \<Longrightarrow>
    tb_next_id db \<le> tb_next_id db' \<Longrightarrow> days_ok db'"
  by (force simp: days_ok_def)

lemma default_policy_days_ok: "get_default_attendance_policy org db = (db1, r) \<Longrightarrow> days_ok db \<Longrightarrow> days_ok db1"
  using default_policy_effect(1-3) inputs_reads(5) by (metis days_ok_later)

text \<open>the punches of devices are spaced. However often a device reports, two punches of one employee and one
kind are more than a minute apart if they were before; a punch that is taken is stored with its time under
the key that is returned, and one that is skipped or refused leaves the punches as they were.\<close>

theorem device_punches_spaced:
  assumes "create_punch_from_source env code t org direction source config db = (db1, r)" "spaced db" "days_ok db"
  shows "spaced db1 \<and> days_ok db1 \<and>
    (case r of
       Inr (Created i) \<Rightarrow> \<exists>p \<in> set (tb_punches db1). pu_id p = i \<and> pu_at p = t \<and> pu_organisation p = org
     | Inr _ \<Rightarrow> tb_punches db1 = tb_punches db
     | Inl err \<Rightarrow> \<exists>p. tb_punches db1 = tb_punches db @ [p] \<and> pu_at p = t)"
proof -
  let ?es = "active_with_code env org (py_upper (py_strip code))"
  show ?thesis
  proof (cases "\<exists>e. ?es = [e] \<and> \<not> punch_within_minute e org (action_of_direction direction) t db")
    case False
    then have "db1 = db" "(\<exists>m. r = Inr (Skipped m)) \<or> (\<exists>m. r = Inr (Refused m))"
      using assms(1) by (auto simp: create_punch_from_source_def Let_def split: list.splits if_splits)
    then show ?thesis using assms(2,3) by auto
  next
    case True
    then obtain e where e: "?es = [e]" "\<not> punch_within_minute e org (action_of_direction direction) t db" by blast
    then have "e \<in> set ?es" by simp
    then have org: "em_organisation e = org" by (simp add: active_with_code_def)
    let ?x = "add_punch e config (action_of_direction direction) source t db"
    have x: "spaced ?x"
      using assms(2) e(2) org
      by (fastforce simp: spaced_def sorted_wrt_append same_kind_def punch_within_minute_def list_ex_iff abs_if)
    have ok: "days_ok ?x" by (rule days_ok_later [OF assms(3)]) simp_all
    obtain d2 p where p: "get_default_attendance_policy org ?x = (d2, p)" by fastforce
    note f = default_policy_effect(1) [OF p] and ok2 = default_policy_days_ok [OF p ok]
    have frame: "read_tables db1 = read_tables ?x \<and> days_ok db1 \<and> (\<forall>v. r = Inr v \<longrightarrow> v = Created (tb_next_id db))"
    proof (cases p)
      case (Inr policy)
      obtain d3 v where rec: "recalculate_attendance_day env e (ae_local_date env (po_timezone_name policy) t) None d2 = (d3, v)"
        by fastforce
      show ?thesis
        using assms(1) recalculate_frame [OF rec ok2] f
        by (cases v) (auto simp: create_punch_from_source_def Let_def e org p Inr rec)
    qed (use assms(1) f ok2 in \<open>auto simp: create_punch_from_source_def Let_def e org p\<close>)
    then have "tb_punches db1 = tb_punches ?x" by (blast intro: inputs_reads(8))
    then show ?thesis using x frame org by (auto simp: spaced_def split: sum.splits source_punch_result.splits)
  qed
qed

lemma example_spaced: "spaced example_att_db"
  by (simp add: spaced_def example_att_db_def)

definition example_device_call :: "source_punch_result att_outcome" where
  "example_device_call = create_punch_from_source example_env ''E10'' (june_second 18 0) 1 ''out'' PS_DEVICE None example_att_db"

theorem device_punches_spaced_witness: "spaced (fst example_device_call)"
  using device_punches_spaced [OF _ example_spaced example_days_ok(1)]
  unfolding example_device_call_def by (metis prod.collapse)

section \<open>Regularizations\<close>

lemma summary_override:
  assumes "summary_of env db e d p = Inr s" "get_attendance_override db e d = Some r"
  shows "ds_check_in_at s = Some (ar_rec_check_in_at r)" "ds_check_out_at s = ar_rec_check_out_at r"
    "ds_source s = Some (punch_source_of_record (ar_rec_source r))"
  using assms unfolding summary_of_def Let_def bind_res_eq_Inr
  by (elim exE conjE; auto simp: day_interval_def)+

lemma put_record_effect:
  assumes "put_record e d t u source db = (i, db1)"
  obtains r where "get_attendance_override db1 e d = Some r" "ar_rec_check_in_at r = t" "ar_rec_check_out_at r = u"
    "ar_rec_source r = source" "tb_days db1 = tb_days db" "tb_overtime db1 = tb_overtime db" "tb_next_id db \<le> tb_next_id db1"
proof (cases "get_attendance_override db e d")
  case None
  then show ?thesis
    using assms by (intro that) (auto simp: put_record_def get_attendance_override_def first_row_append)
next
  case (Some r)
  let ?f = "\<lambda>x. x\<lparr>ar_rec_check_in_at := t, ar_rec_check_out_at := u, ar_rec_source := source\<rparr>"
  have "get_attendance_override db1 e d = Some (?f r)"
    using assms Some by (auto simp: put_record_def get_attendance_override_def first_row_update_same)
  then show ?thesis using assms Some by (intro that [of "?f r"]) (auto simp: put_record_def)
qed

lemma find_day_update: "find_day db e d = Some x \<Longrightarrow> find_day (update_day (ad_id x) f db) e d = Some (x\<lparr>ad_summary := f (ad_summary x)\<rparr>)"
  by (simp add: find_day_def update_day_def first_row_update_same)

lemma log_att_frames:
  "find_day (log_att actor event i db) = find_day db"
  "get_attendance_override (log_att actor event i db) = get_attendance_override db"
  "get_attendance_override (update_day j f db) = get_attendance_override db"
  by (simp_all add: fun_eq_iff find_day_def get_attendance_override_def log_att_def update_day_def)

text \<open>C23: an approved regularization takes effect. When its decision is applied without an error, the day has an
override marked as a regularization, whose times are the day's. They are the requested ones; a time that was
not requested is what the day showed when it was recalculated just before, and without any check-in a
check-out counts as the check-in too. A day that now has a check-out is not incomplete and needs no
regularization.\<close>

theorem regularization_takes_effect:
  assumes "apply_regularization_status_change env r e RG_APPROVED reason db = (db1, Inr ())" "days_ok db"
  shows "\<exists>d0 day0 day rec.
    recalculate_attendance_day env e (rg_date r) None (set_regularization_status (rg_id r) RG_APPROVED reason db) = (d0, Inr day0) \<and>
    find_day db1 e (rg_date r) = Some day \<and> get_attendance_override db1 e (rg_date r) = Some rec \<and>
    ar_rec_source rec = REGULARIZATION_RECORD \<and>
    ds_check_in_at (ad_summary day) = Some (ar_rec_check_in_at rec) \<and> ds_check_out_at (ad_summary day) = ar_rec_check_out_at rec \<and>
    Some (ar_rec_check_in_at rec) = hd (filter (\<lambda>x. x \<noteq> None) [rg_requested_check_in_at r, ds_check_in_at (ad_summary day0),
      rg_requested_check_out_at r, ds_check_out_at (ad_summary day0)]) \<and>
    ar_rec_check_out_at rec =
      (if rg_requested_check_out_at r \<noteq> None then rg_requested_check_out_at r else ds_check_out_at (ad_summary day0)) \<and>
    (ar_rec_check_out_at rec \<noteq> None \<longrightarrow>
       ds_status (ad_summary day) \<noteq> AD_INCOMPLETE \<and> \<not> ds_needs_regularization (ad_summary day))"
proof -
  let ?d = "rg_date r" and ?x = "set_regularization_status (rg_id r) RG_APPROVED reason db"
  have ok: "days_ok ?x"
    by (rule days_ok_later [OF assms(2)]) (simp_all add: set_regularization_status_def update_regularization_def)
  obtain d2 day0 where rec: "recalculate_attendance_day env e ?d None ?x = (d2, Inr day0)"
    and ups: "\<exists>y. upsert_attendance_override env e ?d (first_of (rg_requested_check_in_at r)
        (first_of (ds_check_in_at (ad_summary day0)) (rg_requested_check_out_at r)))
      (first_of (rg_requested_check_out_at r) (ds_check_out_at (ad_summary day0))) REGULARIZATION_RECORD None
      ''Approved attendance regularization applied.'' d2 = (db1, Inr y)"
    using assms(1) by (auto simp: apply_regularization_status_change_def then_do_Inr give_def)
  let ?in = "first_of (rg_requested_check_in_at r) (first_of (ds_check_in_at (ad_summary day0)) (rg_requested_check_out_at r))"
    and ?out = "first_of (rg_requested_check_out_at r) (ds_check_out_at (ad_summary day0))"
  obtain t where t: "(if ?in = None then ?out else ?in) = Some t"
    using ups by (cases "if ?in = None then ?out else ?in") (auto simp: upsert_attendance_override_def fail_def)
  obtain i d3 where put: "put_record e ?d t ?out REGULARIZATION_RECORD d2 = (i, d3)" by fastforce
  obtain d4 day where rec2: "recalculate_attendance_day env e ?d None d3 = (d4, Inr day)"
    and db1: "db1 = log_att None ''attendance.override.upserted'' i (update_day (ad_id day) (\<lambda>s. s\<lparr>ds_note := ''Approved attendance regularization applied.''\<rparr>) d4)"
    using ups t by (auto simp: upsert_attendance_override_def put Let_def then_do_Inr give_def)
  from put_record_effect [OF put] obtain rc where rc: "get_attendance_override d3 e ?d = Some rc" "ar_rec_check_in_at rc = t"
    "ar_rec_check_out_at rc = ?out" "ar_rec_source rc = REGULARIZATION_RECORD"
    and d3: "tb_days d3 = tb_days d2" "tb_overtime d3 = tb_overtime d2" "tb_next_id d2 \<le> tb_next_id d3"
    by metis
  have ok3: "days_ok d3" by (rule days_ok_later [OF recalculate_frame(2) [OF rec ok] d3])
  have rc4: "get_attendance_override d4 e ?d = Some rc"
    using inputs_reads(3) [OF recalculate_frame(1) [OF rec2 ok3]] rc(1) by simp
  obtain p where s: "summary_of env d4 e ?d p = Inr (ad_summary day)" "find_day d4 e ?d = Some day"
    by (rule recalculate_effect [OF rec2 ok3])
  note ov = summary_override [OF s(1) rc4] and c = summary_consistent [OF s(1)]
  let ?day = "day\<lparr>ad_summary := (ad_summary day)\<lparr>ds_note := ''Approved attendance regularization applied.''\<rparr>\<rparr>"
  have day: "find_day db1 e ?d = Some ?day"
    using find_day_update [OF s(2), of "\<lambda>s. s\<lparr>ds_note := ''Approved attendance regularization applied.''\<rparr>"]
    by (simp add: db1 log_att_frames)
  have override: "get_attendance_override db1 e ?d = Some rc" using rc4 by (simp add: db1 log_att_frames)
  have complete: "ds_status (ad_summary day) \<noteq> AD_INCOMPLETE \<and> \<not> ds_needs_regularization (ad_summary day)" if "?out \<noteq> None"
    using c ov(2) rc(3) that by (simp add: consistent_day_def)
  have "Some t = hd (filter (\<lambda>x. x \<noteq> None) [rg_requested_check_in_at r, ds_check_in_at (ad_summary day0),
      rg_requested_check_out_at r, ds_check_out_at (ad_summary day0)])"
    using t by (auto simp: first_of_def split: option.splits if_splits)
  moreover have "?out = (if rg_requested_check_out_at r \<noteq> None then rg_requested_check_out_at r else ds_check_out_at (ad_summary day0))"
    by (auto simp: first_of_def split: option.splits)
  ultimately show ?thesis
    using ov rc(2-4) complete
    by (intro exI [of _ d2] exI [of _ day0] exI [of _ ?day] exI [of _ rc] conjI rec day override) simp_all
qed

text \<open>A decision about a request of a day without a shift does not raise.\<close>

lemma approval_succeeds:
  assumes "period_ready e p [rg_date r] db" "policy_fits p" "valid_date (rg_date r)" "2 \<le> days_between (rg_date r) date_max"
    and "rg_requested_check_in_at r \<noteq> None \<or> rg_requested_check_out_at r \<noteq> None"
  obtains db1 where "apply_regularization_status_change env r e RG_APPROVED reason db = (db1, Inr ())"
proof -
  let ?x = "set_regularization_status (rg_id r) RG_APPROVED reason db"
  have keep: "period_ready e p [rg_date r] y"
    if "period_ready e p [rg_date r] x" "tb_policies y = tb_policies x" "tb_days y = tb_days x" "tb_overtime y = tb_overtime x"
      "tb_next_id x \<le> tb_next_id y" "tb_shifts y = tb_shifts x" "tb_assignments y = tb_assignments x"
      "tb_rotation_templates y = tb_rotation_templates x" "tb_rotations y = tb_rotations x" for x y
    using that days_ok_later [of x y] effective_shift_cong [of y x] by (simp add: period_ready_def find_default_policy_def)
  have "period_ready e p [rg_date r] ?x"
    by (rule keep [OF assms(1)]) (simp_all add: set_regularization_status_def update_regularization_def)
  then obtain d2 day where rec: "recalculate_attendance_day env e (rg_date r) None ?x = (d2, Inr day)" "period_ready e p [rg_date r] d2"
    by (rule recalculate_total [OF _ assms(2-4)])
  let ?in = "first_of (rg_requested_check_in_at r) (first_of (ds_check_in_at (ad_summary day)) (rg_requested_check_out_at r))"
    and ?out = "first_of (rg_requested_check_out_at r) (ds_check_out_at (ad_summary day))"
  obtain t where t: "(if ?in = None then ?out else ?in) = Some t"
  proof -
    have "?in \<noteq> None \<or> ?out \<noteq> None" using assms(5) by (auto simp: first_of_def split: option.splits)
    then show ?thesis using that by (cases "?in = None") auto
  qed
  obtain i d3 where put: "put_record e (rg_date r) t ?out REGULARIZATION_RECORD d2 = (i, d3)" by fastforce
  have "period_ready e p [rg_date r] d3"
    by (rule keep [OF rec(2)])
      (use put in \<open>auto simp: put_record_def split: option.splits\<close>)
  then obtain d4 day2 where "recalculate_attendance_day env e (rg_date r) None d3 = (d4, Inr day2)"
    by (rule recalculate_total [OF _ assms(2-4)])
  then show ?thesis
    using that rec(1) t by (simp add: apply_regularization_status_change_def upsert_attendance_override_def put Let_def)
qed

theorem regularization_takes_effect_witness:
  "\<exists>db1 day. apply_regularization_status_change example_env example_regularization worker RG_APPROVED [] example_att_db = (db1, Inr ()) \<and>
     find_day db1 worker (Date 2025 6 2) = Some day \<and>
     ds_check_out_at (ad_summary day) = Some (june_second 18 0) \<and> \<not> ds_needs_regularization (ad_summary day)"
proof -
  have r: "rg_date example_regularization = Date 2025 6 2" "rg_requested_check_out_at example_regularization = Some (june_second 18 0)"
    by (simp_all add: example_regularization_def)
  have h: "period_ready worker (hd (tb_policies example_att_db)) [rg_date example_regularization] example_att_db"
    "policy_fits (hd (tb_policies example_att_db))" "valid_date (rg_date example_regularization)"
    "2 \<le> days_between (rg_date example_regularization) date_max"
    by code_simp+
  obtain db1 where ok: "apply_regularization_status_change example_env example_regularization worker RG_APPROVED [] example_att_db = (db1, Inr ())"
    by (rule approval_succeeds [OF h]) (simp add: r)
  from regularization_takes_effect [OF this example_days_ok(1)] ok show ?thesis by (auto simp: r)
qed

end
