(* ===== verification/FilingFormats.thy ===== *)
theory FilingFormats
  imports Statutory
begin

text \<open>
  The text formats of statutory filings (\<open>payroll/filings/__init__.py\<close>): amounts as decimal text and
  as whole rupees, and CSV as \<open>csv.DictWriter\<close> writes it. The readers of the three formats are
  specifications: a writer is right when its reader gives back what was written.
\<close>

section \<open>Amounts\<close>

definition str_of_int :: "int \<Rightarrow> string" where
  "str_of_int n = (if n < 0 then CHR ''-'' # str_of_nat (nat (- n)) else str_of_nat (nat n))"

text \<open>\<open>f'{n:02d}'\<close> for a number that is not negative.\<close>

definition pad2 :: "nat \<Rightarrow> string" where
  "pad2 n = (if n < 10 then ''0'' else []) @ str_of_nat n"

text \<open>
  \<open>Decimal(str(value)).quantize(Decimal('0.00')).to_eng_string()\<close>; a missing value counts as zero.
  A negative amount above minus half a cent is written as \<open>-0.00\<close>, as the source does; a zero with a
  sign, which a rational number does not have, is the only text the model cannot give.
\<close>

definition decimal_to_string :: "rat \<Rightarrow> string" where
  "decimal_to_string value =
     (let n = round_half_even (value * 100)
      in (if value < 0 then ''-'' else []) @ str_of_nat (nat \<bar>n\<bar> div 100) @ CHR ''.'' # pad2 (nat \<bar>n\<bar> mod 100))"

definition decimal_to_rupee_int :: "rat \<Rightarrow> string" where
  "decimal_to_rupee_int value = str_of_int (round_half_even value)"

text \<open>\<open>int(text)\<close> and \<open>Decimal(text)\<close> on the texts above.\<close>

definition int_of_str :: "string \<Rightarrow> int" where
  "int_of_str s = (case s of c # r \<Rightarrow> if c = CHR ''-'' then - int (nat_of_digits r) else int (nat_of_digits s)
                   | [] \<Rightarrow> 0)"

definition amount_of_str :: "string \<Rightarrow> rat" where
  "amount_of_str s = of_int (int_of_str (filter (\<lambda>c. c \<noteq> CHR ''.'') s)) / 100"

section \<open>CSV\<close>

text \<open>
  The excel dialect with \<open>'\n'\<close> as line terminator: a field is quoted when it has a comma, a quote, a
  line feed or a carriage return, and quotes in it are doubled. A line of one empty field is written as two quotes.
\<close>

abbreviation quote_char :: char where "quote_char \<equiv> CHR 0x22"

abbreviation line_feed :: char where "line_feed \<equiv> CHR 0x0A"

abbreviation carriage_return :: char where "carriage_return \<equiv> CHR 0x0D"

definition csv_special :: "char \<Rightarrow> bool" where
  "csv_special c \<longleftrightarrow> c = CHR '','' \<or> c = quote_char \<or> c = line_feed \<or> c = carriage_return"

fun double_quotes :: "string \<Rightarrow> string" where
  "double_quotes [] = []"
| "double_quotes (c # cs) = (if c = quote_char then [quote_char, quote_char] else [c]) @ double_quotes cs"

definition csv_field :: "string \<Rightarrow> string" where
  "csv_field s = (if list_ex csv_special s then quote_char # double_quotes s @ [quote_char] else s)"

fun csv_fields :: "string list \<Rightarrow> string" where
  "csv_fields [] = []"
| "csv_fields [s] = csv_field s"
| "csv_fields (s # t # ss) = csv_field s @ CHR '','' # csv_fields (t # ss)"

definition csv_line :: "string list \<Rightarrow> string" where
  "csv_line ss = (if ss = [[]] then [quote_char, quote_char] else csv_fields ss) @ [line_feed]"

text \<open>A row is a dictionary; \<open>DictWriter\<close> takes the named fields and leaves out the others.\<close>

type_synonym csv_row = "(string \<times> string) list"

definition row_get :: "csv_row \<Rightarrow> string \<Rightarrow> string" where
  "row_get row name = or_else (map_of row name) []"

definition build_csv :: "csv_row list \<Rightarrow> string list \<Rightarrow> string" where
  "build_csv rows fieldnames =
     csv_line fieldnames @ concat (map (\<lambda>row. csv_line (map (row_get row) fieldnames)) rows)"

text \<open>
  The reader: a field so far in reverse, the fields of the line, and whether the field is unquoted
  or quoted, or a quote was just read in a quoted field. A carriage return outside quotes is refused.
\<close>

datatype csv_mode = In_field | In_quotes | After_quote

fun read_csv :: "csv_mode \<Rightarrow> string \<Rightarrow> string list \<Rightarrow> string \<Rightarrow> string list list option" where
  "read_csv m fld done_fields [] = (if m = In_field \<and> fld = [] \<and> done_fields = [] then Some [] else None)"
| "read_csv In_field fld done_fields (c # cs) =
     (if c = CHR '','' then read_csv In_field [] (done_fields @ [rev fld]) cs
      else if c = line_feed then map_option ((#) (done_fields @ [rev fld])) (read_csv In_field [] [] cs)
      else if c = quote_char then (if fld = [] then read_csv In_quotes [] done_fields cs else None)
      else if c = carriage_return then None
      else read_csv In_field (c # fld) done_fields cs)"
| "read_csv In_quotes fld done_fields (c # cs) =
     (if c = quote_char then read_csv After_quote fld done_fields cs else read_csv In_quotes (c # fld) done_fields cs)"
| "read_csv After_quote fld done_fields (c # cs) =
     (if c = quote_char then read_csv In_quotes (c # fld) done_fields cs
      else if c = CHR '','' then read_csv In_field [] (done_fields @ [rev fld]) cs
      else if c = line_feed then map_option ((#) (done_fields @ [rev fld])) (read_csv In_field [] [] cs)
      else None)"

definition parse_csv :: "string \<Rightarrow> string list list option" where
  "parse_csv = read_csv In_field [] []"

section \<open>Lemmas: amounts\<close>

lemma digit_char_simps [simp]:
  assumes "n < 10"
  shows "is_digit (digit_char n)" "digit_val (digit_char n) = n"
  using assms by (simp_all add: is_digit_def digit_val_def digit_char_def)

lemma nat_of_digits_snoc: "nat_of_digits (s @ [c]) = 10 * nat_of_digits s + digit_val c"
  by (simp add: nat_of_digits_def)

lemma str_of_nat_digits [simp]: "list_all is_digit (str_of_nat n)"
proof (induction n rule: str_of_nat.induct)
  case (1 n)
  then show ?case by (subst str_of_nat.simps) simp
qed

lemma nat_of_str_of_nat_any [simp]: "nat_of_digits (str_of_nat n) = n"
proof (induction n rule: str_of_nat.induct)
  case (1 n)
  show ?case
  proof (cases "n < 10")
    case True
    then show ?thesis by (subst str_of_nat.simps) (simp add: nat_of_digits_def)
  next
    case False
    with 1 show ?thesis by (subst str_of_nat.simps) (simp add: nat_of_digits_snoc)
  qed
qed

lemma str_of_nat_not_Nil [simp]: "str_of_nat n \<noteq> []"
  by (subst str_of_nat.simps) simp

lemma digits_plain:
  assumes "list_all is_digit s"
  shows "filter (\<lambda>c. c \<noteq> CHR ''.'') s = s" "hd s \<noteq> CHR ''-'' \<or> s = []"
proof -
  have "c \<noteq> CHR ''.'' \<and> c \<noteq> CHR ''-''" if "c \<in> set s" for c
    using assms that by (auto simp: list_all_iff is_digit_def)
  then show "filter (\<lambda>c. c \<noteq> CHR ''.'') s = s" "hd s \<noteq> CHR ''-'' \<or> s = []"
    by (simp_all add: filter_id_conv) (meson hd_in_set)
qed

lemma int_of_digits: "list_all is_digit s \<Longrightarrow> int_of_str s = int (nat_of_digits s)"
  using digits_plain(2) [of s] by (cases s) (auto simp: int_of_str_def nat_of_digits_def)

lemma int_of_str_of_int [simp]: "int_of_str (str_of_int n) = n"
  using int_of_digits [OF str_of_nat_digits, of "nat n"]
  by (cases "n < 0") (simp_all add: str_of_int_def int_of_str_def)

lemma digit_char_zero: "digit_char 0 = CHR ''0''"
  by code_simp

lemma nat_of_pad2: "n < 100 \<Longrightarrow> nat_of_digits (s @ pad2 n) = 100 * nat_of_digits s + n"
proof -
  assume n: "n < 100"
  then have "pad2 n = [digit_char (n div 10), digit_char (n mod 10)]"
    by (cases "n < 10")
      (simp_all add: pad2_def str_of_nat.simps [of n] str_of_nat.simps [of "n div 10"] flip: digit_char_zero)
  then show ?thesis using n by (simp add: nat_of_digits_def)
qed

lemma pad2_digits [simp]: "list_all is_digit (pad2 n)"
  by (simp add: pad2_def is_digit_def)

text \<open>Reading an amount back gives the amount in cents.\<close>

lemma amount_of_decimal_to_string: "amount_of_str (decimal_to_string x) = quantize2 x"
proof -
  define n where "n = round_half_even (x * 100)"
  let ?s = "str_of_nat (nat \<bar>n\<bar> div 100) @ pad2 (nat \<bar>n\<bar> mod 100)"
  have digits: "list_all is_digit ?s" by simp
  have val: "nat_of_digits ?s = nat \<bar>n\<bar>" by (simp add: nat_of_pad2)
  have "filter (\<lambda>c. c \<noteq> CHR ''.'') (decimal_to_string x) = (if x < 0 then CHR ''-'' # ?s else ?s)"
    by (simp add: decimal_to_string_def Let_def digits_plain(1) flip: n_def)
  moreover have "int_of_str (if x < 0 then CHR ''-'' # ?s else ?s) = (if x < 0 then - \<bar>n\<bar> else \<bar>n\<bar>)"
    using val int_of_digits [OF digits] by (cases "x < 0") (simp_all only: int_of_str_def list.case if_True if_False refl, simp_all)
  moreover have "(if x < 0 then - \<bar>n\<bar> else \<bar>n\<bar>) = n"
    using round_half_even_mono [of "x * 100" 0] round_half_even_mono [of 0 "x * 100"] by (auto simp: n_def)
  ultimately show ?thesis by (simp add: amount_of_str_def quantize2_def n_def)
qed

section \<open>Lemmas: CSV\<close>

lemma read_quoted:
  "read_csv In_quotes fld done_fields (double_quotes s @ quote_char # rest) = read_csv After_quote (rev s @ fld) done_fields rest"
  by (induction s arbitrary: fld) simp_all

lemma read_plain:
  "\<not> list_ex csv_special s \<Longrightarrow> read_csv In_field fld done_fields (s @ rest) = read_csv In_field (rev s @ fld) done_fields rest"
  by (induction s arbitrary: fld) (auto simp: csv_special_def)

lemma read_field:
  "read_csv In_field [] done_fields (csv_field s @ CHR '','' # rest) = read_csv In_field [] (done_fields @ [s]) rest"
  "read_csv In_field [] done_fields (csv_field s @ line_feed # rest) =
     map_option ((#) (done_fields @ [s])) (read_csv In_field [] [] rest)"
  by (auto simp: csv_field_def read_quoted read_plain)

lemma read_fields:
  "ss \<noteq> [] \<Longrightarrow> read_csv In_field [] done_fields (csv_fields ss @ line_feed # rest) =
     map_option ((#) (done_fields @ ss)) (read_csv In_field [] [] rest)"
  by (induction ss arbitrary: done_fields rule: csv_fields.induct) (simp_all add: read_field)

lemma read_line:
  assumes "ss \<noteq> []"
  shows "parse_csv (csv_line ss @ rest) = map_option ((#) ss) (parse_csv rest)"
  using read_fields [OF assms, of "[]" rest] by (auto simp: parse_csv_def csv_line_def)

lemma parse_build_csv:
  assumes "fieldnames \<noteq> []"
  shows "parse_csv (build_csv rows fieldnames) =
    Some (fieldnames # map (\<lambda>row. map (row_get row) fieldnames) rows)"
proof -
  have "parse_csv (concat (map (\<lambda>row. csv_line (map (row_get row) fieldnames)) rows)) =
    Some (map (\<lambda>row. map (row_get row) fieldnames) rows)"
    using assms by (induction rows) (simp_all add: read_line, simp add: parse_csv_def)
  with assms show ?thesis by (simp add: build_csv_def read_line)
qed

end
