(* ===== verification/FilingExports.thy ===== *)
theory FilingExports
  imports FilingFormats HrState "HOL-Library.Multiset"
begin

text \<open>
  The monthly statutory returns (\<open>payroll/filings/ecr.py\<close>, \<open>esi.py\<close>, \<open>professional_tax.py\<close>): the
  rows, blockers and totals each exporter computes from payslips. A payslip comes with the employee
  and the run item it is joined with.
\<close>

section \<open>Results\<close>

datatype meta_value = MInt int | MStr string | MStrs "string list"

text \<open>\<open>FilingGenerationResult\<close>; of the structured payload the rows. Bytes are characters.\<close>

record filing_generation_result =
  fg_artifact_format :: statutory_filing_artifact_format
  fg_content_type :: string
  fg_file_name :: string
  fg_rows :: "csv_row list"
  fg_metadata :: "(string \<times> meta_value) list"
  fg_validation_errors :: "string list"
  fg_artifact_text :: string
  fg_artifact_binary :: string

definition payload_bytes :: "filing_generation_result \<Rightarrow> string" where
  "payload_bytes r = (if fg_artifact_binary r \<noteq> [] then fg_artifact_binary r else fg_artifact_text r)"

text \<open>What the exporters read of the organisation and of the employees' profiles.\<close>

record employee_profile =
  ep_uan_number :: string
  ep_esic_ip_number :: string

record filing_org =
  fo_id :: uid
  fo_slug :: string
  fo_esi_branch_code :: string
  fo_profiles :: "uid \<Rightarrow> employee_profile option"

record filing_slip =
  fs_slip :: payslip
  fs_employee :: employee
  fs_item :: payroll_run_item

definition profile_text :: "(employee_profile \<Rightarrow> string) \<Rightarrow> filing_org \<Rightarrow> filing_slip \<Rightarrow> string" where
  "profile_text f org s =
     (case fo_profiles org (em_id (fs_employee s)) of None \<Rightarrow> [] | Some p \<Rightarrow> py_strip (f p))"

text \<open>A key that only the item's snapshot has; an item without a snapshot has none.\<close>

definition item_amount :: "(item_snapshot \<Rightarrow> rat) \<Rightarrow> filing_slip \<Rightarrow> rat" where
  "item_amount f s = (case ri_snapshot (fs_item s) of None \<Rightarrow> 0 | Some sn \<Rightarrow> f sn)"

abbreviation slip_snapshot :: "filing_slip \<Rightarrow> payslip_snapshot" where
  "slip_snapshot s \<equiv> py_snapshot (fs_slip s)"

definition filing_name :: "filing_slip \<Rightarrow> string" where
  "filing_name s =
     (if or_else (em_employee_code (fs_employee s)) [] \<noteq> [] then or_else (em_employee_code (fs_employee s)) []
      else em_full_name (fs_employee s))"

definition monthly_file_name :: "string \<Rightarrow> filing_org \<Rightarrow> int \<Rightarrow> int \<Rightarrow> string" where
  "monthly_file_name label org y m =
     label @ ''-'' @ fo_slug org @ ''-'' @ str_of_int y @ ''-'' @ pad2 (nat m) @ ''.csv''"

definition rupees :: "rat \<Rightarrow> rat" where
  "rupees x = of_int (round_half_even x)"

section \<open>The provident fund return\<close>

definition ECR_FIELDNAMES :: "string list" where
  "ECR_FIELDNAMES =
     [''uan'', ''member_name'', ''gross_wages'', ''epf_wages'', ''eps_wages'', ''edli_wages'',
      ''epf_employee_share'', ''eps_employer_share'', ''epf_employer_share'', ''ncp_days'',
      ''refund_of_advance'', ''epf_admin_charges'', ''edli_charges'']"

definition ecr_contributes :: "filing_slip \<Rightarrow> bool" where
  "ecr_contributes s \<longleftrightarrow> \<not> (item_amount sn_auto_pf s \<le> 0 \<and> item_amount sn_pf_employer s \<le> 0)"

definition basic_wages :: "filing_slip \<Rightarrow> rat" where
  "basic_wages s =
     (case first_row (\<lambda>l. sl_component_code l = ''BASIC'') (ps_lines (slip_snapshot s)) of
        None \<Rightarrow> 0 | Some l \<Rightarrow> sl_monthly_amount l)"

text \<open>The employer's shares: those of the item, else derived from the wages.\<close>

definition ecr_employer_shares :: "filing_slip \<Rightarrow> rat \<times> rat" where
  "ecr_employer_shares s =
     (let eps = rupees (ri_eps_employer (fs_item s)); epf = rupees (ri_epf_employer (fs_item s))
      in if eps \<le> 0 \<and> epf \<le> 0
         then let eps' = rupees (min (dmul (min (basic_wages s) 15000) (833 / 10000)) 1250)
              in (eps', rupees (max 0 (item_amount sn_pf_employer s - eps')))
         else (eps, epf))"

definition ecr_row :: "filing_org \<Rightarrow> filing_slip \<Rightarrow> csv_row" where
  "ecr_row org s =
     (let epf_wages = basic_wages s; (eps, epf) = ecr_employer_shares s
      in [(''uan'', profile_text ep_uan_number org s),
          (''member_name'', em_full_name (fs_employee s)),
          (''gross_wages'', decimal_to_rupee_int (ps_gross_pay (slip_snapshot s))),
          (''epf_wages'', decimal_to_rupee_int epf_wages),
          (''eps_wages'', decimal_to_rupee_int (min epf_wages 15000)),
          (''edli_wages'', decimal_to_rupee_int epf_wages),
          (''epf_employee_share'', decimal_to_rupee_int (item_amount sn_auto_pf s)),
          (''eps_employer_share'', decimal_to_rupee_int eps),
          (''epf_employer_share'', decimal_to_rupee_int epf),
          (''ncp_days'', str_of_int (round_half_even (ps_lop_days (slip_snapshot s)))),
          (''refund_of_advance'', ''0''),
          (''epf_admin_charges'', decimal_to_rupee_int (rupees (dmul epf_wages (50 / 10000)))),
          (''edli_charges'', decimal_to_rupee_int (rupees (dmul epf_wages (50 / 10000))))])"

definition column_total :: "csv_row list \<Rightarrow> string \<Rightarrow> int" where
  "column_total rows name = sum_list (map (\<lambda>row. int_of_str (row_get row name)) rows)"

definition generate_ecr_export :: "filing_org \<Rightarrow> filing_slip list \<Rightarrow> int \<Rightarrow> int \<Rightarrow> filing_generation_result" where
  "generate_ecr_export org payslips y m =
     (let members = filter ecr_contributes payslips;
          unknown = (\<lambda>s. profile_text ep_uan_number org s = []);
          blockers = map (\<lambda>s. filing_name s @ '': missing UAN number for PF ECR.'') (filter unknown members);
          rows = sort_key (\<lambda>row. (row_get row ''uan'', row_get row ''member_name''))
                   (map (ecr_row org) (filter (\<lambda>s. \<not> unknown s) members))
      in \<lparr>fg_artifact_format = FMT_CSV, fg_content_type = ''text/csv'',
          fg_file_name = monthly_file_name ''pf-ecr'' org y m, fg_rows = rows,
          fg_metadata = [(''row_count'', MInt (int (length rows))),
            (''total_epf_employee_share'', MInt (column_total rows ''epf_employee_share'')),
            (''total_eps_employer_share'', MInt (column_total rows ''eps_employer_share'')),
            (''total_epf_employer_share'', MInt (column_total rows ''epf_employer_share''))],
          fg_validation_errors = sort blockers,
          fg_artifact_text = (if blockers = [] then build_csv rows ECR_FIELDNAMES else []),
          fg_artifact_binary = []\<rparr>)"

section \<open>The state insurance return\<close>

definition ESI_FIELDNAMES :: "string list" where
  "ESI_FIELDNAMES =
     [''employee_code'', ''employee_name'', ''esi_branch_code'', ''esic_ip_number'', ''gross_wages'',
      ''employee_contribution'', ''employer_contribution'', ''eligibility_mode'',
      ''contribution_period_start'', ''contribution_period_end'']"

fun esi_mode_value :: "esi_eligibility_mode \<Rightarrow> string" where
  "esi_mode_value ESI_NONE = ''NONE''"
| "esi_mode_value ESI_DIRECT = ''DIRECT''"
| "esi_mode_value ESI_CONTINUED = ''CONTINUED''"

text \<open>\<open>date.isoformat\<close>; years have four digits.\<close>

definition isoformat :: "date \<Rightarrow> string" where
  "isoformat d =
     pad2 (nat (yr d) div 100) @ pad2 (nat (yr d) mod 100) @ ''-'' @ pad2 (nat (mo d)) @ ''-'' @ pad2 (nat (dy d))"

definition esi_contributes :: "filing_slip \<Rightarrow> bool" where
  "esi_contributes s \<longleftrightarrow> \<not> (item_amount sn_esi_employee s \<le> 0 \<and> item_amount sn_esi_employer s \<le> 0)"

definition esi_row :: "filing_org \<Rightarrow> filing_slip \<Rightarrow> csv_row" where
  "esi_row org s =
     [(''employee_code'', or_else (em_employee_code (fs_employee s)) []),
      (''employee_name'', em_full_name (fs_employee s)),
      (''esi_branch_code'', py_strip (fo_esi_branch_code org)),
      (''esic_ip_number'', profile_text ep_esic_ip_number org s),
      (''gross_wages'', decimal_to_string (ps_gross_pay (slip_snapshot s))),
      (''employee_contribution'', decimal_to_string (item_amount sn_esi_employee s)),
      (''employer_contribution'', decimal_to_string (item_amount sn_esi_employer s)),
      (''eligibility_mode'', esi_mode_value (py_esi_eligibility_mode (fs_slip s))),
      (''contribution_period_start'', case py_esi_period (fs_slip s) of None \<Rightarrow> [] | Some (a, _) \<Rightarrow> isoformat a),
      (''contribution_period_end'', case py_esi_period (fs_slip s) of None \<Rightarrow> [] | Some (_, b) \<Rightarrow> isoformat b)]"

definition amount_total :: "csv_row list \<Rightarrow> string \<Rightarrow> rat" where
  "amount_total rows name = sum_list (map (\<lambda>row. amount_of_str (row_get row name)) rows)"

definition esi_warnings :: "filing_org \<Rightarrow> string list" where
  "esi_warnings org =
     (if py_strip (fo_esi_branch_code org) = [] then [''Organisation ESI branch code is blank for this filing.''] else [])"

definition generate_esi_export :: "filing_org \<Rightarrow> filing_slip list \<Rightarrow> int \<Rightarrow> int \<Rightarrow> filing_generation_result" where
  "generate_esi_export org payslips y m =
     (let members = filter esi_contributes payslips;
          unknown = (\<lambda>s. profile_text ep_esic_ip_number org s = []);
          blockers = map (\<lambda>s. filing_name s @ '': missing ESIC IP number for ESI filing.'') (filter unknown members);
          rows = sort_key (\<lambda>row. (row_get row ''employee_code'', row_get row ''employee_name''))
                   (map (esi_row org) (filter (\<lambda>s. \<not> unknown s) members))
      in \<lparr>fg_artifact_format = FMT_CSV, fg_content_type = ''text/csv'',
          fg_file_name = monthly_file_name ''esi'' org y m, fg_rows = rows,
          fg_metadata = [(''row_count'', MInt (int (length rows))), (''warnings'', MStrs (esi_warnings org)),
            (''employee_contribution_total'', MStr (decimal_to_string (amount_total rows ''employee_contribution''))),
            (''employer_contribution_total'', MStr (decimal_to_string (amount_total rows ''employer_contribution'')))],
          fg_validation_errors = sort blockers,
          fg_artifact_text = (if blockers = [] then build_csv rows ESI_FIELDNAMES else []),
          fg_artifact_binary = []\<rparr>)"

section \<open>The professional tax return\<close>

definition SUPPORTED_PT_TEMPLATES :: "string \<Rightarrow> string option" where
  "SUPPORTED_PT_TEMPLATES =
     map_of (map (\<lambda>c. (c, ''PT_SUMMARY_V1'')) [''MH'', ''KA'', ''TN'', ''WB'', ''AP'', ''TG'', ''MP''])"

definition PT_FIELDNAMES :: "string list" where
  "PT_FIELDNAMES =
     [''state_code'', ''template_code'', ''employee_code'', ''employee_name'', ''gross_pay'', ''professional_tax'']"

definition pt_filing_state :: "filing_slip \<Rightarrow> string" where
  "pt_filing_state s =
     (case ri_snapshot (fs_item s) of None \<Rightarrow> [] | Some sn \<Rightarrow> py_upper (py_strip (sn_pt_state_code sn)))"

definition pt_blocker :: "filing_slip \<Rightarrow> string" where
  "pt_blocker s =
     filing_name s @ '': PT return template is not defined for state '' @
     (if pt_filing_state s \<noteq> [] then pt_filing_state s else ''UNKNOWN'') @ ''.''"

definition pt_row :: "filing_slip \<Rightarrow> csv_row" where
  "pt_row s =
     [(''state_code'', pt_filing_state s),
      (''template_code'', or_else (SUPPORTED_PT_TEMPLATES (pt_filing_state s)) []),
      (''employee_code'', or_else (em_employee_code (fs_employee s)) []),
      (''employee_name'', em_full_name (fs_employee s)),
      (''gross_pay'', decimal_to_string (ps_gross_pay (slip_snapshot s))),
      (''professional_tax'', decimal_to_string (item_amount sn_pt_monthly s))]"

definition generate_professional_tax_export ::
  "filing_org \<Rightarrow> filing_slip list \<Rightarrow> int \<Rightarrow> int \<Rightarrow> filing_generation_result" where
  "generate_professional_tax_export org payslips y m =
     (let members = filter (\<lambda>s. \<not> item_amount sn_pt_monthly s \<le> 0) payslips;
          unknown = (\<lambda>s. SUPPORTED_PT_TEMPLATES (pt_filing_state s) = None);
          blockers = map pt_blocker (filter unknown members);
          rows = sort_key (\<lambda>row. (row_get row ''state_code'', row_get row ''employee_code'', row_get row ''employee_name''))
                   (map pt_row (filter (\<lambda>s. \<not> unknown s) members))
      in \<lparr>fg_artifact_format = FMT_CSV, fg_content_type = ''text/csv'',
          fg_file_name = monthly_file_name ''professional-tax'' org y m, fg_rows = rows,
          fg_metadata = [(''row_count'', MInt (int (length rows))),
            (''states'', MStrs (sort (remdups (map (\<lambda>row. row_get row ''state_code'') rows))))],
          fg_validation_errors = sort blockers,
          fg_artifact_text = (if blockers \<noteq> [] then [] else build_csv rows PT_FIELDNAMES),
          fg_artifact_binary = []\<rparr>)"

section \<open>Lemmas\<close>

lemma sum_list_mset: "sum_list (map f xs) = sum_mset (image_mset f (mset xs))"
  by (simp add: sum_mset_sum_list flip: mset_map)

lemma totals_mset:
  assumes "mset rows = mset rows'"
  shows "column_total rows f = column_total rows' f" "amount_total rows f = amount_total rows' f"
  using assms by (simp_all add: column_total_def amount_total_def sum_list_mset)

lemma sorted_blockers [simp]: "sort xs = [] \<longleftrightarrow> xs = ([] :: string list)"
  by (metis length_0_conv length_sort)

end
