(* ===== verification/FilingBatches.thy ===== *)
theory FilingBatches
  imports FilingExports PayRun "HOL-Library.AList"
begin

text \<open>
  Statutory filing batches (\<open>payroll/services.py\<close>, from \<open>_filing_scope_filter\<close> to
  \<open>download_statutory_filing_batch\<close>): what a filing is generated from, how a new batch replaces the
  live one of its scope, cancellation and download. The digest, the JSON of the source signature,
  the object store and the exporters of Form 24Q and Form 16 are arguments.
\<close>

section \<open>Sources of a filing\<close>

text \<open>\<open>order_by('period_year', 'period_month', 'finalized_at', 'created_at', 'id')\<close>; nulls come last.\<close>

definition in_filing_order :: "payroll_run list \<Rightarrow> payroll_run list" where
  "in_filing_order =
     sort_key (\<lambda>r. (pr_period_year r, pr_period_month r, pr_finalized_at r = None, or_else (pr_finalized_at r) 0))"

definition finalized_runs :: "payroll_db \<Rightarrow> uid \<Rightarrow> (payroll_run \<Rightarrow> bool) \<Rightarrow> payroll_run list" where
  "finalized_runs db org P =
     in_filing_order (filter (\<lambda>r. pr_organisation r = org \<and> pr_status r = PR_FINALIZED \<and> P r) (pd_runs db))"

definition finalized_runs_for_period :: "payroll_db \<Rightarrow> uid \<Rightarrow> int \<Rightarrow> int \<Rightarrow> payroll_run list" where
  "finalized_runs_for_period db org y m =
     finalized_runs db org (\<lambda>r. pr_period_year r = y \<and> pr_period_month r = m)"

definition finalized_runs_for_fiscal_year :: "payroll_db \<Rightarrow> uid \<Rightarrow> string \<Rightarrow> payroll_run list res" where
  "finalized_runs_for_fiscal_year db org fiscal_year =
     bind_res (fiscal_year_bounds fiscal_year) (\<lambda>(a, b).
       Inr (finalized_runs db org (\<lambda>r.
         (pr_period_year r = yr a \<and> pr_period_month r \<ge> mo a) \<or>
         (pr_period_year r = yr b \<and> pr_period_month r \<le> mo b) \<or>
         (pr_period_year r > yr a \<and> pr_period_year r < yr b))))"

text \<open>A quarter is looked up in a dictionary.\<close>

definition quarter_of_text :: "string \<Rightarrow> tds_quarter res" where
  "quarter_of_text q =
     (if q = ''Q1'' then Inr Q1 else if q = ''Q2'' then Inr Q2 else if q = ''Q3'' then Inr Q3
      else if q = ''Q4'' then Inr Q4 else Inl (KeyError q))"

definition finalized_runs_for_quarter :: "payroll_db \<Rightarrow> uid \<Rightarrow> string \<Rightarrow> string \<Rightarrow> payroll_run list res" where
  "finalized_runs_for_quarter db org fiscal_year quarter =
     bind_res (label_years fiscal_year) (\<lambda>_.
     bind_res (quarter_of_text quarter) (\<lambda>q.
     bind_res (quarter_months fiscal_year q) (\<lambda>months.
       Inr (finalized_runs db org (\<lambda>r. (pr_period_year r, pr_period_month r) \<in> set months)))))"

text \<open>A payslip with the employee and the item it is joined with.\<close>

definition filing_slip_of :: "hr_state \<Rightarrow> payslip \<Rightarrow> filing_slip option" where
  "filing_slip_of st p =
     (case (find_employee (ap_org st) (py_employee p), first_row (\<lambda>x. ri_id x = py_pay_run_item p) (pd_items (pay st))) of
        (Some e, Some x) \<Rightarrow> Some \<lparr>fs_slip = p, fs_employee = e, fs_item = x\<rparr>
      | _ \<Rightarrow> None)"

definition slip_finalized_at :: "payroll_run list \<Rightarrow> payslip \<Rightarrow> instant option" where
  "slip_finalized_at runs p =
     (case first_row (\<lambda>r. pr_id r = py_pay_run p) runs of None \<Rightarrow> None | Some r \<Rightarrow> pr_finalized_at r)"

definition slip_order :: "payroll_run list \<Rightarrow> filing_slip \<Rightarrow> bool \<times> string \<times> int \<times> int \<times> bool \<times> instant" where
  "slip_order runs s =
     (em_employee_code (fs_employee s) = None, or_else (em_employee_code (fs_employee s)) [],
      py_period_year (fs_slip s), py_period_month (fs_slip s),
      slip_finalized_at runs (fs_slip s) = None, or_else (slip_finalized_at runs (fs_slip s)) 0)"

definition slip_key :: "filing_slip \<Rightarrow> uid \<times> int \<times> int" where
  "slip_key s = (py_employee (fs_slip s), py_period_year (fs_slip s), py_period_month (fs_slip s))"

text \<open>One payslip for each employee and month: the last in order; the dictionary keeps the first place.\<close>

definition effective_payslips_for_runs :: "hr_state \<Rightarrow> payroll_run list \<Rightarrow> filing_slip list" where
  "effective_payslips_for_runs st runs =
     (let slips = sort_key (slip_order runs) (List.map_filter (filing_slip_of st)
                    (filter (\<lambda>p. py_pay_run p \<in> set (map pr_id runs)) (pd_payslips (pay st))))
      in map snd (fold (\<lambda>s. AList.update (slip_key s) s) slips []))"

definition by_code_and_period :: "filing_slip list \<Rightarrow> filing_slip list" where
  "by_code_and_period =
     sort_key (\<lambda>s. (or_else (em_employee_code (fs_employee s)) [], py_period_year (fs_slip s),
                    py_period_month (fs_slip s), py_id (fs_slip s)))"

definition add_to_group :: "filing_slip \<Rightarrow> (uid \<times> filing_slip list) list \<Rightarrow> (uid \<times> filing_slip list) list" where
  "add_to_group s groups =
     (let k = py_employee (fs_slip s) in AList.update k (or_else (map_of groups k) [] @ [s]) groups)"

definition group_effective_payslips_by_employee :: "filing_slip list \<Rightarrow> (uid \<times> filing_slip list) list" where
  "group_effective_payslips_by_employee slips = fold add_to_group (by_code_and_period slips) []"

section \<open>Services outside the application\<close>

type_synonym signature_payload =
  "(uid \<times> int \<times> int \<times> instant option) list \<times> (uid \<times> uid \<times> int \<times> int \<times> payslip_snapshot) list"

record filing_services =
  fv_digest :: "string \<Rightarrow> string"
  fv_stable_json :: "signature_payload \<Rightarrow> string"
  fv_store_in_s3 :: bool
  fv_upload_error :: "string \<Rightarrow> py_error option"
  fv_presigned_url :: "string \<Rightarrow> string"
  fv_form24q :: "filing_org \<Rightarrow> string \<Rightarrow> string \<Rightarrow> (uid \<times> filing_slip list) list \<Rightarrow> filing_generation_result"
  fv_form16_xml :: "filing_org \<Rightarrow> string \<Rightarrow> (uid \<times> filing_slip list) list \<Rightarrow> filing_generation_result"
  fv_form16_pdf :: "filing_org \<Rightarrow> string \<Rightarrow> (uid \<times> filing_slip list) list \<Rightarrow> filing_generation_result"

definition source_signature :: "filing_services \<Rightarrow> payroll_run list \<Rightarrow> filing_slip list \<Rightarrow> string" where
  "source_signature sv runs slips =
     fv_digest sv (fv_stable_json sv
       (map (\<lambda>r. (pr_id r, pr_period_year r, pr_period_month r, pr_finalized_at r)) runs,
        map (\<lambda>s. (py_id (fs_slip s), py_employee (fs_slip s), py_period_year (fs_slip s),
                  py_period_month (fs_slip s), slip_snapshot s)) (by_code_and_period slips)))"

section \<open>Storing a result\<close>

record filing_scope =
  sc_filing_type :: statutory_filing_type
  sc_period_year :: "int option"
  sc_period_month :: "int option"
  sc_fiscal_year :: string
  sc_quarter :: string

definition filing_scope_filter ::
  "filing_scope \<Rightarrow> statutory_filing_artifact_format option \<Rightarrow> statutory_filing_batch \<Rightarrow> bool" where
  "filing_scope_filter sc fmt b \<longleftrightarrow>
     sf_filing_type b = sc_filing_type sc \<and> sf_period_year b = sc_period_year sc \<and>
     sf_period_month b = sc_period_month sc \<and> sf_fiscal_year b = sc_fiscal_year sc \<and>
     sf_quarter b = sc_quarter sc \<and> (case fmt of None \<Rightarrow> True | Some f \<Rightarrow> sf_artifact_format b = f)"

definition update_filings ::
  "(statutory_filing_batch \<Rightarrow> bool) \<Rightarrow> (statutory_filing_batch \<Rightarrow> statutory_filing_batch) \<Rightarrow> hr_state \<Rightarrow> hr_state" where
  "update_filings P f = update_pay (\<lambda>p. p\<lparr>pd_filings := update_where P f (pd_filings p)\<rparr>)"

definition live_batch :: "statutory_filing_batch \<Rightarrow> bool" where
  "live_batch b \<longleftrightarrow> sf_status b \<in> {SF_READY, SF_BLOCKED, SF_GENERATED}"

definition goes_to_s3 :: "filing_services \<Rightarrow> filing_generation_result \<Rightarrow> bool" where
  "goes_to_s3 sv r \<longleftrightarrow> fg_validation_errors r = [] \<and> (fg_artifact_binary r \<noteq> [] \<or> fv_store_in_s3 sv)"

definition storage_key :: "uid \<Rightarrow> uid \<Rightarrow> filing_generation_result \<Rightarrow> string" where
  "storage_key org i r =
     ''payroll/filings/'' @ str_of_nat org @ ''/'' @ str_of_nat i @ ''/'' @
     replace_slash (if fg_file_name r \<noteq> [] then fg_file_name r else ''statutory-filing'')"

definition batch_of ::
  "clock \<Rightarrow> filing_services \<Rightarrow> uid \<Rightarrow> filing_scope \<Rightarrow> statutory_filing_artifact_format \<Rightarrow> payroll_run list
     \<Rightarrow> filing_slip list \<Rightarrow> filing_generation_result \<Rightarrow> string \<Rightarrow> uid \<Rightarrow> statutory_filing_batch" where
  "batch_of ck sv org sc fmt runs slips r key i =
     (let ok = (fg_validation_errors r = []); bytes = (if ok then payload_bytes r else [])
      in \<lparr>sf_id = i, sf_organisation = org, sf_filing_type = sc_filing_type sc,
          sf_status = (if ok then SF_GENERATED else SF_BLOCKED), sf_artifact_format = fmt,
          sf_period_year = sc_period_year sc, sf_period_month = sc_period_month sc,
          sf_fiscal_year = sc_fiscal_year sc, sf_quarter = sc_quarter sc,
          sf_checksum = (if ok then fv_digest sv bytes else []),
          sf_file_name = (if ok then fg_file_name r else []),
          sf_content_type = (if ok then fg_content_type r else []),
          sf_file_size_bytes = (if ok then length bytes else 0),
          sf_artifact_storage_backend = (if goes_to_s3 sv r then ''s3'' else []),
          sf_artifact_storage_key = (if goes_to_s3 sv r then key else []),
          sf_artifact_uploaded_at = (if goes_to_s3 sv r then Some (ck_now ck) else None),
          sf_generated_at = (if ok then Some (ck_now ck) else None),
          sf_source_signature = source_signature sv runs slips,
          sf_validation_errors = fg_validation_errors r,
          sf_artifact_text = (if ok then fg_artifact_text r else []),
          sf_source_pay_runs = map pr_id runs\<rparr>)"

text \<open>
  The upload comes first, under a key of its own (\<open>uuid4\<close>); when it fails nothing is written. The
  live batches of the scope other than the new one are superseded.
\<close>

definition apply_filing_batch_result ::
  "clock \<Rightarrow> filing_services \<Rightarrow> uid \<Rightarrow> uid option \<Rightarrow> filing_scope \<Rightarrow> statutory_filing_artifact_format
     \<Rightarrow> payroll_run list \<Rightarrow> filing_slip list \<Rightarrow> filing_generation_result \<Rightarrow> hr_state
     \<Rightarrow> (hr_state \<times> statutory_filing_batch) res" where
  "apply_filing_batch_result ck sv org actor sc fmt runs slips r st0 =
     (let key = storage_key org (ap_next_id st0) r;
          st = (if goes_to_s3 sv r then draw_id st0 else st0)
      in case (if goes_to_s3 sv r then fv_upload_error sv key else None) of
           Some e \<Rightarrow> Inl e
         | None \<Rightarrow>
             let batch = batch_of ck sv org sc fmt runs slips r key (ap_next_id st);
                 d = update_pay (\<lambda>p. p\<lparr>pd_filings := pd_filings p @ [batch]\<rparr>) (draw_id st);
                 d1 = update_filings (\<lambda>b. sf_organisation b = org \<and> live_batch b \<and> filing_scope_filter sc (Some fmt) b \<and>
                        sf_id b \<noteq> sf_id batch) (\<lambda>b. b\<lparr>sf_status := SF_SUPERSEDED\<rparr>) d
             in Inr (audit actor ''payroll.filing.generated'' (sf_id batch) d1, batch))"

section \<open>Generation\<close>

definition add_error :: "bool \<Rightarrow> string \<Rightarrow> filing_generation_result \<Rightarrow> filing_generation_result" where
  "add_error b msg r = (if b then r\<lparr>fg_validation_errors := fg_validation_errors r @ [msg]\<rparr> else r)"

definition monthly_exporter ::
  "statutory_filing_type \<Rightarrow> filing_org \<Rightarrow> filing_slip list \<Rightarrow> int \<Rightarrow> int \<Rightarrow> filing_generation_result" where
  "monthly_exporter type =
     (if type = PF_ECR then generate_ecr_export
      else if type = ESI_MONTHLY then generate_esi_export
      else generate_professional_tax_export)"

text \<open>Without runs the format asked for is kept, otherwise it is CSV.\<close>

definition generate_monthly ::
  "clock \<Rightarrow> filing_services \<Rightarrow> filing_org \<Rightarrow> statutory_filing_type \<Rightarrow> uid option \<Rightarrow> int \<Rightarrow> int
     \<Rightarrow> statutory_filing_artifact_format option \<Rightarrow> hr_state \<Rightarrow> (hr_state \<times> statutory_filing_batch) res" where
  "generate_monthly ck sv org type actor y m fmt st =
     (let runs = finalized_runs_for_period (pay st) (fo_id org) y m;
          slips = effective_payslips_for_runs st runs;
          r = add_error (runs = []) (''No finalized payroll runs found for '' @ pad2 (nat m) @ ''/'' @ str_of_int y @ ''.'')
                (monthly_exporter type org (if runs = [] then [] else slips) y m)
      in apply_filing_batch_result ck sv (fo_id org) actor
           \<lparr>sc_filing_type = type, sc_period_year = Some y, sc_period_month = Some m, sc_fiscal_year = [], sc_quarter = []\<rparr>
           (if runs = [] then or_else fmt (fg_artifact_format r) else FMT_CSV) runs slips r st)"

definition generate_form24q_batch ::
  "clock \<Rightarrow> filing_services \<Rightarrow> filing_org \<Rightarrow> uid option \<Rightarrow> string \<Rightarrow> string \<Rightarrow> hr_state
     \<Rightarrow> (hr_state \<times> statutory_filing_batch) res" where
  "generate_form24q_batch ck sv org actor fiscal_year quarter st =
     bind_res (finalized_runs_for_quarter (pay st) (fo_id org) fiscal_year quarter) (\<lambda>runs.
       let slips = effective_payslips_for_runs st runs;
           r = add_error (runs = []) (''No finalized payroll runs found for '' @ quarter @ '' of '' @ fiscal_year @ ''.'')
                 (fv_form24q sv org quarter fiscal_year (group_effective_payslips_by_employee slips))
       in apply_filing_batch_result ck sv (fo_id org) actor
            \<lparr>sc_filing_type = FORM24Q, sc_period_year = None, sc_period_month = None, sc_fiscal_year = fiscal_year,
             sc_quarter = quarter\<rparr> FMT_XML runs slips r st)"

definition generate_form16_batch ::
  "clock \<Rightarrow> filing_services \<Rightarrow> filing_org \<Rightarrow> uid option \<Rightarrow> string \<Rightarrow> statutory_filing_artifact_format option
     \<Rightarrow> hr_state \<Rightarrow> (hr_state \<times> statutory_filing_batch) res" where
  "generate_form16_batch ck sv org actor fiscal_year fmt st =
     bind_res (finalized_runs_for_fiscal_year (pay st) (fo_id org) fiscal_year) (\<lambda>runs.
       let slips = effective_payslips_for_runs st runs;
           groups = group_effective_payslips_by_employee slips;
           xml = (or_else fmt FMT_PDF = FMT_XML);
           r = add_error (runs = []) (''No finalized payroll runs found for fiscal year '' @ fiscal_year @ ''.'')
                 (if xml then fv_form16_xml sv org fiscal_year groups else fv_form16_pdf sv org fiscal_year groups)
       in apply_filing_batch_result ck sv (fo_id org) actor
            \<lparr>sc_filing_type = FORM16, sc_period_year = None, sc_period_month = None, sc_fiscal_year = fiscal_year,
             sc_quarter = []\<rparr> (if xml then FMT_XML else FMT_PDF) runs slips r st)"

text \<open>\<open>not period_year\<close> holds for a missing year and for zero. No type is any other text.\<close>

definition given :: "int option \<Rightarrow> bool" where
  "given x \<longleftrightarrow> x \<noteq> None \<and> x \<noteq> Some 0"

definition generate_statutory_filing_batch ::
  "clock \<Rightarrow> filing_services \<Rightarrow> filing_org \<Rightarrow> statutory_filing_type option \<Rightarrow> uid option \<Rightarrow> int option \<Rightarrow> int option
     \<Rightarrow> string \<Rightarrow> string \<Rightarrow> statutory_filing_artifact_format option \<Rightarrow> hr_state
     \<Rightarrow> (hr_state \<times> statutory_filing_batch) res" where
  "generate_statutory_filing_batch ck sv org type actor y m fiscal_year quarter fmt st =
     (case type of
        None \<Rightarrow> raise_value ''Unsupported statutory filing type.''
      | Some t \<Rightarrow>
          if t \<in> {PF_ECR, ESI_MONTHLY, FT_PROFESSIONAL_TAX}
          then (if \<not> given y \<or> \<not> given m
                then raise_value ''period_year and period_month are required for monthly filing exports.''
                else generate_monthly ck sv org t actor (the y) (the m) fmt st)
          else if t = FORM24Q
          then (if fiscal_year = [] \<or> quarter = []
                then raise_value ''fiscal_year and quarter are required for Form 24Q exports.''
                else generate_form24q_batch ck sv org actor fiscal_year quarter st)
          else (if fiscal_year = [] then raise_value ''fiscal_year is required for Form 16 exports.''
                else generate_form16_batch ck sv org actor fiscal_year fmt st))"

definition regenerate_statutory_filing_batch ::
  "clock \<Rightarrow> filing_services \<Rightarrow> filing_org \<Rightarrow> statutory_filing_batch \<Rightarrow> uid option \<Rightarrow> hr_state
     \<Rightarrow> (hr_state \<times> statutory_filing_batch) res" where
  "regenerate_statutory_filing_batch ck sv org batch actor st =
     bind_res (generate_statutory_filing_batch ck sv org (Some (sf_filing_type batch)) actor (sf_period_year batch)
                 (sf_period_month batch) (sf_fiscal_year batch) (sf_quarter batch) (Some (sf_artifact_format batch)) st)
       (\<lambda>(d, b). Inr (audit actor ''payroll.filing.regenerated'' (sf_id b) d, b))"

section \<open>Cancellation and download\<close>

definition cancel_statutory_filing_batch :: "statutory_filing_batch \<Rightarrow> uid option \<Rightarrow> hr_state \<Rightarrow> hr_state" where
  "cancel_statutory_filing_batch batch actor st =
     (if sf_status batch = SF_CANCELLED then st
      else audit actor ''payroll.filing.cancelled'' (sf_id batch)
             (update_filings (\<lambda>b. sf_id b = sf_id batch) (\<lambda>b. b\<lparr>sf_status := SF_CANCELLED\<rparr>) st))"

text \<open>The bytes or nothing, the content type, the file's name, and a link or an empty text.\<close>

definition download_statutory_filing_batch ::
  "filing_services \<Rightarrow> statutory_filing_batch \<Rightarrow> uid option \<Rightarrow> hr_state
     \<Rightarrow> (hr_state \<times> string option \<times> string \<times> string \<times> string) res" where
  "download_statutory_filing_batch sv batch actor st =
     (if sf_status batch \<noteq> SF_GENERATED
      then raise_value ''Only generated statutory filing batches can be downloaded.''
      else
        let url = (if sf_artifact_storage_backend batch = ''s3'' \<and> sf_artifact_storage_key batch \<noteq> []
                   then fv_presigned_url sv (sf_artifact_storage_key batch) else []);
            d = audit actor ''payroll.filing.downloaded'' (sf_id batch) st
        in if url \<noteq> [] then Inr (d, None, sf_content_type batch, sf_file_name batch, url)
           else Inr (d, Some (sf_artifact_text batch), sf_content_type batch, sf_file_name batch, []))"

end
