(* ===== verification/FilingProperties.thy ===== *)
theory FilingProperties
  imports FilingBatches PayExample
begin

text \<open>
  What the filings guarantee: a return lists every contributing payslip and reads back from its file;
  its totals are those of its rows; a filing counts one payslip per employee and month, the latest
  one; there is one live batch per scope; and a download gives the bytes the checksum is of.
\<close>

section \<open>An example\<close>

text \<open>June 2025 finalised and finalised again as a rerun, with a payslip of employee 10 in each.\<close>

definition example_slip :: "uid \<Rightarrow> uid \<Rightarrow> rat \<Rightarrow> payslip" where
  "example_slip i run gross =
     \<lparr>py_id = i, py_organisation = 1, py_employee = 10, py_pay_run = run, py_pay_run_item = i + 10,
      py_slip_number = ''202506-10'', py_period_year = 2025, py_period_month = 6, py_esi_period = None,
      py_esi_eligibility_mode = ESI_NONE,
      py_snapshot = \<lparr>ps_gross_pay = gross, ps_employee_deductions = 0, ps_employer_contributions = 0, ps_income_tax = 0,
        ps_total_deductions = 0, ps_net_pay = gross, ps_arrears = 0, ps_lines = [], ps_paid_days = 30,
        ps_total_days_in_period = 30, ps_pro_rate_factor = 1, ps_lop_days = 0, ps_lop_deduction = 0,
        ps_annual_taxable_gross = 0, ps_annual_standard_deduction = 0, ps_annual_taxable_after_sd = 0,
        ps_annual_surcharge = 0, ps_annual_tax_before_cess = 0, ps_annual_cess = 0, ps_annual_tax_total = 0\<rparr>\<rparr>"

definition example_slip_item :: "uid \<Rightarrow> uid \<Rightarrow> rat \<Rightarrow> payroll_run_item" where
  "example_slip_item i run gross =
     \<lparr>ri_id = i, ri_pay_run = run, ri_employee = 10, ri_status = READY, ri_gross_pay = gross, ri_employee_deductions = 0,
      ri_employer_contributions = 0, ri_eps_employer = 0, ri_epf_employer = 0, ri_income_tax = 0, ri_total_deductions = 0,
      ri_net_pay = gross, ri_snapshot = None, ri_message = [], ri_message_args = []\<rparr>"

definition first_june_run :: payroll_run where
  "first_june_run = example_run\<lparr>pr_status := PR_FINALIZED, pr_finalized_at := Some 100\<rparr>"

definition june_rerun :: payroll_run where
  "june_rerun = first_june_run\<lparr>pr_id := 41, pr_run_type := RERUN, pr_finalized_at := Some 200\<rparr>"

definition filing_state :: hr_state where
  "filing_state = update_pay (\<lambda>p. p\<lparr>pd_runs := [first_june_run, june_rerun],
     pd_items := [example_slip_item 20 40 50000, example_slip_item 21 41 52000],
     pd_payslips := [example_slip 10 40 50000, example_slip 11 41 52000]\<rparr>) example_hr_start"

definition example_filing_org :: filing_org where
  "example_filing_org = \<lparr>fo_id = 1, fo_slug = ''acme'', fo_esi_branch_code = [], fo_profiles = (\<lambda>_. None)\<rparr>"

definition empty_export :: filing_generation_result where
  "empty_export = \<lparr>fg_artifact_format = FMT_XML, fg_content_type = ''application/xml'', fg_file_name = ''export.xml'',
     fg_rows = [], fg_metadata = [], fg_validation_errors = [], fg_artifact_text = ''<form/>'', fg_artifact_binary = []\<rparr>"

definition example_services :: filing_services where
  "example_services = \<lparr>fv_digest = rev, fv_stable_json = (\<lambda>_. ''{}''), fv_store_in_s3 = False,
     fv_upload_error = (\<lambda>_. None), fv_presigned_url = (\<lambda>k. ''https://store/'' @ k),
     fv_form24q = (\<lambda>_ _ _ _. empty_export), fv_form16_xml = (\<lambda>_ _ _. empty_export), fv_form16_pdf = (\<lambda>_ _ _. empty_export)\<rparr>"

definition slip_with_item :: "payslip \<Rightarrow> payroll_run_item \<Rightarrow> filing_slip" where
  "slip_with_item p x = \<lparr>fs_slip = p, fs_employee = example_employee 10 (Some 20), fs_item = x\<rparr>"

lemma example_candidates:
  "filing_slip_of filing_state (example_slip 10 40 50000) = Some (slip_with_item (example_slip 10 40 50000) (example_slip_item 20 40 50000))"
  "filing_slip_of filing_state (example_slip 11 41 52000) = Some (slip_with_item (example_slip 11 41 52000) (example_slip_item 21 41 52000))"
  by (simp_all add: filing_slip_of_def filing_state_def frame_simps example_slip_def example_slip_item_def slip_with_item_def
      example_hr_start_def paid_org_db_def find_employee_def example_employee_def)

lemma example_runs: "finalized_runs_for_period (pay filing_state) 1 2025 6 = [first_june_run, june_rerun]"
  by (simp add: finalized_runs_for_period_def finalized_runs_def in_filing_order_def filing_state_def frame_simps
      first_june_run_def june_rerun_def example_run_def)

lemma example_filter:
  "List.map_filter (filing_slip_of filing_state)
     (filter (\<lambda>p. py_pay_run p \<in> set (map pr_id [first_june_run, june_rerun])) (pd_payslips (pay filing_state))) =
     [slip_with_item (example_slip 10 40 50000) (example_slip_item 20 40 50000),
      slip_with_item (example_slip 11 41 52000) (example_slip_item 21 41 52000)]"
proof -
  have slips: "pd_payslips (pay filing_state) = [example_slip 10 40 50000, example_slip 11 41 52000]"
    by (simp add: filing_state_def frame_simps)
  have ids: "py_pay_run (example_slip i r g) = r" "pr_id first_june_run = 40" "pr_id june_rerun = 41" for i r g
    by (simp_all add: example_slip_def first_june_run_def june_rerun_def example_run_def)
  show ?thesis by (simp add: slips ids map_filter_simps example_candidates)
qed

lemma example_effective:
  "effective_payslips_for_runs filing_state [first_june_run, june_rerun] =
     [slip_with_item (example_slip 11 41 52000) (example_slip_item 21 41 52000)]"
proof -
  let ?a = "slip_with_item (example_slip 10 40 50000) (example_slip_item 20 40 50000)"
  let ?b = "slip_with_item (example_slip 11 41 52000) (example_slip_item 21 41 52000)"
  have keys: "slip_key ?a = (10, 2025, 6)" "slip_key ?b = (10, 2025, 6)"
    by (simp_all add: slip_key_def slip_with_item_def example_slip_def)
  have order: "slip_order [first_june_run, june_rerun] ?a = (True, [], 2025, 6, False, 100)"
    "slip_order [first_june_run, june_rerun] ?b = (True, [], 2025, 6, False, 200)"
    by (simp_all add: slip_order_def slip_finalized_at_def slip_with_item_def example_slip_def first_june_run_def
        june_rerun_def example_run_def example_employee_def)
  show ?thesis
    unfolding effective_payslips_for_runs_def example_filter by (simp add: order keys)
qed

section \<open>The returns\<close>

lemma list_all_no_filter: "list_all P xs \<Longrightarrow> filter P xs = xs \<and> filter (\<lambda>x. \<not> P x) xs = []"
  by (induction xs) auto

lemma not_all_filter: "\<not> list_all P xs \<Longrightarrow> filter (\<lambda>x. \<not> P x) xs \<noteq> []"
  by (induction xs) auto

lemma sorted_table_reads_back:
  assumes "names \<noteq> []"
  shows "\<exists>table. parse_csv (build_csv (sort_key k (map f xs)) names) = Some (names # table) \<and>
    mset table = image_mset (\<lambda>x. map (row_get (f x)) names) (mset xs)"
  using parse_build_csv [OF assms, of "sort_key k (map f xs)"]
  by (intro exI conjI) (assumption, simp add: multiset.map_comp comp_def)

lemma ecr_fields:
  "fg_validation_errors (generate_ecr_export org slips y m) =
     sort (map (\<lambda>s. filing_name s @ '': missing UAN number for PF ECR.'')
       (filter (\<lambda>s. profile_text ep_uan_number org s = []) (filter ecr_contributes slips)))"
  "fg_artifact_text (generate_ecr_export org slips y m) =
     (if filter (\<lambda>s. profile_text ep_uan_number org s = []) (filter ecr_contributes slips) = []
      then build_csv (sort_key (\<lambda>row. (row_get row ''uan'', row_get row ''member_name''))
             (map (ecr_row org) (filter (\<lambda>s. profile_text ep_uan_number org s \<noteq> []) (filter ecr_contributes slips)))) ECR_FIELDNAMES
      else [])"
  unfolding generate_ecr_export_def Let_def filing_generation_result.simps map_is_Nil_conv by (rule refl)+

text \<open>C18: The provident fund return. When every employee with a contribution has a UAN, the file
  exists and a CSV reader gets back the header and exactly one line for each contributing payslip,
  with its amounts; when one has no UAN, the return is blocked and no file is written.\<close>

theorem provident_fund_return_reads_back:
  "if list_all (\<lambda>s. profile_text ep_uan_number org s \<noteq> []) (filter ecr_contributes slips)
   then fg_validation_errors (generate_ecr_export org slips y m) = [] \<and>
     (\<exists>table. parse_csv (fg_artifact_text (generate_ecr_export org slips y m)) = Some (ECR_FIELDNAMES # table) \<and>
        mset table = image_mset (\<lambda>s. map (row_get (ecr_row org s)) ECR_FIELDNAMES) (mset (filter ecr_contributes slips)))
   else fg_validation_errors (generate_ecr_export org slips y m) \<noteq> [] \<and>
     fg_artifact_text (generate_ecr_export org slips y m) = []"
proof (cases "list_all (\<lambda>s. profile_text ep_uan_number org s \<noteq> []) (filter ecr_contributes slips)")
  case True
  let ?ms = "filter ecr_contributes slips"
  have "filter (\<lambda>s. profile_text ep_uan_number org s = []) ?ms = []" "filter (\<lambda>s. profile_text ep_uan_number org s \<noteq> []) ?ms = ?ms"
    using list_all_no_filter [OF True] by simp_all
  note f = ecr_fields [of org slips y m, unfolded this]
  have "ECR_FIELDNAMES \<noteq> []" by (simp add: ECR_FIELDNAMES_def)
  from sorted_table_reads_back [OF this, where k = "\<lambda>row. (row_get row ''uan'', row_get row ''member_name'')"
      and f = "ecr_row org" and xs = ?ms]
  show ?thesis unfolding f if_P [OF True] by simp
next
  case False
  from not_all_filter [OF False] show ?thesis
    unfolding ecr_fields using False by simp
qed

text \<open>The total of a column of amounts is the total of the rounded amounts.\<close>

lemma total_of_rows:
  assumes "\<And>s. row_get (f s) name = decimal_to_string (g s)"
  shows "amount_total (sort_key k (map f xs)) name = sum_list (map (\<lambda>s. quantize2 (g s)) xs)"
proof -
  have "amount_total (sort_key k (map f xs)) name = amount_total (map f xs) name"
    by (rule totals_mset) simp
  then show ?thesis by (simp add: amount_total_def comp_def assms amount_of_decimal_to_string)
qed

lemma rupee_total_of_rows:
  assumes "\<And>s. row_get (f s) name = decimal_to_rupee_int (g s)"
  shows "column_total (sort_key k (map f xs)) name = sum_list (map (\<lambda>s. round_half_even (g s)) xs)"
proof -
  have "column_total (sort_key k (map f xs)) name = column_total (map f xs) name"
    by (rule totals_mset) simp
  then show ?thesis by (simp add: column_total_def comp_def assms decimal_to_rupee_int_def)
qed

text \<open>C38: The totals a return declares. The state insurance return declares the sums of the
  employees' and the employer's contributions, to the paisa, over the payslips it lists, and the
  provident fund return the sum of the employees' shares, each rounded to the rupee.\<close>

theorem returns_declare_their_totals:
  "map_of (fg_metadata (generate_esi_export org slips y m)) ''employee_contribution_total'' =
     Some (MStr (decimal_to_string (sum_list (map (\<lambda>s. quantize2 (item_amount sn_esi_employee s))
       (filter (\<lambda>s. esi_contributes s \<and> profile_text ep_esic_ip_number org s \<noteq> []) slips))))) \<and>
   map_of (fg_metadata (generate_esi_export org slips y m)) ''employer_contribution_total'' =
     Some (MStr (decimal_to_string (sum_list (map (\<lambda>s. quantize2 (item_amount sn_esi_employer s))
       (filter (\<lambda>s. esi_contributes s \<and> profile_text ep_esic_ip_number org s \<noteq> []) slips))))) \<and>
   map_of (fg_metadata (generate_ecr_export org slips y m)) ''total_epf_employee_share'' =
     Some (MInt (sum_list (map (\<lambda>s. round_half_even (item_amount sn_auto_pf s))
       (filter (\<lambda>s. ecr_contributes s \<and> profile_text ep_uan_number org s \<noteq> []) slips))))"
proof -
  have esi: "row_get (esi_row org s) ''employee_contribution'' = decimal_to_string (item_amount sn_esi_employee s)"
    "row_get (esi_row org s) ''employer_contribution'' = decimal_to_string (item_amount sn_esi_employer s)" for s
    by (simp_all add: esi_row_def row_get_def)
  have ecr: "row_get (ecr_row org s) ''epf_employee_share'' = decimal_to_rupee_int (item_amount sn_auto_pf s)" for s
    by (simp add: ecr_row_def row_get_def Let_def split: prod.split)
  note rows = total_of_rows [where f = "esi_row org" and name = "''employee_contribution''", OF esi(1)]
    total_of_rows [where f = "esi_row org" and name = "''employer_contribution''", OF esi(2)]
    rupee_total_of_rows [where f = "ecr_row org" and name = "''epf_employee_share''", OF ecr]
  have "map_of (fg_metadata (generate_esi_export org slips y m)) ''employee_contribution_total'' =
      Some (MStr (decimal_to_string (sum_list (map (\<lambda>s. quantize2 (item_amount sn_esi_employee s))
        (filter (\<lambda>s. esi_contributes s \<and> profile_text ep_esic_ip_number org s \<noteq> []) slips)))))"
    "map_of (fg_metadata (generate_esi_export org slips y m)) ''employer_contribution_total'' =
      Some (MStr (decimal_to_string (sum_list (map (\<lambda>s. quantize2 (item_amount sn_esi_employer s))
        (filter (\<lambda>s. esi_contributes s \<and> profile_text ep_esic_ip_number org s \<noteq> []) slips)))))"
    by (simp_all add: generate_esi_export_def Let_def rows conj_commute)
  moreover have "map_of (fg_metadata (generate_ecr_export org slips y m)) ''total_epf_employee_share'' =
      Some (MInt (sum_list (map (\<lambda>s. round_half_even (item_amount sn_auto_pf s))
        (filter (\<lambda>s. ecr_contributes s \<and> profile_text ep_uan_number org s \<noteq> []) slips))))"
    by (simp add: generate_ecr_export_def Let_def rows conj_commute)
  ultimately show ?thesis by (intro conjI)
qed

section \<open>The payslips of a filing\<close>

lemma map_of_fold_update:
  "map_of (fold (\<lambda>s. AList.update (k s) s) xs d) q =
     (case first_row (\<lambda>s. k s = q) (rev xs) of None \<Rightarrow> map_of d q | Some s \<Rightarrow> Some s)"
  by (induction xs arbitrary: d) (auto simp: first_row_append AList.update_conv' split: option.splits)

lemma distinct_fold_update:
  "distinct (map fst d) \<Longrightarrow> distinct (map fst (fold (\<lambda>s. AList.update (k s) s) xs d))"
  by (induction xs arbitrary: d) (simp_all add: AList.distinct_update)

lemma last_of_sorted:
  assumes "sorted (map k xs)" "first_row P (rev xs) = Some s" "t \<in> set xs" "P t"
  shows "k t \<le> k s"
  using assms by (induction xs rule: rev_induct) (auto simp: sorted_append split: if_splits dest: first_row_SomeD)

definition filing_candidates :: "hr_state \<Rightarrow> payroll_run list \<Rightarrow> filing_slip list" where
  "filing_candidates st runs =
     List.map_filter (filing_slip_of st) (filter (\<lambda>p. py_pay_run p \<in> set (map pr_id runs)) (pd_payslips (pay st)))"

lemma effective_mem:
  "s \<in> set (effective_payslips_for_runs st runs) \<longleftrightarrow>
     first_row (\<lambda>x. slip_key x = slip_key s) (rev (sort_key (slip_order runs) (filing_candidates st runs))) = Some s"
proof -
  let ?xs = "sort_key (slip_order runs) (filing_candidates st runs)"
  let ?al = "fold (\<lambda>s. AList.update (slip_key s) s) ?xs []"
  have d: "distinct (map fst ?al)" by (rule distinct_fold_update) simp
  have m: "(q, s) \<in> set ?al \<longleftrightarrow> first_row (\<lambda>x. slip_key x = q) (rev ?xs) = Some s" for q
    unfolding map_of_eq_Some_iff [OF d, symmetric] map_of_fold_update by (simp split: option.splits)
  show ?thesis
    unfolding effective_payslips_for_runs_def filing_candidates_def [symmetric] Let_def
  proof
    assume "s \<in> set (map snd ?al)"
    then obtain q where "(q, s) \<in> set ?al" by auto
    then have q: "first_row (\<lambda>x. slip_key x = q) (rev ?xs) = Some s" unfolding m .
    moreover from first_row_SomeD [OF q] have "slip_key s = q" by simp
    ultimately show "first_row (\<lambda>x. slip_key x = slip_key s) (rev ?xs) = Some s" by simp
  next
    assume "first_row (\<lambda>x. slip_key x = slip_key s) (rev ?xs) = Some s"
    then have "(slip_key s, s) \<in> set ?al" unfolding m .
    then have "snd (slip_key s, s) \<in> snd ` set ?al" by (rule imageI)
    then show "s \<in> set (map snd ?al)" unfolding set_map snd_conv .
  qed
qed

lemma effective_candidate: "s \<in> set (effective_payslips_for_runs st runs) \<Longrightarrow> s \<in> set (filing_candidates st runs)"
  by (auto simp: effective_mem dest!: first_row_SomeD)

lemma effective_keys_distinct: "distinct (map slip_key (effective_payslips_for_runs st runs))"
proof -
  let ?al = "fold (\<lambda>s. AList.update (slip_key s) s) (sort_key (slip_order runs) (filing_candidates st runs)) []"
  have d: "distinct (map fst ?al)" by (rule distinct_fold_update) simp
  have "fst x = slip_key (snd x)" if "x \<in> set ?al" for x
    using that map_of_eq_Some_iff [OF d, of "fst x" "snd x"]
    by (auto simp: map_of_fold_update split: option.splits dest: first_row_SomeD)
  then have "map slip_key (map snd ?al) = map fst ?al" by simp
  with d show ?thesis
    unfolding effective_payslips_for_runs_def filing_candidates_def [symmetric] Let_def by metis
qed

text \<open>No employee and month is lost.\<close>

lemma effective_covers:
  assumes "t \<in> set (filing_candidates st runs)"
  shows "slip_key t \<in> slip_key ` set (effective_payslips_for_runs st runs)"
proof -
  let ?xs = "rev (sort_key (slip_order runs) (filing_candidates st runs))"
  have "t \<in> set ?xs" using assms by simp
  then have "first_row (\<lambda>x. slip_key x = slip_key t) ?xs \<noteq> None" by (auto simp: first_row_None_iff)
  then obtain s where s: "first_row (\<lambda>x. slip_key x = slip_key t) ?xs = Some s" by blast
  then have "slip_key s = slip_key t" by (auto dest: first_row_SomeD)
  moreover from this s have "s \<in> set (effective_payslips_for_runs st runs)" by (simp add: effective_mem)
  ultimately show ?thesis by (metis imageI)
qed

text \<open>When a payslip's run was finalised; a run without the time comes last, as in the database.\<close>

definition finalization_rank :: "payroll_run list \<Rightarrow> filing_slip \<Rightarrow> bool \<times> instant" where
  "finalization_rank runs s =
     (slip_finalized_at runs (fs_slip s) = None, or_else (slip_finalized_at runs (fs_slip s)) 0)"

lemma candidate_employee: "t \<in> set (filing_candidates st runs) \<Longrightarrow> find_employee (ap_org st) (py_employee (fs_slip t)) = Some (fs_employee t)"
  by (auto simp: filing_candidates_def map_filter_def filing_slip_of_def split: option.splits)

lemma same_key_rank:
  assumes "t \<in> set (filing_candidates st runs)" "s \<in> set (filing_candidates st runs)" "slip_key t = slip_key s"
    and "slip_order runs t \<le> slip_order runs s"
  shows "finalization_rank runs t \<le> finalization_rank runs s"
proof -
  have "fs_employee t = fs_employee s"
    using candidate_employee [OF assms(1)] candidate_employee [OF assms(2)] assms(3) by (simp add: slip_key_def)
  with assms(3,4) show ?thesis by (simp add: slip_order_def slip_key_def finalization_rank_def less_eq_prod_def)
qed

text \<open>C13: A filing counts exactly one payslip for each employee and month. The employees and months of
  the payslips it counts are those of all payslips of its runs, each once; a payslip it counts is one
  of its runs', and no other of the same employee and month is of a run finalised later, so a rerun
  replaces the run it corrects.\<close>

theorem effective_payslip_is_latest:
  "distinct (map slip_key (effective_payslips_for_runs st runs)) \<and>
   slip_key ` set (effective_payslips_for_runs st runs) = slip_key ` set (filing_candidates st runs) \<and>
   (\<forall>s \<in> set (effective_payslips_for_runs st runs). s \<in> set (filing_candidates st runs) \<and>
      (\<forall>t \<in> set (filing_candidates st runs). slip_key t = slip_key s \<longrightarrow>
         finalization_rank runs t \<le> finalization_rank runs s))"
proof (intro conjI ballI impI)
  fix s t
  assume s: "s \<in> set (effective_payslips_for_runs st runs)" and t: "t \<in> set (filing_candidates st runs)" "slip_key t = slip_key s"
  have "slip_order runs t \<le> slip_order runs s"
    using s t
    by (intro last_of_sorted [where P = "\<lambda>x. slip_key x = slip_key s" and
          xs = "sort_key (slip_order runs) (filing_candidates st runs)"]) (simp_all add: effective_mem)
  then show "finalization_rank runs t \<le> finalization_rank runs s"
    by (rule same_key_rank [OF t(1) effective_candidate [OF s] t(2)])
next
  show "slip_key ` set (effective_payslips_for_runs st runs) = slip_key ` set (filing_candidates st runs)"
    by (rule equalityI; rule image_subsetI) (rule imageI, erule effective_candidate, erule effective_covers)
qed (rule effective_keys_distinct effective_candidate, assumption?)+

theorem effective_payslip_is_latest_witness:
  "finalization_rank [first_june_run, june_rerun] (slip_with_item (example_slip 10 40 50000) (example_slip_item 20 40 50000))
     \<le> finalization_rank [first_june_run, june_rerun] (slip_with_item (example_slip 11 41 52000) (example_slip_item 21 41 52000)) \<and>
   distinct (map slip_key (effective_payslips_for_runs filing_state [first_june_run, june_rerun]))"
proof -
  let ?a = "slip_with_item (example_slip 10 40 50000) (example_slip_item 20 40 50000)"
    and ?b = "slip_with_item (example_slip 11 41 52000) (example_slip_item 21 41 52000)"
  have "?b \<in> set (effective_payslips_for_runs filing_state [first_june_run, june_rerun])"
    by (simp add: example_effective)
  moreover have "?a \<in> set (filing_candidates filing_state [first_june_run, june_rerun])"
    unfolding filing_candidates_def example_filter by simp
  moreover have "slip_key ?a = slip_key ?b"
    by (simp add: slip_key_def slip_with_item_def example_slip_def)
  ultimately show ?thesis
    using effective_payslip_is_latest [of filing_state "[first_june_run, june_rerun]"] by blast
qed

section \<open>Batches\<close>

definition scope_key ::
  "statutory_filing_batch \<Rightarrow> uid \<times> statutory_filing_type \<times> int option \<times> int option \<times> string \<times> string \<times>
     statutory_filing_artifact_format" where
  "scope_key b = (sf_organisation b, sf_filing_type b, sf_period_year b, sf_period_month b, sf_fiscal_year b,
     sf_quarter b, sf_artifact_format b)"

definition in_s3 :: "statutory_filing_batch \<Rightarrow> bool" where
  "in_s3 b \<longleftrightarrow> sf_artifact_storage_backend b = ''s3'' \<and> sf_artifact_storage_key b \<noteq> []"

definition batch_sound :: "filing_services \<Rightarrow> statutory_filing_batch \<Rightarrow> bool" where
  "batch_sound sv b \<longleftrightarrow>
     (sf_status b = SF_GENERATED \<longrightarrow> sf_validation_errors b = [] \<and> sf_source_pay_runs b \<noteq> [] \<and>
        (in_s3 b \<or> sf_checksum b = fv_digest sv (sf_artifact_text b))) \<and>
     (sf_status b = SF_BLOCKED \<longrightarrow> sf_validation_errors b \<noteq> [] \<and> sf_artifact_text b = [] \<and> sf_checksum b = [])"

definition filings_ok :: "filing_services \<Rightarrow> hr_state \<Rightarrow> bool" where
  "filings_ok sv st \<longleftrightarrow>
     (\<forall>b \<in> set (pd_filings (pay st)). sf_id b < ap_next_id st \<and> batch_sound sv b) \<and>
     distinct (map scope_key (filter live_batch (pd_filings (pay st))))"

text \<open>What the application does to filings; any other operation leaves them alone.\<close>

inductive filing_step :: "filing_services \<Rightarrow> hr_state \<Rightarrow> hr_state \<Rightarrow> bool" for sv where
  generated: "generate_statutory_filing_batch ck sv org type actor y m fiscal_year quarter fmt st = Inr (d, b)
      \<Longrightarrow> filing_step sv st d"
| regenerated: "regenerate_statutory_filing_batch ck sv org b0 actor st = Inr (d, b) \<Longrightarrow> filing_step sv st d"
| cancelled: "filing_step sv st (cancel_statutory_filing_batch b actor st)"
| downloaded: "download_statutory_filing_batch sv b actor st = Inr (d, x) \<Longrightarrow> filing_step sv st d"
| other: "pd_filings (pay d) = pd_filings (pay st) \<Longrightarrow> ap_next_id st \<le> ap_next_id d \<Longrightarrow> filing_step sv st d"

lemma filter_live_update:
  "(\<And>b. Q b \<Longrightarrow> \<not> live_batch (f b)) \<Longrightarrow>
     filter live_batch (update_where Q f xs) = filter (\<lambda>b. live_batch b \<and> \<not> Q b) xs"
  by (induction xs) auto

lemma distinct_map_filter_conj: "distinct (map f (filter P xs)) \<Longrightarrow> distinct (map f (filter (\<lambda>x. P x \<and> Q x) xs))"
  using distinct_map_filter [of f "filter P xs" Q] by simp

lemma audit_pay [simp]: "pay (audit a e t st) = pay st" "ap_next_id (audit a e t st) = ap_next_id st"
  by (simp_all add: audit_def)

lemma filings_ok_same:
  "filings_ok sv st \<Longrightarrow> pd_filings (pay d) = pd_filings (pay st) \<Longrightarrow> ap_next_id st \<le> ap_next_id d \<Longrightarrow> filings_ok sv d"
  by (auto simp: filings_ok_def)

text \<open>A step that takes live batches out of life.\<close>

lemma filings_ok_retired:
  assumes "filings_ok sv st" "\<And>b. Q b \<Longrightarrow> \<not> live_batch (f b) \<and> sf_id (f b) = sf_id b"
  shows "filings_ok sv (update_filings Q f st)"
proof -
  have "batch_sound sv b" if "\<not> live_batch b" for b
    using that by (auto simp: batch_sound_def live_batch_def)
  with assms show ?thesis
    by (auto simp: filings_ok_def update_filings_def frame_simps set_update_where filter_live_update
        intro: distinct_map_filter_conj)
qed

lemma storage_key_not_Nil [simp]: "storage_key org i r \<noteq> []"
  by (simp add: storage_key_def)

lemma batch_of_sound:
  assumes "runs \<noteq> [] \<or> fg_validation_errors r \<noteq> []" "key \<noteq> []"
  shows "batch_sound sv (batch_of ck sv org sc fmt runs slips r key i)" "live_batch (batch_of ck sv org sc fmt runs slips r key i)"
  using assms by (auto simp: batch_sound_def batch_of_def live_batch_def in_s3_def goes_to_s3_def payload_bytes_def Let_def)

definition superseded_by :: "uid \<Rightarrow> filing_scope \<Rightarrow> statutory_filing_artifact_format \<Rightarrow> statutory_filing_batch \<Rightarrow>
    statutory_filing_batch \<Rightarrow> bool" where
  "superseded_by org sc fmt new b \<longleftrightarrow>
     sf_organisation b = org \<and> live_batch b \<and> filing_scope_filter sc (Some fmt) b \<and> sf_id b \<noteq> sf_id new"

lemma superseded_by_scope:
  assumes "scope_key b = scope_key (batch_of ck sv org sc fmt runs slips r key i)" "live_batch b" "sf_id b \<noteq> i"
  shows "superseded_by org sc fmt (batch_of ck sv org sc fmt runs slips r key i) b"
  using assms by (simp add: superseded_by_def scope_key_def batch_of_def filing_scope_filter_def Let_def)

lemma apply_result:
  assumes "apply_filing_batch_result ck sv org actor sc fmt runs slips r st = Inr (d, b)"
  obtains i key where "b = batch_of ck sv org sc fmt runs slips r key i" "key \<noteq> []" "ap_next_id st \<le> i" "i < ap_next_id d"
    "pd_filings (pay d) =
       update_where (superseded_by org sc fmt b) (\<lambda>b. b\<lparr>sf_status := SF_SUPERSEDED\<rparr>) (pd_filings (pay st) @ [b])"
proof -
  let ?key = "storage_key org (ap_next_id st) r"
  let ?st = "if goes_to_s3 sv r then draw_id st else st"
  let ?b = "batch_of ck sv org sc fmt runs slips r ?key (ap_next_id ?st)"
  from assms have ok: "(if goes_to_s3 sv r then fv_upload_error sv ?key else None) = None" "b = ?b"
    and d: "pd_filings (pay d) =
      update_where (superseded_by org sc fmt ?b) (\<lambda>b. b\<lparr>sf_status := SF_SUPERSEDED\<rparr>) (pd_filings (pay st) @ [?b])"
      "ap_next_id d = Suc (ap_next_id ?st)"
    by (auto simp: apply_filing_batch_result_def Let_def update_filings_def frame_simps superseded_by_def [abs_def]
        split: option.splits if_splits)
  show ?thesis
    using d ok(2) by (intro that [of ?key "ap_next_id ?st"]) (simp_all add: frame_simps)
qed

lemma filings_ok_apply:
  assumes "apply_filing_batch_result ck sv org actor sc fmt runs slips r st = Inr (d, b)"
    and "runs \<noteq> [] \<or> fg_validation_errors r \<noteq> []" and ok: "filings_ok sv st"
  shows "filings_ok sv d"
proof -
  from apply_result [OF assms(1)] obtain i key where
    b: "b = batch_of ck sv org sc fmt runs slips r key i" and ids: "key \<noteq> []" "ap_next_id st \<le> i" "i < ap_next_id d"
    and d: "pd_filings (pay d) = update_where (superseded_by org sc fmt b) (\<lambda>b. b\<lparr>sf_status := SF_SUPERSEDED\<rparr>) (pd_filings (pay st) @ [b])"
    by blast
  note sound = batch_of_sound [OF assms(2) ids(1), where sv = sv and ck = ck and org = org and sc = sc and fmt = fmt and
      slips = slips and i = i, folded b]
  have i: "sf_id b = i" by (simp add: b batch_of_def Let_def)
  have self: "\<not> superseded_by org sc fmt b b" by (simp add: superseded_by_def)
  have old: "sf_id x < ap_next_id d" "sf_id x \<noteq> i" "batch_sound sv x" if "x \<in> set (pd_filings (pay st))" for x
    using ok that ids unfolding filings_ok_def by fastforce+
  have retired: "batch_sound sv (x\<lparr>sf_status := SF_SUPERSEDED\<rparr>)" for x by (simp add: batch_sound_def)
  have live: "filter live_batch (pd_filings (pay d)) =
      filter (\<lambda>x. live_batch x \<and> \<not> superseded_by org sc fmt b x) (pd_filings (pay st)) @ [b]"
    using sound(2) self by (simp add: d filter_live_update live_batch_def)
  have fresh: "scope_key b \<notin> scope_key ` {x \<in> set (pd_filings (pay st)). live_batch x \<and> \<not> superseded_by org sc fmt b x}"
  proof
    assume "scope_key b \<in> scope_key ` {x \<in> set (pd_filings (pay st)). live_batch x \<and> \<not> superseded_by org sc fmt b x}"
    then obtain x where x: "x \<in> set (pd_filings (pay st))" "live_batch x" "\<not> superseded_by org sc fmt b x"
      "scope_key x = scope_key b" by auto
    from superseded_by_scope [OF x(4) [unfolded b] x(2) old(2) [OF x(1)]] x(3) show False unfolding b by simp
  qed
  show ?thesis
    unfolding filings_ok_def live
  proof (intro conjI ballI)
    fix x assume "x \<in> set (pd_filings (pay d))"
    then consider "x = b" | z where "z \<in> set (pd_filings (pay st))" "x = z\<lparr>sf_status := SF_SUPERSEDED\<rparr>"
      | "x \<in> set (pd_filings (pay st))"
      using self by (auto simp: d set_update_where split: if_splits)
    then show "sf_id x < ap_next_id d" "batch_sound sv x"
      using sound(1) i ids old retired by (cases, auto)+
  next
    show "distinct (map scope_key (filter (\<lambda>x. live_batch x \<and> \<not> superseded_by org sc fmt b x) (pd_filings (pay st)) @ [b]))"
      using ok fresh distinct_map_filter_conj [of scope_key live_batch "pd_filings (pay st)"]
      by (simp add: filings_ok_def)
  qed
qed

lemma add_error_runs: "runs \<noteq> [] \<or> fg_validation_errors (add_error (runs = []) msg r) \<noteq> []"
  by (simp add: add_error_def)

lemma generated_by:
  assumes "generate_statutory_filing_batch ck sv org type actor y m fiscal_year quarter fmt st = Inr (d, b)"
  shows "\<exists>sc f runs slips r. apply_filing_batch_result ck sv (fo_id org) actor sc f runs slips r st = Inr (d, b) \<and>
    (runs \<noteq> [] \<or> fg_validation_errors r \<noteq> [])" (is ?goal)
proof -
  have monthly: ?goal if "generate_monthly ck sv org t actor j k f st = Inr (d, b)" for t j k f
    using that unfolding generate_monthly_def Let_def by (intro exI conjI) (assumption, rule add_error_runs)
  have form24q: ?goal if "generate_form24q_batch ck sv org actor fy q st = Inr (d, b)" for fy q
    using that unfolding generate_form24q_batch_def Let_def bind_res_eq_Inr
    by (elim exE conjE) (intro exI conjI, assumption, rule add_error_runs)
  have form16: ?goal if "generate_form16_batch ck sv org actor fy f st = Inr (d, b)" for fy f
    using that unfolding generate_form16_batch_def Let_def bind_res_eq_Inr
    by (elim exE conjE) (intro exI conjI, assumption, rule add_error_runs)
  from assms show ?thesis
    unfolding generate_statutory_filing_batch_def
    by (simp split: option.splits if_splits) (metis monthly form24q form16)+
qed

lemma filings_ok_generate:
  assumes "generate_statutory_filing_batch ck sv org type actor y m fiscal_year quarter fmt st = Inr (d, b)" "filings_ok sv st"
  shows "filings_ok sv d"
  using generated_by [OF assms(1)] filings_ok_apply assms(2) by metis

lemma filings_ok_step: "filing_step sv st d \<Longrightarrow> filings_ok sv st \<Longrightarrow> filings_ok sv d"
proof (induction rule: filing_step.induct)
  case (generated ck org type actor y m fiscal_year quarter fmt st d b)
  then show ?case by (rule filings_ok_generate)
next
  case (regenerated ck org b0 actor st d b)
  then obtain x where "generate_statutory_filing_batch ck sv org (Some (sf_filing_type b0)) actor (sf_period_year b0)
      (sf_period_month b0) (sf_fiscal_year b0) (sf_quarter b0) (Some (sf_artifact_format b0)) st = Inr (x, b)"
    "d = audit actor ''payroll.filing.regenerated'' (sf_id b) x"
    by (auto simp: regenerate_statutory_filing_batch_def)
  with regenerated.prems show ?case by (auto intro: filings_ok_same dest: filings_ok_generate)
next
  case (cancelled st b actor)
  have "filings_ok sv (update_filings (\<lambda>x. sf_id x = sf_id b) (\<lambda>x. x\<lparr>sf_status := SF_CANCELLED\<rparr>) st)"
    by (rule filings_ok_retired [OF cancelled]) (simp add: live_batch_def)
  with cancelled show ?case by (auto simp: cancel_statutory_filing_batch_def intro: filings_ok_same)
next
  case (downloaded b actor st d x)
  then show ?case by (auto simp: download_statutory_filing_batch_def Let_def split: if_splits intro: filings_ok_same)
next
  case (other d st)
  then show ?case by (blast intro: filings_ok_same)
qed

lemma filings_ok_reach: "(filing_step sv)\<^sup>*\<^sup>* st d \<Longrightarrow> filings_ok sv st \<Longrightarrow> filings_ok sv d"
  by (induction rule: rtranclp_induct) (auto intro: filings_ok_step)

lemma filings_ok_start: "pd_filings (pay st) = [] \<Longrightarrow> filings_ok sv st"
  by (simp add: filings_ok_def)



text \<open>The provident fund return of the example: June, from both runs, without a contributing member.\<close>

lemma example_generated:
  "\<exists>d b. generate_statutory_filing_batch example_clock example_services example_filing_org (Some PF_ECR) None (Some 2025)
     (Some 6) [] [] None filing_state = Inr (d, b) \<and> sf_status b = SF_GENERATED \<and> b \<in> set (pd_filings (pay d)) \<and>
   sf_artifact_storage_backend b = []"
proof -
  let ?slip = "slip_with_item (example_slip 11 41 52000) (example_slip_item 21 41 52000)"
  let ?r = "generate_ecr_export example_filing_org [?slip] 2025 6"
  have r: "fg_validation_errors ?r = []"
    unfolding ecr_fields by (simp add: ecr_contributes_def item_amount_def slip_with_item_def example_slip_item_def)
  have org: "fo_id example_filing_org = 1" by (simp add: example_filing_org_def)
  let ?sc = "\<lparr>sc_filing_type = PF_ECR, sc_period_year = Some 2025, sc_period_month = Some 6, sc_fiscal_year = [], sc_quarter = []\<rparr>"
  have "generate_monthly example_clock example_services example_filing_org PF_ECR None 2025 6 None filing_state =
    apply_filing_batch_result example_clock example_services 1 None ?sc FMT_CSV [first_june_run, june_rerun] [?slip] ?r filing_state"
    unfolding generate_monthly_def Let_def org example_runs example_effective
    by (simp add: monthly_exporter_def add_error_def del: One_nat_def)
  then have "generate_statutory_filing_batch example_clock example_services example_filing_org (Some PF_ECR)
      None (Some 2025) (Some 6) [] [] None filing_state =
    apply_filing_batch_result example_clock example_services 1 None ?sc FMT_CSV [first_june_run, june_rerun] [?slip] ?r filing_state"
    by (simp add: generate_statutory_filing_batch_def given_def del: One_nat_def)
  then obtain sc fmt runs slips where g: "generate_statutory_filing_batch example_clock example_services example_filing_org
      (Some PF_ECR) None (Some 2025) (Some 6) [] [] None filing_state =
    apply_filing_batch_result example_clock example_services 1 None sc fmt runs slips ?r filing_state" by blast
  have "\<exists>d b. apply_filing_batch_result example_clock example_services 1 None sc fmt runs slips ?r filing_state = Inr (d, b)"
    by (simp add: apply_filing_batch_result_def Let_def example_services_def)
  then obtain d b where a: "apply_filing_batch_result example_clock example_services 1 None sc fmt runs slips ?r filing_state = Inr (d, b)"
    by blast
  from apply_result [OF a] obtain i key where "b = batch_of example_clock example_services 1 sc fmt runs slips ?r key i"
    "pd_filings (pay d) = update_where (superseded_by 1 sc fmt b) (\<lambda>b. b\<lparr>sf_status := SF_SUPERSEDED\<rparr>) (pd_filings (pay filing_state) @ [b])"
    by metis
  moreover have "\<not> goes_to_s3 example_services ?r"
    by (simp add: goes_to_s3_def example_services_def generate_ecr_export_def Let_def)
  ultimately show ?thesis using r a unfolding g by (auto simp: batch_of_def Let_def superseded_by_def)
qed

lemma example_no_filings: "pd_filings (pay filing_state) = []"
  by (simp add: filing_state_def frame_simps example_hr_start_def example_hr_db_def example_payroll_db_def)


text \<open>C26: What a download gives. In every state reached, a batch that can be downloaded has no
  errors and names its source runs; the download gives either the text whose digest is the recorded
  checksum or the link to the stored object.\<close>

theorem download_matches_checksum:
  assumes "(filing_step sv)\<^sup>*\<^sup>* st0 st" "pd_filings (pay st0) = []" "b \<in> set (pd_filings (pay st))"
    and "download_statutory_filing_batch sv b actor st = Inr (d, bytes, content_type, name, url)"
    and "\<And>k. fv_presigned_url sv k \<noteq> []"
  shows "sf_validation_errors b = [] \<and> sf_source_pay_runs b \<noteq> [] \<and> pay d = pay st \<and>
    (case bytes of Some x \<Rightarrow> fv_digest sv x = sf_checksum b \<and> url = []
     | None \<Rightarrow> url = fv_presigned_url sv (sf_artifact_storage_key b))"
proof -
  have "batch_sound sv b"
    using filings_ok_reach [OF assms(1) filings_ok_start [OF assms(2)]] assms(3) by (simp add: filings_ok_def)
  then show ?thesis
    using assms(4,5) unfolding download_statutory_filing_batch_def Let_def
    by (auto simp: batch_sound_def in_s3_def split: if_splits)
qed

theorem download_matches_checksum_witness:
  "\<exists>st b d t content_type name. b \<in> set (pd_filings (pay st)) \<and>
     download_statutory_filing_batch example_services b None st = Inr (d, Some t, content_type, name, []) \<and>
     rev t = sf_checksum b \<and> sf_source_pay_runs b \<noteq> []"
proof -
  obtain d b where g: "generate_statutory_filing_batch example_clock example_services example_filing_org (Some PF_ECR) None
      (Some 2025) (Some 6) [] [] None filing_state = Inr (d, b)" "sf_status b = SF_GENERATED" "b \<in> set (pd_filings (pay d))"
    "sf_artifact_storage_backend b = []"
    using example_generated by blast
  have reach: "(filing_step example_services)\<^sup>*\<^sup>* filing_state d"
    by (rule r_into_rtranclp, rule filing_step.generated, rule g(1))
  have url: "fv_presigned_url example_services k \<noteq> []" for k by (simp add: example_services_def)
  have digest: "fv_digest example_services = rev" by (simp add: example_services_def)
  have dl: "download_statutory_filing_batch example_services b None d =
      Inr (audit None ''payroll.filing.downloaded'' (sf_id b) d, Some (sf_artifact_text b), sf_content_type b, sf_file_name b, [])"
    using g(2,4) by (simp add: download_statutory_filing_batch_def Let_def)
  from download_matches_checksum [OF reach example_no_filings g(3) dl url] digest g(3) dl show ?thesis
    by (intro exI [of _ d] exI [of _ b] exI) auto
qed

end
