(* ===== verification/FinalSettlement.thy ===== *)
theory FinalSettlement
  imports PayRun TimeoffRequests
begin

text \<open>
  The full and final settlement of a leaver (\<open>payroll/services.py\<close>, from
  \<open>_is_government_body_employee\<close> to \<open>create_full_and_final_settlement\<close>): exemptions, tax on the
  settlement, salary up to the last working day, leave encashment, gratuity, and the settlement row.
\<close>

section \<open>Exemptions\<close>

definition is_government_body_employee :: "org_db \<Rightarrow> employee \<Rightarrow> bool" where
  "is_government_body_employee db e =
     (case find_organisation db (em_organisation e) of None \<Rightarrow> False | Some o1 \<Rightarrow> og_entity_type o1 = GOVERNMENT_BODY)"

record fnf_exemptions =
  fx_gratuity_exemption :: rat
  fx_gratuity_taxable :: rat
  fx_leave_encashment_exemption :: rat
  fx_leave_encashment_taxable :: rat

definition calculate_fnf_exemption_breakdown :: "org_db \<Rightarrow> employee \<Rightarrow> rat \<Rightarrow> rat \<Rightarrow> fnf_exemptions" where
  "calculate_fnf_exemption_breakdown db e gratuity leave_encashment =
     (let g = quantize2 gratuity; l = quantize2 leave_encashment;
          government = is_government_body_employee db e;
          gx = (if government then g else quantize2 (min g GRATUITY_STATUTORY_CEILING));
          lx = (if government then l else quantize2 (min l FNF_LEAVE_ENCASHMENT_EXEMPTION_CEILING))
      in \<lparr>fx_gratuity_exemption = gx, fx_gratuity_taxable = quantize2 (max 0 (g - gx)),
          fx_leave_encashment_exemption = lx, fx_leave_encashment_taxable = quantize2 (max 0 (l - lx))\<rparr>)"

section \<open>What the year's payslips already show\<close>

definition sum_taxable_snapshot_earnings :: "payslip_snapshot \<Rightarrow> rat" where
  "sum_taxable_snapshot_earnings data =
     (let total = sum_list (map (\<lambda>l. quantize2 (sl_monthly_amount l))
                    (filter (\<lambda>l. sl_component_type l = EARNING \<and> sl_is_taxable l) (ps_lines data)))
      in if total > 0 then quantize2 total else quantize2 (quantize2 (ps_gross_pay data)))"

text \<open>The payslips of finalised runs in the fiscal year, up to the month of the last working day.\<close>

definition in_fiscal_months :: "date \<Rightarrow> date \<Rightarrow> int \<Rightarrow> int \<Rightarrow> bool" where
  "in_fiscal_months a b y m \<longleftrightarrow>
     (y = yr a \<and> m \<ge> mo a) \<or> (y = yr b \<and> m \<le> mo b) \<or> (y > yr a \<and> y < yr b)"

definition run_is_finalized :: "payroll_db \<Rightarrow> uid \<Rightarrow> bool" where
  "run_is_finalized db i = (case find_pay_run db i of None \<Rightarrow> False | Some r \<Rightarrow> pr_status r = PR_FINALIZED)"

definition fnf_payslips :: "payroll_db \<Rightarrow> uid \<Rightarrow> date \<Rightarrow> date \<Rightarrow> date \<Rightarrow> payslip list" where
  "fnf_payslips db employee a b lwd =
     filter (\<lambda>p. py_employee p = employee \<and> run_is_finalized db (py_pay_run p) \<and>
       in_fiscal_months a b (py_period_year p) (py_period_month p) \<and>
       (py_period_year p < yr lwd \<or> py_period_year p = yr lwd \<and> py_period_month p \<le> mo lwd)) (pd_payslips db)"

definition get_fnf_ytd_tax_context :: "payroll_db \<Rightarrow> uid \<Rightarrow> date \<Rightarrow> (rat \<times> rat) res" where
  "get_fnf_ytd_tax_context db employee lwd =
     bind_res (fiscal_year_bounds (fiscal_year_for_period (yr lwd) (mo lwd))) (\<lambda>(a, b).
       let slips = fnf_payslips db employee a b lwd
       in Inr (quantize2 (sum_list (map (\<lambda>p. sum_taxable_snapshot_earnings (py_snapshot p)) slips)),
               quantize2 (sum_list (map (\<lambda>p. quantize2 (ps_income_tax (py_snapshot p))) slips))))"

section \<open>Tax on the settlement\<close>

record fnf_tax =
  ft_exemptions :: fnf_exemptions
  ft_fiscal_year :: string
  ft_tax_regime :: tax_regime
  ft_other_taxable_income :: rat
  ft_ytd_taxable_income :: rat
  ft_existing_ytd_tds :: rat
  ft_total_taxable_fnf :: rat
  ft_annual_taxable_gross :: rat
  ft_annual_taxable_after_sd :: rat
  ft_annual_tax_before_rebate :: rat
  ft_annual_rebate_87a :: rat
  ft_annual_surcharge :: rat
  ft_annual_tax_before_cess :: rat
  ft_annual_cess :: rat
  ft_annual_tax_total :: rat
  ft_fnf_tds :: rat

text \<open>The slab set; a missing new-regime master is created on the way.\<close>

definition fnf_slab_set ::
  "clock \<Rightarrow> employee \<Rightarrow> string \<Rightarrow> tax_regime \<Rightarrow> hr_state \<Rightarrow> payroll_tax_slab_set option outcome" where
  "fnf_slab_set ck e fiscal_year regime st =
     (let look = (\<lambda>d. get_active_tax_slab_set (slab_sets d) fiscal_year (Some (em_organisation e)) regime
                        (tax_category_for_fiscal_year e fiscal_year))
      in if look st = None \<and> regime = NEW
         then then_do (atomically (ensure_global_default_tax_master ck None (Some fiscal_year) st) st)
                (\<lambda>_. \<lambda>d. give (look d) d)
         else give (look st) st)"

text \<open>The breakdown from a slab set; without one no tax is computed.\<close>

definition no_breakdown :: tax_breakdown where
  "no_breakdown = \<lparr>tb_tax_before_rebate = 0, tb_rebate_87a = 0, tb_tax_after_rebate = 0, tb_surcharge = 0,
     tb_cess = 0, tb_annual_tax = 0\<rparr>"

definition fnf_annual_tax ::
  "investment_declaration list \<Rightarrow> employee \<Rightarrow> string \<Rightarrow> tax_regime \<Rightarrow> rat \<Rightarrow> payroll_tax_slab_set
     \<Rightarrow> rat \<times> tax_breakdown" where
  "fnf_annual_tax investments e fiscal_year regime gross slabs =
     (let after_sd = calculate_taxable_income_with_investments investments (em_id e) gross fiscal_year regime;
          params = get_rebate_87a_params fiscal_year (tax_regime_value regime)
      in (after_sd, calculate_income_tax_with_rebate after_sd slabs (surcharge_tiers_for_regime (tax_regime_value regime))
                      (Some (fst params)) (Some (snd params))))"

text \<open>The keys of the result, from the exemptions, the year so far and the slab set.\<close>

definition fnf_tax_of ::
  "investment_declaration list \<Rightarrow> employee \<Rightarrow> string \<Rightarrow> tax_regime \<Rightarrow> fnf_exemptions \<Rightarrow> rat \<Rightarrow> rat \<Rightarrow> rat
     \<Rightarrow> payroll_tax_slab_set option \<Rightarrow> fnf_tax" where
  "fnf_tax_of investments e fiscal_year regime fx other income tds found =
     (let total_taxable = quantize2 (fx_gratuity_taxable fx + fx_leave_encashment_taxable fx + other);
          gross = quantize2 (income + total_taxable);
          (after_sd, tb) = (case found of None \<Rightarrow> (0, no_breakdown)
                            | Some slabs \<Rightarrow> fnf_annual_tax investments e fiscal_year regime gross slabs);
          fnf_tds = (case found of None \<Rightarrow> 0 | Some _ \<Rightarrow> quantize2 (max 0 (tb_annual_tax tb - tds)))
      in \<lparr>ft_exemptions = fx, ft_fiscal_year = fiscal_year, ft_tax_regime = regime, ft_other_taxable_income = other,
          ft_ytd_taxable_income = income, ft_existing_ytd_tds = tds, ft_total_taxable_fnf = total_taxable,
          ft_annual_taxable_gross = gross, ft_annual_taxable_after_sd = after_sd,
          ft_annual_tax_before_rebate = tb_tax_before_rebate tb, ft_annual_rebate_87a = tb_rebate_87a tb,
          ft_annual_surcharge = tb_surcharge tb, ft_annual_tax_before_cess = tb_tax_after_rebate tb,
          ft_annual_cess = tb_cess tb, ft_annual_tax_total = tb_annual_tax tb, ft_fnf_tds = fnf_tds\<rparr>)"

definition calculate_fnf_tax_breakdown ::
  "clock \<Rightarrow> employee \<Rightarrow> date \<Rightarrow> rat \<Rightarrow> rat \<Rightarrow> rat \<Rightarrow> tax_regime option \<Rightarrow> rat option \<Rightarrow> rat option \<Rightarrow> hr_state
     \<Rightarrow> fnf_tax outcome" where
  "calculate_fnf_tax_breakdown ck e lwd gratuity leave_encashment other tax_regime existing_ytd_tds ytd_taxable st =
     (let fx = calculate_fnf_exemption_breakdown (ap_org st) e gratuity leave_encashment;
          fiscal_year = fiscal_year_for_period (yr lwd) (mo lwd);
          regime = (case tax_regime of Some r \<Rightarrow> r
                    | None \<Rightarrow> (case get_effective_compensation_assignment (pd_assignments (pay st)) (em_id e) lwd of
                                None \<Rightarrow> NEW | Some a \<Rightarrow> ca_tax_regime a))
      in then_do (from_res (if ytd_taxable = None \<or> existing_ytd_tds = None
                            then get_fnf_ytd_tax_context (pay st) (em_id e) lwd else Inr (0, 0)) st)
           (\<lambda>derived. \<lambda>st1.
         then_do (fnf_slab_set ck e fiscal_year regime st1) (\<lambda>found. \<lambda>d.
           give (fnf_tax_of (pd_investments (pay d)) e fiscal_year regime fx (quantize2 (quantize2 other))
                   (quantize2 (or_else ytd_taxable (fst derived))) (quantize2 (or_else existing_ytd_tds (snd derived))) found) d)))"

definition calculate_fnf_tds ::
  "clock \<Rightarrow> employee \<Rightarrow> date \<Rightarrow> rat \<Rightarrow> rat \<Rightarrow> rat \<Rightarrow> tax_regime option \<Rightarrow> rat option \<Rightarrow> rat option \<Rightarrow> hr_state
     \<Rightarrow> rat outcome" where
  "calculate_fnf_tds ck e lwd gratuity leave_encashment other tax_regime existing_ytd_tds ytd_taxable st =
     then_do (calculate_fnf_tax_breakdown ck e lwd gratuity leave_encashment other tax_regime existing_ytd_tds ytd_taxable st)
       (\<lambda>t. give (ft_fnf_tds t))"

section \<open>Leave\<close>

text \<open>The years of service are \<open>completed_service_years\<close> of \<open>Statutory\<close>.\<close>

definition encashable_units :: "leave_type \<Rightarrow> leave_balance \<Rightarrow> rat" where
  "encashable_units lt b =
     (let units = max 0 (quantize2 (lb_opening_balance b + lb_carried_forward_amount b + lb_credited_amount b
                                    - lb_used_amount b - lb_pending_amount b))
      in case lt_max_encashment_days_per_year lt of None \<Rightarrow> units | Some m \<Rightarrow> min units (quantize2 m))"

fun encashable_days_loop :: "clock \<Rightarrow> employee \<Rightarrow> date \<Rightarrow> leave_type list \<Rightarrow> rat \<Rightarrow> hr_state \<Rightarrow> rat outcome" where
  "encashable_days_loop ck e lwd [] days st = give days st"
| "encashable_days_loop ck e lwd (lt # lts) days st =
     then_do (atomically (get_or_create_leave_balance ck e lt (Some lwd) st) st)
       (\<lambda>b. encashable_days_loop ck e lwd lts (days + encashable_units lt b))"

definition encashable_leave_types :: "leave_plan option \<Rightarrow> leave_type list" where
  "encashable_leave_types plan =
     (case plan of None \<Rightarrow> []
      | Some p \<Rightarrow> sort_key lt_name (filter (\<lambda>lt. lt_is_active lt \<and> lt_allows_encashment lt) (lp_leave_types p)))"

section \<open>Totals\<close>

record fnf_totals =
  fo_prorated_salary :: rat
  fo_leave_encashment :: rat
  fo_gratuity :: rat
  fo_tds_deduction :: rat
  fo_gross_payable :: rat
  fo_net_payable :: rat

text \<open>An entry of the settlement; zero without a settlement.\<close>

definition entered :: "(full_and_final_settlement \<Rightarrow> rat) \<Rightarrow> full_and_final_settlement option \<Rightarrow> rat" where
  "entered f settlement = (case settlement of None \<Rightarrow> 0 | Some s \<Rightarrow> quantize2 (f s))"

definition net_of :: "full_and_final_settlement option \<Rightarrow> rat \<Rightarrow> rat \<Rightarrow> rat" where
  "net_of s gross tds =
     quantize2 (max 0 (gross - tds - entered ff_pf_deduction s - entered ff_loan_recovery s - entered ff_other_deductions s))"

definition fnf_leave_encashment :: "clock \<Rightarrow> employee \<Rightarrow> date \<Rightarrow> rat \<Rightarrow> hr_state \<Rightarrow> rat outcome" where
  "fnf_leave_encashment ck e lwd basic st =
     (if basic > 0
      then then_do (encashable_days_loop ck e lwd (encashable_leave_types (resolve_employee_leave_plan (timeoff st) e)) 0 st)
             (\<lambda>days. give (calculate_leave_encashment_amount days basic))
      else give 0 st)"

text \<open>
  The eligibility threshold is a setting (5 by default); the amount is computed with the default
  threshold and ceiling of \<open>calculate_gratuity_amount\<close>.
\<close>

definition fnf_gratuity :: "int \<Rightarrow> employee \<Rightarrow> date \<Rightarrow> rat \<Rightarrow> rat" where
  "fnf_gratuity eligibility_threshold e lwd basic =
     (let years = calculate_gratuity_service_years (em_date_of_joining e) (Some lwd)
      in if years \<ge> eligibility_threshold then calculate_gratuity_amount basic years 5 GRATUITY_STATUTORY_CEILING else 0)"

definition calculate_fnf_totals ::
  "clock \<Rightarrow> int \<Rightarrow> employee \<Rightarrow> date \<Rightarrow> full_and_final_settlement option \<Rightarrow> hr_state \<Rightarrow> fnf_totals outcome" where
  "calculate_fnf_totals ck eligibility_threshold e lwd s st =
     (let arrears = entered ff_arrears s; other_credits = entered ff_other_credits s
      in case get_effective_compensation_assignment (pd_assignments (pay st)) (em_id e) lwd of
           None \<Rightarrow>
             (let gross = quantize2 (arrears + other_credits); tds = entered ff_tds_deduction s
              in give \<lparr>fo_prorated_salary = 0, fo_leave_encashment = 0, fo_gratuity = 0, fo_tds_deduction = tds,
                       fo_gross_payable = gross, fo_net_payable = net_of s gross tds\<rparr> st)
         | Some a \<Rightarrow>
             (let (monthly, basic) = get_assignment_monthly_amounts a;
                  prorated = calculate_fnf_salary_proration monthly lwd (yr lwd) (mo lwd)
              in then_do (fnf_leave_encashment ck e lwd basic st) (\<lambda>encashment. \<lambda>d.
                 let gratuity = fnf_gratuity eligibility_threshold e lwd basic
                 in then_do (calculate_fnf_tds ck e lwd gratuity encashment (quantize2 (prorated + arrears + other_credits))
                               (Some (ca_tax_regime a)) None None d) (\<lambda>tds. \<lambda>d1.
                    let gross = quantize2 (prorated + encashment + gratuity + arrears + other_credits)
                    in give \<lparr>fo_prorated_salary = prorated, fo_leave_encashment = encashment, fo_gratuity = gratuity,
                             fo_tds_deduction = tds, fo_gross_payable = gross, fo_net_payable = net_of s gross tds\<rparr> d1))))"

section \<open>The settlement row\<close>

definition settlement_of :: "payroll_db \<Rightarrow> uid \<Rightarrow> full_and_final_settlement option" where
  "settlement_of db employee = first_row (\<lambda>s. ff_employee s = employee) (pd_settlements db)"

definition with_totals :: "fnf_totals \<Rightarrow> full_and_final_settlement \<Rightarrow> full_and_final_settlement" where
  "with_totals t s =
     s\<lparr>ff_prorated_salary := fo_prorated_salary t, ff_leave_encashment := fo_leave_encashment t,
       ff_gratuity := fo_gratuity t, ff_tds_deduction := fo_tds_deduction t,
       ff_gross_payable := fo_gross_payable t, ff_net_payable := fo_net_payable t\<rparr>"

definition new_settlement :: "uid \<Rightarrow> uid \<Rightarrow> date \<Rightarrow> uid option \<Rightarrow> fnf_totals \<Rightarrow> full_and_final_settlement" where
  "new_settlement i employee lwd offboarding t =
     with_totals t \<lparr>ff_id = i, ff_employee = employee, ff_offboarding_process = offboarding, ff_last_working_day = lwd,
       ff_status = FNF_DRAFT, ff_prorated_salary = 0, ff_leave_encashment = 0, ff_gratuity = 0, ff_arrears = 0,
       ff_other_credits = 0, ff_tds_deduction = 0, ff_pf_deduction = 0, ff_loan_recovery = 0,
       ff_other_deductions = 0, ff_gross_payable = 0, ff_net_payable = 0\<rparr>"

definition save_settlement :: "full_and_final_settlement \<Rightarrow> hr_state \<Rightarrow> hr_state" where
  "save_settlement s =
     update_pay (\<lambda>p. p\<lparr>pd_settlements := update_where (\<lambda>x. ff_id x = ff_id s) (\<lambda>_. s) (pd_settlements p)\<rparr>)"

text \<open>\<open>get_or_create\<close> on the employee, the second component tells which.\<close>

definition get_or_create_settlement ::
  "employee \<Rightarrow> date \<Rightarrow> uid option \<Rightarrow> fnf_totals \<Rightarrow> hr_state \<Rightarrow> hr_state \<times> full_and_final_settlement \<times> bool" where
  "get_or_create_settlement e lwd offboarding t st =
     (case settlement_of (pay st) (em_id e) of
        Some s \<Rightarrow> (st, s, False)
      | None \<Rightarrow>
          let s = new_settlement (ap_next_id st) (em_id e) lwd offboarding t
          in (update_pay (\<lambda>p. p\<lparr>pd_settlements := pd_settlements p @ [s]\<rparr>) (draw_id st), s, True))"

text \<open>
  The totals are computed first and, for a draft, again with the entries of the row; only changed
  fields are written, which leaves the same row as writing all of them.
\<close>

definition create_full_and_final_settlement ::
  "clock \<Rightarrow> int \<Rightarrow> employee \<Rightarrow> date \<Rightarrow> uid option \<Rightarrow> uid option \<Rightarrow> hr_state \<Rightarrow> full_and_final_settlement outcome" where
  "create_full_and_final_settlement ck eligibility_threshold e lwd initiated_by offboarding st0 =
     then_do (calculate_fnf_totals ck eligibility_threshold e lwd None st0) (\<lambda>t. \<lambda>st.
       let (d, s0, created) = get_or_create_settlement e lwd offboarding t st;
           s1 = s0\<lparr>ff_last_working_day := lwd,
                   ff_offboarding_process := (if offboarding \<noteq> None then offboarding else ff_offboarding_process s0)\<rparr>
       in then_do (if ff_status s1 = FNF_DRAFT
                   then then_do (calculate_fnf_totals ck eligibility_threshold e lwd (Some s1) d) (\<lambda>t2. give (with_totals t2 s1))
                   else give s1 d)
            (\<lambda>s. \<lambda>x. give s (audit initiated_by
               (if created then ''payroll.fnf.created'' else ''payroll.fnf.updated'') (em_id e) (save_settlement s x))))"

end
