(* ===== verification/SettlementProperties.thy ===== *)
theory SettlementProperties
  imports FinalSettlement PayExample
begin

text \<open>
  What a full and final settlement guarantees: its totals add up, what is exempt is never taxed, the
  year's tax is withheld, gratuity follows the Act's limits, and an employee has one settlement, whose
  amounts no longer change once it is not a draft.
\<close>

section \<open>An example\<close>

text \<open>Employee 10 leaves on 15 June 2025; the settlements are an argument.\<close>

definition leaver :: employee where
  "leaver = (example_employee 10 (Some 20))\<lparr>em_date_of_joining := Some (Date 2019 1 7)\<rparr>"

definition leaver_state :: "full_and_final_settlement list \<Rightarrow> hr_state" where
  "leaver_state ss = update_pay (\<lambda>p. p\<lparr>pd_settlements := ss\<rparr>) example_hr_start"

lemma leaver_simps:
  "pd_settlements (pay (leaver_state ss)) = ss" "pd_payslips (pay (leaver_state ss)) = []"
  "pd_assignments (pay (leaver_state ss)) = [example_assignment]" "timeoff (leaver_state ss) = empty_timeoff_db"
  "slab_sets (leaver_state ss) = [pay_slab_set]" "em_id leaver = 10" "em_organisation leaver = 1"
  by (simp_all add: leaver_state_def frame_simps example_hr_start_def example_hr_db_def example_payroll_db_def leaver_def
      example_employee_def)

lemma leaver_slab_set:
  "fnf_slab_set example_clock leaver ''2025-2026'' NEW (leaver_state ss) = (leaver_state ss, Inr (Some pay_slab_set))"
proof -
  have "get_active_tax_slab_set [pay_slab_set] ''2025-2026'' (Some 1) NEW (tax_category_for_fiscal_year leaver ''2025-2026'') = Some pay_slab_set"
    by code_simp
  then show ?thesis by (simp add: fnf_slab_set_def Let_def leaver_simps)
qed

lemma leaver_assignment:
  "get_effective_compensation_assignment [example_assignment] 10 (Date 2025 6 15) = Some example_assignment"
  by code_simp

lemma leaver_tax_defined:
  "\<exists>t. calculate_fnf_tax_breakdown example_clock leaver (Date 2025 6 15) g l other (Some NEW) None None (leaver_state ss) =
     (leaver_state ss, Inr t) \<and> ft_existing_ytd_tds t = 0"
proof -
  have fy: "fiscal_year_for_period 2025 6 = ''2025-2026''" by code_simp
  have bounds: "fiscal_year_bounds ''2025-2026'' = Inr (Date 2025 4 1, Date 2026 3 31)" by code_simp
  show ?thesis
    by (simp add: calculate_fnf_tax_breakdown_def Let_def fy get_fnf_ytd_tax_context_def bounds fnf_payslips_def
        leaver_simps leaver_slab_set fnf_tax_of_def split: prod.split)
qed

lemma leaver_totals_defined:
  "\<exists>t. calculate_fnf_totals example_clock 5 leaver (Date 2025 6 15) s (leaver_state ss) = (leaver_state ss, Inr t)"
proof -
  have plan: "resolve_employee_leave_plan empty_timeoff_db leaver = None" by code_simp
  have regime: "ca_tax_regime example_assignment = NEW" by (simp add: example_assignment_def)
  obtain monthly basic where mb: "get_assignment_monthly_amounts example_assignment = (monthly, basic)" by fastforce
  have leave: "\<exists>x. fnf_leave_encashment example_clock leaver (Date 2025 6 15) basic (leaver_state ss) = (leaver_state ss, Inr x)"
    by (simp add: fnf_leave_encashment_def leaver_simps plan encashable_leave_types_def)
  have tds: "\<exists>x. calculate_fnf_tds example_clock leaver (Date 2025 6 15) g l other (Some NEW) None None (leaver_state ss) =
      (leaver_state ss, Inr x)" for g l other
    using leaver_tax_defined [of g l other ss] by (auto simp: calculate_fnf_tds_def)
  from leave obtain x where x: "fnf_leave_encashment example_clock leaver (Date 2025 6 15) basic (leaver_state ss) = (leaver_state ss, Inr x)"
    by blast
  show ?thesis
    using tds by (simp add: calculate_fnf_totals_def Let_def leaver_simps leaver_assignment mb x regime then_do_Inr)
qed

section \<open>Exemptions and gratuity\<close>

lemma ceilings_money [simp]: "money GRATUITY_STATUTORY_CEILING" "money FNF_LEAVE_ENCASHMENT_EXEMPTION_CEILING"
  by (simp_all add: GRATUITY_STATUTORY_CEILING_def FNF_LEAVE_ENCASHMENT_EXEMPTION_CEILING_def)

lemma exempt_and_taxable:
  "fx_gratuity_taxable (calculate_fnf_exemption_breakdown db e g l) =
     quantize2 g - fx_gratuity_exemption (calculate_fnf_exemption_breakdown db e g l)"
  "fx_leave_encashment_taxable (calculate_fnf_exemption_breakdown db e g l) =
     quantize2 l - fx_leave_encashment_exemption (calculate_fnf_exemption_breakdown db e g l)"
  by (auto simp: calculate_fnf_exemption_breakdown_def Let_def max_def min_def)

lemma gratuity_bounds:
  "calculate_gratuity_amount basic years n GRATUITY_STATUTORY_CEILING \<le> GRATUITY_STATUTORY_CEILING"
  "money (calculate_gratuity_amount basic years n GRATUITY_STATUTORY_CEILING)"
  by (auto simp: calculate_gratuity_amount_def Let_def GRATUITY_STATUTORY_CEILING_def intro!: quant.rnd_le_fixed)

lemma fnf_gratuity_bounds: "fnf_gratuity n e lwd basic \<le> GRATUITY_STATUTORY_CEILING" "money (fnf_gratuity n e lwd basic)"
  using gratuity_bounds by (auto simp: fnf_gratuity_def Let_def GRATUITY_STATUTORY_CEILING_def)

text \<open>C39: Gratuity in a settlement. It never exceeds the statutory ceiling, so no part of it is ever
  taxed, for any employer; and the eligibility setting can only lengthen the service required: any
  threshold below five years gives what five years gives.\<close>

theorem settlement_gratuity_limits:
  "fnf_gratuity threshold e lwd basic \<le> GRATUITY_STATUTORY_CEILING \<and>
   fx_gratuity_taxable (calculate_fnf_exemption_breakdown db e (fnf_gratuity threshold e lwd basic) l) = 0 \<and>
   fnf_gratuity threshold e lwd basic = fnf_gratuity (max threshold 5) e lwd basic"
proof (intro conjI)
  show "fnf_gratuity threshold e lwd basic \<le> GRATUITY_STATUTORY_CEILING" by (rule fnf_gratuity_bounds)
  show "fx_gratuity_taxable (calculate_fnf_exemption_breakdown db e (fnf_gratuity threshold e lwd basic) l) = 0"
    using fnf_gratuity_bounds [of threshold e lwd basic]
    by (simp add: calculate_fnf_exemption_breakdown_def Let_def min_def)
  show "fnf_gratuity threshold e lwd basic = fnf_gratuity (max threshold 5) e lwd basic"
    by (auto simp: fnf_gratuity_def Let_def calculate_gratuity_amount_def)
qed

section \<open>Tax\<close>

lemma annual_tax_money [simp]: "money (tb_annual_tax (calculate_income_tax_with_rebate x s t p q))"
  by (simp add: calculate_income_tax_with_rebate_def Let_def apply_cess_def)

lemma tax_parts:
  assumes "calculate_fnf_tax_breakdown ck e lwd g l other regime tds income st = (d, Inr t)"
  shows "ft_exemptions t = calculate_fnf_exemption_breakdown (ap_org st) e g l"
    "ft_total_taxable_fnf t = quantize2 (fx_gratuity_taxable (ft_exemptions t) + fx_leave_encashment_taxable (ft_exemptions t)
       + quantize2 (quantize2 other))"
    "ft_annual_taxable_gross t = quantize2 (ft_ytd_taxable_income t + ft_total_taxable_fnf t)"
    "money (ft_ytd_taxable_income t)" "money (ft_existing_ytd_tds t)"
    "ft_annual_tax_total t = 0 \<and> ft_fnf_tds t = 0 \<or>
     money (ft_annual_tax_total t) \<and> ft_fnf_tds t = quantize2 (max 0 (ft_annual_tax_total t - ft_existing_ytd_tds t))"
proof -
  from assms obtain investments fy r a b found where t: "t = fnf_tax_of investments e fy r
      (calculate_fnf_exemption_breakdown (ap_org st) e g l) (quantize2 (quantize2 other)) (quantize2 a) (quantize2 b) found"
    unfolding calculate_fnf_tax_breakdown_def Let_def then_do_Inr by auto
  show "ft_exemptions t = calculate_fnf_exemption_breakdown (ap_org st) e g l"
    "ft_total_taxable_fnf t = quantize2 (fx_gratuity_taxable (ft_exemptions t) + fx_leave_encashment_taxable (ft_exemptions t)
       + quantize2 (quantize2 other))"
    "ft_annual_taxable_gross t = quantize2 (ft_ytd_taxable_income t + ft_total_taxable_fnf t)"
    "money (ft_ytd_taxable_income t)" "money (ft_existing_ytd_tds t)"
    unfolding t fnf_tax_of_def Let_def by (simp_all split: prod.split)
  show "ft_annual_tax_total t = 0 \<and> ft_fnf_tds t = 0 \<or>
     money (ft_annual_tax_total t) \<and> ft_fnf_tds t = quantize2 (max 0 (ft_annual_tax_total t - ft_existing_ytd_tds t))"
    unfolding t fnf_tax_of_def Let_def
    by (cases found) (simp_all add: no_breakdown_def fnf_annual_tax_def Let_def)
qed

text \<open>The fiscal year of a month, by the year of its April.\<close>

definition fiscal_start :: "int \<Rightarrow> int \<Rightarrow> int" where
  "fiscal_start y m = (if 4 \<le> m then y else y - 1)"

text \<open>The payslips of an employee's finalised runs in the fiscal year of a day, up to its month.\<close>

definition payslips_of_year :: "payroll_db \<Rightarrow> uid \<Rightarrow> date \<Rightarrow> payslip list" where
  "payslips_of_year db employee lwd =
     filter (\<lambda>p. py_employee p = employee \<and> run_is_finalized db (py_pay_run p) \<and>
       fiscal_start (py_period_year p) (py_period_month p) = fiscal_start (yr lwd) (mo lwd) \<and>
       12 * py_period_year p + py_period_month p \<le> 12 * yr lwd + mo lwd) (pd_payslips db)"

definition months_ok :: "payroll_db \<Rightarrow> bool" where
  "months_ok db \<longleftrightarrow> (\<forall>p \<in> set (pd_payslips db). 1 \<le> py_period_month p \<and> py_period_month p \<le> 12)"

lemma fnf_payslips_of_year:
  assumes "months_ok db" "1 \<le> mo lwd" "mo lwd \<le> 12"
  shows "fnf_payslips db i (Date (fiscal_start (yr lwd) (mo lwd)) 4 1) (Date (fiscal_start (yr lwd) (mo lwd) + 1) 3 31) lwd =
     payslips_of_year db i lwd"
proof -
  have same: "in_fiscal_months (Date f 4 1) (Date (f + 1) 3 31) y m \<longleftrightarrow> fiscal_start y m = f" for f y m
    by (auto simp: in_fiscal_months_def fiscal_start_def)
  have before: "y < yr lwd \<or> y = yr lwd \<and> m \<le> mo lwd \<longleftrightarrow> 12 * y + m \<le> 12 * yr lwd + mo lwd" if "1 \<le> m" "m \<le> 12" for y m
    using that assms(2,3) by auto
  show ?thesis
    unfolding fnf_payslips_def payslips_of_year_def
    using assms(1) by (intro filter_cong refl) (simp add: same before months_ok_def)
qed

text \<open>The tax of a year's income on a slab set; nothing without one.\<close>

definition years_tax :: "investment_declaration list \<Rightarrow> uid \<Rightarrow> rat \<Rightarrow> string \<Rightarrow> tax_regime \<Rightarrow> payroll_tax_slab_set option \<Rightarrow> rat" where
  "years_tax investments i gross fy regime found =
     (case found of None \<Rightarrow> 0 | Some slabs \<Rightarrow>
        tb_annual_tax (calculate_income_tax_with_rebate
          (calculate_taxable_income_with_investments investments i gross fy regime) slabs
          (surcharge_tiers_for_regime (tax_regime_value regime))
          (Some (fst (get_rebate_87a_params fy (tax_regime_value regime))))
          (Some (snd (get_rebate_87a_params fy (tax_regime_value regime))))))"

lemma slab_set_investments:
  assumes "fnf_slab_set ck e fy regime st = (d, Inr found)"
  shows "pd_investments (pay d) = pd_investments (pay st)"
proof -
  have "pd_investments (pay d') = pd_investments (pay st)" if "ensure_global_default_tax_master ck actor y st = Inr (d', x)" for d' actor y x
    using that by (auto simp: ensure_global_default_tax_master_def create_tax_slab_set_def Let_def update_slab_sets_def frame_simps
        audit_def split: option.splits if_splits)
  with assms show ?thesis
    by (auto simp: fnf_slab_set_def Let_def then_do_Inr atomically_def split: if_splits sum.splits prod.splits)
qed

text \<open>C21: The year's tax is withheld. The income taxed is that of the year's payslips of finalised runs up
  to the last working day's month, and the part of the settlement that is not exempt; the tax due is
  the tax of that income on the slab set in force, and the settlement withholds what is missing: with
  what the payslips show as withheld it comes to the year's tax, or stays at what was withheld already
  if that is more. Without a slab set nothing is due and nothing withheld. The months
  of payslips are months, the last working day is in the years 1001 to 9998, and what was withheld before
  is not negative.\<close>

theorem settlement_withholds_years_tax:
  assumes "calculate_fnf_tax_breakdown ck e lwd gratuity encashment other (Some regime) None None st = (d, Inr t)"
    and "0 \<le> ft_existing_ytd_tds t"
    and "months_ok (pay st)" "1001 \<le> yr lwd" "yr lwd \<le> 9998" "1 \<le> mo lwd" "mo lwd \<le> 12"
  shows "\<exists>found. fnf_slab_set ck e (fiscal_year_for_period (yr lwd) (mo lwd)) regime st = (d, Inr found) \<and>
    ft_ytd_taxable_income t =
      quantize2 (\<Sum>p\<leftarrow>payslips_of_year (pay st) (em_id e) lwd. sum_taxable_snapshot_earnings (py_snapshot p)) \<and>
    ft_existing_ytd_tds t =
      quantize2 (\<Sum>p\<leftarrow>payslips_of_year (pay st) (em_id e) lwd. quantize2 (ps_income_tax (py_snapshot p))) \<and>
    ft_annual_taxable_gross t = ft_ytd_taxable_income t + quantize2 other
      + (quantize2 gratuity - fx_gratuity_exemption (ft_exemptions t))
      + (quantize2 encashment - fx_leave_encashment_exemption (ft_exemptions t)) \<and>
    ft_exemptions t = calculate_fnf_exemption_breakdown (ap_org st) e gratuity encashment \<and>
    ft_annual_tax_total t = years_tax (pd_investments (pay st)) (em_id e) (ft_annual_taxable_gross t)
      (fiscal_year_for_period (yr lwd) (mo lwd)) regime found \<and>
    (if found = None then ft_fnf_tds t = 0
     else ft_existing_ytd_tds t + ft_fnf_tds t = max (ft_existing_ytd_tds t) (ft_annual_tax_total t))"
proof -
  let ?fy = "fiscal_year_for_period (yr lwd) (mo lwd)" and ?slips = "payslips_of_year (pay st) (em_id e) lwd"
  let ?fx = "calculate_fnf_exemption_breakdown (ap_org st) e gratuity encashment"
  have ytd: "get_fnf_ytd_tax_context (pay st) (em_id e) lwd =
      Inr (quantize2 (\<Sum>p\<leftarrow>?slips. sum_taxable_snapshot_earnings (py_snapshot p)),
           quantize2 (\<Sum>p\<leftarrow>?slips. quantize2 (ps_income_tax (py_snapshot p))))"
    using fiscal_years_of_period(2) [OF assms(4,5), of "mo lwd"] fnf_payslips_of_year [OF assms(3,6,7), of "em_id e"]
    by (simp add: get_fnf_ytd_tax_context_def fiscal_start_def Let_def)
  obtain found where found: "fnf_slab_set ck e ?fy regime st = (d, Inr found)"
    and t: "t = fnf_tax_of (pd_investments (pay st)) e ?fy regime ?fx (quantize2 (quantize2 other))
      (quantize2 (quantize2 (\<Sum>p\<leftarrow>?slips. sum_taxable_snapshot_earnings (py_snapshot p))))
      (quantize2 (quantize2 (\<Sum>p\<leftarrow>?slips. quantize2 (ps_income_tax (py_snapshot p))))) found"
    using assms(1) slab_set_investments
    by (auto simp: calculate_fnf_tax_breakdown_def Let_def ytd then_do_Inr)
  have fx: "money (fx_gratuity_exemption ?fx)" "money (fx_leave_encashment_exemption ?fx)"
    by (simp_all add: calculate_fnf_exemption_breakdown_def Let_def)
  have tax: "ft_annual_tax_total t = years_tax (pd_investments (pay st)) (em_id e) (ft_annual_taxable_gross t) ?fy regime found"
    unfolding t fnf_tax_of_def Let_def
    by (cases found) (simp_all add: no_breakdown_def fnf_annual_tax_def years_tax_def Let_def)
  have withheld: "if found = None then ft_fnf_tds t = 0
     else ft_existing_ytd_tds t + ft_fnf_tds t = max (ft_existing_ytd_tds t) (ft_annual_tax_total t)"
  proof (cases found)
    case None
    then show ?thesis by (simp add: t fnf_tax_of_def Let_def)
  next
    case (Some slabs)
    then have "ft_fnf_tds t = quantize2 (max 0 (ft_annual_tax_total t - ft_existing_ytd_tds t))"
      by (simp add: t fnf_tax_of_def Let_def fnf_annual_tax_def)
    with Some tax_parts(5,6) [OF assms(1)] assms(2) show ?thesis by (auto simp: max_def)
  qed
  show ?thesis
    using found tax withheld tax_parts(1-4) [OF assms(1)] fx
    by (intro exI [of _ found] conjI) (simp_all add: exempt_and_taxable t fnf_tax_of_def Let_def split: prod.split)
qed

theorem settlement_withholds_years_tax_witness:
  "\<exists>d t. calculate_fnf_tax_breakdown example_clock leaver (Date 2025 6 15) 2500000 300000 60000 (Some NEW) None None
      (leaver_state []) = (d, Inr t) \<and>
    ft_existing_ytd_tds t + ft_fnf_tds t = max (ft_existing_ytd_tds t) (ft_annual_tax_total t) \<and>
    ft_annual_tax_total t = years_tax (pd_investments (pay (leaver_state []))) 10 (ft_annual_taxable_gross t) ''2025-2026'' NEW
      (Some pay_slab_set)"
proof -
  obtain d t where t: "calculate_fnf_tax_breakdown example_clock leaver (Date 2025 6 15) 2500000 300000 60000 (Some NEW) None
      None (leaver_state []) = (d, Inr t)" "ft_existing_ytd_tds t = 0" using leaver_tax_defined by blast
  have fy: "fiscal_year_for_period 2025 6 = ''2025-2026''" by code_simp
  have "months_ok (pay (leaver_state []))" by (simp add: months_ok_def leaver_simps)
  from settlement_withholds_years_tax [OF t(1) _ this] t show ?thesis
    by (intro exI [of _ d] exI [of _ t]) (auto simp: fy leaver_slab_set leaver_simps)
qed

section \<open>Totals\<close>

lemma entered_money [simp]: "money (entered f s)"
  by (simp add: entered_def split: option.split)

lemma net_of_money: "money gross \<Longrightarrow> money tds \<Longrightarrow>
    net_of s gross tds = max 0 (gross - tds - entered ff_pf_deduction s - entered ff_loan_recovery s - entered ff_other_deductions s)"
  unfolding net_of_def by (rule quantize2_money) simp

lemma fnf_tds_money: "calculate_fnf_tds ck e lwd g l other regime tds income st = (d, Inr x) \<Longrightarrow> money x"
  unfolding calculate_fnf_tds_def then_do_Inr
  by (elim exE conjE) (drule tax_parts(6), auto)

lemma encashment_money: "fnf_leave_encashment ck e lwd basic st = (d, Inr x) \<Longrightarrow> money x"
  unfolding fnf_leave_encashment_def calculate_leave_encashment_amount_def Let_def
  by (auto simp: then_do_Inr split: if_splits)

text \<open>C29: The totals of a settlement add up. What is payable is the salary up to the last working
  day, the encashed leave, the gratuity, the arrears and the other credits; what is paid is that less
  tax, provident fund, loan recovery and other deductions, and never below zero.\<close>

theorem settlement_totals_add_up:
  assumes "calculate_fnf_totals ck threshold e lwd s st = (d, Inr t)"
  shows "fo_gross_payable t = fo_prorated_salary t + fo_leave_encashment t + fo_gratuity t
      + entered ff_arrears s + entered ff_other_credits s \<and>
    fo_net_payable t = max 0 (fo_gross_payable t - fo_tds_deduction t - entered ff_pf_deduction s
      - entered ff_loan_recovery s - entered ff_other_deductions s)"
proof (cases "get_effective_compensation_assignment (pd_assignments (pay st)) (em_id e) lwd")
  case None
  with assms show ?thesis by (auto simp: calculate_fnf_totals_def Let_def net_of_money)
next
  case (Some a)
  obtain monthly basic where mb: "get_assignment_monthly_amounts a = (monthly, basic)" by fastforce
  have prorated: "money (calculate_fnf_salary_proration monthly lwd (yr lwd) (mo lwd))"
    by (simp add: calculate_fnf_salary_proration_def Let_def)
  from assms Some mb show ?thesis
    unfolding calculate_fnf_totals_def Let_def
    by (auto simp: then_do_Inr prorated encashment_money fnf_tds_money fnf_gratuity_bounds net_of_money)
qed

theorem settlement_totals_add_up_witness:
  "\<exists>d t. calculate_fnf_totals example_clock 5 leaver (Date 2025 6 15) None (leaver_state []) = (d, Inr t) \<and>
    fo_gross_payable t = fo_prorated_salary t + fo_leave_encashment t + fo_gratuity t"
proof -
  obtain d t where t: "calculate_fnf_totals example_clock 5 leaver (Date 2025 6 15) None (leaver_state []) = (d, Inr t)"
    using leaver_totals_defined by blast
  from settlement_totals_add_up [OF t] t show ?thesis
    by (intro exI [of _ d] exI [of _ t]) (simp add: entered_def)
qed

section \<open>The row\<close>

text \<open>Computing the totals touches balances and tax masters, never a settlement.\<close>

definition same_settlements :: "hr_state \<Rightarrow> hr_state \<Rightarrow> bool" where
  "same_settlements st d \<longleftrightarrow> pd_settlements (pay d) = pd_settlements (pay st) \<and> ap_next_id st \<le> ap_next_id d"

lemma same_settlements_refl [simp]: "same_settlements st st"
  by (simp add: same_settlements_def)

lemma same_balance:
  assumes "get_or_create_leave_balance ck e lt as_of st = Inr (d, b)"
  shows "same_settlements st d"
proof -
  have row: "pay x = pay st \<and> ap_next_id st \<le> ap_next_id x" if "get_or_create_balance_row i j s t st = (x, y, c)" for i j s t x y c
    using that by (auto simp: get_or_create_balance_row_def Let_def frame_simps split: option.splits)
  obtain s t where w: "bind_res (cycle_of_type (timeoff st) (lt_id lt)) (\<lambda>cycle. get_cycle_window cycle e (or_else as_of (ck_today ck))) = Inr (s, t)"
    using assms by (auto simp: get_or_create_leave_balance_def split del: if_split)
  obtain x y c where xyc: "get_or_create_balance_row (em_id e) (lt_id lt) s t st = (x, y, c)" by (metis prod_cases3)
  from assms w row [OF xyc] show ?thesis
    by (auto simp: get_or_create_leave_balance_def xyc update_balance_def add_ledger_def Let_def same_settlements_def frame_simps)
qed

lemma same_master: "ensure_global_default_tax_master ck actor fy st = Inr (d, x) \<Longrightarrow> same_settlements st d"
  by (auto simp: ensure_global_default_tax_master_def create_tax_slab_set_def Let_def same_settlements_def
      update_slab_sets_def frame_simps audit_def split: option.splits if_splits)

lemma same_then_do:
  assumes "same_settlements st (fst x)" "\<And>a d. x = (d, Inr a) \<Longrightarrow> same_settlements d (fst (f a d))"
  shows "same_settlements st (fst (then_do x f))"
  using assms by (cases x; cases "snd x") (auto simp: same_settlements_def)

lemma same_atomically: "(\<And>d a. r = Inr (d, a) \<Longrightarrow> same_settlements st d) \<Longrightarrow> same_settlements st (fst (atomically r st))"
  by (cases r) auto

lemma same_loop: "same_settlements st (fst (encashable_days_loop ck e lwd lts days st))"
  by (induction lts arbitrary: days st) (auto intro!: same_then_do same_atomically dest: same_balance)

lemma same_tax: "same_settlements st (fst (calculate_fnf_tds ck e lwd g l other regime tds income st))"
  unfolding calculate_fnf_tds_def calculate_fnf_tax_breakdown_def fnf_slab_set_def Let_def
  by (auto intro!: same_then_do same_atomically dest: same_master split: prod.splits option.splits)

lemma same_totals: "same_settlements st (fst (calculate_fnf_totals ck threshold e lwd s st))"
  unfolding calculate_fnf_totals_def fnf_leave_encashment_def Let_def
  by (auto intro!: same_then_do same_loop same_tax split: prod.splits option.splits)


definition settlements_ok :: "hr_state \<Rightarrow> bool" where
  "settlements_ok st \<longleftrightarrow>
     distinct (map ff_employee (pd_settlements (pay st))) \<and> distinct (map ff_id (pd_settlements (pay st))) \<and>
     (\<forall>s \<in> set (pd_settlements (pay st)). ff_id s < ap_next_id st)"

lemma settlements_ok_same: "settlements_ok st \<Longrightarrow> same_settlements st d \<Longrightarrow> settlements_ok d"
  by (auto simp: settlements_ok_def same_settlements_def)

lemma settlement_of_mem: "settlement_of db i = Some s \<Longrightarrow> s \<in> set (pd_settlements db) \<and> ff_employee s = i"
  by (auto simp: settlement_of_def dest: first_row_SomeD)

lemma with_totals_simps [simp]:
  "ff_id (with_totals t s) = ff_id s" "ff_employee (with_totals t s) = ff_employee s"
  "ff_last_working_day (with_totals t s) = ff_last_working_day s" "ff_status (with_totals t s) = ff_status s"
  "ff_id (new_settlement i j l o1 t) = i" "ff_employee (new_settlement i j l o1 t) = j"
  "ff_status (new_settlement i j l o1 t) = FNF_DRAFT"
  by (simp_all add: with_totals_def new_settlement_def)

lemma get_or_create_settlement_ok:
  assumes "settlements_ok st" "get_or_create_settlement e lwd o1 t st = (d, s, c)"
  shows "settlements_ok d \<and> s \<in> set (pd_settlements (pay d)) \<and> ff_employee s = em_id e"
proof (cases "settlement_of (pay st) (em_id e)")
  case None
  then have fresh: "em_id e \<notin> ff_employee ` set (pd_settlements (pay st))"
    by (auto simp: settlement_of_def first_row_None_iff)
  have "ap_next_id st \<notin> ff_id ` set (pd_settlements (pay st))"
    using assms(1) by (auto simp: settlements_ok_def)
  with assms None fresh show ?thesis
    by (auto simp: get_or_create_settlement_def settlements_ok_def Let_def frame_simps less_SucI)
next
  case (Some x)
  with assms settlement_of_mem [OF Some] show ?thesis by (simp add: get_or_create_settlement_def)
qed

lemma first_row_updated:
  assumes "distinct (map k xs)" "s \<in> set xs" "ff_id s' = ff_id s" "k s' = k s" "distinct (map ff_id xs)"
  shows "first_row (\<lambda>x. k x = k s) (update_where (\<lambda>x. ff_id x = ff_id s') (\<lambda>_. s') xs) = Some s'"
    "map k (update_where (\<lambda>x. ff_id x = ff_id s') (\<lambda>_. s') xs) = map k xs"
proof -
  have same: "ff_id x = ff_id s \<longleftrightarrow> x = s" "k x = k s \<longleftrightarrow> x = s" if "x \<in> set xs" for x
    using assms that by (meson distinct_map inj_onD)+
  show "first_row (\<lambda>x. k x = k s) (update_where (\<lambda>x. ff_id x = ff_id s') (\<lambda>_. s') xs) = Some s'"
    using assms(2-4) same by (induction xs) (auto simp del: split_paired_All)
  show "map k (update_where (\<lambda>x. ff_id x = ff_id s') (\<lambda>_. s') xs) = map k xs"
    using assms(3,4) same by (auto simp: update_where_def)
qed

lemma save_settlement_ok:
  assumes "settlements_ok st" "s \<in> set (pd_settlements (pay st))" "ff_id s' = ff_id s" "ff_employee s' = ff_employee s"
  shows "settlements_ok (save_settlement s' st)" "settlement_of (pay (save_settlement s' st)) (ff_employee s) = Some s'"
proof -
  let ?xs = "update_where (\<lambda>x. ff_id x = ff_id s') (\<lambda>_. s') (pd_settlements (pay st))"
  from assms have d: "distinct (map ff_employee (pd_settlements (pay st)))" "distinct (map ff_id (pd_settlements (pay st)))"
    by (simp_all add: settlements_ok_def)
  note u = first_row_updated [OF d(1) assms(2-4) d(2)] first_row_updated [OF d(2) assms(2,3,3) d(2)]
  show "settlement_of (pay (save_settlement s' st)) (ff_employee s) = Some s'"
    using u(1) by (simp add: settlement_of_def save_settlement_def frame_simps)
  have "\<forall>x \<in> set ?xs. ff_id x < ap_next_id st"
    using assms(1-3) by (auto simp: settlements_ok_def set_update_where)
  with d u(2,4) show "settlements_ok (save_settlement s' st)"
    by (simp add: settlements_ok_def save_settlement_def frame_simps)
qed

lemma audit_settlements [simp]: "settlements_ok (audit a ev t st) = settlements_ok st" "pay (audit a ev t st) = pay st"
  by (simp_all add: settlements_ok_def audit_def)

text \<open>C40: One settlement per employee. Whether the function returns or raises half way, employees keep
  at most one settlement each; when it returns, the employee's row is the one returned, with the last
  working day asked for.\<close>

theorem one_settlement_per_employee:
  assumes "settlements_ok st"
    and "create_full_and_final_settlement ck threshold e lwd by_user offboarding st = (d, r)"
  shows "settlements_ok d \<and>
    (case r of Inl _ \<Rightarrow> True | Inr s \<Rightarrow> settlement_of (pay d) (em_id e) = Some s \<and> ff_last_working_day s = lwd)"
  using assms(2) unfolding create_full_and_final_settlement_def Let_def
proof (cases rule: then_do_cases)
  case (raised err)
  with same_totals [of st ck threshold e lwd None] show ?thesis
    using settlements_ok_same [OF assms(1)] by simp
next
  case (ran st1 t)
  have ok1: "settlements_ok st1"
    using same_totals [of st ck threshold e lwd None] ran(1) settlements_ok_same [OF assms(1)] by simp
  obtain d0 s0 c where g: "get_or_create_settlement e lwd offboarding t st1 = (d0, s0, c)" by (metis prod_cases3)
  let ?s1 = "s0\<lparr>ff_last_working_day := lwd,
    ff_offboarding_process := (if offboarding \<noteq> None then offboarding else ff_offboarding_process s0)\<rparr>"
  note ok0 = get_or_create_settlement_ok [OF ok1 g]
  from ran(2) g have body: "then_do (if ff_status ?s1 = FNF_DRAFT
        then then_do (calculate_fnf_totals ck threshold e lwd (Some ?s1) d0) (\<lambda>t2. give (with_totals t2 ?s1))
        else give ?s1 d0)
      (\<lambda>s x. give s (audit by_user (if c then ''payroll.fnf.created'' else ''payroll.fnf.updated'') (em_id e) (save_settlement s x))) = (d, r)"
    by simp
  have inner: "same_settlements d0 (fst (if ff_status ?s1 = FNF_DRAFT
        then then_do (calculate_fnf_totals ck threshold e lwd (Some ?s1) d0) (\<lambda>t2. give (with_totals t2 ?s1))
        else give ?s1 d0))"
    by (auto intro!: same_then_do same_totals)
  from body show ?thesis
  proof (cases rule: then_do_cases)
    case (raised err)
    with inner ok0 settlements_ok_same [of d0 d] show ?thesis by simp
  next
    case (ran x s)
    have s: "ff_id s = ff_id s0" "ff_employee s = ff_employee s0" "ff_last_working_day s = lwd"
      using ran(1) by (auto simp: then_do_Inr split: if_splits)
    have x: "settlements_ok x" "s0 \<in> set (pd_settlements (pay x))"
      using ran(1) inner ok0 settlements_ok_same [of d0 x] by (auto simp: same_settlements_def)
    from save_settlement_ok [OF x s(1,2)] ran(2) s(3) ok0 show ?thesis by auto
  qed
qed

text \<open>A settlement of the leaver with another last working day, as a draft or paid.\<close>

definition earlier_settlement :: "fnf_status \<Rightarrow> full_and_final_settlement" where
  "earlier_settlement status =
     \<lparr>ff_id = 45, ff_employee = 10, ff_offboarding_process = None, ff_last_working_day = Date 2025 6 10,
      ff_status = status, ff_prorated_salary = 30000, ff_leave_encashment = 0, ff_gratuity = 0, ff_arrears = 0,
      ff_other_credits = 0, ff_tds_deduction = 0, ff_pf_deduction = 0, ff_loan_recovery = 0, ff_other_deductions = 0,
      ff_gross_payable = 30000, ff_net_payable = 30000\<rparr>"

lemma give_after: "\<exists>a. x = (st, Inr a) \<Longrightarrow> \<exists>d b. then_do x (\<lambda>b d. give b (g b d)) = (d, Inr b)"
  by auto

lemma leaver_created:
  "\<exists>d s. create_full_and_final_settlement example_clock 5 leaver (Date 2025 6 15) None offboarding
     (leaver_state [earlier_settlement status]) = (d, Inr s)"
proof -
  let ?st = "leaver_state [earlier_settlement status]"
  have found: "settlement_of (pay ?st) 10 = Some (earlier_settlement status)"
    by (simp add: settlement_of_def leaver_simps earlier_settlement_def)
  have totals: "\<exists>t. calculate_fnf_totals example_clock 5 leaver (Date 2025 6 15) s ?st = (?st, Inr t)" for s
    by (rule leaver_totals_defined)
  then obtain t where t: "calculate_fnf_totals example_clock 5 leaver (Date 2025 6 15) None ?st = (?st, Inr t)" by blast
  have inner: "\<exists>s. (if c then then_do (calculate_fnf_totals example_clock 5 leaver (Date 2025 6 15) (Some s1) ?st)
      (\<lambda>t2. give (with_totals t2 s1)) else give s1 ?st) = (?st, Inr s)" for c s1
    using totals [of "Some s1"] by auto
  show ?thesis
    unfolding create_full_and_final_settlement_def t outcome_simps(2) get_or_create_settlement_def leaver_simps found Let_def
      option.case prod.case
    by (rule give_after) (rule inner)
qed

theorem one_settlement_per_employee_witness:
  "\<exists>d s. create_full_and_final_settlement example_clock 5 leaver (Date 2025 6 15) None None
      (leaver_state [earlier_settlement FNF_DRAFT]) = (d, Inr s) \<and>
    settlements_ok d \<and> settlement_of (pay d) 10 = Some s \<and> ff_last_working_day s = Date 2025 6 15"
proof -
  obtain d s where c: "create_full_and_final_settlement example_clock 5 leaver (Date 2025 6 15) None None
    (leaver_state [earlier_settlement FNF_DRAFT]) = (d, Inr s)" using leaver_created by blast
  have "settlements_ok (leaver_state [earlier_settlement FNF_DRAFT])"
    by (simp add: settlements_ok_def leaver_simps earlier_settlement_def) (simp add: leaver_state_def frame_simps example_hr_start_def)
  from one_settlement_per_employee [OF this c] c show ?thesis
    by (intro exI [of _ d] exI [of _ s]) (simp add: leaver_simps)
qed

text \<open>C25: A settlement that is no longer a draft is not recalculated. Creating it again changes the
  last working day (and the offboarding process, when one is given) and nothing else: every amount and
  the status stay what they were, on this and on every other employee's row.\<close>

theorem settlement_frozen_outside_draft:
  assumes "settlement_of (pay st) (em_id e) = Some s" "ff_status s \<noteq> FNF_DRAFT"
    and "create_full_and_final_settlement ck threshold e lwd by_user offboarding st = (d, Inr s')"
  shows "s' = s\<lparr>ff_last_working_day := lwd,
      ff_offboarding_process := (if offboarding = None then ff_offboarding_process s else offboarding)\<rparr> \<and>
    pd_settlements (pay d) = map (\<lambda>x. if ff_id x = ff_id s then s' else x) (pd_settlements (pay st))"
proof -
  from assms(3) obtain t st1 where t: "calculate_fnf_totals ck threshold e lwd None st = (st1, Inr t)"
    unfolding create_full_and_final_settlement_def then_do_Inr by blast
  have same: "pd_settlements (pay st1) = pd_settlements (pay st)"
    using same_totals [of st ck threshold e lwd None] t by (simp add: same_settlements_def)
  then have "settlement_of (pay st1) (em_id e) = Some s"
    using assms(1) by (simp add: settlement_of_def)
  with assms(2,3) t same show ?thesis
    by (auto simp: create_full_and_final_settlement_def get_or_create_settlement_def save_settlement_def frame_simps
        update_where_def Let_def)
qed

theorem settlement_frozen_outside_draft_witness:
  "\<exists>d s. create_full_and_final_settlement example_clock 5 leaver (Date 2025 6 15) None (Some 60)
      (leaver_state [earlier_settlement FNF_PAID]) = (d, Inr s) \<and>
    s = (earlier_settlement FNF_PAID)\<lparr>ff_last_working_day := Date 2025 6 15, ff_offboarding_process := Some 60\<rparr>"
proof -
  obtain d s where c: "create_full_and_final_settlement example_clock 5 leaver (Date 2025 6 15) None (Some 60)
    (leaver_state [earlier_settlement FNF_PAID]) = (d, Inr s)" using leaver_created by blast
  have "settlement_of (pay (leaver_state [earlier_settlement FNF_PAID])) (em_id leaver) = Some (earlier_settlement FNF_PAID)"
    "ff_status (earlier_settlement FNF_PAID) \<noteq> FNF_DRAFT"
    by (simp_all add: settlement_of_def leaver_simps earlier_settlement_def)
  from settlement_frozen_outside_draft [OF this c] c show ?thesis by (intro exI [of _ d] exI [of _ s]) simp
qed

end
