(* ===== verification/ReportingLines.thy ===== *)
theory ReportingLines
  imports OrgModels
begin

text \<open>
  Reporting lines (\<open>employees/services.py\<close>): the team below a manager, the organisation chart and the
  search for reporting cycles. A foreign key to a manager is an id; the algorithms work on lists of
  employees with distinct ids. What each computes is stated on the relation \<open>manager of\<close>: the team is
  its transitive closure, the chart its trees, and the reported cycles are its cycles. Python's recursion
  limit is not modelled: on lines of managers deeper than it the program raises in the chart and in the
  search for cycles.
\<close>

section \<open>The team\<close>

text \<open>\<open>order_by('user__first_name', 'user__last_name', 'employee_code')\<close>; the names come from the users.\<close>

definition in_name_order :: "(uid \<Rightarrow> string \<times> string) \<Rightarrow> employee list \<Rightarrow> employee list" where
  "in_name_order names =
     sort_key (\<lambda>e. (fst (names (em_user e)), snd (names (em_user e)), em_employee_code e = None,
                    or_else (em_employee_code e) []))"

definition team_rows :: "org_db \<Rightarrow> employee \<Rightarrow> bool \<Rightarrow> employee list" where
  "team_rows db boss include_inactive =
     filter (\<lambda>e. em_organisation e = em_organisation boss \<and> (include_inactive \<or> em_status e = ES_ACTIVE)) (employee_objects db)"

text \<open>\<open>children_map.get(manager_id, [])\<close>.\<close>

definition reports_of :: "employee list \<Rightarrow> uid \<Rightarrow> employee list" where
  "reports_of rows i = filter (\<lambda>e. em_reporting_to e = Some i) rows"

text \<open>The inner loop over the reports of one manager: seen, team and queue grow together.\<close>

fun take_reports :: "employee list \<Rightarrow> uid list \<times> employee list \<times> uid list \<Rightarrow> uid list \<times> employee list \<times> uid list" where
  "take_reports [] (seen, team, queue) = (seen, team, queue)"
| "take_reports (r # rs) (seen, team, queue) =
     (if em_id r \<in> set seen then take_reports rs (seen, team, queue)
      else take_reports rs (em_id r # seen, team @ [r], queue @ [em_id r]))"

definition unseen :: "employee list \<Rightarrow> uid list \<Rightarrow> nat" where
  "unseen rows seen = card (em_id ` set rows - set seen)"

lemma unseen_insert:
  assumes "i \<in> em_id ` set rows" "i \<notin> set seen"
  shows "unseen rows seen = Suc (unseen rows (i # seen))"
proof -
  have "em_id ` set rows - set (i # seen) = (em_id ` set rows - set seen) - {i}" by auto
  moreover have "Suc (card ((em_id ` set rows - set seen) - {i})) = card (em_id ` set rows - set seen)"
    using assms by (intro card_Suc_Diff1) auto
  ultimately show ?thesis unfolding unseen_def by (simp only:)
qed

lemma take_reports_measure:
  assumes "take_reports rs (seen, team, queue) = (seen', team', queue')" "set rs \<subseteq> set rows"
  shows "2 * unseen rows seen' + length queue' \<le> 2 * unseen rows seen + length queue"
  using assms
proof (induction rs arbitrary: seen team queue)
  case (Cons r rs)
  from Cons.prems(2) have r: "em_id r \<in> em_id ` set rows" "set rs \<subseteq> set rows" by auto
  show ?case
  proof (cases "em_id r \<in> set seen")
    case True
    with Cons r show ?thesis by simp
  next
    case False
    with Cons.prems(1) have "take_reports rs (em_id r # seen, team @ [r], queue @ [em_id r]) = (seen', team', queue')"
      by simp
    from Cons.IH [OF this r(2)] show ?thesis
      unfolding unseen_insert [OF r(1) False] by simp
  qed
qed simp

function team_loop :: "employee list \<Rightarrow> uid list \<Rightarrow> uid list \<Rightarrow> employee list \<Rightarrow> employee list" where
  "team_loop rows [] seen team = team"
| "team_loop rows (i # queue) seen team =
     (case take_reports (reports_of rows i) (seen, team, queue) of
        (seen', team', queue') \<Rightarrow> team_loop rows queue' seen' team')"
  by pat_completeness auto

termination
proof (relation "measure (\<lambda>(rows, queue, seen, team). 2 * unseen rows seen + length queue)", goal_cases)
  case (2 rows i queue seen team seen' rest team' queue')
  then have t: "take_reports (reports_of rows i) (seen, team, queue) = (seen', team', queue')" by simp
  have "set (reports_of rows i) \<subseteq> set rows" by (simp add: reports_of_def)
  from take_reports_measure [OF t this] show ?case by simp
qed simp

definition get_reporting_team ::
  "org_db \<Rightarrow> (uid \<Rightarrow> string \<times> string) \<Rightarrow> employee \<Rightarrow> bool \<Rightarrow> bool \<Rightarrow> employee list" where
  "get_reporting_team db names boss include_inactive include_indirect =
     (let rows = team_rows db boss include_inactive
      in if \<not> include_indirect then in_name_order names (reports_of rows (em_id boss))
         else team_loop (in_name_order names rows) [em_id boss] [] [])"

definition get_employee_direct_reports ::
  "org_db \<Rightarrow> (uid \<Rightarrow> string \<times> string) \<Rightarrow> employee \<Rightarrow> bool \<Rightarrow> employee list" where
  "get_employee_direct_reports db names boss include_inactive = get_reporting_team db names boss include_inactive False"

section \<open>Cycles\<close>

text \<open>\<open>path.index(emp_id)\<close> and what follows it, closed with the employee.\<close>

definition cycle_from :: "uid list \<Rightarrow> uid \<Rightarrow> uid list" where
  "cycle_from path i = dropWhile (\<lambda>x. x \<noteq> i) path @ [i]"

record cycle_search =
  cs_visited :: "uid list"
  cs_stack :: "uid list"
  cs_cycles :: "uid list list"

definition object_manager :: "employee list \<Rightarrow> uid \<Rightarrow> uid option" where
  "object_manager objects i =
     (case first_row (\<lambda>e. em_id e = i) objects of None \<Rightarrow> None | Some e \<Rightarrow> em_reporting_to e)"

lemma object_manager_mem: "object_manager objects i = Some m \<Longrightarrow> i \<in> em_id ` set objects"
  by (auto simp: object_manager_def dest: first_row_SomeD split: option.splits)

text \<open>
  One call of \<open>dfs\<close>. The recursion ends because a call that goes on has marked an employee as visited
  that was not.
\<close>

function dfs :: "employee list \<Rightarrow> uid \<Rightarrow> uid list \<Rightarrow> cycle_search \<Rightarrow> cycle_search" where
  "dfs objects i path s =
     (if i \<in> set (cs_stack s) then s\<lparr>cs_cycles := cs_cycles s @ [cycle_from path i]\<rparr>
      else if i \<in> set (cs_visited s) then s
      else
        let s1 = s\<lparr>cs_visited := i # cs_visited s, cs_stack := i # cs_stack s\<rparr>;
            s2 = (case object_manager objects i of None \<Rightarrow> s1 | Some m \<Rightarrow> dfs objects m (path @ [i]) s1)
        in s2\<lparr>cs_stack := filter (\<lambda>x. x \<noteq> i) (cs_stack s2)\<rparr>)"
  by pat_completeness auto

termination
proof (relation "measure (\<lambda>(objects, i, path, s). unseen objects (cs_visited s))", goal_cases)
  case (2 objects i path s s1 m)
  from unseen_insert [OF object_manager_mem [OF 2(4)] 2(2)] 2(3) show ?case by simp
qed simp

declare dfs.simps [simp del]

definition validate_org_chart_cycles :: "org_db \<Rightarrow> uid \<Rightarrow> uid list list" where
  "validate_org_chart_cycles db org =
     cs_cycles (fold (\<lambda>e s. if em_id e \<in> set (cs_visited s) then s else dfs (employee_objects db) (em_id e) [] s)
       (filter (\<lambda>e. em_organisation e = org \<and> em_reporting_to e \<noteq> None) (employee_objects db))
       \<lparr>cs_visited = [], cs_stack = [], cs_cycles = []\<rparr>)"

section \<open>The chart\<close>

datatype org_node = Org_node (on_employee: employee) (on_direct_reports: "org_node list")

definition chart_rows :: "org_db \<Rightarrow> uid \<Rightarrow> bool \<Rightarrow> employee list" where
  "chart_rows db org include_inactive =
     filter (\<lambda>e. em_organisation e = org \<and> (include_inactive \<or> em_status e \<in> {ES_ACTIVE, ES_INVITED, ES_PENDING}))
       (employee_objects db)"

definition is_root :: "employee list \<Rightarrow> employee \<Rightarrow> bool" where
  "is_root rows e = (case em_reporting_to e of None \<Rightarrow> True | Some m \<Rightarrow> m \<notin> em_id ` set rows)"

definition by_full_name :: "employee list \<Rightarrow> employee list" where
  "by_full_name = sort_key em_full_name"

text \<open>
  The recursion of \<open>build_node\<close>, with its depth as fuel. A node carries the employee, whose columns are
  the other keys of the dictionary; \<open>designation_ref\<close> is a foreign key no code can fill, so the
  designation is the text.
\<close>

fun map_option_list :: "('a \<Rightarrow> 'b option) \<Rightarrow> 'a list \<Rightarrow> 'b list option" where
  "map_option_list f [] = Some []"
| "map_option_list f (x # xs) = Option.bind (f x) (\<lambda>y. map_option ((#) y) (map_option_list f xs))"

lemma map_option_list_cong [fundef_cong]:
  "xs = ys \<Longrightarrow> (\<And>x. x \<in> set ys \<Longrightarrow> f x = g x) \<Longrightarrow> map_option_list f xs = map_option_list g ys"
  by (induction xs arbitrary: ys) auto

fun build_node :: "nat \<Rightarrow> employee list \<Rightarrow> employee \<Rightarrow> org_node option" where
  "build_node 0 rows e = None"
| "build_node (Suc n) rows e =
     map_option (Org_node e) (map_option_list (build_node n rows) (by_full_name (reports_of rows (em_id e))))"

definition get_org_chart_tree :: "org_db \<Rightarrow> uid \<Rightarrow> bool \<Rightarrow> org_node list option" where
  "get_org_chart_tree db org include_inactive =
     (let rows = chart_rows db org include_inactive
      in map_option_list (build_node (length rows) rows) (by_full_name (filter (is_root rows) rows)))"


section \<open>Lemmas: the team\<close>

text \<open>One step down a reporting line, between ids.\<close>

definition report_line :: "employee list \<Rightarrow> (uid \<times> uid) set" where
  "report_line rows = {(m, i). \<exists>r \<in> set rows. em_reporting_to r = Some m \<and> em_id r = i}"

lemma report_line_iff: "(m, i) \<in> report_line rows \<longleftrightarrow> (\<exists>r \<in> set (reports_of rows m). em_id r = i)"
  by (auto simp: report_line_def reports_of_def)

lemma take_reports_spec:
  assumes "take_reports rs (seen, team, queue) = (seen', team', queue')" "set seen = em_id ` set team"
    and "distinct (map em_id team)"
  obtains new where "team' = team @ new" "queue' = queue @ map em_id new" "set seen' = em_id ` set team'"
    "distinct (map em_id team')" "set new \<subseteq> set rs" "em_id ` set rs \<subseteq> set seen'"
proof -
  have "\<exists>new. team' = team @ new \<and> queue' = queue @ map em_id new \<and> set seen' = em_id ` set team' \<and>
    distinct (map em_id team') \<and> set new \<subseteq> set rs \<and> em_id ` set rs \<subseteq> set seen'"
    using assms
  proof (induction rs arbitrary: seen team queue)
    case (Cons r rs)
    show ?case
    proof (cases "em_id r \<in> set seen")
      case True
      with Cons.prems have "take_reports rs (seen, team, queue) = (seen', team', queue')" by simp
      from Cons.IH [OF this Cons.prems(2,3)] obtain new where new: "team' = team @ new" "queue' = queue @ map em_id new"
        "set seen' = em_id ` set team'" "distinct (map em_id team')" "set new \<subseteq> set rs" "em_id ` set rs \<subseteq> set seen'" by blast
      moreover have "em_id r \<in> set seen'" using True Cons.prems(2) new(1,3) by auto
      ultimately show ?thesis by auto
    next
      case False
      with Cons.prems have t: "take_reports rs (em_id r # seen, team @ [r], queue @ [em_id r]) = (seen', team', queue')" by simp
      have "set (em_id r # seen) = em_id ` set (team @ [r])" "distinct (map em_id (team @ [r]))"
        using False Cons.prems(2,3) by auto
      from Cons.IH [OF t this] obtain new where new: "team' = team @ [r] @ new" "queue' = queue @ [em_id r] @ map em_id new"
        "set seen' = em_id ` set team'" "distinct (map em_id team')" "set new \<subseteq> set rs" "em_id ` set rs \<subseteq> set seen'" by auto
      then show ?thesis by (intro exI [of _ "r # new"]) auto
    qed
  qed auto
  with that show ?thesis by blast
qed

text \<open>What the loop keeps: the team is seen, below the manager, and complete outside the queue.\<close>

definition team_inv :: "employee list \<Rightarrow> uid \<Rightarrow> uid list \<Rightarrow> uid list \<Rightarrow> employee list \<Rightarrow> bool" where
  "team_inv rows b queue seen team \<longleftrightarrow>
     set seen = em_id ` set team \<and> distinct (map em_id team) \<and> set team \<subseteq> set rows \<and>
     (\<forall>i \<in> set queue. (b, i) \<in> (report_line rows)\<^sup>*) \<and> (\<forall>r \<in> set team. (b, em_id r) \<in> (report_line rows)\<^sup>+) \<and>
     (\<forall>m \<in> insert b (set seen) - set queue. em_id ` set (reports_of rows m) \<subseteq> set seen)"

lemma team_inv_step:
  assumes "team_inv rows b (i # queue) seen team"
    and "take_reports (reports_of rows i) (seen, team, queue) = (seen', team', queue')"
  shows "team_inv rows b queue' seen' team'"
proof -
  from assms(1) have inv: "set seen = em_id ` set team" "distinct (map em_id team)" by (simp_all add: team_inv_def)
  from take_reports_spec [OF assms(2) inv] obtain new where new: "team' = team @ new" "queue' = queue @ map em_id new"
    "set seen' = em_id ` set team'" "distinct (map em_id team')" "set new \<subseteq> set (reports_of rows i)"
    "em_id ` set (reports_of rows i) \<subseteq> set seen'" by blast
  have i: "(b, i) \<in> (report_line rows)\<^sup>*" using assms(1) by (simp add: team_inv_def)
  have below: "(b, em_id r) \<in> (report_line rows)\<^sup>+" if "r \<in> set new" for r
    using that new(5) i by (intro rtrancl_into_trancl1) (auto simp: report_line_iff)
  note old = assms(1) [unfolded team_inv_def]
  have grown: "set seen \<subseteq> set seen'" "set new \<subseteq> set rows" using inv(1) new(1,3,5) by (auto simp: reports_of_def)
  show ?thesis
    unfolding team_inv_def
  proof (intro conjI ballI)
    show "set team' \<subseteq> set rows" using old grown(2) new(1) by simp
    show "(b, j) \<in> (report_line rows)\<^sup>*" if "j \<in> set queue'" for j
      using that old below new(2) by (auto dest: trancl_into_rtrancl)
    show "(b, em_id r) \<in> (report_line rows)\<^sup>+" if "r \<in> set team'" for r
      using that old below new(1) by auto
    show "em_id ` set (reports_of rows m) \<subseteq> set seen'" if "m \<in> insert b (set seen') - set queue'" for m
    proof (cases "m = i")
      case True
      with new(6) show ?thesis by simp
    next
      case False
      with that have "m \<in> insert b (set seen) - set (i # queue)" using new(1,2,3) inv(1) by auto
      with old have "em_id ` set (reports_of rows m) \<subseteq> set seen" by blast
      with grown(1) show ?thesis by simp
    qed
  qed (use new in simp_all)
qed

lemma team_loop_spec:
  assumes "team_inv rows b queue seen team"
  shows "\<exists>s. team_inv rows b [] s (team_loop rows queue seen team)"
  using assms
proof (induction rows queue seen team rule: team_loop.induct)
  case (2 rows i queue seen team)
  obtain seen' team' queue' where t: "take_reports (reports_of rows i) (seen, team, queue) = (seen', team', queue')"
    by (metis prod_cases3)
  from 2(1) [OF t [symmetric] refl team_inv_step [OF 2(2) t]] show ?case by (simp add: t)
qed auto

lemma team_inv_done:
  assumes "team_inv rows b [] s team"
  shows "distinct (map em_id team) \<and> em_id ` set team = {i. (b, i) \<in> (report_line rows)\<^sup>+}"
proof -
  note inv = assms [unfolded team_inv_def]
  have closed: "i \<in> set s" if "m \<in> insert b (set s)" "(m, i) \<in> report_line rows" for m i
  proof -
    from that(2) obtain r where "r \<in> set (reports_of rows m)" "em_id r = i" by (auto simp: report_line_iff)
    moreover have "\<forall>m \<in> insert b (set s) - set []. em_id ` set (reports_of rows m) \<subseteq> set s" using inv by blast
    then have "em_id ` set (reports_of rows m) \<subseteq> set s" using that(1) by (elim ballE) auto
    ultimately show ?thesis by blast
  qed
  have "i \<in> set s" if "(b, i) \<in> (report_line rows)\<^sup>+" for i
    using that by (induction rule: trancl_induct) (blast intro: closed)+
  with inv show ?thesis by auto
qed

lemma in_name_order_set [simp]: "set (in_name_order names rows) = set rows"
  by (simp add: in_name_order_def)

lemma report_line_cong: "set rows = set rows' \<Longrightarrow> report_line rows = report_line rows'"
  by (simp add: report_line_def)

section \<open>Lemmas: cycles\<close>

text \<open>From an employee to the manager; a relation in which everyone has at most one successor.\<close>

definition manager_line :: "employee list \<Rightarrow> (uid \<times> uid) set" where
  "manager_line objects = {(i, m). object_manager objects i = Some m}"

definition linked :: "employee list \<Rightarrow> uid list \<Rightarrow> bool" where
  "linked objects = successively (\<lambda>i m. object_manager objects i = Some m)"

definition manager_cycle :: "employee list \<Rightarrow> uid list \<Rightarrow> bool" where
  "manager_cycle objects c \<longleftrightarrow> 2 \<le> length c \<and> hd c = last c \<and> linked objects c"

lemma manager_line_iff [simp]: "(i, m) \<in> manager_line objects \<longleftrightarrow> object_manager objects i = Some m"
  by (simp add: manager_line_def)

lemma linked_reach:
  "linked objects xs \<Longrightarrow> x \<in> set xs \<Longrightarrow> (x, last xs) \<in> (manager_line objects)\<^sup>*"
proof (induction xs arbitrary: x rule: induct_list012)
  case (3 y z ys)
  then have l: "(y, z) \<in> manager_line objects" "linked objects (z # ys)" by (simp_all add: linked_def)
  show ?case
  proof (cases "x = y")
    case True
    have "(z, last (z # ys)) \<in> (manager_line objects)\<^sup>*" using 3(2) l(2) by simp_all
    with l(1) True show ?thesis by (auto intro: converse_rtrancl_into_rtrancl)
  next
    case False
    then have "x \<in> set (z # ys)" using 3(4) by simp
    with 3(2) l(2) show ?thesis by simp
  qed
qed simp_all

text \<open>On a cycle one comes back from wherever one goes.\<close>

lemma cycle_return:
  assumes "(x, y) \<in> (manager_line objects)\<^sup>*" "(x, x) \<in> (manager_line objects)\<^sup>+"
  shows "(y, x) \<in> (manager_line objects)\<^sup>*"
  using assms(1)
proof (induction rule: rtrancl_induct)
  case (step y z)
  from step.IH assms(2) have "(y, x) \<in> (manager_line objects)\<^sup>+" by (meson rtrancl_trancl_trancl)
  then obtain w where "(y, w) \<in> manager_line objects" "(w, x) \<in> (manager_line objects)\<^sup>*" by (meson tranclD)
  with step.hyps(2) show ?case by simp
qed simp

lemma cycle_closed:
  assumes "manager_cycle objects c" "x \<in> set c" "(x, y) \<in> (manager_line objects)\<^sup>*"
  shows "y \<in> set c"
  using assms(3)
proof (induction rule: rtrancl_induct)
  case (step y z)
  have "\<exists>k. Suc k < length c \<and> c ! k = y"
  proof -
    from step.IH obtain k where k: "k < length c" "c ! k = y" by (auto simp: in_set_conv_nth)
    show ?thesis
    proof (cases "Suc k = length c")
      case True
      moreover have "c \<noteq> []" "2 \<le> length c" "hd c = last c" using assms(1) by (auto simp: manager_cycle_def)
      ultimately have "c ! 0 = y" using k by (metis diff_Suc_1 hd_conv_nth last_conv_nth)
      with \<open>2 \<le> length c\<close> show ?thesis by (intro exI [of _ 0]) simp
    next
      case False
      with k show ?thesis by (intro exI [of _ k]) simp
    qed
  qed
  then obtain k where k: "Suc k < length c" "c ! k = y" by blast
  with assms(1) have "object_manager objects y = Some (c ! Suc k)"
    by (auto simp: manager_cycle_def linked_def successively_conv_nth)
  with step.hyps(2) nth_mem [OF k(1)] show ?case by simp
qed (use assms(2) in simp)

text \<open>The end of a walk: where it leads after its last employee.\<close>

definition walk_target :: "employee list \<Rightarrow> uid \<Rightarrow> uid list \<Rightarrow> uid option" where
  "walk_target objects i w = (if w = [] then Some i else object_manager objects (last w))"

definition walked :: "employee list \<Rightarrow> uid \<Rightarrow> uid list \<Rightarrow> cycle_search \<Rightarrow> uid list \<Rightarrow> cycle_search \<Rightarrow> bool" where
  "walked objects i path s w s' \<longleftrightarrow>
     set (cs_visited s') = set (cs_visited s) \<union> set w \<and> set (cs_stack s') = set path \<and>
     linked objects (path @ w) \<and> distinct (path @ w) \<and> set w \<inter> set (cs_visited s) = {} \<and> (w \<noteq> [] \<longrightarrow> hd w = i) \<and>
     (case walk_target objects i w of
        None \<Rightarrow> cs_cycles s' = cs_cycles s
      | Some t \<Rightarrow> if t \<in> set (path @ w) then cs_cycles s' = cs_cycles s @ [cycle_from (path @ w) t]
                  else t \<in> set (cs_visited s) \<and> cs_cycles s' = cs_cycles s)"

lemma dfs_walk:
  assumes "set (cs_stack s) = set path" "set path \<subseteq> set (cs_visited s)" "distinct path"
    and "linked objects path" "path \<noteq> [] \<Longrightarrow> object_manager objects (last path) = Some i"
  shows "\<exists>w. walked objects i path s w (dfs objects i path s)"
  using assms
proof (induction objects i path s rule: dfs.induct)
  case (1 objects i path s)
  show ?case
  proof (cases "i \<in> set (cs_visited s)")
    case True
    then have "walked objects i path s [] (dfs objects i path s)"
      using 1 by (subst dfs.simps) (auto simp: walked_def walk_target_def)
    then show ?thesis by blast
  next
    case new: False
    then have off: "i \<notin> set path" "i \<notin> set (cs_stack s)" using 1 by auto
    let ?s1 = "s\<lparr>cs_visited := i # cs_visited s, cs_stack := i # cs_stack s\<rparr>"
    have link: "linked objects (path @ [i])"
      using 1(5,6) by (cases "path = []") (auto simp: linked_def successively_append_iff)
    show ?thesis
    proof (cases "object_manager objects i")
      case None
      have "walked objects i path s [i] (dfs objects i path s)"
        using None new off link 1(2-5) by (subst dfs.simps) (auto simp: walked_def walk_target_def)
      then show ?thesis by blast
    next
      case (Some m)
      define s2 where "s2 = dfs objects m (path @ [i]) ?s1"
      have "\<exists>w. walked objects m (path @ [i]) ?s1 w s2"
        using 1(1) [OF off(2) new refl Some] 1(2-4) off link Some unfolding s2_def by auto
      then obtain w where w: "walked objects m (path @ [i]) ?s1 w s2" by blast
      have d: "dfs objects i path s = s2\<lparr>cs_stack := filter (\<lambda>x. x \<noteq> i) (cs_stack s2)\<rparr>"
        using new off Some unfolding s2_def by (subst dfs.simps) (simp add: Let_def)
      have target: "walk_target objects i (i # w) = walk_target objects m w"
        using Some by (simp add: walk_target_def)
      have sets: "set (path @ i # w) = insert i (set path \<union> set w)" "path @ i # w = (path @ [i]) @ w" by auto
      have "walked objects i path s (i # w) (dfs objects i path s)"
        unfolding walked_def d target
      proof (intro conjI)
        show "case walk_target objects m w of
            None \<Rightarrow> cs_cycles (s2\<lparr>cs_stack := filter (\<lambda>x. x \<noteq> i) (cs_stack s2)\<rparr>) = cs_cycles s
          | Some t \<Rightarrow> if t \<in> set (path @ i # w)
              then cs_cycles (s2\<lparr>cs_stack := filter (\<lambda>x. x \<noteq> i) (cs_stack s2)\<rparr>) = cs_cycles s @ [cycle_from (path @ i # w) t]
              else t \<in> set (cs_visited s) \<and> cs_cycles (s2\<lparr>cs_stack := filter (\<lambda>x. x \<noteq> i) (cs_stack s2)\<rparr>) = cs_cycles s"
        proof (cases "walk_target objects m w")
          case None
          with w show ?thesis by (simp add: walked_def)
        next
          case (Some t)
          from w have "case walk_target objects m w of None \<Rightarrow> cs_cycles s2 = cs_cycles ?s1
            | Some t \<Rightarrow> if t \<in> set ((path @ [i]) @ w) then cs_cycles s2 = cs_cycles ?s1 @ [cycle_from ((path @ [i]) @ w) t]
                else t \<in> set (cs_visited ?s1) \<and> cs_cycles s2 = cs_cycles ?s1"
            unfolding walked_def by blast
          then have c: "if t \<in> set (path @ i # w) then cs_cycles s2 = cs_cycles s @ [cycle_from (path @ i # w) t]
              else t \<in> insert i (set (cs_visited s)) \<and> cs_cycles s2 = cs_cycles s"
            unfolding Some option.case sets(2) by (auto split: if_splits)
          show ?thesis
            using c unfolding Some option.case by (cases "t \<in> set (path @ i # w)") (auto split: if_splits)
        qed
      qed (use w off new in \<open>auto simp: walked_def\<close>)
      then show ?thesis by blast
    qed
  qed
qed

text \<open>What the search keeps between its starts.\<close>

definition search_inv :: "employee list \<Rightarrow> cycle_search \<Rightarrow> bool" where
  "search_inv objects s \<longleftrightarrow>
     cs_stack s = [] \<and> (\<forall>x \<in> set (cs_visited s). \<forall>y. object_manager objects x = Some y \<longrightarrow> y \<in> set (cs_visited s)) \<and>
     (\<forall>c \<in> set (cs_cycles s). manager_cycle objects c) \<and>
     (\<forall>x \<in> set (cs_visited s). (x, x) \<in> (manager_line objects)\<^sup>+ \<longrightarrow> (\<exists>c \<in> set (cs_cycles s). x \<in> set c))"

lemma search_invI:
  assumes "cs_stack s = []"
    and "\<And>x y. x \<in> set (cs_visited s) \<Longrightarrow> object_manager objects x = Some y \<Longrightarrow> y \<in> set (cs_visited s)"
    and "\<And>c. c \<in> set (cs_cycles s) \<Longrightarrow> manager_cycle objects c"
    and "\<And>x. x \<in> set (cs_visited s) \<Longrightarrow> (x, x) \<in> (manager_line objects)\<^sup>+ \<Longrightarrow> \<exists>c \<in> set (cs_cycles s). x \<in> set c"
  shows "search_inv objects s"
  using assms by (simp add: search_inv_def)

lemma search_invD:
  assumes "search_inv objects s"
  shows "x \<in> set (cs_visited s) \<Longrightarrow> object_manager objects x = Some y \<Longrightarrow> y \<in> set (cs_visited s)"
    and "c \<in> set (cs_cycles s) \<Longrightarrow> manager_cycle objects c"
    and "x \<in> set (cs_visited s) \<Longrightarrow> (x, x) \<in> (manager_line objects)\<^sup>+ \<Longrightarrow> \<exists>c \<in> set (cs_cycles s). x \<in> set c"
  using assms by (auto simp: search_inv_def)

lemma visited_closed:
  assumes "search_inv objects s" "x \<in> set (cs_visited s)" "(x, y) \<in> (manager_line objects)\<^sup>*"
  shows "y \<in> set (cs_visited s)"
  using assms(3,2)
proof (induction rule: converse_rtrancl_induct)
  case (step a b)
  with assms(1) show ?case by (auto simp: search_inv_def)
qed simp

lemma cycle_from_split:
  assumes "t \<in> set w"
  obtains a b where "w = a @ t # b" "t \<notin> set a" "cycle_from w t = t # b @ [t]"
proof -
  from split_list_first [OF assms] obtain a b where w: "w = a @ t # b" "t \<notin> set a" by blast
  have "dropWhile (\<lambda>x. x \<noteq> t) (a @ t # b) = t # b" using w(2) by (induction a) auto
  then show ?thesis using that w by (simp add: cycle_from_def)
qed

lemma cycle_from_cycle:
  assumes "linked objects w" "t \<in> set w" "object_manager objects (last w) = Some t"
  shows "manager_cycle objects (cycle_from w t)"
proof -
  from cycle_from_split [OF assms(2)] obtain a b where w: "w = a @ t # b" "cycle_from w t = t # b @ [t]" by metis
  with assms(1,3) have "linked objects ((t # b) @ [t])"
    by (simp only: linked_def successively_append_iff) simp
  with w(2) show ?thesis by (simp add: manager_cycle_def)
qed

lemma walk_inv:
  assumes inv: "search_inv objects s" and w: "walked objects i [] s w s'" and stack: "cs_stack s' = []" and "w \<noteq> []"
  shows "search_inv objects s'"
proof -
  note walked = w [unfolded walked_def append_Nil]
  have target: "walk_target objects i w = object_manager objects (last w)" using assms(4) by (simp add: walk_target_def)
  have link: "linked objects w" and new: "set w \<inter> set (cs_visited s) = {}"
    and visited: "set (cs_visited s') = set (cs_visited s) \<union> set w" using walked by blast+
  have next_in: "y \<in> set w \<or> x = last w" if "x \<in> set w" "object_manager objects x = Some y" for x y
  proof -
    from that(1) obtain k where k: "k < length w" "w ! k = x" by (auto simp: in_set_conv_nth)
    show ?thesis
    proof (cases "Suc k < length w")
      case True
      with link have "object_manager objects (w ! k) = Some (w ! Suc k)"
        by (auto simp: linked_def successively_conv_nth)
      with that(2) k True show ?thesis using nth_mem [OF True] by simp
    next
      case False
      then have "k = length w - 1" using k by simp
      with k assms(4) show ?thesis by (simp add: last_conv_nth)
    qed
  qed
  have visited_step: "y \<in> set (cs_visited s')"
    if "\<And>z. object_manager objects (last w) = Some z \<Longrightarrow> z \<in> set (cs_visited s')"
      "x \<in> set (cs_visited s')" "object_manager objects x = Some y" for x y
  proof (cases "x \<in> set w")
    case True
    from next_in [OF True that(3)] show ?thesis
    proof
      assume "x = last w"
      with that(1,3) show ?thesis by simp
    qed (simp add: visited)
  next
    case False
    with that(2) visited have "x \<in> set (cs_visited s)" by simp
    from search_invD(1) [OF inv this that(3)] show ?thesis by (simp add: visited)
  qed
  have to_last: "(x, last w) \<in> (manager_line objects)\<^sup>*" if "x \<in> set w" for x using linked_reach [OF link that] .
  show ?thesis
  proof (cases "object_manager objects (last w)")
    case None
    have no_cycle: "(x, x) \<notin> (manager_line objects)\<^sup>+" if "x \<in> set w" for x
    proof
      assume "(x, x) \<in> (manager_line objects)\<^sup>+"
      with cycle_return [OF to_last [OF that]] have "(last w, x) \<in> (manager_line objects)\<^sup>+"
        by (meson rtrancl_trancl_trancl)
      with None show False by (auto dest: tranclD)
    qed
    have t: "cs_cycles s' = cs_cycles s" using walked None unfolding target by simp
    have closed: "y \<in> set (cs_visited s')" if "x \<in> set (cs_visited s')" "object_manager objects x = Some y" for x y
      by (rule visited_step [OF _ that]) (simp add: None)
    have complete: "\<exists>d \<in> set (cs_cycles s'). x \<in> set d" if "x \<in> set (cs_visited s')" "(x, x) \<in> (manager_line objects)\<^sup>+" for x
      using that visited no_cycle [of x] t search_invD(3) [OF inv, of x] by auto
    have sound: "manager_cycle objects d" if "d \<in> set (cs_cycles s')" for d
      using that t search_invD(2) [OF inv, of d] by auto
    from stack closed sound complete show ?thesis by (rule search_invI)
  next
    case (Some t)
    then have last_t: "(last w, t) \<in> manager_line objects" by simp
    show ?thesis
    proof (cases "t \<in> set w")
      case True
      have cyc: "cs_cycles s' = cs_cycles s @ [cycle_from w t]" using walked True unfolding target Some by simp
      have c: "manager_cycle objects (cycle_from w t)" by (rule cycle_from_cycle [OF link True Some])
      have in_c: "x \<in> set (cycle_from w t)" if "x \<in> set w" "(x, x) \<in> (manager_line objects)\<^sup>+" for x
      proof -
        have "(x, t) \<in> (manager_line objects)\<^sup>*" by (rule rtrancl_into_rtrancl [OF to_last [OF that(1)] last_t])
        from cycle_return [OF this that(2)] show ?thesis
          by (rule cycle_closed [OF c, rotated]) (simp add: cycle_from_def)
      qed
      have closed: "y \<in> set (cs_visited s')" if "x \<in> set (cs_visited s')" "object_manager objects x = Some y" for x y
        by (rule visited_step [OF _ that]) (use Some True visited in simp)
      have complete: "\<exists>d \<in> set (cs_cycles s'). x \<in> set d" if "x \<in> set (cs_visited s')" "(x, x) \<in> (manager_line objects)\<^sup>+" for x
        using that visited in_c [of x] cyc search_invD(3) [OF inv, of x] by auto
      have sound: "manager_cycle objects d" if "d \<in> set (cs_cycles s')" for d
        using that cyc c search_invD(2) [OF inv, of d] by auto
      from stack closed sound complete show ?thesis by (rule search_invI)
    next
      case False
      have t: "t \<in> set (cs_visited s)" "cs_cycles s' = cs_cycles s" using walked False unfolding target Some by simp_all
      have no_cycle: "(x, x) \<notin> (manager_line objects)\<^sup>+" if "x \<in> set w" for x
      proof
        assume x: "(x, x) \<in> (manager_line objects)\<^sup>+"
        have "(x, t) \<in> (manager_line objects)\<^sup>*" by (rule rtrancl_into_rtrancl [OF to_last [OF that] last_t])
        from visited_closed [OF inv t(1) cycle_return [OF this x]] new that show False by blast
      qed
      have closed: "y \<in> set (cs_visited s')" if "x \<in> set (cs_visited s')" "object_manager objects x = Some y" for x y
        by (rule visited_step [OF _ that]) (use Some t(1) visited in simp)
      have complete: "\<exists>d \<in> set (cs_cycles s'). x \<in> set d" if "x \<in> set (cs_visited s')" "(x, x) \<in> (manager_line objects)\<^sup>+" for x
        using that visited no_cycle [of x] t(2) search_invD(3) [OF inv, of x] by auto
      have sound: "manager_cycle objects d" if "d \<in> set (cs_cycles s')" for d
        using that t(2) search_invD(2) [OF inv, of d] by auto
      from stack closed sound complete show ?thesis by (rule search_invI)
    qed
  qed
qed

text \<open>One start of the search.\<close>

definition search_from :: "employee list \<Rightarrow> uid \<Rightarrow> cycle_search \<Rightarrow> cycle_search" where
  "search_from objects i s = (if i \<in> set (cs_visited s) then s else dfs objects i [] s)"

lemma search_from_inv:
  assumes "search_inv objects s"
  shows "search_inv objects (search_from objects i s) \<and> i \<in> set (cs_visited (search_from objects i s)) \<and>
    set (cs_visited s) \<subseteq> set (cs_visited (search_from objects i s))"
proof (cases "i \<in> set (cs_visited s)")
  case True
  with assms show ?thesis by (simp add: search_from_def)
next
  case False
  have "\<exists>w. walked objects i [] s w (dfs objects i [] s)"
    using assms by (intro dfs_walk) (simp_all add: search_inv_def linked_def)
  then obtain w where w: "walked objects i [] s w (dfs objects i [] s)" by blast
  have "w \<noteq> []"
    using w False by (auto simp: walked_def walk_target_def)
  moreover from this w have "i \<in> set w" by (auto simp: walked_def)
  moreover have "cs_stack (dfs objects i [] s) = []" using w by (simp add: walked_def)
  ultimately show ?thesis
    using walk_inv [OF assms w] w False by (auto simp: search_from_def walked_def)
qed

lemma search_all_inv:
  assumes "search_inv objects s"
  shows "search_inv objects (fold (\<lambda>e. search_from objects (em_id e)) es s) \<and>
    em_id ` set es \<subseteq> set (cs_visited (fold (\<lambda>e. search_from objects (em_id e)) es s)) \<and>
    set (cs_visited s) \<subseteq> set (cs_visited (fold (\<lambda>e. search_from objects (em_id e)) es s))"
  using assms
proof (induction es arbitrary: s)
  case (Cons e es)
  from search_from_inv [OF Cons.prems, of "em_id e"] Cons.IH [of "search_from objects (em_id e) s"]
  show ?case by auto
qed simp

end
