(* ===== verification/ReportingProperties.thy ===== *)
theory ReportingProperties
  imports ReportingLines Delegation
begin

text \<open>
  What the reporting-line functions compute: the team is everyone reachable through reports, the
  reported cycles are cycles and no cycle is missed, and the chart shows exactly the employees whose
  line of managers ends.
\<close>

section \<open>An example\<close>

text \<open>Employees 1, 2 and 3 report to each other in a circle, 4 reports to 1, and 5 stands alone.\<close>

definition circle_db :: org_db where
  "circle_db = \<lparr>od_organisations = [], od_employees = [example_employee 1 (Some 2), example_employee 2 (Some 3),
     example_employee 3 (Some 1), example_employee 4 (Some 1), example_employee 5 None],
     od_licence_batches = [], od_role_assignments = []\<rparr>"

section \<open>The team\<close>

text \<open>C28: The team of a manager. With indirect reports, the team has each employee once and is exactly
  the set of employees (active ones, unless asked otherwise) that a chain of reports within the
  organisation leads to. The search ends, whatever the reporting lines are; a manager is in the own
  team exactly when the chain leads back.\<close>

theorem reporting_team_is_closure:
  "distinct (map em_id (get_reporting_team db names boss include_inactive True)) \<and>
   em_id ` set (get_reporting_team db names boss include_inactive True) =
     {i. (em_id boss, i) \<in> (report_line (team_rows db boss include_inactive))\<^sup>+}"
proof -
  let ?rows = "in_name_order names (team_rows db boss include_inactive)"
  have "team_inv ?rows (em_id boss) [em_id boss] [] []" by (simp add: team_inv_def)
  from team_loop_spec [OF this] obtain s where "team_inv ?rows (em_id boss) [] s (team_loop ?rows [em_id boss] [] [])" by blast
  from team_inv_done [OF this] show ?thesis
    by (simp add: get_reporting_team_def Let_def report_line_cong [OF in_name_order_set])
qed

section \<open>Cycles\<close>

text \<open>C9: The search for reporting cycles. Every cycle it reports is one: each employee in it reports to
  the next and the last is the first. And it misses none: every employee of the organisation whose
  line of managers leads back to the employee is in a reported cycle. The search ends because each
  call that goes on visits a new employee.\<close>

theorem cycle_search_sound_and_complete:
  assumes "distinct (map em_id (od_employees db))"
  shows "list_all (manager_cycle (employee_objects db)) (validate_org_chart_cycles db org) \<and>
    {em_id e |e. e \<in> set (employee_objects db) \<and> em_organisation e = org \<and>
       (em_id e, em_id e) \<in> (manager_line (employee_objects db))\<^sup>+} \<subseteq> \<Union> (set ` set (validate_org_chart_cycles db org))"
proof -
  let ?objects = "employee_objects db"
  let ?es = "filter (\<lambda>e. em_organisation e = org \<and> em_reporting_to e \<noteq> None) ?objects"
  let ?s = "fold (\<lambda>e. search_from ?objects (em_id e)) ?es \<lparr>cs_visited = [], cs_stack = [], cs_cycles = []\<rparr>"
  have cycles: "validate_org_chart_cycles db org = cs_cycles ?s"
    unfolding validate_org_chart_cycles_def search_from_def [abs_def] by (rule refl)
  have "search_inv ?objects \<lparr>cs_visited = [], cs_stack = [], cs_cycles = []\<rparr>" by (simp add: search_inv_def)
  from search_all_inv [OF this, of ?es] have inv: "search_inv ?objects ?s" and visited: "em_id ` set ?es \<subseteq> set (cs_visited ?s)" by blast+
  have "\<exists>c \<in> set (cs_cycles ?s). em_id e \<in> set c"
    if e: "e \<in> set ?objects" "em_organisation e = org" "(em_id e, em_id e) \<in> (manager_line ?objects)\<^sup>+" for e
  proof -
    from e(3) obtain m where "object_manager ?objects (em_id e) = Some m" by (auto dest: tranclD)
    then obtain x where x: "x \<in> set ?objects" "em_id x = em_id e" "em_reporting_to x = Some m"
      by (auto simp: object_manager_def dest: first_row_SomeD split: option.splits)
    with e(1) assms have "x = e" by (auto simp: employee_objects_def distinct_map dest: inj_onD)
    with x e have "em_id e \<in> em_id ` set ?es" by auto
    with visited search_invD(3) [OF inv] e(3) show ?thesis by blast
  qed
  then show ?thesis
    using search_invD(2) [OF inv] unfolding cycles by (auto simp: list_all_iff)
qed

theorem cycle_search_sound_and_complete_witness:
  "list_all (manager_cycle (employee_objects circle_db)) (validate_org_chart_cycles circle_db 1) \<and>
   2 \<in> \<Union> (set ` set (validate_org_chart_cycles circle_db 1))"
proof -
  have ids: "distinct (map em_id (od_employees circle_db))" by code_simp
  have line: "(1, 2) \<in> manager_line (employee_objects circle_db)" "(2, 3) \<in> manager_line (employee_objects circle_db)"
    "(3, 1) \<in> manager_line (employee_objects circle_db)"
    unfolding manager_line_iff by code_simp+
  then have "(2, 2) \<in> (manager_line (employee_objects circle_db))\<^sup>+"
    by (meson r_into_trancl trancl_trans)
  then have "(em_id (example_employee 2 (Some 3)), em_id (example_employee 2 (Some 3))) \<in> (manager_line (employee_objects circle_db))\<^sup>+"
    by (simp add: example_employee_def)
  moreover have "example_employee 2 (Some 3) \<in> set (employee_objects circle_db)" "em_organisation (example_employee 2 (Some 3)) = 1"
    by (simp_all add: circle_db_def employee_objects_def example_employee_def)
  moreover have "em_id (example_employee 2 (Some 3)) = 2" by (simp add: example_employee_def)
  ultimately show ?thesis
    using cycle_search_sound_and_complete [OF ids, of 1] by (smt (verit) mem_Collect_eq subsetD)
qed

section \<open>The chart\<close>

fun node_employees :: "org_node \<Rightarrow> employee list" where
  "node_employees (Org_node e ns) = e # concat (map node_employees ns)"

lemma map_option_list_all2: "map_option_list f xs = Some ys \<longleftrightarrow> list_all2 (\<lambda>x y. f x = Some y) xs ys"
  by (induction xs arbitrary: ys) (auto simp: list_all2_Cons1 split: Option.bind_splits)

lemma list_all2_left: "list_all2 P xs ys \<Longrightarrow> x \<in> set xs \<Longrightarrow> (\<And>y. y \<in> set ys \<Longrightarrow> P x y \<Longrightarrow> thesis) \<Longrightarrow> thesis"
  by (induction xs ys rule: list_all2_induct) auto

lemma list_all2_right: "list_all2 P xs ys \<Longrightarrow> y \<in> set ys \<Longrightarrow> (\<And>x. x \<in> set xs \<Longrightarrow> P x y \<Longrightarrow> thesis) \<Longrightarrow> thesis"
  by (induction xs ys rule: list_all2_induct) auto

lemma map_option_list_defined: "(\<And>x. x \<in> set xs \<Longrightarrow> f x \<noteq> None) \<Longrightarrow> map_option_list f xs \<noteq> None"
  by (induction xs) (auto split: Option.bind_splits)

text \<open>A line of managers from a root down.\<close>

definition line_path :: "employee list \<Rightarrow> employee list \<Rightarrow> bool" where
  "line_path rows p \<longleftrightarrow> p \<noteq> [] \<and> is_root rows (hd p) \<and> set p \<subseteq> set rows \<and> distinct p \<and>
     successively (\<lambda>a b. em_reporting_to b = Some (em_id a)) p"

lemma line_path_extend:
  assumes "distinct (map em_id rows)" "line_path rows p" "c \<in> set (reports_of rows (em_id (last p)))"
  shows "line_path rows (p @ [c])"
proof -
  from assms(3) have c: "c \<in> set rows" "em_reporting_to c = Some (em_id (last p))" by (simp_all add: reports_of_def)
  have last: "p \<noteq> []" "last p \<in> set rows" using assms(2) by (auto simp: line_path_def)
  have "c \<notin> set p"
  proof
    assume "c \<in> set p"
    then obtain k where k: "k < length p" "p ! k = c" by (auto simp: in_set_conv_nth)
    show False
    proof (cases k)
      case 0
      with k last(1) have "is_root rows c" using assms(2) by (auto simp: line_path_def hd_conv_nth)
      with c(2) last(2) show False by (simp add: is_root_def)
    next
      case (Suc j)
      then have j: "Suc j < length p" "p ! j \<in> set rows" using k assms(2) by (auto simp: line_path_def)
      with assms(2) Suc k have "em_reporting_to c = Some (em_id (p ! j))"
        by (auto simp: line_path_def successively_conv_nth)
      with c(2) have "em_id (last p) = em_id (p ! j)" by simp
      with assms(1) last(2) j(2) have "last p = p ! j" by (auto simp: distinct_map dest: inj_onD)
      with j(1) last(1) assms(2) show False
        by (auto simp: line_path_def last_conv_nth nth_eq_iff_index_eq)
    qed
  qed
  with assms(2) c last show ?thesis by (auto simp: line_path_def successively_append_iff)
qed

lemma build_node_defined:
  assumes "distinct (map em_id rows)" "line_path rows p" "length rows < length p + n"
  shows "build_node n rows (last p) \<noteq> None"
  using assms(2,3)
proof (induction n arbitrary: p)
  case 0
  then have "card (set p) \<le> length rows"
    by (meson List.finite_set card_length card_mono line_path_def order_trans)
  with 0 show ?case by (simp add: line_path_def distinct_card)
next
  case (Suc n)
  have "build_node n rows c \<noteq> None" if "c \<in> set (by_full_name (reports_of rows (em_id (last p))))" for c
    using Suc.IH [OF line_path_extend [OF assms(1) Suc.prems(1), of c]] that Suc.prems(2) by (simp add: by_full_name_def)
  from map_option_list_defined [OF this] show ?case by simp
qed

lemma build_node_members:
  assumes "distinct (map em_id rows)" "build_node n rows e = Some t" "e \<in> set rows"
  shows "set (node_employees t) = {x \<in> set rows. (em_id e, em_id x) \<in> (report_line rows)\<^sup>*}"
  using assms(2,3)
proof (induction n arbitrary: e t)
  case (Suc n)
  from Suc.prems(1) obtain ts where t: "t = Org_node e ts"
    "list_all2 (\<lambda>c y. build_node n rows c = Some y) (by_full_name (reports_of rows (em_id e))) ts"
    by (auto simp: map_option_list_all2)
  have children: "set (by_full_name (reports_of rows (em_id e))) = set (reports_of rows (em_id e))"
    by (simp add: by_full_name_def)
  have member: "set (node_employees y) = {x \<in> set rows. (em_id c, em_id x) \<in> (report_line rows)\<^sup>*}"
    if "build_node n rows c = Some y" "c \<in> set (reports_of rows (em_id e))" for c y
    using Suc.IH [OF that(1)] that(2) by (simp add: reports_of_def)
  have same: "a = b" if "em_id a = em_id b" "a \<in> set rows" "b \<in> set rows" for a b
    using assms(1) that by (auto simp: distinct_map dest: inj_onD)
  have "set (concat (map node_employees ts)) =
      {x \<in> set rows. \<exists>c \<in> set (reports_of rows (em_id e)). (em_id c, em_id x) \<in> (report_line rows)\<^sup>*}"
  proof (rule set_eqI, rule iffI)
    fix x assume "x \<in> set (concat (map node_employees ts))"
    then obtain y where y: "y \<in> set ts" "x \<in> set (node_employees y)" by auto
    from t(2) y(1) obtain c where "c \<in> set (by_full_name (reports_of rows (em_id e)))" "build_node n rows c = Some y"
      by (rule list_all2_right)
    with children have "build_node n rows c = Some y" "c \<in> set (reports_of rows (em_id e))" by simp_all
    with member [of c y] y(2) show "x \<in> {x \<in> set rows. \<exists>c \<in> set (reports_of rows (em_id e)). (em_id c, em_id x) \<in> (report_line rows)\<^sup>*}"
      by blast
  next
    fix x assume "x \<in> {x \<in> set rows. \<exists>c \<in> set (reports_of rows (em_id e)). (em_id c, em_id x) \<in> (report_line rows)\<^sup>*}"
    then obtain c where c: "c \<in> set (reports_of rows (em_id e))" "x \<in> set rows" "(em_id c, em_id x) \<in> (report_line rows)\<^sup>*" by blast
    from c(1) children have "c \<in> set (by_full_name (reports_of rows (em_id e)))" by simp
    with t(2) obtain y where y: "y \<in> set ts" "build_node n rows c = Some y"
      by (rule list_all2_left)
    from member [OF y(2) c(1)] c(2,3) have "x \<in> set (node_employees y)" by simp
    with y(1) show "x \<in> set (concat (map node_employees ts))" by auto
  qed
  moreover have "(em_id e, em_id x) \<in> (report_line rows)\<^sup>* \<longleftrightarrow>
      x = e \<or> (\<exists>c \<in> set (reports_of rows (em_id e)). (em_id c, em_id x) \<in> (report_line rows)\<^sup>*)" if x: "x \<in> set rows" for x
  proof
    assume "(em_id e, em_id x) \<in> (report_line rows)\<^sup>*"
    then show "x = e \<or> (\<exists>c \<in> set (reports_of rows (em_id e)). (em_id c, em_id x) \<in> (report_line rows)\<^sup>*)"
    proof (cases rule: converse_rtranclE)
      case base
      with same [OF _ x Suc.prems(2)] show ?thesis by simp
    next
      case (step y)
      from step(1) obtain c where "c \<in> set (reports_of rows (em_id e))" "em_id c = y"
        unfolding report_line_iff by (elim bexE)
      with step(2) show ?thesis by (intro disjI2 bexI [of _ c]) simp_all
    qed
  next
    assume "x = e \<or> (\<exists>c \<in> set (reports_of rows (em_id e)). (em_id c, em_id x) \<in> (report_line rows)\<^sup>*)"
    then show "(em_id e, em_id x) \<in> (report_line rows)\<^sup>*"
    proof (elim disjE bexE)
      fix c assume c: "c \<in> set (reports_of rows (em_id e))" "(em_id c, em_id x) \<in> (report_line rows)\<^sup>*"
      from c(1) have "(em_id e, em_id c) \<in> report_line rows" unfolding report_line_iff by (intro bexI [of _ c] refl)
      from converse_rtrancl_into_rtrancl [OF this c(2)] show ?thesis .
    qed simp
  qed
  moreover have "set (node_employees t) = insert e (set (concat (map node_employees ts)))" by (simp add: t(1))
  ultimately show ?case using Suc.prems(2) by (simp only:) blast
qed simp

lemma chart_rows_distinct: "distinct (map em_id (od_employees db)) \<Longrightarrow> distinct (map em_id (chart_rows db org b))"
  by (simp add: chart_rows_def employee_objects_def distinct_map_filter)

text \<open>C22: The organisation chart. It is always built: as many levels as employees are enough for any
  reporting lines. It shows exactly the employees with a line of managers down from someone without a
  manager in the chart, so employees on a reporting cycle, and everyone below them, are left out.\<close>

theorem chart_shows_rooted_employees:
  assumes "distinct (map em_id (od_employees db))"
  shows "\<exists>forest. get_org_chart_tree db org include_inactive = Some forest \<and>
    set (concat (map node_employees forest)) =
      {x \<in> set (chart_rows db org include_inactive). \<exists>r. r \<in> set (chart_rows db org include_inactive) \<and>
         is_root (chart_rows db org include_inactive) r \<and>
         (em_id r, em_id x) \<in> (report_line (chart_rows db org include_inactive))\<^sup>*}"
proof -
  let ?rows = "chart_rows db org include_inactive"
  let ?roots = "by_full_name (filter (is_root ?rows) ?rows)"
  note ids = chart_rows_distinct [OF assms, of org include_inactive]
  have roots: "set ?roots = {r \<in> set ?rows. is_root ?rows r}" by (auto simp: by_full_name_def)
  have "build_node (length ?rows) ?rows r \<noteq> None" if "r \<in> set ?roots" for r
    using build_node_defined [OF ids, of "[r]" "length ?rows"] that roots by (simp add: line_path_def)
  then obtain forest where forest: "map_option_list (build_node (length ?rows) ?rows) ?roots = Some forest"
    using map_option_list_defined by (metis not_None_eq)
  then have all: "list_all2 (\<lambda>r t. build_node (length ?rows) ?rows r = Some t) ?roots forest"
    by (simp add: map_option_list_all2)
  have "x \<in> set (concat (map node_employees forest)) \<longleftrightarrow>
      x \<in> set ?rows \<and> (\<exists>r. r \<in> set ?rows \<and> is_root ?rows r \<and> (em_id r, em_id x) \<in> (report_line ?rows)\<^sup>*)" for x
  proof -
    have "x \<in> set (concat (map node_employees forest)) \<longleftrightarrow> (\<exists>t \<in> set forest. x \<in> set (node_employees t))" by auto
    also have "\<dots> \<longleftrightarrow> (\<exists>r \<in> set ?roots. x \<in> set ?rows \<and> (em_id r, em_id x) \<in> (report_line ?rows)\<^sup>*)"
    proof
      assume "\<exists>t \<in> set forest. x \<in> set (node_employees t)"
      then obtain t where t: "t \<in> set forest" "x \<in> set (node_employees t)" by blast
      from all t(1) obtain r where r: "r \<in> set ?roots" "build_node (length ?rows) ?rows r = Some t"
        by (rule list_all2_right)
      from r(1) roots have "r \<in> set ?rows" by simp
      from build_node_members [OF ids r(2) this] t(2) have "x \<in> set ?rows" "(em_id r, em_id x) \<in> (report_line ?rows)\<^sup>*"
        by simp_all
      with r(1) show "\<exists>r \<in> set ?roots. x \<in> set ?rows \<and> (em_id r, em_id x) \<in> (report_line ?rows)\<^sup>*" by (intro bexI conjI)
    next
      assume "\<exists>r \<in> set ?roots. x \<in> set ?rows \<and> (em_id r, em_id x) \<in> (report_line ?rows)\<^sup>*"
      then obtain r where r: "r \<in> set ?roots" "x \<in> set ?rows" "(em_id r, em_id x) \<in> (report_line ?rows)\<^sup>*" by blast
      from all r(1) obtain t where t: "t \<in> set forest" "build_node (length ?rows) ?rows r = Some t"
        by (rule list_all2_left)
      from r(1) roots have "r \<in> set ?rows" by simp
      from build_node_members [OF ids t(2) this] r(2,3) have "x \<in> set (node_employees t)" by simp
      with t(1) show "\<exists>t \<in> set forest. x \<in> set (node_employees t)" by (rule bexI [rotated])
    qed
    also have "\<dots> \<longleftrightarrow> x \<in> set ?rows \<and> (\<exists>r. r \<in> set ?rows \<and> is_root ?rows r \<and> (em_id r, em_id x) \<in> (report_line ?rows)\<^sup>*)"
      using roots by auto
    finally show ?thesis .
  qed
  then have "set (concat (map node_employees forest)) = {x \<in> set ?rows. \<exists>r. r \<in> set ?rows \<and> is_root ?rows r \<and>
      (em_id r, em_id x) \<in> (report_line ?rows)\<^sup>*}"
    by (intro set_eqI) (simp only: mem_Collect_eq)
  moreover have "get_org_chart_tree db org include_inactive = Some forest"
    unfolding get_org_chart_tree_def Let_def by (rule forest)
  ultimately show ?thesis by (intro exI conjI)
qed

theorem chart_shows_rooted_employees_witness:
  "map_option (\<lambda>f. map em_id (concat (map node_employees f))) (get_org_chart_tree circle_db 1 False) = Some [5] \<and>
   (\<exists>forest. get_org_chart_tree circle_db 1 False = Some forest \<and>
    set (concat (map node_employees forest)) =
      {x \<in> set (chart_rows circle_db 1 False). \<exists>r. r \<in> set (chart_rows circle_db 1 False) \<and>
         is_root (chart_rows circle_db 1 False) r \<and>
         (em_id r, em_id x) \<in> (report_line (chart_rows circle_db 1 False))\<^sup>*})"
proof -
  have ids: "distinct (map em_id (od_employees circle_db))" by code_simp
  have "map_option (\<lambda>f. map em_id (concat (map node_employees f))) (get_org_chart_tree circle_db 1 False) = Some [5]"
    by code_simp
  with chart_shows_rooted_employees [OF ids, of 1 False] show ?thesis by (rule conjI [rotated])
qed

end
