(* ===== verification/Spec2Isabelle.thy ===== *)
theory Spec2Isabelle
  imports StatutorySeed ApprovalProperties PayrollItems TimeoffDefaults TimeoffProperties DeskProperties AttendanceRequests
    FilingProperties SettlementProperties ReportingProperties
begin

text \<open>
  This development models the core of Clarisal, a payroll and human-resources service written in
  Python on Django (\<open>src/backend/apps\<close>): the statutory arithmetic of Indian payroll, the approval
  engine, pay runs, expense claims and time off, and how these act on one another.

  \<^bold>\<open>How the program is modelled.\<close> A database table is a list of rows in the order of creation, a
  model class a record, an enumeration a datatype, a foreign key the key (\<open>uid\<close>) of the row it points
  to, a \<open>Decimal\<close> a rational number with the rounding of the \<open>decimal\<close> module written out
  (\<open>Decimal\<close>), a \<open>date\<close> a record of year, month and day (\<open>Dates\<close>). An exception is a value
  \<open>Inl e\<close>. A function that writes takes the state and returns the new one; a transaction that raises
  returns no state, and a function that writes outside a transaction returns the state it reached
  together with its value or error (\<open>HrCommit\<close>). The clock is an argument.

  \<^bold>\<open>Parts and theories.\<close>
  \<^item> \<open>Prelude\<close>, \<open>Decimal\<close>, \<open>Dates\<close>: errors, query sets, Python's strings, decimals and dates.
  \<^item> \<open>PayrollModels\<close>, \<open>OrgModels\<close>, \<open>ApprovalModels\<close>, \<open>ExpenseModels\<close>, \<open>TimeoffModels\<close>: the rows of
    \<open>payroll\<close>, \<open>organisations\<close>/\<open>employees\<close>/\<open>access_control\<close>, \<open>approvals\<close>, \<open>expenses\<close> and \<open>timeoff\<close>
    (\<open>models.py\<close>), with the licence and role queries of \<open>organisations/services.py\<close> and
    \<open>access_control/services.py\<close>.
  \<^item> \<open>Statutory\<close> (\<open>payroll/statutory.py\<close>): income tax with rebate, surcharge, cess, provident fund,
    state insurance, gratuity. \<open>StatutorySeed\<close> (\<open>payroll/statutory_seed.py\<close>): the master rows and
    their idempotent seeding.
  \<^item> \<open>ApprovalRouting\<close>, \<open>Delegation\<close>, \<open>StageApprovers\<close>, \<open>ApprovalEngine\<close>
    (\<open>approvals/services.py\<close>): the workflow of a request, the delegation in force and the loop check,
    the approvers of a stage, and the runs with their actions, reminders and escalations.
    \<open>ApprovalInvariant\<close> and \<open>ApprovalLifecycle\<close> prove the invariant of the engine over its step
    relation, in which the configuration changes between operations but no workflow with runs loses, gains
    or renumbers a stage; \<open>ApprovalExample\<close> holds concrete states; \<open>ApprovalProperties\<close> the properties.
  \<^item> \<open>HrState\<close>: the tables of payroll, expenses and time off as the engine's subjects.
  \<^item> \<open>PayrollRules\<close>, \<open>PayrollCalc\<close>, \<open>PayrollSetup\<close>, \<open>PayRun\<close> (\<open>payroll/services.py\<close>): fiscal years,
    state rules and slab sets; the pay of one employee, step by step; masters, templates and
    assignments; the life of a pay run. \<open>PayExample\<close> holds a concrete run, \<open>PayrollItems\<close> the
    properties of an item.
  \<^item> \<open>ExpenseClaims\<close> (\<open>expenses/services.py\<close>, and the cancelling of a claim in \<open>expenses/views.py\<close>).
  \<^item> \<open>TimeoffPlans\<close>, \<open>TimeoffBalances\<close>, \<open>TimeoffRequests\<close> (\<open>timeoff/services.py\<close>,
    \<open>repositories.py\<close>, \<open>tasks.py\<close>): plans, cycles and calendars; balances and their ledger; leave,
    on-duty, compensatory-off and encashment requests. \<open>TimeoffDefaults\<close> proves the contract the
    upserts share.
  \<^item> \<open>TimeoffCalendar\<close> (\<open>timeoff/services.py\<close>): the month of an employee with its holidays, requests and
    days without pay. \<open>TimeoffProperties\<close>: compensatory off, credits, encashments and the month.
  \<^item> \<open>HrSubjects\<close>: what a decision of the engine does to the row it is about
    (\<open>handle_approval_status_change\<close> in \<open>expenses/models.py\<close> and \<open>timeoff/models.py\<close>).
  \<^item> \<open>Desk\<close>: an abstract specification of pay runs, claims and leave requests under approval, a machine of
    fifteen events with its invariant. \<open>DeskRefinement\<close>, \<open>DeskOperations\<close> and \<open>DeskLeaves\<close> simulate the
    operations of the services by its events; \<open>DeskProperties\<close> has the transition system of the services
    and what follows in every state they reach.

  \<^item> \<open>AttendanceModels\<close>, \<open>AttendanceDays\<close>, \<open>AttendanceSummary\<close>, \<open>AttendanceOps\<close> (\<open>attendance/models.py\<close>,
    \<open>attendance/services.py\<close>): the rows; policies, shifts, windows and the fractions requests account for; the
    summary of a day, its row and the period payroll asks for; punches, overrides and regularizations.
    \<open>AttendanceExample\<close> holds concrete tables; \<open>AttendanceProperties\<close> and \<open>AttendanceRequests\<close> the
    properties. \<open>DayLoop\<close> is the loop over the days of a period.
  \<^item> \<open>FilingFormats\<close>, \<open>FilingExports\<close> (\<open>payroll/filings/__init__.py\<close>, \<open>ecr.py\<close>, \<open>esi.py\<close>,
    \<open>professional_tax.py\<close>): amounts and comma-separated files, with a reader that inverts the writer; the
    returns for provident fund, state insurance and professional tax. \<open>FilingBatches\<close>
    (\<open>payroll/services.py\<close>): the payslips a filing counts, its batch, how a batch supersedes another,
    cancellation and download. \<open>FilingProperties\<close> holds the properties.
  \<^item> \<open>FinalSettlement\<close> (\<open>payroll/services.py\<close>): exemptions, the tax withheld, the totals and the row of a full
    and final settlement; \<open>SettlementProperties\<close>.
  \<^item> \<open>ReportingLines\<close> (\<open>employees/services.py\<close>): the team of a manager, the search for reporting cycles and
    the organisation chart; \<open>ReportingProperties\<close>.

  \<^bold>\<open>Interfaces.\<close> The engine reaches its subjects through the record \<open>subject_ops\<close>, which \<open>hr_ops\<close>
  provides for payroll, expenses and time off and \<open>att_ops\<close> for regularizations; the attendance service is
  a parameter of the pay calculation, which \<open>attendance_of\<close> provides. The locales state the contracts
  several operations share (\<open>defaulted\<close>: at most one default row per key; \<open>life_cycle\<close>: a status that only
  moves along its life cycle) and are interpreted on the tables of the model. What is not code of the
  repository is a component of the environment \<open>att_env\<close>: the time zone database, the network test of
  \<open>ipaddress\<close>, and the floating-point distance to a geo-fence; and of \<open>filing_services\<close>: the digest, the
  JSON of a signature, the object store, and the exporters of Form 24Q and Form 16.

  \<^bold>\<open>Bounds and recursion.\<close> One function has fuel, \<open>build_node\<close> of the organisation chart; the number of
  employees is enough, because a line of managers below a root has no employee twice. The searches for a
  delegation loop and for reporting cycles and the collection of a team end because their visited sets
  grow. The walk over the days of a request (\<open>mark_days\<close>) and the loop over the days of a period
  (\<open>day_loop\<close>) are partial functions, proved to end for valid dates, the walk with an overflow when the
  request ends on the last representable day.

  \<^bold>\<open>Assumed of the workflow editor.\<close> What is proved of runs in every reachable state (\<open>ApprovalProperties\<close>,
  \<open>DeskProperties\<close>) holds as long as changes of configuration keep the stages of workflows that have runs
  (\<open>keeps_stages\<close>). The editor (\<open>_upsert_workflow\<close> of \<open>approvals/views.py\<close>) does not check that: deleting
  the current stage of a pending run deletes its actions (\<open>delete_stages\<close> of \<open>ApprovalLifecycle\<close>) and
  leaves it without anybody who could decide it, and a stage added to a workflow was never approved by the
  runs that ended before. The rest of the editor is not modelled.

  \<^bold>\<open>Not modelled.\<close> Concurrency between requests (each operation is one step on current rows), Python's
  recursion limit (the organisation chart and the search for reporting cycles raise on lines of managers
  deeper than it), the web layer but for the cancelling of a claim, the documents of payslips, Form 12BB, Form 16 and Form 24Q, other exports, e-mail, spreadsheet imports and the protocols
  of biometric devices, employee onboarding and offboarding, recruitment, performance, assets, documents and communications.
\<close>

end
